(* ===== verification/Prelude.thy ===== *)
theory Prelude
  imports Main "HOL-Library.Word"
begin

text \<open>
  Shared vocabulary of the development: results as sums, the bounded integer
  operations of Rust's \<open>i64\<close>, byte classes and string operations of the Rust
  standard library, and the collections of rules the component proofs use.

  A Rust \<open>String\<close> or \<open>&str\<close> is the list of its UTF-8 bytes, a \<open>char list\<close>, so
  that \<open>length\<close> is \<open>str::len\<close>.  A Rust \<open>i64\<close> is an \<open>int\<close>; every operation whose
  overflow behaviour matters is one of the operations below.
\<close>

named_theorems result_simps \<open>inversion of successful and failing results\<close>
named_theorems text_defs \<open>definitions of the byte and text predicates\<close>

subsection \<open>Results\<close>

definition rbind :: "'e + 'a \<Rightarrow> ('a \<Rightarrow> 'e + 'b) \<Rightarrow> 'e + 'b" where
  "rbind r f = (case r of Inl e \<Rightarrow> Inl e | Inr x \<Rightarrow> f x)"

definition ensure :: "'e \<Rightarrow> bool \<Rightarrow> 'e + unit" where
  "ensure e b = (if b then Inr () else Inl e)"

definition ok_or :: "'e \<Rightarrow> 'a option \<Rightarrow> 'e + 'a" where
  "ok_or e x = (case x of None \<Rightarrow> Inl e | Some v \<Rightarrow> Inr v)"

definition map_err :: "'f \<Rightarrow> 'e + 'a \<Rightarrow> 'f + 'a" where
  "map_err f r = (case r of Inl _ \<Rightarrow> Inl f | Inr x \<Rightarrow> Inr x)"

definition result_ok :: "'e + 'a \<Rightarrow> 'a option" where
  "result_ok r = (case r of Inl _ \<Rightarrow> None | Inr x \<Rightarrow> Some x)"

text \<open>\<open>Option::transpose\<close> after mapping a fallible function over an option.\<close>

definition opt_traverse :: "('a \<Rightarrow> 'e + 'b) \<Rightarrow> 'a option \<Rightarrow> 'e + 'b option" where
  "opt_traverse f x = (case x of None \<Rightarrow> Inr None
     | Some a \<Rightarrow> (case f a of Inl e \<Rightarrow> Inl e | Inr b \<Rightarrow> Inr (Some b)))"

text \<open>\<open>Option::is_some_and\<close> and \<open>Option::is_none_or\<close>.\<close>

definition some_and :: "('a \<Rightarrow> bool) \<Rightarrow> 'a option \<Rightarrow> bool" where
  "some_and p x = (case x of None \<Rightarrow> False | Some a \<Rightarrow> p a)"

definition none_or :: "('a \<Rightarrow> bool) \<Rightarrow> 'a option \<Rightarrow> bool" where
  "none_or p x = (case x of None \<Rightarrow> True | Some a \<Rightarrow> p a)"

lemma rbind_simps [simp]:
  "rbind (Inl e) f = Inl e"
  "rbind (Inr x) f = f x"
  by (simp_all add: rbind_def)

lemma rbind_Inr_iff [result_simps]:
  "rbind r f = Inr y \<longleftrightarrow> (\<exists>x. r = Inr x \<and> f x = Inr y)"
  by (cases r) simp_all

lemma rbind_Inl_iff [result_simps]:
  "rbind r f = Inl e \<longleftrightarrow> r = Inl e \<or> (\<exists>x. r = Inr x \<and> f x = Inl e)"
  by (cases r) simp_all

lemma ensure_iff [result_simps]:
  "ensure e b = Inr u \<longleftrightarrow> b"
  "ensure e b = Inl f \<longleftrightarrow> \<not> b \<and> f = e"
  by (auto simp: ensure_def)

lemma ensure_simps [simp]: "ensure e True = Inr ()" "ensure e False = Inl e"
  by (simp_all add: ensure_def)

lemma ok_or_iff [result_simps]:
  "ok_or e x = Inr v \<longleftrightarrow> x = Some v"
  "ok_or e x = Inl f \<longleftrightarrow> x = None \<and> f = e"
  by (auto simp: ok_or_def split: option.splits)

lemma ok_or_simps [simp]: "ok_or e None = Inl e" "ok_or e (Some v) = Inr v"
  by (simp_all add: ok_or_def)

lemma map_err_iff [result_simps]:
  "map_err f r = Inr x \<longleftrightarrow> r = Inr x"
  "map_err f r = Inl g \<longleftrightarrow> g = f \<and> (\<exists>e. r = Inl e)"
  by (auto simp: map_err_def split: sum.splits)

lemma map_err_simps [simp]: "map_err f (Inl e) = Inl f" "map_err f (Inr x) = Inr x"
  by (simp_all add: map_err_def)

lemma result_ok_simps [simp]: "result_ok (Inl e) = None" "result_ok (Inr x) = Some x"
  by (simp_all add: result_ok_def)

lemma opt_traverse_simps [simp]:
  "opt_traverse f None = Inr None"
  "opt_traverse f (Some a) = rbind (f a) (\<lambda>b. Inr (Some b))"
  by (simp_all add: opt_traverse_def rbind_def)

lemma opt_traverse_Inr_iff [result_simps]:
  "opt_traverse f x = Inr y \<longleftrightarrow>
     (case x of None \<Rightarrow> y = None | Some a \<Rightarrow> (\<exists>b. f a = Inr b \<and> y = Some b))"
  by (auto simp: opt_traverse_def split: option.splits sum.splits)

lemma some_and_simps [simp]: "some_and p None = False" "some_and p (Some a) = p a"
  by (simp_all add: some_and_def)

lemma none_or_simps [simp]: "none_or p None = True" "none_or p (Some a) = p a"
  by (simp_all add: none_or_def)

lemma some_and_iff: "some_and p x \<longleftrightarrow> (\<exists>a. x = Some a \<and> p a)"
  by (cases x) simp_all

lemma none_or_iff: "none_or p x \<longleftrightarrow> (\<forall>a. x = Some a \<longrightarrow> p a)"
  by (cases x) simp_all

subsection \<open>Bounded integers\<close>

definition i64_min :: int where "i64_min = -9223372036854775808"
definition i64_max :: int where "i64_max = 9223372036854775807"

definition i64 :: "int \<Rightarrow> bool" where
  "i64 x \<longleftrightarrow> i64_min \<le> x \<and> x \<le> i64_max"

definition checked_i64 :: "int \<Rightarrow> int option" where
  "checked_i64 x = (if i64 x then Some x else None)"

definition checked_add :: "int \<Rightarrow> int \<Rightarrow> int option" where
  "checked_add a b = checked_i64 (a + b)"

definition checked_sub :: "int \<Rightarrow> int \<Rightarrow> int option" where
  "checked_sub a b = checked_i64 (a - b)"

definition saturate :: "int \<Rightarrow> int" where
  "saturate x = max i64_min (min i64_max x)"

definition saturating_add :: "int \<Rightarrow> int \<Rightarrow> int" where
  "saturating_add a b = saturate (a + b)"

definition saturating_sub :: "int \<Rightarrow> int \<Rightarrow> int" where
  "saturating_sub a b = saturate (a - b)"

text \<open>The two's complement value an unchecked \<open>i64\<close> operation yields in a release build.\<close>

definition wrap_i64 :: "int \<Rightarrow> int" where
  "wrap_i64 x = (x - i64_min) mod 2 ^ 64 + i64_min"

definition abs_diff :: "int \<Rightarrow> int \<Rightarrow> nat" where
  "abs_diff a b = nat \<bar>a - b\<bar>"

lemmas i64_defs = i64_def i64_min_def i64_max_def

lemma abs_diff_less_iff: "n < abs_diff a b \<longleftrightarrow> int n < \<bar>a - b\<bar>"
  by (auto simp: abs_diff_def)

lemma checked_i64_iff [result_simps]:
  "checked_i64 x = Some y \<longleftrightarrow> i64 x \<and> y = x"
  "checked_i64 x = None \<longleftrightarrow> \<not> i64 x"
  by (auto simp: checked_i64_def)

lemma checked_add_iff [result_simps]:
  "checked_add a b = Some y \<longleftrightarrow> i64 (a + b) \<and> y = a + b"
  "checked_add a b = None \<longleftrightarrow> \<not> i64 (a + b)"
  by (auto simp: checked_add_def result_simps)

lemma checked_sub_iff [result_simps]:
  "checked_sub a b = Some y \<longleftrightarrow> i64 (a - b) \<and> y = a - b"
  "checked_sub a b = None \<longleftrightarrow> \<not> i64 (a - b)"
  by (auto simp: checked_sub_def result_simps)

lemma saturate_i64 [simp]: "i64 x \<Longrightarrow> saturate x = x"
  by (simp add: saturate_def i64_def)

lemma i64_saturate [simp]: "i64 (saturate x)"
  by (simp add: saturate_def i64_defs)

lemma wrap_i64_id [simp]: "i64 x \<Longrightarrow> wrap_i64 x = x"
  by (simp add: wrap_i64_def i64_defs)

lemma i64_wrap [simp]: "i64 (wrap_i64 x)"
proof -
  have "0 \<le> (x - i64_min) mod 2 ^ 64" "(x - i64_min) mod 2 ^ 64 < 2 ^ 64" by simp_all
  then show ?thesis by (simp add: wrap_i64_def i64_defs)
qed

lemma saturating_add_less_iff:
  "i64 a \<Longrightarrow> i64 b \<Longrightarrow> 0 \<le> c \<Longrightarrow> b \<le> saturating_add a c \<longleftrightarrow> b \<le> a + c"
  by (auto simp: saturating_add_def saturate_def i64_def min_def max_def)

lemma saturating_sub_le_iff:
  "i64 a \<Longrightarrow> i64 b \<Longrightarrow> 0 \<le> c \<Longrightarrow> saturating_sub a c \<le> b \<longleftrightarrow> a - c \<le> b"
  by (auto simp: saturating_sub_def saturate_def i64_def min_def max_def)

subsection \<open>Bytes\<close>

definition byte :: "char \<Rightarrow> nat" where "byte c = of_char c"

definition is_digit :: "char \<Rightarrow> bool" where
  [text_defs]: "is_digit c \<longleftrightarrow> 48 \<le> byte c \<and> byte c \<le> 57"

definition is_lower :: "char \<Rightarrow> bool" where
  [text_defs]: "is_lower c \<longleftrightarrow> 97 \<le> byte c \<and> byte c \<le> 122"

definition is_upper :: "char \<Rightarrow> bool" where
  [text_defs]: "is_upper c \<longleftrightarrow> 65 \<le> byte c \<and> byte c \<le> 90"

definition is_alphanumeric :: "char \<Rightarrow> bool" where
  [text_defs]: "is_alphanumeric c \<longleftrightarrow> is_digit c \<or> is_lower c \<or> is_upper c"

definition is_lower_hex :: "char \<Rightarrow> bool" where
  [text_defs]: "is_lower_hex c \<longleftrightarrow> is_digit c \<or> (97 \<le> byte c \<and> byte c \<le> 102)"

definition is_hexdigit :: "char \<Rightarrow> bool" where
  [text_defs]: "is_hexdigit c \<longleftrightarrow> is_lower_hex c \<or> (65 \<le> byte c \<and> byte c \<le> 70)"

definition is_ascii :: "char \<Rightarrow> bool" where
  [text_defs]: "is_ascii c \<longleftrightarrow> byte c < 128"

definition to_lower :: "char \<Rightarrow> char" where
  "to_lower c = (if is_upper c then char_of (byte c + 32) else c)"

text \<open>
  \<open>char::is_control\<close> over the code points of a UTF-8 string: the C0 controls and DEL are one
  byte, the C1 controls are the byte C2 followed by 80 to 9F.
\<close>

fun has_control :: "string \<Rightarrow> bool" where
  "has_control [] = False"
| "has_control (c # cs) =
     (byte c < 32 \<or> byte c = 127
      \<or> (byte c = 194 \<and> (case cs of [] \<Rightarrow> False | d # _ \<Rightarrow> 128 \<le> byte d \<and> byte d \<le> 159))
      \<or> has_control cs)"

text \<open>\<open>char::is_whitespace\<close>: the UTF-8 encodings of the white space code points.\<close>

fun is_ws :: "nat list \<Rightarrow> bool" where
  "is_ws [a] = ((9 \<le> a \<and> a \<le> 13) \<or> a = 32)"
| "is_ws [a, b] = (a = 194 \<and> (b = 133 \<or> b = 160))"
| "is_ws [a, b, c] =
     ((a = 225 \<and> b = 154 \<and> c = 128)
      \<or> (a = 226 \<and> b = 128 \<and> ((128 \<le> c \<and> c \<le> 138) \<or> c = 168 \<or> c = 169 \<or> c = 175))
      \<or> (a = 226 \<and> b = 129 \<and> c = 159)
      \<or> (a = 227 \<and> b = 128 \<and> c = 128))"
| "is_ws _ = False"

text \<open>The length of the white space code point at the front of a string, or 0; and at its end.\<close>

definition ws_front :: "string \<Rightarrow> nat" where
  "ws_front s = (let b = map byte s in
     if is_ws (take 1 b) then 1 else if is_ws (take 2 b) then 2
     else if is_ws (take 3 b) then 3 else 0)"

definition ws_back :: "string \<Rightarrow> nat" where
  "ws_back s = (let b = map byte (rev s) in
     if is_ws (rev (take 1 b)) then 1 else if is_ws (rev (take 2 b)) then 2
     else if is_ws (rev (take 3 b)) then 3 else 0)"

fun has_whitespace :: "string \<Rightarrow> bool" where
  "has_whitespace [] = False"
| "has_whitespace (c # cs) = (ws_front (c # cs) \<noteq> 0 \<or> has_whitespace cs)"

text \<open>\<open>str::trim\<close>, first at the front and then at the end.\<close>

function trim_start :: "string \<Rightarrow> string" where
  "trim_start s = (if s = [] \<or> ws_front s = 0 then s else trim_start (drop (ws_front s) s))"
  by pat_completeness auto
termination
  by (relation "measure length") auto

function trim_end :: "string \<Rightarrow> string" where
  "trim_end s = (if s = [] \<or> ws_back s = 0 then s
     else trim_end (take (length s - ws_back s) s))"
  by pat_completeness auto
termination
  by (relation "measure length") auto

declare trim_start.simps [simp del] trim_end.simps [simp del]

definition trim :: "string \<Rightarrow> string" where
  "trim s = trim_end (trim_start s)"

lemma trim_start_id: "ws_front s = 0 \<Longrightarrow> trim_start s = s"
  by (subst trim_start.simps) simp

lemma trim_end_id: "ws_back s = 0 \<Longrightarrow> trim_end s = s"
  by (subst trim_end.simps) simp

lemma trim_id: "ws_front s = 0 \<Longrightarrow> ws_back s = 0 \<Longrightarrow> trim s = s"
  by (simp add: trim_def trim_start_id trim_end_id)

text \<open>\<open>trim_matches\<close> with a set of one-byte characters.\<close>

definition trim_matches :: "char set \<Rightarrow> string \<Rightarrow> string" where
  "trim_matches cs s = rev (dropWhile (\<lambda>c. c \<in> cs) (rev (dropWhile (\<lambda>c. c \<in> cs) s)))"

subsection \<open>Strings\<close>

text \<open>\<open>str::split\<close> on a one-byte separator.\<close>

fun split_on :: "char \<Rightarrow> string \<Rightarrow> string list" where
  "split_on c [] = [[]]"
| "split_on c (x # xs) =
     (if x = c then [] # split_on c xs
      else (case split_on c xs of [] \<Rightarrow> [[x]] | p # ps \<Rightarrow> (x # p) # ps))"

text \<open>\<open>str::split_once\<close> on a one-byte separator.\<close>

fun split_once :: "char \<Rightarrow> string \<Rightarrow> (string \<times> string) option" where
  "split_once c [] = None"
| "split_once c (x # xs) =
     (if x = c then Some ([], xs)
      else map_option (\<lambda>(a, b). (x # a, b)) (split_once c xs))"

fun strip_prefix :: "string \<Rightarrow> string \<Rightarrow> string option" where
  "strip_prefix [] s = Some s"
| "strip_prefix (p # ps) [] = None"
| "strip_prefix (p # ps) (x # xs) = (if p = x then strip_prefix ps xs else None)"

definition starts_with :: "string \<Rightarrow> string \<Rightarrow> bool" where
  "starts_with s p \<longleftrightarrow> strip_prefix p s \<noteq> None"

definition strip_suffix :: "string \<Rightarrow> string \<Rightarrow> string option" where
  "strip_suffix p s = map_option rev (strip_prefix (rev p) (rev s))"

definition ends_with :: "string \<Rightarrow> string \<Rightarrow> bool" where
  "ends_with s p \<longleftrightarrow> strip_suffix p s \<noteq> None"

text \<open>\<open>str::contains\<close> with a string pattern.\<close>

fun contains_str :: "string \<Rightarrow> string \<Rightarrow> bool" where
  "contains_str [] p = (p = [])"
| "contains_str (x # xs) p = (starts_with (x # xs) p \<or> contains_str xs p)"

text \<open>The idiom of taking three parts of a split and requiring that there is no fourth.\<close>

definition three_parts :: "char \<Rightarrow> string \<Rightarrow> (string \<times> string \<times> string) option" where
  "three_parts c s = (case split_on c s of [x, y, z] \<Rightarrow> Some (x, y, z) | _ \<Rightarrow> None)"

fun join_with :: "string \<Rightarrow> string list \<Rightarrow> string" where
  "join_with s [] = []"
| "join_with s [p] = p"
| "join_with s (p # q # ps) = p @ s @ join_with s (q # ps)"

lemma split_on_not_Nil [simp]: "split_on c s \<noteq> []"
  by (induction s) (auto split: list.splits)

lemma join_split_on [simp]: "join_with [c] (split_on c s) = s"
proof (induction s)
  case Nil
  show ?case by simp
next
  case (Cons x xs)
  obtain p ps where "split_on c xs = p # ps" by (cases "split_on c xs") auto
  with Cons show ?case by (cases ps) auto
qed

lemma three_parts_iff [result_simps]:
  "three_parts c s = Some (x, y, z) \<longleftrightarrow> split_on c s = [x, y, z]"
  by (auto simp: three_parts_def split: list.splits)

lemma three_parts_eq: "three_parts c s = Some (x, y, z) \<Longrightarrow> s = x @ [c] @ y @ [c] @ z"
  using join_split_on[of c s] by (simp add: three_parts_iff)

lemma split_on_no_sep: "p \<in> set (split_on c s) \<Longrightarrow> c \<notin> set p"
proof (induction s arbitrary: p)
  case Nil
  then show ?case by simp
next
  case (Cons x xs)
  obtain q qs where q: "split_on c xs = q # qs" by (cases "split_on c xs") auto
  then have "\<And>r. r \<in> set (q # qs) \<Longrightarrow> c \<notin> set r" using Cons.IH by simp
  with Cons.prems q show ?case by (auto split: if_splits)
qed

lemma split_on_id: "c \<notin> set s \<Longrightarrow> split_on c s = [s]"
  by (induction s) auto

lemma split_on_append: "c \<notin> set s \<Longrightarrow> split_on c (s @ c # t) = s # split_on c t"
  by (induction s) auto

lemma split_once_Some_iff:
  "split_once c s = Some (a, b) \<longleftrightarrow> s = a @ c # b \<and> c \<notin> set a"
  by (induction s arbitrary: a b) (auto simp: Cons_eq_append_conv)

lemma split_once_None_iff: "split_once c s = None \<longleftrightarrow> c \<notin> set s"
  by (induction s) auto

lemma split_once_append: "c \<notin> set a \<Longrightarrow> split_once c (a @ c # b) = Some (a, b)"
  by (simp add: split_once_Some_iff)

lemma split_once_none: "c \<notin> set a \<Longrightarrow> split_once c a = None"
  by (simp add: split_once_None_iff)

lemma strip_prefix_Some_iff: "strip_prefix p s = Some r \<longleftrightarrow> s = p @ r"
  by (induction p s rule: strip_prefix.induct) auto

lemma strip_prefix_append [simp]: "strip_prefix p (p @ r) = Some r"
  by (simp add: strip_prefix_Some_iff)

lemma starts_with_iff: "starts_with s p \<longleftrightarrow> (\<exists>r. s = p @ r)"
  by (auto simp: starts_with_def strip_prefix_Some_iff)

lemma strip_suffix_Some_iff: "strip_suffix p s = Some r \<longleftrightarrow> s = r @ p"
  by (auto simp: strip_suffix_def strip_prefix_Some_iff) (metis rev_append rev_rev_ident)

lemma ends_with_iff: "ends_with s p \<longleftrightarrow> (\<exists>r. s = r @ p)"
  by (auto simp: ends_with_def strip_suffix_Some_iff)

text \<open>\<open>Path::join\<close> with a relative path.\<close>

definition path_join :: "string \<Rightarrow> string \<Rightarrow> string" where
  "path_join base part =
     (if base = [] \<or> ends_with base ''/'' then base @ part else base @ ''/'' @ part)"

text \<open>\<open>Display\<close> of an unsigned and of a signed integer.\<close>

fun decimal :: "nat \<Rightarrow> string" where
  "decimal n = (if n < 10 then [char_of (48 + n)] else decimal (n div 10) @ [char_of (48 + n mod 10)])"

declare decimal.simps [simp del]

definition decimal_int :: "int \<Rightarrow> string" where
  "decimal_int n = (if n < 0 then CHR ''-'' # decimal (nat (- n)) else decimal (nat n))"

text \<open>The number of characters of a UTF-8 string: the bytes that do not continue a character.\<close>

definition char_count :: "string \<Rightarrow> nat" where
  "char_count s = length (filter (\<lambda>c. \<not> (128 \<le> byte c \<and> byte c \<le> 191)) s)"

subsection \<open>Hexadecimal digests\<close>

text \<open>The code prints a digest with \<open>format!("{b:02x}")\<close> for each byte.\<close>

definition hex_digit :: "nat \<Rightarrow> char" where
  "hex_digit n = (if n < 10 then char_of (48 + n) else char_of (87 + n))"

definition hex_byte :: "char \<Rightarrow> string" where
  "hex_byte b = [hex_digit (byte b div 16), hex_digit (byte b mod 16)]"

definition hexify :: "string \<Rightarrow> string" where
  "hexify bs = concat (map hex_byte bs)"

lemma length_hexify [simp]: "length (hexify bs) = 2 * length bs"
  by (induction bs) (simp_all add: hexify_def hex_byte_def)

lemma byte_lt_256 [simp]: "byte c < 256"
  by (simp add: byte_def of_char_def)

lemma byte_char_of: "n < 256 \<Longrightarrow> byte (char_of n) = n"
  by (simp add: byte_def)

lemma is_lower_hex_hex_digit: "n < 16 \<Longrightarrow> is_lower_hex (hex_digit n)"
  by (auto simp: hex_digit_def text_defs byte_char_of)

lemma list_all_hexify [simp]: "list_all is_lower_hex (hexify bs)"
proof (induction bs)
  case Nil
  show ?case by (simp add: hexify_def)
next
  case (Cons b bs)
  have "byte b div 16 < 16" using byte_lt_256[of b] by linarith
  then show ?case
    using Cons by (simp add: hexify_def hex_byte_def is_lower_hex_hex_digit)
qed

end
