(* ===== verification/Errors.thy ===== *)
theory Errors
  imports Prelude
begin

text \<open>
  The SDK's error type (\<open>lib.rs\<close>), its stable codes, guidance and display text, and the
  classification of denials that prove a stored credential dead (\<open>diagnostics.rs\<close>).
\<close>

datatype error =
    Configuration
  | Cancelled
  | Transient "string option" "string option"  \<comment> \<open>code, request id\<close>
  | Denied string "string option"              \<comment> \<open>code, request id\<close>
  | AppVersionUnsupported "string option"      \<comment> \<open>request id\<close>
  | NotActivated
  | FeatureUnavailable
  | SessionRequired
  | InvalidResponse
  | TransportSecurity
  | ReauthenticationRequired
  | StaleResponse
  | StorageError
  | ClockUncertain
  | InstallationInUse
  | CorruptState
  | PendingActivation
  | Closed

type_synonym 'a result = "error + 'a"

fun is_transient :: "error \<Rightarrow> bool" where
  "is_transient (Transient _ _) = True"
| "is_transient _ = False"

fun is_denied :: "error \<Rightarrow> bool" where
  "is_denied (Denied _ _) = True"
| "is_denied _ = False"

fun is_app_version_unsupported :: "error \<Rightarrow> bool" where
  "is_app_version_unsupported (AppVersionUnsupported _) = True"
| "is_app_version_unsupported _ = False"

definition valid_request_id :: "string \<Rightarrow> bool" where
  "valid_request_id v \<longleftrightarrow>
     1 \<le> length v \<and> length v \<le> 64
     \<and> list_all (\<lambda>c. is_alphanumeric c \<or> c = CHR ''_'' \<or> c = CHR ''-'') v"

definition valid_code :: "string \<Rightarrow> bool" where
  "valid_code v \<longleftrightarrow>
     1 \<le> length v \<and> length v \<le> 128
     \<and> list_all (\<lambda>c. is_lower c \<or> is_digit c \<or> c = CHR ''_'') v"

definition filter_opt :: "('a \<Rightarrow> bool) \<Rightarrow> 'a option \<Rightarrow> 'a option" where
  "filter_opt p x = (case x of None \<Rightarrow> None | Some a \<Rightarrow> if p a then Some a else None)"

lemma filter_opt_simps [simp]:
  "filter_opt p None = None"
  "filter_opt p (Some a) = (if p a then Some a else None)"
  by (simp_all add: filter_opt_def)

lemma filter_opt_Some_iff [result_simps]: "filter_opt p x = Some a \<longleftrightarrow> x = Some a \<and> p a"
  by (cases x) auto

fun err_request_id :: "error \<Rightarrow> string option" where
  "err_request_id (Transient _ r) = filter_opt valid_request_id r"
| "err_request_id (Denied _ r) = filter_opt valid_request_id r"
| "err_request_id (AppVersionUnsupported r) = filter_opt valid_request_id r"
| "err_request_id _ = None"

definition transient :: error where "transient = Transient None None"

fun err_code :: "error \<Rightarrow> string" where
  "err_code (Denied c _) = (if valid_code c then c else ''denied'')"
| "err_code (Transient (Some c) _) = (if valid_code c then c else ''transient'')"
| "err_code (Transient None _) = ''transient''"
| "err_code Configuration = ''configuration''"
| "err_code Cancelled = ''cancelled''"
| "err_code (AppVersionUnsupported _) = ''app_version_unsupported''"
| "err_code NotActivated = ''access_unavailable''"
| "err_code FeatureUnavailable = ''feature_unavailable''"
| "err_code SessionRequired = ''session_required''"
| "err_code InvalidResponse = ''invalid_response''"
| "err_code TransportSecurity = ''transport_security''"
| "err_code ReauthenticationRequired = ''reauthentication_required''"
| "err_code StaleResponse = ''stale_response''"
| "err_code StorageError = ''storage''"
| "err_code ClockUncertain = ''clock_uncertain''"
| "err_code InstallationInUse = ''installation_in_use''"
| "err_code CorruptState = ''corrupt_state''"
| "err_code PendingActivation = ''pending_activation''"
| "err_code Closed = ''closed''"

definition guidance :: "error \<Rightarrow> string option" where
  "guidance e = (let c = err_code e in
     if c \<in> {''invalid_credentials'', ''credential_expired'', ''credential_revoked'',
              ''reauthentication_required''}
     then Some ''Authenticate again with your licence key or customer account.''
     else if c \<in> {''session_expired'', ''session_revoked''}
     then Some ''Sign in again to continue.''
     else if c = ''licence_expired''
     then Some ''Your licence has expired. Contact application support to renew it.''
     else if c = ''offline_file_expired''
     then Some ''Your offline licence file has expired. Request a renewed file from application support.''
     else if c = ''licence_suspended''
     then Some ''Your licence is suspended. Contact application support.''
     else if c = ''licence_revoked''
     then Some ''Your licence was revoked. Contact application support.''
     else if c = ''device_limit_reached''
     then Some ''The device limit is reached. Release an existing device or contact application support.''
     else if c \<in> {''device_mismatch'', ''device_identity_unavailable''}
     then Some ''This device could not be verified. Contact application support.''
     else if c = ''reset_cooldown''
     then Some ''Device changes are temporarily limited. Wait before trying again.''
     else if c = ''application_maintenance''
     then Some ''The application is under maintenance. Try again after maintenance ends.''
     else if c = ''rate_limited''
     then Some ''Too many requests. Wait before trying again.''
     else if c = ''service_unavailable''
     then Some ''Orbit is temporarily unavailable. Try again later.''
     else None)"

definition discarding_codes :: "string set" where
  "discarding_codes =
     {''invalid_credentials'', ''authentication_required'', ''reauthentication_required'',
      ''credential_expired'', ''credential_revoked'', ''licence_revoked'', ''licence_claimed'',
      ''device_mismatch''}"

definition discards_credential :: "error \<Rightarrow> bool" where
  "discards_credential e \<longleftrightarrow> is_denied e \<and> err_code e \<in> discarding_codes"

definition or_else :: "'a option \<Rightarrow> 'a \<Rightarrow> 'a" where
  "or_else x d = (case x of None \<Rightarrow> d | Some v \<Rightarrow> v)"

lemma or_else_simps [simp]: "or_else None d = d" "or_else (Some v) d = v"
  by (simp_all add: or_else_def)

fun display_error :: "error \<Rightarrow> string" where
  "display_error Configuration = ''Invalid Orbit configuration''"
| "display_error Cancelled = ''Operation cancelled''"
| "display_error (Transient c r) =
     or_else (guidance (Transient c r)) ''Orbit is temporarily unreachable. Try again later.''"
| "display_error (Denied c r) =
     or_else (guidance (Denied c r)) ''Orbit denied access. Contact application support.''"
| "display_error (AppVersionUnsupported _) =
     ''This application version is no longer supported. Update the application to continue.''"
| "display_error NotActivated = ''Activate a licence to continue.''"
| "display_error FeatureUnavailable = ''This licence does not include the requested feature.''"
| "display_error SessionRequired = ''Start a floating session before continuing.''"
| "display_error InvalidResponse = ''Orbit response verification failed''"
| "display_error TransportSecurity = ''Secure connection failed''"
| "display_error ReauthenticationRequired = ''Fresh licence authentication is required''"
| "display_error StaleResponse = ''Discarded a superseded response''"
| "display_error StorageError = ''Credential storage failed''"
| "display_error ClockUncertain = ''Online clock validation is required''"
| "display_error InstallationInUse =
     ''This installation is already open; share one client and do not delete its lock''"
| "display_error CorruptState =
     ''Installed state is missing or corrupt; restore a trusted backup or deliberately choose a new state directory''"
| "display_error PendingActivation =
     ''An activation is unresolved; retry the same input within 24 hours or explicitly resolve it''"
| "display_error Closed = ''The Orbit client is closed''"

definition debug_error :: "error \<Rightarrow> string" where
  "debug_error e =
     display_error e @ '' (code: '' @ err_code e
     @ (case err_request_id e of None \<Rightarrow> [] | Some r \<Rightarrow> '', request ID: '' @ r) @ '')''"

subsection \<open>Facts about codes\<close>

lemma valid_code_literals:
  "valid_code ''denied''" "valid_code ''transient''" "valid_code ''configuration''"
  "valid_code ''cancelled''" "valid_code ''app_version_unsupported''"
  "valid_code ''access_unavailable''" "valid_code ''feature_unavailable''"
  "valid_code ''session_required''" "valid_code ''invalid_response''"
  "valid_code ''transport_security''" "valid_code ''reauthentication_required''"
  "valid_code ''stale_response''" "valid_code ''storage''" "valid_code ''clock_uncertain''"
  "valid_code ''installation_in_use''" "valid_code ''corrupt_state''"
  "valid_code ''pending_activation''" "valid_code ''closed''"
  by (simp_all add: valid_code_def text_defs byte_def)

lemma err_code_valid: "valid_code (err_code e)"
  by (cases e rule: err_code.cases) (simp_all add: valid_code_literals)

lemma err_request_id_valid: "err_request_id e = Some r \<Longrightarrow> valid_request_id r"
  by (cases e rule: err_request_id.cases) (auto simp: result_simps)

lemma valid_code_no_control: "valid_code v \<Longrightarrow> \<not> has_control v"
proof -
  have "list_all (\<lambda>c. is_lower c \<or> is_digit c \<or> c = CHR ''_'') v \<Longrightarrow> \<not> has_control v" for v
    by (induction v) (auto simp: text_defs byte_def)
  then show "valid_code v \<Longrightarrow> \<not> has_control v" by (simp add: valid_code_def)
qed

lemma discards_credential_denied: "discards_credential e \<Longrightarrow> is_denied e"
  by (simp add: discards_credential_def)

lemma is_denied_iff: "is_denied e \<longleftrightarrow> (\<exists>c r. e = Denied c r)"
  by (cases e) auto

lemma is_transient_iff: "is_transient e \<longleftrightarrow> (\<exists>c r. e = Transient c r)"
  by (cases e) auto

end
