(* ===== verification/Json.thy ===== *)
theory Json
  imports Errors
begin

text \<open>
  JSON documents as the SDK sees them: the \<open>serde_json::Value\<close> constructors its code matches
  on, the accessors it calls, and the duplicate-rejecting visitor \<open>UniqueJson\<close> of
  \<open>sessions.rs\<close>.  A parsed document keeps every member of an object in order, duplicates
  included, as the deserialiser hands them to a visitor.
\<close>

datatype json =
    JNull
  | JBool bool
  | JInt int             \<comment> \<open>a number that fits \<open>u64\<close> or \<open>i64\<close>\<close>
  | JFloat string        \<comment> \<open>any other finite number, by its text\<close>
  | JStr string
  | JArr "json list"
  | JObj "(string \<times> json) list"

fun as_str :: "json \<Rightarrow> string option" where
  "as_str (JStr s) = Some s"
| "as_str _ = None"

fun as_u64 :: "json \<Rightarrow> nat option" where
  "as_u64 (JInt i) = (if 0 \<le> i \<and> i < 2 ^ 64 then Some (nat i) else None)"
| "as_u64 _ = None"

fun as_i64 :: "json \<Rightarrow> int option" where
  "as_i64 (JInt i) = (if i64 i then Some i else None)"
| "as_i64 _ = None"

fun as_array :: "json \<Rightarrow> json list option" where
  "as_array (JArr xs) = Some xs"
| "as_array _ = None"

fun as_object :: "json \<Rightarrow> (string \<times> json) list option" where
  "as_object (JObj m) = Some m"
| "as_object _ = None"

definition contains_key :: "(string \<times> json) list \<Rightarrow> string \<Rightarrow> bool" where
  "contains_key m k \<longleftrightarrow> map_of m k \<noteq> None"

text \<open>\<open>Value::get\<close> with a string index.\<close>

definition json_get :: "json \<Rightarrow> string \<Rightarrow> json option" where
  "json_get v k = (case as_object v of None \<Rightarrow> None | Some m \<Rightarrow> map_of m k)"

text \<open>\<open>value[k]\<close>: null where the member is missing.\<close>

definition json_index :: "json \<Rightarrow> string \<Rightarrow> json" where
  "json_index v k = or_else (json_get v k) JNull"

text \<open>\<open>value[k] = x\<close> on an object: replace the member or add it.\<close>

fun obj_insert :: "string \<Rightarrow> json \<Rightarrow> (string \<times> json) list \<Rightarrow> (string \<times> json) list" where
  "obj_insert k v [] = [(k, v)]"
| "obj_insert k v ((k', v') # m) =
     (if k = k' then (k, v) # m else (k', v') # obj_insert k v m)"

fun json_set :: "json \<Rightarrow> string \<Rightarrow> json \<Rightarrow> json" where
  "json_set (JObj m) k v = JObj (obj_insert k v m)"
| "json_set JNull k v = JObj [(k, v)]"
| "json_set j k v = j"

definition json_opt :: "string option \<Rightarrow> json" where
  "json_opt x = (case x of None \<Rightarrow> JNull | Some s \<Rightarrow> JStr s)"

lemma map_of_obj_insert [simp]: "map_of (obj_insert k v m) = (map_of m)(k \<mapsto> v)"
  by (induction k v m rule: obj_insert.induct) (auto simp: fun_eq_iff)

lemma contains_key_iff: "contains_key m k \<longleftrightarrow> k \<in> fst ` set m"
  by (simp add: contains_key_def map_of_eq_None_iff)

lemma as_str_Some_iff [result_simps]: "as_str v = Some s \<longleftrightarrow> v = JStr s"
  by (cases v) auto

lemma as_object_Some_iff [result_simps]: "as_object v = Some m \<longleftrightarrow> v = JObj m"
  by (cases v) auto

lemma as_array_Some_iff [result_simps]: "as_array v = Some m \<longleftrightarrow> v = JArr m"
  by (cases v) auto

subsection \<open>Plain values keep the last of two equal keys\<close>

fun collapse :: "json \<Rightarrow> json"
  and collapse_list :: "json list \<Rightarrow> json list"
  and collapse_entries :: "(string \<times> json) list \<Rightarrow> (string \<times> json) list \<Rightarrow> (string \<times> json) list"
  where
  "collapse (JArr xs) = JArr (collapse_list xs)"
| "collapse (JObj m) = JObj (collapse_entries [] m)"
| "collapse j = j"
| "collapse_list [] = []"
| "collapse_list (x # xs) = collapse x # collapse_list xs"
| "collapse_entries acc [] = acc"
| "collapse_entries acc ((k, v) # m) = collapse_entries (obj_insert k (collapse v) acc) m"

subsection \<open>The duplicate-rejecting visitor\<close>

text \<open>\<open>UniqueJsonVisitor\<close>: \<open>visit_seq\<close> and \<open>visit_map\<close> are its two loops.\<close>

fun unique_json :: "json \<Rightarrow> json option"
  and visit_seq :: "json list \<Rightarrow> json list \<Rightarrow> json list option"
  and visit_map :: "(string \<times> json) list \<Rightarrow> (string \<times> json) list \<Rightarrow> (string \<times> json) list option"
  where
  "unique_json (JArr xs) = map_option JArr (visit_seq [] xs)"
| "unique_json (JObj m) = map_option JObj (visit_map [] m)"
| "unique_json j = Some j"
| "visit_seq acc [] = Some acc"
| "visit_seq acc (x # xs) =
     (case unique_json x of None \<Rightarrow> None | Some v \<Rightarrow> visit_seq (acc @ [v]) xs)"
| "visit_map acc [] = Some acc"
| "visit_map acc ((k, v) # m) =
     (if contains_key acc k then None
      else case unique_json v of None \<Rightarrow> None
        | Some v' \<Rightarrow> visit_map (acc @ [(k, v')]) m)"

text \<open>What it promises: no object of the document, at any depth, repeats a key.\<close>

fun no_duplicates :: "json \<Rightarrow> bool"
  and no_duplicates_list :: "json list \<Rightarrow> bool"
  and no_duplicates_entries :: "(string \<times> json) list \<Rightarrow> bool"
  where
  "no_duplicates (JArr xs) = no_duplicates_list xs"
| "no_duplicates (JObj m) = (distinct (map fst m) \<and> no_duplicates_entries m)"
| "no_duplicates j = True"
| "no_duplicates_list [] = True"
| "no_duplicates_list (x # xs) = (no_duplicates x \<and> no_duplicates_list xs)"
| "no_duplicates_entries [] = True"
| "no_duplicates_entries ((k, v) # m) = (no_duplicates v \<and> no_duplicates_entries m)"

lemma unique_json_spec:
  "unique_json j = (if no_duplicates j then Some j else None)"
  "visit_seq as xs = (if no_duplicates_list xs then Some (as @ xs) else None)"
  "distinct (map fst ms) \<Longrightarrow>
     visit_map ms m = (if distinct (map fst (ms @ m)) \<and> no_duplicates_entries m
       then Some (ms @ m) else None)"
proof (induction j and as xs and ms m rule: unique_json_visit_seq_visit_map.induct, goal_cases)
  case (11 acc k v m)
  show ?case
  proof (cases "k \<in> fst ` set acc \<or> \<not> no_duplicates v")
    case True
    with 11(1) show ?thesis by (auto simp: contains_key_iff)
  next
    case False
    then have d: "distinct (map fst (acc @ [(k, v)]))" using 11(3) by auto
    show ?thesis using False 11(1) 11(2)[of v] d by (auto simp: contains_key_iff)
  qed
qed (auto split: option.splits)

lemma obj_insert_fresh: "k \<notin> fst ` set m \<Longrightarrow> obj_insert k v m = m @ [(k, v)]"
  by (induction m) auto

lemma collapse_id:
  "no_duplicates j \<Longrightarrow> collapse j = j"
  "no_duplicates_list xs \<Longrightarrow> collapse_list xs = xs"
  "distinct (map fst (ms @ m)) \<Longrightarrow> no_duplicates_entries m \<Longrightarrow>
     collapse_entries ms m = ms @ m"
proof (induction j and xs and ms m rule: collapse_collapse_list_collapse_entries.induct)
qed (auto simp: obj_insert_fresh)

lemmas unique_json_iff = unique_json_spec(1)

end
