(* ===== verification/External.thy ===== *)
theory External
  imports Json
begin

text \<open>
  The third-party functions the SDK calls, as one record of parameters: base64url,
  SHA-256, JSON and RFC 3339 parsing, URL parsing.  No theorem assumes more of them than
  its statement says.
\<close>

record url =
  url_scheme :: string
  url_host :: "string option"
  url_username :: string
  url_password :: "string option"
  url_path :: string
  url_query :: "string option"
  url_pairs :: "(string \<times> string) list"   \<comment> \<open>\<open>query_pairs()\<close>, decoded\<close>
  url_fragment :: "string option"
  url_origin :: string           \<comment> \<open>\<open>origin().ascii_serialization()\<close>\<close>

record external =
  b64_decode :: "string \<Rightarrow> string option"   \<comment> \<open>\<open>URL_SAFE_NO_PAD.decode\<close>\<close>
  b64_encode :: "string \<Rightarrow> string"
  sha256 :: "string \<Rightarrow> string"              \<comment> \<open>the 32 digest bytes\<close>
  parse_json :: "string \<Rightarrow> json option"     \<comment> \<open>the document, members in order\<close>
  rfc3339 :: "string \<Rightarrow> (int \<times> nat \<times> bool) option"
     \<comment> \<open>Unix seconds, nanoseconds, whether the offset is UTC\<close>
  utf8 :: "string \<Rightarrow> bool"                  \<comment> \<open>whether the bytes are valid UTF-8\<close>
  url_parse :: "string \<Rightarrow> url option"
  url_join :: "url \<Rightarrow> string \<Rightarrow> url option"

text \<open>\<open>canonical\<close> (the same function in \<open>grants.rs\<close>, \<open>sessions.rs\<close>, \<open>offline.rs\<close>, \<open>downloads.rs\<close>):
  only the encoder's own spelling of the bytes is accepted.\<close>

definition canonical :: "('x) external_scheme \<Rightarrow> string \<Rightarrow> string result" where
  "canonical X v =
     rbind (ok_or InvalidResponse (b64_decode X v)) (\<lambda>bytes.
     rbind (ensure InvalidResponse (b64_encode X bytes = v)) (\<lambda>_. Inr bytes))"

lemma canonical_Inr_iff [result_simps]:
  "canonical X v = Inr b \<longleftrightarrow> b64_decode X v = Some b \<and> b64_encode X b = v"
  by (auto simp: canonical_def rbind_Inr_iff ok_or_iff ensure_iff)

lemma canonical_err: "canonical X v = Inl e \<Longrightarrow> e = InvalidResponse"
  by (auto simp: canonical_def rbind_Inl_iff ok_or_iff ensure_iff)

lemma canonical_inj:
  "canonical X v = Inr b \<Longrightarrow> canonical X v' = Inr b \<Longrightarrow> v = v'"
  by (auto simp: canonical_Inr_iff)

definition digest :: "('x) external_scheme \<Rightarrow> string \<Rightarrow> string" where
  "digest X bytes = hexify (sha256 X bytes)"

text \<open>\<open>serde_json::from_slice::<Value>\<close> and \<open>::<UniqueJson>\<close>.\<close>

definition from_slice_value :: "('x) external_scheme \<Rightarrow> string \<Rightarrow> json option" where
  "from_slice_value X b = map_option collapse (parse_json X b)"

definition from_slice_unique :: "('x) external_scheme \<Rightarrow> string \<Rightarrow> json option" where
  "from_slice_unique X b = Option.bind (parse_json X b) unique_json"

lemma from_slice_unique_value:
  "from_slice_unique X b = Some v \<Longrightarrow> from_slice_value X b = Some v \<and> no_duplicates v"
  by (auto simp: from_slice_unique_def from_slice_value_def unique_json_iff collapse_id
      bind_eq_Some_conv split: if_splits)

text \<open>\<open>timestamp\<close> of \<open>access.rs\<close>.\<close>

definition timestamp :: "('x) external_scheme \<Rightarrow> string \<Rightarrow> int result" where
  "timestamp X v =
     rbind (ok_or InvalidResponse (rfc3339 X v)) (\<lambda>(secs, nanos, utc).
     rbind (ensure InvalidResponse (nanos = 0)) (\<lambda>_. Inr secs))"

lemma timestamp_Inr_iff [result_simps]:
  "timestamp X v = Inr s \<longleftrightarrow> (\<exists>u. rfc3339 X v = Some (s, 0, u))"
  by (auto simp: timestamp_def rbind_Inr_iff ok_or_iff ensure_iff split: prod.splits)

end
