(* ===== verification/Identity.thy ===== *)
theory Identity
  imports External
begin

text \<open>
  Who a client is: the validators of \<open>access.rs\<close>, the configuration, device and stored
  credential records, machine fingerprints (\<open>device.rs\<close>) and the resolution of a machine
  binding (\<open>installed.rs\<close>).
\<close>

definition opaque :: "string \<Rightarrow> bool" where
  "opaque v \<longleftrightarrow>
     1 \<le> length v \<and> length v \<le> 128
     \<and> list_all (\<lambda>c. is_alphanumeric c \<or> c = CHR ''_'' \<or> c = CHR ''-'') v"

definition valid_operation_id :: "string \<Rightarrow> bool" where
  "valid_operation_id v \<longleftrightarrow> 16 \<le> length v \<and> length v \<le> 128 \<and> \<not> has_control v"

definition bearer :: "string \<Rightarrow> bool" where
  "bearer v \<longleftrightarrow> length v = 43 \<and> opaque v"

definition valid_provider :: "string \<Rightarrow> bool" where
  "valid_provider v \<longleftrightarrow>
     v = ''machine_v1''
     \<or> some_and (\<lambda>suffix. 1 \<le> length suffix \<and> length suffix \<le> 48
          \<and> list_all (\<lambda>c. is_lower c \<or> is_digit c \<or> c \<in> {CHR ''_'', CHR ''-'', CHR ''.''}) suffix)
        (strip_prefix ''custom:'' v)"

definition lower_hex :: "string \<Rightarrow> nat \<Rightarrow> bool" where
  "lower_hex v n \<longleftrightarrow> length v = n \<and> list_all is_lower_hex v"

definition valid_fingerprint :: "string \<Rightarrow> bool" where
  "valid_fingerprint v \<longleftrightarrow> length v = 64 \<and> list_all is_lower_hex v"

record config =
  cfg_application_id :: string
  cfg_environment_id :: string
  cfg_issuer :: string

record device =
  installation_id :: string
  fingerprint :: "string option"
  fingerprint_provider :: "string option"

record stored_credential =
  sc_application_id :: string
  sc_environment_id :: string
  sc_activation_id :: string
  sc_licence_id :: string
  sc_installation_id :: string
  sc_credential :: string
  sc_credential_expires_at :: "int option"
  sc_fingerprint :: "string option"
  sc_fingerprint_provider :: "string option"

text \<open>\<open>Device::new_installation\<close>: the bytes come from the system's generator, or it fails.\<close>

definition new_installation :: "('x) external_scheme \<Rightarrow> string option \<Rightarrow> device result" where
  "new_installation X random =
     rbind (ok_or Configuration random) (\<lambda>bytes.
       Inr \<lparr>installation_id = b64_encode X bytes, fingerprint = None,
            fingerprint_provider = None\<rparr>)"

definition valid_configuration :: "config \<Rightarrow> device \<Rightarrow> bool" where
  "valid_configuration cfg dev \<longleftrightarrow>
     opaque (cfg_application_id cfg)
     \<and> opaque (cfg_environment_id cfg)
     \<and> cfg_issuer cfg \<noteq> []
     \<and> opaque (installation_id dev)
     \<and> 16 \<le> length (installation_id dev)
     \<and> (fingerprint dev \<noteq> None) = (fingerprint_provider dev \<noteq> None)
     \<and> none_or valid_provider (fingerprint_provider dev)
     \<and> none_or (\<lambda>f. length f = 64 \<and> list_all is_lower_hex f) (fingerprint dev)"

definition valid_stored_credential :: "stored_credential \<Rightarrow> config \<Rightarrow> device \<Rightarrow> bool" where
  "valid_stored_credential s cfg dev \<longleftrightarrow>
     sc_application_id s = cfg_application_id cfg
     \<and> sc_environment_id s = cfg_environment_id cfg
     \<and> sc_installation_id s = installation_id dev
     \<and> sc_fingerprint s = fingerprint dev
     \<and> sc_fingerprint_provider s = fingerprint_provider dev
     \<and> opaque (sc_activation_id s)
     \<and> opaque (sc_licence_id s)
     \<and> bearer (sc_credential s)"

definition valid_stored_credential_identity ::
    "stored_credential \<Rightarrow> config \<Rightarrow> device \<Rightarrow> bool" where
  "valid_stored_credential_identity s cfg dev \<longleftrightarrow>
     sc_application_id s = cfg_application_id cfg
     \<and> sc_environment_id s = cfg_environment_id cfg
     \<and> sc_installation_id s = installation_id dev
     \<and> opaque (sc_activation_id s)
     \<and> opaque (sc_licence_id s)
     \<and> bearer (sc_credential s)"

subsection \<open>Machine fingerprints\<close>

definition unavailable :: error where
  "unavailable = Denied ''device_identity_unavailable'' None"

definition check_scope :: "string \<Rightarrow> string \<Rightarrow> unit result" where
  "check_scope app envt = ensure Configuration (opaque app \<and> opaque envt)"

definition normalize_machine_id :: "string \<Rightarrow> string" where
  "normalize_machine_id m =
     map to_lower (filter (\<lambda>c. c \<noteq> CHR ''-'')
       (trim_matches {CHR '' '', CHR 0x09, CHR 0x0A, CHR 0x0D, CHR 0x0B, CHR 0x0C} m))"

definition machine_fingerprint ::
    "('x) external_scheme \<Rightarrow> string \<Rightarrow> string \<Rightarrow> string \<Rightarrow> string \<Rightarrow> string result" where
  "machine_fingerprint X app envt os machine_id =
     rbind (check_scope app envt) (\<lambda>_.
     rbind (ensure Configuration (os \<in> {''linux'', ''windows'', ''macos''})) (\<lambda>_.
     let normalized = normalize_machine_id machine_id in
     rbind (ensure unavailable (\<not> (length normalized \<noteq> 32
         \<or> \<not> list_all is_hexdigit normalized
         \<or> list_all (\<lambda>c. c = CHR ''0'') normalized
         \<or> list_all (\<lambda>c. c = CHR ''f'') normalized))) (\<lambda>_.
       Inr (digest X (''orbit-machine-v1'' @ [CHR 0x0A] @ app @ [CHR 0x0A] @ envt
          @ [CHR 0x0A] @ os @ [CHR 0x0A] @ normalized)))))"

text \<open>\<open>read_machine_id\<close> reads at most 257 bytes and refuses more than 256; \<open>None\<close> is a read error.\<close>

definition read_machine_id :: "('x) external_scheme \<Rightarrow> string option \<Rightarrow> string result" where
  "read_machine_id X content =
     rbind (ok_or unavailable content) (\<lambda>bytes.
     rbind (ensure unavailable (\<not> length (take 257 bytes) > 256)) (\<lambda>_.
     rbind (ensure unavailable (utf8 X (take 257 bytes))) (\<lambda>_. Inr (take 257 bytes))))"

text \<open>The native identity on Linux: the file \<open>/etc/machine-id\<close>.\<close>

definition native_fingerprint ::
    "('x) external_scheme \<Rightarrow> string option \<Rightarrow> string \<Rightarrow> string \<Rightarrow> string result" where
  "native_fingerprint X machine_id_file app envt =
     rbind (check_scope app envt) (\<lambda>_.
     rbind (read_machine_id X machine_id_file) (\<lambda>identity.
       machine_fingerprint X app envt ''linux'' identity))"

datatype machine_binding = Automatic | Disabled | Custom string string

definition resolve_binding_with ::
    "machine_binding \<Rightarrow> string result \<Rightarrow> (string option \<times> string option) result" where
  "resolve_binding_with binding native =
     (case binding of
        Automatic \<Rightarrow>
          (case native of
             Inr f \<Rightarrow> Inr (Some f, Some ''machine_v1'')
           | Inl (Denied code r) \<Rightarrow>
               if code = ''device_identity_unavailable'' then Inr (None, None)
               else Inl (Denied code r)
           | Inl e \<Rightarrow> Inl e)
      | Disabled \<Rightarrow> Inr (None, None)
      | Custom f p \<Rightarrow>
          if \<not> valid_fingerprint f \<or> \<not> starts_with p ''custom:'' \<or> \<not> valid_provider p
          then Inl Configuration
          else Inr (Some f, Some p))"

subsection \<open>Facts\<close>

lemma opaque_no_dot: "opaque v \<Longrightarrow> CHR ''.'' \<notin> set v"
  by (auto simp: opaque_def text_defs byte_def list_all_iff)

lemma opaque_no_control: "opaque v \<Longrightarrow> \<not> has_control v"
proof -
  have "list_all (\<lambda>c. is_alphanumeric c \<or> c = CHR ''_'' \<or> c = CHR ''-'') v \<Longrightarrow> \<not> has_control v" for v
    by (induction v) (auto simp: text_defs byte_def)
  then show "opaque v \<Longrightarrow> \<not> has_control v" by (simp add: opaque_def)
qed

lemma opaque_operation_id: "opaque v \<Longrightarrow> 16 \<le> length v \<Longrightarrow> valid_operation_id v"
  by (auto simp: valid_operation_id_def opaque_no_control) (simp add: opaque_def)

lemma valid_credential_identity:
  "valid_stored_credential s cfg dev \<Longrightarrow> valid_stored_credential_identity s cfg dev"
  by (simp add: valid_stored_credential_def valid_stored_credential_identity_def)

lemma check_scope_iff [result_simps]:
  "check_scope a e = Inr u \<longleftrightarrow> opaque a \<and> opaque e"
  by (simp add: check_scope_def ensure_iff)

lemma machine_fingerprint_valid:
  assumes "machine_fingerprint X app envt os m = Inr f"
    and "\<And>s. length (sha256 X s) = 32"
  shows "valid_fingerprint f"
  using assms
  by (auto simp: machine_fingerprint_def Let_def result_simps digest_def valid_fingerprint_def)

lemma resolve_binding_paired:
  "resolve_binding_with b native = Inr (f, p) \<Longrightarrow> (f \<noteq> None) = (p \<noteq> None)"
  by (auto simp: resolve_binding_with_def split: machine_binding.splits sum.splits error.splits if_splits)

end
