(* ===== verification/Storage.thy ===== *)
theory Storage
  imports Identity
begin

text \<open>
  The storage contract of the client (\<open>storage.rs\<close>): a version that every invalidation
  advances and saves that are refused for any other version.  \<open>MemoryStorage\<close> is the
  reference implementation; \<open>Installed\<close> provides the durable one.
\<close>

subsection \<open>The contract\<close>

text \<open>An operation takes what its system calls return (\<open>'i\<close>) and the storage state.  A storage may
  forget its credential when something fails.\<close>

locale fenced_storage =
  fixes version_of :: "'i \<Rightarrow> 's \<Rightarrow> 's \<times> nat result"
    and load :: "'i \<Rightarrow> 's \<Rightarrow> 's \<times> (nat \<times> stored_credential option) result"
    and save :: "'i \<Rightarrow> nat \<Rightarrow> stored_credential \<Rightarrow> 's \<Rightarrow> 's \<times> unit result"
    and invalidate :: "'i \<Rightarrow> 's \<Rightarrow> 's \<times> nat result"
    and ver :: "'s \<Rightarrow> nat"
    and cred :: "'s \<Rightarrow> stored_credential option"
  assumes version_frame: "version_of i s = (s', r) \<Longrightarrow> ver s' = ver s \<and> cred s' \<in> {cred s, None}"
    and version_value: "version_of i s = (s', Inr v) \<Longrightarrow> v = ver s"
    and load_frame: "load i s = (s', lr) \<Longrightarrow> ver s' = ver s \<and> cred s' \<in> {cred s, None}"
    and load_value: "load i s = (s', Inr (v, lc)) \<Longrightarrow> v = ver s \<and> lc = cred s"
    and save_version: "save i v c s = (s', sr) \<Longrightarrow> ver s' = ver s"
    and save_failed: "save i v c s = (s', Inl e) \<Longrightarrow> cred s' \<in> {cred s, None}"
    and save_done: "save i v c s = (s', Inr u) \<Longrightarrow>
      v = ver s \<and> (\<exists>c'. cred s' = Some c' \<and> sc_credential c' = sc_credential c
        \<and> sc_activation_id c' = sc_activation_id c)"
    and invalidate_failed: "invalidate i s = (s', Inl e) \<Longrightarrow> ver s' = ver s \<and> cred s' \<in> {cred s, None}"
    and invalidate_done: "invalidate i s = (s', Inr v) \<Longrightarrow> ver s < ver s' \<and> v = ver s' \<and> cred s' = None"
begin

text \<open>Any interleaving of the operations, as the steps of the users of one storage.\<close>

inductive storage_steps :: "'s \<Rightarrow> 's \<Rightarrow> bool" where
  none: "storage_steps s s"
| version_step: "storage_steps s t \<Longrightarrow> version_of i t = (u, r) \<Longrightarrow> storage_steps s u"
| load_step: "storage_steps s t \<Longrightarrow> load i t = (u, lr) \<Longrightarrow> storage_steps s u"
| save_step: "storage_steps s t \<Longrightarrow> save i v c t = (u, sr) \<Longrightarrow> storage_steps s u"
| invalidate_step: "storage_steps s t \<Longrightarrow> invalidate i t = (u, r) \<Longrightarrow> storage_steps s u"

lemma invalidate_mono: "invalidate i s = (s', r) \<Longrightarrow> ver s \<le> ver s'"
  using invalidate_failed invalidate_done by (cases r) (fastforce intro: less_imp_le)+

lemma steps_version_mono: "storage_steps s t \<Longrightarrow> ver s \<le> ver t"
proof (induction rule: storage_steps.induct)
  case (version_step s t i u r)
  then show ?case using version_frame by metis
next
  case (load_step s t i u lr)
  then show ?case using load_frame by metis
next
  case (save_step s t i v c u sr)
  then show ?case using save_version by metis
next
  case (invalidate_step s t i u r)
  then show ?case using invalidate_mono order_trans by blast
qed simp

text \<open>A save that began before an invalidation never takes effect after it.\<close>

lemma late_save_refused:
  assumes "load i s = (s1, Inr (v, c))"
    and "storage_steps s1 s2" "invalidate j s2 = (s3, Inr w)" "storage_steps s3 s4"
    and "save k v c' s4 = (s5, r)"
  shows "\<exists>e. r = Inl e" "cred s5 \<in> {cred s4, None}"
proof -
  have "v = ver s1" using load_value[OF assms(1)] load_frame[OF assms(1)] by simp
  also have "\<dots> \<le> ver s2" using assms(2) by (rule steps_version_mono)
  also have "\<dots> < ver s3" using invalidate_done[OF assms(3)] by simp
  also have "\<dots> \<le> ver s4" using assms(4) by (rule steps_version_mono)
  finally have v: "v \<noteq> ver s4" by simp
  show r: "\<exists>e. r = Inl e" using assms(5) v save_done by (cases r) auto
  then obtain e where "r = Inl e" by blast
  then show "cred s5 \<in> {cred s4, None}" using assms(5) save_failed by simp
qed

end

text \<open>A storage that keeps its credential until it is replaced or invalidated.\<close>

locale versioned_storage = fenced_storage +
  assumes version_kept: "version_of i s = (s', r) \<Longrightarrow> cred s' = cred s"
    and load_kept: "load i s = (s', lr) \<Longrightarrow> cred s' = cred s"
    and save_kept: "save i v c s = (s', Inl e) \<Longrightarrow> cred s' = cred s"
    and invalidate_kept: "invalidate i s = (s', Inl e) \<Longrightarrow> cred s' = cred s"
begin

lemma late_save_changes_nothing:
  assumes "load i s = (s1, Inr (v, c))"
    and "storage_steps s1 s2" "invalidate j s2 = (s3, Inr w)" "storage_steps s3 s4"
    and "save k v c' s4 = (s5, r)"
  shows "cred s5 = cred s4"
  using late_save_refused(1)[OF assms] assms(5) save_kept by blast

end

subsection \<open>Memory storage\<close>

type_synonym memory = "nat \<times> stored_credential option"

definition memory_version :: "unit \<Rightarrow> memory \<Rightarrow> memory \<times> nat result" where
  "memory_version i m = (m, Inr (fst m))"

definition memory_load ::
    "unit \<Rightarrow> memory \<Rightarrow> memory \<times> (nat \<times> stored_credential option) result" where
  "memory_load i m = (m, Inr m)"

definition memory_save :: "unit \<Rightarrow> nat \<Rightarrow> stored_credential \<Rightarrow> memory \<Rightarrow> memory \<times> unit result" where
  "memory_save i v c m =
     (if fst m \<noteq> v then (m, Inl StaleResponse) else ((fst m, Some c), Inr ()))"

definition memory_invalidate :: "unit \<Rightarrow> memory \<Rightarrow> memory \<times> nat result" where
  "memory_invalidate i m =
     (if fst m + 1 < 2 ^ 64 then ((fst m + 1, None), Inr (fst m + 1)) else (m, Inl StorageError))"

lemmas memory_defs = memory_version_def memory_load_def memory_save_def memory_invalidate_def

interpretation memory: versioned_storage memory_version memory_load memory_save memory_invalidate fst snd
  by unfold_locales (auto simp: memory_defs split: if_splits)

end
