(* ===== verification/Addresses.thy ===== *)
theory Addresses
  imports Prelude
begin

text \<open>
  IP address literals as the standard library parses them (\<open>parse::<IpAddr>\<close>,
  \<open>parse::<Ipv6Addr>\<close>, called by \<open>transport.rs\<close>): a parser reads a value from the front of the
  text or fails, and the whole text has to be read.
\<close>

type_synonym 'a reader = "string \<Rightarrow> ('a \<times> string) option"

fun digit_value :: "char \<Rightarrow> nat option" where
  "digit_value c = (if is_digit c then Some (byte c - 48)
     else if 97 \<le> byte c \<and> byte c \<le> 102 then Some (byte c - 87)
     else if 65 \<le> byte c \<and> byte c \<le> 70 then Some (byte c - 55) else None)"

declare digit_value.simps [simp del]

definition digit_in :: "nat \<Rightarrow> char \<Rightarrow> bool" where
  "digit_in radix c = some_and (\<lambda>d. d < radix) (digit_value c)"

definition number_value :: "nat \<Rightarrow> string \<Rightarrow> nat" where
  "number_value radix ds = foldl (\<lambda>n c. n * radix + (case digit_value c of None \<Rightarrow> 0 | Some d \<Rightarrow> d)) 0 ds"

text \<open>\<open>read_number\<close>: a run of digits, of at most so many, without a leading zero unless allowed.\<close>

definition read_number :: "nat \<Rightarrow> nat \<Rightarrow> bool \<Rightarrow> nat \<Rightarrow> nat reader" where
  "read_number radix max_digits zero_prefix bound s =
     (let ds = takeWhile (digit_in radix) s; n = number_value radix ds
      in if ds = [] \<or> length ds > max_digits
           \<or> (\<not> zero_prefix \<and> hd ds = CHR ''0'' \<and> length ds > 1) \<or> n > bound
         then None else Some (n, dropWhile (digit_in radix) s))"

text \<open>\<open>read_separator\<close>: every item but the first follows the separator.\<close>

definition read_separator :: "char \<Rightarrow> nat \<Rightarrow> 'a reader \<Rightarrow> 'a reader" where
  "read_separator sep i inner s =
     (if i = 0 then inner s
      else (case s of [] \<Rightarrow> None | c # r \<Rightarrow> if c = sep then inner r else None))"

definition read_octet :: "nat \<Rightarrow> nat reader" where
  "read_octet i = read_separator CHR ''.'' i (read_number 10 3 False 255)"

definition read_ipv4 :: "nat list reader" where
  "read_ipv4 s =
     Option.bind (read_octet 0 s) (\<lambda>(a, s).
     Option.bind (read_octet 1 s) (\<lambda>(b, s).
     Option.bind (read_octet 2 s) (\<lambda>(c, s).
     Option.bind (read_octet 3 s) (\<lambda>(d, s). Some ([a, b, c, d], s)))))"

text \<open>\<open>read_groups\<close>: up to \<open>left\<close> groups, of which the last two may be written as an IPv4 address;
  the groups read, whether they end in one, and the rest of the text.\<close>

fun ipv4_groups :: "nat list \<Rightarrow> nat list" where
  "ipv4_groups [a, b, c, d] = [a * 256 + b, c * 256 + d]"
| "ipv4_groups _ = []"

fun read_groups :: "nat \<Rightarrow> nat \<Rightarrow> string \<Rightarrow> nat list \<times> bool \<times> string" where
  "read_groups 0 i s = ([], False, s)"
| "read_groups (Suc left) i s =
     (case (if left = 0 then None else read_separator CHR '':'' i read_ipv4 s) of
        Some (a, r) \<Rightarrow> (ipv4_groups a, True, r)
      | None \<Rightarrow>
          (case read_separator CHR '':'' i (read_number 16 4 True 65535) s of
             None \<Rightarrow> ([], False, s)
           | Some (g, r) \<Rightarrow>
               (case read_groups left (Suc i) r of (gs, v4, r') \<Rightarrow> (g # gs, v4, r'))))"

definition read_ipv6 :: "nat list reader" where
  "read_ipv6 s =
     (case read_groups 8 0 s of (head_groups, head_ipv4, r) \<Rightarrow>
        if length head_groups = 8 then Some (head_groups, r)
        else if head_ipv4 then None
        else (case strip_prefix ''::'' r of
            None \<Rightarrow> None
          | Some r1 \<Rightarrow>
              (case read_groups (8 - (length head_groups + 1)) 0 r1 of (tail_groups, _, r2) \<Rightarrow>
                 Some (head_groups @ replicate (8 - length head_groups - length tail_groups) 0
                   @ tail_groups, r2))))"

datatype ip_addr = V4 "nat list" | V6 "nat list"

definition whole :: "'a reader \<Rightarrow> string \<Rightarrow> 'a option" where
  "whole p s = (case p s of Some (x, []) \<Rightarrow> Some x | _ \<Rightarrow> None)"

definition read_ip :: "ip_addr reader" where
  "read_ip s = (case read_ipv4 s of
       Some (a, r) \<Rightarrow> Some (V4 a, r)
     | None \<Rightarrow> map_option (\<lambda>(a, r). (V6 a, r)) (read_ipv6 s))"

definition parse_ip :: "string \<Rightarrow> ip_addr option" where "parse_ip = whole read_ip"
definition parse_ipv6 :: "string \<Rightarrow> nat list option" where "parse_ipv6 = whole read_ipv6"

fun is_loopback :: "ip_addr \<Rightarrow> bool" where
  "is_loopback (V4 a) = (hd a = 127)"
| "is_loopback (V6 a) = (a = [0, 0, 0, 0, 0, 0, 0, 1])"

definition loopback_ip :: "string \<Rightarrow> bool" where
  "loopback_ip s = some_and is_loopback (parse_ip s)"

subsection \<open>Parsed addresses are well formed\<close>

lemma read_number_bound: "read_number radix m z b s = Some (n, r) \<Longrightarrow> n \<le> b"
  by (auto simp: read_number_def Let_def split: if_splits)

lemma read_separator_bound:
  "read_separator sep i p s = Some (x, r) \<Longrightarrow> (\<And>s r. p s = Some (x, r) \<Longrightarrow> Q x) \<Longrightarrow> Q x"
  by (auto simp: read_separator_def split: if_splits list.splits)

lemma read_octet_bound: "read_octet i s = Some (n, r) \<Longrightarrow> n \<le> 255"
  unfolding read_octet_def by (rule read_separator_bound[where Q = "\<lambda>n. n \<le> 255"])
    (auto dest: read_number_bound)

lemma read_ipv4_shape: "read_ipv4 s = Some (a, r) \<Longrightarrow> length a = 4 \<and> list_all (\<lambda>n. n \<le> 255) a"
  by (auto simp: read_ipv4_def bind_eq_Some_conv dest: read_octet_bound)

lemma read_groups_shape:
  "read_groups left i s = (gs, v4, r) \<Longrightarrow> length gs \<le> left \<and> list_all (\<lambda>g. g \<le> 65535) gs"
proof (induction left i s arbitrary: gs v4 r rule: read_groups.induct)
  case (2 left i s)
  let ?group = "read_separator CHR '':'' i (read_number 16 4 True 65535) s"
  have hex: "?group = Some (g, q) \<Longrightarrow> g \<le> 65535" for g q
    by (rule read_separator_bound[where Q = "\<lambda>n. n \<le> 65535"]) (auto dest: read_number_bound)
  show ?case
  proof (cases "if left = 0 then None else read_separator CHR '':'' i read_ipv4 s")
    case None
    show ?thesis
    proof (cases ?group)
      case (Some p)
      obtain g q where p: "p = (g, q)" by (cases p)
      obtain hs w q' where rec: "read_groups left (Suc i) q = (hs, w, q')" by (cases "read_groups left (Suc i) q") auto
      from "2.IH"[OF None Some p[symmetric] rec] "2.prems" None Some p rec hex[of g q] show ?thesis
        by (auto simp del: read_groups.simps simp: read_groups.simps(2))
    qed (use "2.prems" None in auto)
  next
    case (Some p)
    obtain a q where p: "p = (a, q)" by (cases p)
    from Some p have l: "left \<noteq> 0" and a: "read_separator CHR '':'' i read_ipv4 s = Some (a, q)"
      by (auto split: if_splits)
    from a have "length a = 4 \<and> list_all (\<lambda>n. n \<le> 255) a"
      by (rule read_separator_bound[where Q = "\<lambda>a. length a = 4 \<and> list_all (\<lambda>n. n \<le> 255) a"])
        (rule read_ipv4_shape)
    then obtain x y z u where "a = [x, y, z, u]" "x \<le> 255" "y \<le> 255" "z \<le> 255" "u \<le> 255"
      by (auto simp: numeral_eq_Suc length_Suc_conv)
    with "2.prems" Some p l show ?thesis by auto
  qed
qed simp

lemma read_ipv6_shape:
  assumes "read_ipv6 s = Some (a, r)" shows "length a = 8 \<and> list_all (\<lambda>g. g \<le> 65535) a"
proof -
  obtain hs v q where h: "read_groups 8 0 s = (hs, v, q)" by (cases "read_groups 8 0 s") auto
  have hl: "length hs \<le> 8" "list_all (\<lambda>g. g \<le> 65535) hs" using read_groups_shape[OF h] by auto
  show ?thesis
  proof (cases "length hs = 8")
    case True
    with assms h hl show ?thesis by (simp add: read_ipv6_def)
  next
    case False
    with assms h obtain q1 where q1: "strip_prefix ''::'' q = Some q1"
      by (auto simp: read_ipv6_def split: if_splits option.splits)
    obtain ts v' q2 where t: "read_groups (8 - (length hs + 1)) 0 q1 = (ts, v', q2)"
      by (cases "read_groups (8 - (length hs + 1)) 0 q1") auto
    have "length ts \<le> 8 - (length hs + 1)" "list_all (\<lambda>g. g \<le> 65535) ts" using read_groups_shape[OF t] by auto
    with assms h hl False q1 t show ?thesis
      by (auto simp: read_ipv6_def list_all_iff split: if_splits)
  qed
qed

text \<open>An address that parses has four octets or eight groups of 16 bits.\<close>

lemma parsed_address_is_well_formed:
  assumes "parse_ip s = Some a"
  shows "case a of V4 n \<Rightarrow> length n = 4 \<and> list_all (\<lambda>x. x < 256) n
    | V6 n \<Rightarrow> length n = 8 \<and> list_all (\<lambda>x. x < 65536) n"
proof -
  from assms have "read_ip s = Some (a, [])"
    by (auto simp: parse_ip_def whole_def split: option.splits prod.splits list.splits)
  moreover have "list_all (\<lambda>n. n \<le> 255) xs \<Longrightarrow> list_all (\<lambda>n. n < 256) xs"
    "list_all (\<lambda>n. n \<le> 65535) xs \<Longrightarrow> list_all (\<lambda>n. n < 65536) xs" for xs :: "nat list"
    by (auto simp: list_all_iff)
  ultimately show ?thesis
    using read_ipv4_shape[of s _ "[]"] read_ipv6_shape[of s _ "[]"]
    by (cases "read_ipv4 s") (auto simp: read_ip_def)
qed

lemma read_groups_none:
  "read_separator CHR '':'' i read_ipv4 s = None \<Longrightarrow>
   read_separator CHR '':'' i (read_number 16 4 True 65535) s = None \<Longrightarrow> read_groups n i s = ([], False, s)"
  by (cases n) auto

lemma loopback_parses: "parse_ip ''::1'' = Some (V6 [0, 0, 0, 0, 0, 0, 0, 1])"
proof -
  have d: "digit_in 16 CHR ''1''" "digit_in 10 CHR ''1''" "\<not> digit_in 16 CHR '':''" "\<not> digit_in 10 CHR '':''"
    "digit_value CHR ''1'' = Some 1"
    by (simp_all add: digit_in_def digit_value.simps text_defs byte_def)
  have "read_groups 8 0 ''::1'' = ([], False, ''::1'')"
    by (rule read_groups_none) (simp_all add: read_separator_def read_ipv4_def read_octet_def read_number_def d)
  moreover have "read_groups (Suc n) 0 ''1'' = ([1], False, [])" for n
  proof -
    have "read_groups n (Suc 0) [] = ([], False, [])"
      by (rule read_groups_none) (simp_all add: read_separator_def)
    then show ?thesis
      by (simp add: read_separator_def read_ipv4_def read_octet_def read_number_def number_value_def d)
  qed
  from this[of 6] have "read_groups 7 0 ''1'' = ([1], False, [])" by simp
  ultimately have "read_ipv6 ''::1'' = Some ([0, 0, 0, 0, 0, 0, 0, 1], [])"
    by (simp add: read_ipv6_def) (simp add: eval_nat_numeral)
  moreover have "read_ipv4 ''::1'' = None"
    by (simp add: read_ipv4_def read_octet_def read_separator_def read_number_def d)
  ultimately show ?thesis by (simp add: parse_ip_def whole_def read_ip_def)
qed

end
