(* ===== verification/AppKeys.thy ===== *)
theory AppKeys
  imports Identity Addresses
begin

text \<open>
  Origins (\<open>transport.rs\<close>: \<open>origin_authority\<close>, \<open>origin\<close>, \<open>validate_local_origin\<close>) and the public
  app key (\<open>app_key.rs\<close>), with the offline request that prints a key back (\<open>offline.rs\<close>).
\<close>

subsection \<open>Origins\<close>

text \<open>\<open>str::split_once\<close> on a string separator.\<close>

fun split_once_str :: "string \<Rightarrow> string \<Rightarrow> (string \<times> string) option" where
  "split_once_str p [] = (if p = [] then Some ([], []) else None)"
| "split_once_str p (x # xs) =
     (case strip_prefix p (x # xs) of
        Some r \<Rightarrow> Some ([], r)
      | None \<Rightarrow> map_option (\<lambda>(a, b). (x # a, b)) (split_once_str p xs))"

definition no_control_or_whitespace :: "string \<Rightarrow> bool" where
  "no_control_or_whitespace s \<longleftrightarrow> \<not> has_control s \<and> \<not> has_whitespace s"

definition origin_authority :: "string \<Rightarrow> string result" where
  "origin_authority base =
     rbind (ensure Configuration (no_control_or_whitespace base)) (\<lambda>_.
     rbind (ok_or Configuration (split_once_str ''://'' base)) (\<lambda>(_, rest).
     let authority = or_else (strip_suffix ''/'' rest) rest in
     rbind (ensure Configuration (\<not> (authority = []
         \<or> list_ex (\<lambda>c. c \<in> {CHR ''/'', CHR 0x5C, CHR ''@'', CHR ''?'', CHR ''#''}) authority))) (\<lambda>_.
       Inr authority)))"

definition origin :: "('x) external_scheme \<Rightarrow> string \<Rightarrow> string \<Rightarrow> url result" where
  "origin X base scheme =
     rbind (origin_authority base) (\<lambda>_.
     rbind (ok_or Configuration (url_parse X base)) (\<lambda>parsed.
     rbind (ensure Configuration (\<not> (url_scheme parsed \<noteq> scheme
         \<or> url_host parsed = None
         \<or> url_username parsed \<noteq> []
         \<or> url_password parsed \<noteq> None
         \<or> url_path parsed \<noteq> ''/''
         \<or> url_query parsed \<noteq> None
         \<or> url_fragment parsed \<noteq> None))) (\<lambda>_.
       Inr parsed)))"

definition validate_local_origin :: "('x) external_scheme \<Rightarrow> string \<Rightarrow> url result" where
  "validate_local_origin X base =
     rbind (origin X base ''http'') (\<lambda>parsed.
     rbind (origin_authority base) (\<lambda>authority.
     rbind (case strip_prefix ''['' authority of
              Some ipv6 \<Rightarrow> ok_or Configuration (map_option fst (split_once CHR '']'' ipv6))
            | None \<Rightarrow> Inr (case split_once CHR '':'' authority of
                Some (host, _) \<Rightarrow> host | None \<Rightarrow> authority)) (\<lambda>host.
     rbind (ensure Configuration (loopback_ip host)) (\<lambda>_. Inr parsed))))"

subsection \<open>App keys\<close>

datatype app_environment = Test | Live

fun environment_str :: "app_environment \<Rightarrow> string" where
  "environment_str Test = ''test''"
| "environment_str Live = ''live''"

record app_key =
  api_origin :: string
  application_id :: string
  environment_id :: string
  app_env :: app_environment

text \<open>\<open>issuer()\<close> and \<open>environment()\<close>.\<close>

definition issuer :: "app_key \<Rightarrow> string" where "issuer k = api_origin k"
definition environment :: "app_key \<Rightarrow> string" where "environment k = environment_str (app_env k)"

definition key_prefix :: "string \<Rightarrow> (app_environment \<times> string) result" where
  "key_prefix value =
     (case strip_prefix ''orbit_app_test_'' value of
        Some rest \<Rightarrow> Inr (Test, rest)
      | None \<Rightarrow>
          (case strip_prefix ''orbit_app_live_'' value of
             Some rest \<Rightarrow> Inr (Live, rest)
           | None \<Rightarrow> Inl Configuration))"

definition parse_with :: "('x) external_scheme \<Rightarrow> string \<Rightarrow> bool \<Rightarrow> app_key result" where
  "parse_with X raw local =
     (let value = trim raw in
      rbind (ensure Configuration (\<not> (value = [] \<or> length value > 512))) (\<lambda>_.
      rbind (key_prefix value) (\<lambda>(envt, rest).
      rbind (ok_or Configuration (three_parts CHR ''.'' rest)) (\<lambda>(encoded_origin, app, env_id).
      rbind (ok_or Configuration (b64_decode X encoded_origin)) (\<lambda>origin_bytes.
      rbind (ensure Configuration (b64_encode X origin_bytes = encoded_origin)) (\<lambda>_.
      rbind (ensure Configuration (utf8 X origin_bytes)) (\<lambda>_.
      rbind (ensure Configuration (\<not> ends_with origin_bytes ''/'')) (\<lambda>_.
      rbind (if local then validate_local_origin X origin_bytes
             else origin X origin_bytes ''https'') (\<lambda>_.
      rbind (ensure Configuration (\<not> (\<not> opaque app \<or> \<not> opaque env_id))) (\<lambda>_.
        Inr \<lparr>api_origin = origin_bytes, application_id = app,
             environment_id = env_id, app_env = envt\<rparr>))))))))))"

definition parse :: "('x) external_scheme \<Rightarrow> string \<Rightarrow> app_key result" where
  "parse X raw = parse_with X raw False"

definition parse_local :: "('x) external_scheme \<Rightarrow> string \<Rightarrow> app_key result" where
  "parse_local X raw = parse_with X raw True"

subsection \<open>Offline requests\<close>

record offline_request =
  rq_format :: string
  rq_version :: nat
  rq_app_key :: string
  rq_installation_id :: string
  rq_fingerprint :: "string option"
  rq_fingerprint_provider :: "string option"

definition request :: "('x) external_scheme \<Rightarrow> app_key \<Rightarrow> device \<Rightarrow> offline_request" where
  "request X key dev =
     (let prefix = (if environment key = ''live'' then ''orbit_app_live_'' else ''orbit_app_test_'')
      in \<lparr>rq_format = ''orbit-offline-request'',
          rq_version = 1,
          rq_app_key = prefix @ b64_encode X (api_origin key) @ ''.'' @ application_id key
             @ ''.'' @ environment_id key,
          rq_installation_id = installation_id dev,
          rq_fingerprint = fingerprint dev,
          rq_fingerprint_provider = fingerprint_provider dev\<rparr>)"

subsection \<open>Facts\<close>

lemma origin_iff:
  "origin X base scheme = Inr u \<longleftrightarrow>
     (\<exists>a. origin_authority base = Inr a) \<and> url_parse X base = Some u
     \<and> url_scheme u = scheme \<and> url_host u \<noteq> None \<and> url_username u = [] \<and> url_password u = None
     \<and> url_path u = ''/'' \<and> url_query u = None \<and> url_fragment u = None"
  by (auto simp: origin_def result_simps)

lemma validate_local_origin_origin:
  "validate_local_origin X base = Inr u \<Longrightarrow> origin X base ''http'' = Inr u"
  by (auto simp: validate_local_origin_def result_simps)

lemma key_prefix_iff:
  "key_prefix v = Inr (e, rest) \<longleftrightarrow>
     v = (case e of Test \<Rightarrow> ''orbit_app_test_'' | Live \<Rightarrow> ''orbit_app_live_'') @ rest"
  by (auto simp: key_prefix_def strip_prefix_Some_iff split: option.splits app_environment.splits)

lemma parse_with_shape:
  assumes "parse_with X raw local = Inr k"
  shows "\<exists>rest. key_prefix (trim raw) = Inr (app_env k, rest)
      \<and> three_parts CHR ''.'' rest =
          Some (b64_encode X (api_origin k), application_id k, environment_id k)
      \<and> opaque (application_id k) \<and> opaque (environment_id k)
      \<and> length (trim raw) \<le> 512
      \<and> (if local then \<exists>u. validate_local_origin X (api_origin k) = Inr u
         else \<exists>u. origin X (api_origin k) ''https'' = Inr u)"
  using assms
  by (auto simp: parse_with_def Let_def rbind_Inr_iff ensure_iff ok_or_iff split: if_splits)

lemma trim_prefix_front:
  assumes "ws_front s = 0" shows "ws_front (take n s) = 0"
proof (rule ccontr)
  assume "ws_front (take n s) \<noteq> 0"
  then obtain k where "is_ws (take k (map byte (take n s)))" "k \<in> {1, 2, 3}"
    by (auto simp: ws_front_def Let_def split: if_splits)
  then have k: "is_ws (take (min k n) (map byte s))" "min k n \<in> {0, 1, 2, 3}"
    by (auto simp: take_map min.commute)
  then show False using assms by (auto simp: ws_front_def Let_def split: if_splits)
qed

lemma trim_end_take: "\<exists>n. trim_end s = take n s"
proof (induction s rule: trim_end.induct)
  case (1 s)
  show ?case
  proof (cases "s = [] \<or> ws_back s = 0")
    case True
    then show ?thesis by (subst trim_end.simps) (metis take_all_iff le_refl)
  next
    case False
    from 1[OF False] obtain n where
      "trim_end (take (length s - ws_back s) s) = take n (take (length s - ws_back s) s)" ..
    then show ?thesis using False by (subst trim_end.simps) (auto simp: take_take)
  qed
qed

lemma trim_end_done: "trim_end s = [] \<or> ws_back (trim_end s) = 0"
proof (induction s rule: trim_end.induct)
  case (1 s)
  then show ?case by (cases "s = [] \<or> ws_back s = 0") (auto simp: trim_end.simps[of s])
qed

lemma trim_start_done: "trim_start s = [] \<or> ws_front (trim_start s) = 0"
proof (induction s rule: trim_start.induct)
  case (1 s)
  then show ?case by (cases "s = [] \<or> ws_front s = 0") (auto simp: trim_start.simps[of s])
qed

lemma trim_idem [simp]: "trim (trim s) = trim s"
proof -
  have z: "ws_front [] = 0" by (simp add: ws_front_def Let_def)
  have zb: "ws_back [] = 0" by (simp add: ws_back_def Let_def)
  obtain n where n: "trim s = take n (trim_start s)" using trim_end_take by (metis trim_def)
  have "ws_front (trim_start s) = 0" using trim_start_done[of s] z by auto
  then have "ws_front (trim s) = 0" by (simp add: n trim_prefix_front)
  moreover have "ws_back (trim s) = 0" using trim_end_done[of "trim_start s"] zb by (auto simp: trim_def)
  ultimately show ?thesis by (rule trim_id)
qed

lemma parse_with_trim: "parse_with X (trim raw) local = parse_with X raw local"
  by (simp add: parse_with_def)

lemma request_app_key:
  assumes "parse_with X raw local = Inr k"
  shows "rq_app_key (request X k dev) = trim raw"
  using parse_with_shape[OF assms] three_parts_eq
  by (fastforce simp: request_def environment_def key_prefix_iff Let_def split: app_environment.splits)

text \<open>C40. The offline request prints back exactly the app key the client was opened with (up to
  surrounding white space), and parsing the printed key yields the same key again.\<close>

theorem app_key_roundtrip:
  assumes "parse X raw = Inr k"
  shows "rq_app_key (request X k dev) = trim raw \<and> parse X (rq_app_key (request X k dev)) = Inr k"
  using assms request_app_key[of X raw False k dev] parse_with_trim[of X raw False]
  by (simp add: parse_def)

text \<open>An instance of the third-party functions whose base64 is the identity.\<close>

definition plain_external :: external where
  "plain_external = \<lparr>b64_decode = Some, b64_encode = id, sha256 = id, parse_json = (\<lambda>_. None),
     rfc3339 = (\<lambda>_. None), utf8 = (\<lambda>_. True),
     url_parse = (\<lambda>s. Some \<lparr>url_scheme = ''https'', url_host = Some ''o'', url_username = [],
       url_password = None, url_path = ''/'', url_query = None, url_pairs = [], url_fragment = None, url_origin = s\<rparr>),
     url_join = (\<lambda>u _. Some u)\<rparr>"

lemma plain_key:
  "parse plain_external '' orbit_app_live_https://o.app.env ''
   = Inr \<lparr>api_origin = ''https://o'', application_id = ''app'', environment_id = ''env'', app_env = Live\<rparr>"
  by code_simp

theorem app_key_roundtrip_witness:
  "parse plain_external ''orbit_app_live_https://o.app.env''
   = Inr \<lparr>api_origin = ''https://o'', application_id = ''app'', environment_id = ''env'', app_env = Live\<rparr>"
proof -
  let ?dev = "\<lparr>installation_id = ''i'', fingerprint = None, fingerprint_provider = None\<rparr>"
  show ?thesis using conjunct2[OF app_key_roundtrip[OF plain_key, of ?dev]]
    by (simp add: request_def environment_def plain_external_def)
qed

end
