(* ===== verification/Clock.thy ===== *)
theory Clock
  imports Errors
begin

text \<open>
  The SDK clock (\<open>clock.rs\<close>): an anchor pairs a server time with the suspend-aware elapsed
  clock and the wall clock at the request, and yields the current time only while both
  local clocks agree.  The readings of the operating system are inputs: a \<open>tick\<close> is what one
  moment of a run observes.
\<close>

text \<open>A \<open>Duration\<close> is a number of nanoseconds.\<close>

type_synonym duration = nat

definition from_secs :: "nat \<Rightarrow> duration" where "from_secs s = s * 1000000000"
definition as_secs :: "duration \<Rightarrow> nat" where "as_secs d = d div 1000000000"

record tick =
  tv_sec :: int                 \<comment> \<open>\<open>clock_gettime(Boottime)\<close>, seconds\<close>
  tv_nsec :: int                \<comment> \<open>and nanoseconds\<close>
  unix_secs :: "nat option"     \<comment> \<open>\<open>SystemTime::now().duration_since(UNIX_EPOCH)\<close>\<close>
  instant :: duration           \<comment> \<open>\<open>Instant::now()\<close>, from an arbitrary origin\<close>

definition elapsed_clock :: "tick \<Rightarrow> duration result" where
  "elapsed_clock t =
     (if tv_sec t < 0 \<or> tv_nsec t < 0 then Inl ClockUncertain
      else Inr (nat (tv_sec t) * 1000000000 + nat (tv_nsec t)))"

definition wall :: "tick \<Rightarrow> int result" where
  "wall t = (case unix_secs t of None \<Rightarrow> Inl ClockUncertain
     | Some s \<Rightarrow> ok_or ClockUncertain (checked_i64 (int s)))"

record start =
  start_elapsed :: duration
  start_wall :: int

definition start_capture :: "tick \<Rightarrow> start result" where
  "start_capture t =
     rbind (elapsed_clock t) (\<lambda>e. rbind (wall t) (\<lambda>w.
       Inr \<lparr>start_elapsed = e, start_wall = w\<rparr>))"

record anchor =
  an_server :: int
  an_elapsed :: duration
  an_wall :: int

definition anchor_from_request :: "int \<Rightarrow> start \<Rightarrow> anchor" where
  "anchor_from_request server st =
     \<lparr>an_server = server, an_elapsed = start_elapsed st, an_wall = start_wall st\<rparr>"

definition anchor_receipt :: "anchor \<Rightarrow> int \<times> int" where
  "anchor_receipt a = (an_server a, an_wall a)"

definition anchor_restored :: "tick \<Rightarrow> int \<Rightarrow> int \<Rightarrow> anchor result" where
  "anchor_restored t server w =
     rbind (elapsed_clock t) (\<lambda>e. Inr \<lparr>an_server = server, an_elapsed = e, an_wall = w\<rparr>)"

definition now_with_wall :: "anchor \<Rightarrow> tick \<Rightarrow> (int \<times> int) result" where
  "now_with_wall a t =
     rbind (elapsed_clock t) (\<lambda>e.
     rbind (ensure ClockUncertain (an_elapsed a \<le> e)) (\<lambda>_.
     rbind (ok_or ClockUncertain (checked_i64 (int (as_secs (e - an_elapsed a))))) (\<lambda>secs.
     rbind (ok_or ClockUncertain (checked_add (an_wall a) secs)) (\<lambda>expected.
     rbind (wall t) (\<lambda>wall_now.
     rbind (ensure ClockUncertain (\<not> abs_diff wall_now expected > 30)) (\<lambda>_.
     rbind (ok_or ClockUncertain (checked_add (an_server a) secs)) (\<lambda>now.
       Inr (now, wall_now))))))))"

definition anchor_now :: "anchor \<Rightarrow> tick \<Rightarrow> int result" where
  "anchor_now a t = rbind (now_with_wall a t) (\<lambda>v. Inr (fst v))"

subsection \<open>What a successful reading means\<close>

definition elapsed_since :: "anchor \<Rightarrow> tick \<Rightarrow> int" where
  "elapsed_since a t =
     int (as_secs (nat (tv_sec t) * 1000000000 + nat (tv_nsec t) - an_elapsed a))"

lemma elapsed_since_nonneg [simp]: "0 \<le> elapsed_since a t"
  by (simp add: elapsed_since_def)

lemma elapsed_clock_Inr_iff [result_simps]:
  "elapsed_clock t = Inr e \<longleftrightarrow>
     0 \<le> tv_sec t \<and> 0 \<le> tv_nsec t \<and> e = nat (tv_sec t) * 1000000000 + nat (tv_nsec t)"
  by (auto simp: elapsed_clock_def)

lemma elapsed_clock_err: "elapsed_clock t = Inl e \<Longrightarrow> e = ClockUncertain"
  by (auto simp: elapsed_clock_def split: if_splits)

lemma wall_Inr_iff [result_simps]:
  "wall t = Inr w \<longleftrightarrow> (\<exists>s. unix_secs t = Some s \<and> int s = w \<and> i64 w)"
  by (auto simp: wall_def result_simps split: option.splits)

lemma wall_err: "wall t = Inl e \<Longrightarrow> e = ClockUncertain"
  by (auto simp: wall_def result_simps split: option.splits)

lemma wall_nonneg: "wall t = Inr w \<Longrightarrow> 0 \<le> w"
  by (auto simp: result_simps)

lemma wall_i64: "wall t = Inr w \<Longrightarrow> i64 w"
  by (auto simp: result_simps)

lemma now_with_wall_Inr_iff:
  "now_with_wall a t = Inr (now, w) \<longleftrightarrow>
     0 \<le> tv_sec t \<and> 0 \<le> tv_nsec t
     \<and> an_elapsed a \<le> nat (tv_sec t) * 1000000000 + nat (tv_nsec t)
     \<and> i64 (elapsed_since a t) \<and> i64 (an_wall a + elapsed_since a t)
     \<and> wall t = Inr w \<and> \<bar>w - (an_wall a + elapsed_since a t)\<bar> \<le> 30
     \<and> now = an_server a + elapsed_since a t \<and> i64 now"
  by (auto simp: now_with_wall_def elapsed_since_def abs_diff_less_iff rbind_Inr_iff ensure_iff
      ok_or_iff checked_i64_iff checked_add_iff elapsed_clock_Inr_iff)

lemma now_with_wall_err: "now_with_wall a t = Inl e \<Longrightarrow> e = ClockUncertain"
  by (auto simp: now_with_wall_def result_simps dest: elapsed_clock_err wall_err)

lemma anchor_now_Inr_iff [result_simps]:
  "anchor_now a t = Inr now \<longleftrightarrow> (\<exists>w. now_with_wall a t = Inr (now, w))"
  by (auto simp: anchor_now_def result_simps)

lemma anchor_now_err: "anchor_now a t = Inl e \<Longrightarrow> e = ClockUncertain"
  by (auto simp: anchor_now_def result_simps dest: now_with_wall_err)

lemma anchor_now_i64: "anchor_now a t = Inr now \<Longrightarrow> i64 now"
  by (auto simp: result_simps now_with_wall_Inr_iff)

lemma anchor_now_ge_server: "anchor_now a t = Inr now \<Longrightarrow> an_server a \<le> now"
  using elapsed_since_nonneg[of a t] by (auto simp: result_simps now_with_wall_Inr_iff)

definition boottime :: "tick \<Rightarrow> nat" where
  "boottime t = nat (tv_sec t) * 1000000000 + nat (tv_nsec t)"

lemma elapsed_since_mono: "boottime t \<le> boottime u \<Longrightarrow> elapsed_since a t \<le> elapsed_since a u"
  by (simp add: elapsed_since_def boottime_def as_secs_def div_le_mono diff_le_mono)

end
