(* ===== verification/Wire.thy ===== *)
theory Wire
  imports AppKeys Clock
begin

text \<open>
  The wire structures of the SDK (JWT headers, JSON web keys, the claims of the four token
  kinds, the activation reply) and the third-party decoders that produce them.  The claims
  carry their \<open>entitlements\<close> as the entries the JSON object lists, in order, because the
  code's own visitor (\<open>Grants.entitlements\<close>) turns them into a map or rejects them.
\<close>

record jwt_header =
  h_alg :: string
  h_typ :: string
  h_kid :: string

record jwk =
  kty :: string
  crv :: string
  k_alg :: string
  purpose :: string
  kid :: string
  k_x :: string
  k_y :: string

type_synonym entitlement_list = "(string \<times> bool) list"

text \<open>\<open>grants.rs\<close>: the claims of an access grant.\<close>

record grant_claims =
  gc_iss :: string
  gc_aud :: string
  gc_sub :: string
  gc_jti :: string
  gc_iat :: int
  gc_nbf :: int
  gc_exp :: int
  gc_application_id :: string
  gc_environment_id :: string
  gc_activation_id :: string
  gc_installation_id :: string
  gc_binding_mode :: string
  gc_fingerprint :: "string option"
  gc_fingerprint_provider :: "string option"
  gc_policy_version :: int
  gc_entitlements :: entitlement_list
  gc_refresh_after :: int
  gc_offline_allowed :: bool
  gc_licence_expires_at :: "int option"

text \<open>\<open>sessions.rs\<close>: the claims of a floating-session grant.\<close>

record session_claims =
  sn_iss :: string
  sn_aud :: string
  sn_sub :: string
  sn_jti :: string
  sn_iat :: int
  sn_nbf :: int
  sn_exp :: int
  sn_application_id :: string
  sn_environment_id :: string
  sn_activation_id :: string
  sn_installation_id :: string
  sn_binding_mode :: string
  sn_fingerprint :: "string option"
  sn_fingerprint_provider :: "string option"
  sn_policy_version :: int
  sn_entitlements :: entitlement_list
  sn_refresh_after :: int
  sn_offline_allowed :: bool
  sn_licence_expires_at :: "int option"
  sn_session_id :: string
  sn_session_sequence :: nat

text \<open>\<open>offline.rs\<close>: the claims of a long-term offline file.\<close>

record offline_claims =
  oc_ver :: nat
  oc_iss :: string
  oc_aud :: string
  oc_sub :: string
  oc_jti :: string
  oc_iat :: int
  oc_nbf :: int
  oc_exp :: int
  oc_application_id :: string
  oc_environment_id :: string
  oc_activation_id :: string
  oc_installation_id :: string
  oc_sequence :: nat
  oc_binding_mode :: string
  oc_fingerprint :: "string option"
  oc_fingerprint_provider :: "string option"
  oc_policy_version :: int
  oc_entitlements :: entitlement_list
  oc_licence_expires_at :: "int option"

text \<open>\<open>downloads.rs\<close>: the claims of a protected-download ticket.\<close>

record ticket_claims =
  tc_ver :: nat
  tc_iss :: string
  tc_aud :: string
  tc_sub :: string
  tc_jti :: string
  tc_iat :: int
  tc_nbf :: int
  tc_exp :: int
  tc_application_id :: string
  tc_environment_id :: string
  tc_release_id :: string
  tc_artifact_id :: string
  tc_sha256 :: string
  tc_byte_length :: nat

text \<open>\<open>access.rs\<close>: the reply to an activation or a validation.\<close>

record reply =
  rp_activation_id :: string
  rp_installation_id :: string
  rp_credential :: "string option"
  rp_credential_expires_at :: "string option"
  rp_grant :: "string option"
  rp_server_time :: string
  rp_binding_mode :: string
  rp_fingerprint_provider :: "string option"
  rp_licence_expires_at :: "string option"
  rp_secret_replay_expired :: bool
  rp_licence_id :: "string option"
  rp_session_required :: "bool option"

text \<open>\<open>accounts.rs\<close>: the members of the account replies, before their own deserialisers read the
  times, durations and limits.\<close>

record customer_doc =
  cd_id :: string
  cd_username :: string
  cd_email :: string
  cd_suspended :: bool
  cd_created_at :: string

record login_doc =
  ld_customer :: customer_doc
  ld_session :: string
  ld_expires_at :: string

record licence_doc =
  ol_id :: string
  ol_policy_name :: string
  ol_state :: string
  ol_expiry_mode :: string
  ol_first_used_at :: "string option"
  ol_expires_at :: "string option"
  ol_duration_seconds :: "int option"
  ol_device_limit :: int
  ol_concurrent_session_limit :: int
  ol_usage_limits :: json
  ol_resource_limits :: json
  ol_hwid_locked :: bool
  ol_offline_allowed :: bool
  ol_offline_seconds :: int
  ol_offline_file_seconds :: nat
  ol_entitlements :: entitlement_list

record page_doc =
  pd_items :: "licence_doc list"
  pd_next_cursor :: "string option"

record registration_doc =
  rd_accepted :: bool
  rd_resend_credential :: string
  rd_expires_at :: string

text \<open>The \<open>jsonwebtoken::Validation\<close> settings the code builds.\<close>

record validation =
  val_algorithm :: string
  val_exp :: bool
  val_nbf :: bool
  val_aud :: "string option"        \<comment> \<open>\<open>None\<close>: \<open>validate_aud = false\<close>\<close>
  val_iss :: "string option"
  val_leeway :: nat
  val_required :: "string list"

text \<open>A \<open>DecodingKey\<close> is determined by the two base64url coordinates it is built from.\<close>

type_synonym decoding_key = "string \<times> string"

record libs = external +
  de_header :: "string \<Rightarrow> jwt_header option"       \<comment> \<open>\<open>from_slice::<Header>\<close>\<close>
  de_jwks :: "json \<Rightarrow> jwk list option"            \<comment> \<open>\<open>from_value::<Jwks>\<close>\<close>
  de_jwks_bytes :: "string \<Rightarrow> jwk list option"    \<comment> \<open>\<open>from_slice::<Jwks>\<close>\<close>
  to_jwks :: "jwk list \<Rightarrow> json option"            \<comment> \<open>\<open>to_value(Jwks)\<close>\<close>
  to_bytes :: "json \<Rightarrow> string option"             \<comment> \<open>\<open>to_vec(&Value)\<close>\<close>
  de_reply :: "json \<Rightarrow> reply option"              \<comment> \<open>\<open>from_value::<Reply>\<close>\<close>
  de_offline :: "string \<Rightarrow> offline_claims option" \<comment> \<open>\<open>from_slice::<offline::Claims>\<close>\<close>
  de_login :: "json \<Rightarrow> login_doc option"
  de_licence :: "json \<Rightarrow> licence_doc option"
  de_page :: "json \<Rightarrow> page_doc option"
  de_registration :: "json \<Rightarrow> registration_doc option"
  de_accepted :: "json \<Rightarrow> bool option"
  ec_agree :: "string \<Rightarrow> bool"                    \<comment> \<open>an ECDH agreement with the point succeeds\<close>
  ec_components :: "string \<Rightarrow> string \<Rightarrow> bool"     \<comment> \<open>\<open>from_ec_components\<close> succeeds\<close>
  jwt_grant :: "string \<Rightarrow> decoding_key \<Rightarrow> validation \<Rightarrow> grant_claims option"
  jwt_session :: "string \<Rightarrow> decoding_key \<Rightarrow> validation \<Rightarrow> session_claims option"
  jwt_offline :: "string \<Rightarrow> decoding_key \<Rightarrow> validation \<Rightarrow> offline_claims option"
  jwt_ticket :: "string \<Rightarrow> decoding_key \<Rightarrow> validation \<Rightarrow> ticket_claims option"

definition es256_validation :: "string \<Rightarrow> string \<Rightarrow> validation" where
  "es256_validation audience iss =
     \<lparr>val_algorithm = ''ES256'', val_exp = False, val_nbf = False, val_aud = Some audience,
      val_iss = Some iss, val_leeway = 0,
      val_required = [''exp'', ''nbf'', ''iat'', ''iss'', ''aud'', ''sub'']\<rparr>"

definition MAX_TIME :: int where "MAX_TIME = 253402300799"
definition MAX_TOKEN :: nat where "MAX_TOKEN = 16384"
definition MAX_SEQUENCE :: nat where "MAX_SEQUENCE = 9007199254740991"

definition valid_time :: "int \<Rightarrow> bool" where
  "valid_time t \<longleftrightarrow> 0 \<le> t \<and> t \<le> MAX_TIME"

lemma valid_time_i64: "valid_time t \<Longrightarrow> i64 t"
  by (simp add: valid_time_def MAX_TIME_def i64_defs)

subsection \<open>What every token verifier promises\<close>

text \<open>
  The contract the clients of the four verifiers rely on: an accepted token is still running
  and ends within a fixed window of the moment it was checked at, and a refusal is always
  \<open>InvalidResponse\<close>.
\<close>

locale token_verifier =
  fixes check :: "'t \<Rightarrow> 'e \<Rightarrow> 'c result"
    and expires :: "'c \<Rightarrow> int"
    and now_of :: "'e \<Rightarrow> int"
    and window :: int
  assumes check_running: "check t e = Inr c \<Longrightarrow> now_of e < expires c"
    and check_bounded: "check t e = Inr c \<Longrightarrow> expires c \<le> now_of e + window"
    and check_error: "check t e = Inl x \<Longrightarrow> x = InvalidResponse"
begin

lemma refused_after_expiry: "check t e = Inr c \<Longrightarrow> expires c \<le> now_of e' \<Longrightarrow> check t e' \<noteq> Inr c"
  using check_running by (auto simp: not_less[symmetric])

lemma replay_window:
  assumes "check t e = Inr c" "check t' e' = Inr c"
  shows "\<bar>now_of e - now_of e'\<bar> < window"
  using check_running[OF assms(1)] check_running[OF assms(2)]
    check_bounded[OF assms(1)] check_bounded[OF assms(2)] by linarith

lemma window_positive: "check t e = Inr c \<Longrightarrow> 0 < window"
  using check_running check_bounded by fastforce

end

end
