(* ===== verification/Grants.thy ===== *)
theory Grants
  imports Wire
begin

text \<open>
  Access grants (\<open>grants.rs\<close>): the entitlement visitor, key sets, token headers and the
  verifier of a connected grant.
\<close>

subsection \<open>Entitlements\<close>

text \<open>The loop of \<open>visit_map\<close>; the accumulator is the map built so far, an entry per key.\<close>

definition bad_entitlement_key :: "string \<Rightarrow> bool" where
  "bad_entitlement_key key \<longleftrightarrow>
     key = [] \<or> length key > 64 \<or> \<not> is_lower (hd key)
     \<or> \<not> list_all (\<lambda>c. is_lower c \<or> is_digit c \<or> c = CHR ''_'') key"

fun entitlements :: "entitlement_list \<Rightarrow> (string \<times> bool) list \<Rightarrow> entitlement_list option" where
  "entitlements acc [] = Some acc"
| "entitlements acc ((key, value) # rest) =
     (if bad_entitlement_key key \<or> length acc = 64 \<or> map_of acc key \<noteq> None then None
      else entitlements (acc @ [(key, value)]) rest)"

definition wf_entitlements :: "entitlement_list \<Rightarrow> bool" where
  "wf_entitlements m \<longleftrightarrow> length m \<le> 64 \<and> distinct (map fst m)
     \<and> (\<forall>k \<in> fst ` set m. \<not> bad_entitlement_key k)"

lemma entitlements_wf:
  "entitlements acc es = Some m \<Longrightarrow> wf_entitlements acc \<Longrightarrow> wf_entitlements m"
  by (induction acc es rule: entitlements.induct)
    (force simp: wf_entitlements_def map_of_eq_None_iff split: if_splits)+

lemma entitlements_append: "entitlements acc es = Some m \<Longrightarrow> m = acc @ es"
  by (induction acc es arbitrary: m rule: entitlements.induct) (auto split: if_splits)

lemma entitlements_Some_iff:
  "entitlements [] es = Some m \<longleftrightarrow> m = es \<and> wf_entitlements es"
proof
  assume "entitlements [] es = Some m"
  then show "m = es \<and> wf_entitlements es"
    using entitlements_append entitlements_wf by (fastforce simp: wf_entitlements_def)
next
  have "wf_entitlements (acc @ es) \<Longrightarrow> entitlements acc es = Some (acc @ es)" for acc
  proof (induction acc es rule: entitlements.induct)
    case (2 acc key v rest)
    have "\<not> bad_entitlement_key key \<and> length acc \<noteq> 64 \<and> map_of acc key = None"
      using "2.prems" by (auto simp: wf_entitlements_def map_of_eq_None_iff)
    then show ?case using 2 by auto
  qed simp
  from this[of "[]"] show "m = es \<and> wf_entitlements es \<Longrightarrow> entitlements [] es = Some m" by simp
qed

subsection \<open>Key sets\<close>

record keys =
  decoding :: "string \<rightharpoonup> decoding_key"
  public :: "string \<rightharpoonup> jwk"

definition no_keys :: keys where "no_keys = \<lparr>decoding = Map.empty, public = Map.empty\<rparr>"

definition check_jwk :: "libs \<Rightarrow> jwk \<Rightarrow> unit result" where
  "check_jwk L key =
     rbind (ensure InvalidResponse (\<not> (kty key \<noteq> ''EC'' \<or> crv key \<noteq> ''P-256''
        \<or> k_alg key \<noteq> ''ES256'' \<or> purpose key \<noteq> ''sig'' \<or> kid key = []
        \<or> length (kid key) > 128 \<or> \<not> list_all is_ascii (kid key)))) (\<lambda>_.
     rbind (canonical L (k_x key)) (\<lambda>x.
     rbind (ensure InvalidResponse (length x = 32)) (\<lambda>_.
     rbind (canonical L (k_y key)) (\<lambda>y.
     rbind (ensure InvalidResponse (length y = 32)) (\<lambda>_.
     rbind (ensure InvalidResponse (ec_agree L ([CHR 0x04] @ x @ y))) (\<lambda>_.
       ensure InvalidResponse (ec_components L (k_x key) (k_y key))))))))"

fun add_jwks :: "libs \<Rightarrow> keys \<Rightarrow> jwk list \<Rightarrow> keys result" where
  "add_jwks L ks [] = Inr ks"
| "add_jwks L ks (key # rest) =
     rbind (check_jwk L key) (\<lambda>_.
     rbind (ensure InvalidResponse (decoding ks (kid key) = None)) (\<lambda>_.
       add_jwks L \<lparr>decoding = (decoding ks)(kid key \<mapsto> (k_x key, k_y key)),
                   public = (public ks)(kid key \<mapsto> key)\<rparr> rest))"

definition from_jwks :: "libs \<Rightarrow> jwk list \<Rightarrow> keys result" where
  "from_jwks L jwks =
     rbind (ensure InvalidResponse (\<not> (jwks = [] \<or> length jwks > 8))) (\<lambda>_.
       add_jwks L no_keys jwks)"

definition keys_parse :: "libs \<Rightarrow> json \<Rightarrow> keys result" where
  "keys_parse L value =
     rbind (ok_or InvalidResponse (de_jwks L value)) (\<lambda>jwks. from_jwks L jwks)"

definition bad_kid :: "string \<Rightarrow> jwk \<Rightarrow> bool" where
  "bad_kid prefix key \<longleftrightarrow>
     \<not> starts_with (kid key) prefix \<or> length (kid key) = length prefix
     \<or> \<not> list_all (\<lambda>b. is_alphanumeric b \<or> b = CHR ''_'' \<or> b = CHR ''-'') (kid key)"

definition parse_offline :: "libs \<Rightarrow> string \<Rightarrow> string \<Rightarrow> keys result" where
  "parse_offline L data prefix =
     rbind (ensure Configuration (\<not> (data = [] \<or> length data > MAX_TOKEN))) (\<lambda>_.
     rbind (ok_or Configuration (de_jwks_bytes L data)) (\<lambda>jwks.
     rbind (ensure Configuration (\<not> list_ex (bad_kid prefix) jwks)) (\<lambda>_.
       map_err Configuration (from_jwks L jwks))))"

definition connected_prefix :: "string \<Rightarrow> string result" where
  "connected_prefix envt =
     (if envt = ''test'' then Inr ''test-''
      else if envt = ''live'' then Inr ''live-'' else Inl InvalidResponse)"

definition parse_connected :: "libs \<Rightarrow> string \<Rightarrow> string \<Rightarrow> keys result" where
  "parse_connected L data envt =
     rbind (ensure InvalidResponse (\<not> (data = [] \<or> length data > MAX_TOKEN))) (\<lambda>_.
     rbind (connected_prefix envt) (\<lambda>prefix.
     rbind (ok_or InvalidResponse (de_jwks_bytes L data)) (\<lambda>jwks.
     rbind (ensure InvalidResponse (\<not> list_ex (\<lambda>key.
         \<not> starts_with (kid key) prefix \<or> length (kid key) = length prefix
         \<or> \<not> opaque (kid key)) jwks)) (\<lambda>_.
       map_err InvalidResponse (from_jwks L jwks)))))"

subsection \<open>Headers\<close>

definition header :: "libs \<Rightarrow> string \<Rightarrow> jwt_header result" where
  "header L token =
     rbind (ensure InvalidResponse (\<not> length token > MAX_TOKEN)) (\<lambda>_.
     rbind (ok_or InvalidResponse (three_parts CHR ''.'' token)) (\<lambda>(p0, p1, p2).
     rbind (canonical L p2) (\<lambda>signature.
     rbind (ensure InvalidResponse (length signature = 64)) (\<lambda>_.
     rbind (canonical L p0) (\<lambda>bytes.
     rbind (ok_or InvalidResponse (de_header L bytes)) (\<lambda>h.
     rbind (canonical L p1) (\<lambda>_.
     rbind (ensure InvalidResponse (\<not> (h_alg h \<noteq> ''ES256'' \<or> h_typ h \<noteq> ''orbit-access+jwt''
         \<or> length (h_kid h) > 128))) (\<lambda>_.
       Inr h))))))))"

definition public_key :: "libs \<Rightarrow> keys \<Rightarrow> string \<Rightarrow> json result" where
  "public_key L ks token =
     rbind (header L token) (\<lambda>h.
     rbind (ok_or InvalidResponse (public ks (h_kid h))) (\<lambda>key.
       ok_or InvalidResponse (to_jwks L [key])))"

definition keys_contains :: "libs \<Rightarrow> keys \<Rightarrow> string \<Rightarrow> bool result" where
  "keys_contains L ks token =
     rbind (header L token) (\<lambda>h. Inr (decoding ks (h_kid h) \<noteq> None))"

subsection \<open>Verification\<close>

record expected =
  ex_issuer :: string
  ex_application :: string
  ex_environment :: string
  ex_licence :: "string option"
  ex_activation :: string
  ex_installation :: string
  ex_fingerprint :: "string option"
  ex_fingerprint_provider :: "string option"
  ex_allow_unbound_fingerprint :: bool
  ex_credential_expires_at :: "int option"
  ex_licence_expires_at :: "int option"
  ex_now :: int

definition decode_grant :: "libs \<Rightarrow> string \<Rightarrow> decoding_key \<Rightarrow> validation \<Rightarrow> grant_claims option" where
  "decode_grant L token key v =
     Option.bind (jwt_grant L token key v) (\<lambda>c.
     Option.bind (entitlements [] (gc_entitlements c)) (\<lambda>m. Some (c\<lparr>gc_entitlements := m\<rparr>)))"

text \<open>A grant with \<open>binding_mode = none\<close> must not mention a fingerprint at all.\<close>

definition check_unbound :: "libs \<Rightarrow> string \<Rightarrow> grant_claims \<Rightarrow> unit result" where
  "check_unbound L token claims =
     (if gc_binding_mode claims = ''none'' then
        rbind (ok_or InvalidResponse (three_parts CHR ''.'' token)) (\<lambda>(_, payload, _).
        rbind (canonical L payload) (\<lambda>bytes.
        rbind (ok_or InvalidResponse (from_slice_value L bytes)) (\<lambda>v.
        rbind (ok_or InvalidResponse (as_object v)) (\<lambda>members.
          ensure InvalidResponse (\<not> (contains_key members ''fingerprint''
            \<or> contains_key members ''fingerprint_provider''))))))
      else Inr ())"

definition grant_bound :: "grant_claims \<Rightarrow> expected \<Rightarrow> bool" where
  "grant_bound claims e =
     (case (ex_fingerprint e, ex_fingerprint_provider e) of
        (None, None) \<Rightarrow>
          gc_binding_mode claims = ''none'' \<and> gc_fingerprint claims = None
          \<and> gc_fingerprint_provider claims = None
      | (Some f, Some p) \<Rightarrow>
          (gc_binding_mode claims = ''hwid'' \<and> gc_fingerprint claims = Some f
            \<and> gc_fingerprint_provider claims = Some p)
          \<or> (ex_allow_unbound_fingerprint e \<and> gc_binding_mode claims = ''none''
            \<and> gc_fingerprint claims = None \<and> gc_fingerprint_provider claims = None)
      | _ \<Rightarrow> False)"

definition grant_allowance :: "grant_claims \<Rightarrow> int" where
  "grant_allowance claims = (if gc_offline_allowed claims then 86400 else 300)"

definition grant_refresh_bounds :: "grant_claims \<Rightarrow> expected \<Rightarrow> int \<times> int" where
  "grant_refresh_bounds claims e =
     (if ex_credential_expires_at e = None \<and> gc_offline_allowed claims then (675, 1125)
      else (45, 75))"

definition grant_rejected :: "grant_claims \<Rightarrow> expected \<Rightarrow> string \<Rightarrow> bool" where
  "grant_rejected c e audience \<longleftrightarrow>
     (let (refresh_min, refresh_max) = grant_refresh_bounds c e in
      gc_iss c \<noteq> ex_issuer e
      \<or> gc_aud c \<noteq> audience
      \<or> gc_sub c = []
      \<or> length (gc_sub c) > 128
      \<or> some_and (\<lambda>id. id \<noteq> gc_sub c) (ex_licence e)
      \<or> gc_jti c = []
      \<or> length (gc_jti c) > 128
      \<or> gc_application_id c \<noteq> ex_application e
      \<or> gc_environment_id c \<noteq> ex_environment e
      \<or> gc_activation_id c \<noteq> ex_activation e
      \<or> gc_installation_id c \<noteq> ex_installation e
      \<or> \<not> grant_bound c e
      \<or> gc_policy_version c < 1
      \<or> gc_iat c < 0
      \<or> gc_nbf c \<noteq> gc_iat c
      \<or> gc_iat c > saturating_add (ex_now e) 30
      \<or> gc_iat c < saturating_sub (ex_now e) 30
      \<or> gc_exp c \<le> ex_now e
      \<or> gc_exp c \<le> gc_iat c
      \<or> gc_exp c > saturating_add (gc_iat c) (grant_allowance c)
      \<or> some_and (\<lambda>expiry. gc_exp c > expiry) (ex_credential_expires_at e)
      \<or> gc_licence_expires_at c \<noteq> ex_licence_expires_at e
      \<or> some_and (\<lambda>expiry. gc_exp c > expiry) (gc_licence_expires_at c)
      \<or> gc_refresh_after c \<le> gc_iat c
      \<or> gc_refresh_after c > gc_exp c
      \<or> gc_refresh_after c > saturating_add (gc_iat c) refresh_max
      \<or> (gc_refresh_after c < saturating_add (gc_iat c) refresh_min
         \<and> gc_refresh_after c \<noteq> gc_exp c))"

definition grant_audience :: "expected \<Rightarrow> string" where
  "grant_audience e = ''orbit:'' @ ex_application e @ '':'' @ ex_environment e"

definition verify_grant :: "libs \<Rightarrow> keys \<Rightarrow> string \<Rightarrow> expected \<Rightarrow> grant_claims result" where
  "verify_grant L ks token e =
     rbind (header L token) (\<lambda>h.
     rbind (ok_or InvalidResponse (decoding ks (h_kid h))) (\<lambda>key.
     let audience = grant_audience e in
     rbind (ok_or InvalidResponse
        (decode_grant L token key (es256_validation audience (ex_issuer e)))) (\<lambda>claims.
     rbind (check_unbound L token claims) (\<lambda>_.
     rbind (ensure InvalidResponse (\<not> grant_rejected claims e audience)) (\<lambda>_.
       Inr claims)))))"

subsection \<open>Facts\<close>

lemma check_jwk_err: "check_jwk L k = Inl e \<Longrightarrow> e = InvalidResponse"
  by (auto simp: check_jwk_def result_simps dest: canonical_err)

lemma add_jwks_err: "add_jwks L ks js = Inl e \<Longrightarrow> e = InvalidResponse"
  by (induction js arbitrary: ks) (auto simp: result_simps dest: check_jwk_err)

lemma keys_parse_err: "keys_parse L v = Inl e \<Longrightarrow> e = InvalidResponse"
  by (auto simp: keys_parse_def from_jwks_def result_simps dest: add_jwks_err)

lemma header_err: "header L t = Inl e \<Longrightarrow> e = InvalidResponse"
  by (auto simp: header_def rbind_Inl_iff ensure_iff ok_or_iff dest!: canonical_err)

lemma header_length: "header L t = Inr h \<Longrightarrow> length t \<le> MAX_TOKEN"
  by (auto simp: header_def rbind_Inr_iff ensure_iff)

lemma check_unbound_err: "check_unbound L t c = Inl e \<Longrightarrow> e = InvalidResponse"
  by (auto simp: check_unbound_def rbind_Inl_iff ensure_iff ok_or_iff dest!: canonical_err split: if_splits)

lemma verify_grant_err: "verify_grant L ks t e = Inl x \<Longrightarrow> x = InvalidResponse"
  by (auto simp: verify_grant_def Let_def rbind_Inl_iff ensure_iff ok_or_iff
      dest: header_err check_unbound_err)

lemma verify_grant_accepted:
  "verify_grant L ks t e = Inr c \<Longrightarrow> \<not> grant_rejected c e (grant_audience e)"
  by (auto simp: verify_grant_def Let_def rbind_Inr_iff ensure_iff ok_or_iff)

lemma verify_grant_entitlements:
  "verify_grant L ks t e = Inr c \<Longrightarrow> wf_entitlements (gc_entitlements c)"
  by (auto simp: verify_grant_def Let_def rbind_Inr_iff ensure_iff ok_or_iff decode_grant_def
      bind_eq_Some_conv entitlements_Some_iff)

lemma verify_grant_signed:
  assumes "verify_grant L ks t e = Inr c"
  shows "\<exists>h key. header L t = Inr h \<and> decoding ks (h_kid h) = Some key
     \<and> decode_grant L t key (es256_validation (grant_audience e) (ex_issuer e)) = Some c"
  using assms by (auto simp: verify_grant_def Let_def rbind_Inr_iff ensure_iff ok_or_iff)

lemma le_saturateD: "a \<le> saturate x \<Longrightarrow> 0 \<le> a \<Longrightarrow> a \<le> x"
  by (simp add: saturate_def i64_defs max_def min_def split: if_splits)

lemma saturate_leD: "saturate x \<le> a \<Longrightarrow> a < i64_max \<Longrightarrow> x \<le> a"
  by (simp add: saturate_def i64_defs max_def min_def split: if_splits)

lemma saturate_le_max: "a \<le> saturate x \<Longrightarrow> a \<le> i64_max"
  using i64_saturate[of x] by (simp add: i64_def)

lemma grant_accepted_times:
  assumes "\<not> grant_rejected c e a"
  shows "0 \<le> gc_iat c" "gc_iat c < gc_exp c" "ex_now e < gc_exp c"
    "gc_iat c \<le> ex_now e + 30" "ex_now e - 30 \<le> gc_iat c"
    "gc_exp c \<le> gc_iat c + grant_allowance c" "gc_exp c \<le> i64_max" "gc_nbf c = gc_iat c"
    "gc_iat c < gc_refresh_after c" "gc_refresh_after c \<le> gc_exp c"
proof -
  note d = assms[unfolded grant_rejected_def Let_def split_beta, simplified]
  have iat: "0 \<le> gc_iat c" "gc_iat c < gc_exp c" "ex_now e < gc_exp c" using d by auto
  then show "0 \<le> gc_iat c" "gc_iat c < gc_exp c" "ex_now e < gc_exp c" by auto
  have "gc_exp c \<le> saturate (gc_iat c + grant_allowance c)" using d by (auto simp: saturating_add_def)
  then show e1: "gc_exp c \<le> gc_iat c + grant_allowance c" and e2: "gc_exp c \<le> i64_max"
    using iat le_saturateD saturate_le_max by fastforce+
  have "gc_iat c \<le> saturate (ex_now e + 30)" using d by (auto simp: saturating_add_def)
  then show "gc_iat c \<le> ex_now e + 30" using iat le_saturateD by blast
  have "saturate (ex_now e - 30) \<le> gc_iat c" using d by (auto simp: saturating_sub_def)
  then show "ex_now e - 30 \<le> gc_iat c" using iat e2 saturate_leD by fastforce
  show "gc_nbf c = gc_iat c" "gc_iat c < gc_refresh_after c" "gc_refresh_after c \<le> gc_exp c"
    using d by auto
qed

lemmas verify_grant_times = grant_accepted_times[OF verify_grant_accepted]

lemma grant_allowance_le: "grant_allowance c \<le> 86400"
  by (simp add: grant_allowance_def)

interpretation grant: token_verifier "\<lambda>t e. verify_grant L ks t e" gc_exp ex_now "86400 + 30"
  for L ks
proof unfold_locales
  fix t e c
  assume c: "verify_grant L ks t e = Inr c"
  show "ex_now e < gc_exp c" by (rule verify_grant_times[OF c])
  show "gc_exp c \<le> ex_now e + (86400 + 30)"
    using verify_grant_times(4,6)[OF c] grant_allowance_le[of c] by linarith
next
  fix t e x
  assume "verify_grant L ks t e = Inl x"
  then show "x = InvalidResponse" by (rule verify_grant_err)
qed

end
