(* ===== verification/Sessions.thy ===== *)
theory Sessions
  imports Grants
begin

text \<open>
  Floating-session grants (\<open>sessions.rs\<close>): the key-set wrapper, the key id of a token and the
  verifier of a connected session grant.
\<close>

text \<open>\<open>SessionKeys\<close> wraps \<open>Keys\<close>.\<close>

definition session_keys_parse :: "libs \<Rightarrow> string \<Rightarrow> string \<Rightarrow> keys result" where
  "session_keys_parse L data envt = parse_connected L data envt"

definition session_keys_contains :: "keys \<Rightarrow> string \<Rightarrow> bool" where
  "session_keys_contains ks key_id = (decoding ks key_id \<noteq> None)"

definition key_id :: "libs \<Rightarrow> string \<Rightarrow> string result" where
  "key_id L token =
     rbind (ensure InvalidResponse (\<not> (token = [] \<or> length token > MAX_TOKEN
        \<or> \<not> list_all is_ascii token))) (\<lambda>_.
     rbind (ok_or InvalidResponse (split_once CHR ''.'' token)) (\<lambda>(h, _).
     rbind (canonical L h) (\<lambda>bytes.
     rbind (ok_or InvalidResponse (de_header L bytes)) (\<lambda>v.
     rbind (ensure InvalidResponse (\<not> (h_alg v \<noteq> ''ES256'' \<or> h_typ v \<noteq> ''orbit-session+jwt''
        \<or> \<not> opaque (h_kid v)))) (\<lambda>_.
       Inr (h_kid v))))))"

record session_expected =
  se_issuer :: string
  se_application :: string
  se_environment :: string
  se_licence :: "string option"
  se_activation :: string
  se_installation :: string
  se_fingerprint :: "string option"
  se_fingerprint_provider :: "string option"
  se_allow_unbound_fingerprint :: bool
  se_credential_expires_at :: "int option"
  se_licence_expires_at :: "int option"
  se_now :: int
  se_session_id :: string
  se_sequence :: nat

record session_grant =
  sg_session_id :: string
  sg_sequence :: nat
  sg_expires_at :: int
  sg_refresh_after :: int
  sg_entitlements :: entitlement_list

definition decode_session :: "libs \<Rightarrow> string \<Rightarrow> decoding_key \<Rightarrow> validation \<Rightarrow> session_claims option" where
  "decode_session L token key v =
     Option.bind (jwt_session L token key v) (\<lambda>c.
     Option.bind (entitlements [] (sn_entitlements c)) (\<lambda>m. Some (c\<lparr>sn_entitlements := m\<rparr>)))"

definition known_fields :: "string list" where
  "known_fields =
     [''iss'', ''aud'', ''sub'', ''jti'', ''iat'', ''nbf'', ''exp'', ''application_id'',
      ''environment_id'', ''activation_id'', ''installation_id'', ''binding_mode'',
      ''fingerprint'', ''fingerprint_provider'', ''policy_version'', ''entitlements'',
      ''refresh_after'', ''offline_allowed'', ''licence_expires_at'', ''session_id'',
      ''session_sequence'']"

definition case_variant :: "string \<Rightarrow> bool" where
  "case_variant field \<longleftrightarrow>
     list_ex (\<lambda>name. field \<noteq> name \<and> map to_lower field = map to_lower name) known_fields"

definition session_bound :: "session_claims \<Rightarrow> session_expected \<Rightarrow> bool \<Rightarrow> bool" where
  "session_bound c e no_fingerprint_claims =
     (if sn_binding_mode c = ''none'' then
        no_fingerprint_claims
        \<and> ((se_fingerprint e = None \<and> se_fingerprint_provider e = None)
           \<or> (se_allow_unbound_fingerprint e \<and> se_fingerprint e \<noteq> None
              \<and> se_fingerprint_provider e \<noteq> None))
      else if sn_binding_mode c = ''hwid'' then
        se_fingerprint e \<noteq> None \<and> se_fingerprint_provider e \<noteq> None
        \<and> sn_fingerprint c = se_fingerprint e
        \<and> sn_fingerprint_provider c = se_fingerprint_provider e
        \<and> some_and (\<lambda>v. lower_hex v 64) (sn_fingerprint c)
        \<and> some_and valid_provider (sn_fingerprint_provider c)
      else False)"

definition session_rejected :: "session_claims \<Rightarrow> session_expected \<Rightarrow> string \<Rightarrow> bool \<Rightarrow> bool" where
  "session_rejected c e audience no_fingerprint_claims \<longleftrightarrow>
     sn_iss c \<noteq> se_issuer e
     \<or> sn_aud c \<noteq> audience
     \<or> \<not> opaque (sn_sub c)
     \<or> some_and (\<lambda>v. v \<noteq> sn_sub c) (se_licence e)
     \<or> \<not> opaque (sn_jti c)
     \<or> \<not> opaque (sn_application_id c)
     \<or> \<not> opaque (sn_environment_id c)
     \<or> \<not> opaque (sn_activation_id c)
     \<or> \<not> opaque (sn_installation_id c)
     \<or> sn_application_id c \<noteq> se_application e
     \<or> sn_environment_id c \<noteq> se_environment e
     \<or> sn_activation_id c \<noteq> se_activation e
     \<or> sn_installation_id c \<noteq> se_installation e
     \<or> sn_session_id c \<noteq> se_session_id e
     \<or> sn_session_sequence c \<noteq> se_sequence e
     \<or> \<not> session_bound c e no_fingerprint_claims
     \<or> sn_policy_version c < 1
     \<or> sn_offline_allowed c
     \<or> \<not> valid_time (sn_iat c)
     \<or> sn_nbf c \<noteq> sn_iat c
     \<or> sn_iat c > saturating_add (se_now e) 30
     \<or> \<not> valid_time (sn_exp c)
     \<or> sn_exp c \<le> se_now e
     \<or> sn_exp c \<le> sn_iat c
     \<or> saturating_sub (sn_exp c) (sn_iat c) > 120
     \<or> some_and (\<lambda>expiry. \<not> valid_time expiry) (sn_licence_expires_at c)
     \<or> some_and (\<lambda>expiry. sn_exp c > expiry) (se_credential_expires_at e)
     \<or> sn_licence_expires_at c \<noteq> se_licence_expires_at e
     \<or> some_and (\<lambda>expiry. sn_exp c > expiry) (sn_licence_expires_at c)
     \<or> \<not> valid_time (sn_refresh_after c)
     \<or> sn_refresh_after c \<le> sn_iat c
     \<or> sn_refresh_after c > sn_exp c
     \<or> sn_refresh_after c > saturating_add (sn_iat c) 75
     \<or> (sn_refresh_after c < saturating_add (sn_iat c) 45 \<and> sn_refresh_after c \<noteq> sn_exp c)"

definition session_precheck :: "string \<Rightarrow> session_expected \<Rightarrow> bool" where
  "session_precheck token e \<longleftrightarrow>
     token = []
     \<or> length token > MAX_TOKEN
     \<or> \<not> list_all is_ascii token
     \<or> \<not> valid_time (se_now e)
     \<or> \<not> opaque (se_session_id e)
     \<or> length (se_session_id e) < 16
     \<or> \<not> (1 \<le> se_sequence e \<and> se_sequence e \<le> MAX_SEQUENCE)
     \<or> (se_fingerprint e \<noteq> None) \<noteq> (se_fingerprint_provider e \<noteq> None)
     \<or> \<not> opaque (se_application e)
     \<or> \<not> opaque (se_environment e)
     \<or> \<not> opaque (se_activation e)
     \<or> \<not> opaque (se_installation e)
     \<or> some_and (\<lambda>l. \<not> opaque l) (se_licence e)"

definition session_audience :: "session_expected \<Rightarrow> string" where
  "session_audience e = ''orbit-session:'' @ se_application e @ '':'' @ se_environment e"

definition session_of_claims :: "session_claims \<Rightarrow> session_grant" where
  "session_of_claims c =
     \<lparr>sg_session_id = sn_session_id c, sg_sequence = sn_session_sequence c,
      sg_expires_at = sn_exp c, sg_refresh_after = sn_refresh_after c,
      sg_entitlements = sn_entitlements c\<rparr>"

definition verify_session :: "libs \<Rightarrow> keys \<Rightarrow> string \<Rightarrow> session_expected \<Rightarrow> session_grant result" where
  "verify_session L ks token e =
     rbind (ensure InvalidResponse (\<not> session_precheck token e)) (\<lambda>_.
     rbind (ok_or InvalidResponse (three_parts CHR ''.'' token)) (\<lambda>(hp, pp, sp).
     rbind (canonical L hp) (\<lambda>hb.
     rbind (ok_or InvalidResponse (de_header L hb)) (\<lambda>h.
     rbind (ensure InvalidResponse (\<not> (h_alg h \<noteq> ''ES256'' \<or> h_typ h \<noteq> ''orbit-session+jwt''
        \<or> \<not> opaque (h_kid h)))) (\<lambda>_.
     rbind (canonical L pp) (\<lambda>payload.
     rbind (canonical L sp) (\<lambda>signature.
     rbind (ensure InvalidResponse (length signature = 64)) (\<lambda>_.
     rbind (ok_or InvalidResponse (from_slice_unique L payload)) (\<lambda>v.
     rbind (ok_or InvalidResponse (as_object v)) (\<lambda>members.
     rbind (ensure InvalidResponse (\<not> list_ex case_variant (map fst members))) (\<lambda>_.
     let no_fp = \<not> contains_key members ''fingerprint'' \<and> \<not> contains_key members ''fingerprint_provider'' in
     rbind (ok_or InvalidResponse (decoding ks (h_kid h))) (\<lambda>key.
     let audience = session_audience e in
     rbind (ok_or InvalidResponse
        (decode_session L token key (es256_validation audience (se_issuer e)))) (\<lambda>claims.
     rbind (ensure InvalidResponse (\<not> session_rejected claims e audience no_fp)) (\<lambda>_.
       Inr (session_of_claims claims)))))))))))))))"

subsection \<open>Facts\<close>

lemma verify_session_err: "verify_session L ks t e = Inl x \<Longrightarrow> x = InvalidResponse"
  by (auto simp: verify_session_def Let_def rbind_Inl_iff ensure_iff ok_or_iff dest!: canonical_err)

lemma verify_session_accepted:
  assumes "verify_session L ks t e = Inr g"
  shows "\<exists>c key no_fp. g = session_of_claims c \<and> \<not> session_precheck t e
    \<and> \<not> session_rejected c e (session_audience e) no_fp
    \<and> wf_entitlements (sn_entitlements c)
    \<and> decode_session L t key (es256_validation (session_audience e) (se_issuer e)) = Some c"
proof -
  from assms obtain key no_fp c where
    "g = session_of_claims c" "\<not> session_precheck t e"
    "\<not> session_rejected c e (session_audience e) no_fp"
    "decode_session L t key (es256_validation (session_audience e) (se_issuer e)) = Some c"
    by (auto simp: verify_session_def Let_def rbind_Inr_iff ensure_iff ok_or_iff)
  moreover from this(4) have "wf_entitlements (sn_entitlements c)"
    by (auto simp: decode_session_def bind_eq_Some_conv entitlements_Some_iff)
  ultimately show ?thesis by blast
qed

lemma session_accepted_times:
  assumes "\<not> session_rejected c e a nf"
  shows "0 \<le> sn_iat c" "sn_iat c < sn_exp c" "se_now e < sn_exp c" "sn_iat c \<le> se_now e + 30"
    "sn_exp c \<le> sn_iat c + 120" "valid_time (sn_exp c)" "valid_time (sn_refresh_after c)"
    "sn_refresh_after c \<le> sn_exp c"
proof -
  note d = assms[unfolded session_rejected_def, simplified]
  have iat: "valid_time (sn_iat c)" "valid_time (sn_exp c)" using d by auto
  then show "0 \<le> sn_iat c" by (simp add: valid_time_def)
  show "sn_iat c < sn_exp c" "se_now e < sn_exp c" "valid_time (sn_exp c)"
    "valid_time (sn_refresh_after c)" "sn_refresh_after c \<le> sn_exp c" using d by auto
  have "sn_iat c \<le> saturate (se_now e + 30)" using d by (auto simp: saturating_add_def)
  then show "sn_iat c \<le> se_now e + 30" using iat le_saturateD by (simp add: valid_time_def)
  have "i64 (sn_exp c - sn_iat c)"
    using iat by (auto simp: valid_time_def MAX_TIME_def i64_defs)
  then show "sn_exp c \<le> sn_iat c + 120" using d by (auto simp: saturating_sub_def)
qed

lemma verify_session_facts:
  assumes "verify_session L ks t e = Inr g"
  shows "se_now e < sg_expires_at g" "sg_expires_at g \<le> se_now e + 150"
    "sg_session_id g = se_session_id e" "sg_sequence g = se_sequence e"
    "valid_time (sg_expires_at g)" "valid_time (sg_refresh_after g)"
    "1 \<le> sg_sequence g" "sg_sequence g \<le> MAX_SEQUENCE" "wf_entitlements (sg_entitlements g)"
    "opaque (sg_session_id g)"
proof -
  from verify_session_accepted[OF assms] obtain c key nf where
    g: "g = session_of_claims c" and p: "\<not> session_precheck t e"
    and r: "\<not> session_rejected c e (session_audience e) nf"
    and w: "wf_entitlements (sn_entitlements c)" by blast
  note t = session_accepted_times[OF r]
  show "se_now e < sg_expires_at g" "sg_expires_at g \<le> se_now e + 150"
    "valid_time (sg_expires_at g)" "valid_time (sg_refresh_after g)"
    using t by (auto simp: g session_of_claims_def)
  show "sg_session_id g = se_session_id e" "sg_sequence g = se_sequence e"
    using r by (auto simp: g session_of_claims_def session_rejected_def)
  moreover show "1 \<le> sg_sequence g" "sg_sequence g \<le> MAX_SEQUENCE"
    "opaque (sg_session_id g)"
    using p calculation by (auto simp: session_precheck_def)
  show "wf_entitlements (sg_entitlements g)" using w by (simp add: g session_of_claims_def)
qed

interpretation session: token_verifier "\<lambda>t e. verify_session L ks t e" sg_expires_at se_now 150
  for L ks
  by unfold_locales (auto dest: verify_session_facts verify_session_err)

end
