(* ===== verification/Offline.thy ===== *)
theory Offline
  imports Sessions
begin

text \<open>
  Long-term offline files (\<open>offline.rs\<close>): the persisted and running state of a file and the
  verifier of its signed content.
\<close>

definition MAX_LIFETIME :: int where "MAX_LIFETIME = 366 * 86400"

record verified =
  vf_issuance_id :: string
  vf_issued_at :: int
  vf_expires_at :: int
  vf_sequence :: nat
  vf_entitlements :: entitlement_list
  vf_content_digest :: string

record persisted =
  pf_jws :: "string option"
  pf_sequence :: nat
  pf_issuance_id :: string
  pf_content_digest :: string
  pf_verified_at :: int
  pf_time_high_water :: int
  pf_wall_high_water :: int

record offline_runtime =
  or_verified :: "verified option"
  or_anchor :: "anchor option"
  or_saved :: persisted
  or_authorized :: bool
  or_uncertain :: bool
  or_last_checkpoint :: duration

fun offline_entitlements :: "(string \<times> bool) list \<Rightarrow> entitlement_list \<Rightarrow> entitlement_list option" where
  "offline_entitlements acc [] = Some acc"
| "offline_entitlements acc ((name, enabled) # rest) =
     (if bad_entitlement_key name \<or> length acc \<ge> 64 \<or> map_of acc name \<noteq> None then None
      else offline_entitlements (acc @ [(name, enabled)]) rest)"

lemma offline_entitlements_eq:
  "length acc \<le> 64 \<Longrightarrow> offline_entitlements acc es = entitlements acc es"
proof (induction acc es rule: offline_entitlements.induct)
  case (2 acc name enabled rest)
  then show ?case by (cases "length acc = 64") auto
qed simp

definition kid_prefix :: "string \<Rightarrow> string" where
  "kid_prefix envt = (if envt = ''live'' then ''offline-live-'' else ''offline-test-'')"

definition parse_keys :: "libs \<Rightarrow> string \<Rightarrow> string \<Rightarrow> keys result" where
  "parse_keys L bytes envt = parse_offline L bytes (kid_prefix envt)"

definition opaque_between :: "string \<Rightarrow> nat \<Rightarrow> nat \<Rightarrow> bool" where
  "opaque_between v lo hi \<longleftrightarrow> lo \<le> length v \<and> length v \<le> hi
     \<and> list_all (\<lambda>c. is_alphanumeric c \<or> c = CHR ''_'' \<or> c = CHR ''-'') v"

definition offline_denied :: "string \<Rightarrow> error" where
  "offline_denied code = Denied code None"

definition stale :: error where "stale = offline_denied ''offline_sequence''"
definition expired :: error where "expired = offline_denied ''offline_file_expired''"

definition offline_bound :: "offline_claims \<Rightarrow> (string \<times> json) list \<Rightarrow> device \<Rightarrow> bool" where
  "offline_bound c members dev =
     (if oc_binding_mode c = ''none'' then
        \<not> contains_key members ''fingerprint'' \<and> \<not> contains_key members ''fingerprint_provider''
      else if oc_binding_mode c = ''hwid'' then
        contains_key members ''fingerprint'' \<and> contains_key members ''fingerprint_provider''
        \<and> fingerprint dev = oc_fingerprint c
        \<and> fingerprint_provider dev = oc_fingerprint_provider c
        \<and> oc_fingerprint c \<noteq> None \<and> oc_fingerprint_provider c \<noteq> None
      else False)"

definition offline_audience :: "app_key \<Rightarrow> string" where
  "offline_audience key = ''orbit-offline:'' @ application_id key @ '':'' @ environment_id key"

definition offline_rejected ::
    "offline_claims \<Rightarrow> app_key \<Rightarrow> device \<Rightarrow> int \<Rightarrow> nat \<Rightarrow> bool \<Rightarrow> bool" where
  "offline_rejected c key dev now minimum_sequence bound \<longleftrightarrow>
     oc_ver c \<noteq> 1
     \<or> oc_iss c \<noteq> issuer key
     \<or> oc_aud c \<noteq> offline_audience key
     \<or> \<not> opaque_between (oc_sub c) 1 128
     \<or> \<not> opaque_between (oc_jti c) 1 128
     \<or> oc_application_id c \<noteq> application_id key
     \<or> oc_environment_id c \<noteq> environment_id key
     \<or> \<not> opaque_between (oc_activation_id c) 1 128
     \<or> oc_installation_id c \<noteq> installation_id dev
     \<or> \<not> opaque_between (oc_installation_id c) 16 128
     \<or> oc_sequence c < minimum_sequence
     \<or> oc_sequence c < 1
     \<or> oc_sequence c > MAX_SEQUENCE
     \<or> oc_policy_version c < 1
     \<or> oc_iat c < 0
     \<or> oc_iat c > MAX_TIME
     \<or> oc_nbf c \<noteq> oc_iat c
     \<or> oc_iat c > saturating_add now 30
     \<or> oc_exp c \<le> now
     \<or> oc_exp c \<le> oc_iat c
     \<or> oc_exp c > MAX_TIME
     \<or> oc_exp c - oc_iat c > MAX_LIFETIME
     \<or> some_and (\<lambda>expiry. expiry < oc_exp c \<or> expiry > MAX_TIME) (oc_licence_expires_at c)
     \<or> \<not> bound"

definition offline_whitespace :: "char set" where
  "offline_whitespace = {CHR '' '', CHR 0x09, CHR 0x0D, CHR 0x0A, CHR 0x0B, CHR 0x0C}"

definition bad_offline_header :: "string \<Rightarrow> jwt_header \<Rightarrow> bool" where
  "bad_offline_header prefix h \<longleftrightarrow>
     h_alg h \<noteq> ''ES256'' \<or> h_typ h \<noteq> ''orbit-offline+jwt'' \<or> \<not> starts_with (h_kid h) prefix
     \<or> length (h_kid h) = length prefix
     \<or> \<not> list_all (\<lambda>b. is_alphanumeric b \<or> b = CHR ''_'' \<or> b = CHR ''-'') (h_kid h)"

definition decode_offline :: "libs \<Rightarrow> string \<Rightarrow> offline_claims option" where
  "decode_offline L bytes =
     Option.bind (de_offline L bytes) (\<lambda>c.
     Option.bind (offline_entitlements [] (oc_entitlements c)) (\<lambda>m.
       Some (c\<lparr>oc_entitlements := m\<rparr>)))"

text \<open>The validation of the final decode checks the signature only.\<close>

definition offline_validation :: validation where
  "offline_validation =
     \<lparr>val_algorithm = ''ES256'', val_exp = False, val_nbf = False, val_aud = None,
      val_iss = None, val_leeway = 0, val_required = [''exp'']\<rparr>"

definition verified_of :: "libs \<Rightarrow> offline_claims \<Rightarrow> string \<Rightarrow> verified" where
  "verified_of L claims bytes =
     \<lparr>vf_issuance_id = oc_jti claims,
      vf_issued_at = oc_iat claims,
      vf_expires_at = oc_exp claims,
      vf_sequence = oc_sequence claims,
      vf_entitlements = oc_entitlements claims,
      vf_content_digest = digest L bytes\<rparr>"

definition verify_offline ::
    "libs \<Rightarrow> string \<Rightarrow> keys \<Rightarrow> app_key \<Rightarrow> device \<Rightarrow> int \<Rightarrow> nat \<Rightarrow> verified result" where
  "verify_offline L raw ks key dev now minimum_sequence =
     rbind (ensure InvalidResponse (\<not> (raw = [] \<or> length raw > MAX_TOKEN))) (\<lambda>_.
     rbind (ensure InvalidResponse (utf8 L raw)) (\<lambda>_.
     let token = trim_matches offline_whitespace raw in
     rbind (ok_or InvalidResponse (three_parts CHR ''.'' token)) (\<lambda>(hp, pp, sp).
     rbind (canonical L hp) (\<lambda>hb.
     rbind (ok_or InvalidResponse (de_header L hb)) (\<lambda>h.
     rbind (ensure InvalidResponse (\<not> bad_offline_header (kid_prefix (environment key)) h)) (\<lambda>_.
     rbind (canonical L sp) (\<lambda>signature.
     rbind (ensure InvalidResponse (length signature = 64)) (\<lambda>_.
     rbind (canonical L pp) (\<lambda>payload.
     rbind (ok_or InvalidResponse (from_slice_value L payload)) (\<lambda>v.
     rbind (ok_or InvalidResponse (decode_offline L payload)) (\<lambda>claims.
     rbind (ok_or InvalidResponse (as_object v)) (\<lambda>members.
     rbind (ensure InvalidResponse
        (\<not> some_and (\<lambda>x. as_i64 x = None) (map_of members ''licence_expires_at''))) (\<lambda>_.
     let bound = offline_bound claims members dev in
     rbind (ensure InvalidResponse
        (\<not> offline_rejected claims key dev now minimum_sequence bound)) (\<lambda>_.
     rbind (ok_or InvalidResponse (decoding ks (h_kid h))) (\<lambda>dk.
     rbind (ok_or InvalidResponse (jwt_offline L token dk offline_validation)) (\<lambda>signed.
     rbind (ok_or InvalidResponse (offline_entitlements [] (oc_entitlements signed))) (\<lambda>_.
     rbind (ok_or InvalidResponse (to_bytes L v)) (\<lambda>canonical_bytes.
       Inr (verified_of L claims canonical_bytes)))))))))))))))))))"

subsection \<open>Facts\<close>

lemma opaque_between_opaque: "opaque_between v 1 128 = opaque v"
  by (simp add: opaque_between_def opaque_def)

lemma verify_offline_err: "verify_offline L raw ks k d now n = Inl x \<Longrightarrow> x = InvalidResponse"
  by (auto simp: verify_offline_def Let_def rbind_Inl_iff ensure_iff ok_or_iff dest!: canonical_err)

text \<open>Everything an accepted file says about itself, and which signature check it passed.\<close>

definition offline_accepted ::
    "libs \<Rightarrow> string \<Rightarrow> keys \<Rightarrow> app_key \<Rightarrow> device \<Rightarrow> int \<Rightarrow> nat \<Rightarrow> offline_claims \<Rightarrow> bool" where
  "offline_accepted L raw ks key dev now n c \<longleftrightarrow>
     \<not> offline_rejected c key dev now n True \<and> wf_entitlements (oc_entitlements c)
     \<and> raw \<noteq> [] \<and> length raw \<le> MAX_TOKEN
     \<and> (\<exists>kid dk s. decoding ks kid = Some dk
        \<and> jwt_offline L (trim_matches offline_whitespace raw) dk offline_validation = Some s)"

lemma verify_offline_accepted:
  assumes "verify_offline L raw ks k d now n = Inr v"
  shows "\<exists>c b. offline_accepted L raw ks k d now n c
    \<and> v = verified_of L c b"
proof -
  from assms obtain payload c kd dk s members b where
    c: "decode_offline L payload = Some c"
    and r: "\<not> offline_rejected c k d now n (offline_bound c members d)"
    and key: "decoding ks kd = Some dk"
    and sig: "jwt_offline L (trim_matches offline_whitespace raw) dk offline_validation = Some s"
    and raw: "raw \<noteq> []" "\<not> MAX_TOKEN < length raw"
    and v: "v = verified_of L c b"
    by (auto simp: verify_offline_def Let_def rbind_Inr_iff ensure_iff ok_or_iff)
  have "wf_entitlements (oc_entitlements c)"
    using c by (auto simp: decode_offline_def bind_eq_Some_conv offline_entitlements_eq
        entitlements_Some_iff)
  moreover have "\<not> offline_rejected c k d now n True"
    using r by (auto simp: offline_rejected_def)
  ultimately show ?thesis using key sig raw v unfolding offline_accepted_def not_less by blast
qed

lemma verify_offline_facts:
  assumes "verify_offline L raw ks k d now n = Inr v"
  shows "now < vf_expires_at v" "vf_expires_at v \<le> MAX_TIME" "0 \<le> vf_issued_at v"
    "vf_issued_at v \<le> now + 30" "vf_expires_at v \<le> vf_issued_at v + MAX_LIFETIME"
    "vf_issued_at v < vf_expires_at v"
    "n \<le> vf_sequence v" "1 \<le> vf_sequence v" "vf_sequence v \<le> MAX_SEQUENCE"
    "opaque (vf_issuance_id v)" "wf_entitlements (vf_entitlements v)"
    "raw \<noteq> []" "length raw \<le> MAX_TOKEN"
proof -
  from verify_offline_accepted[OF assms] obtain c b where
    a: "offline_accepted L raw ks k d now n c"
    and v: "v = verified_of L c b" by blast
  have r: "\<not> offline_rejected c k d now n True" using a by (simp add: offline_accepted_def)
  note d = r[unfolded offline_rejected_def opaque_between_opaque, simplified]
  show "now < vf_expires_at v" "vf_expires_at v \<le> MAX_TIME" "0 \<le> vf_issued_at v"
    "vf_expires_at v \<le> vf_issued_at v + MAX_LIFETIME" "vf_issued_at v < vf_expires_at v"
    "n \<le> vf_sequence v" "1 \<le> vf_sequence v" "vf_sequence v \<le> MAX_SEQUENCE"
    "opaque (vf_issuance_id v)" using d by (auto simp: v verified_of_def)
  have "oc_iat c \<le> saturate (now + 30)" "0 \<le> oc_iat c" using d by (auto simp: saturating_add_def)
  then show "vf_issued_at v \<le> now + 30" using le_saturateD by (auto simp: v verified_of_def)
  show "wf_entitlements (vf_entitlements v)" "raw \<noteq> []" "length raw \<le> MAX_TOKEN"
    using a by (auto simp: v verified_of_def offline_accepted_def)
qed

lemma verify_offline_digest:
  assumes "verify_offline L raw ks k d now n = Inr v" "\<And>s. length (sha256 L s) = 32"
  shows "length (vf_content_digest v) = 64" "list_all is_lower_hex (vf_content_digest v)"
  using verify_offline_accepted[OF assms(1)] assms(2) by (auto simp: verified_of_def digest_def)

text \<open>A file verified at one moment verifies at every later one before its expiry, against any
  floor its sequence still meets, and says the same.\<close>

lemma verify_offline_later:
  assumes "verify_offline L raw ks k d now n = Inr v"
    and "now \<le> now'" "now' < vf_expires_at v" "n' \<le> vf_sequence v"
  shows "verify_offline L raw ks k d now' n' = Inr v"
proof -
  have mono: "saturating_add now 30 \<le> saturating_add now' 30"
    using assms(2) by (simp add: saturating_add_def saturate_def)
  have "offline_rejected c k d now' n' b \<Longrightarrow> \<not> offline_rejected c k d now n b \<Longrightarrow>
      oc_exp c = vf_expires_at v \<Longrightarrow> oc_sequence c = vf_sequence v \<Longrightarrow> False" for c b
    using assms(2-4) mono unfolding offline_rejected_def by (elim disjE) auto
  then show ?thesis using assms(1)
    by (fastforce simp: verify_offline_def verified_of_def Let_def rbind_Inr_iff ensure_iff ok_or_iff)
qed

interpretation offline_file: token_verifier
  "\<lambda>t e. verify_offline L t ks k d (fst e) (snd e)" vf_expires_at fst "366 * 86400 + 30"
  for L ks k d
proof unfold_locales
  fix t and e :: "int \<times> nat" and c
  assume c: "verify_offline L t ks k d (fst e) (snd e) = Inr c"
  show "fst e < vf_expires_at c" by (rule verify_offline_facts[OF c])
  show "vf_expires_at c \<le> fst e + (366 * 86400 + 30)"
    using verify_offline_facts(4,5)[OF c] by (simp add: MAX_LIFETIME_def)
next
  fix t and e :: "int \<times> nat" and x
  assume "verify_offline L t ks k d (fst e) (snd e) = Inl x"
  then show "x = InvalidResponse" by (rule verify_offline_err)
qed

end
