(* ===== verification/Installed.thy ===== *)
theory Installed
  imports Storage Offline
begin

text \<open>
  The durable state of an installation (\<open>installed.rs\<close>): the persisted record and its
  validation, the disk state with its poisoning discipline, and every operation of
  \<open>InstalledStorage\<close>.
\<close>

definition MAX_BYTES :: nat where "MAX_BYTES = 65536"
definition MAX_GENERATION :: nat where "MAX_GENERATION = 9223372036854775807"

subsection \<open>The record\<close>

record scope =
  s_api_origin :: string
  s_issuer :: string
  s_application_id :: string
  s_environment_id :: string

record credential =
  c_activation_id :: string
  c_licence_id :: string
  c_bearer :: string
  c_expires_at :: "int option"

record pending =
  p_operation_id :: string
  p_principal_kind :: string
  p_input_digest :: string
  p_created_at :: int

record cache =
  ca_jws :: string
  ca_jwks :: "jwk list"
  ca_licence_expires_at :: "int option"
  ca_received_server_time :: int
  ca_received_wall_time :: int
  ca_server_high_water :: int
  ca_wall_high_water :: int

record disk_record =
  r_sdk :: string
  r_format :: nat
  r_provider :: string
  r_scope :: scope
  r_installation :: device
  r_generation :: nat
  r_credential :: "credential option"
  r_pending_activation :: "pending option"
  r_access :: "cache option"
  r_offline :: "persisted option"

definition valid_expiry :: "int option \<Rightarrow> bool" where
  "valid_expiry time \<longleftrightarrow> none_or (\<lambda>t. t > 0 \<and> valid_time t) time"

text \<open>\<open>Record::config\<close>, \<open>Record::device\<close>, \<open>Record::saved\<close>.\<close>

definition record_config :: "disk_record \<Rightarrow> config" where
  "record_config r =
     \<lparr>cfg_application_id = s_application_id (r_scope r),
      cfg_environment_id = s_environment_id (r_scope r),
      cfg_issuer = s_issuer (r_scope r)\<rparr>"

definition record_device :: "disk_record \<Rightarrow> device" where
  "record_device r =
     \<lparr>installation_id = installation_id (r_installation r),
      fingerprint = fingerprint (r_installation r),
      fingerprint_provider = fingerprint_provider (r_installation r)\<rparr>"

definition record_saved :: "disk_record \<Rightarrow> stored_credential option" where
  "record_saved r = map_option (\<lambda>c.
     \<lparr>sc_application_id = s_application_id (r_scope r),
      sc_environment_id = s_environment_id (r_scope r),
      sc_activation_id = c_activation_id c,
      sc_licence_id = c_licence_id c,
      sc_installation_id = installation_id (r_installation r),
      sc_credential = c_bearer c,
      sc_credential_expires_at = c_expires_at c,
      sc_fingerprint = fingerprint (r_installation r),
      sc_fingerprint_provider = fingerprint_provider (r_installation r)\<rparr>) (r_credential r)"

subsection \<open>Validation\<close>

definition invalid_pending :: "pending \<Rightarrow> bool" where
  "invalid_pending p \<longleftrightarrow>
     \<not> valid_operation_id (p_operation_id p)
     \<or> p_principal_kind p \<notin> {''key'', ''account''}
     \<or> length (p_input_digest p) \<noteq> 64
     \<or> \<not> list_all is_lower_hex (p_input_digest p)
     \<or> \<not> valid_time (p_created_at p)"

definition invalid_cache :: "cache \<Rightarrow> bool" where
  "invalid_cache c \<longleftrightarrow>
     length (ca_jws c) > MAX_TOKEN
     \<or> length (ca_jwks c) \<noteq> 1
     \<or> \<not> valid_expiry (ca_licence_expires_at c)
     \<or> list_ex (\<lambda>t. \<not> valid_time t)
         [ca_received_server_time c, ca_received_wall_time c,
          ca_server_high_water c, ca_wall_high_water c]"

definition invalid_offline :: "disk_record \<Rightarrow> persisted \<Rightarrow> bool" where
  "invalid_offline r f \<longleftrightarrow>
     pf_sequence f = 0
     \<or> pf_sequence f > MAX_SEQUENCE
     \<or> \<not> opaque (pf_issuance_id f)
     \<or> length (pf_content_digest f) \<noteq> 64
     \<or> \<not> list_all is_lower_hex (pf_content_digest f)
     \<or> \<not> valid_time (pf_verified_at f)
     \<or> pf_time_high_water f < pf_verified_at f
     \<or> \<not> valid_time (pf_time_high_water f)
     \<or> \<not> valid_time (pf_wall_high_water f)
     \<or> some_and (\<lambda>jws. jws = [] \<or> length jws > MAX_TOKEN
          \<or> r_credential r \<noteq> None \<or> r_pending_activation r \<noteq> None \<or> r_access r \<noteq> None)
        (pf_jws f)"

definition record_invalid :: "string \<Rightarrow> scope \<Rightarrow> app_key \<Rightarrow> disk_record \<Rightarrow> bool" where
  "record_invalid prov scope key r \<longleftrightarrow>
     r_sdk r \<noteq> ''orbit.installed-client''
     \<or> (r_format r = 2) \<noteq> (r_offline r = None)
     \<or> \<not> (r_format r = 2 \<or> r_format r = 3)
     \<or> r_provider r \<noteq> prov
     \<or> r_scope r \<noteq> scope
     \<or> s_issuer (r_scope r) \<noteq> issuer key
     \<or> s_application_id (r_scope r) \<noteq> application_id key
     \<or> s_environment_id (r_scope r) \<noteq> environment_id key
     \<or> r_generation r > MAX_GENERATION
     \<or> (fingerprint (r_installation r) \<noteq> None) \<noteq> (fingerprint_provider (r_installation r) \<noteq> None)
     \<or> some_and (\<lambda>f. \<not> valid_fingerprint f) (fingerprint (r_installation r))
     \<or> some_and (\<lambda>p. \<not> valid_provider p) (fingerprint_provider (r_installation r))
     \<or> \<not> valid_configuration (record_config r) (record_device r)
     \<or> some_and (\<lambda>s. \<not> valid_stored_credential s (record_config r) (record_device r)
          \<or> \<not> valid_expiry (sc_credential_expires_at s)) (record_saved r)
     \<or> some_and invalid_pending (r_pending_activation r)
     \<or> some_and (\<lambda>c. r_credential r = None \<or> invalid_cache c) (r_access r)
     \<or> some_and (invalid_offline r) (r_offline r)"

definition validate :: "string \<Rightarrow> scope \<Rightarrow> app_key \<Rightarrow> disk_record \<Rightarrow> unit result" where
  "validate prov scope key r = ensure CorruptState (\<not> record_invalid prov scope key r)"

definition clear_offline_authority :: "disk_record \<Rightarrow> disk_record" where
  "clear_offline_authority r =
     r\<lparr>r_offline := map_option (\<lambda>f. f\<lparr>pf_jws := None\<rparr>) (r_offline r)\<rparr>"

subsection \<open>The disk state\<close>

text \<open>
  What the system calls of one operation return: whether the backend still verifies, at the
  start and inside a commit, what the encoder makes of a record, whether the write is
  durable (and what a failed one leaves behind), and the time of the commit.
\<close>

datatype write_outcome = WriteOk | WriteFailed "string option"

record io =
  io_tick :: tick              \<comment> \<open>the first reading of the clocks\<close>
  io_tick2 :: tick             \<comment> \<open>and the second\<close>
  io_random :: "string option" \<comment> \<open>the bytes of the system's generator\<close>
  io_verify :: bool
  io_reverify :: bool
  io_encode :: "disk_record \<Rightarrow> string option"
  io_write :: write_outcome
  io_instant :: duration

record disk =
  dk_record :: disk_record
  dk_backend :: "string option option"   \<comment> \<open>the open backend with its file, or closed\<close>
  dk_poisoned :: bool
  dk_checkpoint :: duration

definition disk_check :: "bool \<Rightarrow> disk \<Rightarrow> disk \<times> unit result" where
  "disk_check verifies d =
     (if dk_poisoned d then (d, Inl StorageError)
      else if dk_backend d = None then (d, Inl Closed)
      else if \<not> verifies then (d\<lparr>dk_poisoned := True\<rparr>, Inl StorageError)
      else (d, Inr ()))"

definition with_format :: "disk_record \<Rightarrow> disk_record" where
  "with_format r = r\<lparr>r_format := (if r_offline r \<noteq> None then 3 else 2)\<rparr>"

definition commit :: "io \<Rightarrow> disk_record \<Rightarrow> disk \<Rightarrow> disk \<times> unit result" where
  "commit io rec d =
     (case disk_check (io_reverify io) d of
        (d1, Inl e) \<Rightarrow> (d1, Inl e)
      | (d1, Inr _) \<Rightarrow>
          (let rec1 = with_format rec in
           case io_encode io rec1 of
             None \<Rightarrow> (d1, Inl StorageError)
           | Some bytes \<Rightarrow>
               if length bytes > MAX_BYTES then (d1\<lparr>dk_poisoned := True\<rparr>, Inl StorageError)
               else (case io_write io of
                   WriteFailed left \<Rightarrow>
                     (d1\<lparr>dk_poisoned := True, dk_backend := Some left\<rparr>, Inl StorageError)
                 | WriteOk \<Rightarrow>
                     (d1\<lparr>dk_record := rec1, dk_checkpoint := io_instant io,
                         dk_backend := Some (Some bytes)\<rparr>, Inr ()))))"

text \<open>The frame of every operation: check first, then run the body on the checked state.\<close>

definition checked :: "io \<Rightarrow> disk \<Rightarrow> (disk \<Rightarrow> disk \<times> 'a result) \<Rightarrow> disk \<times> 'a result" where
  "checked io d k = (case disk_check (io_verify io) d of
      (d1, Inl e) \<Rightarrow> (d1, Inl e) | (d1, Inr _) \<Rightarrow> k d1)"

definition commit_with :: "io \<Rightarrow> disk_record \<Rightarrow> 'a \<Rightarrow> disk \<Rightarrow> disk \<times> 'a result" where
  "commit_with io rec v d = (case commit io rec d of
      (d1, Inl e) \<Rightarrow> (d1, Inl e) | (d1, Inr _) \<Rightarrow> (d1, Inr v))"

definition lift :: "'a result \<Rightarrow> ('a \<Rightarrow> disk \<Rightarrow> disk \<times> 'b result) \<Rightarrow> disk \<Rightarrow> disk \<times> 'b result" where
  "lift r k d = (case r of Inl e \<Rightarrow> (d, Inl e) | Inr x \<Rightarrow> k x d)"

definition next_generation :: "disk_record \<Rightarrow> nat result" where
  "next_generation r =
     (if r_generation r + 1 \<le> MAX_GENERATION then Inr (r_generation r + 1) else Inl StorageError)"

lemma disk_check_Inr [result_simps]:
  "disk_check v d = (d', Inr u) \<longleftrightarrow> d' = d \<and> v \<and> \<not> dk_poisoned d \<and> dk_backend d \<noteq> None"
  by (auto simp: disk_check_def)

lemma disk_check_record [simp]: "disk_check v d = (d', r) \<Longrightarrow> dk_record d' = dk_record d"
  by (auto simp: disk_check_def split: if_splits)

lemma commit_Inr:
  "commit io rec d = (d', Inr u) \<Longrightarrow> dk_record d' = with_format rec
     \<and> (\<exists>bytes. io_encode io (with_format rec) = Some bytes \<and> length bytes \<le> MAX_BYTES
         \<and> dk_backend d' = Some (Some bytes)) \<and> \<not> dk_poisoned d'"
  by (auto simp: commit_def Let_def result_simps
      split: prod.splits sum.splits option.splits if_splits write_outcome.splits)

lemma commit_Inl: "commit io rec d = (d', Inl e) \<Longrightarrow> dk_record d' = dk_record d"
  by (auto simp: commit_def Let_def result_simps
      split: prod.splits sum.splits option.splits if_splits write_outcome.splits)

lemma commit_with_Inr:
  "commit_with io rec v d = (d', Inr w) \<Longrightarrow> w = v \<and> commit io rec d = (d', Inr ())"
  by (auto simp: commit_with_def split: prod.splits sum.splits)

lemma commit_with_Inl: "commit_with io rec v d = (d', Inl e) \<Longrightarrow> dk_record d' = dk_record d"
  by (auto simp: commit_with_def split: prod.splits sum.splits dest: commit_Inl)

lemma commit_with_record:
  "commit_with io rec v d = (d', r) \<Longrightarrow> dk_record d' = dk_record d \<or> dk_record d' = with_format rec"
  by (cases r) (auto dest: commit_with_Inl commit_with_Inr commit_Inr)

lemma checked_Inr:
  "checked io d k = (d', Inr x) \<Longrightarrow> k d = (d', Inr x) \<and> io_verify io \<and> \<not> dk_poisoned d \<and> dk_backend d \<noteq> None"
  by (auto simp: checked_def result_simps split: prod.splits sum.splits)

lemma checked_cases:
  "checked io d k = (d', r) \<Longrightarrow> k d = (d', r) \<or> (dk_record d' = dk_record d \<and> (\<exists>e. r = Inl e))"
  by (auto simp: checked_def result_simps split: prod.splits sum.splits)

lemma lift_Inr_iff: "lift r k d = (d', Inr y) \<longleftrightarrow> (\<exists>x. r = Inr x \<and> k x d = (d', Inr y))"
  by (cases r) (auto simp: lift_def)

lemma lift_simps [simp]: "lift (Inl e) k d = (d, Inl e)" "lift (Inr x) k d = k x d"
  by (simp_all add: lift_def)

lemma next_generation_Inr:
  "next_generation r = Inr g \<longleftrightarrow> g = r_generation r + 1 \<and> g \<le> MAX_GENERATION"
  by (auto simp: next_generation_def)


subsection \<open>Identity and activation\<close>

definition identity :: "io \<Rightarrow> disk \<Rightarrow> disk \<times> (config \<times> device) result" where
  "identity io d = checked io d (\<lambda>d.
     (d, Inr (record_config (dk_record d), record_device (dk_record d))))"

definition activation_pending :: "io \<Rightarrow> disk \<Rightarrow> disk \<times> bool result" where
  "activation_pending io d = checked io d (\<lambda>d.
     (d, Inr (r_pending_activation (dk_record d) \<noteq> None)))"

datatype principal = KeyPrincipal string | AccountPrincipal string

fun principal_kind :: "principal \<Rightarrow> string" where
  "principal_kind (KeyPrincipal _) = ''key''"
| "principal_kind (AccountPrincipal _) = ''account''"

fun principal_input :: "principal \<Rightarrow> string" where
  "principal_input (KeyPrincipal k) = k"
| "principal_input (AccountPrincipal l) = l"

fun principal_mismatch :: "principal \<Rightarrow> string option \<Rightarrow> bool" where
  "principal_mismatch (KeyPrincipal _) None = False"
| "principal_mismatch (AccountPrincipal _) (Some cid) = (\<not> opaque cid)"
| "principal_mismatch _ _ = True"

text \<open>The default map of \<open>serde_json\<close> sorts its keys, the nested ones too.\<close>

definition scope_json :: "scope \<Rightarrow> json" where
  "scope_json s = JObj
     [(''api_origin'', JStr (s_api_origin s)), (''application_id'', JStr (s_application_id s)),
      (''environment_id'', JStr (s_environment_id s)), (''issuer'', JStr (s_issuer s))]"

definition activation_input ::
    "disk_record \<Rightarrow> principal \<Rightarrow> string option \<Rightarrow> string option \<Rightarrow> json" where
  "activation_input r who customer previous = JObj
     [(''credential_mode'', JStr ''persistent''),
      (''customer_id'', json_opt customer),
      (''installation'', JObj
         [(''fingerprint'', json_opt (fingerprint (r_installation r))),
          (''fingerprint_provider'', json_opt (fingerprint_provider (r_installation r))),
          (''id'', JStr (installation_id (r_installation r)))]),
      (''licence_input'', JStr (principal_input who)),
      (''previous_credential'', json_opt previous),
      (''principal_kind'', JStr (principal_kind who)),
      (''scope'', scope_json (r_scope r))]"

text \<open>A retry resumes the pending activation only for the same input, within a day.\<close>

definition pending_conflict :: "pending \<Rightarrow> string \<Rightarrow> string \<Rightarrow> string \<Rightarrow> int \<Rightarrow> bool" where
  "pending_conflict p input_digest kind operation now \<longleftrightarrow>
     p_input_digest p \<noteq> input_digest
     \<or> p_principal_kind p \<noteq> kind
     \<or> (operation \<noteq> [] \<and> operation \<noteq> p_operation_id p)
     \<or> now < p_created_at p
     \<or> now - p_created_at p \<ge> 86400"

definition next_pending ::
    "libs \<Rightarrow> io \<Rightarrow> disk_record \<Rightarrow> string \<Rightarrow> string \<Rightarrow> string \<Rightarrow> int \<Rightarrow> pending result" where
  "next_pending L io r input_digest kind operation now =
     (case r_pending_activation r of
        Some p \<Rightarrow> rbind (ensure PendingActivation
            (\<not> pending_conflict p input_digest kind operation now)) (\<lambda>_. Inr p)
      | None \<Rightarrow>
          rbind (if operation = [] then
              rbind (new_installation L (io_random io)) (\<lambda>dev. Inr (installation_id dev))
            else Inr operation) (\<lambda>opid.
          Inr \<lparr>p_operation_id = opid, p_principal_kind = kind, p_input_digest = input_digest,
               p_created_at = now\<rparr>))"

definition prepare_activation ::
    "libs \<Rightarrow> principal \<Rightarrow> string option \<Rightarrow> string option \<Rightarrow> string \<Rightarrow> io \<Rightarrow> disk
      \<Rightarrow> disk \<times> (string \<times> nat) result" where
  "prepare_activation L who customer previous operation io d = checked io d (\<lambda>d.
     let r = dk_record d; kind = principal_kind who in
     lift (rbind (ensure Configuration (\<not> principal_mismatch who customer)) (\<lambda>_.
           rbind (ok_or StorageError (to_bytes L (activation_input r who customer previous))) (\<lambda>bytes.
           rbind (wall (io_tick io)) (\<lambda>now.
           rbind (next_pending L io r (digest L bytes) kind operation now) (\<lambda>p.
           rbind (next_generation r) (\<lambda>g. Inr (p, g)))))))
       (\<lambda>(p, g).
          commit_with io ((clear_offline_authority
              (r\<lparr>r_pending_activation := Some p, r_access := None\<rparr>))\<lparr>r_generation := g\<rparr>)
            (p_operation_id p, g)) d)"

subsection \<open>Storing authority\<close>

definition credential_of :: "stored_credential \<Rightarrow> credential" where
  "credential_of c =
     \<lparr>c_activation_id = sc_activation_id c, c_licence_id = sc_licence_id c,
      c_bearer = sc_credential c, c_expires_at = sc_credential_expires_at c\<rparr>"

definition bind_fingerprint :: "stored_credential \<Rightarrow> device \<Rightarrow> device" where
  "bind_fingerprint c dev =
     dev\<lparr>fingerprint := sc_fingerprint c, fingerprint_provider := sc_fingerprint_provider c\<rparr>"

definition access_record :: "stored_credential \<Rightarrow> cache option \<Rightarrow> bool \<Rightarrow> disk_record \<Rightarrow> disk_record" where
  "access_record c cached activation r =
     (let r1 = clear_offline_authority (r\<lparr>r_credential := Some (credential_of c),
            r_installation := bind_fingerprint c (r_installation r), r_access := cached\<rparr>)
      in if activation then r1\<lparr>r_pending_activation := None\<rparr> else r1)"

definition commit_access ::
    "nat \<Rightarrow> stored_credential \<Rightarrow> cache \<Rightarrow> bool \<Rightarrow> io \<Rightarrow> disk \<Rightarrow> disk \<times> unit result" where
  "commit_access version c cached activation io d = checked io d (\<lambda>d.
     if r_generation (dk_record d) \<noteq> version then (d, Inl StaleResponse)
     else commit io (access_record c (Some cached) activation (dk_record d)) d)"

definition commit_floating ::
    "nat \<Rightarrow> stored_credential \<Rightarrow> bool \<Rightarrow> io \<Rightarrow> disk \<Rightarrow> disk \<times> unit result" where
  "commit_floating version c activation io d = checked io d (\<lambda>d.
     if r_generation (dk_record d) \<noteq> version then (d, Inl StaleResponse)
     else commit io (access_record c None activation (dk_record d)) d)"

definition cleared_record :: "bool \<Rightarrow> bool \<Rightarrow> disk_record \<Rightarrow> disk_record" where
  "cleared_record clear_pending clear_credential r =
     (let r1 = clear_offline_authority (r\<lparr>r_access := None\<rparr>);
          r2 = (if clear_pending then r1\<lparr>r_pending_activation := None\<rparr> else r1)
      in if clear_credential then r2\<lparr>r_credential := None\<rparr> else r2)"

definition clear_cached :: "bool \<Rightarrow> bool \<Rightarrow> io \<Rightarrow> disk \<Rightarrow> disk \<times> nat result" where
  "clear_cached clear_pending clear_credential io d = checked io d (\<lambda>d.
     lift (next_generation (dk_record d)) (\<lambda>g.
       commit_with io ((cleared_record clear_pending clear_credential (dk_record d))
         \<lparr>r_generation := g\<rparr>) g) d)"


subsection \<open>Restoring saved access\<close>

definition restored_time :: "cache \<Rightarrow> int \<Rightarrow> int result" where
  "restored_time c w =
     rbind (ensure ClockUncertain (\<not> (w < ca_wall_high_water c
        \<or> ca_wall_high_water c < ca_received_wall_time c
        \<or> ca_server_high_water c < ca_received_server_time c))) (\<lambda>_.
     rbind (ok_or ClockUncertain (checked_sub (ca_wall_high_water c) (ca_received_wall_time c))) (\<lambda>wall_progress.
     rbind (ok_or ClockUncertain (checked_sub (ca_server_high_water c) (ca_received_server_time c))) (\<lambda>server_progress.
     rbind (ensure ClockUncertain (\<not> abs_diff wall_progress server_progress > 30)) (\<lambda>_.
     rbind (ok_or ClockUncertain (checked_sub w (ca_received_wall_time c))) (\<lambda>elapsed.
     rbind (ok_or ClockUncertain (checked_add (ca_received_server_time c) elapsed)) (\<lambda>sum.
     let now = max sum (ca_server_high_water c) in
     rbind (ensure ClockUncertain (valid_time now)) (\<lambda>_. Inr now)))))))"

definition restore_expected :: "disk_record \<Rightarrow> stored_credential \<Rightarrow> cache \<Rightarrow> expected" where
  "restore_expected r s c =
     \<lparr>ex_issuer = s_issuer (r_scope r), ex_application = sc_application_id s,
      ex_environment = sc_environment_id s, ex_licence = Some (sc_licence_id s),
      ex_activation = sc_activation_id s, ex_installation = sc_installation_id s,
      ex_fingerprint = sc_fingerprint s, ex_fingerprint_provider = sc_fingerprint_provider s,
      ex_allow_unbound_fingerprint = True, ex_credential_expires_at = sc_credential_expires_at s,
      ex_licence_expires_at = ca_licence_expires_at c, ex_now = ca_received_server_time c\<rparr>"

definition restore_access ::
    "libs \<Rightarrow> io \<Rightarrow> disk_record \<Rightarrow> cache \<Rightarrow> (grant_claims \<times> anchor \<times> keys) option result" where
  "restore_access L io r c =
     rbind (ok_or CorruptState (record_saved r)) (\<lambda>s.
     rbind (wall (io_tick io)) (\<lambda>w.
     rbind (restored_time c w) (\<lambda>now.
     rbind (ok_or CorruptState (to_jwks L (ca_jwks c))) (\<lambda>v.
     rbind (keys_parse L v) (\<lambda>ks.
     rbind (verify_grant L ks (ca_jws c) (restore_expected r s c)) (\<lambda>claims.
     if now < gc_nbf claims \<or> now \<ge> gc_exp claims \<or> \<not> gc_offline_allowed claims then Inr None
     else rbind (wall (io_tick2 io)) (\<lambda>w2.
          rbind (anchor_restored (io_tick2 io) now w2) (\<lambda>a. Inr (Some (claims, a, ks))))))))))"

definition restore ::
    "libs \<Rightarrow> string option \<Rightarrow> string option \<Rightarrow> io \<Rightarrow> disk
      \<Rightarrow> disk \<times> (grant_claims \<times> anchor \<times> keys) option result" where
  "restore L current_fingerprint current_provider io d = checked io d (\<lambda>d.
     let r = dk_record d in
     if fingerprint (r_installation r) \<noteq> current_fingerprint
        \<or> fingerprint_provider (r_installation r) \<noteq> current_provider then (d, Inr None)
     else (case r_access r of
        None \<Rightarrow> (d, Inr None)
      | Some c \<Rightarrow> (d, restore_access L io r c)))"

subsection \<open>Restoring and saving an offline file\<close>

definition offline_mismatch :: "verified \<Rightarrow> persisted \<Rightarrow> bool" where
  "offline_mismatch v saved \<longleftrightarrow>
     vf_sequence v \<noteq> pf_sequence saved
     \<or> vf_issuance_id v \<noteq> pf_issuance_id saved
     \<or> vf_content_digest v \<noteq> pf_content_digest saved
     \<or> pf_verified_at saved < saturating_sub (vf_issued_at v) 30
     \<or> pf_verified_at saved \<ge> vf_expires_at v"

definition resumed_runtime :: "verified \<Rightarrow> anchor \<Rightarrow> int \<Rightarrow> persisted \<Rightarrow> duration \<Rightarrow> offline_runtime" where
  "resumed_runtime v a w saved now =
     \<lparr>or_verified = Some v, or_anchor = Some a, or_saved = saved, or_authorized = True,
      or_uncertain = saturating_add w 30 < pf_wall_high_water saved, or_last_checkpoint = now\<rparr>"

definition resume_offline ::
    "libs \<Rightarrow> app_key \<Rightarrow> device \<Rightarrow> keys option \<Rightarrow> tick \<Rightarrow> persisted \<Rightarrow> offline_runtime option result" where
  "resume_offline L key dev ks t saved =
     (case pf_jws saved of
        None \<Rightarrow> Inr (Some \<lparr>or_verified = None, or_anchor = None, or_saved = saved,
            or_authorized = False, or_uncertain = False, or_last_checkpoint = instant t\<rparr>)
      | Some jws \<Rightarrow>
          rbind (ok_or Configuration ks) (\<lambda>ks.
          rbind (wall t) (\<lambda>w.
          rbind (map_err CorruptState (verify_offline L jws ks key dev
              (pf_verified_at saved) (pf_sequence saved))) (\<lambda>v.
          rbind (ensure CorruptState (\<not> offline_mismatch v saved)) (\<lambda>_.
          rbind (anchor_restored t (max (pf_time_high_water saved) w) w) (\<lambda>a.
            Inr (Some (resumed_runtime v a w saved (instant t)))))))))"

definition restore_offline ::
    "libs \<Rightarrow> app_key \<Rightarrow> device \<Rightarrow> keys option \<Rightarrow> io \<Rightarrow> disk
      \<Rightarrow> disk \<times> offline_runtime option result" where
  "restore_offline L key dev ks io d = checked io d (\<lambda>d.
     case r_offline (dk_record d) of
       None \<Rightarrow> (d, Inr None)
     | Some saved \<Rightarrow> (d, resume_offline L key dev ks (io_tick io) saved))"

definition offline_state :: "io \<Rightarrow> disk \<Rightarrow> disk \<times> persisted option result" where
  "offline_state io d = checked io d (\<lambda>d. (d, Inr (r_offline (dk_record d))))"

text \<open>What an imported file may not be, against the one already saved.\<close>

definition offline_rollback :: "persisted \<Rightarrow> persisted \<Rightarrow> bool" where
  "offline_rollback new old \<longleftrightarrow>
     pf_sequence new < pf_sequence old
     \<or> (pf_sequence new = pf_sequence old
         \<and> (pf_issuance_id new \<noteq> pf_issuance_id old \<or> pf_content_digest new \<noteq> pf_content_digest old))
     \<or> pf_time_high_water new < pf_time_high_water old
     \<or> pf_wall_high_water new < pf_wall_high_water old"

definition offline_saved_record :: "persisted \<Rightarrow> nat \<Rightarrow> disk_record \<Rightarrow> disk_record" where
  "offline_saved_record f g r =
     r\<lparr>r_generation := g, r_credential := None, r_access := None, r_pending_activation := None,
       r_offline := Some f\<rparr>"

definition save_offline :: "nat \<Rightarrow> persisted \<Rightarrow> io \<Rightarrow> disk \<Rightarrow> disk \<times> nat result" where
  "save_offline version f io d = checked io d (\<lambda>d.
     let r = dk_record d in
     if r_generation r \<noteq> version then (d, Inl StaleResponse)
     else if some_and (offline_rollback f) (r_offline r) then (d, Inl stale)
     else lift (next_generation r) (\<lambda>g. commit_with io (offline_saved_record f g r) g) d)"

definition checkpoint_conflict :: "persisted \<Rightarrow> persisted \<Rightarrow> bool" where
  "checkpoint_conflict new old \<longleftrightarrow>
     pf_jws old = None
     \<or> pf_jws new \<noteq> pf_jws old
     \<or> pf_sequence new \<noteq> pf_sequence old
     \<or> pf_issuance_id new \<noteq> pf_issuance_id old
     \<or> pf_content_digest new \<noteq> pf_content_digest old
     \<or> pf_verified_at new \<noteq> pf_verified_at old
     \<or> pf_time_high_water new < pf_time_high_water old
     \<or> pf_wall_high_water new < pf_wall_high_water old"

definition persist_offline_checkpoint :: "persisted \<Rightarrow> io \<Rightarrow> disk \<Rightarrow> disk \<times> unit result" where
  "persist_offline_checkpoint f io d = checked io d (\<lambda>d.
     case r_offline (dk_record d) of
       None \<Rightarrow> (d, Inl StaleResponse)
     | Some old \<Rightarrow>
         if checkpoint_conflict f old then (d, Inl StaleResponse)
         else commit io ((dk_record d)\<lparr>r_offline := Some f\<rparr>) d)"


subsection \<open>Checkpoints\<close>

definition checkpoint_elapsed :: "duration \<Rightarrow> duration \<Rightarrow> duration" where
  "checkpoint_elapsed now since = now - since"

definition checkpoint :: "anchor option \<Rightarrow> bool \<Rightarrow> io \<Rightarrow> disk \<Rightarrow> disk \<times> unit result" where
  "checkpoint an force io d = checked io d (\<lambda>d.
     let r = dk_record d in
     if \<not> force \<and> checkpoint_elapsed (instant (io_tick io)) (dk_checkpoint d) < from_secs 60
     then (d, Inr ())
     else (case r_access r of
        None \<Rightarrow> (d, Inr ())
      | Some c \<Rightarrow>
         (case an of
            None \<Rightarrow> commit io (r\<lparr>r_access := None\<rparr>) d
          | Some a \<Rightarrow>
             (case (anchor_now a (io_tick io), wall (io_tick2 io)) of
                (Inr now, Inr w) \<Rightarrow>
                  if now \<ge> ca_server_high_water c \<and> w \<ge> ca_wall_high_water c
                  then commit io (r\<lparr>r_access := Some (c\<lparr>ca_server_high_water := now,
                          ca_wall_high_water := w\<rparr>)\<rparr>) d
                  else (case commit io (r\<lparr>r_access := None\<rparr>) d of
                      (d1, Inl e) \<Rightarrow> (d1, Inl e) | (d1, Inr _) \<Rightarrow> (d1, Inl ClockUncertain))
              | _ \<Rightarrow> (case commit io (r\<lparr>r_access := None\<rparr>) d of
                      (d1, Inl e) \<Rightarrow> (d1, Inl e) | (d1, Inr _) \<Rightarrow> (d1, Inl ClockUncertain))))))"

text \<open>The offline checkpoint updates the running state and the disk together.\<close>

definition raised_marks :: "persisted \<Rightarrow> int \<Rightarrow> int \<Rightarrow> persisted" where
  "raised_marks f now w =
     f\<lparr>pf_time_high_water := max (pf_time_high_water f) now,
       pf_wall_high_water := max (pf_wall_high_water f) w\<rparr>"

definition checkpoint_offline ::
    "offline_runtime \<Rightarrow> bool \<Rightarrow> io \<Rightarrow> disk \<Rightarrow> offline_runtime \<times> disk \<times> unit result" where
  "checkpoint_offline rt force io d =
     (if \<not> or_authorized rt then (rt, d, Inr ())
      else if \<not> force
        \<and> checkpoint_elapsed (instant (io_tick io)) (or_last_checkpoint rt) < from_secs 60
      then (rt, d, Inr ())
      else (case or_anchor rt of
         None \<Rightarrow> (rt\<lparr>or_uncertain := True\<rparr>, d, Inl ClockUncertain)
       | Some a \<Rightarrow>
          (case now_with_wall a (io_tick io) of
             Inl e \<Rightarrow> (rt\<lparr>or_uncertain := True\<rparr>, d, Inl e)
           | Inr (now, w) \<Rightarrow>
              if saturating_add w 30 < pf_wall_high_water (or_saved rt)
                 \<or> now < pf_time_high_water (or_saved rt)
              then (rt\<lparr>or_uncertain := True\<rparr>, d, Inl ClockUncertain)
              else (case persist_offline_checkpoint (raised_marks (or_saved rt) now w) io d of
                  (d1, Inl e) \<Rightarrow> (rt\<lparr>or_authorized := False\<rparr>, d1, Inl e)
                | (d1, Inr _) \<Rightarrow>
                    (rt\<lparr>or_saved := raised_marks (or_saved rt) now w, or_uncertain := False,
                        or_last_checkpoint := instant (io_tick2 io)\<rparr>, d1, Inr ())))))"

definition close_disk :: "disk \<Rightarrow> disk" where
  "close_disk d = d\<lparr>dk_backend := None\<rparr>"

subsection \<open>The storage interface\<close>

definition installed_version :: "io \<Rightarrow> disk \<Rightarrow> disk \<times> nat result" where
  "installed_version io d = checked io d (\<lambda>d. (d, Inr (r_generation (dk_record d))))"

definition installed_load :: "io \<Rightarrow> disk \<Rightarrow> disk \<times> (nat \<times> stored_credential option) result" where
  "installed_load io d = checked io d (\<lambda>d.
     (d, Inr (r_generation (dk_record d), record_saved (dk_record d))))"

definition saved_record :: "stored_credential \<Rightarrow> disk_record \<Rightarrow> disk_record" where
  "saved_record c r =
     clear_offline_authority (r\<lparr>r_credential := Some (credential_of c), r_access := None\<rparr>)"

definition installed_save :: "io \<Rightarrow> nat \<Rightarrow> stored_credential \<Rightarrow> disk \<Rightarrow> disk \<times> unit result" where
  "installed_save io version c d = checked io d (\<lambda>d.
     if r_generation (dk_record d) \<noteq> version then (d, Inl StaleResponse)
     else commit io (saved_record c (dk_record d)) d)"

definition installed_invalidate :: "io \<Rightarrow> disk \<Rightarrow> disk \<times> nat result" where
  "installed_invalidate io d = clear_cached False True io d"

subsection \<open>Opening\<close>

text \<open>\<open>default_path\<close>, by target: what counts as absolute there and the environment are inputs.\<close>

definition default_base :: "string \<Rightarrow> (string \<Rightarrow> string option) \<Rightarrow> string result" where
  "default_base os env =
     (let under = (\<lambda>name path. rbind (ok_or Configuration (env name)) (\<lambda>d. Inr (path_join d path)))
      in if os = ''windows'' then under ''LOCALAPPDATA'' ''Orbit''
         else if os = ''macos'' then under ''HOME'' ''Library/Application Support/Orbit''
         else (case env ''XDG_STATE_HOME'' of
             Some d \<Rightarrow> Inr (path_join d ''orbit'')
           | None \<Rightarrow> under ''HOME'' ''.local/state/orbit''))"

definition default_path ::
    "libs \<Rightarrow> string \<Rightarrow> (string \<Rightarrow> bool) \<Rightarrow> (string \<Rightarrow> string option) \<Rightarrow> scope \<Rightarrow> string result" where
  "default_path L os is_absolute env scope =
     rbind (default_base os env) (\<lambda>base.
     rbind (ensure Configuration (is_absolute base)) (\<lambda>_.
     rbind (ok_or Configuration (to_bytes L (scope_json scope))) (\<lambda>bytes.
       Inr (path_join base (digest L bytes)))))"

definition scope_of :: "app_key \<Rightarrow> string \<Rightarrow> scope" where
  "scope_of key canonical_origin =
     \<lparr>s_api_origin = canonical_origin, s_issuer = issuer key, s_application_id = application_id key,
      s_environment_id = environment_id key\<rparr>"

definition fresh_record :: "string \<Rightarrow> scope \<Rightarrow> device \<Rightarrow> disk_record" where
  "fresh_record prov scope dev =
     \<lparr>r_sdk = ''orbit.installed-client'', r_format = 2, r_provider = prov, r_scope = scope,
      r_installation = dev, r_generation = 0, r_credential = None, r_pending_activation = None,
      r_access = None, r_offline = None\<rparr>"

definition rebound_record :: "device \<Rightarrow> nat \<Rightarrow> disk_record \<Rightarrow> disk_record" where
  "rebound_record dev g r =
     r\<lparr>r_installation := dev, r_credential := None, r_pending_activation := None,
       r_access := None, r_offline := None, r_generation := g\<rparr>"

definition decode_record ::
    "libs \<Rightarrow> (string \<Rightarrow> disk_record option) \<Rightarrow> string \<Rightarrow> disk_record result" where
  "decode_record L de_record bytes =
     rbind (ensure CorruptState (\<not> length bytes > MAX_BYTES)) (\<lambda>_.
     rbind (ok_or CorruptState (from_slice_value L bytes)) (\<lambda>v.
     rbind (ok_or CorruptState (as_object v)) (\<lambda>object.
     rbind (ok_or CorruptState (de_record bytes)) (\<lambda>r.
     rbind (ensure CorruptState (\<not> ((r_format r = 2 \<and> contains_key object ''offline'')
         \<or> (r_format r = 3 \<and> \<not> contains_key object ''offline'')))) (\<lambda>_.
       Inr r)))))"

text \<open>An existing record, and whether its installation had to be rotated.\<close>

definition existing_record ::
    "libs \<Rightarrow> string \<Rightarrow> scope \<Rightarrow> app_key \<Rightarrow> bool \<Rightarrow> string option \<times> string option
      \<Rightarrow> string option \<Rightarrow> disk_record \<Rightarrow> (disk_record \<times> bool) result" where
  "existing_record L prov scope key has_offline_keys binding random r =
     rbind (validate prov scope key r) (\<lambda>_.
     rbind (ensure Configuration (\<not> (some_and (\<lambda>f. pf_jws f \<noteq> None) (r_offline r)
         \<and> \<not> has_offline_keys))) (\<lambda>_.
     if fingerprint (r_installation r) \<noteq> fst binding
        \<or> fingerprint_provider (r_installation r) \<noteq> snd binding
     then rbind (new_installation L random) (\<lambda>dev.
          rbind (next_generation r) (\<lambda>g.
            Inr (rebound_record (dev\<lparr>fingerprint := fst binding,
                   fingerprint_provider := snd binding\<rparr>) g r, True)))
     else Inr (r, False)))"

definition found_record ::
    "libs \<Rightarrow> (string \<Rightarrow> disk_record option) \<Rightarrow> string \<Rightarrow> app_key \<Rightarrow> string option \<times> string option
      \<Rightarrow> bool \<Rightarrow> disk_record \<Rightarrow> string option \<Rightarrow> string option \<Rightarrow> (disk_record \<times> bool) result" where
  "found_record L de_record prov key binding has_offline_keys fresh random bytes =
     (case bytes of
        None \<Rightarrow> Inr (fresh, True)
      | Some b \<Rightarrow> rbind (decode_record L de_record b)
          (existing_record L prov (r_scope fresh) key has_offline_keys binding random))"

definition opened_disk :: "disk_record \<Rightarrow> string option \<Rightarrow> duration \<Rightarrow> disk" where
  "opened_disk r bytes now =
     \<lparr>dk_record = r, dk_backend = Some bytes, dk_poisoned = False, dk_checkpoint = now\<rparr>"

definition commit_opened :: "io \<Rightarrow> disk_record \<Rightarrow> disk \<Rightarrow> disk result" where
  "commit_opened io r d = (case commit io r d of (_, Inl e) \<Rightarrow> Inl e | (d', Inr _) \<Rightarrow> Inr d')"

definition new_record :: "string \<Rightarrow> app_key \<Rightarrow> string option \<times> string option \<Rightarrow> string \<Rightarrow> device \<Rightarrow> disk_record" where
  "new_record prov key binding canonical_origin dev =
     fresh_record prov (scope_of key canonical_origin)
       (dev\<lparr>fingerprint := fst binding, fingerprint_provider := snd binding\<rparr>)"

text \<open>\<open>InstalledStorage::open\<close>; the file the backend finds, or its error, is an input.\<close>

definition open_storage ::
    "libs \<Rightarrow> (string \<Rightarrow> disk_record option) \<Rightarrow> string \<Rightarrow> app_key \<Rightarrow> string option \<times> string option
      \<Rightarrow> string \<Rightarrow> bool \<Rightarrow> string option \<Rightarrow> string option result \<Rightarrow> io \<Rightarrow> disk result" where
  "open_storage L de_record prov key binding canonical_origin has_offline_keys random file io =
     rbind (new_installation L random) (\<lambda>dev.
     let fresh = new_record prov key binding canonical_origin dev in
     rbind (ensure Configuration (\<not> (\<not> valid_configuration (record_config fresh) (record_device fresh)
         \<or> length (issuer key) > 2048))) (\<lambda>_.
     rbind file (\<lambda>bytes.
     rbind (found_record L de_record prov key binding has_offline_keys fresh (io_random io) bytes) (\<lambda>(r, write).
     let d = opened_disk r bytes (instant (io_tick io)) in
     if write then commit_opened io r d else Inr d))))"

subsection \<open>The storage contract\<close>

lemma access_record_frame [simp]:
  "r_generation (access_record c m a r) = r_generation r"
  "r_generation (cleared_record p q r) = r_generation r"
  "r_generation (saved_record c r) = r_generation r"
  "r_generation (with_format r) = r_generation r"
  "r_offline (with_format r) = r_offline r"
  "r_credential (with_format r) = r_credential r"
  "r_access (with_format r) = r_access r"
  "r_pending_activation (with_format r) = r_pending_activation r"
  "r_installation (with_format r) = r_installation r"
  "r_scope (with_format r) = r_scope r"
  by (simp_all add: access_record_def cleared_record_def saved_record_def with_format_def
      clear_offline_authority_def Let_def)

lemma record_saved_with_format [simp]: "record_saved (with_format r) = record_saved r"
  by (simp add: record_saved_def)

lemma commit_cases:
  assumes "commit io rec d = (d', r)"
  obtains e where "r = Inl e" "dk_record d' = dk_record d"
  | "r = Inr ()" "dk_record d' = with_format rec"
proof (cases r)
  case (Inl e)
  with assms have "dk_record d' = dk_record d" by (simp add: commit_Inl)
  with Inl show thesis by (rule that(1))
next
  case (Inr u)
  with assms have "dk_record d' = with_format rec" by (simp add: commit_Inr)
  moreover have "r = Inr ()" using Inr by simp
  ultimately show thesis by (intro that(2))
qed

lemma checked_run_cases:
  assumes "checked io d k = (d', r)"
  obtains (refused) e where "r = Inl e" "dk_record d' = dk_record d"
  | (ran) "k d = (d', r)" "io_verify io" "\<not> dk_poisoned d" "dk_backend d \<noteq> None"
proof (cases "disk_check (io_verify io) d")
  case (Pair d1 x)
  show thesis
  proof (cases x)
    case (Inl e)
    with Pair assms have "r = Inl e" "d' = d1" by (simp_all add: checked_def)
    moreover have "dk_record d1 = dk_record d" using Pair by (rule disk_check_record)
    ultimately show thesis using refused by simp
  next
    case (Inr u)
    with Pair have ok: "d1 = d" "io_verify io" "\<not> dk_poisoned d" "dk_backend d \<noteq> None"
      by (simp_all add: disk_check_Inr)
    from Inr Pair assms have "k d1 = (d', r)" by (simp add: checked_def)
    with ok show thesis using ran by blast
  qed
qed

lemma lift_cases:
  assumes "lift r k d = (d', x)"
  obtains (failed) e where "r = Inl e" "x = Inl e" "d' = d" | (ran) v where "r = Inr v" "k v d = (d', x)"
  using assms by (cases r) auto

lemma clear_cached_cases:
  assumes "clear_cached p c io d = (d', r)"
  obtains (failed) e where "r = Inl e" "dk_record d' = dk_record d"
  | (cleared) "r = Inr (r_generation (dk_record d) + 1)" "r_generation (dk_record d) < MAX_GENERATION"
      "dk_record d' = with_format ((cleared_record p c (dk_record d))
         \<lparr>r_generation := r_generation (dk_record d) + 1\<rparr>)"
proof -
  from assms show thesis
    unfolding clear_cached_def
  proof (cases rule: checked_run_cases)
    case (refused e)
    then show thesis by (rule failed)
  next
    case ran
    from ran(1) show thesis
    proof (cases rule: lift_cases)
      case (failed e)
      then show thesis using that(1) by simp
    next
      case (ran g)
      from ran(1) have g: "g = r_generation (dk_record d) + 1" "g \<le> MAX_GENERATION"
        by (simp_all add: next_generation_Inr)
      show thesis
      proof (cases r)
        case (Inl e)
        with ran(2) have "dk_record d' = dk_record d" by (simp add: commit_with_Inl)
        with Inl show thesis by (rule that(1))
      next
        case (Inr v)
        with ran(2) have "v = g" "commit io ((cleared_record p c (dk_record d))\<lparr>r_generation := g\<rparr>) d = (d', Inr ())"
          using commit_with_Inr[of io _ g d d' v] by auto
        with commit_Inr[OF this(2)] Inr g show thesis by (intro that(2)) simp_all
      qed
    qed
  qed
qed

interpretation installed: versioned_storage installed_version installed_load installed_save
  installed_invalidate "\<lambda>d. r_generation (dk_record d)" "\<lambda>d. record_saved (dk_record d)"
proof (unfold_locales, goal_cases)
  case (1 i s s' r)
  then show ?case by (auto simp: installed_version_def elim!: checked_run_cases)
next
  case (2 i s s' v)
  then show ?case by (auto simp: installed_version_def elim!: checked_run_cases)
next
  case (3 i s s' lr)
  then show ?case by (auto simp: installed_load_def elim!: checked_run_cases)
next
  case (4 i s s' v lc)
  then show ?case by (auto simp: installed_load_def elim!: checked_run_cases)
next
  case (5 i v c s s' sr)
  then show ?case
    by (auto simp: installed_save_def elim!: checked_run_cases commit_cases split: if_splits)
next
  case (6 i v c s s' e)
  then show ?case
    by (auto simp: installed_save_def elim!: checked_run_cases commit_cases split: if_splits)
next
  case (7 i v c s s' u)
  then show ?case
    by (auto simp: installed_save_def record_saved_def saved_record_def credential_of_def
        clear_offline_authority_def elim!: checked_run_cases commit_cases split: if_splits)
next
  case (8 i s s' e)
  then show ?case by (auto simp: installed_invalidate_def elim!: clear_cached_cases)
next
  case (9 i s s' v)
  then show ?case
    by (auto simp: installed_invalidate_def record_saved_def cleared_record_def
        clear_offline_authority_def Let_def elim!: clear_cached_cases)
next
  case (10 i s s' r)
  then show ?case by (auto simp: installed_version_def elim!: checked_run_cases)
next
  case (11 i s s' lr)
  then show ?case by (auto simp: installed_load_def elim!: checked_run_cases)
next
  case (12 i v c s s' e)
  then show ?case
    by (auto simp: installed_save_def elim!: checked_run_cases commit_cases split: if_splits)
next
  case (13 i s s' e)
  then show ?case by (auto simp: installed_invalidate_def elim!: clear_cached_cases)
qed

end
