(* ===== verification/DiskSteps.thy ===== *)
theory DiskSteps
  imports Installed
begin

text \<open>
  The installation state as a state machine: every operation of \<open>InstalledStorage\<close> as one
  step, for any readings of the clocks and any outcome of its system calls.  The theorems
  say what no sequence of operations can undo (generations, offline sequences and time
  marks) and that every record an operation writes is one the next start accepts.
\<close>

datatype disk_op =
    OpIdentity
  | OpActivationPending
  | OpPrepare principal "string option" "string option" string
  | OpAccess nat stored_credential cache bool
  | OpFloating nat stored_credential bool
  | OpClear bool bool
  | OpRestore "string option" "string option"
  | OpRestoreOffline app_key device "keys option"
  | OpOfflineState
  | OpSaveOffline nat persisted
  | OpCheckpoint "anchor option" bool
  | OpCheckpointOffline offline_runtime bool
  | OpVersion
  | OpLoad
  | OpSave nat stored_credential
  | OpInvalidate
  | OpClose

fun run_op :: "libs \<Rightarrow> disk_op \<Rightarrow> io \<Rightarrow> disk \<Rightarrow> disk" where
  "run_op L OpIdentity io d = fst (identity io d)"
| "run_op L OpActivationPending io d = fst (activation_pending io d)"
| "run_op L (OpPrepare who customer previous operation) io d =
     fst (prepare_activation L who customer previous operation io d)"
| "run_op L (OpAccess v c m a) io d = fst (commit_access v c m a io d)"
| "run_op L (OpFloating v c a) io d = fst (commit_floating v c a io d)"
| "run_op L (OpClear p c) io d = fst (clear_cached p c io d)"
| "run_op L (OpRestore f p) io d = fst (restore L f p io d)"
| "run_op L (OpRestoreOffline key dev ks) io d = fst (restore_offline L key dev ks io d)"
| "run_op L OpOfflineState io d = fst (offline_state io d)"
| "run_op L (OpSaveOffline v f) io d = fst (save_offline v f io d)"
| "run_op L (OpCheckpoint a force) io d = fst (checkpoint a force io d)"
| "run_op L (OpCheckpointOffline rt force) io d = fst (snd (checkpoint_offline rt force io d))"
| "run_op L OpVersion io d = fst (installed_version io d)"
| "run_op L OpLoad io d = fst (installed_load io d)"
| "run_op L (OpSave v c) io d = fst (installed_save io v c d)"
| "run_op L OpInvalidate io d = fst (installed_invalidate io d)"
| "run_op L OpClose io d = close_disk d"

inductive disk_run :: "libs \<Rightarrow> disk \<Rightarrow> disk \<Rightarrow> bool" for L where
  start: "disk_run L d d"
| step: "disk_run L d d1 \<Longrightarrow> disk_run L d (run_op L op io d1)"

text \<open>The records one step may write, for each operation.\<close>

definition pending_from :: "libs \<Rightarrow> principal \<Rightarrow> string \<Rightarrow> io \<Rightarrow> pending \<Rightarrow> bool" where
  "pending_from L who operation io p \<longleftrightarrow>
     p_principal_kind p = principal_kind who
     \<and> (\<exists>bytes. p_input_digest p = digest L bytes)
     \<and> wall (io_tick io) = Inr (p_created_at p)
     \<and> (if operation = [] then \<exists>b. io_random io = Some b \<and> p_operation_id p = b64_encode L b
        else p_operation_id p = operation)"

fun next_record :: "libs \<Rightarrow> disk_op \<Rightarrow> io \<Rightarrow> disk_record \<Rightarrow> disk_record \<Rightarrow> bool" where
  "next_record L (OpPrepare who customer previous operation) io r rec =
     (r_generation r < MAX_GENERATION \<and>
      (\<exists>p. rec = (clear_offline_authority (r\<lparr>r_pending_activation := Some p, r_access := None\<rparr>))
            \<lparr>r_generation := r_generation r + 1\<rparr>
         \<and> (r_pending_activation r = Some p \<or> pending_from L who operation io p)))"
| "next_record L (OpAccess v c m a) io r rec = (rec = access_record c (Some m) a r \<and> v = r_generation r)"
| "next_record L (OpFloating v c a) io r rec = (rec = access_record c None a r \<and> v = r_generation r)"
| "next_record L (OpClear p c) io r rec =
     (rec = (cleared_record p c r)\<lparr>r_generation := r_generation r + 1\<rparr> \<and> r_generation r < MAX_GENERATION)"
| "next_record L OpInvalidate io r rec =
     (rec = (cleared_record False True r)\<lparr>r_generation := r_generation r + 1\<rparr>
       \<and> r_generation r < MAX_GENERATION)"
| "next_record L (OpSaveOffline v f) io r rec =
     (rec = offline_saved_record f (r_generation r + 1) r \<and> r_generation r < MAX_GENERATION
       \<and> \<not> some_and (offline_rollback f) (r_offline r))"
| "next_record L (OpCheckpoint an force) io r rec =
     (r_access r \<noteq> None \<and>
      (rec = r\<lparr>r_access := None\<rparr>
       \<or> (\<exists>a now w. an = Some a \<and> rec = r\<lparr>r_access := Some ((the (r_access r))
            \<lparr>ca_server_high_water := now, ca_wall_high_water := w\<rparr>)\<rparr>
            \<and> anchor_now a (io_tick io) = Inr now \<and> wall (io_tick2 io) = Inr w
            \<and> ca_server_high_water (the (r_access r)) \<le> now
            \<and> ca_wall_high_water (the (r_access r)) \<le> w)))"
| "next_record L (OpCheckpointOffline rt force) io r rec =
     (\<exists>f old a now w. r_offline r = Some old \<and> \<not> checkpoint_conflict f old
        \<and> rec = r\<lparr>r_offline := Some f\<rparr> \<and> f = raised_marks (or_saved rt) now w
        \<and> or_anchor rt = Some a \<and> now_with_wall a (io_tick io) = Inr (now, w))"
| "next_record L (OpSave v c) io r rec = (rec = saved_record c r \<and> v = r_generation r)"
| "next_record L _ io r rec = False"

lemma next_pending_from:
  "next_pending L io r (digest L bytes) (principal_kind who) operation now = Inr p \<Longrightarrow>
     wall (io_tick io) = Inr now \<Longrightarrow> r_pending_activation r = Some p \<or> pending_from L who operation io p"
  by (auto simp: next_pending_def pending_from_def new_installation_def result_simps
      split: option.splits if_splits)

named_theorems step_intro \<open>what the frames of the operations preserve\<close>

text \<open>What an operation does to the storage, in terms of the record it may write: a relation that
  holds when nothing changes, when the storage is poisoned or closed, and for a commit holds for
  every operation.\<close>

locale operation_frame =
  fixes R :: "(disk_record \<Rightarrow> bool) \<Rightarrow> io \<Rightarrow> disk \<Rightarrow> disk \<Rightarrow> bool"
  assumes same [step_intro]: "R P io d d"
    and poisoned: "R P io d (d\<lparr>dk_poisoned := True\<rparr>)"
    and closed: "R P io d (close_disk d)"
    and committed [step_intro]: "P rec \<Longrightarrow> R P io d (fst (commit io rec d))"
begin

lemma committed_with [step_intro]: "P rec \<Longrightarrow> R P io d (fst (commit_with io rec v d))"
proof -
  have "fst (commit_with io rec v d) = fst (commit io rec d)"
    by (simp add: commit_with_def split: prod.splits sum.splits)
  then show "P rec \<Longrightarrow> R P io d (fst (commit_with io rec v d))" using committed by simp
qed

lemma after_check [step_intro]:
  assumes "R P io d (fst (k d))"
  shows "R P io d (fst (checked io d k))"
  using assms same poisoned by (auto simp: checked_def disk_check_def)

lemma after_lift [step_intro]:
  "(\<And>v. r = Inr v \<Longrightarrow> R P io d (fst (k v d))) \<Longrightarrow> R P io d (fst (lift r k d))"
  by (cases r) (auto intro: same)

lemma commit_then:
  "P rec \<Longrightarrow> R P io d (fst (case commit io rec d of
     (d1, Inl e) \<Rightarrow> (d1, Inl e) | (d1, Inr _) \<Rightarrow> (d1, Inl f)))"
  using committed[of P rec io d] by (auto split: prod.splits sum.splits)

lemma checkpoint_frame:
  "R (next_record L (OpCheckpoint an force) io (dk_record d)) io d (fst (checkpoint an force io d))"
  unfolding checkpoint_def Let_def
  by (auto intro!: step_intro commit_then split: option.split sum.split)

lemma persist_frame:
  assumes "\<And>old. r_offline (dk_record d) = Some old \<Longrightarrow> \<not> checkpoint_conflict f old \<Longrightarrow>
    P ((dk_record d)\<lparr>r_offline := Some f\<rparr>)"
  shows "R P io d (fst (persist_offline_checkpoint f io d))"
  using assms unfolding persist_offline_checkpoint_def
  by (auto intro!: step_intro split: option.split)

lemma checkpoint_offline_frame:
  "R (next_record L (OpCheckpointOffline rt force) io (dk_record d)) io d
     (fst (snd (checkpoint_offline rt force io d)))"
proof (cases "checkpoint_offline rt force io d")
  case (fields rt' d' r)
  show ?thesis
  proof (cases "d' = d")
    case True
    with fields show ?thesis by (simp add: same)
  next
    case False
    with fields obtain a now w where aw: "or_anchor rt = Some a" "now_with_wall a (io_tick io) = Inr (now, w)"
      and d': "d' = fst (persist_offline_checkpoint (raised_marks (or_saved rt) now w) io d)"
      unfolding checkpoint_offline_def
      by (auto split: if_splits option.splits sum.splits prod.splits)
    have "R (next_record L (OpCheckpointOffline rt force) io (dk_record d)) io d d'"
      unfolding d' by (rule persist_frame) (use aw in auto)
    with fields show ?thesis by simp
  qed
qed

lemma run_op_frame: "R (next_record L op io (dk_record d)) io d (run_op L op io d)"
proof (cases op)
  case OpIdentity
  then show ?thesis by (auto simp: identity_def intro!: step_intro)
next
  case OpActivationPending
  then show ?thesis by (auto simp: activation_pending_def intro!: step_intro)
next
  case (OpPrepare who customer previous operation)
  then show ?thesis
    by (auto simp: prepare_activation_def Let_def rbind_Inr_iff next_generation_Inr intro!: step_intro)
      (blast dest: next_pending_from)
next
  case (OpAccess v c m a)
  then show ?thesis by (auto simp: commit_access_def intro!: step_intro)
next
  case (OpFloating v c a)
  then show ?thesis by (auto simp: commit_floating_def intro!: step_intro)
next
  case (OpClear p c)
  then show ?thesis by (auto simp: clear_cached_def next_generation_Inr intro!: step_intro)
next
  case (OpRestore f p)
  then show ?thesis by (auto simp: restore_def Let_def intro!: step_intro split: option.split)
next
  case (OpRestoreOffline key dev ks)
  then show ?thesis by (auto simp: restore_offline_def intro!: step_intro split: option.split)
next
  case OpOfflineState
  then show ?thesis by (auto simp: offline_state_def intro!: step_intro)
next
  case (OpSaveOffline v f)
  then show ?thesis
    by (auto simp: save_offline_def Let_def next_generation_Inr intro!: step_intro)
next
  case (OpCheckpoint a force)
  then show ?thesis by (simp add: checkpoint_frame)
next
  case (OpCheckpointOffline rt force)
  then show ?thesis by (simp add: checkpoint_offline_frame)
next
  case OpVersion
  then show ?thesis by (auto simp: installed_version_def intro!: step_intro)
next
  case OpLoad
  then show ?thesis by (auto simp: installed_load_def intro!: step_intro)
next
  case (OpSave v c)
  then show ?thesis by (auto simp: installed_save_def intro!: step_intro)
next
  case OpInvalidate
  then show ?thesis
    by (auto simp: installed_invalidate_def clear_cached_def next_generation_Inr intro!: step_intro)
next
  case OpClose
  then show ?thesis by (simp add: closed)
qed

end

text \<open>The record stays as it was, or becomes one the operation may write.\<close>

definition changes :: "(disk_record \<Rightarrow> bool) \<Rightarrow> io \<Rightarrow> disk \<Rightarrow> disk \<Rightarrow> bool" where
  "changes P io d d' \<longleftrightarrow>
     dk_record d' = dk_record d \<or> (\<exists>rec. P rec \<and> dk_record d' = with_format rec)"

interpretation written: operation_frame changes
proof unfold_locales
  show "changes P io d (fst (commit io rec d))" if "P rec" for P io d rec
  proof -
    obtain d' r where "commit io rec d = (d', r)" by (cases "commit io rec d")
    then show ?thesis using that by (auto simp: changes_def elim: commit_cases)
  qed
qed (simp_all add: changes_def close_disk_def)

text \<open>The same, for the file below: it stays, or a write failed and left something, or it holds the
  encoding of the record.\<close>

definition stores :: "(disk_record \<Rightarrow> bool) \<Rightarrow> io \<Rightarrow> disk \<Rightarrow> disk \<Rightarrow> bool" where
  "stores P io d d' \<longleftrightarrow>
     dk_record d' = dk_record d \<and> (dk_backend d' = dk_backend d \<or> dk_backend d' = None)
         \<and> (dk_poisoned d \<longrightarrow> dk_poisoned d')
     \<or> (\<exists>rec bytes. P rec \<and> \<not> dk_poisoned d \<and> io_encode io (with_format rec) = Some bytes \<and> length bytes \<le> MAX_BYTES
         \<and> (case io_write io of
              WriteOk \<Rightarrow> dk_record d' = with_format rec \<and> dk_backend d' = Some (Some bytes)
            | WriteFailed left \<Rightarrow> dk_record d' = dk_record d \<and> dk_backend d' = Some left \<and> dk_poisoned d'))"

lemma disk_check_backend: "dk_backend (fst (disk_check v d)) = dk_backend d"
  by (simp add: disk_check_def)

interpretation kept: operation_frame stores
proof unfold_locales
  show "stores P io d (fst (commit io rec d))" if "P rec" for P io d rec
  proof (cases "disk_check (io_reverify io) d")
    case (Pair d1 x)
    have keep: "dk_record d1 = dk_record d" "dk_backend d1 = dk_backend d"
      using disk_check_record[OF Pair] disk_check_backend[of "io_reverify io" d] by (simp_all only: Pair fst_conv)
    have run: "commit io rec d = (case x of Inl e \<Rightarrow> (d1, Inl e) | Inr _ \<Rightarrow>
        (case io_encode io (with_format rec) of None \<Rightarrow> (d1, Inl StorageError)
         | Some bytes \<Rightarrow> if length bytes > MAX_BYTES then (d1\<lparr>dk_poisoned := True\<rparr>, Inl StorageError)
           else (case io_write io of
               WriteFailed left \<Rightarrow> (d1\<lparr>dk_poisoned := True, dk_backend := Some left\<rparr>, Inl StorageError)
             | WriteOk \<Rightarrow> (d1\<lparr>dk_record := with_format rec, dk_checkpoint := io_instant io,
                 dk_backend := Some (Some bytes)\<rparr>, Inr ()))))"
      by (simp add: commit_def Pair Let_def)
    show ?thesis
    proof (cases "\<exists>u bytes. x = Inr u \<and> io_encode io (with_format rec) = Some bytes \<and> length bytes \<le> MAX_BYTES")
      case True
      then obtain bytes where bytes: "x = Inr ()" "io_encode io (with_format rec) = Some bytes" "length bytes \<le> MAX_BYTES"
        by auto
      have "case io_write io of
          WriteOk \<Rightarrow> dk_record (fst (commit io rec d)) = with_format rec \<and> dk_backend (fst (commit io rec d)) = Some (Some bytes)
        | WriteFailed left \<Rightarrow> dk_record (fst (commit io rec d)) = dk_record d \<and> dk_backend (fst (commit io rec d)) = Some left
            \<and> dk_poisoned (fst (commit io rec d))"
        using bytes keep by (cases "io_write io") (simp_all add: run)
      moreover have "\<not> dk_poisoned d" using Pair bytes(1) by (simp add: disk_check_Inr)
      ultimately show ?thesis using that bytes unfolding stores_def by blast
    next
      case False
      with keep have "dk_record (fst (commit io rec d)) = dk_record d" "dk_backend (fst (commit io rec d)) = dk_backend d"
        by (auto simp: run split: sum.split option.split)
      moreover have "dk_poisoned d \<Longrightarrow> dk_poisoned (fst (commit io rec d))"
        by (simp add: commit_def disk_check_def)
      ultimately show ?thesis by (simp add: stores_def)
    qed
  qed
qed (simp_all add: stores_def close_disk_def)

subsection \<open>What no sequence of operations undoes\<close>

text \<open>The offline marks of a record: they only grow, and one sequence keeps one content.\<close>

definition marks_le :: "persisted \<Rightarrow> persisted \<Rightarrow> bool" where
  "marks_le f g \<longleftrightarrow>
     pf_sequence f \<le> pf_sequence g
     \<and> pf_time_high_water f \<le> pf_time_high_water g
     \<and> pf_wall_high_water f \<le> pf_wall_high_water g
     \<and> (pf_sequence f = pf_sequence g \<longrightarrow>
         pf_issuance_id f = pf_issuance_id g \<and> pf_content_digest f = pf_content_digest g)"

definition record_le :: "disk_record \<Rightarrow> disk_record \<Rightarrow> bool" where
  "record_le r r' \<longleftrightarrow>
     r_generation r \<le> r_generation r'
     \<and> (\<forall>f. r_offline r = Some f \<longrightarrow> (\<exists>g. r_offline r' = Some g \<and> marks_le f g))"

lemma marks_le_refl [simp]: "marks_le f f"
  by (simp add: marks_le_def)

lemma marks_le_trans: "marks_le f g \<Longrightarrow> marks_le g h \<Longrightarrow> marks_le f h"
  by (auto simp: marks_le_def)

lemma record_le_refl [simp]: "record_le r r"
  by (simp add: record_le_def)

lemma record_le_trans: "record_le r s \<Longrightarrow> record_le s t \<Longrightarrow> record_le r t"
  unfolding record_le_def by (meson marks_le_trans order_trans)

lemma marks_le_jws [simp]: "marks_le f (f\<lparr>pf_jws := x\<rparr>)"
  by (simp add: marks_le_def)

lemma next_record_le: "next_record L op io r rec \<Longrightarrow> record_le r (with_format rec)"
  by (cases op)
    (auto simp: record_le_def clear_offline_authority_def access_record_def cleared_record_def
      saved_record_def offline_saved_record_def Let_def marks_le_def offline_rollback_def
      checkpoint_conflict_def)

lemma run_op_le: "record_le (dk_record d) (dk_record (run_op L op io d))"
  using written.run_op_frame[of L op io d] by (auto simp: changes_def dest: next_record_le)

lemma disk_run_le: "disk_run L d d' \<Longrightarrow> record_le (dk_record d) (dk_record d')"
proof (induction rule: disk_run.induct)
  case (start d)
  show ?case by simp
next
  case (step d d1 op io)
  then show ?case using run_op_le record_le_trans by blast
qed

subsection \<open>Every record written is one the next start accepts\<close>

text \<open>What the callers, the clocks and the generator guarantee of one operation's inputs.\<close>

definition sound_credential :: "stored_credential \<Rightarrow> bool" where
  "sound_credential c \<longleftrightarrow>
     opaque (sc_activation_id c) \<and> opaque (sc_licence_id c) \<and> bearer (sc_credential c)
     \<and> valid_expiry (sc_credential_expires_at c)
     \<and> (sc_fingerprint c \<noteq> None) = (sc_fingerprint_provider c \<noteq> None)
     \<and> none_or valid_fingerprint (sc_fingerprint c)
     \<and> none_or valid_provider (sc_fingerprint_provider c)"

definition unauthorised :: "disk_record \<Rightarrow> disk_record" where
  "unauthorised r = r\<lparr>r_credential := None, r_access := None, r_pending_activation := None\<rparr>"

definition sound_io :: "libs \<Rightarrow> io \<Rightarrow> bool" where
  "sound_io L io \<longleftrightarrow>
     none_or (\<lambda>b. valid_operation_id (b64_encode L b)) (io_random io)
     \<and> (case wall (io_tick io) of Inl _ \<Rightarrow> True | Inr w \<Rightarrow> w \<le> MAX_TIME)
     \<and> (case wall (io_tick2 io) of Inl _ \<Rightarrow> True | Inr w \<Rightarrow> w \<le> MAX_TIME)"

definition sound_anchor :: "anchor option \<Rightarrow> io \<Rightarrow> bool" where
  "sound_anchor an io \<longleftrightarrow> none_or (\<lambda>a.
     case anchor_now a (io_tick io) of Inl _ \<Rightarrow> True | Inr now \<Rightarrow> valid_time now) an"

fun sound_op :: "disk_op \<Rightarrow> io \<Rightarrow> disk_record \<Rightarrow> bool" where
  "sound_op (OpPrepare who customer previous operation) io r =
     (operation \<noteq> [] \<longrightarrow> valid_operation_id operation)"
| "sound_op (OpAccess v c m a) io r = (sound_credential c \<and> \<not> invalid_cache m)"
| "sound_op (OpFloating v c a) io r = sound_credential c"
| "sound_op (OpSave v c) io r = sound_credential c"
| "sound_op (OpSaveOffline v f) io r = (\<not> invalid_offline (unauthorised r) f)"
| "sound_op (OpCheckpoint an force) io r = sound_anchor an io"
| "sound_op (OpCheckpointOffline rt force) io r =
     (sound_anchor (or_anchor rt) io
      \<and> valid_time (pf_time_high_water (or_saved rt)) \<and> valid_time (pf_wall_high_water (or_saved rt)))"
| "sound_op _ io r = True"

lemma invalid_offline_no_jws:
  "\<not> invalid_offline r f \<Longrightarrow> \<not> invalid_offline r' (f\<lparr>pf_jws := None\<rparr>)"
  by (simp add: invalid_offline_def)

text \<open>The validity of a record, component by component; the format is set by \<open>commit\<close>.\<close>

definition good_frame :: "string \<Rightarrow> scope \<Rightarrow> app_key \<Rightarrow> disk_record \<Rightarrow> bool" where
  "good_frame prov scope key r \<longleftrightarrow>
     r_sdk r = ''orbit.installed-client'' \<and> r_provider r = prov \<and> r_scope r = scope
     \<and> s_issuer scope = issuer key \<and> s_application_id scope = application_id key
     \<and> s_environment_id scope = environment_id key"

definition good_device :: "disk_record \<Rightarrow> bool" where
  "good_device r \<longleftrightarrow> valid_configuration (record_config r) (record_device r)"

definition good_credential :: "disk_record \<Rightarrow> bool" where
  "good_credential r \<longleftrightarrow> none_or (\<lambda>c. opaque (c_activation_id c) \<and> opaque (c_licence_id c)
     \<and> bearer (c_bearer c) \<and> valid_expiry (c_expires_at c)) (r_credential r)"

definition good_parts :: "disk_record \<Rightarrow> bool" where
  "good_parts r \<longleftrightarrow>
     none_or (\<lambda>p. \<not> invalid_pending p) (r_pending_activation r)
     \<and> none_or (\<lambda>c. r_credential r \<noteq> None \<and> \<not> invalid_cache c) (r_access r)
     \<and> none_or (\<lambda>f. \<not> invalid_offline r f) (r_offline r)"

lemma fingerprint_valid_iff:
  "valid_fingerprint f \<longleftrightarrow> length f = 64 \<and> list_all is_lower_hex f"
  by (simp add: valid_fingerprint_def)

lemma record_valid_iff:
  "\<not> record_invalid prov scope key r \<longleftrightarrow>
     (r_format r = (if r_offline r = None then 2 else 3)) \<and> good_frame prov scope key r
     \<and> r_generation r \<le> MAX_GENERATION \<and> good_device r \<and> good_credential r \<and> good_parts r"
  by (auto simp: record_invalid_def good_frame_def good_device_def good_credential_def
      good_parts_def valid_configuration_def valid_stored_credential_def record_saved_def
      record_config_def record_device_def some_and_iff none_or_iff fingerprint_valid_iff)

definition good_record :: "string \<Rightarrow> scope \<Rightarrow> app_key \<Rightarrow> disk_record \<Rightarrow> bool" where
  "good_record prov scope key r \<longleftrightarrow>
     good_frame prov scope key r \<and> r_generation r \<le> MAX_GENERATION
     \<and> good_device r \<and> good_credential r \<and> good_parts r"

lemma record_valid_format:
  "\<not> record_invalid prov scope key (with_format r) \<longleftrightarrow> good_record prov scope key r"
  by (simp add: record_valid_iff good_record_def)
    (auto simp: with_format_def good_frame_def good_device_def good_credential_def good_parts_def
      record_config_def record_device_def invalid_offline_def)

lemma good_record_valid: "\<not> record_invalid prov scope key r \<Longrightarrow> good_record prov scope key r"
  by (simp add: record_valid_iff good_record_def)

lemma none_or_map [simp]: "none_or p (map_option f x) = none_or (\<lambda>a. p (f a)) x"
  by (cases x) simp_all

lemma none_or_mono: "none_or p x \<Longrightarrow> (\<And>a. p a \<Longrightarrow> q a) \<Longrightarrow> none_or q x"
  by (cases x) simp_all

text \<open>Good parts survive the changes the operations make.\<close>

lemma good_clear_offline:
  assumes "good_parts r" "r_offline r' = map_option (\<lambda>f. f\<lparr>pf_jws := None\<rparr>) (r_offline r)"
    and "none_or (\<lambda>p. \<not> invalid_pending p) (r_pending_activation r')"
    and "none_or (\<lambda>c. r_credential r' \<noteq> None \<and> \<not> invalid_cache c) (r_access r')"
  shows "good_parts r'"
  using assms by (auto simp: good_parts_def none_or_iff dest: invalid_offline_no_jws)

lemma good_device_bind:
  assumes "good_device r" "sound_credential c" "r_scope r' = r_scope r"
    and "r_installation r' = bind_fingerprint c (r_installation r)"
  shows "good_device r'"
  using assms
  by (auto simp: good_device_def valid_configuration_def record_config_def record_device_def
      bind_fingerprint_def sound_credential_def valid_fingerprint_def none_or_iff)

lemma good_device_cong:
  "good_device r \<Longrightarrow> r_scope r' = r_scope r \<Longrightarrow> r_installation r' = r_installation r \<Longrightarrow> good_device r'"
  by (simp add: good_device_def record_config_def record_device_def)

lemma good_frame_cong:
  "good_frame prov scope key r \<Longrightarrow> r_sdk r' = r_sdk r \<Longrightarrow> r_provider r' = r_provider r
    \<Longrightarrow> r_scope r' = r_scope r \<Longrightarrow> good_frame prov scope key r'"
  by (simp add: good_frame_def)

lemma good_credential_of: "sound_credential c \<Longrightarrow> r_credential r = Some (credential_of c) \<Longrightarrow> good_credential r"
  by (simp add: good_credential_def sound_credential_def credential_of_def)

lemmas record_update_defs =
  access_record_def cleared_record_def saved_record_def offline_saved_record_def
  clear_offline_authority_def Let_def

lemma sound_pending:
  assumes "pending_from L who operation io p" "sound_io L io"
    and "operation \<noteq> [] \<longrightarrow> valid_operation_id operation" "\<And>s. length (sha256 L s) = 32"
  shows "\<not> invalid_pending p"
proof -
  have "p_principal_kind p \<in> {''key'', ''account''}"
    using assms(1) by (cases who) (simp_all add: pending_from_def)
  moreover have "valid_operation_id (p_operation_id p)"
    using assms(1-3) by (auto simp: pending_from_def sound_io_def split: if_splits)
  moreover obtain b where "p_input_digest p = hexify (sha256 L b)"
    using assms(1) by (auto simp: pending_from_def digest_def)
  moreover have "valid_time (p_created_at p)"
    using assms(1,2) wall_nonneg[of "io_tick io"]
    by (auto simp: pending_from_def sound_io_def valid_time_def)
  ultimately show ?thesis using assms(4) by (simp add: invalid_pending_def)
qed

lemma good_parts_authorised:
  assumes "good_parts r" "sound_credential c" "none_or (\<lambda>m. \<not> invalid_cache m) m"
  shows "good_parts (access_record c m a r)"
  by (rule good_clear_offline[OF assms(1)])
    (use assms in \<open>auto simp: record_update_defs good_parts_def none_or_iff\<close>)

lemma good_parts_saved:
  assumes "good_parts r" shows "good_parts (saved_record c r)"
  by (rule good_clear_offline[OF assms])
    (use assms in \<open>auto simp: record_update_defs good_parts_def none_or_iff\<close>)

lemma good_parts_cleared:
  assumes "good_parts r" shows "good_parts ((cleared_record p c r)\<lparr>r_generation := g\<rparr>)"
  by (rule good_clear_offline[OF assms])
    (use assms in \<open>auto simp: record_update_defs good_parts_def none_or_iff\<close>)

lemma good_parts_prepared:
  assumes "good_parts r" "\<not> invalid_pending p"
  shows "good_parts ((clear_offline_authority (r\<lparr>r_pending_activation := Some p, r_access := None\<rparr>))
    \<lparr>r_generation := g\<rparr>)"
  by (rule good_clear_offline[OF assms(1)])
    (use assms in \<open>auto simp: record_update_defs good_parts_def none_or_iff\<close>)

lemma good_parts_checkpoint:
  assumes "good_parts r" "r_access r = Some c" "none_or (\<lambda>c. \<not> invalid_cache c) c'"
  shows "good_parts (r\<lparr>r_access := c'\<rparr>)"
  using assms by (auto simp: good_parts_def none_or_iff invalid_offline_def some_and_iff)

lemma good_parts_offline_checkpoint:
  assumes "good_parts r" "r_offline r = Some old" "\<not> checkpoint_conflict f old"
    and "valid_time (pf_time_high_water f)" "valid_time (pf_wall_high_water f)"
  shows "good_parts (r\<lparr>r_offline := Some f\<rparr>)"
  using assms by (auto simp: good_parts_def none_or_iff invalid_offline_def checkpoint_conflict_def some_and_iff)

lemma good_parts_offline_saved:
  assumes "good_parts r" "\<not> invalid_offline (unauthorised r) f"
  shows "good_parts (offline_saved_record f g r)"
  using assms by (auto simp: good_parts_def none_or_iff invalid_offline_def some_and_iff
      offline_saved_record_def unauthorised_def)

lemma valid_time_max: "valid_time a \<Longrightarrow> valid_time b \<Longrightarrow> valid_time (max a b)"
  by (simp add: max_def)

lemma next_good_parts:
  assumes "next_record L op io r rec" "good_parts r"
    and "sound_op op io r" "sound_io L io" "\<And>s. length (sha256 L s) = 32"
  shows "good_parts rec"
proof (cases op)
  case (OpPrepare who customer previous operation)
  with assms obtain p where p: "r_pending_activation r = Some p \<or> pending_from L who operation io p"
    and rec: "rec = (clear_offline_authority (r\<lparr>r_pending_activation := Some p, r_access := None\<rparr>))
            \<lparr>r_generation := r_generation r + 1\<rparr>" by auto
  have "\<not> invalid_pending p"
    using p assms(2-5) OpPrepare sound_pending[of L who operation io p]
    by (auto simp: good_parts_def)
  with assms(2) show ?thesis unfolding rec by (rule good_parts_prepared)
next
  case (OpCheckpoint an force)
  with assms(1) obtain c where c: "r_access r = Some c" by auto
  have old: "\<not> invalid_cache c" using assms(2) c by (simp add: good_parts_def)
  from OpCheckpoint assms(1) c consider "rec = r\<lparr>r_access := None\<rparr>"
    | a now w where "an = Some a" "anchor_now a (io_tick io) = Inr now" "wall (io_tick2 io) = Inr w"
        "rec = r\<lparr>r_access := Some (c\<lparr>ca_server_high_water := now, ca_wall_high_water := w\<rparr>)\<rparr>"
    by auto
  then show ?thesis
  proof cases
    case 1
    then show ?thesis using good_parts_checkpoint[OF assms(2) c, of None] by simp
  next
    case 2
    then have "valid_time now" "valid_time w"
      using assms(3,4) OpCheckpoint wall_nonneg[of "io_tick2 io"]
      by (auto simp: sound_anchor_def sound_io_def valid_time_def)
    with old have "\<not> invalid_cache (c\<lparr>ca_server_high_water := now, ca_wall_high_water := w\<rparr>)"
      by (simp add: invalid_cache_def)
    then show ?thesis unfolding 2(4) using good_parts_checkpoint[OF assms(2) c] by simp
  qed
next
  case (OpCheckpointOffline rt force)
  with assms(1) obtain f old a now w where f: "r_offline r = Some old" "\<not> checkpoint_conflict f old"
    "rec = r\<lparr>r_offline := Some f\<rparr>" "f = raised_marks (or_saved rt) now w"
    "or_anchor rt = Some a" "now_with_wall a (io_tick io) = Inr (now, w)" by auto
  have "anchor_now a (io_tick io) = Inr now" using f(6) by (simp add: anchor_now_def)
  then have "valid_time now" using f(5) assms(3) OpCheckpointOffline by (simp add: sound_anchor_def)
  moreover have "wall (io_tick io) = Inr w" using f(6) by (simp add: now_with_wall_Inr_iff)
  then have "valid_time w"
    using assms(4) wall_nonneg[of "io_tick io" w] by (simp add: sound_io_def valid_time_def)
  ultimately have "valid_time now" "valid_time w" by simp_all
  then have "valid_time (pf_time_high_water f)" "valid_time (pf_wall_high_water f)"
    using f(4) assms(3) OpCheckpointOffline by (simp_all add: raised_marks_def valid_time_max)
  then show ?thesis unfolding f(3) using good_parts_offline_checkpoint assms(2) f(1,2) by blast
qed (use assms in \<open>simp_all add: good_parts_authorised good_parts_saved good_parts_cleared
      good_parts_offline_saved\<close>)

lemma next_good:
  assumes "next_record L op io r rec" "good_record prov scope key r"
    and "sound_op op io r" "sound_io L io" "\<And>s. length (sha256 L s) = 32"
  shows "good_record prov scope key rec"
proof -
  have frame: "good_frame prov scope key r" and gen: "r_generation r \<le> MAX_GENERATION"
    and dev: "good_device r" and cred: "good_credential r" and parts: "good_parts r"
    using assms(2) by (simp_all add: good_record_def)
  have "good_frame prov scope key rec"
    by (rule good_frame_cong[OF frame])
      (use assms(1) in \<open>cases op, auto simp: record_update_defs\<close>)+
  moreover have "r_generation rec \<le> MAX_GENERATION"
    using assms(1) gen by (cases op) (auto simp: record_update_defs)
  moreover have "good_device rec"
    using assms(1,3) dev
    by (cases op) (auto simp: record_update_defs intro: good_device_cong good_device_bind)
  moreover have "good_credential rec"
    using assms(1,3) cred
    by (cases op) (auto simp: record_update_defs good_credential_def sound_credential_def credential_of_def)
  moreover have "good_parts rec"
    using assms(1) parts assms(3-5) by (rule next_good_parts)
  ultimately show ?thesis by (simp add: good_record_def)
qed

lemma run_op_valid:
  assumes "\<not> record_invalid prov scope key (dk_record d)"
    and "sound_op op io (dk_record d)" "sound_io L io" "\<And>s. length (sha256 L s) = 32"
  shows "\<not> record_invalid prov scope key (dk_record (run_op L op io d))"
  using written.run_op_frame[of L op io d] assms(1) next_good[OF _ good_record_valid[OF assms(1)] assms(2-4)]
  unfolding changes_def by (metis record_valid_format)

end
