(* ===== verification/ClientState.thy ===== *)
theory ClientState
  imports DiskSteps
begin

text \<open>
  The state of a client (\<open>access.rs\<close>: \<open>State\<close>, \<open>Inner\<close>, the session and snapshot types) and the
  functions that run inside one critical section of its state lock: synchronising with the
  storage, clearing, and building snapshots.  An action reads and updates the client and
  returns a result; like the code, it keeps the updates made before an early return.
\<close>

subsection \<open>Data\<close>

datatype access = AccessDenied | Online | Offline | RefreshRequired | Expired

record session_metadata =
  sm_id :: string
  sm_sequence :: nat
  sm_expires_at :: int
  sm_refresh_after :: int

record session_runtime =
  sr_metadata :: session_metadata
  sr_grant :: session_grant
  sr_anchor :: anchor
  sr_pending_sequence :: "nat option"

record snapshot =
  ss_access :: access
  ss_entitlements :: entitlement_list
  ss_expires_at :: "int option"
  ss_next_check_at :: "int option"
  ss_credential_expires_at :: "int option"
  ss_reauthentication_required :: bool
  ss_offline_allowed :: bool
  ss_offline_file_mode :: bool
  ss_remaining_offline :: duration
  ss_session :: "session_metadata option"
  ss_update_available :: "string option"

definition has_feature :: "snapshot \<Rightarrow> string \<Rightarrow> bool" where
  "has_feature s feature = (map_of (ss_entitlements s) feature = Some True)"

text \<open>\<open>accounts.rs\<close>: a customer login, held in memory only.\<close>

record customer =
  cu_id :: string
  cu_username :: string
  cu_email :: string
  cu_suspended :: bool
  cu_created_at :: int

record account =
  ac_customer :: customer
  ac_expires_at :: int

record account_session =
  as_token :: string
  as_account :: account

record state =
  st_generation :: "64 word"
  st_storage_version :: nat
  st_account :: "account_session option"
  st_credential :: "stored_credential option"
  st_claims :: "grant_claims option"
  st_anchor :: "anchor option"
  st_offline :: "offline_runtime option"
  st_session_policy_known :: bool
  st_session_required :: bool
  st_session_disabled :: bool
  st_session :: "session_runtime option"
  st_pending_session_id :: "string option"
  st_pending_session_since :: "duration option"
  st_session_retry_deadline :: "duration option"
  st_session_licence_expires_at :: "int option"
  st_restored :: bool
  st_update_available :: "string option"
  st_transient :: bool
  st_retry_deadline :: "duration option"
  st_last_failure :: "error option"

text \<open>The \<open>storage\<close> and the \<open>installed\<close> fields of \<open>Inner\<close> are one object: an installed client
  stores to its disk, any other to memory.\<close>

datatype store = MemoryStore memory | InstalledStore disk

record client =
  cl_config :: config
  cl_app_key :: "app_key option"
  cl_device :: device
  cl_storage :: store
  cl_state :: state
  cl_keys :: keys
  cl_session_keys :: "keys option"
  cl_offline_keys :: "keys option"
  cl_app_version :: "string option"
  cl_closed :: bool
  cl_sent :: "(string \<times> json) list"   \<comment> \<open>every request sent, by path and body\<close>

definition installed :: "client \<Rightarrow> bool" where
  "installed c = (case cl_storage c of MemoryStore _ \<Rightarrow> False | InstalledStore _ \<Rightarrow> True)"

definition from_unix_seconds :: "int \<Rightarrow> int option" where
  "from_unix_seconds s = checked_i64 s"

definition fresh_state :: "nat \<Rightarrow> stored_credential option \<Rightarrow> state" where
  "fresh_state version credential =
     \<lparr>st_generation = 0, st_storage_version = version, st_account = None,
      st_credential = credential, st_claims = None, st_anchor = None, st_offline = None,
      st_session_policy_known = False, st_session_required = False, st_session_disabled = False,
      st_session = None, st_pending_session_id = None, st_pending_session_since = None,
      st_session_retry_deadline = None, st_session_licence_expires_at = None,
      st_restored = False, st_update_available = None, st_transient = False,
      st_retry_deadline = None, st_last_failure = None\<rparr>"

subsection \<open>Actions\<close>

type_synonym 'a act = "client \<Rightarrow> client \<times> 'a result"

definition ret :: "'a \<Rightarrow> 'a act" where "ret x c = (c, Inr x)"
definition fail :: "error \<Rightarrow> 'a act" where "fail e c = (c, Inl e)"
definition of_result :: "'a result \<Rightarrow> 'a act" where "of_result r c = (c, r)"
definition demand :: "error \<Rightarrow> bool \<Rightarrow> unit act" where "demand e b c = (c, ensure e b)"
definition gets :: "(client \<Rightarrow> 'a) \<Rightarrow> 'a act" where "gets f c = (c, Inr (f c))"

definition modify :: "(state \<Rightarrow> state) \<Rightarrow> unit act" where
  "modify f c = (c\<lparr>cl_state := f (cl_state c)\<rparr>, Inr ())"

definition abind :: "'a act \<Rightarrow> ('a \<Rightarrow> 'b act) \<Rightarrow> 'b act" where
  "abind m f c = (case m c of (c1, Inl e) \<Rightarrow> (c1, Inl e) | (c1, Inr x) \<Rightarrow> f x c1)"

text \<open>A \<open>Result\<close> that is inspected instead of propagated.\<close>

definition try_act :: "'a act \<Rightarrow> 'a result act" where
  "try_act m c = (case m c of (c1, r) \<Rightarrow> (c1, Inr r))"

definition on_disk :: "(disk \<Rightarrow> disk \<times> 'a result) \<Rightarrow> 'a act" where
  "on_disk f c = (case cl_storage c of
       MemoryStore m \<Rightarrow> (c, Inl Configuration)
     | InstalledStore d \<Rightarrow> (case f d of (d', r) \<Rightarrow> (c\<lparr>cl_storage := InstalledStore d'\<rparr>, r)))"

text \<open>The storage trait, dispatched to the client's storage.\<close>

definition on_store ::
    "(memory \<Rightarrow> memory \<times> 'a result) \<Rightarrow> (disk \<Rightarrow> disk \<times> 'a result) \<Rightarrow> 'a act" where
  "on_store f g c = (case cl_storage c of
       MemoryStore m \<Rightarrow> (case f m of (m', r) \<Rightarrow> (c\<lparr>cl_storage := MemoryStore m'\<rparr>, r))
     | InstalledStore d \<Rightarrow> (case g d of (d', r) \<Rightarrow> (c\<lparr>cl_storage := InstalledStore d'\<rparr>, r)))"

definition store_version :: "io \<Rightarrow> nat act" where
  "store_version io = on_store (memory_version ()) (installed_version io)"

definition store_save :: "io \<Rightarrow> nat \<Rightarrow> stored_credential \<Rightarrow> unit act" where
  "store_save io v c = on_store (memory_save () v c) (installed_save io v c)"

definition store_invalidate :: "io \<Rightarrow> nat act" where
  "store_invalidate io = on_store (memory_invalidate ()) (installed_invalidate io)"

subsection \<open>Clearing and synchronising\<close>

definition clear_access :: "state \<Rightarrow> state" where
  "clear_access s = s\<lparr>st_generation := st_generation s + 1, st_claims := None, st_anchor := None,
     st_credential := None, st_transient := False, st_retry_deadline := None,
     st_restored := False, st_last_failure := None, st_session_policy_known := False,
     st_session_required := False, st_session_disabled := False, st_session := None,
     st_pending_session_id := None, st_session_retry_deadline := None,
     st_session_licence_expires_at := None, st_update_available := None,
     st_offline := map_option (\<lambda>f. f\<lparr>or_authorized := False\<rparr>) (st_offline s)\<rparr>"

definition clear :: "state \<Rightarrow> state" where
  "clear s = (clear_access s)\<lparr>st_account := None\<rparr>"

definition set_version :: "nat \<Rightarrow> unit act" where
  "set_version v = modify (\<lambda>s. s\<lparr>st_storage_version := v\<rparr>)"

definition sync_storage :: "io \<Rightarrow> unit act" where
  "sync_storage io =
     abind (gets cl_closed) (\<lambda>closed.
     if closed then fail Closed
     else abind (try_act (store_version io)) (\<lambda>r.
       case r of
         Inl e \<Rightarrow> abind (modify clear) (\<lambda>_. fail e)
       | Inr v \<Rightarrow> abind (gets (st_storage_version \<circ> cl_state)) (\<lambda>old.
           if v \<noteq> old then abind (modify clear) (\<lambda>_. set_version v) else ret ())))"

subsection \<open>Snapshots\<close>

definition offline_snapshot :: "offline_runtime \<Rightarrow> int option \<Rightarrow> snapshot" where
  "offline_snapshot rt now =
     (let snap = \<lparr>ss_access = AccessDenied, ss_entitlements = [],
            ss_expires_at = Option.bind (or_verified rt) (\<lambda>v. from_unix_seconds (vf_expires_at v)),
            ss_next_check_at = None, ss_credential_expires_at = None,
            ss_reauthentication_required = False, ss_offline_allowed = True,
            ss_offline_file_mode = True, ss_remaining_offline = 0, ss_session = None,
            ss_update_available = None\<rparr>
      in case (or_verified rt, filter_opt (\<lambda>_. \<not> or_uncertain rt) now) of
           (Some v, Some now) \<Rightarrow>
             if vf_expires_at v \<le> now then snap\<lparr>ss_access := Expired\<rparr>
             else snap\<lparr>ss_access := Offline, ss_entitlements := vf_entitlements v,
                    ss_remaining_offline := from_secs (nat (vf_expires_at v - now))\<rparr>
         | _ \<Rightarrow> snap)"

definition base_access :: "state \<Rightarrow> access" where
  "base_access s = (if st_credential s \<noteq> None then RefreshRequired else AccessDenied)"

definition claims_access :: "state \<Rightarrow> grant_claims \<Rightarrow> int \<Rightarrow> access" where
  "claims_access s c now =
     (if st_restored s then RefreshRequired
      else if gc_exp c \<le> now then Expired
      else if st_transient s then (if gc_offline_allowed c then Offline else RefreshRequired)
      else if gc_refresh_after c \<le> now then RefreshRequired
      else Online)"

definition describe_claims ::
    "state \<Rightarrow> int option \<Rightarrow> grant_claims \<Rightarrow> int \<Rightarrow> int \<Rightarrow> int \<Rightarrow> snapshot \<Rightarrow> snapshot" where
  "describe_claims s credential_expiry c now expires_at next_check snap =
     snap\<lparr>ss_expires_at := Some expires_at, ss_next_check_at := Some next_check,
       ss_reauthentication_required :=
         some_and (\<lambda>expiry. expiry \<le> wrap_i64 (now + 86400)) credential_expiry,
       ss_offline_allowed := gc_offline_allowed c, ss_access := claims_access s c now\<rparr>"

definition grant_claimed :: "grant_claims \<Rightarrow> int \<Rightarrow> snapshot \<Rightarrow> snapshot" where
  "grant_claimed c now snap =
     snap\<lparr>ss_entitlements := gc_entitlements c,
       ss_remaining_offline := (if gc_offline_allowed c
         then from_secs (nat (gc_exp c - now)) else ss_remaining_offline snap)\<rparr>"

definition claims_snapshot ::
    "state \<Rightarrow> int option \<Rightarrow> snapshot \<Rightarrow> grant_claims \<Rightarrow> int \<Rightarrow> snapshot result" where
  "claims_snapshot s credential_expiry snap c now =
     rbind (ok_or InvalidResponse (from_unix_seconds (gc_exp c))) (\<lambda>e.
     rbind (ok_or InvalidResponse (from_unix_seconds (gc_refresh_after c))) (\<lambda>n.
     let snap1 = describe_claims s credential_expiry c now e n snap in
     Inr (if ss_access snap1 = Online \<or> ss_access snap1 = Offline
          then grant_claimed c now snap1 else snap1)))"

definition snapshot_state_at :: "state \<Rightarrow> int option \<Rightarrow> snapshot result" where
  "snapshot_state_at s now =
     (let expiry = Option.bind (st_credential s) sc_credential_expires_at in
      rbind (opt_traverse (\<lambda>v. ok_or InvalidResponse (from_unix_seconds v)) expiry) (\<lambda>cexp.
      let snap = \<lparr>ss_access = base_access s, ss_entitlements = [], ss_expires_at = None,
            ss_next_check_at = None, ss_credential_expires_at = cexp,
            ss_reauthentication_required = (st_credential s = None), ss_offline_allowed = False,
            ss_offline_file_mode = False, ss_remaining_offline = 0, ss_session = None,
            ss_update_available = st_update_available s\<rparr>
      in case (st_claims s, now) of
           (Some c, Some now) \<Rightarrow> claims_snapshot s expiry snap c now
         | _ \<Rightarrow> Inr snap))"

definition session_snapshot :: "state \<Rightarrow> tick \<Rightarrow> snapshot" where
  "session_snapshot s t =
     (let snap = \<lparr>ss_access = base_access s, ss_entitlements = [], ss_expires_at = None,
            ss_next_check_at = None,
            ss_credential_expires_at =
              Option.bind (Option.bind (st_credential s) sc_credential_expires_at) from_unix_seconds,
            ss_reauthentication_required = (st_credential s = None), ss_offline_allowed = False,
            ss_offline_file_mode = False, ss_remaining_offline = 0, ss_session = None,
            ss_update_available = st_update_available s\<rparr>
      in case st_session s of
           None \<Rightarrow> snap
         | Some r \<Rightarrow>
            (let snap1 = snap\<lparr>ss_session := Some (sr_metadata r),
                   ss_expires_at := from_unix_seconds (sg_expires_at (sr_grant r)),
                   ss_next_check_at := from_unix_seconds (sg_refresh_after (sr_grant r))\<rparr>
             in case anchor_now (sr_anchor r) t of
                  Inl _ \<Rightarrow> snap1
                | Inr now \<Rightarrow>
                    if sg_expires_at (sr_grant r) \<le> now then snap1\<lparr>ss_access := Expired\<rparr>
                    else if some_and (\<lambda>expires. expires \<le> now) (st_session_licence_expires_at s)
                    then snap1\<lparr>ss_access := Expired\<rparr>
                    else snap1\<lparr>ss_access := Online,
                           ss_entitlements := sg_entitlements (sr_grant r)\<rparr>))"

definition authorized_offline :: "state \<Rightarrow> offline_runtime option" where
  "authorized_offline s = filter_opt or_authorized (st_offline s)"

definition wall_consistent :: "offline_runtime \<Rightarrow> int \<Rightarrow> bool" where
  "wall_consistent rt w \<longleftrightarrow> saturating_add w 30 \<ge> pf_wall_high_water (or_saved rt)"

definition offline_now :: "offline_runtime \<Rightarrow> tick \<Rightarrow> int option" where
  "offline_now rt t = (case or_anchor rt of None \<Rightarrow> None | Some a \<Rightarrow>
     (case now_with_wall a t of
        Inl _ \<Rightarrow> None
      | Inr (now, w) \<Rightarrow> if wall_consistent rt w then Some now else None))"

definition snapshot_state :: "state \<Rightarrow> tick \<Rightarrow> snapshot result" where
  "snapshot_state s t =
     (if st_session_required s then Inr (session_snapshot s t)
      else (case authorized_offline s of
          Some rt \<Rightarrow> Inr (offline_snapshot rt (offline_now rt t))
        | None \<Rightarrow> snapshot_state_at s
            (Option.bind (st_anchor s) (\<lambda>a. result_ok (anchor_now a t)))))"


text \<open>\<open>checked_snapshot_locked\<close>: as \<open>snapshot_state\<close>, but a clock that is no longer certain also
  revokes the cached authority.\<close>

definition revoke_claims :: "state \<Rightarrow> state" where
  "revoke_claims s = s\<lparr>st_claims := None, st_anchor := None, st_generation := st_generation s + 1\<rparr>"

definition set_offline :: "offline_runtime \<Rightarrow> state \<Rightarrow> state" where
  "set_offline rt s = s\<lparr>st_offline := Some rt\<rparr>"

definition clear_disk_cache :: "bool \<Rightarrow> bool \<Rightarrow> io \<Rightarrow> unit act" where
  "clear_disk_cache p q io =
     abind (gets installed) (\<lambda>inst.
     if inst then abind (on_disk (clear_cached p q io)) set_version else ret ())"

definition checked_snapshot_locked :: "tick \<Rightarrow> io \<Rightarrow> snapshot act" where
  "checked_snapshot_locked t io =
     abind (gets cl_state) (\<lambda>s.
     if st_session_required s then ret (session_snapshot s t)
     else (case authorized_offline s of
        Some rt \<Rightarrow>
          (case or_anchor rt of
             None \<Rightarrow> ret (offline_snapshot rt None)
           | Some _ \<Rightarrow>
              (let now = offline_now rt t; rt' = rt\<lparr>or_uncertain := (now = None)\<rparr>
               in abind (modify (set_offline rt')) (\<lambda>_. ret (offline_snapshot rt' now))))
      | None \<Rightarrow>
          (case st_anchor s of
             None \<Rightarrow> of_result (snapshot_state_at s None)
           | Some a \<Rightarrow>
              (case anchor_now a t of
                 Inr now \<Rightarrow> of_result (snapshot_state_at s (Some now))
               | Inl _ \<Rightarrow> abind (modify revoke_claims) (\<lambda>_.
                   abind (clear_disk_cache False False io) (\<lambda>_.
                   abind (gets cl_state) (\<lambda>s'. of_result (snapshot_state_at s' None))))))))"

subsection \<open>The world of a handler\<close>

text \<open>The methods of the requests that carry a customer session.\<close>

datatype bearer_method = BearerGet | BearerDelete

text \<open>
  An asynchronous handler releases the state lock and takes it again; between two of its
  critical sections, and while it waits for the network, other tasks run.  A handler is one
  action over a \<open>world\<close> that says, for each numbered point of the handler, what the clocks,
  the generator, the disk and the network return there, whether the caller has cancelled, and
  how the other tasks have changed the client when the lock is taken.  Nothing ties the points
  to each other, and the theorems hold for every world.
\<close>

record world =
  w_tick :: "nat \<Rightarrow> tick"
  w_io :: "nat \<Rightarrow> io"
  w_random :: "nat \<Rightarrow> string option"
  w_cancelled :: "nat \<Rightarrow> bool"
  w_others :: "nat \<Rightarrow> client \<Rightarrow> client"
  w_post :: "nat \<Rightarrow> string \<Rightarrow> json \<Rightarrow> bool \<Rightarrow> json option result"
     \<comment> \<open>path, body, whether the request is safe to retry\<close>
  w_get :: "nat \<Rightarrow> string \<Rightarrow> json option result"
  w_bearer :: "nat \<Rightarrow> bearer_method \<Rightarrow> string \<Rightarrow> string \<Rightarrow> json option result"
     \<comment> \<open>a request with a customer session: method, path, token\<close>

text \<open>The world of a handler called at point \<open>n\<close> of another.\<close>

definition sub :: "world \<Rightarrow> nat \<Rightarrow> world" where
  "sub w n =
     \<lparr>w_tick = (\<lambda>k. w_tick w (n + k)), w_io = (\<lambda>k. w_io w (n + k)),
      w_random = (\<lambda>k. w_random w (n + k)), w_cancelled = (\<lambda>k. w_cancelled w (n + k)),
      w_others = (\<lambda>k. w_others w (n + k)), w_post = (\<lambda>k. w_post w (n + k)),
      w_get = (\<lambda>k. w_get w (n + k)), w_bearer = (\<lambda>k. w_bearer w (n + k))\<rparr>"

text \<open>Taking the state lock at point \<open>k\<close>.\<close>

definition lock :: "world \<Rightarrow> nat \<Rightarrow> unit act" where
  "lock w k c = (w_others w k c, Inr ())"

definition check_cancelled :: "world \<Rightarrow> nat \<Rightarrow> unit act" where
  "check_cancelled w k = demand Cancelled (\<not> w_cancelled w k)"

text \<open>Waiting for the \<open>serial\<close> lock, or being cancelled.\<close>

definition serialize :: "world \<Rightarrow> nat \<Rightarrow> unit act" where
  "serialize w k = check_cancelled w k"

definition sent :: "string \<Rightarrow> json \<Rightarrow> unit act" where
  "sent path body c = (c\<lparr>cl_sent := cl_sent c @ [(path, body)]\<rparr>, Inr ())"

definition post :: "world \<Rightarrow> nat \<Rightarrow> string \<Rightarrow> json \<Rightarrow> bool \<Rightarrow> json option result act" where
  "post w k path body retry_safe =
     abind (sent path body) (\<lambda>_. ret (w_post w k path body retry_safe))"

definition get :: "world \<Rightarrow> nat \<Rightarrow> string \<Rightarrow> json option act" where
  "get w k path = abind (sent path JNull) (\<lambda>_. of_result (w_get w k path))"

definition current_generation :: "world \<Rightarrow> nat \<Rightarrow> 64 word act" where
  "current_generation w k =
     abind (lock w k) (\<lambda>_. abind (sync_storage (w_io w k)) (\<lambda>_. gets (st_generation \<circ> cl_state)))"

definition check_generation :: "world \<Rightarrow> nat \<Rightarrow> 64 word \<Rightarrow> unit act" where
  "check_generation w k g =
     abind (current_generation w k) (\<lambda>now. demand StaleResponse (now = g))"

definition same_generation :: "64 word \<Rightarrow> unit act" where
  "same_generation g =
     abind (gets (st_generation \<circ> cl_state)) (\<lambda>now. demand StaleResponse (now = g))"

definition snapshot_of :: "world \<Rightarrow> snapshot act" where
  "snapshot_of w =
     abind (lock w 0) (\<lambda>_. abind (sync_storage (w_io w 0)) (\<lambda>_.
       checked_snapshot_locked (w_tick w 0) (w_io w 1)))"

text \<open>Checkpointing the authorised offline file in the state, if there is one.\<close>

definition checkpoint_authorized :: "bool \<Rightarrow> io \<Rightarrow> unit act" where
  "checkpoint_authorized force io =
     abind (gets (\<lambda>c. (installed c, authorized_offline (cl_state c)))) (\<lambda>(inst, off).
     case off of
       Some rt \<Rightarrow> if inst then
          (\<lambda>c. case cl_storage c of
              MemoryStore _ \<Rightarrow> (c, Inr ())
            | InstalledStore d \<Rightarrow> (case checkpoint_offline rt force io d of
                (rt', d', r) \<Rightarrow> (c\<lparr>cl_storage := InstalledStore d',
                   cl_state := set_offline rt' (cl_state c)\<rparr>, r)))
        else ret ()
     | None \<Rightarrow> ret ())"

definition logout :: "world \<Rightarrow> unit act" where
  "logout w =
     abind (lock w 0) (\<lambda>_.
     abind (try_act (checkpoint_authorized True (w_io w 0))) (\<lambda>r.
     abind (modify clear) (\<lambda>_.
     abind (store_invalidate (w_io w 1)) (\<lambda>v.
     abind (set_version v) (\<lambda>_. of_result r)))))"

text \<open>\<open>Client::with_storage_inner\<close>, over a storage that has been opened.\<close>

definition new_client ::
    "config \<Rightarrow> device \<Rightarrow> store \<Rightarrow> tick \<Rightarrow> nat \<Rightarrow> stored_credential option \<Rightarrow> bool \<Rightarrow> client result" where
  "new_client cfg dev storage t version credential allow_binding_change =
     rbind (ensure Configuration (valid_configuration cfg dev)) (\<lambda>_.
     rbind (elapsed_clock t) (\<lambda>_.
     rbind (ensure StorageError (\<not> some_and (\<lambda>saved. \<not> (if allow_binding_change
         then valid_stored_credential_identity saved cfg dev
         else valid_stored_credential saved cfg dev)) credential)) (\<lambda>_.
     Inr \<lparr>cl_config = cfg, cl_app_key = None, cl_device = dev, cl_storage = storage,
          cl_state = fresh_state version credential, cl_keys = no_keys, cl_session_keys = None,
          cl_offline_keys = None, cl_app_version = None, cl_closed = False, cl_sent = []\<rparr>)))"

subsection \<open>Reasoning about actions\<close>

lemma abind_Inr_iff [result_simps]:
  "abind m f c = (c', Inr y) \<longleftrightarrow> (\<exists>c1 x. m c = (c1, Inr x) \<and> f x c1 = (c', Inr y))"
  by (auto simp: abind_def split: prod.splits sum.splits)

lemma abind_Inl_iff [result_simps]:
  "abind m f c = (c', Inl e) \<longleftrightarrow>
     m c = (c', Inl e) \<or> (\<exists>c1 x. m c = (c1, Inr x) \<and> f x c1 = (c', Inl e))"
  by (auto simp: abind_def split: prod.splits sum.splits)

lemma act_Inr_iff [result_simps]:
  "ret x c = (c', Inr y) \<longleftrightarrow> c' = c \<and> y = x"
  "fail e c = (c', Inr y) \<longleftrightarrow> False"
  "of_result r c = (c', Inr y) \<longleftrightarrow> c' = c \<and> r = Inr y"
  "demand e b c = (c', Inr u) \<longleftrightarrow> c' = c \<and> b"
  "gets g c = (c', Inr z) \<longleftrightarrow> c' = c \<and> z = g c"
  "modify h c = (c', Inr u) \<longleftrightarrow> c' = c\<lparr>cl_state := h (cl_state c)\<rparr>"
  "lock w k c = (c', Inr u) \<longleftrightarrow> c' = w_others w k c"
  by (auto simp: ret_def fail_def of_result_def demand_def gets_def modify_def lock_def ensure_iff)

lemma act_Inl_iff [result_simps]:
  "ret x c = (c', Inl e) \<longleftrightarrow> False"
  "fail f c = (c', Inl e) \<longleftrightarrow> c' = c \<and> e = f"
  "of_result r c = (c', Inl e) \<longleftrightarrow> c' = c \<and> r = Inl e"
  "demand f b c = (c', Inl e) \<longleftrightarrow> c' = c \<and> \<not> b \<and> e = f"
  "gets g c = (c', Inl e) \<longleftrightarrow> False"
  "modify h c = (c', Inl e) \<longleftrightarrow> False"
  "lock w k c = (c', Inl e) \<longleftrightarrow> False"
  by (auto simp: ret_def fail_def of_result_def demand_def gets_def modify_def lock_def ensure_iff)

text \<open>An action keeps a predicate on the client, whatever it returns.\<close>

named_theorems keeps_intro \<open>actions that keep a predicate\<close>

definition keeps :: "(client \<Rightarrow> bool) \<Rightarrow> 'a act \<Rightarrow> bool" where
  "keeps P m \<longleftrightarrow> (\<forall>c. P c \<longrightarrow> P (fst (m c)))"

lemma keepsD: "keeps P m \<Longrightarrow> P c \<Longrightarrow> m c = (c', r) \<Longrightarrow> P c'"
  unfolding keeps_def by (metis fst_conv)

lemma keepsI: "(\<And>c. P c \<Longrightarrow> P (fst (m c))) \<Longrightarrow> keeps P m"
  by (simp add: keeps_def)

lemma keeps_basic [keeps_intro]:
  "keeps P (ret x)" "keeps P (fail e)" "keeps P (of_result r)" "keeps P (demand e b)"
  "keeps P (gets g)"
  by (simp_all add: keeps_def ret_def fail_def of_result_def demand_def gets_def)

lemma keeps_abind [keeps_intro]:
  assumes "keeps P m" "\<And>x. keeps P (f x)" shows "keeps P (abind m f)"
proof (rule keepsI)
  fix c assume P: "P c"
  obtain c1 r where m: "m c = (c1, r)" by (cases "m c")
  have P1: "P c1" using keepsD[OF assms(1) P m] .
  show "P (fst (abind m f c))"
    using assms(2) P1 m by (cases r) (auto simp: abind_def keeps_def)
qed

lemma keeps_try [keeps_intro]: "keeps P m \<Longrightarrow> keeps P (try_act m)"
  by (auto simp: keeps_def try_act_def split: prod.splits)

lemma keeps_if [keeps_intro]: "keeps P m \<Longrightarrow> keeps P n \<Longrightarrow> keeps P (if b then m else n)"
  by simp

end
