(* ===== verification/Versions.thy ===== *)
theory Versions
  imports Identity
begin

text \<open>
  Application and SDK versions (\<open>app_version.rs\<close>): the grammar check, the \<open>Orbit-Client\<close>
  header and the update hint of a reply.  \<open>version_text\<close> is the printer whose image the
  grammar check accepts.
\<close>

definition numeric :: "string \<Rightarrow> bool" where
  "numeric part \<longleftrightarrow> part \<noteq> [] \<and> list_all is_digit part \<and> (part = ''0'' \<or> \<not> starts_with part ''0'')"

definition ident_part :: "string \<Rightarrow> bool" where
  "ident_part part \<longleftrightarrow> part \<noteq> [] \<and> list_all (\<lambda>c. is_alphanumeric c \<or> c = CHR ''-'') part"

definition pre_ident :: "string \<Rightarrow> bool" where
  "pre_ident part \<longleftrightarrow> ident_part part \<and> (\<not> list_all is_digit part \<or> numeric part)"

definition split_opt :: "char \<Rightarrow> string \<Rightarrow> string \<times> string option" where
  "split_opt c v = (case split_once c v of Some (a, b) \<Rightarrow> (a, Some b) | None \<Rightarrow> (v, None))"

definition valid :: "string \<Rightarrow> bool" where
  "valid v =
     (if v = [] \<or> length v > 32 then False
      else let (rest, build) = split_opt CHR ''+'' v;
               (core, pre) = split_opt CHR ''-'' rest;
               parts = split_on CHR ''.'' core
           in length parts \<le> 4
              \<and> list_all numeric parts
              \<and> none_or (\<lambda>p. list_all pre_ident (split_on CHR ''.'' p)) pre
              \<and> none_or (\<lambda>b. list_all ident_part (split_on CHR ''.'' b)) build)"

definition configured :: "string option \<Rightarrow> string option result" where
  "configured v = (case v of
     Some s \<Rightarrow> if \<not> valid s then Inl Configuration else Inr (Some s)
   | None \<Rightarrow> Inr None)"

definition client_header :: "string \<Rightarrow> string \<Rightarrow> string \<Rightarrow> string option" where
  "client_header language sdk_version platform =
     (let language_ok = 1 \<le> length language \<and> length language \<le> 16
            \<and> is_lower (hd language)
            \<and> list_all (\<lambda>c. is_lower c \<or> is_digit c \<or> c = CHR ''-'') language;
          platform_ok = 1 \<le> length platform \<and> length platform \<le> 32
            \<and> is_alphanumeric (hd platform)
            \<and> list_all (\<lambda>c. is_lower c \<or> is_digit c
                 \<or> c \<in> {CHR ''_'', CHR ''.'', CHR ''-''}) platform;
          header = language @ ''/'' @ sdk_version @ '' ('' @ platform @ '')''
      in if language_ok \<and> platform_ok \<and> valid sdk_version \<and> length header \<le> 128
         then Some header else None)"

definition platform_byte :: "char \<Rightarrow> char" where
  "platform_byte c = (let d = to_lower c in
     if is_lower d \<or> is_digit d \<or> d \<in> {CHR ''_'', CHR ''.'', CHR ''-''} then d else CHR ''_'')"

text \<open>The operating system, architecture and package version are fixed when the SDK is built.\<close>

definition this_client :: "string \<Rightarrow> string \<Rightarrow> string \<Rightarrow> string" where
  "this_client os arch version =
     (let platform = take 32 (map platform_byte (os @ ''-'' @ arch))
      in case client_header ''rust'' version platform of
           Some h \<Rightarrow> h
         | None \<Rightarrow>
             (case client_header ''rust'' version ''unknown'' of
                Some h \<Rightarrow> h
              | None \<Rightarrow> ''rust/0 (unknown)''))"

definition update_hint :: "(string \<times> json) list \<Rightarrow> string option result" where
  "update_hint reply =
     (case map_of reply ''update_available'' of
        None \<Rightarrow> Inr None
      | Some hint \<Rightarrow>
          (case json_get hint ''version'' of
             Some (JStr version) \<Rightarrow>
               if as_object hint \<noteq> None \<and> valid version then Inr (Some version)
               else Inl InvalidResponse
           | _ \<Rightarrow> Inl InvalidResponse))"

subsection \<open>The printer\<close>

definition version_text :: "string list \<Rightarrow> string list option \<Rightarrow> string list option \<Rightarrow> string" where
  "version_text core pre build =
     join_with ''.'' core
     @ (case pre of None \<Rightarrow> [] | Some ps \<Rightarrow> ''-'' @ join_with ''.'' ps)
     @ (case build of None \<Rightarrow> [] | Some bs \<Rightarrow> ''+'' @ join_with ''.'' bs)"

definition wf_version :: "string list \<Rightarrow> string list option \<Rightarrow> string list option \<Rightarrow> bool" where
  "wf_version core pre build \<longleftrightarrow>
     core \<noteq> [] \<and> length core \<le> 4 \<and> list_all numeric core
     \<and> none_or (\<lambda>ps. ps \<noteq> [] \<and> list_all pre_ident ps) pre
     \<and> none_or (\<lambda>bs. bs \<noteq> [] \<and> list_all ident_part bs) build"

lemma numeric_chars: "numeric p \<Longrightarrow> c \<in> set p \<Longrightarrow> is_digit c"
  by (auto simp: numeric_def list_all_iff)

lemma ident_chars: "ident_part p \<Longrightarrow> c \<in> set p \<Longrightarrow> is_alphanumeric c \<or> c = CHR ''-''"
  by (auto simp: ident_part_def list_all_iff)

lemma set_join_with: "set (join_with s ps) \<subseteq> set s \<union> \<Union> (set ` set ps)"
  by (induction s ps rule: join_with.induct) auto

lemma split_on_join:
  "ps \<noteq> [] \<Longrightarrow> \<forall>p \<in> set ps. c \<notin> set p \<Longrightarrow> split_on c (join_with [c] ps) = ps"
proof (induction "[c]" ps rule: join_with.induct)
  case (2 p)
  then show ?case by (simp add: split_on_id)
next
  case (3 p q ps)
  then show ?case by (simp add: split_on_append)
qed simp

lemma join_numeric_chars:
  assumes "list_all numeric ps" "c \<in> set (join_with ''.'' ps)"
  shows "is_digit c \<or> c = CHR ''.''"
  using assms set_join_with[of "''.''" ps] by (fastforce simp: list_all_iff dest: numeric_chars)

lemma join_ident_chars:
  assumes "list_all ident_part ps" "c \<in> set (join_with ''.'' ps)"
  shows "is_alphanumeric c \<or> c = CHR ''-'' \<or> c = CHR ''.''"
  using assms set_join_with[of "''.''" ps] by (fastforce simp: list_all_iff dest: ident_chars)

lemma pre_idents: "list_all pre_ident ps \<Longrightarrow> list_all ident_part ps"
  by (auto simp: pre_ident_def list_all_iff)

lemma split_opt_append: "c \<notin> set a \<Longrightarrow> split_opt c (a @ c # b) = (a, Some b)"
  by (simp add: split_opt_def split_once_append)

lemma split_opt_none: "c \<notin> set a \<Longrightarrow> split_opt c a = (a, None)"
  by (simp add: split_opt_def split_once_none)

lemma split_opt_cases:
  "split_opt c v = (a, b) \<Longrightarrow>
     c \<notin> set a \<and> v = a @ (case b of None \<Rightarrow> [] | Some s \<Rightarrow> c # s)"
  by (auto simp: split_opt_def split_once_Some_iff split_once_None_iff split: option.splits)

lemma numeric_split: "list_all numeric ps \<Longrightarrow> ps \<noteq> [] \<Longrightarrow> split_on CHR ''.'' (join_with ''.'' ps) = ps"
  by (rule split_on_join) (use numeric_chars[where c = "CHR ''.''"] in \<open>auto simp: list_all_iff text_defs byte_def\<close>)

lemma ident_split: "list_all ident_part ps \<Longrightarrow> ps \<noteq> [] \<Longrightarrow> split_on CHR ''.'' (join_with ''.'' ps) = ps"
  by (rule split_on_join) (use ident_chars[where c = "CHR ''.''"] in \<open>auto simp: list_all_iff text_defs byte_def\<close>)

lemma core_no_sep:
  "list_all numeric ps \<Longrightarrow> CHR ''-'' \<notin> set (join_with ''.'' ps) \<and> CHR ''+'' \<notin> set (join_with ''.'' ps)"
  by (auto simp: text_defs byte_def dest: join_numeric_chars)

lemma pre_no_plus: "list_all ident_part ps \<Longrightarrow> CHR ''+'' \<notin> set (join_with ''.'' ps)"
  by (auto simp: text_defs byte_def dest: join_ident_chars)

lemma version_text_split:
  assumes "wf_version core pre build"
  shows "split_opt CHR ''+'' (version_text core pre build) =
      (join_with ''.'' core @ (case pre of None \<Rightarrow> [] | Some ps \<Rightarrow> ''-'' @ join_with ''.'' ps),
       map_option (join_with ''.'') build)"
    and "split_opt CHR ''-'' (join_with ''.'' core
        @ (case pre of None \<Rightarrow> [] | Some ps \<Rightarrow> ''-'' @ join_with ''.'' ps)) =
      (join_with ''.'' core, map_option (join_with ''.'') pre)"
proof -
  have core: "list_all numeric core" using assms by (simp add: wf_version_def)
  have pre: "\<And>ps. pre = Some ps \<Longrightarrow> list_all ident_part ps"
    using assms by (auto simp: wf_version_def pre_idents)
  have np: "CHR ''+'' \<notin> set (join_with ''.'' core
      @ (case pre of None \<Rightarrow> [] | Some ps \<Rightarrow> ''-'' @ join_with ''.'' ps))"
    using core_no_sep[OF core] pre pre_no_plus by (auto split: option.splits)
  show "split_opt CHR ''+'' (version_text core pre build) =
      (join_with ''.'' core @ (case pre of None \<Rightarrow> [] | Some ps \<Rightarrow> ''-'' @ join_with ''.'' ps),
       map_option (join_with ''.'') build)"
    using split_opt_append[OF np] split_opt_none[OF np]
    by (cases build) (simp_all add: version_text_def)
  show "split_opt CHR ''-'' (join_with ''.'' core
        @ (case pre of None \<Rightarrow> [] | Some ps \<Rightarrow> ''-'' @ join_with ''.'' ps)) =
      (join_with ''.'' core, map_option (join_with ''.'') pre)"
    using core_no_sep[OF core]
    by (cases pre) (simp_all add: split_opt_append split_opt_none)
qed

lemma valid_version_text:
  assumes "wf_version core pre build" "length (version_text core pre build) \<le> 32"
  shows "valid (version_text core pre build)"
proof -
  have parts: "split_on CHR ''.'' (join_with ''.'' core) = core"
    "\<And>ps. pre = Some ps \<Longrightarrow> split_on CHR ''.'' (join_with ''.'' ps) = ps"
    "\<And>bs. build = Some bs \<Longrightarrow> split_on CHR ''.'' (join_with ''.'' bs) = bs"
    using assms(1) by (auto simp: wf_version_def numeric_split ident_split pre_idents)
  have "join_with ''.'' core \<noteq> []"
  proof
    assume "join_with ''.'' core = []"
    then have "core = [[]]" using parts(1) by simp
    then show False using assms(1) by (simp add: wf_version_def numeric_def)
  qed
  then have "version_text core pre build \<noteq> []" by (simp add: version_text_def)
  then show ?thesis
    using assms parts unfolding valid_def version_text_split[OF assms(1)]
    by (auto simp: version_text_split[OF assms(1)] wf_version_def none_or_iff)
qed

lemma valid_imp_version_text:
  assumes "valid v"
  shows "\<exists>core pre build. wf_version core pre build \<and> v = version_text core pre build"
proof -
  obtain rest build where rb: "split_opt CHR ''+'' v = (rest, build)" by fastforce
  obtain core pre where cp: "split_opt CHR ''-'' rest = (core, pre)" by fastforce
  have "wf_version (split_on CHR ''.'' core) (map_option (split_on CHR ''.'') pre)
      (map_option (split_on CHR ''.'') build)"
    using assms rb cp by (auto simp: valid_def Let_def wf_version_def none_or_iff split: if_splits)
  moreover have "v = version_text (split_on CHR ''.'' core) (map_option (split_on CHR ''.'') pre)
      (map_option (split_on CHR ''.'') build)"
    using split_opt_cases[OF rb] split_opt_cases[OF cp]
    by (auto simp: version_text_def split: option.splits)
  ultimately show ?thesis by blast
qed

lemma valid_length: "valid v \<Longrightarrow> 1 \<le> length v \<and> length v \<le> 32"
  by (cases v) (auto simp: valid_def split: if_splits)

lemma client_header_bound: "client_header l v p = Some h \<Longrightarrow> length h \<le> 128"
  by (auto simp: client_header_def Let_def split: if_splits)

lemma unknown_header: "valid v \<Longrightarrow> client_header ''rust'' v ''unknown'' = Some (''rust/'' @ v @ '' (unknown)'')"
  using valid_length[of v] by (auto simp: client_header_def Let_def text_defs byte_def)

text \<open>C39. The version check accepts exactly the printed forms of well-formed versions of at most 32
  bytes: one to four dot-separated numbers without leading zeros, then an optional pre-release
  and an optional build part, as the README states the grammar.\<close>

theorem version_grammar:
  "valid v \<longleftrightarrow> length v \<le> 32
     \<and> (\<exists>core pre build. wf_version core pre build \<and> v = version_text core pre build)"
  using valid_version_text valid_imp_version_text valid_length by blast

end
