(* ===== verification/Access.thy ===== *)
theory Access
  imports ClientState Versions
begin

text \<open>
  The handlers of \<open>access.rs\<close>: verifying replies, accepting them, activating, refreshing,
  deactivating, floating sessions and the access decision.
\<close>

subsection \<open>Requests\<close>

definition credential_body :: "client \<Rightarrow> stored_credential \<Rightarrow> json" where
  "credential_body c saved = JObj
     [(''application_id'', JStr (cfg_application_id (cl_config c))),
      (''environment_id'', JStr (cfg_environment_id (cl_config c))),
      (''credential'', JStr (sc_credential saved)),
      (''installation_id'', JStr (installation_id (cl_device c))),
      (''fingerprint'', json_opt (fingerprint (cl_device c))),
      (''fingerprint_provider'', json_opt (fingerprint_provider (cl_device c)))]"

definition jwks_path :: "config \<Rightarrow> string" where
  "jwks_path cfg = ''/.well-known/orbit-jwks.json?application_id='' @ cfg_application_id cfg
     @ ''&environment_id='' @ cfg_environment_id cfg"

definition activation_path :: "stored_credential \<Rightarrow> string \<Rightarrow> string" where
  "activation_path saved rest = ''/api/client/v1/activations/'' @ sc_activation_id saved @ rest"

definition session_path :: "stored_credential \<Rightarrow> string \<Rightarrow> string \<Rightarrow> string" where
  "session_path saved sid verb = activation_path saved (''/sessions/'' @ sid @ verb)"

definition transient_retry_delay :: "string option \<Rightarrow> duration" where
  "transient_retry_delay random = (case random of
       Some (b # _) \<Rightarrow> from_secs (15 + byte b mod 30)
     | _ \<Rightarrow> from_secs 15)"

definition retry_at :: "world \<Rightarrow> nat \<Rightarrow> duration" where
  "retry_at w k = instant (w_tick w k) + transient_retry_delay (w_random w k)"

text \<open>The best-effort request that frees a seat; its outcome is ignored.\<close>

definition send_session_end_cleanup :: "stored_credential \<Rightarrow> string \<Rightarrow> unit act" where
  "send_session_end_cleanup saved sid =
     abind (gets (\<lambda>c. credential_body c saved)) (\<lambda>body. sent (session_path saved sid ''/end'') body)"

subsection \<open>Verifying a session reply\<close>

definition member :: "(string \<times> json) list \<Rightarrow> string \<Rightarrow> string result" where
  "member object field = ok_or InvalidResponse (Option.bind (map_of object field) as_str)"

definition session_fields :: "string list" where
  "session_fields = [''session_id'', ''sequence'', ''expires_at'', ''server_time'', ''grant'']"

text \<open>The parsed reply: session id, sequence, expiry, server time, token.\<close>

definition session_reply ::
    "libs \<Rightarrow> json \<Rightarrow> string \<Rightarrow> nat \<Rightarrow> (int \<times> int \<times> string) result" where
  "session_reply L value sid sequence =
     rbind (ok_or InvalidResponse (as_object value)) (\<lambda>object.
     rbind (ensure InvalidResponse (\<not> (length object \<noteq> 5
        \<or> list_ex (\<lambda>field. \<not> contains_key object field) session_fields))) (\<lambda>_.
     rbind (member object ''session_id'') (\<lambda>reply_id.
     rbind (ok_or InvalidResponse (Option.bind (map_of object ''sequence'') as_u64)) (\<lambda>reply_sequence.
     rbind (member object ''expires_at'') (\<lambda>e.
     rbind (timestamp L e) (\<lambda>expires.
     rbind (member object ''server_time'') (\<lambda>s.
     rbind (timestamp L s) (\<lambda>server.
     rbind (member object ''grant'') (\<lambda>token.
     rbind (ensure InvalidResponse (\<not> (reply_id \<noteq> sid
        \<or> reply_sequence \<noteq> sequence
        \<or> \<not> opaque reply_id
        \<or> length reply_id < 16
        \<or> token = []
        \<or> length token > 16 * 1024))) (\<lambda>_.
       Inr (expires, server, token)))))))))))"

definition session_expectation ::
    "client \<Rightarrow> stored_credential \<Rightarrow> int option \<Rightarrow> int \<Rightarrow> string \<Rightarrow> nat \<Rightarrow> session_expected" where
  "session_expectation c saved licence_expiry now sid sequence =
     \<lparr>se_issuer = cfg_issuer (cl_config c), se_application = cfg_application_id (cl_config c),
      se_environment = cfg_environment_id (cl_config c), se_licence = Some (sc_licence_id saved),
      se_activation = sc_activation_id saved, se_installation = sc_installation_id saved,
      se_fingerprint = sc_fingerprint saved, se_fingerprint_provider = sc_fingerprint_provider saved,
      se_allow_unbound_fingerprint = True, se_credential_expires_at = sc_credential_expires_at saved,
      se_licence_expires_at = licence_expiry, se_now = now, se_session_id = sid,
      se_sequence = sequence\<rparr>"

definition session_environment :: "client \<Rightarrow> string" where
  "session_environment c = (case cl_app_key c of
     None \<Rightarrow> cfg_environment_id (cl_config c) | Some key \<Rightarrow> environment key)"

definition fetch_session_keys :: "libs \<Rightarrow> world \<Rightarrow> unit act" where
  "fetch_session_keys L w =
     abind (gets (jwks_path \<circ> cl_config)) (\<lambda>path.
     abind (get w 1 path) (\<lambda>r.
     abind (of_result (ok_or InvalidResponse r)) (\<lambda>data.
     abind (of_result (ok_or InvalidResponse (to_bytes L data))) (\<lambda>bytes.
     abind (lock w 1) (\<lambda>_.
     abind (gets session_environment) (\<lambda>envt.
     abind (of_result (session_keys_parse L bytes envt)) (\<lambda>ks.
       (\<lambda>c. (c\<lparr>cl_session_keys := Some ks\<rparr>, Inr ())))))))))"

definition session_runtime_of ::
    "session_grant \<Rightarrow> string \<Rightarrow> nat \<Rightarrow> int \<Rightarrow> anchor \<Rightarrow> session_runtime result" where
  "session_runtime_of grant sid sequence expires a =
     rbind (ensure InvalidResponse (\<not> (sg_expires_at grant \<noteq> expires
        \<or> sg_sequence grant \<noteq> sequence \<or> sg_session_id grant \<noteq> sid))) (\<lambda>_.
     rbind (ok_or InvalidResponse (from_unix_seconds expires)) (\<lambda>expires_at.
     rbind (ok_or InvalidResponse (from_unix_seconds (sg_refresh_after grant))) (\<lambda>refresh_after.
     Inr \<lparr>sr_metadata = \<lparr>sm_id = sid, sm_sequence = sequence, sm_expires_at = expires_at,
            sm_refresh_after = refresh_after\<rparr>,
          sr_grant = grant, sr_anchor = a, sr_pending_sequence = None\<rparr>)))"

definition verify_session_reply ::
    "libs \<Rightarrow> world \<Rightarrow> json \<Rightarrow> stored_credential \<Rightarrow> string \<times> nat \<Rightarrow> start \<Rightarrow> int option
      \<Rightarrow> session_runtime act" where
  "verify_session_reply L w value saved expected_session started licence_expiry =
     (case expected_session of (sid, sequence) \<Rightarrow>
     abind (of_result (session_reply L value sid sequence)) (\<lambda>(expires, server, token).
     let a = anchor_from_request server started in
     abind (of_result (key_id L token)) (\<lambda>key.
     abind (lock w 0) (\<lambda>_.
     abind (gets (\<lambda>c. none_or (\<lambda>ks. \<not> session_keys_contains ks key) (cl_session_keys c))) (\<lambda>need_keys.
     abind (if need_keys then fetch_session_keys L w else ret ()) (\<lambda>_.
     abind (of_result (anchor_now a (w_tick w 2))) (\<lambda>now.
     abind (lock w 2) (\<lambda>_.
     abind (gets (\<lambda>c. (cl_session_keys c, session_expectation c saved licence_expiry now sid sequence)))
       (\<lambda>(keys, expected).
     abind (of_result (ok_or InvalidResponse keys)) (\<lambda>ks.
     abind (of_result (verify_session L ks token expected)) (\<lambda>grant.
       of_result (session_runtime_of grant sid sequence expires a))))))))))))"


subsection \<open>Verifying an activation or validation reply\<close>

datatype verified_reply =
    Floating stored_credential "int option"
  | Ordinary stored_credential grant_claims anchor cache

definition reply_floating :: "(string \<times> json) list \<Rightarrow> bool result" where
  "reply_floating object =
     (case map_of object ''session_required'' of
        None \<Rightarrow> if \<not> contains_key object ''licence_id'' then Inr False else Inl InvalidResponse
      | Some v \<Rightarrow> if v = JBool True \<and> map_of object ''grant'' = Some JNull then Inr True
          else Inl InvalidResponse)"

definition bad_reply :: "client \<Rightarrow> reply \<Rightarrow> bool" where
  "bad_reply c r \<longleftrightarrow>
     \<not> opaque (rp_activation_id r)
     \<or> rp_installation_id r \<noteq> installation_id (cl_device c)
     \<or> rp_fingerprint_provider r \<noteq> fingerprint_provider (cl_device c)
     \<or> rp_binding_mode r \<notin> {''none'', ''hwid''}
     \<or> (rp_binding_mode r = ''hwid'' \<and> fingerprint (cl_device c) = None)"

definition bad_expiry :: "client \<Rightarrow> stored_credential option \<Rightarrow> int \<Rightarrow> int option \<Rightarrow> bool" where
  "bad_expiry c previous now expiry \<longleftrightarrow>
     some_and (\<lambda>e. e \<le> now \<or> e > saturating_add now (30 * 86400)) expiry
     \<or> (previous = None \<and> (installed c \<noteq> (expiry = None)))"

definition bad_previous :: "stored_credential option \<Rightarrow> reply \<Rightarrow> int option \<Rightarrow> bool" where
  "bad_previous previous r expiry \<longleftrightarrow>
     some_and (\<lambda>p. rp_activation_id r \<noteq> sc_activation_id p
        \<or> expiry \<noteq> sc_credential_expires_at p \<or> rp_credential r \<noteq> None) previous"

definition or_opt :: "'a option \<Rightarrow> 'a option \<Rightarrow> 'a option" where
  "or_opt x y = (case x of None \<Rightarrow> y | Some _ \<Rightarrow> x)"

definition reply_credential :: "reply \<Rightarrow> stored_credential option \<Rightarrow> string result" where
  "reply_credential r previous =
     rbind (ok_or InvalidResponse (or_opt (rp_credential r) (map_option sc_credential previous))) (\<lambda>cred.
     rbind (ensure InvalidResponse (bearer cred)) (\<lambda>_. Inr cred))"

definition credential_record ::
    "client \<Rightarrow> string \<Rightarrow> string \<Rightarrow> string \<Rightarrow> int option \<Rightarrow> stored_credential" where
  "credential_record c activation licence cred expiry =
     \<lparr>sc_application_id = cfg_application_id (cl_config c),
      sc_environment_id = cfg_environment_id (cl_config c),
      sc_activation_id = activation, sc_licence_id = licence,
      sc_installation_id = installation_id (cl_device c), sc_credential = cred,
      sc_credential_expires_at = expiry, sc_fingerprint = fingerprint (cl_device c),
      sc_fingerprint_provider = fingerprint_provider (cl_device c)\<rparr>"

definition floating_reply ::
    "libs \<Rightarrow> client \<Rightarrow> reply \<Rightarrow> stored_credential option \<Rightarrow> string option \<Rightarrow> int option
      \<Rightarrow> verified_reply result" where
  "floating_reply L c r previous expected_licence expiry =
     rbind (ok_or InvalidResponse (rp_licence_id r)) (\<lambda>licence.
     rbind (ensure InvalidResponse (\<not> (\<not> opaque licence
         \<or> some_and (\<lambda>e. e \<noteq> licence) expected_licence
         \<or> some_and (\<lambda>p. sc_licence_id p \<noteq> licence) previous
         \<or> rp_grant r \<noteq> None))) (\<lambda>_.
     rbind (reply_credential r previous) (\<lambda>cred.
     rbind (opt_traverse (timestamp L) (rp_licence_expires_at r)) (\<lambda>licence_expires_at.
       Inr (Floating (credential_record c (rp_activation_id r) licence cred expiry)
              licence_expires_at)))))"

definition grant_expectation ::
    "client \<Rightarrow> reply \<Rightarrow> stored_credential option \<Rightarrow> string option \<Rightarrow> int option \<Rightarrow> int option \<Rightarrow> int
      \<Rightarrow> expected" where
  "grant_expectation c r previous expected_licence expiry licence_expiry now =
     \<lparr>ex_issuer = cfg_issuer (cl_config c), ex_application = cfg_application_id (cl_config c),
      ex_environment = cfg_environment_id (cl_config c),
      ex_licence = or_opt expected_licence (map_option sc_licence_id previous),
      ex_activation = rp_activation_id r, ex_installation = installation_id (cl_device c),
      ex_fingerprint = fingerprint (cl_device c),
      ex_fingerprint_provider = fingerprint_provider (cl_device c),
      ex_allow_unbound_fingerprint = True, ex_credential_expires_at = expiry,
      ex_licence_expires_at = licence_expiry, ex_now = now\<rparr>"

definition fetch_keys :: "libs \<Rightarrow> world \<Rightarrow> unit act" where
  "fetch_keys L w =
     abind (gets (jwks_path \<circ> cl_config)) (\<lambda>path.
     abind (get w 1 path) (\<lambda>r.
     abind (of_result (ok_or InvalidResponse r)) (\<lambda>v.
     abind (of_result (keys_parse L v)) (\<lambda>ks.
     abind (lock w 1) (\<lambda>_. (\<lambda>c. (c\<lparr>cl_keys := ks\<rparr>, Inr ())))))))"

definition cache_of ::
    "string \<Rightarrow> jwk list \<Rightarrow> int option \<Rightarrow> anchor \<Rightarrow> int \<Rightarrow> int \<Rightarrow> cache" where
  "cache_of token jwks licence_expiry a now wall_now =
     \<lparr>ca_jws = token, ca_jwks = jwks, ca_licence_expires_at = licence_expiry,
      ca_received_server_time = fst (anchor_receipt a),
      ca_received_wall_time = snd (anchor_receipt a),
      ca_server_high_water = now, ca_wall_high_water = wall_now\<rparr>"

definition ordinary_reply ::
    "libs \<Rightarrow> world \<Rightarrow> reply \<Rightarrow> stored_credential option \<Rightarrow> string option \<Rightarrow> int option \<Rightarrow> anchor
      \<Rightarrow> verified_reply act" where
  "ordinary_reply L w r previous expected_licence expiry a =
     abind (of_result (ensure InvalidResponse
       (\<not> (rp_session_required r \<noteq> None \<or> rp_licence_id r \<noteq> None)))) (\<lambda>_.
     abind (of_result (ok_or InvalidResponse (rp_grant r))) (\<lambda>token.
     abind (lock w 0) (\<lambda>_.
     abind (gets (\<lambda>c. keys_contains L (cl_keys c) token)) (\<lambda>contains.
     abind (of_result contains) (\<lambda>present.
     abind (if \<not> present then fetch_keys L w else ret ()) (\<lambda>_.
     abind (of_result (opt_traverse (timestamp L) (rp_licence_expires_at r))) (\<lambda>licence_expiry.
     abind (of_result (anchor_now a (w_tick w 2))) (\<lambda>now.
     abind (lock w 2) (\<lambda>_.
     abind (gets (\<lambda>c. verify_grant L (cl_keys c) token
        (grant_expectation c r previous expected_licence expiry licence_expiry now))) (\<lambda>checked.
     abind (of_result checked) (\<lambda>claims.
     abind (demand InvalidResponse (gc_binding_mode claims = rp_binding_mode r)) (\<lambda>_.
     abind (of_result (reply_credential r previous)) (\<lambda>cred.
     abind (gets (\<lambda>c. credential_record c (rp_activation_id r) (gc_sub claims) cred expiry)) (\<lambda>saved.
     abind (lock w 3) (\<lambda>_.
     abind (gets (\<lambda>c. public_key L (cl_keys c) token)) (\<lambda>pk.
     abind (of_result pk) (\<lambda>jwks_value.
     abind (of_result (ok_or InvalidResponse (de_jwks L jwks_value))) (\<lambda>jwks.
     abind (of_result (wall (w_tick w 3))) (\<lambda>wall_now.
       ret (Ordinary saved claims a (cache_of token jwks licence_expiry a now wall_now)))))))))))))))))))))"

definition verify_reply ::
    "libs \<Rightarrow> world \<Rightarrow> json \<Rightarrow> stored_credential option \<Rightarrow> string option \<Rightarrow> start
      \<Rightarrow> (verified_reply \<times> string option) act" where
  "verify_reply L w value previous expected_licence started =
     abind (of_result (ok_or InvalidResponse (as_object value))) (\<lambda>object.
     abind (of_result (update_hint object)) (\<lambda>update_available.
     abind (of_result (reply_floating object)) (\<lambda>is_floating.
     abind (of_result (ok_or InvalidResponse (de_reply L value))) (\<lambda>r.
     abind (demand ReauthenticationRequired (\<not> rp_secret_replay_expired r)) (\<lambda>_.
     abind (gets (\<lambda>c. bad_reply c r)) (\<lambda>bad.
     abind (demand InvalidResponse (\<not> bad)) (\<lambda>_.
     abind (of_result (timestamp L (rp_server_time r))) (\<lambda>server.
     let a = anchor_from_request server started in
     abind (of_result (anchor_now a (w_tick w 4))) (\<lambda>now.
     abind (of_result (opt_traverse (timestamp L) (rp_credential_expires_at r))) (\<lambda>expiry.
     abind (gets (\<lambda>c. bad_expiry c previous now expiry)) (\<lambda>bad.
     abind (demand InvalidResponse (\<not> bad)) (\<lambda>_.
     abind (demand InvalidResponse (\<not> bad_previous previous r expiry)) (\<lambda>_.
     if is_floating then
       abind (gets (\<lambda>c. floating_reply L c r previous expected_licence expiry)) (\<lambda>v.
       abind (of_result v) (\<lambda>v. ret (v, update_available)))
     else
       abind (ordinary_reply L w r previous expected_licence expiry a) (\<lambda>v.
         ret (v, update_available)))))))))))))))"


subsection \<open>Starting a floating session\<close>

text \<open>The guard of a session attempt: an attempt that ends before its outcome is settled (an
  early return, or a dropped future) revokes the session and frees the seat.\<close>

definition disable_session :: "state \<Rightarrow> state" where
  "disable_session s = s\<lparr>st_session := None, st_pending_session_id := None,
     st_session_disabled := True, st_session_retry_deadline := None,
     st_generation := st_generation s + 1\<rparr>"

definition guard_drop :: "world \<Rightarrow> nat \<Rightarrow> stored_credential \<Rightarrow> string \<Rightarrow> 64 word \<Rightarrow> unit act" where
  "guard_drop w k saved sid generation =
     abind (lock w k) (\<lambda>_.
     abind (modify (\<lambda>s. if st_generation s = generation then disable_session s else s)) (\<lambda>_.
       send_session_end_cleanup saved sid))"

definition guarded ::
    "world \<Rightarrow> nat \<Rightarrow> stored_credential \<Rightarrow> string \<Rightarrow> 64 word \<Rightarrow> 'a result \<Rightarrow> 'a act" where
  "guarded w k saved sid generation r =
     (case r of Inr x \<Rightarrow> ret x
      | Inl e \<Rightarrow> abind (guard_drop w k saved sid generation) (\<lambda>_. fail e))"

definition drop_session :: "state \<Rightarrow> state" where
  "drop_session s = s\<lparr>st_session := None, st_pending_session_id := None\<rparr>"

type_synonym session_plan = "stored_credential \<times> string \<times> int option \<times> json"

text \<open>The session id of an attempt: the pending one, unless it is two minutes old, or a new one.\<close>

definition pending_expired :: "state \<Rightarrow> tick \<Rightarrow> bool" where
  "pending_expired s t \<longleftrightarrow>
     some_and (\<lambda>since. instant t - since \<ge> from_secs 120) (st_pending_session_since s)"

definition attempt_id :: "libs \<Rightarrow> world \<Rightarrow> string act" where
  "attempt_id L w =
     abind (modify (\<lambda>s. if pending_expired s (w_tick w 1) then s\<lparr>st_pending_session_id := None\<rparr> else s)) (\<lambda>_.
     abind (gets (st_pending_session_id \<circ> cl_state)) (\<lambda>pend.
     case pend of
       Some sid \<Rightarrow> ret sid
     | None \<Rightarrow>
         abind (of_result (new_installation L (w_random w 0))) (\<lambda>dev.
         abind (modify (\<lambda>s. s\<lparr>st_pending_session_id := Some (installation_id dev),
             st_pending_session_since := Some (instant (w_tick w 2))\<rparr>)) (\<lambda>_.
           ret (installation_id dev)))))"

definition plan_session :: "libs \<Rightarrow> world \<Rightarrow> (snapshot + session_plan) act" where
  "plan_session L w =
     abind (gets cl_state) (\<lambda>s.
     abind (demand SessionRequired (\<not> st_session_disabled s)) (\<lambda>_.
     abind (of_result (ok_or NotActivated (st_credential s))) (\<lambda>saved.
     abind (attempt_id L w) (\<lambda>sid.
     abind (gets (\<lambda>c. credential_body c saved)) (\<lambda>body.
       ret (Inr (saved, sid, st_session_licence_expires_at s,
         json_set body ''session_id'' (JStr sid))))))))"

definition prepare_session ::
    "libs \<Rightarrow> world \<Rightarrow> 64 word \<Rightarrow> bool \<Rightarrow> (snapshot + session_plan) act" where
  "prepare_session L w generation explicit =
     abind (lock w 0) (\<lambda>_.
     abind (sync_storage (w_io w 0)) (\<lambda>_.
     abind (same_generation generation) (\<lambda>_.
     abind (check_cancelled w 0) (\<lambda>_.
     abind (gets cl_state) (\<lambda>s.
     if authorized_offline s \<noteq> None then
       abind (checked_snapshot_locked (w_tick w 0) (w_io w 1)) (\<lambda>snap. ret (Inl snap))
     else if st_session_policy_known s \<and> \<not> st_session_required s then
       abind (of_result (snapshot_state s (w_tick w 0))) (\<lambda>snap. ret (Inl snap))
     else
       abind (modify (\<lambda>s. if explicit
           then s\<lparr>st_session_disabled := False, st_session_retry_deadline := None\<rparr> else s)) (\<lambda>_.
       abind (gets (\<lambda>c. (st_session (cl_state c), session_snapshot (cl_state c) (w_tick w 0)))) (\<lambda>(session, snap).
       if session \<noteq> None \<and> ss_access snap = Online then ret (Inl snap)
       else abind (modify (\<lambda>s. if session \<noteq> None then drop_session s else s)) (\<lambda>_.
         plan_session L w))))))))"

definition settled_denials :: "string set" where
  "settled_denials = {''session_expired'', ''session_ended'', ''session_sequence_conflict''}"

text \<open>The outcome of an attempt, and whether the seat has to be freed.\<close>

definition install_session :: "world \<Rightarrow> session_runtime \<Rightarrow> (snapshot result \<times> bool) act" where
  "install_session w runtime =
     abind (modify (\<lambda>s. s\<lparr>st_session := Some runtime, st_pending_session_id := None,
         st_session_retry_deadline := None\<rparr>)) (\<lambda>_.
     abind (gets (\<lambda>c. session_snapshot (cl_state c) (w_tick w 21))) (\<lambda>snap.
     if ss_access snap = Online then ret (Inr snap, False)
     else abind (modify (\<lambda>s. s\<lparr>st_session := None\<rparr>)) (\<lambda>_. ret (Inl SessionRequired, True))))"

definition failed_session :: "world \<Rightarrow> error \<Rightarrow> (snapshot result \<times> bool) act" where
  "failed_session w e =
     (if is_transient e then
        abind (modify (\<lambda>s. s\<lparr>st_session_retry_deadline := Some (retry_at w 22)\<rparr>)) (\<lambda>_.
          ret (Inl e, False))
      else if is_denied e then
        abind (modify (\<lambda>s. (if err_code e \<in> settled_denials
            then s\<lparr>st_pending_session_id := None\<rparr> else s)\<lparr>st_session_retry_deadline := None\<rparr>)) (\<lambda>_.
          ret (Inl e, False))
      else abind (modify (\<lambda>s. s\<lparr>st_pending_session_id := None\<rparr>)) (\<lambda>_. ret (Inl e, True)))"

definition settle_session ::
    "world \<Rightarrow> 64 word \<Rightarrow> session_runtime result \<Rightarrow> (snapshot result \<times> bool) act" where
  "settle_session w generation verified =
     abind (lock w 20) (\<lambda>_.
     abind (try_act (sync_storage (w_io w 20))) (\<lambda>synced.
     case synced of
       Inl e \<Rightarrow> ret (Inl e, True)
     | Inr _ \<Rightarrow>
        abind (gets (st_generation \<circ> cl_state)) (\<lambda>now.
        if now \<noteq> generation then ret (Inl StaleResponse, True)
        else if w_cancelled w 20 then
          abind (modify (\<lambda>s. s\<lparr>st_pending_session_id := None\<rparr>)) (\<lambda>_. ret (Inl Cancelled, True))
        else (case verified of
            Inl e \<Rightarrow> failed_session w e
          | Inr runtime \<Rightarrow> install_session w runtime))))"

text \<open>What an exchange with the session endpoints proves, as a value.\<close>

definition session_exchange ::
    "libs \<Rightarrow> world \<Rightarrow> string \<Rightarrow> json \<Rightarrow> stored_credential \<Rightarrow> string \<times> nat \<Rightarrow> start \<Rightarrow> int option
      \<Rightarrow> session_runtime result act" where
  "session_exchange L w path body saved expected_session started licence_expiry =
     abind (post w 0 path body True) (\<lambda>response.
     case response of
       Inr (Some value) \<Rightarrow>
         try_act (verify_session_reply L (sub w 1) value saved expected_session started licence_expiry)
     | Inr None \<Rightarrow> ret (Inl InvalidResponse)
     | Inl e \<Rightarrow> ret (Inl e))"

definition start_session_serialized :: "libs \<Rightarrow> world \<Rightarrow> 64 word \<Rightarrow> bool \<Rightarrow> snapshot act" where
  "start_session_serialized L w generation explicit =
     abind (prepare_session L w generation explicit) (\<lambda>plan.
     case plan of
       Inl snap \<Rightarrow> ret snap
     | Inr (saved, sid, licence_expiry, body) \<Rightarrow>
        abind (guarded w 3 saved sid generation (start_capture (w_tick w 3))) (\<lambda>started.
        abind (session_exchange L (sub w 4) (activation_path saved ''/sessions'') body saved (sid, 1)
          started licence_expiry) (\<lambda>verified.
        abind (settle_session w generation verified) (\<lambda>(outcome, cleanup).
        abind (if cleanup then send_session_end_cleanup saved sid else ret ()) (\<lambda>_.
          of_result outcome)))))"


subsection \<open>Accepting a reply\<close>

definition persist :: "io \<Rightarrow> stored_credential \<Rightarrow> (nat \<Rightarrow> disk \<Rightarrow> disk \<times> unit result) \<Rightarrow> unit act" where
  "persist io saved commit_to =
     abind (gets (\<lambda>c. (installed c, st_storage_version (cl_state c)))) (\<lambda>(inst, version).
     abind (try_act (if inst then on_disk (commit_to version) else store_save io version saved)) (\<lambda>r.
     case r of
       Inl e \<Rightarrow> abind (modify clear) (\<lambda>_. fail e)
     | Inr _ \<Rightarrow> ret ()))"

definition floating_state ::
    "stored_credential \<Rightarrow> int option \<Rightarrow> string option \<Rightarrow> state \<Rightarrow> state" where
  "floating_state saved licence_expires_at update s =
     s\<lparr>st_credential := Some saved, st_claims := None, st_anchor := None,
       st_session_policy_known := True, st_session_required := True,
       st_session_licence_expires_at := licence_expires_at, st_update_available := update,
       st_transient := False, st_restored := False, st_retry_deadline := None,
       st_last_failure := None\<rparr>"

definition ordinary_state ::
    "stored_credential \<Rightarrow> grant_claims \<Rightarrow> anchor \<Rightarrow> string option \<Rightarrow> state \<Rightarrow> state" where
  "ordinary_state saved claims a update s =
     s\<lparr>st_credential := Some saved, st_claims := Some claims, st_anchor := Some a,
       st_session_policy_known := True, st_session_required := False,
       st_session_disabled := False, st_session := None, st_pending_session_id := None,
       st_session_retry_deadline := None, st_session_licence_expires_at := None,
       st_update_available := update, st_transient := False, st_restored := False,
       st_retry_deadline := None, st_last_failure := None\<rparr>"

definition snapshot_now :: "world \<Rightarrow> nat \<Rightarrow> snapshot act" where
  "snapshot_now w k =
     abind (gets (\<lambda>c. snapshot_state (cl_state c) (w_tick w k))) (\<lambda>r. of_result r)"

definition accept_verified ::
    "world \<Rightarrow> bool \<Rightarrow> verified_reply \<Rightarrow> string option \<Rightarrow> snapshot act" where
  "accept_verified w activation v update =
     (case v of
        Floating saved licence_expires_at \<Rightarrow>
          abind (persist (w_io w 21) saved
            (\<lambda>version. commit_floating version saved activation (w_io w 21))) (\<lambda>_.
          abind (modify (floating_state saved licence_expires_at update)) (\<lambda>_.
            snapshot_now w 21))
      | Ordinary saved claims a cached \<Rightarrow>
          abind (persist (w_io w 21) saved
            (\<lambda>version. commit_access version saved cached activation (w_io w 21))) (\<lambda>_.
          abind (modify (ordinary_state saved claims a update)) (\<lambda>_.
            snapshot_now w 21)))"

text \<open>A transient failure: offline access if the cached grant allows it, otherwise the failure.\<close>

definition checkpoint_restored :: "io \<Rightarrow> unit act" where
  "checkpoint_restored io =
     abind (gets (\<lambda>c. (st_restored (cl_state c) \<and> installed c, st_anchor (cl_state c)))) (\<lambda>(due, a).
     if due then on_disk (checkpoint a True io) else ret ())"

definition transient_state :: "error \<Rightarrow> duration \<Rightarrow> state \<Rightarrow> state" where
  "transient_state e deadline s =
     s\<lparr>st_restored := False, st_transient := True, st_last_failure := Some e,
       st_retry_deadline := Some deadline\<rparr>"

definition accept_transient :: "world \<Rightarrow> bool \<Rightarrow> error \<Rightarrow> snapshot act" where
  "accept_transient w verifying e =
     abind (if verifying then
         abind (modify revoke_claims) (\<lambda>_. clear_disk_cache False False (w_io w 22))
       else ret ()) (\<lambda>_.
     abind (checkpoint_restored (w_io w 23)) (\<lambda>_.
     abind (modify (transient_state e (retry_at w 24))) (\<lambda>_.
     abind (snapshot_now w 25) (\<lambda>snap.
     if ss_access snap = Offline then ret snap else fail e))))"

text \<open>Any other failure revokes the authority, and the credential where the denial proves it dead.\<close>

definition failed_state :: "error \<Rightarrow> duration \<Rightarrow> state \<Rightarrow> state" where
  "failed_state e deadline s =
     (let s1 = s\<lparr>st_generation := st_generation s + 1, st_claims := None, st_anchor := None,
         st_session := None, st_pending_session_id := None, st_session_policy_known := False,
         st_session_required := False, st_session_disabled := False,
         st_session_retry_deadline := None, st_session_licence_expires_at := None,
         st_restored := False, st_update_available := None, st_transient := False,
         st_retry_deadline := Some deadline, st_last_failure := Some e\<rparr>
      in if discards_credential e then s1\<lparr>st_credential := None, st_account := None\<rparr> else s1)"

definition failure_definitive :: "bool \<Rightarrow> error \<Rightarrow> bool" where
  "failure_definitive activation e \<longleftrightarrow> is_denied e \<or> (activation \<and> is_app_version_unsupported e)"

definition kept_credential :: "error \<Rightarrow> stored_credential option \<Rightarrow> stored_credential option" where
  "kept_credential e c = filter_opt (\<lambda>_. is_denied e \<and> \<not> discards_credential e) c"

definition fail_installed :: "world \<Rightarrow> bool \<Rightarrow> error \<Rightarrow> unit act" where
  "fail_installed w activation e =
     abind (modify (failed_state e (retry_at w 26))) (\<lambda>_.
     abind (on_disk (clear_cached (failure_definitive activation e) (discards_credential e) (w_io w 26)))
       set_version)"

definition fail_memory :: "world \<Rightarrow> error \<Rightarrow> unit act" where
  "fail_memory w e =
     abind (gets (kept_credential e \<circ> (st_credential \<circ> cl_state))) (\<lambda>kept.
     abind (modify clear) (\<lambda>_.
     abind (store_invalidate (w_io w 26)) (\<lambda>v.
     abind (set_version v) (\<lambda>_.
     case kept of
       None \<Rightarrow> ret ()
     | Some saved \<Rightarrow>
         abind (store_save (w_io w 27) v saved) (\<lambda>_.
           modify (\<lambda>s. s\<lparr>st_credential := Some saved\<rparr>))))))"

definition accept_failure :: "world \<Rightarrow> bool \<Rightarrow> error \<Rightarrow> snapshot act" where
  "accept_failure w activation e =
     abind (gets installed) (\<lambda>inst.
     abind (if inst then fail_installed w activation e else fail_memory w e) (\<lambda>_. fail e))"

definition check_response ::
    "libs \<Rightarrow> world \<Rightarrow> json option result \<Rightarrow> stored_credential option \<Rightarrow> string option \<Rightarrow> start
      \<Rightarrow> (bool \<times> (verified_reply \<times> string option) result) act" where
  "check_response L w response previous expected_licence started =
     (case response of
        Inr (Some value) \<Rightarrow>
          abind (try_act (verify_reply L (sub w 10) value previous expected_licence started)) (\<lambda>r.
            ret (True, r))
      | Inr None \<Rightarrow> ret (False, Inl InvalidResponse)
      | Inl e \<Rightarrow> ret (False, Inl e))"

definition accept_for_licence ::
    "libs \<Rightarrow> world \<Rightarrow> json option result \<Rightarrow> 64 word \<Rightarrow> stored_credential option \<Rightarrow> start
      \<Rightarrow> string option \<Rightarrow> snapshot act" where
  "accept_for_licence L w response generation previous started expected_licence =
     abind (check_generation w 9 generation) (\<lambda>_.
     abind (check_response L w response previous expected_licence started) (\<lambda>(verifying, r).
     abind (lock w 20) (\<lambda>_.
     abind (sync_storage (w_io w 20)) (\<lambda>_.
     abind (same_generation generation) (\<lambda>_.
     abind (check_cancelled w 20) (\<lambda>_.
     case r of
       Inr (v, update) \<Rightarrow> accept_verified w (previous = None) v update
     | Inl e \<Rightarrow>
         if is_transient e then accept_transient w verifying e
         else if e = Cancelled then fail Cancelled
         else accept_failure w (previous = None) e))))))"

definition accept_with_licence ::
    "libs \<Rightarrow> world \<Rightarrow> json option result \<Rightarrow> 64 word \<Rightarrow> stored_credential option \<Rightarrow> start
      \<Rightarrow> string option \<Rightarrow> snapshot act" where
  "accept_with_licence L w response generation previous started expected_licence =
     abind (accept_for_licence L w response generation previous started expected_licence) (\<lambda>snap.
     abind (lock w 30) (\<lambda>_.
     abind (gets (\<lambda>c. st_session_required (cl_state c) \<and> \<not> st_session_disabled (cl_state c)
        \<and> st_session (cl_state c) = None)) (\<lambda>should_start.
     if should_start then
       abind (current_generation w 31) (\<lambda>next_generation.
         start_session_serialized L (sub w 40) next_generation False)
     else ret snap)))"

subsection \<open>Refreshing\<close>

definition retry_due :: "state \<Rightarrow> tick \<Rightarrow> bool" where
  "retry_due s t \<longleftrightarrow> none_or (\<lambda>deadline. instant t \<ge> deadline) (st_retry_deadline s)"

definition wants_refresh :: "snapshot \<Rightarrow> bool" where
  "wants_refresh snap \<longleftrightarrow> ss_access snap \<in> {RefreshRequired, Expired, Offline}"

text \<open>Whether a scheduled refresh has nothing to do: its snapshot, or its last failure.\<close>

definition refresh_not_due :: "world \<Rightarrow> 64 word \<Rightarrow> snapshot option act" where
  "refresh_not_due w generation =
     abind (lock w 2) (\<lambda>_.
     abind (sync_storage (w_io w 2)) (\<lambda>_.
     abind (same_generation generation) (\<lambda>_.
     abind (check_cancelled w 2) (\<lambda>_.
     abind (snapshot_now w 2) (\<lambda>snap.
     abind (gets cl_state) (\<lambda>s.
     if \<not> wants_refresh snap \<or> \<not> retry_due s (w_tick w 3) then
       (case st_last_failure s of
          Some e \<Rightarrow> if ss_access snap \<noteq> Offline then fail e else ret (Some snap)
        | None \<Rightarrow> ret (Some snap))
     else ret None))))))"

definition require_settled :: "io \<Rightarrow> unit act" where
  "require_settled io =
     abind (gets installed) (\<lambda>inst.
     if inst then abind (on_disk (activation_pending io)) (\<lambda>pend. demand PendingActivation (\<not> pend))
     else ret ())"

definition with_app_version :: "client \<Rightarrow> json \<Rightarrow> json" where
  "with_app_version c body = (case cl_app_version c of
     None \<Rightarrow> body | Some v \<Rightarrow> json_set body ''app_version'' (JStr v))"

definition send_refresh :: "libs \<Rightarrow> world \<Rightarrow> 64 word \<Rightarrow> bool \<Rightarrow> snapshot act" where
  "send_refresh L w generation suppress_session_acquire =
     abind (lock w 4) (\<lambda>_.
     abind (gets (st_credential \<circ> cl_state)) (\<lambda>credential.
     abind (of_result (ok_or ReauthenticationRequired credential)) (\<lambda>saved.
     abind (gets (\<lambda>c. with_app_version c (credential_body c saved))) (\<lambda>body.
     abind (of_result (start_capture (w_tick w 5))) (\<lambda>started.
     abind (post w 5 (activation_path saved ''/validate'') body True) (\<lambda>response.
     if suppress_session_acquire
     then accept_for_licence L (sub w 10) response generation (Some saved) started None
     else accept_with_licence L (sub w 10) response generation (Some saved) started None))))))"

definition refresh_inner_mode :: "libs \<Rightarrow> world \<Rightarrow> bool \<Rightarrow> bool \<Rightarrow> snapshot act" where
  "refresh_inner_mode L w respect_retry suppress_session_acquire =
     abind (current_generation w 0) (\<lambda>generation.
     abind (serialize w 0) (\<lambda>_.
     abind (check_generation w 1 generation) (\<lambda>_.
     abind (require_settled (w_io w 6)) (\<lambda>_.
     abind (if respect_retry then refresh_not_due w generation else ret None) (\<lambda>done_snapshot.
     case done_snapshot of
       Some snap \<Rightarrow> ret snap
     | None \<Rightarrow> send_refresh L w generation suppress_session_acquire)))))"

definition refresh_with_cancel :: "libs \<Rightarrow> world \<Rightarrow> snapshot act" where
  "refresh_with_cancel L w = refresh_inner_mode L w False False"

definition refresh_if_needed :: "libs \<Rightarrow> world \<Rightarrow> snapshot act" where
  "refresh_if_needed L w = refresh_inner_mode L w True False"

definition refresh_policy_without_acquire :: "libs \<Rightarrow> world \<Rightarrow> snapshot act" where
  "refresh_policy_without_acquire L w = refresh_inner_mode L w False True"

end
