(* ===== verification/Entry.thy ===== *)
theory Entry
  imports Access
begin

text \<open>
  The entry points of \<open>access.rs\<close>: activation and deactivation, starting, renewing, maintaining
  and ending a floating session, and the access decision \<open>require_access\<close>.
\<close>

subsection \<open>Activation\<close>

definition invalid_activation :: "client \<Rightarrow> principal \<Rightarrow> string \<Rightarrow> bool" where
  "invalid_activation c who key \<longleftrightarrow>
     \<not> (case who of KeyPrincipal k \<Rightarrow> k \<noteq> [] \<and> length k \<le> 256
          | AccountPrincipal licence \<Rightarrow> opaque licence)
     \<or> (key \<noteq> [] \<and> \<not> valid_operation_id key)
     \<or> (\<not> (16 \<le> length key \<and> length key \<le> 128) \<and> \<not> (installed c \<and> key = []))"

definition is_key :: "principal \<Rightarrow> bool" where
  "is_key who = (case who of KeyPrincipal _ \<Rightarrow> True | AccountPrincipal _ \<Rightarrow> False)"

text \<open>The customer session an account activation is made with.\<close>

definition activation_session :: "state \<Rightarrow> principal \<Rightarrow> (string option \<times> string option) result" where
  "activation_session s who = (case who of
       KeyPrincipal _ \<Rightarrow> Inr (None, None)
     | AccountPrincipal _ \<Rightarrow>
         rbind (ok_or ReauthenticationRequired (st_account s)) (\<lambda>a.
           Inr (Some (as_token a), Some (cu_id (ac_customer (as_account a))))))"

definition prepared_state :: "nat \<Rightarrow> bool \<Rightarrow> state \<Rightarrow> state" where
  "prepared_state version key_activation s =
     (let s1 = s\<lparr>st_storage_version := version, st_generation := st_generation s + 1,
         st_claims := None, st_anchor := None, st_session := None,
         st_pending_session_id := None, st_pending_session_since := None,
         st_session_policy_known := False, st_session_required := False,
         st_session_disabled := False, st_session_retry_deadline := None,
         st_session_licence_expires_at := None,
         st_offline := map_option (\<lambda>f. f\<lparr>or_authorized := False\<rparr>) (st_offline s),
         st_restored := False, st_transient := False, st_retry_deadline := None,
         st_last_failure := None\<rparr>
      in if key_activation then s1\<lparr>st_account := None\<rparr> else s1)"

definition begin_installed ::
    "libs \<Rightarrow> world \<Rightarrow> principal \<Rightarrow> string option \<Rightarrow> string option \<Rightarrow> string \<Rightarrow> string act" where
  "begin_installed L w who customer previous key =
     abind (checkpoint_authorized True (w_io w 2)) (\<lambda>_.
     abind (on_disk (prepare_activation L who customer previous key (w_io w 3))) (\<lambda>(operation, version).
     abind (modify (prepared_state version (is_key who))) (\<lambda>_. ret operation)))"

definition begin_memory :: "world \<Rightarrow> principal \<Rightarrow> string \<Rightarrow> string act" where
  "begin_memory w who key =
     abind (modify (if is_key who then clear else clear_access)) (\<lambda>_.
     abind (store_invalidate (w_io w 3)) (\<lambda>v.
     abind (set_version v) (\<lambda>_. ret key)))"

definition begin_activation ::
    "libs \<Rightarrow> world \<Rightarrow> 64 word \<Rightarrow> principal \<Rightarrow> string option \<Rightarrow> string
      \<Rightarrow> (64 word \<times> string option \<times> string) act" where
  "begin_activation L w generation who previous key =
     abind (lock w 2) (\<lambda>_.
     abind (same_generation generation) (\<lambda>_.
     abind (gets (\<lambda>c. (installed c, activation_session (cl_state c) who))) (\<lambda>(inst, session).
     abind (of_result session) (\<lambda>(token, customer).
     abind (if inst then begin_installed L w who customer previous key
            else begin_memory w who key) (\<lambda>operation.
     abind (gets (st_generation \<circ> cl_state)) (\<lambda>g. ret (g, token, operation)))))))"

definition activation_body ::
    "client \<Rightarrow> principal \<Rightarrow> string option \<Rightarrow> string option \<Rightarrow> string \<Rightarrow> json" where
  "activation_body c who previous token operation =
     (let base = JObj
          [(''application_id'', JStr (cfg_application_id (cl_config c))),
           (''environment_id'', JStr (cfg_environment_id (cl_config c))),
           (''installation_id'', JStr (installation_id (cl_device c))),
           (''fingerprint'', json_opt (fingerprint (cl_device c))),
           (''fingerprint_provider'', json_opt (fingerprint_provider (cl_device c))),
           (''previous_credential'', json_opt previous),
           (''idempotency_key'', JStr operation)];
        mode = (if installed c then json_set base ''credential_mode'' (JStr ''persistent'') else base);
        versioned = with_app_version c mode
      in case who of
           KeyPrincipal key \<Rightarrow> json_set versioned ''licence_key'' (JStr key)
         | AccountPrincipal licence \<Rightarrow>
             json_set (json_set versioned ''customer_session'' (json_opt token))
               ''licence_id'' (JStr licence))"

definition expected_licence_of :: "principal \<Rightarrow> string option" where
  "expected_licence_of who =
     (case who of KeyPrincipal _ \<Rightarrow> None | AccountPrincipal licence \<Rightarrow> Some licence)"

definition activate_as ::
    "libs \<Rightarrow> world \<Rightarrow> principal \<Rightarrow> string option \<Rightarrow> string \<Rightarrow> snapshot act" where
  "activate_as L w who previous key =
     abind (gets (\<lambda>c. invalid_activation c who key)) (\<lambda>bad.
     abind (demand Configuration (\<not> bad)) (\<lambda>_.
     abind (current_generation w 0) (\<lambda>generation.
     abind (serialize w 0) (\<lambda>_.
     abind (check_generation w 1 generation) (\<lambda>_.
     abind (begin_activation L w generation who previous key) (\<lambda>(generation', token, operation).
     abind (gets (\<lambda>c. activation_body c who previous token operation)) (\<lambda>body.
     abind (of_result (start_capture (w_tick w 4))) (\<lambda>started.
     abind (post w 4 ''/api/client/v1/activations'' body True) (\<lambda>response.
       accept_with_licence L (sub w 10) response generation' None started
         (expected_licence_of who))))))))))"

definition activate :: "libs \<Rightarrow> world \<Rightarrow> string \<Rightarrow> snapshot act" where
  "activate L w key = activate_as L w (KeyPrincipal key) None []"

definition activate_with_id :: "libs \<Rightarrow> world \<Rightarrow> string \<Rightarrow> string \<Rightarrow> snapshot act" where
  "activate_with_id L w key idempotency_key =
     abind (demand Configuration (valid_operation_id idempotency_key)) (\<lambda>_.
       activate_as L w (KeyPrincipal key) None idempotency_key)"

definition activate_with_previous ::
    "libs \<Rightarrow> world \<Rightarrow> string \<Rightarrow> string option \<Rightarrow> string option \<Rightarrow> snapshot act" where
  "activate_with_previous L w key previous idempotency_key =
     abind (demand Configuration (none_or valid_operation_id idempotency_key)) (\<lambda>_.
       activate_as L w (KeyPrincipal key) previous (or_else idempotency_key []))"

subsection \<open>Deactivation\<close>

definition release_credential :: "world \<Rightarrow> stored_credential act" where
  "release_credential w =
     abind (lock w 0) (\<lambda>_.
     abind (sync_storage (w_io w 0)) (\<lambda>_.
     abind (gets (st_credential \<circ> cl_state)) (\<lambda>credential.
     abind (of_result (ok_or ReauthenticationRequired credential)) (\<lambda>saved.
     abind (modify clear_access) (\<lambda>_.
     abind (store_invalidate (w_io w 1)) (\<lambda>v.
     abind (set_version v) (\<lambda>_. ret saved)))))))"

text \<open>A reply with no body, or the failure.\<close>

definition expect_empty :: "json option result \<Rightarrow> unit result" where
  "expect_empty response = rbind response (\<lambda>r. ensure InvalidResponse (r = None))"

definition deactivate :: "libs \<Rightarrow> world \<Rightarrow> string \<Rightarrow> unit act" where
  "deactivate L w requested_id =
     abind (of_result (if requested_id = []
         then rbind (new_installation L (w_random w 0)) (\<lambda>dev. Inr (installation_id dev))
         else Inr requested_id)) (\<lambda>key.
     abind (demand Configuration (16 \<le> length key \<and> length key \<le> 128)) (\<lambda>_.
     abind (release_credential w) (\<lambda>saved.
     abind (gets (\<lambda>c. json_set (credential_body c saved) ''idempotency_key'' (JStr key))) (\<lambda>body.
     abind (post w 2 (activation_path saved ''/deactivate'') body True) (\<lambda>response.
       of_result (expect_empty response))))))"

definition deactivate_with_id :: "libs \<Rightarrow> world \<Rightarrow> string \<Rightarrow> unit act" where
  "deactivate_with_id L w idempotency_key =
     abind (demand Configuration (valid_operation_id idempotency_key)) (\<lambda>_.
       deactivate L w idempotency_key)"

subsection \<open>Sessions\<close>

text \<open>An early answer, or what to go on with: whether the policy is known, and the credential.\<close>

definition session_status ::
    "world \<Rightarrow> (snapshot + bool \<times> stored_credential option) act" where
  "session_status w =
     abind (lock w 0) (\<lambda>_.
     abind (sync_storage (w_io w 0)) (\<lambda>_.
     abind (gets cl_state) (\<lambda>s.
     if authorized_offline s \<noteq> None then
       abind (checked_snapshot_locked (w_tick w 0) (w_io w 1)) (\<lambda>snap. ret (Inl snap))
     else
       (let current = session_snapshot s (w_tick w 0) in
        if st_session_required s \<and> ss_access current = Online then ret (Inl current)
        else ret (Inr (st_session_policy_known s, st_credential s))))))"

definition start_session_with_cancel :: "libs \<Rightarrow> world \<Rightarrow> snapshot act" where
  "start_session_with_cancel L w =
     abind (check_cancelled w 0) (\<lambda>_.
     abind (session_status w) (\<lambda>status.
     case status of
       Inl snap \<Rightarrow> ret snap
     | Inr (known, saved) \<Rightarrow>
        abind (if known then ret ()
          else abind (demand NotActivated (saved \<noteq> None)) (\<lambda>_.
               abind (refresh_with_cancel L (sub w 100)) (\<lambda>_. ret ()))) (\<lambda>_.
        abind (current_generation w 2) (\<lambda>generation.
        abind (serialize w 2) (\<lambda>_.
          start_session_serialized L (sub w 10) generation True)))))"

text \<open>The end of a session: nothing to do, or learn the policy first, or go on.\<close>

definition end_status :: "world \<Rightarrow> (bool \<times> stored_credential option) option act" where
  "end_status w =
     abind (lock w 0) (\<lambda>_.
     abind (sync_storage (w_io w 0)) (\<lambda>_.
     abind (gets cl_state) (\<lambda>s.
     if authorized_offline s \<noteq> None then ret None
     else
       abind (modify (\<lambda>s. if \<not> st_session_policy_known s
           then s\<lparr>st_session_disabled := True\<rparr> else s)) (\<lambda>_.
         ret (Some (st_session_policy_known s, st_credential s))))))"

definition session_to_end :: "state \<Rightarrow> string option" where
  "session_to_end s =
     or_opt (map_option (\<lambda>r. sm_id (sr_metadata r)) (st_session s)) (st_pending_session_id s)"

definition take_session :: "world \<Rightarrow> (stored_credential \<times> string option) option act" where
  "take_session w =
     abind (lock w 1) (\<lambda>_.
     abind (sync_storage (w_io w 1)) (\<lambda>_.
     abind (gets cl_state) (\<lambda>s.
     if st_session_policy_known s \<and> \<not> st_session_required s then ret None
     else
       abind (of_result (ok_or NotActivated (st_credential s))) (\<lambda>saved.
       abind (modify disable_session) (\<lambda>_. ret (Some (saved, session_to_end s)))))))"

definition end_session :: "libs \<Rightarrow> world \<Rightarrow> unit act" where
  "end_session L w =
     abind (end_status w) (\<lambda>status.
     case status of
       None \<Rightarrow> ret ()
     | Some (known, saved) \<Rightarrow>
        if \<not> known \<and> saved = None then ret ()
        else
          abind (if known then ret ()
            else abind (refresh_policy_without_acquire L (sub w 100)) (\<lambda>_. ret ())) (\<lambda>_.
          abind (take_session w) (\<lambda>taken.
          case taken of
            None \<Rightarrow> ret ()
          | Some (saved, None) \<Rightarrow> ret ()
          | Some (saved, Some sid) \<Rightarrow>
             abind (gets (\<lambda>c. credential_body c saved)) (\<lambda>body.
             abind (post w 2 (session_path saved sid ''/end'') body False) (\<lambda>response.
               of_result (expect_empty response))))))"


subsection \<open>Renewing and maintaining a session\<close>

definition renewal_sequence :: "session_runtime \<Rightarrow> nat" where
  "renewal_sequence r = or_else (sr_pending_sequence r) (sg_sequence (sr_grant r) + 1)"

definition prepare_renewal ::
    "world \<Rightarrow> 64 word \<Rightarrow> (stored_credential \<times> string \<times> nat \<times> int option \<times> json) act" where
  "prepare_renewal w generation =
     abind (lock w 1) (\<lambda>_.
     abind (sync_storage (w_io w 1)) (\<lambda>_.
     abind (same_generation generation) (\<lambda>_.
     abind (gets cl_state) (\<lambda>s.
     abind (of_result (ok_or ReauthenticationRequired (st_credential s))) (\<lambda>saved.
     abind (of_result (ok_or SessionRequired (st_session s))) (\<lambda>r.
     let sequence = renewal_sequence r; sid = sm_id (sr_metadata r) in
     abind (modify (\<lambda>s. s\<lparr>st_session := Some (r\<lparr>sr_pending_sequence := Some sequence\<rparr>)\<rparr>)) (\<lambda>_.
     abind (gets (\<lambda>c. credential_body c saved)) (\<lambda>body.
       ret (saved, sid, sequence, st_session_licence_expires_at s,
         json_set body ''sequence'' (JInt (int sequence)))))))))))"

definition renewal_failed :: "error \<Rightarrow> duration \<Rightarrow> state \<Rightarrow> state" where
  "renewal_failed e deadline s =
     (if is_transient e then s\<lparr>st_session_retry_deadline := Some deadline\<rparr>
      else
        (let s1 = s\<lparr>st_session := None, st_session_disabled := True, st_session_retry_deadline := None\<rparr>
         in if err_code e = ''session_expired''
            then s1\<lparr>st_pending_session_id := None, st_session_disabled := False,
                   st_session_retry_deadline := Some deadline\<rparr>
            else s1))"

definition renewal_current :: "state \<Rightarrow> string \<Rightarrow> nat \<Rightarrow> bool" where
  "renewal_current s sid sequence \<longleftrightarrow>
     some_and (\<lambda>r. sm_id (sr_metadata r) = sid \<and> sr_pending_sequence r = Some sequence) (st_session s)"

definition settle_renewal ::
    "world \<Rightarrow> 64 word \<Rightarrow> string \<Rightarrow> nat \<Rightarrow> session_runtime result \<Rightarrow> snapshot act" where
  "settle_renewal w generation sid sequence verified =
     abind (lock w 20) (\<lambda>_.
     abind (sync_storage (w_io w 20)) (\<lambda>_.
     abind (same_generation generation) (\<lambda>_.
     if w_cancelled w 20 then
       abind (modify (\<lambda>s. s\<lparr>st_session := None, st_session_disabled := True\<rparr>)) (\<lambda>_. fail Cancelled)
     else (case verified of
         Inl e \<Rightarrow> abind (modify (renewal_failed e (retry_at w 21))) (\<lambda>_. fail e)
       | Inr replacement \<Rightarrow>
          abind (gets (\<lambda>c. renewal_current (cl_state c) sid sequence)) (\<lambda>current.
          abind (demand StaleResponse current) (\<lambda>_.
          abind (modify (\<lambda>s. s\<lparr>st_session := Some replacement, st_session_retry_deadline := None\<rparr>)) (\<lambda>_.
            gets (\<lambda>c. session_snapshot (cl_state c) (w_tick w 22)))))))))"

definition renew_session :: "libs \<Rightarrow> world \<Rightarrow> 64 word \<Rightarrow> snapshot act" where
  "renew_session L w generation =
     abind (serialize w 0) (\<lambda>_.
     abind (prepare_renewal w generation) (\<lambda>(saved, sid, sequence, licence_expiry, body).
     abind (guarded w 3 saved sid generation (start_capture (w_tick w 3))) (\<lambda>started.
     abind (session_exchange L (sub w 4) (session_path saved sid ''/renew'') body saved (sid, sequence)
       started licence_expiry) (\<lambda>verified.
       settle_renewal w generation sid sequence verified))))"

text \<open>What the maintenance of a session finds due: nothing, a renewal or a new session.\<close>

datatype due = NotDue | Renew | Restart

definition session_lost :: "duration \<Rightarrow> state \<Rightarrow> state" where
  "session_lost deadline s = s\<lparr>st_session := None, st_pending_session_id := None,
     st_session_retry_deadline := Some deadline\<rparr>"

definition deadline_ahead :: "state \<Rightarrow> tick \<Rightarrow> bool" where
  "deadline_ahead s t \<longleftrightarrow> some_and (\<lambda>deadline. instant t < deadline) (st_session_retry_deadline s)"

definition session_due :: "world \<Rightarrow> state \<Rightarrow> due act" where
  "session_due w s =
     (if \<not> st_session_required s \<or> st_session_disabled s \<or> deadline_ahead s (w_tick w 0)
      then ret NotDue
      else (case st_session s of
         None \<Rightarrow> ret (if st_session_retry_deadline s \<noteq> None then Restart else NotDue)
       | Some r \<Rightarrow>
          (case anchor_now (sr_anchor r) (w_tick w 1) of
             Inl _ \<Rightarrow>
               abind (modify (\<lambda>s. (session_lost (retry_at w 2) s)\<lparr>st_last_failure := Some ClockUncertain\<rparr>)) (\<lambda>_.
                 ret NotDue)
           | Inr now \<Rightarrow>
               if now \<ge> sg_expires_at (sr_grant r) then
                 abind (modify (session_lost (instant (w_tick w 2)))) (\<lambda>_. ret Restart)
               else if now < sg_refresh_after (sr_grant r) then ret NotDue
               else ret Renew)))"

definition maintain_session :: "libs \<Rightarrow> world \<Rightarrow> unit act" where
  "maintain_session L w =
     abind (lock w 0) (\<lambda>_.
     abind (try_act (sync_storage (w_io w 0))) (\<lambda>synced.
     if synced \<noteq> Inr () then ret ()
     else
       abind (gets cl_state) (\<lambda>s.
       abind (session_due w s) (\<lambda>due.
       case due of
         NotDue \<Rightarrow> ret ()
       | Renew \<Rightarrow> abind (try_act (renew_session L (sub w 10) (st_generation s))) (\<lambda>_. ret ())
       | Restart \<Rightarrow> abind (try_act (start_session_with_cancel L (sub w 10))) (\<lambda>_. ret ())))))"

subsection \<open>The access decision\<close>

definition offline_decision :: "string \<Rightarrow> snapshot \<Rightarrow> snapshot result" where
  "offline_decision feature snap =
     (if ss_access snap = Expired then Inl expired
      else if ss_access snap \<noteq> Offline then Inl ClockUncertain
      else if \<not> has_feature snap feature then Inl FeatureUnavailable
      else Inr snap)"

definition require_feature :: "string \<Rightarrow> snapshot \<Rightarrow> snapshot result" where
  "require_feature feature snap =
     (if has_feature snap feature then Inr snap else Inl FeatureUnavailable)"

definition first_look :: "world \<Rightarrow> (snapshot \<times> bool \<times> bool) act" where
  "first_look w =
     abind (lock w 0) (\<lambda>_.
     abind (sync_storage (w_io w 0)) (\<lambda>_.
     abind (check_cancelled w 0) (\<lambda>_.
     abind (checked_snapshot_locked (w_tick w 0) (w_io w 1)) (\<lambda>snap.
     abind (check_cancelled w 1) (\<lambda>_.
     abind (gets cl_state) (\<lambda>s.
       ret (snap, st_session_required s, st_session_disabled s)))))))"

text \<open>A floating seat is looked at again before it grants anything.\<close>

definition second_look :: "world \<Rightarrow> snapshot act" where
  "second_look w =
     abind (lock w 2) (\<lambda>_.
     abind (sync_storage (w_io w 2)) (\<lambda>_.
     abind (check_cancelled w 2) (\<lambda>_.
     abind (checked_snapshot_locked (w_tick w 2) (w_io w 3)) (\<lambda>snap.
     abind (check_cancelled w 3) (\<lambda>_.
     abind (demand SessionRequired (ss_access snap = Online)) (\<lambda>_.
       ret snap))))))"

definition granting :: "snapshot \<Rightarrow> bool" where
  "granting snap \<longleftrightarrow> ss_access snap = Online \<or> ss_access snap = Offline"

text \<open>The decision after the refresh, from the state it left.\<close>

definition final_look :: "world \<Rightarrow> string \<Rightarrow> error option \<Rightarrow> snapshot act" where
  "final_look w feature refresh_error =
     abind (lock w 4) (\<lambda>_.
     abind (sync_storage (w_io w 4)) (\<lambda>_.
     abind (check_cancelled w 4) (\<lambda>_.
     abind (checked_snapshot_locked (w_tick w 4) (w_io w 5)) (\<lambda>snap.
     abind (check_cancelled w 5) (\<lambda>_.
     abind (demand (or_else refresh_error NotActivated) (granting snap)) (\<lambda>_.
     abind (of_result (require_feature feature snap)) (\<lambda>snap.
     abind (gets cl_state) (\<lambda>s.
     if st_session_required s then
       (let final = session_snapshot s (w_tick w 6) in
        abind (check_cancelled w 6) (\<lambda>_.
        abind (demand SessionRequired (ss_access final = Online)) (\<lambda>_.
          of_result (require_feature feature final))))
     else ret snap))))))))"

definition refresh_then_look :: "libs \<Rightarrow> world \<Rightarrow> string \<Rightarrow> snapshot act" where
  "refresh_then_look L w feature =
     abind (try_act (refresh_if_needed L (sub w 100))) (\<lambda>refreshed.
     case refreshed of
       Inr _ \<Rightarrow> final_look w feature None
     | Inl e \<Rightarrow> if is_transient e then final_look w feature (Some e) else fail e)"

definition require_access :: "libs \<Rightarrow> world \<Rightarrow> string \<Rightarrow> snapshot act" where
  "require_access L w feature =
     abind (first_look w) (\<lambda>(snap, session_required, session_disabled).
     if ss_offline_file_mode snap then of_result (offline_decision feature snap)
     else if ss_access snap = Online then
       abind (if session_required then second_look w else ret snap) (\<lambda>final.
         of_result (require_feature feature final))
     else if session_required then
       abind (demand SessionRequired (\<not> session_disabled)) (\<lambda>_.
       abind (start_session_with_cancel L (sub w 200)) (\<lambda>snap.
         of_result (require_feature feature snap)))
     else if \<not> wants_refresh snap then fail NotActivated
     else refresh_then_look L w feature)"

definition ensure_access :: "libs \<Rightarrow> world \<Rightarrow> string \<Rightarrow> string option \<Rightarrow> snapshot act" where
  "ensure_access L w feature asked_key =
     abind (try_act (require_access L w feature)) (\<lambda>r.
     case r of
       Inr snap \<Rightarrow> ret snap
     | Inl e \<Rightarrow>
        if e = NotActivated then
          abind (of_result (ok_or NotActivated (filter_opt (\<lambda>key. trim key \<noteq> []) asked_key))) (\<lambda>key.
          abind (activate L (sub w 1000) key) (\<lambda>snap.
          abind (demand NotActivated (granting snap)) (\<lambda>_.
            of_result (require_feature feature snap))))
        else fail e)"

end
