(* ===== verification/Reasoning.thy ===== *)
theory Reasoning
  imports ClientState
begin

text \<open>
  Rules for the actions of a client.  \<open>keeps P m\<close> says that \<open>m\<close> keeps \<open>P\<close> whatever it
  returns; \<open>triple P m Q\<close> also says \<open>Q\<close> of the value of a successful run.
\<close>

named_theorems triple_intro \<open>results of actions\<close>

definition triple :: "(client \<Rightarrow> bool) \<Rightarrow> 'a act \<Rightarrow> ('a \<Rightarrow> bool) \<Rightarrow> bool" where
  "triple P m Q \<longleftrightarrow> (\<forall>c. P c \<longrightarrow> P (fst (m c)) \<and> (\<forall>x. snd (m c) = Inr x \<longrightarrow> Q x))"

lemma tripleI:
  assumes "\<And>c. P c \<Longrightarrow> P (fst (m c))" "\<And>c x. P c \<Longrightarrow> snd (m c) = Inr x \<Longrightarrow> Q x"
  shows "triple P m Q"
  using assms by (simp add: triple_def)

lemma triple_keeps: "triple P m Q \<Longrightarrow> keeps P m"
  by (simp add: triple_def keeps_def)

lemma triple_state: "triple P m Q \<Longrightarrow> P c \<Longrightarrow> m c = (c', r) \<Longrightarrow> P c'"
  by (metis triple_keeps keepsD)

lemma triple_value: "triple P m Q \<Longrightarrow> P c \<Longrightarrow> m c = (c', Inr x) \<Longrightarrow> Q x"
  by (auto simp: triple_def)

lemma triple_weaken: "triple P m Q \<Longrightarrow> (\<And>x. Q x \<Longrightarrow> R x) \<Longrightarrow> triple P m R"
  by (simp add: triple_def)

lemma keeps_triple: "keeps P m \<Longrightarrow> triple P m (\<lambda>_. True)"
  by (simp add: triple_def keeps_def)

lemma triple_abind:
  assumes "triple P m R" "\<And>x. R x \<Longrightarrow> triple P (f x) Q" shows "triple P (abind m f) Q"
proof (rule tripleI)
  fix c assume P: "P c"
  obtain c1 r where m: "m c = (c1, r)" by (cases "m c")
  have P1: "P c1" by (rule triple_state[OF assms(1) P m])
  have step: "\<And>x. r = Inr x \<Longrightarrow> triple P (f x) Q"
    using assms(2) triple_value[OF assms(1) P] m by blast
  show "P (fst (abind m f c))"
    using P1 step m by (cases r) (auto simp: abind_def triple_def)
  fix y assume "snd (abind m f c) = Inr y"
  then show "Q y" using P1 step m by (cases r) (auto simp: abind_def triple_def)
qed

lemma triple_abind_keeps [triple_intro]:
  "keeps P m \<Longrightarrow> (\<And>x. triple P (f x) Q) \<Longrightarrow> triple P (abind m f) Q"
  by (rule triple_abind[OF keeps_triple])

lemma triple_gets: "triple P (gets f) (\<lambda>x. \<exists>c. P c \<and> x = f c)"
  by (auto simp: triple_def gets_def)

lemma triple_abind_gets:
  "(\<And>c. P c \<Longrightarrow> triple P (f (g c)) Q) \<Longrightarrow> triple P (abind (gets g) f) Q"
  by (rule triple_abind[OF triple_gets]) auto

lemma triple_of_result: "triple P (of_result r) (\<lambda>x. r = Inr x)"
  by (auto simp: triple_def of_result_def)

lemma triple_abind_result:
  "(\<And>x. r = Inr x \<Longrightarrow> triple P (f x) Q) \<Longrightarrow> triple P (abind (of_result r) f) Q"
  by (rule triple_abind[OF triple_of_result])

lemma triple_abind_demand:
  "(b \<Longrightarrow> triple P (f ()) Q) \<Longrightarrow> triple P (abind (demand e b) f) Q"
  by (rule triple_abind[where R = "\<lambda>_. b"]) (auto simp: triple_def demand_def ensure_iff)

lemma triple_ret [triple_intro]: "Q x \<Longrightarrow> triple P (ret x) Q"
  by (simp add: triple_def ret_def)

lemma triple_fail [triple_intro]: "triple P (fail e) Q"
  by (simp add: triple_def fail_def)

lemma triple_result: "(\<And>x. r = Inr x \<Longrightarrow> Q x) \<Longrightarrow> triple P (of_result r) Q"
  by (simp add: triple_def of_result_def)

lemma triple_value_of_gets: "(\<And>c. P c \<Longrightarrow> Q (f c)) \<Longrightarrow> triple P (gets f) Q"
  by (simp add: triple_def gets_def)

lemma triple_if [triple_intro]:
  "(b \<Longrightarrow> triple P m Q) \<Longrightarrow> (\<not> b \<Longrightarrow> triple P n Q) \<Longrightarrow> triple P (if b then m else n) Q"
  by simp

lemma triple_case_option [triple_intro]:
  "(x = None \<Longrightarrow> triple P m Q) \<Longrightarrow> (\<And>a. x = Some a \<Longrightarrow> triple P (f a) Q)
    \<Longrightarrow> triple P (case x of None \<Rightarrow> m | Some a \<Rightarrow> f a) Q"
  by (cases x) auto

lemma triple_case_sum [triple_intro]:
  "(\<And>a. x = Inl a \<Longrightarrow> triple P (f a) Q) \<Longrightarrow> (\<And>b. x = Inr b \<Longrightarrow> triple P (g b) Q)
    \<Longrightarrow> triple P (case x of Inl a \<Rightarrow> f a | Inr b \<Rightarrow> g b) Q"
  by (cases x) auto

lemma triple_case_prod [triple_intro]:
  "(\<And>a b. x = (a, b) \<Longrightarrow> triple P (f a b) Q) \<Longrightarrow> triple P (case x of (a, b) \<Rightarrow> f a b) Q"
  by (cases x) auto

lemma triple_try:
  "triple P m Q \<Longrightarrow> triple P (try_act m) (\<lambda>r. \<forall>x. r = Inr x \<longrightarrow> Q x)"
  by (auto simp: triple_def try_act_def split: prod.splits)

lemma keeps_case_option [keeps_intro]:
  "(x = None \<Longrightarrow> keeps P m) \<Longrightarrow> (\<And>a. x = Some a \<Longrightarrow> keeps P (f a))
    \<Longrightarrow> keeps P (case x of None \<Rightarrow> m | Some a \<Rightarrow> f a)"
  by (cases x) auto

lemma keeps_case_sum [keeps_intro]:
  "(\<And>a. x = Inl a \<Longrightarrow> keeps P (f a)) \<Longrightarrow> (\<And>b. x = Inr b \<Longrightarrow> keeps P (g b))
    \<Longrightarrow> keeps P (case x of Inl a \<Rightarrow> f a | Inr b \<Rightarrow> g b)"
  by (cases x) auto

lemma keeps_case_prod [keeps_intro]:
  "(\<And>a b. x = (a, b) \<Longrightarrow> keeps P (f a b)) \<Longrightarrow> keeps P (case x of (a, b) \<Rightarrow> f a b)"
  by (cases x) auto

lemma keeps_modify: "(\<And>c. P c \<Longrightarrow> P (c\<lparr>cl_state := f (cl_state c)\<rparr>)) \<Longrightarrow> keeps P (modify f)"
  by (simp add: keeps_def modify_def)

lemma keeps_abind_gets: "(\<And>c. P c \<Longrightarrow> keeps P (f (g c))) \<Longrightarrow> keeps P (abind (gets g) f)"
  by (auto simp: keeps_def abind_def gets_def)

subsection \<open>Predicates that do not read the storage or the request log\<close>

definition storage_free :: "(client \<Rightarrow> bool) \<Rightarrow> bool" where
  "storage_free P \<longleftrightarrow> (\<forall>c s. P c \<longrightarrow> P (c\<lparr>cl_storage := s\<rparr>))"

definition log_free :: "(client \<Rightarrow> bool) \<Rightarrow> bool" where
  "log_free P \<longleftrightarrow> (\<forall>c l. P c \<longrightarrow> P (c\<lparr>cl_sent := l\<rparr>))"

definition state_free :: "(client \<Rightarrow> bool) \<Rightarrow> bool" where
  "state_free P \<longleftrightarrow> (\<forall>c s. P c \<longrightarrow> P (c\<lparr>cl_state := s\<rparr>))"

lemma keeps_on_disk: "storage_free P \<Longrightarrow> keeps P (on_disk f)"
  by (auto simp: keeps_def on_disk_def storage_free_def split: store.splits prod.splits)

lemma keeps_on_store: "storage_free P \<Longrightarrow> keeps P (on_store f g)"
  by (auto simp: keeps_def on_store_def storage_free_def split: store.splits prod.splits)

lemma keeps_sent: "log_free P \<Longrightarrow> keeps P (sent path body)"
  by (auto simp: keeps_def sent_def log_free_def)

lemma keeps_post: "log_free P \<Longrightarrow> keeps P (post w k path body safe)"
  unfolding post_def by (intro keeps_intro keeps_sent)

lemma triple_get:
  "log_free P \<Longrightarrow> triple P (get w k path) (\<lambda>r. w_get w k path = Inr r)"
  unfolding get_def
  by (intro triple_abind_keeps keeps_sent triple_of_result)

lemma keeps_lock: "(\<And>c. P c \<Longrightarrow> P (w_others w k c)) \<Longrightarrow> keeps P (lock w k)"
  by (simp add: keeps_def lock_def)

end
