(* ===== verification/Authority.thy ===== *)
theory Authority
  imports Entry Reasoning
begin

text \<open>
  Where access comes from.  A client is \<open>authentic\<close> when every grant, session and offline file
  it holds was verified, under key sets that satisfy \<open>T\<close>, for this application, environment and
  installation.  Every handler keeps that, under any interference that keeps it too, and no
  snapshot grants an entitlement that a verified and unexpired document does not list.
\<close>

subsection \<open>The invariant\<close>

type_synonym env = "config \<times> device \<times> app_key option \<times> keys option"

definition env_of :: "client \<Rightarrow> env" where
  "env_of c = (cl_config c, cl_device c, cl_app_key c, cl_offline_keys c)"

text \<open>The clock anchor of a grant was set by the exchange that brought it, or later.\<close>

definition grant_backed ::
    "libs \<Rightarrow> (keys \<Rightarrow> bool) \<Rightarrow> env \<Rightarrow> grant_claims \<Rightarrow> anchor \<Rightarrow> bool" where
  "grant_backed L T K cl a \<longleftrightarrow> (case K of (cfg, dev, _) \<Rightarrow>
     \<exists>ks token e. T ks \<and> verify_grant L ks token e = Inr cl
       \<and> ex_issuer e = cfg_issuer cfg \<and> ex_application e = cfg_application_id cfg
       \<and> ex_environment e = cfg_environment_id cfg \<and> ex_installation e = installation_id dev
       \<and> ((\<exists>t. anchor_now a t = Inr (ex_now e)) \<or> ex_now e \<le> an_server a))"

definition session_backed :: "libs \<Rightarrow> (keys \<Rightarrow> bool) \<Rightarrow> env \<Rightarrow> session_runtime \<Rightarrow> bool" where
  "session_backed L T K r \<longleftrightarrow> (case K of (cfg, _) \<Rightarrow>
     \<exists>ks token e. T ks \<and> verify_session L ks token e = Inr (sr_grant r)
       \<and> se_issuer e = cfg_issuer cfg \<and> se_application e = cfg_application_id cfg
       \<and> se_environment e = cfg_environment_id cfg
       \<and> (\<exists>t. anchor_now (sr_anchor r) t = Inr (se_now e)))"

definition offline_backed :: "libs \<Rightarrow> env \<Rightarrow> offline_runtime \<Rightarrow> bool" where
  "offline_backed L K rt \<longleftrightarrow> (or_authorized rt \<longrightarrow> (case K of (_, dev, key, ks) \<Rightarrow>
     \<exists>v k s raw now n. or_verified rt = Some v \<and> key = Some k \<and> ks = Some s
       \<and> verify_offline L raw s k dev now n = Inr v
       \<and> none_or (\<lambda>a. now \<le> an_server a) (or_anchor rt)))"

definition authentic_state :: "libs \<Rightarrow> (keys \<Rightarrow> bool) \<Rightarrow> env \<Rightarrow> state \<Rightarrow> bool" where
  "authentic_state L T K s \<longleftrightarrow>
     (\<forall>cl a. st_claims s = Some cl \<longrightarrow> st_anchor s = Some a \<longrightarrow> grant_backed L T K cl a)
     \<and> none_or (session_backed L T K) (st_session s)
     \<and> none_or (offline_backed L K) (st_offline s)"

definition authentic :: "libs \<Rightarrow> (keys \<Rightarrow> bool) \<Rightarrow> env \<Rightarrow> client \<Rightarrow> bool" where
  "authentic L T K c \<longleftrightarrow>
     env_of c = K \<and> T (cl_keys c) \<and> none_or T (cl_session_keys c)
     \<and> authentic_state L T K (cl_state c)"

text \<open>The world is trusted when the key endpoint serves key sets in \<open>T\<close> only, and the other tasks
  of the client keep it authentic.\<close>

definition trusted_world :: "libs \<Rightarrow> (keys \<Rightarrow> bool) \<Rightarrow> env \<Rightarrow> world \<Rightarrow> bool" where
  "trusted_world L T K w \<longleftrightarrow>
     (\<forall>k c. authentic L T K c \<longrightarrow> authentic L T K (w_others w k c))
     \<and> (\<forall>k path v ks. w_get w k path = Inr (Some v) \<longrightarrow>
          keys_parse L v = Inr ks
          \<or> (\<exists>b envt. to_bytes L v = Some b \<and> session_keys_parse L b envt = Inr ks) \<longrightarrow> T ks)"

lemma trusted_sub: "trusted_world L T K w \<Longrightarrow> trusted_world L T K (sub w n)"
  by (simp add: trusted_world_def sub_def)

text \<open>What a snapshot that grants anything rests on, whichever call returns it: a verified document that
  had not expired at some clock reading.  The theory \<open>Decisions\<close> names the reading and the state for
  the access decision.\<close>

definition justified :: "libs \<Rightarrow> (keys \<Rightarrow> bool) \<Rightarrow> env \<Rightarrow> snapshot \<Rightarrow> bool" where
  "justified L T K snap \<longleftrightarrow> (ss_entitlements snap \<noteq> [] \<or> granting snap \<longrightarrow>
     (\<exists>cl a t now. grant_backed L T K cl a \<and> anchor_now a t = Inr now \<and> now < gc_exp cl
        \<and> granting snap \<and> (ss_access snap = Offline \<longrightarrow> gc_offline_allowed cl)
        \<and> ss_entitlements snap = gc_entitlements cl)
     \<or> (\<exists>r t now. session_backed L T K r \<and> anchor_now (sr_anchor r) t = Inr now
        \<and> now < sg_expires_at (sr_grant r) \<and> ss_access snap = Online
        \<and> ss_entitlements snap = sg_entitlements (sr_grant r))
     \<or> (\<exists>rt v a t now w. offline_backed L K rt \<and> or_authorized rt \<and> or_verified rt = Some v
        \<and> or_anchor rt = Some a \<and> now_with_wall a t = Inr (now, w) \<and> now < vf_expires_at v
        \<and> ss_access snap = Offline \<and> ss_entitlements snap = vf_entitlements v))"

subsection \<open>Frames\<close>

lemma authentic_free [simp]:
  "storage_free (authentic L T K)" "log_free (authentic L T K)"
  by (simp_all add: storage_free_def log_free_def authentic_def env_of_def)

lemma authentic_lock: "trusted_world L T K w \<Longrightarrow> keeps (authentic L T K) (lock w k)"
  by (rule keeps_lock) (simp add: trusted_world_def)

lemma authentic_update:
  assumes "authentic L T K c" "authentic_state L T K (cl_state c) \<Longrightarrow> authentic_state L T K s"
  shows "authentic L T K (c\<lparr>cl_state := s\<rparr>)"
  using assms by (simp add: authentic_def env_of_def)

lemma keeps_authentic_modify:
  assumes "\<And>s. authentic_state L T K s \<Longrightarrow> authentic_state L T K (f s)"
  shows "keeps (authentic L T K) (modify f)"
  by (rule keeps_modify) (rule authentic_update, use assms in auto)

lemma offline_backed_off [simp]: "offline_backed L K (f\<lparr>or_authorized := False\<rparr>)"
  by (simp add: offline_backed_def)

lemma offline_backed_update:
  "offline_backed L K rt \<Longrightarrow> or_verified rt' = or_verified rt \<Longrightarrow> or_anchor rt' = or_anchor rt
    \<Longrightarrow> (or_authorized rt' \<longrightarrow> or_authorized rt) \<Longrightarrow> offline_backed L K rt'"
  by (auto simp: offline_backed_def)

lemma authentic_state_clear:
  "authentic_state L T K (clear s)" "authentic_state L T K (clear_access s)"
  "authentic_state L T K s \<Longrightarrow> authentic_state L T K (revoke_claims s)"
  "authentic_state L T K s \<Longrightarrow> authentic_state L T K (s\<lparr>st_storage_version := v\<rparr>)"
  by (auto simp: authentic_state_def clear_def clear_access_def revoke_claims_def none_or_iff)

named_theorems frame_intro \<open>actions that keep a client authentic\<close>

lemma frame_set_version [frame_intro]: "keeps (authentic L T K) (set_version v)"
  unfolding set_version_def by (rule keeps_authentic_modify) (rule authentic_state_clear)

lemma frame_clear [frame_intro]:
  "keeps (authentic L T K) (modify clear)" "keeps (authentic L T K) (modify clear_access)"
  "keeps (authentic L T K) (modify revoke_claims)"
  by (auto intro: keeps_authentic_modify authentic_state_clear)

lemma frame_storage [frame_intro]:
  "keeps (authentic L T K) (on_disk f)" "keeps (authentic L T K) (store_version io)"
  "keeps (authentic L T K) (store_save io n c)" "keeps (authentic L T K) (store_invalidate io)"
  "keeps (authentic L T K) (sent path body)" "keeps (authentic L T K) (post w k path body safe)"
  by (simp_all add: keeps_on_disk keeps_on_store keeps_sent keeps_post
      store_version_def store_save_def store_invalidate_def)

lemma frame_sync [frame_intro]: "keeps (authentic L T K) (sync_storage io)"
  unfolding sync_storage_def by (intro keeps_intro frame_intro)

lemma frame_clear_disk [frame_intro]: "keeps (authentic L T K) (clear_disk_cache p q io)"
  unfolding clear_disk_cache_def by (intro keeps_intro frame_intro)

lemma frame_cleanup [frame_intro]: "keeps (authentic L T K) (send_session_end_cleanup saved sid)"
  unfolding send_session_end_cleanup_def by (intro keeps_intro frame_intro)

lemma frame_generation [frame_intro]: "keeps (authentic L T K) (same_generation g)"
  unfolding same_generation_def by (intro keeps_intro frame_intro)

lemma frame_cancelled [frame_intro]:
  "keeps (authentic L T K) (check_cancelled w k)" "keeps (authentic L T K) (serialize w k)"
  unfolding check_cancelled_def serialize_def by (intro keeps_intro)+

lemma frame_current [frame_intro]:
  assumes "trusted_world L T K w"
  shows "keeps (authentic L T K) (current_generation w k)"
    "keeps (authentic L T K) (check_generation w k g)"
  unfolding current_generation_def check_generation_def
  by (intro keeps_intro frame_intro authentic_lock assms)+


subsection \<open>Snapshots\<close>

lemma justified_empty: "ss_entitlements snap = [] \<Longrightarrow> \<not> granting snap \<Longrightarrow> justified L T K snap"
  by (simp add: justified_def)

lemma base_not_granting [simp]: "base_access s \<noteq> Online" "base_access s \<noteq> Offline"
  by (simp_all add: base_access_def)

lemma justified_session:
  assumes "none_or (session_backed L T K) (st_session s)"
  shows "justified L T K (session_snapshot s t)"
proof (cases "ss_access (session_snapshot s t) = Online")
  case True
  then obtain r now where "st_session s = Some r" "anchor_now (sr_anchor r) t = Inr now"
      "now < sg_expires_at (sr_grant r)"
      "ss_entitlements (session_snapshot s t) = sg_entitlements (sr_grant r)"
    by (auto simp: session_snapshot_def Let_def split: option.splits sum.splits if_splits)
  with assms True show ?thesis unfolding justified_def by (simp, blast)
next
  case False
  then have "ss_entitlements (session_snapshot s t) = [] \<and> \<not> granting (session_snapshot s t)"
    by (auto simp: session_snapshot_def Let_def granting_def split: option.splits sum.splits if_splits)
  then show ?thesis by (simp add: justified_empty)
qed

lemma offline_snapshot_cases:
  "(ss_entitlements (offline_snapshot rt now) = [] \<and> \<not> granting (offline_snapshot rt now))
   \<or> (\<exists>v n. or_verified rt = Some v \<and> now = Some n \<and> \<not> or_uncertain rt \<and> n < vf_expires_at v
      \<and> ss_access (offline_snapshot rt now) = Offline
      \<and> ss_entitlements (offline_snapshot rt now) = vf_entitlements v)"
  by (auto simp: offline_snapshot_def Let_def granting_def filter_opt_Some_iff
      split: option.splits if_splits)

lemma offline_now_uncertain [simp]: "offline_now (rt\<lparr>or_uncertain := b\<rparr>) t = offline_now rt t"
proof -
  have "wall_consistent (rt\<lparr>or_uncertain := b\<rparr>) w = wall_consistent rt w" for w
    by (simp add: wall_consistent_def)
  then show ?thesis by (auto simp: offline_now_def split: option.split sum.split)
qed

lemma offline_now_Some:
  "offline_now rt t = Some n \<longleftrightarrow>
     (\<exists>a w. or_anchor rt = Some a \<and> now_with_wall a t = Inr (n, w) \<and> wall_consistent rt w)"
  by (auto simp: offline_now_def split: option.splits sum.splits if_splits)

lemma justified_offline:
  assumes "offline_backed L K rt" "or_authorized rt"
    and "now = None \<or> now = offline_now rt t"
  shows "justified L T K (offline_snapshot rt now)"
  using offline_snapshot_cases[of rt now]
proof
  assume "ss_entitlements (offline_snapshot rt now) = [] \<and> \<not> granting (offline_snapshot rt now)"
  then show ?thesis by (simp add: justified_empty)
next
  assume "\<exists>v n. or_verified rt = Some v \<and> now = Some n \<and> \<not> or_uncertain rt \<and> n < vf_expires_at v
      \<and> ss_access (offline_snapshot rt now) = Offline
      \<and> ss_entitlements (offline_snapshot rt now) = vf_entitlements v"
  then obtain v n where v: "or_verified rt = Some v" "now = Some n" "n < vf_expires_at v"
    "ss_access (offline_snapshot rt now) = Offline"
    "ss_entitlements (offline_snapshot rt now) = vf_entitlements v" by blast
  from v(2) assms(3) have "offline_now rt t = Some n" by auto
  then obtain a w where "or_anchor rt = Some a" "now_with_wall a t = Inr (n, w)"
    by (auto simp: offline_now_Some)
  with v assms(1,2) show ?thesis unfolding justified_def by blast
qed

lemma claims_access_cases:
  "claims_access s c now \<in> {RefreshRequired, Expired}
   \<or> (now < gc_exp c \<and> (claims_access s c now = Online \<or> claims_access s c now = Offline \<and> gc_offline_allowed c))"
  by (auto simp: claims_access_def)

lemma claims_snapshot_cases:
  assumes "claims_snapshot s ex base c n = Inr snap" "ss_entitlements base = []"
  shows "ss_access snap = claims_access s c n"
    "ss_entitlements snap = (if granting snap then gc_entitlements c else [])"
proof -
  from assms(1) obtain e m where snap: "snap =
      (let snap1 = describe_claims s ex c n e m base in
       if ss_access snap1 = Online \<or> ss_access snap1 = Offline then grant_claimed c n snap1 else snap1)"
    by (auto simp: claims_snapshot_def Let_def rbind_Inr_iff)
  show "ss_access snap = claims_access s c n"
    unfolding snap by (simp add: Let_def describe_claims_def grant_claimed_def)
  show "ss_entitlements snap = (if granting snap then gc_entitlements c else [])"
    unfolding snap using assms(2)
    by (simp add: Let_def describe_claims_def grant_claimed_def granting_def)
qed

lemma snapshot_state_at_cases:
  assumes "snapshot_state_at s now = Inr snap"
  shows "(ss_entitlements snap = [] \<and> \<not> granting snap)
    \<or> (\<exists>c n. st_claims s = Some c \<and> now = Some n \<and> n < gc_exp c
        \<and> granting snap \<and> (ss_access snap = Offline \<longrightarrow> gc_offline_allowed c)
        \<and> ss_entitlements snap = gc_entitlements c)"
proof (cases "(st_claims s, now)" rule: prod.exhaust)
  case (Pair a b)
  show ?thesis
  proof (cases "st_claims s = None \<or> now = None")
    case True
    with assms have "ss_entitlements snap = [] \<and> \<not> granting snap"
      by (auto simp: snapshot_state_at_def Let_def rbind_Inr_iff granting_def split: option.splits)
    then show ?thesis by simp
  next
    case False
    then obtain c n where cn: "st_claims s = Some c" "now = Some n" by auto
    with assms obtain ex base where
      base: "claims_snapshot s ex base c n = Inr snap" "ss_entitlements base = []"
      by (auto simp: snapshot_state_at_def Let_def rbind_Inr_iff)
    note snap = claims_snapshot_cases[OF base]
    show ?thesis
    proof (cases "granting snap")
      case True
      then have "n < gc_exp c \<and> (ss_access snap = Offline \<longrightarrow> gc_offline_allowed c)"
        using claims_access_cases[of s c n] snap(1) by (auto simp: granting_def)
      then show ?thesis using cn True snap(2) by simp
    qed (simp add: snap(2))
  qed
qed

lemma justified_claims:
  assumes "snapshot_state_at s now = Inr snap" "authentic_state L T K s"
    and "now = None \<or> (\<exists>a n. st_anchor s = Some a \<and> now = Some n \<and> anchor_now a t = Inr n)"
  shows "justified L T K snap"
  using snapshot_state_at_cases[OF assms(1)]
proof
  assume "ss_entitlements snap = [] \<and> \<not> granting snap"
  then show ?thesis by (simp add: justified_empty)
next
  assume "\<exists>c n. st_claims s = Some c \<and> now = Some n \<and> n < gc_exp c
        \<and> granting snap \<and> (ss_access snap = Offline \<longrightarrow> gc_offline_allowed c)
        \<and> ss_entitlements snap = gc_entitlements c"
  then obtain c n where c: "st_claims s = Some c" "now = Some n" "n < gc_exp c" "granting snap"
    "ss_access snap = Offline \<longrightarrow> gc_offline_allowed c" "ss_entitlements snap = gc_entitlements c"
    by blast
  from c(2) assms(3) obtain a where a: "st_anchor s = Some a" "anchor_now a t = Inr n" by auto
  have "grant_backed L T K c a" using assms(2) c(1) a(1) by (simp add: authentic_state_def)
  with c a show ?thesis unfolding justified_def by blast
qed

lemma justified_snapshot_state:
  assumes "snapshot_state s t = Inr snap" "authentic_state L T K s"
  shows "justified L T K snap"
proof (cases "st_session_required s")
  case True
  with assms show ?thesis by (auto simp: snapshot_state_def authentic_state_def intro: justified_session)
next
  case False
  show ?thesis
  proof (cases "authorized_offline s")
    case (Some rt)
    with assms(2) have "offline_backed L K rt" "or_authorized rt"
      by (auto simp: authorized_offline_def filter_opt_Some_iff authentic_state_def)
    with Some False assms(1) show ?thesis by (auto simp: snapshot_state_def intro: justified_offline)
  next
    case None
    let ?now = "Option.bind (st_anchor s) (\<lambda>a. result_ok (anchor_now a t))"
    have "snapshot_state_at s ?now = Inr snap" using None False assms(1) by (simp add: snapshot_state_def)
    moreover have "?now = None \<or> (\<exists>a n. st_anchor s = Some a \<and> ?now = Some n \<and> anchor_now a t = Inr n)"
      by (cases "st_anchor s") (auto simp: result_ok_def split: sum.splits)
    ultimately show ?thesis using assms(2) justified_claims by blast
  qed
qed

lemma triple_snapshot_now:
  "triple (authentic L T K) (snapshot_now w k) (justified L T K)"
  unfolding snapshot_now_def
  by (rule triple_abind_gets, rule triple_result)
    (auto simp: authentic_def intro: justified_snapshot_state)

lemma triple_checked_snapshot:
  "triple (authentic L T K) (checked_snapshot_locked t io) (justified L T K)"
  unfolding checked_snapshot_locked_def
proof (rule triple_abind_gets)
  fix c assume c: "authentic L T K c"
  let ?s = "cl_state c"
  have s: "authentic_state L T K ?s" using c by (simp add: authentic_def)
  show "triple (authentic L T K)
     (if st_session_required ?s then ret (session_snapshot ?s t)
      else (case authorized_offline ?s of
        Some rt \<Rightarrow>
          (case or_anchor rt of
             None \<Rightarrow> ret (offline_snapshot rt None)
           | Some _ \<Rightarrow>
              (let now = offline_now rt t; rt' = rt\<lparr>or_uncertain := (now = None)\<rparr>
               in abind (modify (set_offline rt')) (\<lambda>_. ret (offline_snapshot rt' now))))
      | None \<Rightarrow>
          (case st_anchor ?s of
             None \<Rightarrow> of_result (snapshot_state_at ?s None)
           | Some a \<Rightarrow>
              (case anchor_now a t of
                 Inr now \<Rightarrow> of_result (snapshot_state_at ?s (Some now))
               | Inl _ \<Rightarrow> abind (modify revoke_claims) (\<lambda>_.
                   abind (clear_disk_cache False False io) (\<lambda>_.
                   abind (gets cl_state) (\<lambda>s'. of_result (snapshot_state_at s' None))))))))
     (justified L T K)"
  proof (intro triple_if triple_case_option triple_case_sum triple_ret triple_abind_gets triple_result
      triple_abind_keeps frame_intro)
    show "justified L T K (session_snapshot ?s t)"
      using s by (auto simp: authentic_state_def intro: justified_session)
  next
    fix snap assume "snapshot_state_at ?s None = Inr snap"
    then show "justified L T K snap" using s justified_claims by blast
  next
    fix a now snap
    assume "snapshot_state_at ?s (Some now) = Inr snap" "st_anchor ?s = Some a" "anchor_now a t = Inr now"
    then show "justified L T K snap" using s justified_claims by blast
  next
    fix c' snap assume "authentic L T K c'" "snapshot_state_at (cl_state c') None = Inr snap"
    then show "justified L T K snap" using justified_claims by (fastforce simp: authentic_def)
  next
    fix rt assume rt: "authorized_offline ?s = Some rt"
    then have b: "offline_backed L K rt" "or_authorized rt"
      using s by (auto simp: authorized_offline_def filter_opt_Some_iff authentic_state_def)
    then show "justified L T K (offline_snapshot rt None)" by (auto intro: justified_offline)
    fix x
    let ?rt = "rt\<lparr>or_uncertain := (offline_now rt t = None)\<rparr>"
    have b': "offline_backed L K ?rt" using b(1) by (rule offline_backed_update) auto
    have "keeps (authentic L T K) (modify (set_offline ?rt))"
      by (rule keeps_authentic_modify) (use b' in \<open>auto simp: authentic_state_def set_offline_def\<close>)
    moreover have "justified L T K (offline_snapshot ?rt (offline_now rt t))"
      using b' b(2) by (rule_tac t = t in justified_offline) auto
    ultimately show "triple (authentic L T K) (let now = offline_now rt t; rt' = rt\<lparr>or_uncertain := (now = None)\<rparr>
        in abind (modify (set_offline rt')) (\<lambda>_. ret (offline_snapshot rt' now))) (justified L T K)"
      by (auto simp: Let_def intro: triple_abind_keeps triple_ret)
  qed
qed


subsection \<open>Replies\<close>

lemma keeps_fetch_session_keys:
  assumes w: "trusted_world L T K w"
  shows "keeps (authentic L T K) (fetch_session_keys L w)"
  unfolding fetch_session_keys_def
proof (rule triple_keeps, rule triple_abind_keeps, rule keeps_basic)
  fix path
  have install: "triple (authentic L T K) (\<lambda>c. (c\<lparr>cl_session_keys := Some ks\<rparr>, Inr ())) (\<lambda>_. True)"
    if "T ks" for ks
    using that by (auto simp: triple_def authentic_def env_of_def)
  show "triple (authentic L T K) (abind (get w 1 path) (\<lambda>r.
     abind (of_result (ok_or InvalidResponse r)) (\<lambda>data.
     abind (of_result (ok_or InvalidResponse (to_bytes L data))) (\<lambda>bytes.
     abind (lock w 1) (\<lambda>_.
     abind (gets session_environment) (\<lambda>envt.
     abind (of_result (session_keys_parse L bytes envt)) (\<lambda>ks c.
       (c\<lparr>cl_session_keys := Some ks\<rparr>, Inr ()))))))))
     (\<lambda>_. True)"
    by (rule triple_abind[OF triple_get], simp, intro triple_abind_result triple_abind_keeps
        authentic_lock[OF w] keeps_intro install)
      (use w in \<open>unfold trusted_world_def ok_or_iff, blast\<close>)
qed

lemma keeps_fetch_keys:
  assumes w: "trusted_world L T K w"
  shows "keeps (authentic L T K) (fetch_keys L w)"
  unfolding fetch_keys_def
proof (rule triple_keeps, rule triple_abind_keeps, rule keeps_basic)
  fix path
  have install: "triple (authentic L T K) (\<lambda>c. (c\<lparr>cl_keys := ks\<rparr>, Inr ())) (\<lambda>_. True)"
    if "T ks" for ks
    using that by (auto simp: triple_def authentic_def env_of_def)
  show "triple (authentic L T K) (abind (get w 1 path) (\<lambda>r.
     abind (of_result (ok_or InvalidResponse r)) (\<lambda>v.
     abind (of_result (keys_parse L v)) (\<lambda>ks.
     abind (lock w 1) (\<lambda>_ c. (c\<lparr>cl_keys := ks\<rparr>, Inr ()))))))
     (\<lambda>_. True)"
    by (rule triple_abind[OF triple_get], simp, intro triple_abind_result triple_abind_keeps
        authentic_lock[OF w] keeps_intro install)
      (use w in \<open>unfold trusted_world_def ok_or_iff, blast\<close>)
qed

lemma session_runtime_of_Inr:
  "session_runtime_of g sid n e a = Inr r \<Longrightarrow> sr_grant r = g \<and> sr_anchor r = a"
  by (auto simp: session_runtime_of_def rbind_Inr_iff)

lemma triple_verify_session_reply:
  assumes w: "trusted_world L T K w"
  shows "triple (authentic L T K) (verify_session_reply L w value saved expected started licence)
    (session_backed L T K)"
  unfolding verify_session_reply_def Let_def
proof (intro triple_case_prod triple_abind_result triple_abind_keeps[of _ "lock _ _"]
    triple_abind_keeps[of _ "if _ then _ else _"] triple_abind_gets authentic_lock w keeps_intro
    keeps_fetch_session_keys triple_result)
  fix sid n expires server token now c keys e ks g r
  let ?a = "anchor_from_request server started"
  assume c: "authentic L T K c" and now: "anchor_now ?a (w_tick w 2) = Inr now"
    and p: "(cl_session_keys c, session_expectation c saved licence now sid n) = (keys, e)"
    and ks: "ok_or InvalidResponse keys = Inr ks" and g: "verify_session L ks token e = Inr g"
    and r: "session_runtime_of g sid n expires ?a = Inr r"
  have "T ks" using c ks p by (auto simp: authentic_def ok_or_iff)
  then show "session_backed L T K r"
    using c now g p session_runtime_of_Inr[OF r]
    by (force simp: session_backed_def authentic_def env_of_def session_expectation_def split: prod.splits)
qed

definition reply_backed :: "libs \<Rightarrow> (keys \<Rightarrow> bool) \<Rightarrow> env \<Rightarrow> verified_reply \<Rightarrow> bool" where
  "reply_backed L T K v = (case v of Floating _ _ \<Rightarrow> True | Ordinary _ cl a _ \<Rightarrow> grant_backed L T K cl a)"

lemma triple_ordinary_reply:
  assumes w: "trusted_world L T K w"
  shows "triple (authentic L T K) (ordinary_reply L w r previous licence expiry a) (reply_backed L T K)"
  unfolding ordinary_reply_def
proof (intro triple_abind_result triple_abind_keeps[of _ "lock _ _"] triple_abind_demand
    triple_abind_keeps[of _ "if _ then _ else _"] triple_abind_gets authentic_lock w keeps_intro
    keeps_fetch_keys triple_ret)
  fix token licence_expiry now c claims c' cred jwks wall_now
  assume now: "anchor_now a (w_tick w 2) = Inr now" and c: "authentic L T K c"
    and v: "verify_grant L (cl_keys c) token
      (grant_expectation c r previous licence expiry licence_expiry now) = Inr claims"
  have "grant_backed L T K claims a"
    using c v now by (force simp: grant_backed_def authentic_def env_of_def grant_expectation_def)
  then show "reply_backed L T K (Ordinary (credential_record c' (rp_activation_id r) (gc_sub claims) cred expiry)
     claims a (cache_of token jwks licence_expiry a now wall_now))"
    by (simp add: reply_backed_def)
qed

lemma floating_reply_backed:
  "floating_reply L c r previous licence expiry = Inr v \<Longrightarrow> reply_backed L T K v"
  by (auto simp: floating_reply_def rbind_Inr_iff reply_backed_def)

lemma triple_verify_reply:
  assumes w: "trusted_world L T K w"
  shows "triple (authentic L T K) (verify_reply L w value previous licence started)
    (\<lambda>(v, _). reply_backed L T K v)"
  unfolding verify_reply_def Let_def
proof (intro triple_abind_result triple_abind_demand triple_abind_gets triple_if triple_ret)
  fix r c v upd expiry
  assume "floating_reply L c r previous licence expiry = Inr v"
  then show "case (v, upd) of (v, _) \<Rightarrow> reply_backed L T K v" by (simp add: floating_reply_backed)
next
  fix upd r server expiry
  show "triple (authentic L T K) (abind (ordinary_reply L w r previous licence expiry
      (anchor_from_request server started)) (\<lambda>v. ret (v, upd))) (\<lambda>(v, _). reply_backed L T K v)"
    by (rule triple_abind[OF triple_ordinary_reply[OF w]]) (simp add: triple_ret)
qed


subsection \<open>Sessions\<close>

text \<open>An update that brings nothing new to rely on.\<close>

definition weakens :: "state \<Rightarrow> state \<Rightarrow> bool" where
  "weakens s s' \<longleftrightarrow>
     (st_claims s' = None \<or> (st_claims s' = st_claims s \<and> st_anchor s' = st_anchor s))
     \<and> (st_session s' = None \<or> st_session s' = st_session s)
     \<and> (st_offline s' = st_offline s
        \<or> st_offline s' = map_option (\<lambda>f. f\<lparr>or_authorized := False\<rparr>) (st_offline s))"

lemma weakens_authentic: "weakens s s' \<Longrightarrow> authentic_state L T K s \<Longrightarrow> authentic_state L T K s'"
proof -
  assume w: "weakens s s'" and a: "authentic_state L T K s"
  have "none_or (offline_backed L K) (st_offline s')"
    using w a by (cases "st_offline s") (auto simp: weakens_def authentic_state_def)
  then show ?thesis using w a by (auto simp: weakens_def authentic_state_def none_or_iff)
qed

lemma frame_weaken: "(\<And>s. weakens s (f s)) \<Longrightarrow> keeps (authentic L T K) (modify f)"
  by (rule keeps_authentic_modify) (rule weakens_authentic)

lemma weakens_updates [simp]:
  "weakens s (disable_session s)" "weakens s (drop_session s)" "weakens s s"
  "weakens s (floating_state saved le u s)" "weakens s (transient_state e d s)"
  "weakens s (failed_state e d s)" "weakens s (prepared_state v k s)"
  "weakens s (renewal_failed e d s)" "weakens s (session_lost d s)"
  by (simp_all add: weakens_def disable_session_def drop_session_def floating_state_def
      transient_state_def failed_state_def prepared_state_def renewal_failed_def session_lost_def Let_def)

lemma frame_guard_drop [frame_intro]:
  "trusted_world L T K w \<Longrightarrow> keeps (authentic L T K) (guard_drop w k saved sid g)"
  unfolding guard_drop_def by (intro keeps_intro frame_intro frame_weaken authentic_lock) simp_all

lemma frame_guarded [frame_intro]:
  "trusted_world L T K w \<Longrightarrow> keeps (authentic L T K) (guarded w k saved sid g r)"
  unfolding guarded_def by (intro keeps_intro frame_intro)

lemma frame_attempt_id [frame_intro]: "keeps (authentic L T K) (attempt_id L w)"
  unfolding attempt_id_def
  by (intro keeps_intro frame_weaken) (simp_all add: weakens_def)

lemma frame_plan_session [frame_intro]: "keeps (authentic L T K) (plan_session L w)"
  unfolding plan_session_def by (intro keeps_intro frame_intro)

text \<open>The value of an action that may end early with a snapshot.\<close>

definition early_justified :: "libs \<Rightarrow> (keys \<Rightarrow> bool) \<Rightarrow> env \<Rightarrow> snapshot + 'a \<Rightarrow> bool" where
  "early_justified L T K r = (case r of Inl snap \<Rightarrow> justified L T K snap | Inr _ \<Rightarrow> True)"

lemma early_justified_simps [simp]:
  "early_justified L T K (Inl snap) = justified L T K snap" "early_justified L T K (Inr x)"
  by (simp_all add: early_justified_def)

lemma triple_early: "triple P m (justified L T K) \<Longrightarrow>
    triple P (abind m (\<lambda>snap. ret (Inl snap))) (early_justified L T K)"
  by (erule triple_abind) (simp add: triple_ret)

lemma authentic_session_snapshot:
  "authentic L T K c \<Longrightarrow> justified L T K (session_snapshot (cl_state c) t)"
  by (auto simp: authentic_def authentic_state_def intro: justified_session)

lemma triple_prepare_session:
  assumes w: "trusted_world L T K w"
  shows "triple (authentic L T K) (prepare_session L w g explicit) (early_justified L T K)"
proof -
  have plan: "triple (authentic L T K) (plan_session L w) (early_justified L T K)"
    unfolding plan_session_def
    by (intro triple_abind_keeps keeps_intro frame_intro triple_ret) simp
  have rest: "triple (authentic L T K)
      (abind (modify (\<lambda>s. if explicit
           then s\<lparr>st_session_disabled := False, st_session_retry_deadline := None\<rparr> else s)) (\<lambda>_.
       abind (gets (\<lambda>c. (st_session (cl_state c), session_snapshot (cl_state c) (w_tick w 0)))) (\<lambda>(session, snap).
       if session \<noteq> None \<and> ss_access snap = Online then ret (Inl snap)
       else abind (modify (\<lambda>s. if session \<noteq> None then drop_session s else s)) (\<lambda>_.
         plan_session L w)))) (early_justified L T K)"
    by (intro triple_abind_keeps[of _ "modify _"] triple_abind_gets triple_case_prod triple_if
        triple_ret plan frame_weaken)
      (auto simp: weakens_def drop_session_def authentic_session_snapshot)
  show ?thesis
    unfolding prepare_session_def
    by (intro triple_abind_keeps[of _ "lock _ _"] triple_abind_keeps[of _ "sync_storage _"]
        triple_abind_keeps[of _ "same_generation _"] triple_abind_keeps[of _ "check_cancelled _ _"]
        triple_abind_gets triple_if triple_early triple_checked_snapshot triple_result rest
        frame_intro authentic_lock w)
      (auto simp: authentic_def intro: justified_snapshot_state)
qed

lemma triple_session_exchange:
  assumes w: "trusted_world L T K w"
  shows "triple (authentic L T K) (session_exchange L w path body saved expected started licence)
    (\<lambda>r. \<forall>x. r = Inr x \<longrightarrow> session_backed L T K x)"
  unfolding session_exchange_def
  by (intro triple_abind_keeps[of _ "post _ _ _ _ _"] triple_intro frame_intro triple_try
      triple_verify_session_reply trusted_sub w) simp_all

definition outcome_justified :: "libs \<Rightarrow> (keys \<Rightarrow> bool) \<Rightarrow> env \<Rightarrow> snapshot result \<times> bool \<Rightarrow> bool" where
  "outcome_justified L T K r = (\<forall>snap. fst r = Inr snap \<longrightarrow> justified L T K snap)"

lemma triple_failed_session:
  "triple (authentic L T K) (failed_session w e) (outcome_justified L T K)"
  unfolding failed_session_def
  by (intro triple_intro frame_weaken) (auto simp: weakens_def outcome_justified_def)

lemma triple_install_session:
  assumes "session_backed L T K r"
  shows "triple (authentic L T K) (install_session w r) (outcome_justified L T K)"
  unfolding install_session_def
  by (intro triple_abind_keeps[of _ "modify _"] triple_abind_gets triple_if triple_ret)
    (use assms in \<open>auto simp: outcome_justified_def authentic_session_snapshot weakens_def
        authentic_state_def intro!: keeps_authentic_modify\<close>)

lemma triple_settle_session:
  assumes w: "trusted_world L T K w" and v: "\<forall>x. r = Inr x \<longrightarrow> session_backed L T K x"
  shows "triple (authentic L T K) (settle_session w g r) (outcome_justified L T K)"
  unfolding settle_session_def
  by (intro triple_abind_keeps[of _ "lock _ _"] triple_abind_keeps[of _ "try_act _"] triple_case_sum
      triple_abind_keeps[of _ "gets _"] triple_abind_keeps[of _ "modify _"] triple_if triple_ret
      triple_failed_session triple_install_session keeps_intro frame_intro frame_weaken authentic_lock w)
    (use v in \<open>auto simp: outcome_justified_def weakens_def\<close>)

lemma triple_start_session:
  assumes w: "trusted_world L T K w"
  shows "triple (authentic L T K) (start_session_serialized L w g explicit) (justified L T K)"
  unfolding start_session_serialized_def
proof (rule triple_abind[OF triple_prepare_session[OF w]], intro triple_case_sum triple_case_prod
    triple_ret triple_abind_keeps[of _ "guarded _ _ _ _ _ _"] frame_intro w)
  fix saved sid licence body started
  show "triple (authentic L T K) (abind (session_exchange L (sub w 4)
      (activation_path saved ''/sessions'') body saved (sid, 1) started licence) (\<lambda>verified.
    abind (settle_session w g verified) (\<lambda>(outcome, cleanup).
    abind (if cleanup then send_session_end_cleanup saved sid else ret ()) (\<lambda>_. of_result outcome))))
    (justified L T K)"
    by (rule triple_abind[OF triple_session_exchange[OF trusted_sub[OF w]]],
        rule triple_abind[OF triple_settle_session[OF w]], assumption)
      (auto simp: outcome_justified_def intro!: triple_abind_keeps triple_result keeps_intro frame_intro)
qed simp


subsection \<open>Accepting and refreshing\<close>

lemma frame_persist [frame_intro]: "keeps (authentic L T K) (persist io saved f)"
  unfolding persist_def by (intro keeps_intro frame_intro)

lemma authentic_ordinary:
  "authentic_state L T K s \<Longrightarrow> grant_backed L T K cl a
    \<Longrightarrow> authentic_state L T K (ordinary_state saved cl a u s)"
  by (simp add: authentic_state_def ordinary_state_def)

lemma triple_accept_verified:
  assumes "reply_backed L T K v"
  shows "triple (authentic L T K) (accept_verified w activation v u) (justified L T K)"
proof (cases v)
  case (Floating saved le)
  then show ?thesis
    unfolding accept_verified_def
    by (simp, intro triple_abind_keeps triple_snapshot_now frame_intro frame_weaken) simp_all
next
  case (Ordinary saved cl a m)
  then show ?thesis
    using assms unfolding accept_verified_def
    by (simp, intro triple_abind_keeps triple_snapshot_now frame_intro keeps_authentic_modify)
      (auto simp: reply_backed_def authentic_ordinary)
qed

lemma frame_checkpoint_restored [frame_intro]: "keeps (authentic L T K) (checkpoint_restored io)"
  unfolding checkpoint_restored_def by (intro keeps_intro frame_intro)

lemma triple_accept_transient:
  "triple (authentic L T K) (accept_transient w verifying e) (justified L T K)"
  unfolding accept_transient_def
  by (intro triple_abind_keeps[of _ "if _ then _ else _"] triple_abind_keeps[of _ "checkpoint_restored _"]
      triple_abind_keeps[of _ "modify _"] triple_abind[OF triple_snapshot_now] triple_if triple_ret
      triple_fail keeps_intro frame_intro frame_weaken) simp_all

lemma frame_fail_installed [frame_intro]: "keeps (authentic L T K) (fail_installed w activation e)"
  unfolding fail_installed_def by (intro keeps_intro frame_intro frame_weaken) simp

lemma frame_fail_memory [frame_intro]: "keeps (authentic L T K) (fail_memory w e)"
  unfolding fail_memory_def
  by (intro keeps_intro frame_intro frame_weaken) (simp add: weakens_def)

lemma triple_accept_failure:
  "triple (authentic L T K) (accept_failure w activation e) (justified L T K)"
  unfolding accept_failure_def by (intro triple_intro keeps_intro frame_intro)

lemma triple_check_response:
  assumes w: "trusted_world L T K w"
  shows "triple (authentic L T K) (check_response L w response previous licence started)
    (\<lambda>(_, r). \<forall>v u. r = Inr (v, u) \<longrightarrow> reply_backed L T K v)"
  unfolding check_response_def
proof (intro triple_case_sum triple_case_option triple_ret)
  fix reply_value
  show "triple (authentic L T K) (abind (try_act (verify_reply L (sub w 10) reply_value previous licence started))
      (\<lambda>r. ret (True, r))) (\<lambda>(_, r). \<forall>v u. r = Inr (v, u) \<longrightarrow> reply_backed L T K v)"
    by (rule triple_abind[OF triple_try[OF triple_verify_reply[OF trusted_sub[OF w]]]])
      (auto intro: triple_ret)
qed simp_all

lemma triple_accept_for_licence:
  assumes w: "trusted_world L T K w"
  shows "triple (authentic L T K) (accept_for_licence L w response g previous started licence)
    (justified L T K)"
  unfolding accept_for_licence_def
proof (intro triple_abind_keeps[of _ "check_generation _ _ _"] frame_intro w,
    rule triple_abind[OF triple_check_response[OF w]], rule triple_case_prod)
  fix x :: "bool \<times> (verified_reply \<times> string option) result" and verifying r
  assume r: "case x of (_, r) \<Rightarrow> \<forall>v u. r = Inr (v, u) \<longrightarrow> reply_backed L T K v"
    and x: "x = (verifying, r)"
  show "triple (authentic L T K) (abind (lock w 20) (\<lambda>_.
     abind (sync_storage (w_io w 20)) (\<lambda>_.
     abind (same_generation g) (\<lambda>_.
     abind (check_cancelled w 20) (\<lambda>_.
     case r of
       Inl e \<Rightarrow>
         if is_transient e then accept_transient w verifying e
         else if e = Cancelled then fail Cancelled
         else accept_failure w (previous = None) e
     | Inr (v, update) \<Rightarrow> accept_verified w (previous = None) v update))))) (justified L T K)"
    by (intro triple_abind_keeps triple_case_sum triple_case_prod triple_if triple_fail frame_intro
        authentic_lock w triple_accept_verified triple_accept_transient triple_accept_failure)
      (use r x in auto)
qed

lemma triple_accept_with_licence:
  assumes w: "trusted_world L T K w"
  shows "triple (authentic L T K) (accept_with_licence L w response g previous started licence)
    (justified L T K)"
  unfolding accept_with_licence_def
  by (rule triple_abind[OF triple_accept_for_licence[OF w]])
    (intro triple_abind_keeps triple_if triple_ret triple_start_session trusted_sub w frame_intro
      keeps_intro authentic_lock)

lemma triple_refresh_not_due:
  assumes w: "trusted_world L T K w"
  shows "triple (authentic L T K) (refresh_not_due w g) (none_or (justified L T K))"
  unfolding refresh_not_due_def
  by (intro triple_abind_keeps[of _ "lock _ _"] triple_abind_keeps[of _ "sync_storage _"]
      triple_abind_keeps[of _ "same_generation _"] triple_abind_keeps[of _ "check_cancelled _ _"]
      triple_abind[OF triple_snapshot_now] triple_abind_keeps[of _ "gets _"] triple_if
      triple_case_option triple_fail triple_ret frame_intro keeps_intro authentic_lock w) simp_all

lemma frame_require_settled [frame_intro]: "keeps (authentic L T K) (require_settled io)"
  unfolding require_settled_def by (intro keeps_intro frame_intro)

lemma triple_send_refresh:
  assumes w: "trusted_world L T K w"
  shows "triple (authentic L T K) (send_refresh L w g suppress) (justified L T K)"
  unfolding send_refresh_def
  by (intro triple_abind_keeps triple_if triple_accept_for_licence triple_accept_with_licence
      trusted_sub w frame_intro keeps_intro authentic_lock)

lemma triple_refresh:
  assumes w: "trusted_world L T K w"
  shows "triple (authentic L T K) (refresh_inner_mode L w respect suppress) (justified L T K)"
proof -
  have "triple (authentic L T K) (if respect then refresh_not_due w g else ret None)
      (none_or (justified L T K))" for g
    by (intro triple_if triple_refresh_not_due w triple_ret) simp
  then show ?thesis
    unfolding refresh_inner_mode_def
    by (intro triple_abind_keeps[of _ "current_generation _ _"] triple_abind_keeps[of _ "serialize _ _"]
        triple_abind_keeps[of _ "check_generation _ _ _"] triple_abind_keeps[of _ "require_settled _"]
        triple_abind[where R = "none_or (justified L T K)"] triple_case_option triple_ret
        triple_send_refresh frame_intro w) simp_all
qed

subsection \<open>The entry points\<close>

lemma checkpoint_offline_runtime:
  assumes "checkpoint_offline rt force io d = (rt', d', r)"
  shows "or_verified rt' = or_verified rt" "or_anchor rt' = or_anchor rt"
    "or_authorized rt' \<Longrightarrow> or_authorized rt"
  using assms unfolding checkpoint_offline_def
  by (auto split: if_splits option.splits sum.splits prod.splits)

lemma frame_checkpoint_authorized [frame_intro]:
  "keeps (authentic L T K) (checkpoint_authorized force io)"
  unfolding checkpoint_authorized_def
proof (intro keeps_abind_gets keeps_case_prod keeps_case_option keeps_if keeps_basic)
  fix c inst off rt
  assume c: "authentic L T K c" and "(installed c, authorized_offline (cl_state c)) = (inst, off)" "off = Some rt"
  then have b: "offline_backed L K rt"
    by (auto simp: authentic_def authentic_state_def authorized_offline_def filter_opt_Some_iff)
  show "keeps (authentic L T K) (\<lambda>c. case cl_storage c of
              MemoryStore _ \<Rightarrow> (c, Inr ())
            | InstalledStore d \<Rightarrow> (case checkpoint_offline rt force io d of
                (rt', d', r) \<Rightarrow> (c\<lparr>cl_storage := InstalledStore d',
                   cl_state := set_offline rt' (cl_state c)\<rparr>, r)))"
  proof (rule keepsI, clarsimp split: store.split prod.split)
    fix c d rt' d' r
    assume a: "authentic L T K c" and k: "checkpoint_offline rt force io d = (rt', d', r)"
    have "offline_backed L K rt'"
      using b checkpoint_offline_runtime[OF k] by (auto intro: offline_backed_update)
    then show "authentic L T K (c\<lparr>cl_storage := InstalledStore d', cl_state := set_offline rt' (cl_state c)\<rparr>)"
      using a by (auto simp: authentic_def env_of_def authentic_state_def set_offline_def)
  qed
qed

lemma frame_logout:
  assumes "trusted_world L T K w" shows "keeps (authentic L T K) (logout w)"
  unfolding logout_def by (intro keeps_intro frame_intro authentic_lock assms)

lemma triple_session_status:
  assumes w: "trusted_world L T K w"
  shows "triple (authentic L T K) (session_status w) (early_justified L T K)"
  unfolding session_status_def Let_def
  by (intro triple_abind_keeps[of _ "lock _ _"] triple_abind_keeps[of _ "sync_storage _"]
      triple_abind_gets triple_if triple_early triple_checked_snapshot triple_ret
      frame_intro authentic_lock w) (simp_all add: authentic_session_snapshot)

lemma triple_start_with_cancel:
  assumes w: "trusted_world L T K w"
  shows "triple (authentic L T K) (start_session_with_cancel L w) (justified L T K)"
proof -
  have refresh: "keeps (authentic L T K) (refresh_with_cancel L (sub w 100))"
    unfolding refresh_with_cancel_def by (intro triple_keeps[OF triple_refresh] trusted_sub w)
  show ?thesis
    unfolding start_session_with_cancel_def
    by (rule triple_abind_keeps, rule frame_intro, rule triple_abind[OF triple_session_status[OF w]])
      (intro triple_case_sum triple_case_prod triple_ret triple_abind_keeps triple_start_session
        trusted_sub w frame_intro keeps_intro refresh, simp)
qed

lemma triple_first_look:
  assumes w: "trusted_world L T K w"
  shows "triple (authentic L T K) (first_look w) (\<lambda>(snap, _). justified L T K snap)"
  unfolding first_look_def
  by (intro triple_abind_keeps[of _ "lock _ _"] triple_abind_keeps[of _ "sync_storage _"]
      triple_abind_keeps[of _ "check_cancelled _ _"] triple_abind[OF triple_checked_snapshot]
      triple_abind_gets triple_ret frame_intro authentic_lock w) simp

lemma triple_second_look:
  assumes w: "trusted_world L T K w"
  shows "triple (authentic L T K) (second_look w) (justified L T K)"
  unfolding second_look_def
  by (intro triple_abind_keeps[of _ "lock _ _"] triple_abind_keeps[of _ "sync_storage _"]
      triple_abind_keeps[of _ "check_cancelled _ _"] triple_abind[OF triple_checked_snapshot]
      triple_abind_demand triple_ret frame_intro authentic_lock w)

text \<open>What an access decision returns.\<close>

definition decided :: "libs \<Rightarrow> (keys \<Rightarrow> bool) \<Rightarrow> env \<Rightarrow> string \<Rightarrow> snapshot \<Rightarrow> bool" where
  "decided L T K feature snap \<longleftrightarrow> justified L T K snap \<and> has_feature snap feature"

lemma require_feature_decided:
  "require_feature feature snap = Inr snap' \<Longrightarrow> justified L T K snap \<Longrightarrow> decided L T K feature snap'"
  by (auto simp: require_feature_def decided_def split: if_splits)

lemma triple_final_look:
  assumes w: "trusted_world L T K w"
  shows "triple (authentic L T K) (final_look w feature e) (decided L T K feature)"
  unfolding final_look_def Let_def
  by (intro triple_abind_keeps[of _ "lock _ _"] triple_abind_keeps[of _ "sync_storage _"]
      triple_abind_keeps[of _ "check_cancelled _ _"] triple_abind[OF triple_checked_snapshot]
      triple_abind_demand triple_abind_gets triple_abind_result triple_if triple_ret triple_result
      frame_intro authentic_lock w)
    (auto intro: require_feature_decided authentic_session_snapshot)

lemma triple_require_access:
  assumes w: "trusted_world L T K w"
  shows "triple (authentic L T K) (require_access L w feature) (decided L T K feature)"
proof -
  have offline: "offline_decision feature snap = Inr snap' \<Longrightarrow> justified L T K snap
      \<Longrightarrow> decided L T K feature snap'" for snap snap'
    by (auto simp: offline_decision_def decided_def split: if_splits)
  have second: "triple (authentic L T K) (if b then second_look w else ret snap) (justified L T K)"
    if "justified L T K snap" for b snap
    by (intro triple_if triple_second_look w triple_ret that)
  have refresh: "keeps (authentic L T K) (refresh_if_needed L (sub w 100))"
    unfolding refresh_if_needed_def by (intro triple_keeps[OF triple_refresh] trusted_sub w)
  have again: "triple (authentic L T K) (refresh_then_look L w feature) (decided L T K feature)"
    unfolding refresh_then_look_def
    by (intro triple_abind_keeps triple_case_sum triple_if triple_final_look triple_fail
        keeps_try refresh w)
  show ?thesis
    unfolding require_access_def
    by (rule triple_abind[OF triple_first_look[OF w]], clarify)
      (intro triple_if triple_result triple_abind[OF second] triple_abind_demand
        triple_abind[OF triple_start_with_cancel[OF trusted_sub[OF w]]] triple_fail again,
        auto intro: offline require_feature_decided)
qed


lemma frame_begin_activation [frame_intro]:
  assumes w: "trusted_world L T K w"
  shows "keeps (authentic L T K) (begin_activation L w g who previous key)"
proof -
  have "keeps (authentic L T K) (begin_installed L w who customer previous key)" for customer
    unfolding begin_installed_def
    by (intro keeps_intro frame_intro frame_weaken) simp
  moreover have "keeps (authentic L T K) (begin_memory w who key)"
    unfolding begin_memory_def
    by (intro keeps_intro frame_intro keeps_authentic_modify) (simp add: authentic_state_clear)
  ultimately show ?thesis
    unfolding begin_activation_def
    by (intro keeps_intro frame_intro authentic_lock w)
qed

lemma triple_activate_as:
  assumes w: "trusted_world L T K w"
  shows "triple (authentic L T K) (activate_as L w who previous key) (justified L T K)"
  unfolding activate_as_def
  by (intro triple_abind_keeps triple_case_prod triple_accept_with_licence trusted_sub w frame_intro
      keeps_intro)

lemma triple_ensure_access:
  assumes w: "trusted_world L T K w"
  shows "triple (authentic L T K) (ensure_access L w feature asked) (decided L T K feature)"
  unfolding ensure_access_def activate_def
  by (rule triple_abind[OF triple_try[OF triple_require_access[OF w]]])
    (intro triple_case_sum triple_if triple_ret triple_fail triple_abind_result triple_abind_demand
      triple_abind[OF triple_activate_as[OF trusted_sub[OF w]]] triple_result,
      auto intro: require_feature_decided)

lemma frame_release [frame_intro]:
  "trusted_world L T K w \<Longrightarrow> keeps (authentic L T K) (release_credential w)"
  unfolding release_credential_def by (intro keeps_intro frame_intro authentic_lock)

lemma frame_deactivate:
  "trusted_world L T K w \<Longrightarrow> keeps (authentic L T K) (deactivate L w requested)"
  unfolding deactivate_def by (intro keeps_intro frame_intro authentic_lock)

lemma frame_end_status [frame_intro]:
  "trusted_world L T K w \<Longrightarrow> keeps (authentic L T K) (end_status w)"
  unfolding end_status_def
  by (intro keeps_intro frame_intro frame_weaken authentic_lock) (simp_all add: weakens_def)

lemma frame_take_session [frame_intro]:
  "trusted_world L T K w \<Longrightarrow> keeps (authentic L T K) (take_session w)"
  unfolding take_session_def
  by (intro keeps_intro frame_intro frame_weaken authentic_lock) simp_all

lemma frame_end_session:
  assumes w: "trusted_world L T K w"
  shows "keeps (authentic L T K) (end_session L w)"
proof -
  have "keeps (authentic L T K) (refresh_policy_without_acquire L (sub w 100))"
    unfolding refresh_policy_without_acquire_def by (intro triple_keeps[OF triple_refresh] trusted_sub w)
  then show ?thesis
    unfolding end_session_def by (intro keeps_intro frame_intro w)
qed

lemma session_backed_pending [simp]:
  "session_backed L T K (r\<lparr>sr_pending_sequence := x\<rparr>) = session_backed L T K r"
  by (simp add: session_backed_def)

lemma frame_prepare_renewal [frame_intro]:
  assumes w: "trusted_world L T K w"
  shows "keeps (authentic L T K) (prepare_renewal w g)"
  unfolding prepare_renewal_def Let_def
proof (rule triple_keeps, intro triple_abind_keeps[of _ "lock _ _"]
    triple_abind_keeps[of _ "sync_storage _"] triple_abind_keeps[of _ "same_generation _"]
    triple_abind_gets triple_abind_result triple_abind_keeps[of _ "modify _"] triple_ret
    frame_intro authentic_lock w keeps_authentic_modify)
  fix c saved r s
  assume "authentic L T K c" "ok_or SessionRequired (st_session (cl_state c)) = Inr r"
    "authentic_state L T K s"
  then show "authentic_state L T K
      (s\<lparr>st_session := Some (r\<lparr>sr_pending_sequence := Some (renewal_sequence r)\<rparr>)\<rparr>)"
    by (auto simp: authentic_def authentic_state_def ok_or_iff)
qed (rule TrueI)

lemma triple_settle_renewal:
  assumes w: "trusted_world L T K w" and v: "\<forall>x. r = Inr x \<longrightarrow> session_backed L T K x"
  shows "triple (authentic L T K) (settle_renewal w g sid n r) (justified L T K)"
proof -
  have failed: "authentic_state L T K (renewal_failed e d s)" if "authentic_state L T K s" for e d s
    by (rule weakens_authentic[OF _ that]) simp
  show ?thesis
  unfolding settle_renewal_def
  by (intro triple_abind_keeps[of _ "lock _ _"] triple_abind_keeps[of _ "sync_storage _"]
      triple_abind_keeps[of _ "same_generation _"] triple_if triple_case_sum triple_fail
      triple_abind_keeps[of _ "gets _"] triple_abind_keeps[of _ "demand _ _"]
      triple_abind_keeps[of _ "modify _"] triple_value_of_gets keeps_intro frame_intro authentic_lock w
      keeps_authentic_modify)
    (use v in \<open>auto simp: authentic_session_snapshot failed\<close>,
     auto simp: authentic_state_def)
qed

lemma triple_renew_session:
  assumes w: "trusted_world L T K w"
  shows "triple (authentic L T K) (renew_session L w g) (justified L T K)"
  unfolding renew_session_def
  by (intro triple_abind_keeps[of _ "serialize _ _"] triple_abind_keeps[of _ "prepare_renewal _ _"]
      triple_case_prod triple_abind_keeps[of _ "guarded _ _ _ _ _ _"]
      triple_abind[OF triple_session_exchange[OF trusted_sub[OF w]]] triple_settle_renewal
      frame_intro w)

lemma frame_session_due [frame_intro]: "keeps (authentic L T K) (session_due w s)"
  unfolding session_due_def
  by (intro keeps_intro frame_weaken) (simp_all add: weakens_def session_lost_def)

lemma frame_maintain:
  assumes w: "trusted_world L T K w"
  shows "keeps (authentic L T K) (maintain_session L w)"
proof -
  have "keeps (authentic L T K) (case due of
         NotDue \<Rightarrow> ret ()
       | Renew \<Rightarrow> abind (try_act (renew_session L (sub w 10) g)) (\<lambda>_. ret ())
       | Restart \<Rightarrow> abind (try_act (start_session_with_cancel L (sub w 10))) (\<lambda>_. ret ()))" for due g
    by (cases due) (auto intro!: keeps_intro triple_keeps[OF triple_renew_session]
        triple_keeps[OF triple_start_with_cancel] trusted_sub w)
  then show ?thesis
    unfolding maintain_session_def
    by (intro keeps_intro frame_intro authentic_lock w)
qed

end
