(* ===== verification/Lifecycle.thy ===== *)
theory Lifecycle
  imports Entry
begin

text \<open>
  The life of an installed client (\<open>installed.rs\<close>, \<open>impl Client\<close>): opening, importing an offline
  file, resolving a pending activation, one turn of the worker and closing.
\<close>

subsection \<open>Importing an offline file\<close>

definition old_sequence :: "persisted option \<Rightarrow> nat" where
  "old_sequence p = (case p of None \<Rightarrow> 1 | Some f \<Rightarrow> pf_sequence f)"

definition old_time :: "persisted option \<Rightarrow> int" where
  "old_time p = (case p of None \<Rightarrow> 0 | Some f \<Rightarrow> pf_time_high_water f)"

definition old_wall :: "persisted option \<Rightarrow> int" where
  "old_wall p = (case p of None \<Rightarrow> 0 | Some f \<Rightarrow> pf_wall_high_water f)"

definition mark_uncertain :: "bool \<Rightarrow> state \<Rightarrow> state" where
  "mark_uncertain b s = s\<lparr>st_offline := map_option (\<lambda>f. f\<lparr>or_uncertain := b\<rparr>) (st_offline s)\<rparr>"

text \<open>The time the file is checked at: the wall clock, but never before a saved mark or before
  what a running anchor says.\<close>

definition running_anchor :: "state \<Rightarrow> anchor option" where
  "running_anchor s = Option.bind (st_offline s) or_anchor"

definition import_time :: "world \<Rightarrow> persisted option \<Rightarrow> int \<Rightarrow> int act" where
  "import_time w previous wall_now =
     (let now = max wall_now (old_time previous) in
      abind (demand ClockUncertain (\<not> saturating_add wall_now 30 < old_wall previous)) (\<lambda>_.
      abind (gets (running_anchor \<circ> cl_state)) (\<lambda>running.
      case running of
        None \<Rightarrow> ret now
      | Some a \<Rightarrow>
         (case now_with_wall a (w_tick w 6) of
            Inl e \<Rightarrow> abind (modify (mark_uncertain True)) (\<lambda>_. fail e)
          | Inr (estimate, anchor_wall) \<Rightarrow>
              if saturating_add anchor_wall 30 < old_wall previous \<or> estimate < old_time previous
              then abind (modify (mark_uncertain True)) (\<lambda>_. fail ClockUncertain)
              else abind (modify (mark_uncertain False)) (\<lambda>_. ret (max now estimate))))))"

definition replayed_differently :: "verified \<Rightarrow> persisted option \<Rightarrow> bool" where
  "replayed_differently v previous \<longleftrightarrow>
     some_and (\<lambda>f. vf_sequence v = pf_sequence f
        \<and> (vf_issuance_id v \<noteq> pf_issuance_id f \<or> vf_content_digest v \<noteq> pf_content_digest f)) previous"

definition imported_file :: "string \<Rightarrow> verified \<Rightarrow> int \<Rightarrow> int \<Rightarrow> persisted option \<Rightarrow> persisted" where
  "imported_file file v now wall_now previous =
     \<lparr>pf_jws = Some file, pf_sequence = vf_sequence v, pf_issuance_id = vf_issuance_id v,
      pf_content_digest = vf_content_digest v, pf_verified_at = now,
      pf_time_high_water = max now (vf_issued_at v),
      pf_wall_high_water = max (old_wall previous) wall_now\<rparr>"

text \<open>An import given up after the file was saved takes the saved authority away again.\<close>

definition abandon_import :: "world \<Rightarrow> error \<Rightarrow> 'a act" where
  "abandon_import w e =
     abind (try_act (on_disk (clear_cached True False (w_io w 9)))) (\<lambda>cleared.
     abind (modify clear) (\<lambda>_.
     case cleared of
       Inl _ \<Rightarrow> fail StorageError
     | Inr v \<Rightarrow> abind (set_version v) (\<lambda>_. fail e)))"

definition imported_runtime :: "verified \<Rightarrow> anchor \<Rightarrow> persisted \<Rightarrow> duration \<Rightarrow> offline_runtime" where
  "imported_runtime v a saved now =
     \<lparr>or_verified = Some v, or_anchor = Some a, or_saved = saved, or_authorized = True,
      or_uncertain = False, or_last_checkpoint = now\<rparr>"

definition raise_wall :: "int \<Rightarrow> offline_runtime \<Rightarrow> offline_runtime" where
  "raise_wall w rt =
     (if w > pf_wall_high_water (or_saved rt)
      then rt\<lparr>or_saved := (or_saved rt)\<lparr>pf_wall_high_water := w\<rparr>\<rparr> else rt)"

definition run_imported :: "world \<Rightarrow> verified \<Rightarrow> anchor \<Rightarrow> persisted \<Rightarrow> snapshot act" where
  "run_imported w v a saved =
     (let rt = imported_runtime v a saved (instant (w_tick w 10)) in
      case now_with_wall a (w_tick w 11) of
        Inl e \<Rightarrow> abandon_import w e
      | Inr (current, current_wall) \<Rightarrow>
          if saturating_add current_wall 30 \<ge> pf_wall_high_water saved
             \<and> current \<ge> pf_time_high_water saved
          then abind (modify (set_offline (raise_wall current_wall rt))) (\<lambda>_.
                 ret (offline_snapshot (raise_wall current_wall rt) (Some current)))
          else abandon_import w ClockUncertain)"

definition store_imported ::
    "world \<Rightarrow> string \<Rightarrow> verified \<Rightarrow> int \<Rightarrow> start \<Rightarrow> persisted option \<Rightarrow> snapshot act" where
  "store_imported w file v now started previous =
     (let saved = imported_file file v now (start_wall started) previous;
          a = anchor_from_request (pf_time_high_water saved) started in
      abind (check_cancelled w 7) (\<lambda>_.
      abind (gets (st_storage_version \<circ> cl_state)) (\<lambda>version.
      abind (on_disk (save_offline version saved (w_io w 8))) (\<lambda>version'.
      abind (modify clear) (\<lambda>_.
      abind (set_version version') (\<lambda>_.
      if w_cancelled w 8 then abandon_import w Cancelled
      else run_imported w v a saved))))))"

definition import_locked :: "libs \<Rightarrow> world \<Rightarrow> string \<Rightarrow> keys \<Rightarrow> app_key \<Rightarrow> snapshot act" where
  "import_locked L w file ks key =
     abind (on_disk (offline_state (w_io w 5))) (\<lambda>previous.
     abind (of_result (start_capture (w_tick w 5))) (\<lambda>started.
     abind (import_time w previous (start_wall started)) (\<lambda>now.
     abind (gets (\<lambda>c. verify_offline L file ks key (cl_device c) now (old_sequence previous))) (\<lambda>r.
     abind (of_result r) (\<lambda>v.
     abind (demand stale (\<not> replayed_differently v previous)) (\<lambda>_.
     abind (check_cancelled w 6) (\<lambda>_.
     abind (of_result (ensure InvalidResponse (utf8 L file))) (\<lambda>_.
       store_imported w file v now started previous))))))))"

definition import_offline_file_for_generation ::
    "libs \<Rightarrow> world \<Rightarrow> string \<Rightarrow> 64 word \<Rightarrow> snapshot act" where
  "import_offline_file_for_generation L w file generation =
     abind (check_cancelled w 1) (\<lambda>_.
     abind (gets (\<lambda>c. (installed c, cl_offline_keys c, cl_app_key c))) (\<lambda>(inst, oks, okey).
     abind (demand Configuration inst) (\<lambda>_.
     abind (of_result (ok_or Configuration oks)) (\<lambda>ks.
     abind (of_result (ok_or Configuration okey)) (\<lambda>key.
     abind (serialize w 2) (\<lambda>_.
     abind (check_generation w 3 generation) (\<lambda>_.
     abind (lock w 4) (\<lambda>_.
     abind (sync_storage (w_io w 4)) (\<lambda>_.
     abind (same_generation generation) (\<lambda>_.
     abind (check_cancelled w 4) (\<lambda>_.
       import_locked L w file ks key)))))))))))"

definition import_offline_file :: "libs \<Rightarrow> world \<Rightarrow> string \<Rightarrow> snapshot act" where
  "import_offline_file L w file =
     abind (check_cancelled w 0) (\<lambda>_.
     abind (current_generation w 0) (\<lambda>generation.
       import_offline_file_for_generation L w file generation))"

subsection \<open>A pending activation\<close>

definition abandon_pending :: "state \<Rightarrow> state" where
  "abandon_pending s = s\<lparr>st_generation := st_generation s + 1, st_claims := None,
     st_anchor := None,
     st_offline := map_option (\<lambda>f. f\<lparr>or_authorized := False, or_verified := None\<rparr>) (st_offline s)\<rparr>"

definition resolve_pending_activation :: "world \<Rightarrow> unit act" where
  "resolve_pending_activation w =
     abind (lock w 0) (\<lambda>_.
     abind (gets installed) (\<lambda>inst.
     abind (demand Configuration inst) (\<lambda>_.
     abind (on_disk (activation_pending (w_io w 0))) (\<lambda>pend.
     if \<not> pend then ret ()
     else abind (on_disk (clear_cached True False (w_io w 1))) (\<lambda>v.
          abind (set_version v) (\<lambda>_. modify abandon_pending))))))"

definition offline_request :: "libs \<Rightarrow> world \<Rightarrow> offline_request act" where
  "offline_request L w =
     abind (lock w 0) (\<lambda>_.
     abind (sync_storage (w_io w 0)) (\<lambda>_.
     abind (gets (\<lambda>c. (installed c, cl_app_key c, cl_device c))) (\<lambda>(inst, okey, dev).
     abind (demand Configuration inst) (\<lambda>_.
     abind (of_result (ok_or Configuration okey)) (\<lambda>key.
       ret (request L key dev))))))"

subsection \<open>The worker and the end\<close>

text \<open>The checkpoint of whichever authority the state holds.\<close>

definition checkpoint_state :: "bool \<Rightarrow> io \<Rightarrow> unit act" where
  "checkpoint_state force io =
     abind (gets cl_state) (\<lambda>s.
     if authorized_offline s \<noteq> None then checkpoint_authorized force io
     else on_disk (checkpoint (st_anchor s) force io))"

text \<open>One turn of the worker of an open client, after its one-second sleep.\<close>

definition worker_turn :: "libs \<Rightarrow> world \<Rightarrow> unit act" where
  "worker_turn L w =
     abind (lock w 0) (\<lambda>_.
     abind (gets cl_closed) (\<lambda>closed.
     if closed then ret ()
     else
       abind (gets cl_state) (\<lambda>s.
       abind (if st_session_required s then maintain_session L (sub w 10)
              else if authorized_offline s = None \<and> \<not> st_session_disabled s
              then abind (try_act (refresh_if_needed L (sub w 10))) (\<lambda>_. ret ())
              else ret ()) (\<lambda>_.
       abind (lock w 1) (\<lambda>_.
       abind (try_act (checkpoint_state False (w_io w 1))) (\<lambda>_. ret ()))))))"

definition session_to_release :: "state \<Rightarrow> (stored_credential \<times> string) option" where
  "session_to_release s =
     Option.bind (session_to_end s) (\<lambda>sid. map_option (\<lambda>saved. (saved, sid)) (st_credential s))"

definition closing_state :: "state \<Rightarrow> state" where
  "closing_state s = s\<lparr>st_session := None, st_pending_session_id := None,
     st_session_required := False, st_generation := st_generation s + 1\<rparr>"

definition close_storage :: "unit act" where
  "close_storage c = (case cl_storage c of
       MemoryStore m \<Rightarrow> (c, Inr ())
     | InstalledStore d \<Rightarrow> (c\<lparr>cl_storage := InstalledStore (close_disk d)\<rparr>, Inr ()))"

definition close_installed :: "world \<Rightarrow> unit act" where
  "close_installed w =
     abind (lock w 1) (\<lambda>_.
     abind (gets (session_to_release \<circ> cl_state)) (\<lambda>release.
     abind (try_act (checkpoint_state True (w_io w 1))) (\<lambda>r.
     abind (modify closing_state) (\<lambda>_.
     abind close_storage (\<lambda>_.
     abind (case release of None \<Rightarrow> ret ()
            | Some (saved, sid) \<Rightarrow> send_session_end_cleanup saved sid) (\<lambda>_.
       of_result r))))))"

definition close_client :: "world \<Rightarrow> unit act" where
  "close_client w =
     abind (lock w 0) (\<lambda>_.
     abind (gets (\<lambda>c. (cl_closed c, installed c))) (\<lambda>(was_closed, inst).
     if was_closed then ret ()
     else
       abind (\<lambda>c. (c\<lparr>cl_closed := True\<rparr>, Inr ())) (\<lambda>_.
       if inst then close_installed w else ret ())))"

text \<open>Dropping the last handle of a client.\<close>

definition drop_client :: "io \<Rightarrow> unit act" where
  "drop_client io =
     abind (gets installed) (\<lambda>inst.
     if inst then abind (try_act (checkpoint_state True io)) (\<lambda>_. close_storage)
     else ret ())"


subsection \<open>Opening\<close>

definition disk_bind ::
    "(disk \<Rightarrow> disk \<times> 'a result) \<Rightarrow> ('a \<Rightarrow> disk \<Rightarrow> disk \<times> 'b result) \<Rightarrow> disk \<Rightarrow> disk \<times> 'b result" where
  "disk_bind m f d = (case m d of (d1, Inl e) \<Rightarrow> (d1, Inl e) | (d1, Inr x) \<Rightarrow> f x d1)"

definition restored_state :: "grant_claims \<Rightarrow> anchor \<Rightarrow> state \<Rightarrow> state" where
  "restored_state claims a s = s\<lparr>st_claims := Some claims, st_anchor := Some a, st_restored := True\<rparr>"

text \<open>Resuming saved access; what cannot be resumed is cleared from the disk.\<close>

definition resume_access ::
    "libs \<Rightarrow> world \<Rightarrow> string option \<times> string option \<Rightarrow> client \<Rightarrow> disk \<Rightarrow> disk \<times> client result" where
  "resume_access L w binding c d =
     (case restore L (fst binding) (snd binding) (w_io w 4) d of
        (d1, Inr (Some (claims, a, ks))) \<Rightarrow>
          (d1, Inr (c\<lparr>cl_keys := ks, cl_state := restored_state claims a (cl_state c)\<rparr>))
      | (d1, Inr None) \<Rightarrow> (d1, Inr c)
      | (d1, Inl _) \<Rightarrow>
          (case clear_cached False False (w_io w 5) d1 of
             (d2, Inl e) \<Rightarrow> (d2, Inl e)
           | (d2, Inr v) \<Rightarrow>
               (d2, Inr (c\<lparr>cl_state := (cl_state c)\<lparr>st_storage_version := v\<rparr>\<rparr>))))"

definition configure_client ::
    "app_key \<Rightarrow> keys option \<Rightarrow> string option \<Rightarrow> offline_runtime option \<Rightarrow> client \<Rightarrow> client" where
  "configure_client key oks version offline c =
     c\<lparr>cl_app_key := Some key, cl_offline_keys := oks, cl_app_version := version,
       cl_state := (cl_state c)\<lparr>st_offline := offline\<rparr>\<rparr>"

definition client_on_disk ::
    "libs \<Rightarrow> world \<Rightarrow> app_key \<Rightarrow> string option \<times> string option \<Rightarrow> keys option \<Rightarrow> string option
      \<Rightarrow> disk \<Rightarrow> disk \<times> client result" where
  "client_on_disk L w key binding oks version =
     disk_bind (identity (w_io w 1)) (\<lambda>(cfg, dev0).
     let dev = dev0\<lparr>fingerprint := fst binding, fingerprint_provider := snd binding\<rparr> in
     disk_bind (restore_offline L key dev oks (w_io w 2)) (\<lambda>offline.
     disk_bind (installed_load (w_io w 3)) (\<lambda>(stored_version, credential) d.
     lift (new_client cfg dev (InstalledStore d) (w_tick w 3) stored_version credential True)
       (\<lambda>c. resume_access L w binding (configure_client key oks version offline c)) d)))"

definition open_installed ::
    "libs \<Rightarrow> (string \<Rightarrow> disk_record option) \<Rightarrow> string \<Rightarrow> world \<Rightarrow> app_key
      \<Rightarrow> string option \<times> string option \<Rightarrow> string \<Rightarrow> string option \<Rightarrow> string option
      \<Rightarrow> string option result \<Rightarrow> client result" where
  "open_installed L de_record prov w key binding canonical_origin app_version offline_bytes file =
     rbind (elapsed_clock (w_tick w 0)) (\<lambda>_.
     rbind (configured app_version) (\<lambda>version.
     rbind (opt_traverse (\<lambda>bytes. parse_keys L bytes (environment key)) offline_bytes) (\<lambda>oks.
     rbind (open_storage L de_record prov key binding canonical_origin (oks \<noteq> None)
        (w_random w 0) file (w_io w 0)) (\<lambda>d.
     case client_on_disk L w key binding oks version d of
       (_, Inl e) \<Rightarrow> Inl e
     | (d', Inr c) \<Rightarrow> Inr (c\<lparr>cl_storage := InstalledStore d'\<rparr>)))))"

text \<open>The first refresh of an opened client: a denial closes it again.\<close>

definition survives_open :: "error \<Rightarrow> bool" where
  "survives_open e \<longleftrightarrow> is_transient e \<or> is_app_version_unsupported e"

definition open_refresh :: "libs \<Rightarrow> world \<Rightarrow> unit act" where
  "open_refresh L w =
     abind (gets (\<lambda>c. st_credential (cl_state c) \<noteq> None)) (\<lambda>has_credential.
     if \<not> has_credential then ret ()
     else abind (on_disk (activation_pending (w_io w 6))) (\<lambda>pend.
       if pend then ret ()
       else abind (try_act (refresh_with_cancel L (sub w 100))) (\<lambda>r.
         case r of
           Inr _ \<Rightarrow> ret ()
         | Inl e \<Rightarrow> if survives_open e then ret ()
             else abind (try_act (close_client (sub w 1000))) (\<lambda>_. fail e))))"

subsection \<open>Inversion\<close>

lemma disk_bind_Inr:
  "disk_bind m f d = (d', Inr y) \<longleftrightarrow> (\<exists>d1 x. m d = (d1, Inr x) \<and> f x d1 = (d', Inr y))"
  by (auto simp: disk_bind_def split: prod.splits sum.splits)

lemma configured_client_simps [simp]:
  "cl_config (configure_client k oks v off c) = cl_config c"
  "cl_device (configure_client k oks v off c) = cl_device c"
  "cl_keys (configure_client k oks v off c) = cl_keys c"
  "cl_session_keys (configure_client k oks v off c) = cl_session_keys c"
  "cl_app_key (configure_client k oks v off c) = Some k"
  "cl_offline_keys (configure_client k oks v off c) = oks"
  "cl_state (configure_client k oks v off c) = (cl_state c)\<lparr>st_offline := off\<rparr>"
  by (simp_all add: configure_client_def)

end
