(* ===== verification/Limits.thy ===== *)
theory Limits
  imports Access
begin

text \<open>
  Online metering (\<open>limits.rs\<close>): the counters and allocations of a reply and their checks, the
  capacity denials, the signed metadata of limits, and the calls that consume units and acquire
  or release resources under an operation id.
\<close>

subsection \<open>Data\<close>

definition MAX_INTEGER :: nat where "MAX_INTEGER = 2 ^ 53 - 1"

datatype usage_period = Day | Month | Lifetime

record usage_counter =
  uc_name :: string
  uc_period :: usage_period
  uc_limit :: nat
  uc_used :: nat
  uc_remaining :: nat
  uc_period_started_at :: "int option"
  uc_resets_at :: "int option"

record consumption =
  co_counter :: usage_counter
  co_operation_id :: string
  co_consumed_units :: nat

record resource_counter =
  rc_name :: string
  rc_limit :: nat
  rc_used :: nat
  rc_remaining :: nat

datatype resource_state = Active | Released

record resource_allocation =
  ra_counter :: resource_counter
  ra_operation_id :: string
  ra_allocation_id :: string
  ra_resource_id :: string
  ra_units :: nat
  ra_state :: resource_state

datatype capacity_counter = UsageCapacity usage_counter | ResourceCapacity resource_counter

fun capacity_remaining :: "capacity_counter \<Rightarrow> nat" where
  "capacity_remaining (UsageCapacity v) = uc_remaining v"
| "capacity_remaining (ResourceCapacity v) = rc_remaining v"

record mutation_error =
  me_operation_id :: string
  me_uncertain :: bool
  me_counter :: "capacity_counter option"
  me_cause :: error

type_synonym 'a mutation_result = "mutation_error + 'a"

text \<open>\<open>failure\<close>: which causes leave open whether the service applied the mutation.\<close>

fun uncertain_cause :: "error \<Rightarrow> bool" where
  "uncertain_cause Configuration = False"
| "uncertain_cause NotActivated = False"
| "uncertain_cause PendingActivation = False"
| "uncertain_cause (Denied _ _) = False"
| "uncertain_cause _ = True"

definition failure :: "string \<Rightarrow> error \<Rightarrow> mutation_error" where
  "failure oid cause = \<lparr>me_operation_id = oid, me_uncertain = uncertain_cause cause,
     me_counter = None, me_cause = cause\<rparr>"

definition display_mutation :: "mutation_error \<Rightarrow> string" where
  "display_mutation e = ''Orbit mutation failed; retain its operation ID for recovery''"

definition debug_mutation :: "mutation_error \<Rightarrow> string" where
  "debug_mutation e = display_mutation e @ '' (operation ID: '' @ me_operation_id e
     @ '', uncertain: '' @ (if me_uncertain e then ''true'' else ''false'')
     @ '', cause: '' @ debug_error (me_cause e) @ '')''"

subsection \<open>Reading a reply\<close>

text \<open>\<open>name\<close>.\<close>

definition metric_name :: "string \<Rightarrow> bool" where
  "metric_name v \<longleftrightarrow> 1 \<le> length v \<and> length v \<le> 64 \<and> is_lower (hd v)
     \<and> list_all (\<lambda>b. is_lower b \<or> is_digit b \<or> b = CHR ''_'') v"

text \<open>\<open>text\<close>, \<open>integer\<close>, \<open>exact\<close>, \<open>date\<close>, \<open>optional_date\<close>.\<close>

definition text_of :: "json \<Rightarrow> string \<Rightarrow> string result" where
  "text_of v k = ok_or InvalidResponse (Option.bind (json_get v k) as_str)"

definition integer :: "json \<Rightarrow> string \<Rightarrow> nat result" where
  "integer v k = ok_or InvalidResponse
     (filter_opt (\<lambda>n. n \<le> MAX_INTEGER) (Option.bind (json_get v k) as_u64))"

definition exact :: "json \<Rightarrow> string list \<Rightarrow> unit result" where
  "exact v ks =
     rbind (ok_or InvalidResponse (as_object v)) (\<lambda>m.
       ensure InvalidResponse (\<not> (length m \<noteq> length ks \<or> list_ex (\<lambda>k. \<not> contains_key m k) ks)))"

definition date :: "('x) external_scheme \<Rightarrow> json \<Rightarrow> string \<Rightarrow> int result" where
  "date X v k =
     rbind (text_of v k) (\<lambda>raw.
     rbind (ok_or InvalidResponse (rfc3339 X raw)) (\<lambda>(secs, nanos, utc).
     rbind (ensure InvalidResponse (\<not> (\<not> utc \<or> \<not> (0 \<le> secs \<and> secs \<le> 253402300799)))) (\<lambda>_.
       ok_or InvalidResponse (from_unix_seconds secs))))"

definition optional_date :: "('x) external_scheme \<Rightarrow> json \<Rightarrow> string \<Rightarrow> int option result" where
  "optional_date X v k = (case json_get v k of
       Some JNull \<Rightarrow> Inr None
     | Some _ \<Rightarrow> rbind (date X v k) (\<lambda>t. Inr (Some t))
     | None \<Rightarrow> Inl InvalidResponse)"

definition counter :: "json \<Rightarrow> string \<Rightarrow> resource_counter result" where
  "counter v expected =
     rbind (text_of v ''name'') (\<lambda>actual.
     rbind (integer v ''limit'') (\<lambda>lim.
     rbind (integer v ''used'') (\<lambda>used.
     rbind (integer v ''remaining'') (\<lambda>remaining.
     rbind (ensure InvalidResponse (\<not> (actual \<noteq> expected \<or> \<not> metric_name actual
        \<or> used > lim \<or> remaining \<noteq> lim - used))) (\<lambda>_.
       Inr \<lparr>rc_name = actual, rc_limit = lim, rc_used = used, rc_remaining = remaining\<rparr>)))))"

definition period_of :: "string \<Rightarrow> usage_period result" where
  "period_of p = (if p = ''day'' then Inr Day else if p = ''month'' then Inr Month
     else if p = ''lifetime'' then Inr Lifetime else Inl InvalidResponse)"

fun period_bounds :: "usage_period \<Rightarrow> int option \<Rightarrow> int option \<Rightarrow> bool" where
  "period_bounds Lifetime None None = True"
| "period_bounds Day (Some start) (Some e) = (e > start)"
| "period_bounds Month (Some start) (Some e) = (e > start)"
| "period_bounds _ _ _ = False"

definition usage :: "('x) external_scheme \<Rightarrow> json \<Rightarrow> string \<Rightarrow> usage_counter result" where
  "usage X v expected =
     rbind (counter v expected) (\<lambda>ctr.
     rbind (text_of v ''period'') (\<lambda>p.
     rbind (period_of p) (\<lambda>period.
     rbind (optional_date X v ''period_started_at'') (\<lambda>started.
     rbind (optional_date X v ''resets_at'') (\<lambda>resets.
     rbind (ensure InvalidResponse (period_bounds period started resets)) (\<lambda>_.
       Inr \<lparr>uc_name = rc_name ctr, uc_period = period, uc_limit = rc_limit ctr,
            uc_used = rc_used ctr, uc_remaining = rc_remaining ctr,
            uc_period_started_at = started, uc_resets_at = resets\<rparr>))))))"

definition operation_id :: "('x) external_scheme \<Rightarrow> string option \<Rightarrow> string option \<Rightarrow> string result" where
  "operation_id X random given = (case given of
       Some i \<Rightarrow> if valid_operation_id i then Inr i else Inl Configuration
     | None \<Rightarrow> rbind (new_installation X random) (\<lambda>dev. Inr (installation_id dev)))"

text \<open>\<open>denial\<close>: a capacity denial is believed only when it names this operation, these units and
  a consistent counter that really cannot hold them; any other is an uncertain failure.\<close>

definition parse_denial ::
    "('x) external_scheme \<Rightarrow> json \<Rightarrow> string \<Rightarrow> string \<Rightarrow> nat \<Rightarrow> bool \<Rightarrow> mutation_error result" where
  "parse_denial X v expected oid units resource =
     rbind (ok_or InvalidResponse (json_get v ''error'')) (\<lambda>err.
     rbind (text_of err ''code'') (\<lambda>code.
     rbind (text_of err ''request_id'') (\<lambda>request_id.
     rbind (ensure InvalidResponse
        (code = (if resource then ''resource_limit_reached'' else ''usage_limit_reached''))) (\<lambda>_.
     rbind (text_of err ''message'') (\<lambda>message.
     rbind (ensure InvalidResponse (\<not> (message = [] \<or> \<not> valid_request_id request_id))) (\<lambda>_.
     rbind (text_of err ''idempotency_key'') (\<lambda>k.
     rbind (ensure InvalidResponse (k = oid)) (\<lambda>_.
     rbind (integer err ''requested_units'') (\<lambda>requested.
     rbind (ensure InvalidResponse (requested = units)) (\<lambda>_.
     rbind (ok_or InvalidResponse (json_get err ''counter'')) (\<lambda>details.
     rbind (if resource then rbind (counter details expected) (\<lambda>x. Inr (ResourceCapacity x))
            else rbind (usage X details expected) (\<lambda>x. Inr (UsageCapacity x))) (\<lambda>ctr.
     rbind (ensure InvalidResponse (\<not> units \<le> capacity_remaining ctr)) (\<lambda>_.
       Inr \<lparr>me_operation_id = oid, me_uncertain = False, me_counter = Some ctr,
            me_cause = Denied code (Some request_id)\<rparr>)))))))))))))"

definition denial ::
    "('x) external_scheme \<Rightarrow> json \<Rightarrow> string \<Rightarrow> string \<Rightarrow> nat \<Rightarrow> bool \<Rightarrow> mutation_error" where
  "denial X v expected oid units resource =
     (case parse_denial X v expected oid units resource of Inr e \<Rightarrow> e | Inl cause \<Rightarrow> failure oid cause)"

definition state_of :: "string \<Rightarrow> resource_state result" where
  "state_of s = (if s = ''active'' then Inr Active else if s = ''released'' then Inr Released
     else Inl InvalidResponse)"

definition allocation ::
    "json \<Rightarrow> string \<Rightarrow> string option \<Rightarrow> string option \<Rightarrow> nat option \<Rightarrow> string \<Rightarrow> bool
      \<Rightarrow> resource_allocation result" where
  "allocation v expected resource alloc units oid release =
     rbind (counter v expected) (\<lambda>ctr.
     rbind (text_of v ''idempotency_key'') (\<lambda>operation.
     rbind (text_of v ''resource_id'') (\<lambda>resource_id.
     rbind (text_of v ''allocation_id'') (\<lambda>allocation_id.
     rbind (integer v ''units'') (\<lambda>n.
     rbind (text_of v ''state'') (\<lambda>s.
     rbind (state_of s) (\<lambda>st.
     rbind (ensure InvalidResponse (\<not> (operation \<noteq> oid
        \<or> \<not> opaque resource_id
        \<or> \<not> opaque allocation_id
        \<or> n = 0
        \<or> some_and (\<lambda>x. x \<noteq> resource_id) resource
        \<or> some_and (\<lambda>x. x \<noteq> allocation_id) alloc
        \<or> some_and (\<lambda>x. x \<noteq> n) units
        \<or> (st = Active \<and> n > rc_used ctr)
        \<or> (release \<and> st \<noteq> Released)))) (\<lambda>_.
       Inr \<lparr>ra_counter = ctr, ra_operation_id = oid, ra_allocation_id = allocation_id,
            ra_resource_id = resource_id, ra_units = n, ra_state = st\<rparr>))))))))"

definition service_route :: "string \<Rightarrow> bool" where
  "service_route path \<longleftrightarrow> starts_with path ''/api/client/v1/activations/''
     \<and> (contains_str path ''/usage/'' \<or> contains_str path ''/resources/''
        \<or> ends_with path ''/updates'' \<or> ends_with path ''/downloads/authorize'')"

subsection \<open>Limits of a policy\<close>

record usage_limit =
  ul_limit :: nat
  ul_period :: usage_period
  ul_required_feature :: "string option"

record resource_limit =
  rl_limit :: nat
  rl_required_feature :: "string option"

definition required_feature :: "json \<Rightarrow> string option result" where
  "required_feature v = (case json_get v ''required_feature'' of
       Some JNull \<Rightarrow> Inr None
     | Some (JStr s) \<Rightarrow> if metric_name s then Inr (Some s) else Inl InvalidResponse
     | _ \<Rightarrow> Inl InvalidResponse)"

definition usage_limit_entry :: "string \<times> json \<Rightarrow> (string \<times> usage_limit) result" where
  "usage_limit_entry kv = (case kv of (key, v) \<Rightarrow>
     rbind (ensure InvalidResponse (metric_name key)) (\<lambda>_.
     rbind (exact v [''limit'', ''period'', ''required_feature'']) (\<lambda>_.
     rbind (text_of v ''period'') (\<lambda>p.
     rbind (period_of p) (\<lambda>period.
     rbind (integer v ''limit'') (\<lambda>lim.
     rbind (required_feature v) (\<lambda>f.
       Inr (key, \<lparr>ul_limit = lim, ul_period = period, ul_required_feature = f\<rparr>))))))))"

definition resource_limit_entry :: "string \<times> json \<Rightarrow> (string \<times> resource_limit) result" where
  "resource_limit_entry kv = (case kv of (key, v) \<Rightarrow>
     rbind (ensure InvalidResponse (metric_name key)) (\<lambda>_.
     rbind (exact v [''limit'', ''required_feature'']) (\<lambda>_.
     rbind (integer v ''limit'') (\<lambda>lim.
     rbind (required_feature v) (\<lambda>f.
       Inr (key, \<lparr>rl_limit = lim, rl_required_feature = f\<rparr>))))))"

text \<open>Collecting results into a map stops at the first error.\<close>

fun collect :: "('a \<Rightarrow> 'b result) \<Rightarrow> 'a list \<Rightarrow> 'b list result" where
  "collect f [] = Inr []"
| "collect f (x # xs) = rbind (f x) (\<lambda>y. rbind (collect f xs) (\<lambda>ys. Inr (y # ys)))"

definition limits_of :: "(string \<times> json \<Rightarrow> (string \<times> 'l) result) \<Rightarrow> json \<Rightarrow> (string \<times> 'l) list result" where
  "limits_of entry v =
     rbind (ok_or InvalidResponse (as_object v)) (\<lambda>m.
     rbind (ensure InvalidResponse (\<not> length m > 32)) (\<lambda>_.
       collect entry m))"

definition deserialize_usage_limits :: "json \<Rightarrow> (string \<times> usage_limit) list result" where
  "deserialize_usage_limits v = limits_of usage_limit_entry v"

definition deserialize_resource_limits :: "json \<Rightarrow> (string \<times> resource_limit) list result" where
  "deserialize_resource_limits v = limits_of resource_limit_entry v"

subsection \<open>Calls\<close>

definition body_extend :: "json \<Rightarrow> json \<Rightarrow> json" where
  "body_extend body extra = (case as_object extra of
       None \<Rightarrow> body | Some m \<Rightarrow> foldl (\<lambda>b (k, v). json_set b k v) body m)"

text \<open>\<open>online_service\<close>: its critical section, then the request.\<close>

definition service_section :: "world \<Rightarrow> json \<Rightarrow> (stored_credential \<times> 64 word \<times> json) act" where
  "service_section w extra =
     abind (sync_storage (w_io w 0)) (\<lambda>_.
     abind (check_cancelled w 0) (\<lambda>_.
     abind (gets (authorized_offline \<circ> cl_state)) (\<lambda>off.
     abind (demand (Denied ''online_required'' None) (off = None)) (\<lambda>_.
     abind (require_settled (w_io w 1)) (\<lambda>_.
     abind (gets (st_credential \<circ> cl_state)) (\<lambda>credential.
     abind (of_result (ok_or NotActivated credential)) (\<lambda>saved.
     abind (gets (\<lambda>c. (st_generation (cl_state c), credential_body c saved))) (\<lambda>(g, body).
       ret (saved, g, body_extend body extra)))))))))"

definition service_request :: "world \<Rightarrow> json \<Rightarrow> (stored_credential \<times> 64 word \<times> json) act" where
  "service_request w extra = abind (lock w 0) (\<lambda>_. service_section w extra)"

definition online_service :: "world \<Rightarrow> string \<Rightarrow> json \<Rightarrow> json act" where
  "online_service w suffix extra =
     abind (service_request w extra) (\<lambda>(saved, g, body).
     abind (post w 2 (activation_path saved suffix) body True) (\<lambda>r.
     abind (check_generation w 3 g) (\<lambda>_.
     abind (check_cancelled w 3) (\<lambda>_.
       of_result (rbind r (ok_or InvalidResponse))))))"

definition usage_call :: "libs \<Rightarrow> world \<Rightarrow> string \<Rightarrow> usage_counter act" where
  "usage_call L w name =
     abind (demand Configuration (metric_name name)) (\<lambda>_.
     abind (online_service w (''/usage/'' @ name) (JObj [])) (\<lambda>v. of_result (usage L v name)))"

definition resources_call :: "world \<Rightarrow> string \<Rightarrow> resource_counter act" where
  "resources_call w name =
     abind (demand Configuration (metric_name name)) (\<lambda>_.
     abind (online_service w (''/resources/'' @ name) (JObj [])) (\<lambda>v. of_result (counter v name)))"

type_synonym 'a metered = "client \<Rightarrow> client \<times> 'a mutation_result"

text \<open>Every error of a mutation carries its operation id.\<close>

definition with_operation :: "string \<Rightarrow> 'a act \<Rightarrow> ('a \<Rightarrow> 'b mutation_result) \<Rightarrow> 'b metered" where
  "with_operation oid m f c = (case m c of
       (c1, Inl e) \<Rightarrow> (c1, Inl (failure oid e))
     | (c1, Inr v) \<Rightarrow> (c1, f v))"

definition as_mutation :: "string \<Rightarrow> 'a result \<Rightarrow> 'a mutation_result" where
  "as_mutation oid r = (case r of Inl e \<Rightarrow> Inl (failure oid e) | Inr x \<Rightarrow> Inr x)"

definition consume_body :: "nat \<Rightarrow> string \<Rightarrow> json" where
  "consume_body units oid = JObj [(''units'', JInt (int units)), (''idempotency_key'', JStr oid)]"

definition consumed :: "libs \<Rightarrow> string \<Rightarrow> nat \<Rightarrow> string \<Rightarrow> json \<Rightarrow> consumption mutation_result" where
  "consumed L name units oid v =
     (if json_get v ''error'' \<noteq> None then Inl (denial L v name oid units False)
      else as_mutation oid
       (rbind (usage L v name) (\<lambda>ctr.
        rbind (text_of v ''idempotency_key'') (\<lambda>k.
        rbind (ensure InvalidResponse (k = oid)) (\<lambda>_.
        rbind (integer v ''consumed_units'') (\<lambda>n.
        rbind (ensure InvalidResponse (\<not> (n \<noteq> units \<or> uc_used ctr < units))) (\<lambda>_.
          Inr \<lparr>co_counter = ctr, co_operation_id = oid, co_consumed_units = units\<rparr>)))))))"

definition consume_optional ::
    "libs \<Rightarrow> world \<Rightarrow> string \<Rightarrow> nat \<Rightarrow> string option \<Rightarrow> consumption metered" where
  "consume_optional L w name units given c =
     (case operation_id L (w_random w 0) given of
        Inl e \<Rightarrow> (c, Inl (failure (or_else given []) e))
      | Inr oid \<Rightarrow>
         if \<not> metric_name name \<or> units = 0 \<or> units > MAX_INTEGER
         then (c, Inl (failure oid Configuration))
         else with_operation oid
           (online_service w (''/usage/'' @ name @ ''/consume'') (consume_body units oid))
           (consumed L name units oid) c)"

definition consume :: "libs \<Rightarrow> world \<Rightarrow> string \<Rightarrow> nat \<Rightarrow> consumption metered" where
  "consume L w name units = consume_optional L w name units None"

definition consume_with_id :: "libs \<Rightarrow> world \<Rightarrow> string \<Rightarrow> nat \<Rightarrow> string \<Rightarrow> consumption metered" where
  "consume_with_id L w name units oid = consume_optional L w name units (Some oid)"

definition acquire_body :: "string \<Rightarrow> nat \<Rightarrow> string \<Rightarrow> json" where
  "acquire_body resource units oid =
     JObj [(''resource_id'', JStr resource), (''units'', JInt (int units)), (''idempotency_key'', JStr oid)]"

definition acquired ::
    "libs \<Rightarrow> string \<Rightarrow> string \<Rightarrow> nat \<Rightarrow> string \<Rightarrow> json \<Rightarrow> resource_allocation mutation_result" where
  "acquired L name resource units oid v =
     (if json_get v ''error'' \<noteq> None then Inl (denial L v name oid units True)
      else as_mutation oid (allocation v name (Some resource) None (Some units) oid False))"

definition acquire_optional ::
    "libs \<Rightarrow> world \<Rightarrow> string \<Rightarrow> string \<Rightarrow> nat \<Rightarrow> string option \<Rightarrow> resource_allocation metered" where
  "acquire_optional L w name resource units given c =
     (case operation_id L (w_random w 0) given of
        Inl e \<Rightarrow> (c, Inl (failure (or_else given []) e))
      | Inr oid \<Rightarrow>
         if \<not> metric_name name \<or> \<not> opaque resource \<or> units = 0 \<or> units > MAX_INTEGER
         then (c, Inl (failure oid Configuration))
         else with_operation oid
           (online_service w (''/resources/'' @ name @ ''/acquire'') (acquire_body resource units oid))
           (acquired L name resource units oid) c)"

definition release_optional ::
    "libs \<Rightarrow> world \<Rightarrow> string \<Rightarrow> string \<Rightarrow> string option \<Rightarrow> resource_allocation metered" where
  "release_optional L w name allocation_id given c =
     (case operation_id L (w_random w 0) given of
        Inl e \<Rightarrow> (c, Inl (failure (or_else given []) e))
      | Inr oid \<Rightarrow>
         if \<not> metric_name name \<or> \<not> opaque allocation_id
         then (c, Inl (failure oid Configuration))
         else with_operation oid
           (online_service w (''/resources/'' @ name @ ''/allocations/'' @ allocation_id @ ''/release'')
             (JObj [(''idempotency_key'', JStr oid)]))
           (\<lambda>v. as_mutation oid (allocation v name None (Some allocation_id) None oid True)) c)"

definition acquire_resource where
  "acquire_resource L w name resource units = acquire_optional L w name resource units None"

definition acquire_resource_with_id where
  "acquire_resource_with_id L w name resource units oid = acquire_optional L w name resource units (Some oid)"

definition release_resource where
  "release_resource L w name allocation_id = release_optional L w name allocation_id None"

definition release_resource_with_id where
  "release_resource_with_id L w name allocation_id oid = release_optional L w name allocation_id (Some oid)"

end
