(* ===== verification/Accounts.thy ===== *)
theory Accounts
  imports Limits Entry
begin

text \<open>
  Customer accounts (\<open>accounts.rs\<close>): the documents of the account replies and their checks, login
  and logout, the licences a customer owns and claims, registration and recovery.  A login is kept
  in memory only; it grants nothing by itself.
\<close>

subsection \<open>Reading account documents\<close>

definition deserialize_time :: "('x) external_scheme \<Rightarrow> string \<Rightarrow> int option" where
  "deserialize_time X v = Option.bind (result_ok (timestamp X v)) from_unix_seconds"

definition deserialize_optional_time :: "('x) external_scheme \<Rightarrow> string option \<Rightarrow> int option option" where
  "deserialize_optional_time X v = (case v of
       None \<Rightarrow> Some None | Some s \<Rightarrow> map_option Some (deserialize_time X s))"

definition deserialize_duration :: "int \<Rightarrow> duration option" where
  "deserialize_duration seconds = (if 0 \<le> seconds then Some (from_secs (nat seconds)) else None)"

definition deserialize_optional_duration :: "int option \<Rightarrow> duration option option" where
  "deserialize_optional_duration v = (case v of
       None \<Rightarrow> Some None | Some s \<Rightarrow> map_option Some (deserialize_duration s))"

definition deserialize_concurrent_session_limit :: "int \<Rightarrow> nat option" where
  "deserialize_concurrent_session_limit v = (if 0 \<le> v \<and> v < 65536 then Some (nat v) else None)"

definition deserialize_offline_file_duration :: "nat \<Rightarrow> duration option" where
  "deserialize_offline_file_duration seconds =
     (if seconds \<noteq> 0 \<and> \<not> (86400 \<le> seconds \<and> seconds \<le> 31622400) then None
      else Some (from_secs seconds))"

record login_reply =
  lr_customer :: customer
  lr_session :: string
  lr_expires_at :: int

record owned_licence =
  ow_id :: string
  ow_policy_name :: string
  ow_state :: string
  ow_expiry_mode :: string
  ow_first_used_at :: "int option"
  ow_expires_at :: "int option"
  ow_duration :: "duration option"
  ow_device_limit :: int
  ow_concurrent_session_limit :: nat
  ow_usage_limits :: "(string \<times> usage_limit) list"
  ow_resource_limits :: "(string \<times> resource_limit) list"
  ow_hwid_locked :: bool
  ow_offline_allowed :: bool
  ow_offline_duration :: duration
  ow_offline_file_duration :: duration
  ow_entitlements :: entitlement_list

record owned_licences =
  os_items :: "owned_licence list"
  os_next_cursor :: "string option"

record registration =
  rg_licence_key :: "string option"
  rg_username :: string
  rg_email :: string
  rg_password :: string

record pending_registration =
  pr_accepted :: bool
  pr_expires_at :: int
  pr_resend_credential :: string
  pr_application_id :: string
  pr_environment_id :: string

definition customer_of :: "('x) external_scheme \<Rightarrow> customer_doc \<Rightarrow> customer option" where
  "customer_of X d =
     Option.bind (deserialize_time X (cd_created_at d)) (\<lambda>t.
       Some \<lparr>cu_id = cd_id d, cu_username = cd_username d, cu_email = cd_email d,
         cu_suspended = cd_suspended d, cu_created_at = t\<rparr>)"

definition login_reply_of :: "libs \<Rightarrow> json \<Rightarrow> login_reply option" where
  "login_reply_of L v =
     Option.bind (de_login L v) (\<lambda>d.
     Option.bind (customer_of L (ld_customer d)) (\<lambda>cu.
     Option.bind (deserialize_time L (ld_expires_at d)) (\<lambda>e.
       Some \<lparr>lr_customer = cu, lr_session = ld_session d, lr_expires_at = e\<rparr>)))"

definition licence_of :: "('x) external_scheme \<Rightarrow> licence_doc \<Rightarrow> owned_licence option" where
  "licence_of X d =
     Option.bind (deserialize_optional_time X (ol_first_used_at d)) (\<lambda>first_used.
     Option.bind (deserialize_optional_time X (ol_expires_at d)) (\<lambda>expires.
     Option.bind (deserialize_optional_duration (ol_duration_seconds d)) (\<lambda>dur.
     Option.bind (deserialize_concurrent_session_limit (ol_concurrent_session_limit d)) (\<lambda>concurrent.
     Option.bind (result_ok (deserialize_usage_limits (ol_usage_limits d))) (\<lambda>usage_limits.
     Option.bind (result_ok (deserialize_resource_limits (ol_resource_limits d))) (\<lambda>resource_limits.
     Option.bind (deserialize_duration (ol_offline_seconds d)) (\<lambda>off.
     Option.bind (deserialize_offline_file_duration (ol_offline_file_seconds d)) (\<lambda>file.
       Some \<lparr>ow_id = ol_id d, ow_policy_name = ol_policy_name d, ow_state = ol_state d,
         ow_expiry_mode = ol_expiry_mode d, ow_first_used_at = first_used, ow_expires_at = expires,
         ow_duration = dur, ow_device_limit = ol_device_limit d,
         ow_concurrent_session_limit = concurrent, ow_usage_limits = usage_limits,
         ow_resource_limits = resource_limits, ow_hwid_locked = ol_hwid_locked d,
         ow_offline_allowed = ol_offline_allowed d, ow_offline_duration = off,
         ow_offline_file_duration = file, ow_entitlements = ol_entitlements d\<rparr>))))))))"

fun opt_map :: "('a \<Rightarrow> 'b option) \<Rightarrow> 'a list \<Rightarrow> 'b list option" where
  "opt_map f [] = Some []"
| "opt_map f (x # xs) =
     Option.bind (f x) (\<lambda>y. Option.bind (opt_map f xs) (\<lambda>ys. Some (y # ys)))"

definition page_of :: "libs \<Rightarrow> json \<Rightarrow> owned_licences option" where
  "page_of L v =
     Option.bind (de_page L v) (\<lambda>d.
     Option.bind (opt_map (licence_of L) (pd_items d)) (\<lambda>items.
       Some \<lparr>os_items = items, os_next_cursor = pd_next_cursor d\<rparr>))"

definition owned_licence_of :: "libs \<Rightarrow> json \<Rightarrow> owned_licence option" where
  "owned_licence_of L v = Option.bind (de_licence L v) (licence_of L)"

definition decode :: "(json \<Rightarrow> 'a option) \<Rightarrow> json option result \<Rightarrow> 'a result" where
  "decode de r =
     rbind r (\<lambda>v. rbind (ok_or InvalidResponse v) (\<lambda>j. ok_or InvalidResponse (de j)))"

definition check_licence :: "owned_licence \<Rightarrow> unit result" where
  "check_licence l =
     ensure InvalidResponse (\<not> (\<not> opaque (ow_id l)
        \<or> \<not> (1 \<le> ow_device_limit l \<and> ow_device_limit l \<le> 100)
        \<or> length (ow_entitlements l) > 64
        \<or> char_count (ow_policy_name l) > 80))"

definition accepted :: "bool \<Rightarrow> bool result" where
  "accepted v = (if \<not> v then Inl InvalidResponse else Inr v)"

definition valid_customer :: "customer \<Rightarrow> bool" where
  "valid_customer cu \<longleftrightarrow>
     opaque (cu_id cu)
     \<and> \<not> cu_suspended cu
     \<and> 3 \<le> length (cu_username cu) \<and> length (cu_username cu) \<le> 32
     \<and> list_all (\<lambda>c. is_lower c \<or> is_digit c \<or> c = CHR ''_'') (cu_username cu)
     \<and> cu_email cu \<noteq> []
     \<and> length (cu_email cu) \<le> 254"

definition valid_login :: "login_reply \<Rightarrow> bool" where
  "valid_login r \<longleftrightarrow> valid_customer (lr_customer r) \<and> bearer (lr_session r)"

subsection \<open>Requests\<close>

definition account_body :: "config \<Rightarrow> json \<Rightarrow> json" where
  "account_body cfg body =
     json_set (json_set body ''application_id'' (JStr (cfg_application_id cfg)))
       ''environment_id'' (JStr (cfg_environment_id cfg))"

definition account_path :: "config \<Rightarrow> string \<Rightarrow> string option \<Rightarrow> string" where
  "account_path cfg route after =
     route @ ''?application_id='' @ cfg_application_id cfg @ ''&environment_id='' @ cfg_environment_id cfg
     @ (case after of None \<Rightarrow> [] | Some cursor \<Rightarrow> ''&after='' @ cursor)"

definition registration_body :: "registration \<Rightarrow> json" where
  "registration_body input =
     (let body = JObj [(''username'', JStr (rg_username input)), (''email'', JStr (rg_email input)),
          (''password'', JStr (rg_password input))]
      in case rg_licence_key input of
           None \<Rightarrow> body | Some key \<Rightarrow> json_set body ''licence_key'' (JStr key))"

text \<open>The calls of \<open>get_bearer_with_cancel\<close> and \<open>delete_bearer_with_cancel\<close>.\<close>

definition account_get :: "world \<Rightarrow> nat \<Rightarrow> string \<Rightarrow> string \<Rightarrow> json option result act" where
  "account_get w k path token =
     abind (sent path (JStr token)) (\<lambda>_. ret (w_bearer w k BearerGet path token))"

definition account_delete :: "world \<Rightarrow> nat \<Rightarrow> string \<Rightarrow> string \<Rightarrow> json option result act" where
  "account_delete w k path token =
     abind (sent path (JStr token)) (\<lambda>_. ret (w_bearer w k BearerDelete path token))"

definition customer_session :: "world \<Rightarrow> nat \<Rightarrow> 64 word \<Rightarrow> account_session act" where
  "customer_session w k g =
     abind (lock w k) (\<lambda>_.
     abind (sync_storage (w_io w k)) (\<lambda>_.
     abind (same_generation g) (\<lambda>_.
     abind (gets (st_account \<circ> cl_state)) (\<lambda>a.
       of_result (ok_or ReauthenticationRequired a)))))"

text \<open>Which results of an account call clear the client: any error but an outage, a cancellation
  or an expired customer session.\<close>

fun account_definitive :: "error \<Rightarrow> bool" where
  "account_definitive (Transient _ _) = False"
| "account_definitive Cancelled = False"
| "account_definitive (Denied code _) = (code \<noteq> ''session_expired'')"
| "account_definitive _ = True"

definition finish_account :: "world \<Rightarrow> nat \<Rightarrow> 64 word \<Rightarrow> 'a result \<Rightarrow> 'a act" where
  "finish_account w k g result =
     abind (lock w k) (\<lambda>_.
     abind (sync_storage (w_io w k)) (\<lambda>_.
     abind (same_generation g) (\<lambda>_.
     abind (check_cancelled w k) (\<lambda>_.
     abind (if (case result of Inl e \<Rightarrow> account_definitive e | Inr _ \<Rightarrow> False)
            then abind (modify clear) (\<lambda>_. abind (store_invalidate (w_io w (k + 1))) set_version)
            else ret ()) (\<lambda>_.
       of_result result)))))"

definition account_post ::
    "world \<Rightarrow> string \<Rightarrow> json \<Rightarrow> bool \<Rightarrow> (json \<Rightarrow> 'a option) \<Rightarrow> ('a \<Rightarrow> 'a result) \<Rightarrow> 'a act" where
  "account_post w path body retry_safe de check =
     abind (current_generation w 0) (\<lambda>g.
     abind (serialize w 0) (\<lambda>_.
     abind (customer_session w 1 g) (\<lambda>session.
     abind (gets (\<lambda>c. account_body (cl_config c)
        (json_set body ''customer_session'' (JStr (as_token session))))) (\<lambda>b.
     abind (post w 2 path b retry_safe) (\<lambda>r.
       finish_account w 3 g (rbind (decode de r) check))))))"

subsection \<open>Login and logout\<close>

text \<open>The critical section that drops all authority; its own failures, and then a failed
  checkpoint of the offline file, are reported after the state has been cleared.\<close>

definition drop_authority :: "world \<Rightarrow> nat \<Rightarrow> unit act" where
  "drop_authority w k =
     abind (try_act (checkpoint_authorized True (w_io w k))) (\<lambda>checkpoint.
     abind (modify clear) (\<lambda>_.
     abind (store_invalidate (w_io w (k + 1))) (\<lambda>v.
     abind (set_version v) (\<lambda>_. of_result checkpoint))))"

definition begin_login :: "world \<Rightarrow> 64 word \<Rightarrow> 64 word act" where
  "begin_login w g =
     abind (lock w 1) (\<lambda>_.
     abind (sync_storage (w_io w 1)) (\<lambda>_.
     abind (same_generation g) (\<lambda>_.
     abind (drop_authority w 2) (\<lambda>_.
       gets (st_generation \<circ> cl_state)))))"

definition set_account :: "account_session \<Rightarrow> state \<Rightarrow> state" where
  "set_account a s = s\<lparr>st_account := Some a\<rparr>"

definition install_login :: "world \<Rightarrow> 64 word \<Rightarrow> login_reply \<Rightarrow> account act" where
  "install_login w g reply =
     abind (lock w 8) (\<lambda>_.
     abind (sync_storage (w_io w 8)) (\<lambda>_.
     abind (same_generation g) (\<lambda>_.
     abind (check_cancelled w 8) (\<lambda>_.
     let acc = \<lparr>ac_customer = lr_customer reply, ac_expires_at = lr_expires_at reply\<rparr> in
     abind (modify (set_account \<lparr>as_token = lr_session reply, as_account = acc\<rparr>)) (\<lambda>_.
       ret acc)))))"

definition login_body :: "string \<Rightarrow> string \<Rightarrow> json" where
  "login_body username password = JObj [(''username'', JStr username), (''password'', JStr password)]"

definition login :: "libs \<Rightarrow> world \<Rightarrow> string \<Rightarrow> string \<Rightarrow> account act" where
  "login L w username password =
     abind (demand Configuration (\<not> (username = [] \<or> length username > 128 \<or> length password > 256))) (\<lambda>_.
     abind (current_generation w 0) (\<lambda>g0.
     abind (serialize w 0) (\<lambda>_.
     abind (begin_login w g0) (\<lambda>g.
     abind (gets (\<lambda>c. account_body (cl_config c) (login_body username password))) (\<lambda>body.
     abind (post w 4 ''/api/client/v1/sessions'' body False) (\<lambda>r.
     abind (finish_account w 4 g (decode (login_reply_of L) r)) (\<lambda>reply.
     if \<not> valid_login reply then finish_account w 6 g (Inl InvalidResponse)
     else install_login w g reply)))))))"

text \<open>\<open>account\<close> and \<open>customer_session_proof\<close>, whose value is the \<open>Authorization\<close> header.\<close>

definition account_now :: "world \<Rightarrow> account option act" where
  "account_now w =
     abind (lock w 0) (\<lambda>_.
     abind (sync_storage (w_io w 0)) (\<lambda>_.
       gets (\<lambda>c. map_option as_account (st_account (cl_state c)))))"

definition customer_session_proof :: "world \<Rightarrow> string act" where
  "customer_session_proof w =
     abind (lock w 0) (\<lambda>_.
     abind (sync_storage (w_io w 0)) (\<lambda>_.
     abind (gets (st_account \<circ> cl_state)) (\<lambda>a.
     abind (of_result (ok_or ReauthenticationRequired a)) (\<lambda>session.
       ret (as_token session)))))"

definition authorization_header :: "string \<Rightarrow> string" where
  "authorization_header token = ''Bearer '' @ token"

definition debug_proof :: "string \<Rightarrow> string" where
  "debug_proof token = ''CustomerSessionProof([REDACTED])''"

definition logout_account :: "world \<Rightarrow> unit act" where
  "logout_account w =
     abind (lock w 0) (\<lambda>_.
     abind (gets (st_account \<circ> cl_state)) (\<lambda>session.
     abind (drop_authority w 0) (\<lambda>_.
     case session of
       None \<Rightarrow> ret ()
     | Some a \<Rightarrow>
        abind (gets (\<lambda>c. account_path (cl_config c) ''/api/client/v1/sessions/current'' None)) (\<lambda>path.
        abind (account_delete w 2 path (as_token a)) (\<lambda>r.
        abind (of_result r) (\<lambda>v. demand InvalidResponse (v = None)))))))"

subsection \<open>Activating an owned licence\<close>

definition activate_account :: "libs \<Rightarrow> world \<Rightarrow> string \<Rightarrow> snapshot act" where
  "activate_account L w licence = activate_as L w (AccountPrincipal licence) None []"

definition activate_account_with_id :: "libs \<Rightarrow> world \<Rightarrow> string \<Rightarrow> string \<Rightarrow> snapshot act" where
  "activate_account_with_id L w licence idempotency_key =
     abind (demand Configuration (valid_operation_id idempotency_key)) (\<lambda>_.
       activate_as L w (AccountPrincipal licence) None idempotency_key)"

definition activate_account_with_previous ::
    "libs \<Rightarrow> world \<Rightarrow> string \<Rightarrow> string option \<Rightarrow> string option \<Rightarrow> snapshot act" where
  "activate_account_with_previous L w licence previous idempotency_key =
     abind (demand Configuration (none_or valid_operation_id idempotency_key)) (\<lambda>_.
       activate_as L w (AccountPrincipal licence) previous (or_else idempotency_key []))"

subsection \<open>Licences, registration and recovery\<close>

fun check_all :: "owned_licence list \<Rightarrow> unit result" where
  "check_all [] = Inr ()"
| "check_all (l # ls) = rbind (check_licence l) (\<lambda>_. check_all ls)"

definition check_page :: "owned_licences \<Rightarrow> owned_licences result" where
  "check_page page =
     rbind (ensure InvalidResponse (\<not> (length (os_items page) > 100
        \<or> some_and (\<lambda>v. \<not> opaque v) (os_next_cursor page)))) (\<lambda>_.
     rbind (check_all (os_items page)) (\<lambda>_. Inr page))"

definition owned_licences :: "libs \<Rightarrow> world \<Rightarrow> string option \<Rightarrow> owned_licences act" where
  "owned_licences L w after =
     abind (demand Configuration (\<not> some_and (\<lambda>cursor. \<not> opaque cursor) after)) (\<lambda>_.
     abind (current_generation w 0) (\<lambda>g.
     abind (serialize w 0) (\<lambda>_.
     abind (customer_session w 1 g) (\<lambda>session.
     abind (gets (\<lambda>c. account_path (cl_config c) ''/api/client/v1/licences'' after)) (\<lambda>path.
     abind (account_get w 2 path (as_token session)) (\<lambda>r.
       finish_account w 3 g (rbind (decode (page_of L) r) check_page)))))))"

definition claim_body :: "string \<Rightarrow> string \<Rightarrow> json" where
  "claim_body key oid = JObj [(''licence_key'', JStr key), (''idempotency_key'', JStr oid)]"

definition claim_licence :: "libs \<Rightarrow> world \<Rightarrow> string \<Rightarrow> string \<Rightarrow> owned_licence act" where
  "claim_licence L w key oid =
     abind (gets installed) (\<lambda>inst.
     abind (demand Configuration (\<not> (key = [] \<or> length key > 256
        \<or> (oid \<noteq> [] \<and> \<not> valid_operation_id oid)
        \<or> (\<not> (16 \<le> length oid \<and> length oid \<le> 128) \<and> \<not> inst)))) (\<lambda>_.
     abind (of_result (if oid = [] then rbind (new_installation L (w_random w 0)) (\<lambda>dev. Inr (installation_id dev))
            else Inr oid)) (\<lambda>k.
       account_post w ''/api/client/v1/licence-claims'' (claim_body key k) True (owned_licence_of L)
         (\<lambda>l. rbind (check_licence l) (\<lambda>_. Inr l)))))"

definition claim_licence_with_id :: "libs \<Rightarrow> world \<Rightarrow> string \<Rightarrow> string \<Rightarrow> owned_licence act" where
  "claim_licence_with_id L w key oid =
     abind (demand Configuration (valid_operation_id oid)) (\<lambda>_. claim_licence L w key oid)"

definition request_email_change :: "libs \<Rightarrow> world \<Rightarrow> string \<Rightarrow> string \<Rightarrow> bool act" where
  "request_email_change L w password email =
     abind (demand Configuration (\<not> (length password > 256 \<or> length email > 254))) (\<lambda>_.
       account_post w ''/api/client/v1/email-changes''
         (JObj [(''password'', JStr password), (''email'', JStr email)]) False (de_accepted L) accepted)"

definition public_post :: "world \<Rightarrow> string \<Rightarrow> json \<Rightarrow> json option result act" where
  "public_post w path body =
     abind (gets (\<lambda>c. account_body (cl_config c) body)) (\<lambda>b. post w 0 path b False)"

definition register :: "libs \<Rightarrow> world \<Rightarrow> registration \<Rightarrow> pending_registration act" where
  "register L w input =
     abind (demand Configuration (\<not> (some_and (\<lambda>k. k = [] \<or> length k > 256) (rg_licence_key input)
        \<or> length (rg_username input) > 128
        \<or> length (rg_email input) > 254
        \<or> length (rg_password input) > 256
        \<or> char_count (rg_password input) < 8))) (\<lambda>_.
     abind (public_post w ''/api/client/v1/registrations'' (registration_body input)) (\<lambda>r.
     abind (of_result (decode (\<lambda>v. Option.bind (de_registration L v) (\<lambda>d.
        Option.bind (deserialize_time L (rd_expires_at d)) (\<lambda>t. Some (d, t)))) r)) (\<lambda>(d, t).
     abind (demand InvalidResponse (\<not> (\<not> rd_accepted d \<or> \<not> bearer (rd_resend_credential d)))) (\<lambda>_.
     abind (gets cl_config) (\<lambda>cfg.
       ret \<lparr>pr_accepted = rd_accepted d, pr_expires_at = t, pr_resend_credential = rd_resend_credential d,
         pr_application_id = cfg_application_id cfg, pr_environment_id = cfg_environment_id cfg\<rparr>)))))"

definition resend_registration :: "libs \<Rightarrow> world \<Rightarrow> pending_registration \<Rightarrow> unit act" where
  "resend_registration L w pend =
     abind (gets cl_config) (\<lambda>cfg.
     abind (demand Configuration (\<not> (pr_application_id pend \<noteq> cfg_application_id cfg
        \<or> pr_environment_id pend \<noteq> cfg_environment_id cfg))) (\<lambda>_.
     abind (public_post w ''/api/client/v1/registrations/resend''
        (JObj [(''resend_credential'', JStr (pr_resend_credential pend))])) (\<lambda>r.
     abind (of_result (rbind (decode (de_accepted L) r) accepted)) (\<lambda>_. ret ()))))"

definition request_password_recovery :: "libs \<Rightarrow> world \<Rightarrow> string \<Rightarrow> unit act" where
  "request_password_recovery L w email =
     abind (demand Configuration (\<not> length email > 254)) (\<lambda>_.
     abind (public_post w ''/api/client/v1/password-recovery'' (JObj [(''email'', JStr email)])) (\<lambda>r.
     abind (of_result (rbind (decode (de_accepted L) r) accepted)) (\<lambda>_. ret ())))"

end
