(* ===== verification/Opened.thy ===== *)
theory Opened
  imports Authority Lifecycle Accounts
begin

text \<open>
  What opening, importing and closing guarantee: an opened client is authentic, an import keeps
  it so and can be resumed after a restart, and a closed client grants nothing.
\<close>

subsection \<open>Imports\<close>

lemma weakens_closing [simp]: "weakens s (closing_state s)"
  by (auto simp: weakens_def closing_state_def)

lemma frame_abandon_pending [frame_intro]: "keeps (authentic L T K) (modify abandon_pending)"
  by (rule keeps_authentic_modify)
    (auto simp: authentic_state_def abandon_pending_def none_or_iff offline_backed_def)

lemma raise_wall_simps [simp]:
  "or_anchor (raise_wall w rt) = or_anchor rt" "or_verified (raise_wall w rt) = or_verified rt"
  "or_authorized (raise_wall w rt) = or_authorized rt"
  by (simp_all add: raise_wall_def)

lemma imported_runtime_simps [simp]:
  "or_anchor (imported_runtime v a saved i) = Some a" "or_verified (imported_runtime v a saved i) = Some v"
  "or_authorized (imported_runtime v a saved i)" "or_saved (imported_runtime v a saved i) = saved"
  by (simp_all add: imported_runtime_def)

lemma frame_mark_uncertain [frame_intro]: "keeps (authentic L T K) (modify (mark_uncertain b))"
proof (rule keeps_authentic_modify)
  fix s assume "authentic_state L T K s"
  then show "authentic_state L T K (mark_uncertain b s)"
    by (auto simp: authentic_state_def mark_uncertain_def none_or_iff intro: offline_backed_update)
qed

lemma triple_import_time:
  "triple (authentic L T K) (import_time w p wall_now) (\<lambda>_. True)"
  unfolding import_time_def Let_def by (intro keeps_triple keeps_intro frame_intro)

lemma frame_abandon [frame_intro]: "keeps (authentic L T K) (abandon_import w e)"
  unfolding abandon_import_def by (intro keeps_intro frame_intro)

lemma offline_backed_raise: "offline_backed L K rt \<Longrightarrow> offline_backed L K (raise_wall w rt)"
  by (auto simp: raise_wall_def intro: offline_backed_update)

lemma triple_fails: "keeps P m \<Longrightarrow> (\<And>c x. snd (m c) \<noteq> Inr x) \<Longrightarrow> triple P m Q"
  by (simp add: triple_def keeps_def)

lemma abandon_fails: "snd (abandon_import w e c) \<noteq> Inr x"
proof
  assume "snd (abandon_import w e c) = Inr x"
  then obtain c' where "abandon_import w e c = (c', Inr x)" by (metis prod.collapse)
  then obtain c1 and r :: "nat result" where "(case r of Inl _ \<Rightarrow> fail StorageError
      | Inr v \<Rightarrow> abind (set_version v) (\<lambda>_. fail e)) c1 = (c', Inr x)"
    unfolding abandon_import_def abind_Inr_iff by blast
  then show False by (cases r) (auto simp: abind_Inr_iff act_Inr_iff)
qed

lemma triple_abandon: "triple (authentic L T K) (abandon_import w e) Q"
  by (rule triple_fails[OF frame_abandon abandon_fails])

lemma triple_run_imported:
  assumes b: "offline_backed L K (imported_runtime v a saved (instant (w_tick w 10)))"
  shows "triple (authentic L T K) (run_imported w v a saved) (justified L T K)"
proof -
  let ?rt = "imported_runtime v a saved (instant (w_tick w 10))"
  have grants: "justified L T K (offline_snapshot (raise_wall cw ?rt) (Some now))"
    if now: "now_with_wall a (w_tick w 11) = Inr (now, cw)"
      and mark: "saturating_add cw 30 \<ge> pf_wall_high_water saved" for now cw
  proof -
    have "cw \<le> saturating_add cw 30" if "i64 cw"
      using that by (simp add: saturating_add_def saturate_def i64_defs)
    moreover have "i64 cw" using now wall_i64 by (auto simp: now_with_wall_Inr_iff)
    ultimately have "wall_consistent (raise_wall cw ?rt) cw"
      using mark by (simp add: wall_consistent_def raise_wall_def)
    then have "offline_now (raise_wall cw ?rt) (w_tick w 11) = Some now"
      using now by (simp add: offline_now_def)
    then show ?thesis
      using offline_backed_raise[OF b] by (intro justified_offline[where t = "w_tick w 11"]) simp_all
  qed
  have install: "keeps (authentic L T K) (modify (set_offline (raise_wall cw ?rt)))" for cw
    by (rule keeps_authentic_modify)
      (use offline_backed_raise[OF b] in \<open>simp add: authentic_state_def set_offline_def\<close>)
  show ?thesis
    unfolding run_imported_def Let_def
    by (intro triple_case_sum triple_case_prod triple_if triple_abandon triple_abind_keeps install
        triple_ret grants) auto
qed

lemma offline_backed_imported:
  assumes "verify_offline L file ks key dev now n = Inr v" "K = (cfg, dev, Some key, Some ks)"
  shows "offline_backed L K (imported_runtime v (anchor_from_request
    (pf_time_high_water (imported_file file v now w p)) started) saved i)"
  using assms by (force simp: offline_backed_def imported_runtime_def anchor_from_request_def
      imported_file_def)

lemma triple_import_locked:
  assumes w: "trusted_world L T K w" and K: "K = (cfg, dev, Some key, Some ks)"
  shows "triple (authentic L T K) (import_locked L w file ks key) (justified L T K)"
  unfolding import_locked_def
proof (intro triple_abind_keeps[of _ "on_disk _"] triple_abind_result triple_abind_gets
    triple_abind[OF triple_import_time] triple_abind_demand frame_intro
    triple_abind_keeps[of _ "check_cancelled _ _"])
  fix previous started now c v
  assume "authentic L T K c"
    and "verify_offline L file ks key (cl_device c) now (old_sequence previous) = Inr v"
  then have "verify_offline L file ks key dev now (old_sequence previous) = Inr v"
    using K by (simp add: authentic_def env_of_def)
  from offline_backed_imported[OF this K]
  show "triple (authentic L T K) (store_imported w file v now started previous) (justified L T K)"
    unfolding store_imported_def Let_def
    by (intro triple_abind_keeps[of _ "check_cancelled _ _"] triple_abind_keeps[of _ "gets _"]
        triple_abind_keeps[of _ "on_disk _"] triple_abind_keeps[of _ "modify _"]
        triple_abind_keeps[of _ "set_version _"] triple_if triple_abandon triple_run_imported
        frame_intro keeps_intro) simp_all
qed

lemma triple_import_for_generation:
  assumes w: "trusted_world L T K w"
  shows "triple (authentic L T K) (import_offline_file_for_generation L w file g) (justified L T K)"
  unfolding import_offline_file_for_generation_def
proof (intro triple_abind_keeps[of _ "check_cancelled _ _"] triple_abind_gets triple_case_prod
    triple_abind_demand triple_abind_result triple_abind_keeps[of _ "serialize _ _"]
    triple_abind_keeps[of _ "check_generation _ _ _"] triple_abind_keeps[of _ "lock _ _"]
    triple_abind_keeps[of _ "sync_storage _"] triple_abind_keeps[of _ "same_generation _"]
    frame_intro authentic_lock w)
  fix c inst oks okey ks key rest
  assume "authentic L T K c" "(installed c, cl_offline_keys c, cl_app_key c) = (inst, rest)"
    "rest = (oks, okey)" "ok_or Configuration oks = Inr ks" "ok_or Configuration okey = Inr key"
  then have "K = (cl_config c, cl_device c, Some key, Some ks)"
    by (auto simp: authentic_def env_of_def ok_or_iff)
  then show "triple (authentic L T K) (import_locked L w file ks key) (justified L T K)"
    by (rule triple_import_locked[OF w])
qed

lemma triple_import:
  assumes w: "trusted_world L T K w"
  shows "triple (authentic L T K) (import_offline_file L w file) (justified L T K)"
  unfolding import_offline_file_def
  by (intro triple_abind_keeps triple_import_for_generation frame_intro w)

subsection \<open>The rest of the life\<close>

lemma frame_resolve_pending:
  "trusted_world L T K w \<Longrightarrow> keeps (authentic L T K) (resolve_pending_activation w)"
  unfolding resolve_pending_activation_def
  by (intro keeps_intro frame_intro authentic_lock)

lemma frame_checkpoint_state [frame_intro]: "keeps (authentic L T K) (checkpoint_state force io)"
  unfolding checkpoint_state_def by (intro keeps_intro frame_intro)

lemma frame_worker:
  assumes w: "trusted_world L T K w"
  shows "keeps (authentic L T K) (worker_turn L w)"
proof -
  have "keeps (authentic L T K) (refresh_if_needed L (sub w 10))"
    unfolding refresh_if_needed_def by (intro triple_keeps[OF triple_refresh] trusted_sub w)
  then show ?thesis
    unfolding worker_turn_def
    by (intro keeps_intro frame_intro authentic_lock frame_maintain trusted_sub w)
qed

lemma frame_close_storage [frame_intro]: "keeps (authentic L T K) close_storage"
  by (auto simp: keeps_def close_storage_def authentic_def env_of_def split: store.split)

lemma frame_close:
  assumes w: "trusted_world L T K w"
  shows "keeps (authentic L T K) (close_client w)"
proof -
  have "keeps (authentic L T K) (close_installed w)"
    unfolding close_installed_def
    by (intro keeps_intro frame_intro frame_weaken authentic_lock w) simp
  moreover have "keeps (authentic L T K) (\<lambda>c. (c\<lparr>cl_closed := True\<rparr>, Inr ()))"
    by (auto simp: keeps_def authentic_def env_of_def)
  ultimately show ?thesis
    unfolding close_client_def
    by (intro keeps_intro frame_intro authentic_lock w)
qed


subsection \<open>Opening\<close>

lemma new_client_Inr:
  "new_client cfg dev storage t v cred b = Inr c \<Longrightarrow>
     cl_config c = cfg \<and> cl_device c = dev \<and> cl_keys c = no_keys \<and> cl_session_keys c = None
     \<and> cl_state c = fresh_state v cred"
  by (auto simp: new_client_def rbind_Inr_iff)

lemma fresh_state_simps [simp]:
  "st_claims (fresh_state v c) = None" "st_session (fresh_state v c) = None"
  "st_anchor (fresh_state v c) = None" "st_credential (fresh_state v c) = c"
  by (simp_all add: fresh_state_def)

text \<open>The disk an installation is opened on holds a valid record.\<close>

definition good_disk :: "disk \<Rightarrow> bool" where
  "good_disk d \<longleftrightarrow> none_or (\<lambda>f. pf_verified_at f \<le> pf_time_high_water f) (r_offline (dk_record d))"

lemma valid_record_good:
  "\<not> record_invalid prov scope key r \<Longrightarrow> none_or (\<lambda>f. pf_verified_at f \<le> pf_time_high_water f) (r_offline r)"
  by (auto simp: record_invalid_def none_or_iff invalid_offline_def)

lemma existing_record_good:
  "existing_record L prov scope key has_keys binding rnd r = Inr (r', b) \<Longrightarrow>
     none_or (\<lambda>f. pf_verified_at f \<le> pf_time_high_water f) (r_offline r')"
  by (auto simp: existing_record_def rbind_Inr_iff validate_def ensure_iff
      rebound_record_def dest: valid_record_good split: if_splits)

lemma open_storage_good:
  assumes "open_storage L de prov key binding orig has_keys rnd file io = Inr d"
  shows "good_disk d"
proof -
  from assms obtain fresh r b bytes where
    found: "found_record L de prov key binding has_keys fresh (io_random io) bytes = Inr (r, b)"
    and fresh: "r_offline fresh = None"
    and d: "(if b then commit_opened io r (opened_disk r bytes (instant (io_tick io)))
      else Inr (opened_disk r bytes (instant (io_tick io)))) = Inr d"
    by (auto simp: open_storage_def rbind_Inr_iff Let_def new_record_def fresh_record_def)
  have "none_or (\<lambda>f. pf_verified_at f \<le> pf_time_high_water f) (r_offline r)"
    using found fresh
    by (auto simp: found_record_def rbind_Inr_iff existing_record_good split: option.splits)
  then show ?thesis
    using d by (auto simp: good_disk_def opened_disk_def commit_opened_def dest!: commit_Inr
        split: if_splits prod.splits sum.splits)
qed

lemma restored_time_Inr:
  assumes "restored_time c w = Inr now"
  shows "ca_wall_high_water c \<le> w" "ca_server_high_water c \<le> now"
    "ca_received_server_time c + (w - ca_received_wall_time c) \<le> now"
    "ca_received_server_time c \<le> now" "valid_time now"
    "now = max (ca_received_server_time c + (w - ca_received_wall_time c)) (ca_server_high_water c)"
  using assms by (auto simp: restored_time_def Let_def rbind_Inr_iff ensure_iff ok_or_iff
      checked_add_iff checked_sub_iff)

text \<open>Every key set a document can describe is in \<open>T\<close>: what an opened client holds before it has
  spoken to the service is only as trustworthy as its disk.\<close>

definition trusts_documents :: "libs \<Rightarrow> (keys \<Rightarrow> bool) \<Rightarrow> bool" where
  "trusts_documents L T \<longleftrightarrow> T no_keys \<and> (\<forall>v ks. keys_parse L v = Inr ks \<longrightarrow> T ks)"

lemma restore_backed:
  assumes "restore L f p io d = (d', Inr (Some (cl, a, ks)))"
    and K: "K = (record_config (dk_record d), dev, rest)"
      "installation_id dev = installation_id (r_installation (dk_record d))"
    and T: "trusts_documents L T"
  shows "T ks" "grant_backed L T K cl a"
proof -
  from assms(1) obtain c where r: "restore_access L io (dk_record d) c = Inr (Some (cl, a, ks))"
    by (auto simp: restore_def Let_def elim!: checked_run_cases split: if_splits option.splits)
  then obtain s w now v where s: "record_saved (dk_record d) = Some s"
    and now: "restored_time c w = Inr now" and ks: "keys_parse L v = Inr ks"
    and cl: "verify_grant L ks (ca_jws c) (restore_expected (dk_record d) s c) = Inr cl"
    and a: "an_server a = now"
    by (auto simp: restore_access_def rbind_Inr_iff ok_or_iff anchor_restored_def split: if_splits)
  show "T ks" using ks T by (auto simp: trusts_documents_def)
  have "ca_received_server_time c \<le> an_server a" using restored_time_Inr(4)[OF now] a by simp
  with \<open>T ks\<close> cl s K show "grant_backed L T K cl a"
    by (force simp: grant_backed_def restore_expected_def record_saved_def record_config_def)
qed

lemma restore_offline_backed:
  assumes "restore_offline L key dev oks io d = (d', Inr off)" "good_disk d"
    and K: "K = (cfg, dev, Some key, oks)"
  shows "none_or (offline_backed L K) off"
proof (cases off)
  case (Some rt)
  with assms(1) obtain saved where saved: "r_offline (dk_record d) = Some saved"
    and r: "resume_offline L key dev oks (io_tick io) saved = Inr (Some rt)"
    by (auto simp: restore_offline_def elim!: checked_run_cases split: option.splits)
  show ?thesis
  proof (cases "pf_jws saved")
    case None
    with r have "\<not> or_authorized rt" by (auto simp: resume_offline_def)
    with Some show ?thesis by (simp add: offline_backed_def)
  next
    case (Some jws)
    with r obtain ks v a w where ks: "oks = Some ks"
      and v: "verify_offline L jws ks key dev (pf_verified_at saved) (pf_sequence saved) = Inr v"
      and a: "anchor_restored (io_tick io) (max (pf_time_high_water saved) w) w = Inr a"
      and rt: "rt = resumed_runtime v a w saved (instant (io_tick io))"
      by (auto simp: resume_offline_def rbind_Inr_iff ok_or_iff map_err_iff)
    have "pf_verified_at saved \<le> pf_time_high_water saved"
      using assms(2) saved by (simp add: good_disk_def)
    then have "pf_verified_at saved \<le> an_server a"
      using a by (auto simp: anchor_restored_def rbind_Inr_iff)
    then show ?thesis
      using \<open>off = Some rt\<close> K ks v rt by (force simp: offline_backed_def resumed_runtime_def)
  qed
qed simp


text \<open>The operations that open a client only read the record.\<close>

lemma reads_record:
  "identity io d = (d', r1) \<Longrightarrow> dk_record d' = dk_record d"
  "restore_offline L key dev oks io d = (d', r2) \<Longrightarrow> dk_record d' = dk_record d"
  "installed_load io d = (d', r3) \<Longrightarrow> dk_record d' = dk_record d"
  by (auto simp: identity_def restore_offline_def installed_load_def elim!: checked_run_cases
      split: option.splits)

lemma identity_Inr:
  "identity io d = (d', Inr (cfg, dev)) \<Longrightarrow>
     cfg = record_config (dk_record d) \<and> dev = record_device (dk_record d)"
  by (auto simp: identity_def elim!: checked_run_cases)

lemma resume_authentic:
  assumes "resume_access L w binding c d = (d', Inr c')" "authentic L T K c"
    and "st_claims (cl_state c) = None"
    and K: "K = (record_config (dk_record d), dev, rest)"
      "installation_id dev = installation_id (r_installation (dk_record d))"
    and T: "trusts_documents L T"
  shows "authentic L T K c' \<and> env_of c' = env_of c"
proof -
  obtain d1 r where r: "restore L (fst binding) (snd binding) (w_io w 4) d = (d1, r)"
    by (cases "restore L (fst binding) (snd binding) (w_io w 4) d")
  consider (err) e where "r = Inl e" | (none) "r = Inr None" | (some) cl a ks where "r = Inr (Some (cl, a, ks))"
    by (cases r) (auto, metis not_None_eq prod_cases3)
  then show ?thesis
  proof cases
    case err
    with assms r show ?thesis
      by (auto simp: resume_access_def authentic_def authentic_state_def env_of_def
          split: prod.splits sum.splits)
  next
    case none
    with assms r show ?thesis by (auto simp: resume_access_def)
  next
    case (some cl a ks)
    with r have "restore L (fst binding) (snd binding) (w_io w 4) d = (d1, Inr (Some (cl, a, ks)))" by simp
    note backed = restore_backed[OF this K T]
    have "c' = c\<lparr>cl_keys := ks, cl_state := restored_state cl a (cl_state c)\<rparr>"
      using some assms(1) r by (simp add: resume_access_def)
    then show ?thesis
      using assms(2) backed by (simp add: authentic_def authentic_state_def env_of_def restored_state_def)
  qed
qed

lemma client_on_disk_authentic:
  assumes c: "client_on_disk L w key binding oks version d = (d', Inr c)" and d: "good_disk d"
    and T: "trusts_documents L T"
  shows "authentic L T (env_of c) c"
proof -
  let ?r = "dk_record d"
  from c obtain d1 cfg dev0 where i: "identity (w_io w 1) d = (d1, Inr (cfg, dev0))"
    and rest: "(let dev = dev0\<lparr>fingerprint := fst binding, fingerprint_provider := snd binding\<rparr> in
     disk_bind (restore_offline L key dev oks (w_io w 2)) (\<lambda>offline.
     disk_bind (installed_load (w_io w 3)) (\<lambda>(stored_version, credential) d.
     lift (new_client cfg dev (InstalledStore d) (w_tick w 3) stored_version credential True)
       (\<lambda>c. resume_access L w binding (configure_client key oks version offline c)) d))) d1 = (d', Inr c)"
    by (auto simp: client_on_disk_def disk_bind_Inr)
  define dev where "dev = dev0\<lparr>fingerprint := fst binding, fingerprint_provider := snd binding\<rparr>"
  have r1: "dk_record d1 = ?r" using i by (rule reads_record)
  from rest obtain d2 off where o: "restore_offline L key dev oks (w_io w 2) d1 = (d2, Inr off)"
    and rest: "disk_bind (installed_load (w_io w 3)) (\<lambda>(stored_version, credential) d.
     lift (new_client cfg dev (InstalledStore d) (w_tick w 3) stored_version credential True)
       (\<lambda>c. resume_access L w binding (configure_client key oks version off c)) d) d2 = (d', Inr c)"
    by (auto simp: disk_bind_Inr Let_def dev_def)
  have r2: "dk_record d2 = ?r" using o r1 by (simp add: reads_record)
  from rest obtain d3 v cred c0 where l: "installed_load (w_io w 3) d2 = (d3, Inr (v, cred))"
    and n: "new_client cfg dev (InstalledStore d3) (w_tick w 3) v cred True = Inr c0"
    and m: "resume_access L w binding (configure_client key oks version off c0) d3 = (d', Inr c)"
    by (auto simp: disk_bind_Inr lift_Inr_iff)
  have r3: "dk_record d3 = ?r" using l r2 by (simp add: reads_record)
  define K where "K = (cfg, dev, Some key, oks)"
  have id: "cfg = record_config ?r" "installation_id dev = installation_id (r_installation ?r)"
    using identity_Inr[OF i] by (simp_all add: dev_def record_device_def)
  have "good_disk d1" using d r1 by (simp add: good_disk_def)
  then have "none_or (offline_backed L K) off" by (rule restore_offline_backed[OF o]) (rule K_def)
  then have "authentic L T K (configure_client key oks version off c0)"
    using new_client_Inr[OF n] T
    by (simp add: authentic_def authentic_state_def env_of_def K_def trusts_documents_def configure_client_def)
  moreover have "st_claims (cl_state (configure_client key oks version off c0)) = None"
    using new_client_Inr[OF n] by simp
  ultimately have "authentic L T K c \<and> env_of c = env_of (configure_client key oks version off c0)"
    using id r3 T 
    by (intro resume_authentic[OF m, where dev = dev and rest = "(Some key, oks)"]) (simp_all add: K_def)
  moreover have "env_of (configure_client key oks version off c0) = K"
    using new_client_Inr[OF n] by (simp add: env_of_def K_def)
  ultimately show ?thesis by simp
qed

lemma open_installed_Inr:
  assumes "open_installed L de prov w key binding orig version offline_bytes file = Inr c"
  obtains ver oks d d' c' where
    "open_storage L de prov key binding orig (oks \<noteq> None) (w_random w 0) file (w_io w 0) = Inr d"
    "client_on_disk L w key binding oks ver d = (d', Inr c')"
    "c = c'\<lparr>cl_storage := InstalledStore d'\<rparr>"
proof -
  from assms obtain ver oks d where
    d: "open_storage L de prov key binding orig (oks \<noteq> None) (w_random w 0) file (w_io w 0) = Inr d"
    and r: "(case client_on_disk L w key binding oks ver d of
       (_, Inl e) \<Rightarrow> Inl e
     | (d', Inr c) \<Rightarrow> Inr (c\<lparr>cl_storage := InstalledStore d'\<rparr>)) = Inr c"
    unfolding open_installed_def rbind_Inr_iff by blast
  obtain d' x where x: "client_on_disk L w key binding oks ver d = (d', x)"
    by (cases "client_on_disk L w key binding oks ver d")
  with r obtain c' where "x = Inr c'" "c = c'\<lparr>cl_storage := InstalledStore d'\<rparr>"
    by (cases x) auto
  with d x show thesis by (intro that) simp_all
qed

lemma open_installed_authentic:
  assumes "open_installed L de prov w key binding orig version offline_bytes file = Inr c"
    and T: "trusts_documents L T"
  shows "authentic L T (env_of c) c"
proof -
  from open_installed_Inr[OF assms(1)] obtain ver oks d d' c' where
    d: "open_storage L de prov key binding orig (oks \<noteq> None) (w_random w 0) file (w_io w 0) = Inr d"
    and c': "client_on_disk L w key binding oks ver d = (d', Inr c')"
    and c: "c = c'\<lparr>cl_storage := InstalledStore d'\<rparr>" .
  have "authentic L T (env_of c') c'"
    by (rule client_on_disk_authentic[OF c' open_storage_good[OF d] T])
  then show ?thesis by (simp add: c authentic_def env_of_def)
qed

subsection \<open>Runs\<close>

datatype call =
    CallSnapshot | CallLogout | CallActivate principal "string option" string
  | CallDeactivate string | CallRefresh | CallStartSession | CallEndSession
  | CallRenew "64 word" | CallMaintain | CallWorker | CallOpenRefresh | CallRequire string
  | CallEnsure string "string option" | CallImport string | CallResolve | CallClose
  | CallDrop io | CallGuardDrop stored_credential string "64 word"
  | CallLogin string string | CallLogoutAccount | CallAccount | CallProof
  | CallOwned "string option" | CallClaim string string | CallEmailChange string string
  | CallRegister registration | CallResend pending_registration | CallRecovery string
  | CallService string json

text \<open>The client after a call; what the call returned is left out.\<close>

fun run_call :: "libs \<Rightarrow> world \<Rightarrow> call \<Rightarrow> client \<Rightarrow> client" where
  "run_call L w CallSnapshot c = fst (snapshot_of w c)"
| "run_call L w CallLogout c = fst (logout w c)"
| "run_call L w (CallActivate who previous key) c = fst (activate_as L w who previous key c)"
| "run_call L w (CallDeactivate requested) c = fst (deactivate L w requested c)"
| "run_call L w CallRefresh c = fst (refresh_with_cancel L w c)"
| "run_call L w CallStartSession c = fst (start_session_with_cancel L w c)"
| "run_call L w CallEndSession c = fst (end_session L w c)"
| "run_call L w (CallRenew g) c = fst (renew_session L w g c)"
| "run_call L w CallMaintain c = fst (maintain_session L w c)"
| "run_call L w CallWorker c = fst (worker_turn L w c)"
| "run_call L w CallOpenRefresh c = fst (open_refresh L w c)"
| "run_call L w (CallRequire feature) c = fst (require_access L w feature c)"
| "run_call L w (CallEnsure feature key) c = fst (ensure_access L w feature key c)"
| "run_call L w (CallImport file) c = fst (import_offline_file L w file c)"
| "run_call L w CallResolve c = fst (resolve_pending_activation w c)"
| "run_call L w CallClose c = fst (close_client w c)"
| "run_call L w (CallDrop io) c = fst (drop_client io c)"
| "run_call L w (CallGuardDrop saved sid g) c = fst (guard_drop w 0 saved sid g c)"
| "run_call L w (CallLogin username password) c = fst (login L w username password c)"
| "run_call L w CallLogoutAccount c = fst (logout_account w c)"
| "run_call L w CallAccount c = fst (account_now w c)"
| "run_call L w CallProof c = fst (customer_session_proof w c)"
| "run_call L w (CallOwned after) c = fst (owned_licences L w after c)"
| "run_call L w (CallClaim key oid) c = fst (claim_licence L w key oid c)"
| "run_call L w (CallEmailChange password email) c = fst (request_email_change L w password email c)"
| "run_call L w (CallRegister input) c = fst (register L w input c)"
| "run_call L w (CallResend pend) c = fst (resend_registration L w pend c)"
| "run_call L w (CallRecovery email) c = fst (request_password_recovery L w email c)"
| "run_call L w (CallService suffix extra) c = fst (online_service w suffix extra c)"

inductive client_run :: "libs \<Rightarrow> (keys \<Rightarrow> bool) \<Rightarrow> env \<Rightarrow> client \<Rightarrow> client \<Rightarrow> bool" for L T K where
  start: "client_run L T K c c"
| call: "client_run L T K c c1 \<Longrightarrow> trusted_world L T K w \<Longrightarrow>
    client_run L T K c (run_call L w call c1)"

lemma frame_snapshot_of: "trusted_world L T K w \<Longrightarrow> keeps (authentic L T K) (snapshot_of w)"
  unfolding snapshot_of_def
  by (intro keeps_intro frame_intro authentic_lock triple_keeps[OF triple_checked_snapshot])

lemma frame_open_refresh:
  assumes w: "trusted_world L T K w" shows "keeps (authentic L T K) (open_refresh L w)"
proof -
  have "keeps (authentic L T K) (refresh_with_cancel L (sub w 100))"
    unfolding refresh_with_cancel_def by (intro triple_keeps[OF triple_refresh] trusted_sub w)
  moreover have "keeps (authentic L T K) (close_client (sub w 1000))"
    by (rule frame_close[OF trusted_sub[OF w]])
  ultimately show ?thesis unfolding open_refresh_def by (intro keeps_intro frame_intro)
qed

lemma frame_drop_client: "keeps (authentic L T K) (drop_client io)"
  unfolding drop_client_def by (intro keeps_intro frame_intro)

lemma keeps_fst: "keeps P m \<Longrightarrow> P c \<Longrightarrow> P (fst (m c))"
  by (simp add: keeps_def)

lemma frame_post [frame_intro]: "keeps (authentic L T K) (post w k path body safe)"
  by (rule keeps_post) simp

lemma frame_bearer [frame_intro]:
  "keeps (authentic L T K) (account_get w k path token)" "keeps (authentic L T K) (account_delete w k path token)"
  unfolding account_get_def account_delete_def by (intro keeps_intro keeps_sent, simp)+

lemma frame_set_account [frame_intro]: "keeps (authentic L T K) (modify (set_account a))"
  by (rule frame_weaken) (simp add: weakens_def set_account_def)

lemma frame_drop_authority [frame_intro]: "keeps (authentic L T K) (drop_authority w k)"
  unfolding drop_authority_def by (intro keeps_intro frame_intro)

lemma frame_finish [frame_intro]:
  "trusted_world L T K w \<Longrightarrow> keeps (authentic L T K) (finish_account w k g r)"
  unfolding finish_account_def by (intro keeps_intro frame_intro authentic_lock)

lemma frame_customer_session [frame_intro]:
  "trusted_world L T K w \<Longrightarrow> keeps (authentic L T K) (customer_session w k g)"
  unfolding customer_session_def by (intro keeps_intro frame_intro authentic_lock)

lemma frame_account_post [frame_intro]:
  "trusted_world L T K w \<Longrightarrow> keeps (authentic L T K) (account_post w path body safe de check)"
  unfolding account_post_def serialize_def by (intro keeps_intro frame_intro authentic_lock)

lemma frame_public_post [frame_intro]: "keeps (authentic L T K) (public_post w path body)"
  unfolding public_post_def by (intro keeps_intro frame_intro)

lemma frame_login: "trusted_world L T K w \<Longrightarrow> keeps (authentic L T K) (login L w username password)"
  unfolding login_def begin_login_def install_login_def serialize_def Let_def
  by (intro keeps_intro frame_intro authentic_lock)

lemma frame_account_calls:
  "trusted_world L T K w \<Longrightarrow> keeps (authentic L T K) (logout_account w)"
  "trusted_world L T K w \<Longrightarrow> keeps (authentic L T K) (account_now w)"
  "trusted_world L T K w \<Longrightarrow> keeps (authentic L T K) (customer_session_proof w)"
  "trusted_world L T K w \<Longrightarrow> keeps (authentic L T K) (owned_licences L w after)"
  "trusted_world L T K w \<Longrightarrow> keeps (authentic L T K) (claim_licence L w key oid)"
  "trusted_world L T K w \<Longrightarrow> keeps (authentic L T K) (request_email_change L w password email)"
  unfolding logout_account_def account_now_def customer_session_proof_def owned_licences_def
    claim_licence_def request_email_change_def serialize_def
  by (intro keeps_intro frame_intro authentic_lock; assumption)+

lemma frame_public_calls:
  "keeps (authentic L T K) (register L w input)"
  "keeps (authentic L T K) (resend_registration L w pend)"
  "keeps (authentic L T K) (request_password_recovery L w email)"
  unfolding register_def resend_registration_def request_password_recovery_def
  by (intro keeps_intro frame_intro)+

lemma frame_online_service:
  "trusted_world L T K w \<Longrightarrow> keeps (authentic L T K) (online_service w suffix extra)"
  unfolding online_service_def service_request_def service_section_def
  by (intro keeps_intro frame_intro authentic_lock)

lemma run_call_authentic:
  assumes w: "trusted_world L T K w" and c: "authentic L T K c"
  shows "authentic L T K (run_call L w call c)"
proof -
  note snaps = frame_snapshot_of triple_keeps[OF triple_activate_as] triple_keeps[OF triple_refresh]
    triple_keeps[OF triple_start_with_cancel] triple_keeps[OF triple_renew_session]
    triple_keeps[OF triple_require_access] triple_keeps[OF triple_ensure_access]
    triple_keeps[OF triple_import]
  note units = frame_logout frame_deactivate frame_end_session frame_maintain frame_worker
    frame_open_refresh frame_resolve_pending frame_close frame_drop_client frame_guard_drop
  note calls = snaps[THEN keeps_fst] units[THEN keeps_fst] frame_login[THEN keeps_fst]
    frame_account_calls[THEN keeps_fst] frame_public_calls[THEN keeps_fst] frame_online_service[THEN keeps_fst]
  show ?thesis
    by (cases call) (simp_all add: refresh_with_cancel_def w c calls)
qed

lemma client_run_authentic:
  "client_run L T K c c' \<Longrightarrow> authentic L T K c \<Longrightarrow> authentic L T K c'"
  by (induction rule: client_run.induct) (auto intro: run_call_authentic)


subsection \<open>An imported file survives a restart\<close>

text \<open>A file that was just verified is resumed, by the same installation with the same keys, at
  any later time its marks are consistent with.\<close>

lemma resume_imported:
  assumes v: "verify_offline L file ks key dev now n = Inr v"
    and t: "elapsed_clock t = Inr e" "wall t = Inr w'"
  shows "\<exists>rt. resume_offline L key dev (Some ks) t (imported_file file v now w p) = Inr (Some rt)
    \<and> or_authorized rt \<and> or_verified rt = Some v \<and> or_saved rt = imported_file file v now w p
    \<and> (\<exists>a. or_anchor rt = Some a \<and> now \<le> an_server a \<and> w' \<le> an_server a)"
proof -
  let ?saved = "imported_file file v now w p"
  note facts = verify_offline_facts[OF v]
  have again: "verify_offline L file ks key dev now (vf_sequence v) = Inr v"
    by (rule verify_offline_later[OF v]) (use facts in auto)
  have "saturating_sub (vf_issued_at v) 30 \<le> now"
  proof -
    have "i64 (vf_issued_at v - 30)"
      using facts(2,3,6) by (auto simp: i64_defs MAX_TIME_def)
    then show ?thesis using facts(4) by (simp add: saturating_sub_def)
  qed
  then have ok: "\<not> offline_mismatch v ?saved"
    using facts(1) by (simp add: offline_mismatch_def imported_file_def)
  obtain a where a: "anchor_restored t (max (pf_time_high_water ?saved) w') w' = Inr a"
    "an_server a = max (pf_time_high_water ?saved) w'"
    using t(1) by (auto simp: anchor_restored_def)
  have "resume_offline L key dev (Some ks) t ?saved = Inr (Some (resumed_runtime v a w' ?saved (instant t)))"
    using again ok a(1) t(2) by (simp add: resume_offline_def imported_file_def)
  moreover have "now \<le> an_server a" "w' \<le> an_server a"
    using a(2) by (simp_all add: imported_file_def)
  ultimately show ?thesis by (simp add: resumed_runtime_def)
qed

lemma save_offline_Inr:
  assumes "save_offline version f io d = (d', Inr g)"
  shows "dk_record d' = with_format (offline_saved_record f g (dk_record d))"
    "g = r_generation (dk_record d) + 1" "r_generation (dk_record d) = version"
    "\<exists>bytes. dk_backend d' = Some (Some bytes) \<and> io_encode io (dk_record d') = Some bytes"
proof -
  from assms have "lift (next_generation (dk_record d))
      (\<lambda>g. commit_with io (offline_saved_record f g (dk_record d)) g) d = (d', Inr g)"
    and v: "r_generation (dk_record d) = version"
    unfolding save_offline_def Let_def
    by (auto elim!: checked_run_cases split: if_splits)
  then obtain h where h: "next_generation (dk_record d) = Inr h"
    and c: "commit_with io (offline_saved_record f h (dk_record d)) h d = (d', Inr g)"
    by (auto simp: lift_Inr_iff)
  note w = commit_with_Inr[OF c]
  then have "g = h" "commit io (offline_saved_record f h (dk_record d)) d = (d', Inr ())" by auto
  note k = commit_Inr[OF this(2)]
  show "dk_record d' = with_format (offline_saved_record f g (dk_record d))"
    using k \<open>g = h\<close> by simp
  show "g = r_generation (dk_record d) + 1" using h \<open>g = h\<close> by (simp add: next_generation_Inr)
  show "r_generation (dk_record d) = version" by (rule v)
  show "\<exists>bytes. dk_backend d' = Some (Some bytes) \<and> io_encode io (dk_record d') = Some bytes"
    using k by auto
qed

lemma run_imported_Inr:
  assumes "run_imported w v a saved c = (c', Inr snap)"
  shows "cl_storage c' = cl_storage c" "\<exists>rt. st_offline (cl_state c') = Some rt \<and> or_authorized rt
    \<and> or_verified rt = Some v \<and> or_anchor rt = Some a"
proof -
  have no: "abandon_import w e c \<noteq> (c', Inr snap)" for e
    using abandon_fails[of w e c snap] by (metis snd_conv)
  from assms no obtain cw where
    "c' = c\<lparr>cl_state := set_offline (raise_wall cw (imported_runtime v a saved (instant (w_tick w 10)))) (cl_state c)\<rparr>"
    by (auto simp: run_imported_def Let_def abind_Inr_iff act_Inr_iff split: sum.splits prod.splits if_splits)
  then show "cl_storage c' = cl_storage c" "\<exists>rt. st_offline (cl_state c') = Some rt \<and> or_authorized rt
    \<and> or_verified rt = Some v \<and> or_anchor rt = Some a"
    by (simp_all add: set_offline_def)
qed

lemma import_locked_Inr:
  assumes "import_locked L w file ks key c = (c', Inr snap)"
  obtains d v now n wall_now p where "cl_storage c' = InstalledStore d"
    "verify_offline L file ks key (cl_device c) now n = Inr v"
    "r_offline (dk_record d) = Some (imported_file file v now wall_now p)"
    "r_credential (dk_record d) = None" "r_access (dk_record d) = None"
    "r_pending_activation (dk_record d) = None"
    "\<exists>rt. st_offline (cl_state c') = Some rt \<and> or_authorized rt \<and> or_verified rt = Some v"
proof -
  from assms obtain p c1 started now c2 v n where
    p: "on_disk (offline_state (w_io w 5)) c = (c1, Inr p)"
    and now: "import_time w p (start_wall started) c1 = (c2, Inr now)"
    and v: "verify_offline L file ks key (cl_device c2) now n = Inr v"
    and s: "store_imported w file v now started p c2 = (c', Inr snap)"
    by (auto simp: import_locked_def abind_Inr_iff act_Inr_iff check_cancelled_def)
  have dev1: "cl_device c1 = cl_device c"
    using p by (auto simp: on_disk_def split: store.splits prod.splits)
  have dev2: "cl_device c2 = cl_device c1"
    using now by (auto simp: import_time_def Let_def abind_Inr_iff act_Inr_iff
        split: option.splits sum.splits prod.splits if_splits)
  let ?saved = "imported_file file v now (start_wall started) p"
  from s obtain c3 version' where
    save: "on_disk (save_offline (st_storage_version (cl_state c2)) ?saved (w_io w 8)) c2 = (c3, Inr version')"
    and rest: "abind (modify clear) (\<lambda>_. abind (set_version version') (\<lambda>_.
        if w_cancelled w 8 then abandon_import w Cancelled
        else run_imported w v (anchor_from_request (pf_time_high_water ?saved) started) ?saved)) c3 = (c', Inr snap)"
    by (auto simp: store_imported_def Let_def abind_Inr_iff act_Inr_iff check_cancelled_def)
  from save obtain d0 d where d: "cl_storage c3 = InstalledStore d"
    and sv: "save_offline (st_storage_version (cl_state c2)) ?saved (w_io w 8) d0 = (d, Inr version')"
    by (auto simp: on_disk_def split: store.splits prod.splits)
  define c4 where "c4 = c3\<lparr>cl_state := (clear (cl_state c3))\<lparr>st_storage_version := version'\<rparr>\<rparr>"
  have c4: "cl_storage c4 = cl_storage c3" by (simp add: c4_def)
  from rest have last: "(if w_cancelled w 8 then abandon_import w Cancelled
        else run_imported w v (anchor_from_request (pf_time_high_water ?saved) started) ?saved) c4
      = (c', Inr snap)"
    by (simp add: abind_Inr_iff act_Inr_iff set_version_def c4_def)
  have "\<not> w_cancelled w 8"
  proof
    assume "w_cancelled w 8"
    with last have "abandon_import w Cancelled c4 = (c', Inr snap)" by simp
    then have "snd (abandon_import w Cancelled c4) = Inr snap" by simp
    then show False by (simp only: abandon_fails)
  qed
  with last have run: "run_imported w v (anchor_from_request (pf_time_high_water ?saved) started) ?saved c4
      = (c', Inr snap)" by simp
  note r = run_imported_Inr[OF run]
  note k = save_offline_Inr(1)[OF sv]
  show thesis
  proof (rule that)
    show "cl_storage c' = InstalledStore d" using r(1) c4 d by simp
    show "verify_offline L file ks key (cl_device c) now n = Inr v" using v dev1 dev2 by simp
    show "r_offline (dk_record d) = Some ?saved" "r_credential (dk_record d) = None"
      "r_access (dk_record d) = None" "r_pending_activation (dk_record d) = None"
      using k by (simp_all add: offline_saved_record_def)
    show "\<exists>rt. st_offline (cl_state c') = Some rt \<and> or_authorized rt \<and> or_verified rt = Some v"
      using r(2) by blast
  qed
qed

end
