(* ===== verification/Samples.thy ===== *)
theory Samples
  imports Opened
begin

text \<open>
  Concrete inputs at which the properties with hypotheses are applied: an instance of the
  third-party functions, an app key, a device, clock readings, a disk.
\<close>

definition sample_url :: url where
  "sample_url = \<lparr>url_scheme = ''https'', url_host = Some ''o.eu'', url_username = [],
     url_password = None, url_path = ''/'', url_query = None, url_pairs = [], url_fragment = None,
     url_origin = ''https://o.eu''\<rparr>"

definition sample_libs :: libs where
  "sample_libs =
     \<lparr>b64_decode = Some, b64_encode = id, sha256 = (\<lambda>_. replicate 32 CHR ''a''),
      parse_json = (\<lambda>_. Some (JObj [])), rfc3339 = (\<lambda>_. Some (1000, 0, True)),
      utf8 = (\<lambda>_. True), url_parse = (\<lambda>_. Some sample_url), url_join = (\<lambda>u _. Some u),
      de_header = (\<lambda>_. None), de_jwks = (\<lambda>_. None), de_jwks_bytes = (\<lambda>_. None),
      to_jwks = (\<lambda>_. None), to_bytes = (\<lambda>_. Some []), de_reply = (\<lambda>_. None),
      de_offline = (\<lambda>_. None),
      de_login = (\<lambda>_. None), de_licence = (\<lambda>_. None), de_page = (\<lambda>_. None),
      de_registration = (\<lambda>_. None), de_accepted = (\<lambda>_. None), ec_agree = (\<lambda>_. True), ec_components = (\<lambda>_ _. True),
      jwt_grant = (\<lambda>_ _ _. None), jwt_session = (\<lambda>_ _ _. None),
      jwt_offline = (\<lambda>_ _ _. None), jwt_ticket = (\<lambda>_ _ _. None)\<rparr>"

definition sample_key :: app_key where
  "sample_key = \<lparr>api_origin = ''https://o.eu'', application_id = ''app'',
     environment_id = ''env'', app_env = Live\<rparr>"

definition sample_device :: device where
  "sample_device = \<lparr>installation_id = replicate 16 CHR ''i'', fingerprint = None,
     fingerprint_provider = None\<rparr>"

definition sample_tick :: tick where
  "sample_tick = \<lparr>tv_sec = 100, tv_nsec = 0, unix_secs = Some 5000, instant = 0\<rparr>"

definition sample_io :: io where
  "sample_io = \<lparr>io_tick = sample_tick, io_tick2 = sample_tick,
     io_random = Some (replicate 32 CHR ''r''), io_verify = True, io_reverify = True,
     io_encode = (\<lambda>_. Some ''record''), io_write = WriteOk, io_instant = 0\<rparr>"

definition sample_record :: disk_record where
  "sample_record = fresh_record ''private_file'' (scope_of sample_key ''https://o.eu'') sample_device"

definition sample_disk :: disk where
  "sample_disk = \<lparr>dk_record = sample_record, dk_backend = Some None, dk_poisoned = False,
     dk_checkpoint = 0\<rparr>"

lemmas sample_defs = sample_libs_def sample_key_def sample_device_def sample_tick_def
  sample_io_def sample_record_def sample_disk_def sample_url_def

lemma sample_sha [simp]: "length (sha256 sample_libs s) = 32"
  by (simp add: sample_libs_def)

lemma list_all_replicate_iff [simp]: "list_all p (replicate n x) \<longleftrightarrow> n = 0 \<or> p x"
  by (cases n) (auto simp: list_all_iff)

lemma sample_record_valid:
  "\<not> record_invalid ''private_file'' (scope_of sample_key ''https://o.eu'') sample_key sample_record"
  by (simp add: record_valid_iff sample_defs fresh_record_def scope_of_def good_frame_def
      good_device_def good_credential_def good_parts_def valid_configuration_def record_config_def
      record_device_def opaque_def text_defs byte_def issuer_def)

lemma sample_io_sound: "sound_io sample_libs sample_io"
  by (simp add: sound_io_def sample_defs wall_def checked_i64_def i64_defs MAX_TIME_def
      valid_operation_id_def byte_def eval_nat_numeral)


subsection \<open>A client with a verified grant\<close>

definition sample_config :: config where
  "sample_config = \<lparr>cfg_application_id = ''app'', cfg_environment_id = ''env'',
     cfg_issuer = ''https://o.eu''\<rparr>"

definition sample_claims :: grant_claims where
  "sample_claims =
     \<lparr>gc_iss = ''https://o.eu'', gc_aud = ''orbit:app:env'', gc_sub = ''licence'', gc_jti = ''j'',
      gc_iat = 1000, gc_nbf = 1000, gc_exp = 1300, gc_application_id = ''app'',
      gc_environment_id = ''env'', gc_activation_id = ''act'',
      gc_installation_id = replicate 16 CHR ''i'', gc_binding_mode = ''none'',
      gc_fingerprint = None, gc_fingerprint_provider = None, gc_policy_version = 1,
      gc_entitlements = [(''pro'', True)], gc_refresh_after = 1060, gc_offline_allowed = False,
      gc_licence_expires_at = None\<rparr>"

definition sample_token :: string where
  "sample_token = ''h.p.'' @ replicate 64 CHR ''s''"

text \<open>An instance that accepts one token, under one key.\<close>

definition online_libs :: libs where
  "online_libs = sample_libs
     \<lparr>de_header := (\<lambda>_. Some \<lparr>h_alg = ''ES256'', h_typ = ''orbit-access+jwt'', h_kid = ''live-k''\<rparr>),
      jwt_grant := (\<lambda>token key v. if token = sample_token \<and> key = (''x'', ''y'') then Some sample_claims else None)\<rparr>"

definition sample_keys :: keys where
  "sample_keys = \<lparr>decoding = [''live-k'' \<mapsto> (''x'', ''y'')],
     public = [''live-k'' \<mapsto> \<lparr>kty = ''EC'', crv = ''P-256'', k_alg = ''ES256'', purpose = ''sig'',
       kid = ''live-k'', k_x = ''x'', k_y = ''y''\<rparr>]\<rparr>"

definition sample_expected :: expected where
  "sample_expected =
     \<lparr>ex_issuer = ''https://o.eu'', ex_application = ''app'', ex_environment = ''env'',
      ex_licence = None, ex_activation = ''act'', ex_installation = replicate 16 CHR ''i'',
      ex_fingerprint = None, ex_fingerprint_provider = None, ex_allow_unbound_fingerprint = True,
      ex_credential_expires_at = None, ex_licence_expires_at = None, ex_now = 1000\<rparr>"

definition sample_anchor :: anchor where
  "sample_anchor = \<lparr>an_server = 1000, an_elapsed = 100000000000, an_wall = 5000\<rparr>"

definition quiet_world :: world where
  "quiet_world =
     \<lparr>w_tick = (\<lambda>_. sample_tick), w_io = (\<lambda>_. sample_io), w_random = (\<lambda>_. Some ''random-bytes-0123''),
      w_cancelled = (\<lambda>_. False), w_others = (\<lambda>_ c. c),
      w_post = (\<lambda>_ _ _ _. Inl (Transient None None)), w_get = (\<lambda>_ _. Inr None),
      w_bearer = (\<lambda>_ _ _ _. Inr None)\<rparr>"

definition online_client :: client where
  "online_client =
     \<lparr>cl_config = sample_config, cl_app_key = Some sample_key, cl_device = sample_device,
      cl_storage = InstalledStore sample_disk,
      cl_state = (fresh_state 0 None)\<lparr>st_claims := Some sample_claims, st_anchor := Some sample_anchor\<rparr>,
      cl_keys = sample_keys, cl_session_keys = None, cl_offline_keys = None, cl_app_version = None,
      cl_closed = False, cl_sent = []\<rparr>"

lemmas online_defs = sample_config_def sample_claims_def sample_token_def online_libs_def
  sample_keys_def sample_expected_def sample_anchor_def quiet_world_def online_client_def

lemma sample_header:
  "header online_libs sample_token =
     Inr \<lparr>h_alg = ''ES256'', h_typ = ''orbit-access+jwt'', h_kid = ''live-k''\<rparr>"
proof -
  have "split_on CHR ''.'' sample_token = [''h'', ''p'', replicate 64 CHR ''s'']"
    unfolding sample_token_def by (simp add: split_on_id)
  then have parts: "three_parts CHR ''.'' sample_token = Some (''h'', ''p'', replicate 64 CHR ''s'')"
    by (simp add: three_parts_iff)
  have "length sample_token = 68" by (simp add: sample_token_def)
  then show ?thesis
    by (simp add: header_def parts MAX_TOKEN_def online_libs_def sample_libs_def canonical_def)
qed

lemma sample_grant: "verify_grant online_libs sample_keys sample_token sample_expected = Inr sample_claims"
proof -
  have parts: "three_parts CHR ''.'' sample_token = Some (''h'', ''p'', replicate 64 CHR ''s'')"
    unfolding sample_token_def by (simp add: three_parts_iff split_on_id)
  have key: "decoding sample_keys ''live-k'' = Some (''x'', ''y'')" by (simp add: sample_keys_def)
  have dec: "decode_grant online_libs sample_token (''x'', ''y'') v = Some sample_claims" for v
    by (simp add: decode_grant_def online_libs_def sample_claims_def bad_entitlement_key_def
        text_defs byte_def)
  have unbound: "check_unbound online_libs sample_token sample_claims = Inr ()"
    by (simp add: check_unbound_def parts online_libs_def sample_libs_def canonical_def
        from_slice_value_def contains_key_def sample_claims_def)
  have "\<not> grant_rejected sample_claims sample_expected (grant_audience sample_expected)"
    by (simp add: grant_rejected_def sample_claims_def sample_expected_def grant_audience_def
        grant_bound_def grant_allowance_def grant_refresh_bounds_def saturating_add_def
        saturating_sub_def saturate_def i64_defs)
  then show ?thesis
    by (simp add: verify_grant_def sample_header key dec unbound)
qed

lemma sample_anchor_now: "anchor_now sample_anchor sample_tick = Inr 1000"
  by (simp add: anchor_now_def now_with_wall_def sample_anchor_def sample_tick_def elapsed_clock_def
      wall_def checked_i64_def checked_add_def i64_defs abs_diff_def as_secs_def)


lemma online_backed:
  "grant_backed online_libs (\<lambda>ks. ks = sample_keys) (env_of online_client) sample_claims sample_anchor"
proof -
  have "ex_now sample_expected \<le> an_server sample_anchor"
    by (simp add: sample_expected_def sample_anchor_def)
  moreover have "ex_issuer sample_expected = cfg_issuer sample_config"
    "ex_application sample_expected = cfg_application_id sample_config"
    "ex_environment sample_expected = cfg_environment_id sample_config"
    "ex_installation sample_expected = installation_id sample_device"
    by (simp_all add: sample_expected_def sample_config_def sample_device_def)
  moreover have "env_of online_client = (sample_config, sample_device, Some sample_key, None)"
    by (simp add: env_of_def online_client_def)
  ultimately show ?thesis using sample_grant by (auto simp: grant_backed_def)
qed

lemma online_authentic:
  "authentic online_libs (\<lambda>ks. ks = sample_keys) (env_of online_client) online_client"
  using online_backed
  by (simp add: authentic_def authentic_state_def online_client_def fresh_state_def)

lemma quiet_trusted: "trusted_world L T K quiet_world"
  by (simp add: trusted_world_def quiet_world_def)

lemmas action_defs = abind_def lock_def sync_storage_def gets_def ret_def fail_def try_act_def
  modify_def demand_def check_cancelled_def of_result_def on_store_def store_version_def

lemma sample_disk_check [simp]: "disk_check True sample_disk = (sample_disk, Inr ())"
  by (simp add: disk_check_def sample_disk_def)

lemma online_snapshot:
  "snapshot_state_at (cl_state online_client) (Some 1000) = Inr
     \<lparr>ss_access = Online, ss_entitlements = [(''pro'', True)], ss_expires_at = Some 1300,
      ss_next_check_at = Some 1060, ss_credential_expires_at = None,
      ss_reauthentication_required = False, ss_offline_allowed = False, ss_offline_file_mode = False,
      ss_remaining_offline = 0, ss_session = None, ss_update_available = None\<rparr>"
  by (simp add: snapshot_state_at_def online_client_def fresh_state_def claims_snapshot_def
      from_unix_seconds_def checked_i64_def i64_defs sample_claims_def describe_claims_def
      claims_access_def grant_claimed_def)

lemma online_sync: "sync_storage sample_io online_client = (online_client, Inr ())"
  by (simp add: action_defs online_client_def installed_version_def checked_def sample_io_def
      fresh_state_def) (simp add: sample_disk_def sample_record_def fresh_record_def)

lemma online_look:
  "checked_snapshot_locked sample_tick io online_client
   = (online_client, snapshot_state_at (cl_state online_client) (Some 1000))"
proof -
  have s: "st_session_required (cl_state online_client) = False"
    "authorized_offline (cl_state online_client) = None"
    "st_anchor (cl_state online_client) = Some sample_anchor"
    by (simp_all add: online_client_def fresh_state_def authorized_offline_def)
  show ?thesis
    by (simp add: checked_snapshot_locked_def abind_def gets_def s sample_anchor_now of_result_def)
qed

lemma online_access:
  "\<exists>snap. require_access L quiet_world ''pro'' online_client = (online_client, Inr snap)"
proof -
  have q: "w_others quiet_world k c = c" "w_io quiet_world k = sample_io"
    "w_cancelled quiet_world k = False" "w_tick quiet_world k = sample_tick" for k c
    by (simp_all add: quiet_world_def)
  have look: "first_look quiet_world online_client = (online_client,
      map_sum (\<lambda>e. e) (\<lambda>s. (s, False, False)) (snapshot_state_at (cl_state online_client) (Some 1000)))"
    by (simp add: first_look_def abind_def lock_def q online_sync check_cancelled_def demand_def
        online_look gets_def ret_def online_snapshot)
      (simp add: online_client_def fresh_state_def)
  show ?thesis
    by (simp add: require_access_def abind_def look online_snapshot ret_def of_result_def
        require_feature_def has_feature_def)
qed


subsection \<open>Opening on an empty directory\<close>

definition empty_disk :: disk where
  "empty_disk = \<lparr>dk_record = with_format (new_record ''private_file'' sample_key (None, None) ''https://o.eu''
       \<lparr>installation_id = ''random-bytes-0123'', fingerprint = None, fingerprint_provider = None\<rparr>),
     dk_backend = Some (Some ''record''), dk_poisoned = False, dk_checkpoint = 0\<rparr>"

lemma sample_open_storage:
  "open_storage sample_libs de ''private_file'' sample_key (None, None) ''https://o.eu'' b
     (Some ''random-bytes-0123'') (Inr None) sample_io = Inr empty_disk"
  by (simp add: open_storage_def new_installation_def sample_libs_def new_record_def
      fresh_record_def scope_of_def valid_configuration_def record_config_def record_device_def
      opaque_def text_defs byte_def sample_key_def issuer_def found_record_def commit_opened_def
      commit_def opened_disk_def disk_check_def sample_io_def MAX_BYTES_def sample_tick_def
      empty_disk_def)

lemma empty_check [simp]: "disk_check True empty_disk = (empty_disk, Inr ())"
  by (simp add: disk_check_def empty_disk_def)

lemma sample_client_on_disk:
  "\<exists>c. client_on_disk L quiet_world sample_key (None, None) None None empty_disk = (empty_disk, Inr c)"
proof -
  have io: "io_verify sample_io" by (simp add: sample_io_def)
  have q: "w_io quiet_world k = sample_io" "w_tick quiet_world k = sample_tick" for k
    by (simp_all add: quiet_world_def)
  have "valid_configuration (record_config (dk_record empty_disk)) (record_device (dk_record empty_disk))"
    by (simp add: empty_disk_def with_format_def new_record_def fresh_record_def valid_configuration_def
        record_config_def record_device_def scope_of_def sample_key_def issuer_def opaque_def text_defs byte_def)
  moreover have "r_offline (dk_record empty_disk) = None" "r_access (dk_record empty_disk) = None"
    "record_saved (dk_record empty_disk) = None"
    "fingerprint (r_installation (dk_record empty_disk)) = None"
    "fingerprint_provider (r_installation (dk_record empty_disk)) = None"
    by (simp_all add: empty_disk_def new_record_def fresh_record_def record_saved_def)
  moreover have "elapsed_clock sample_tick = Inr 100000000000"
    by (simp add: elapsed_clock_def sample_tick_def)
  ultimately show ?thesis
    by (simp add: client_on_disk_def disk_bind_def identity_def checked_def q io restore_offline_def
        installed_load_def new_client_def resume_access_def restore_def record_device_def Let_def)
qed

lemma sample_opens:
  "\<exists>c. open_installed sample_libs de ''private_file'' quiet_world sample_key (None, None)
     ''https://o.eu'' None None (Inr None) = Inr c"
proof -
  have q: "w_io quiet_world 0 = sample_io" "w_tick quiet_world 0 = sample_tick"
    "w_random quiet_world 0 = Some ''random-bytes-0123''"
    by (simp_all add: quiet_world_def)
  obtain c where "client_on_disk sample_libs quiet_world sample_key (None, None) None None empty_disk = (empty_disk, Inr c)"
    using sample_client_on_disk by blast
  moreover have "elapsed_clock sample_tick = Inr 100000000000"
    by (simp add: elapsed_clock_def sample_tick_def)
  ultimately show ?thesis
    by (simp add: open_installed_def q configured_def sample_open_storage)
qed

end
