(* ===== verification/FileSamples.thy ===== *)
theory FileSamples
  imports Samples
begin

text \<open>
  More concrete inputs: a session grant and an offline file that verify, and the runtimes that
  hold them.
\<close>

subsection \<open>An offline file\<close>

definition file_claims :: offline_claims where
  "file_claims =
     \<lparr>oc_ver = 1, oc_iss = ''https://o.eu'', oc_aud = ''orbit-offline:app:env'', oc_sub = ''licence'',
      oc_jti = ''issue'', oc_iat = 5000, oc_nbf = 5000, oc_exp = 9000, oc_application_id = ''app'',
      oc_environment_id = ''env'', oc_activation_id = ''act'',
      oc_installation_id = replicate 16 CHR ''i'', oc_sequence = 1, oc_binding_mode = ''none'',
      oc_fingerprint = None, oc_fingerprint_provider = None, oc_policy_version = 1,
      oc_entitlements = [(''pro'', True)], oc_licence_expires_at = None\<rparr>"

text \<open>An instance that accepts every file that is signed with one key.\<close>

definition file_libs :: libs where
  "file_libs = sample_libs
     \<lparr>de_header := (\<lambda>_. Some \<lparr>h_alg = ''ES256'', h_typ = ''orbit-offline+jwt'', h_kid = ''offline-live-k''\<rparr>),
      de_offline := (\<lambda>_. Some file_claims),
      jwt_offline := (\<lambda>_ _ _. Some file_claims)\<rparr>"

definition file_keys :: keys where
  "file_keys = \<lparr>decoding = [''offline-live-k'' \<mapsto> (''x'', ''y'')], public = Map.empty\<rparr>"

definition file_verified :: verified where
  "file_verified = verified_of file_libs file_claims []"

lemma file_verified_simps [simp]:
  "vf_expires_at file_verified = 9000" "vf_issued_at file_verified = 5000"
  "vf_sequence file_verified = 1" "vf_issuance_id file_verified = ''issue''"
  "vf_entitlements file_verified = [(''pro'', True)]"
  by (simp_all add: file_verified_def verified_of_def file_claims_def)

lemma file_header_ok:
  "\<not> bad_offline_header (kid_prefix (environment sample_key))
     \<lparr>h_alg = ''ES256'', h_typ = ''orbit-offline+jwt'', h_kid = ''offline-live-k''\<rparr>"
  by (simp add: bad_offline_header_def kid_prefix_def environment_def sample_key_def text_defs byte_def starts_with_def)

lemma file_accepted: "5000 \<le> now \<Longrightarrow> now < 9000 \<Longrightarrow> n \<le> 1 \<Longrightarrow>
   \<not> offline_rejected file_claims sample_key sample_device now n True"
  by (simp add: offline_rejected_def file_claims_def sample_key_def sample_device_def issuer_def
      offline_audience_def opaque_between_def text_defs byte_def MAX_SEQUENCE_def MAX_TIME_def
      MAX_LIFETIME_def saturating_add_def saturate_def i64_defs)

lemma file_trim: "trim_matches offline_whitespace sample_token = sample_token"
  by (simp add: trim_matches_def offline_whitespace_def sample_token_def)

lemma file_verifies:
  assumes "5000 \<le> now" "now < 9000" "n \<le> 1"
  shows "verify_offline file_libs sample_token file_keys sample_key sample_device now n = Inr file_verified"
proof -
  have parts: "three_parts CHR ''.'' sample_token = Some (''h'', ''p'', replicate 64 CHR ''s'')"
    unfolding sample_token_def by (simp add: three_parts_iff split_on_id)
  have len: "sample_token \<noteq> []" "length sample_token \<le> MAX_TOKEN"
    by (simp_all add: sample_token_def MAX_TOKEN_def)
  have key: "decoding file_keys ''offline-live-k'' = Some (''x'', ''y'')" by (simp add: file_keys_def)
  have ents: "offline_entitlements [] (oc_entitlements file_claims) = Some [(''pro'', True)]"
    by (simp add: file_claims_def bad_entitlement_key_def text_defs byte_def)
  have dec: "decode_offline file_libs ''p'' = Some file_claims"
    using ents by (simp add: decode_offline_def file_libs_def) (simp add: file_claims_def)
  have canon: "canonical file_libs v = Inr v" for v
    by (simp add: canonical_def file_libs_def sample_libs_def)
  have libs: "utf8 file_libs v" "from_slice_value file_libs v = Some (JObj [])"
    "to_bytes file_libs j = Some []"
    "de_header file_libs v = Some \<lparr>h_alg = ''ES256'', h_typ = ''orbit-offline+jwt'', h_kid = ''offline-live-k''\<rparr>"
    "jwt_offline file_libs v k opt = Some file_claims" for v j k opt
    by (simp_all add: file_libs_def sample_libs_def from_slice_value_def)
  have bound: "offline_bound file_claims [] sample_device = True"
    by (simp add: offline_bound_def file_claims_def contains_key_def)
  show ?thesis
    using len
    by (simp add: verify_offline_def file_trim parts canon libs file_header_ok dec bound key ents
        file_accepted[OF assms] file_verified_def)
qed

subsection \<open>A session grant\<close>

definition seat_claims :: session_claims where
  "seat_claims =
     \<lparr>sn_iss = ''https://o.eu'', sn_aud = ''orbit-session:app:env'', sn_sub = ''licence'', sn_jti = ''j'',
      sn_iat = 1000, sn_nbf = 1000, sn_exp = 1120, sn_application_id = ''app'',
      sn_environment_id = ''env'', sn_activation_id = ''act'',
      sn_installation_id = replicate 16 CHR ''i'', sn_binding_mode = ''none'',
      sn_fingerprint = None, sn_fingerprint_provider = None, sn_policy_version = 1,
      sn_entitlements = [(''pro'', True)], sn_refresh_after = 1060, sn_offline_allowed = False,
      sn_licence_expires_at = None, sn_session_id = replicate 16 CHR ''s'', sn_session_sequence = 1\<rparr>"

definition seat_libs :: libs where
  "seat_libs = sample_libs
     \<lparr>de_header := (\<lambda>_. Some \<lparr>h_alg = ''ES256'', h_typ = ''orbit-session+jwt'', h_kid = ''live-k''\<rparr>),
      jwt_session := (\<lambda>_ _ _. Some seat_claims)\<rparr>"

definition seat_expected :: session_expected where
  "seat_expected =
     \<lparr>se_issuer = ''https://o.eu'', se_application = ''app'', se_environment = ''env'',
      se_licence = None, se_activation = ''act'', se_installation = replicate 16 CHR ''i'',
      se_fingerprint = None, se_fingerprint_provider = None, se_allow_unbound_fingerprint = True,
      se_credential_expires_at = None, se_licence_expires_at = None, se_now = 1000,
      se_session_id = replicate 16 CHR ''s'', se_sequence = 1\<rparr>"

lemma seat_verifies:
  "verify_session seat_libs sample_keys sample_token seat_expected = Inr (session_of_claims seat_claims)"
proof -
  have parts: "three_parts CHR ''.'' sample_token = Some (''h'', ''p'', replicate 64 CHR ''s'')"
    unfolding sample_token_def by (simp add: three_parts_iff split_on_id)
  have key: "decoding sample_keys ''live-k'' = Some (''x'', ''y'')" by (simp add: sample_keys_def)
  have dec: "decode_session seat_libs sample_token k v = Some seat_claims" for k v
    by (simp add: decode_session_def seat_libs_def seat_claims_def bad_entitlement_key_def
        text_defs byte_def)
  have canon: "canonical seat_libs v = Inr v" for v
    by (simp add: canonical_def seat_libs_def sample_libs_def)
  have libs: "from_slice_unique seat_libs v = Some (JObj [])"
    "de_header seat_libs v = Some \<lparr>h_alg = ''ES256'', h_typ = ''orbit-session+jwt'', h_kid = ''live-k''\<rparr>" for v
    by (simp_all add: seat_libs_def sample_libs_def from_slice_unique_def)
  have pre: "\<not> session_precheck sample_token seat_expected"
    by (simp add: session_precheck_def sample_token_def seat_expected_def MAX_TOKEN_def valid_time_def
        MAX_TIME_def MAX_SEQUENCE_def opaque_def text_defs byte_def)
  have rej: "\<not> session_rejected seat_claims seat_expected (session_audience seat_expected) True"
    by (simp add: session_rejected_def seat_claims_def seat_expected_def session_audience_def
        session_bound_def valid_time_def MAX_TIME_def saturating_add_def saturating_sub_def
        saturate_def i64_defs opaque_def text_defs byte_def)
  have kid: "opaque ''live-k''" by (simp add: opaque_def text_defs byte_def)
  show ?thesis
    by (simp add: verify_session_def pre parts canon libs dec key kid rej contains_key_def)
qed

end
