(* ===== verification/Bounds.thy ===== *)
theory Bounds
  imports FileSamples
begin

text \<open>
  How long authority lasts.  Each verifier bounds the life of what it accepts, an anchor carries
  the trusted time forward by the boot clock, and a snapshot grants nothing at or after the
  document's end: so access ends a fixed number of seconds of boot time after the verification,
  whatever is done to the wall clock.
\<close>

lemma result_ok_Some_iff: "result_ok r = Some x \<longleftrightarrow> r = Inr x"
  by (cases r) auto

lemma anchor_now_elapsed: "anchor_now a t = Inr n \<Longrightarrow> n = an_server a + elapsed_since a t"
  by (auto simp: anchor_now_Inr_iff now_with_wall_Inr_iff)

lemma grant_window: "verify_grant L ks token e = Inr cl \<Longrightarrow>
    gc_exp cl \<le> ex_now e + (if gc_offline_allowed cl then 86400 else 300) + 30"
  using verify_grant_times(4,6)[of L ks token e cl] by (simp add: grant_allowance_def split: if_splits)

lemma granting_claims:
  assumes "snapshot_state s t = Inr snap" "granting snap"
    and "\<not> st_session_required s" "authorized_offline s = None"
  obtains cl a n where "st_claims s = Some cl" "st_anchor s = Some a" "anchor_now a t = Inr n"
    "n < gc_exp cl" "ss_entitlements snap = gc_entitlements cl"
    "ss_access snap = Offline \<longrightarrow> gc_offline_allowed cl"
proof -
  from assms have "snapshot_state_at s (Option.bind (st_anchor s) (\<lambda>a. result_ok (anchor_now a t))) = Inr snap"
    by (simp add: snapshot_state_def)
  from snapshot_state_at_cases[OF this] assms(2) obtain cl n where
    cl: "st_claims s = Some cl" "n < gc_exp cl" "ss_entitlements snap = gc_entitlements cl"
      "ss_access snap = Offline \<longrightarrow> gc_offline_allowed cl"
    and n: "Option.bind (st_anchor s) (\<lambda>a. result_ok (anchor_now a t)) = Some n" by blast
  from n obtain a where "st_anchor s = Some a" "anchor_now a t = Inr n"
    by (auto simp: bind_eq_Some_conv result_ok_Some_iff)
  with cl show thesis by (intro that)
qed

text \<open>
  C10.  A grant lasts a day at most.  A state that holds a grant and the anchor it was verified
  with grants its entitlements for less than 24 hours and 30 seconds of boot time after the
  verification, and for less than 5 minutes and 30 seconds when the licence does not allow
  offline use; no setting of the wall clock extends that.
\<close>

theorem grant_access_is_bounded:
  assumes "verify_grant L ks token e = Inr cl" "anchor_now a t = Inr (ex_now e)"
    and "st_claims s = Some cl" "st_anchor s = Some a"
    and "\<not> st_session_required s" "authorized_offline s = None"
    and "snapshot_state s t' = Inr snap" "granting snap"
  shows "elapsed_since a t' < elapsed_since a t + (if gc_offline_allowed cl then 86400 else 300) + 30
    \<and> ss_entitlements snap = gc_entitlements cl"
proof -
  from granting_claims[OF assms(7,8,5,6)] assms(3,4) obtain n where
    n: "anchor_now a t' = Inr n" "n < gc_exp cl" "ss_entitlements snap = gc_entitlements cl" by auto
  from n(2) have "n < ex_now e + (if gc_offline_allowed cl then 86400 else 300) + 30"
    using grant_window[OF assms(1)] by (rule less_le_trans)
  with n anchor_now_elapsed[OF n(1)] anchor_now_elapsed[OF assms(2)] show ?thesis
    by (simp split: if_splits)
qed

theorem grant_access_is_bounded_witness:
  "\<exists>snap. snapshot_state (cl_state online_client) sample_tick = Inr snap
     \<and> elapsed_since sample_anchor sample_tick < elapsed_since sample_anchor sample_tick + 330
     \<and> ss_entitlements snap = gc_entitlements sample_claims"
proof -
  have s: "st_claims (cl_state online_client) = Some sample_claims"
    "st_anchor (cl_state online_client) = Some sample_anchor"
    "\<not> st_session_required (cl_state online_client)" "authorized_offline (cl_state online_client) = None"
    by (simp_all add: online_client_def fresh_state_def authorized_offline_def)
  have snap: "snapshot_state (cl_state online_client) sample_tick
      = snapshot_state_at (cl_state online_client) (Some 1000)"
    by (simp add: snapshot_state_def s sample_anchor_now)
  have t: "anchor_now sample_anchor sample_tick = Inr (ex_now sample_expected)"
    by (simp add: sample_anchor_now) (simp add: sample_expected_def)
  have "\<not> gc_offline_allowed sample_claims" by (simp add: sample_claims_def)
  with grant_access_is_bounded[OF sample_grant t s snap[unfolded online_snapshot]]
  show ?thesis by (simp add: snap online_snapshot granting_def)
qed

text \<open>
  C11.  A floating seat lasts two minutes.  A state that holds a session shows it as Online for
  less than 150 seconds of boot time after the session grant was verified, and never beyond the
  expiry of the licence.
\<close>

theorem session_access_is_bounded:
  assumes "verify_session L ks token e = Inr (sr_grant r)" "anchor_now (sr_anchor r) t = Inr (se_now e)"
    and "st_session s = Some r" "ss_access (session_snapshot s t') = Online"
  shows "elapsed_since (sr_anchor r) t' < elapsed_since (sr_anchor r) t + 150
    \<and> \<not> some_and (\<lambda>x. x \<le> an_server (sr_anchor r) + elapsed_since (sr_anchor r) t')
          (st_session_licence_expires_at s)
    \<and> ss_entitlements (session_snapshot s t') = sg_entitlements (sr_grant r)"
proof -
  have b: "base_access s \<noteq> Online" by (simp add: base_access_def)
  from assms(3,4) obtain n where n: "anchor_now (sr_anchor r) t' = Inr n" "n < sg_expires_at (sr_grant r)"
    "\<not> some_and (\<lambda>x. x \<le> n) (st_session_licence_expires_at s)"
    "ss_entitlements (session_snapshot s t') = sg_entitlements (sr_grant r)"
    using b by (auto simp: session_snapshot_def Let_def split: sum.splits if_splits)
  have "n < se_now e + 150" using n(2) session.check_bounded[OF assms(1)] by linarith
  with n anchor_now_elapsed[OF n(1)] anchor_now_elapsed[OF assms(2)] show ?thesis by simp
qed

theorem session_access_is_bounded_witness:
  "\<exists>r s. sr_grant r = session_of_claims seat_claims \<and> st_session s = Some r
     \<and> ss_access (session_snapshot s sample_tick) = Online
     \<and> elapsed_since sample_anchor sample_tick < elapsed_since sample_anchor sample_tick + 150
     \<and> ss_entitlements (session_snapshot s sample_tick) = [(''pro'', True)]"
proof -
  define r where "r = \<lparr>sr_metadata = \<lparr>sm_id = ''s'', sm_sequence = 1, sm_expires_at = 1120,
      sm_refresh_after = 1060\<rparr>, sr_grant = session_of_claims seat_claims, sr_anchor = sample_anchor,
      sr_pending_sequence = None\<rparr>"
  define s where "s = (fresh_state 0 None)\<lparr>st_session := Some r, st_session_required := True\<rparr>"
  have g: "sr_grant r = session_of_claims seat_claims" "sr_anchor r = sample_anchor"
    "st_session s = Some r" "sg_expires_at (session_of_claims seat_claims) = 1120"
    "st_session_licence_expires_at s = None"
    "sg_entitlements (session_of_claims seat_claims) = [(''pro'', True)]"
    by (simp_all add: r_def s_def fresh_state_def session_of_claims_def seat_claims_def)
  have on: "ss_access (session_snapshot s sample_tick) = Online"
    by (simp add: session_snapshot_def Let_def g sample_anchor_now)
  have t: "anchor_now (sr_anchor r) sample_tick = Inr (se_now seat_expected)"
    by (simp add: g sample_anchor_now) (simp add: seat_expected_def)
  from session_access_is_bounded[OF seat_verifies[folded g(1)] t g(3) on] g on show ?thesis by auto
qed

text \<open>
  C12.  An offline file ends, too.  A state that runs an imported file grants its entitlements for
  less than 366 days and 30 seconds of boot time after the import, and only while the wall
  clock reads at least the highest value saved with the file, less 30 seconds.
\<close>

theorem offline_access_is_bounded:
  assumes "verify_offline L raw ks key dev now n = Inr v"
    and "or_verified rt = Some v" "or_anchor rt = Some a" "now \<le> an_server a"
    and "authorized_offline s = Some rt" "\<not> st_session_required s"
    and "snapshot_state s t' = Inr snap" "granting snap"
  shows "elapsed_since a t' < 366 * 86400 + 30 \<and> ss_entitlements snap = vf_entitlements v
    \<and> (\<exists>w. wall t' = Inr w \<and> pf_wall_high_water (or_saved rt) \<le> saturating_add w 30)"
proof -
  have snap: "snap = offline_snapshot rt (offline_now rt t')"
    using assms(5-7) by (simp add: snapshot_state_def)
  with assms(2,8) obtain m where m: "offline_now rt t' = Some m" "m < vf_expires_at v"
    "ss_entitlements snap = vf_entitlements v"
    by (auto simp: offline_snapshot_def Let_def granting_def filter_opt_Some_iff
        split: option.splits if_splits)
  from m(1) assms(3) obtain w where w: "now_with_wall a t' = Inr (m, w)" "wall_consistent rt w"
    by (auto simp: offline_now_def split: sum.splits if_splits)
  have "vf_expires_at v \<le> now + (366 * 86400 + 30)"
    using verify_offline_facts(4,5)[OF assms(1)] by (simp add: MAX_LIFETIME_def)
  then show ?thesis
    using m w assms(4) by (auto simp: now_with_wall_Inr_iff wall_consistent_def)
qed

definition file_anchor :: anchor where
  "file_anchor = \<lparr>an_server = 5000, an_elapsed = 100000000000, an_wall = 5000\<rparr>"

definition file_runtime :: offline_runtime where
  "file_runtime = \<lparr>or_verified = Some file_verified, or_anchor = Some file_anchor,
     or_saved = \<lparr>pf_jws = Some sample_token, pf_sequence = 1, pf_issuance_id = ''issue'',
       pf_content_digest = vf_content_digest file_verified, pf_verified_at = 5000,
       pf_time_high_water = 5000, pf_wall_high_water = 5000\<rparr>,
     or_authorized = True, or_uncertain = False, or_last_checkpoint = 0\<rparr>"

lemma file_now: "now_with_wall file_anchor sample_tick = Inr (5000, 5000)"
  by (simp add: now_with_wall_def file_anchor_def sample_tick_def elapsed_clock_def wall_def
      checked_i64_def checked_add_def i64_defs abs_diff_def as_secs_def)

theorem offline_access_is_bounded_witness:
  "\<exists>snap. snapshot_state ((fresh_state 0 None)\<lparr>st_offline := Some file_runtime\<rparr>) sample_tick = Inr snap
     \<and> granting snap \<and> elapsed_since file_anchor sample_tick < 366 * 86400 + 30
     \<and> ss_entitlements snap = [(''pro'', True)]"
proof -
  let ?s = "(fresh_state 0 None)\<lparr>st_offline := Some file_runtime\<rparr>"
  have s: "authorized_offline ?s = Some file_runtime" "\<not> st_session_required ?s"
    by (simp_all add: authorized_offline_def file_runtime_def fresh_state_def)
  have rt: "or_verified file_runtime = Some file_verified" "or_anchor file_runtime = Some file_anchor"
    "5000 \<le> an_server file_anchor" by (simp_all add: file_runtime_def file_anchor_def)
  have now: "offline_now file_runtime sample_tick = Some 5000"
    by (simp add: offline_now_def rt file_now wall_consistent_def)
      (simp add: file_runtime_def saturating_add_def saturate_def i64_defs)
  obtain snap where snap: "snapshot_state ?s sample_tick = Inr snap" "granting snap"
    by (simp add: snapshot_state_def s now offline_snapshot_def rt granting_def)
      (simp add: file_runtime_def)
  have "verify_offline file_libs sample_token file_keys sample_key sample_device 5000 1 = Inr file_verified"
    by (rule file_verifies) simp_all
  from offline_access_is_bounded[OF this rt s snap] snap show ?thesis by auto
qed

end
