(* ===== verification/Decisions.thy ===== *)
theory Decisions
  imports Authority
begin

text \<open>
  What an access decision looks at.  The snapshot that \<open>require_access\<close> returns is the snapshot of
  the state it leaves, at one of the clock readings it takes; and what such a snapshot grants is
  listed in a verified document of that state that is still running at that very reading.
\<close>

subsection \<open>What a snapshot shows\<close>

text \<open>A snapshot that shows a state at a clock reading: \<open>snapshot_state\<close>, or \<open>session_snapshot\<close> of a
  state with a session.\<close>

definition shown :: "state \<Rightarrow> tick \<Rightarrow> snapshot \<Rightarrow> bool" where
  "shown s t snap \<longleftrightarrow> snapshot_state s t = Inr snap \<or> st_session s \<noteq> None \<and> snap = session_snapshot s t"

text \<open>The document of a state that a granting snapshot rests on, at the clock reading \<open>t\<close>: the session,
  the imported offline file or the grant that the state holds, verified under trusted keys for this
  application, and not expired at the trusted time that its own anchor gives for \<open>t\<close>.\<close>

definition session_supports :: "libs \<Rightarrow> (keys \<Rightarrow> bool) \<Rightarrow> env \<Rightarrow> state \<Rightarrow> tick \<Rightarrow> snapshot \<Rightarrow> bool" where
  "session_supports L T K s t snap \<longleftrightarrow> (\<exists>r now. st_session s = Some r \<and> session_backed L T K r
     \<and> anchor_now (sr_anchor r) t = Inr now \<and> now < sg_expires_at (sr_grant r)
     \<and> none_or (\<lambda>expiry. now < expiry) (st_session_licence_expires_at s)
     \<and> ss_access snap = Online \<and> ss_entitlements snap = sg_entitlements (sr_grant r))"

definition file_supports :: "libs \<Rightarrow> env \<Rightarrow> state \<Rightarrow> tick \<Rightarrow> snapshot \<Rightarrow> bool" where
  "file_supports L K s t snap \<longleftrightarrow> (\<exists>rt v a now w. st_offline s = Some rt \<and> or_authorized rt
     \<and> offline_backed L K rt \<and> or_verified rt = Some v \<and> or_anchor rt = Some a
     \<and> now_with_wall a t = Inr (now, w) \<and> now < vf_expires_at v
     \<and> pf_wall_high_water (or_saved rt) \<le> saturating_add w 30
     \<and> ss_access snap = Offline \<and> ss_entitlements snap = vf_entitlements v)"

definition grant_supports :: "libs \<Rightarrow> (keys \<Rightarrow> bool) \<Rightarrow> env \<Rightarrow> state \<Rightarrow> tick \<Rightarrow> snapshot \<Rightarrow> bool" where
  "grant_supports L T K s t snap \<longleftrightarrow> (\<exists>cl a now. st_claims s = Some cl \<and> st_anchor s = Some a
     \<and> grant_backed L T K cl a \<and> anchor_now a t = Inr now \<and> now < gc_exp cl
     \<and> (ss_access snap = Online \<and> now < gc_refresh_after cl
        \<or> ss_access snap = Offline \<and> gc_offline_allowed cl \<and> st_transient s)
     \<and> ss_entitlements snap = gc_entitlements cl)"

definition supported :: "libs \<Rightarrow> (keys \<Rightarrow> bool) \<Rightarrow> env \<Rightarrow> state \<Rightarrow> tick \<Rightarrow> snapshot \<Rightarrow> bool" where
  "supported L T K s t snap \<longleftrightarrow> session_supports L T K s t snap \<or> file_supports L K s t snap
     \<or> grant_supports L T K s t snap"

lemma supported_granting: "supported L T K s t snap \<Longrightarrow> granting snap"
  by (auto simp: supported_def session_supports_def file_supports_def grant_supports_def granting_def)

lemma session_snapshot_supported:
  assumes "authentic_state L T K s" "ss_entitlements (session_snapshot s t) \<noteq> [] \<or> granting (session_snapshot s t)"
  shows "session_supports L T K s t (session_snapshot s t)"
proof -
  from assms(2) obtain r now where r: "st_session s = Some r" "anchor_now (sr_anchor r) t = Inr now"
    "now < sg_expires_at (sr_grant r)" "\<not> some_and (\<lambda>x. x \<le> now) (st_session_licence_expires_at s)"
    "ss_access (session_snapshot s t) = Online"
    "ss_entitlements (session_snapshot s t) = sg_entitlements (sr_grant r)"
    by (auto simp: session_snapshot_def Let_def granting_def split: option.splits sum.splits if_splits)
  moreover have "session_backed L T K r" using assms(1) r(1) by (simp add: authentic_state_def)
  ultimately show ?thesis by (auto simp: session_supports_def some_and_iff none_or_iff not_le)
qed

lemma offline_snapshot_supported:
  assumes "authentic_state L T K s" "authorized_offline s = Some rt"
    and "snap = offline_snapshot rt (offline_now rt t)" "ss_entitlements snap \<noteq> [] \<or> granting snap"
  shows "file_supports L K s t snap"
proof -
  from assms(2) have rt: "st_offline s = Some rt" "or_authorized rt"
    by (auto simp: authorized_offline_def filter_opt_Some_iff)
  with assms(1) have "offline_backed L K rt" by (simp add: authentic_state_def)
  moreover from assms(3,4) offline_snapshot_cases[of rt "offline_now rt t"] obtain v n where
    v: "or_verified rt = Some v" "offline_now rt t = Some n" "n < vf_expires_at v"
      "ss_access snap = Offline" "ss_entitlements snap = vf_entitlements v" by auto
  moreover from v(2) obtain a w where "or_anchor rt = Some a" "now_with_wall a t = Inr (n, w)"
    "pf_wall_high_water (or_saved rt) \<le> saturating_add w 30"
    by (auto simp: offline_now_Some wall_consistent_def)
  ultimately show ?thesis using rt unfolding file_supports_def by blast
qed

lemma claims_access_granting:
  "claims_access s c now = Online \<Longrightarrow> now < gc_exp c \<and> now < gc_refresh_after c"
  "claims_access s c now = Offline \<Longrightarrow> now < gc_exp c \<and> gc_offline_allowed c \<and> st_transient s"
  by (auto simp: claims_access_def split: if_splits)

lemma claims_snapshot_supported:
  assumes "authentic_state L T K s" "ss_entitlements snap \<noteq> [] \<or> granting snap"
    and "snapshot_state_at s (Option.bind (st_anchor s) (\<lambda>a. result_ok (anchor_now a t))) = Inr snap"
  shows "grant_supports L T K s t snap"
proof -
  let ?now = "Option.bind (st_anchor s) (\<lambda>a. result_ok (anchor_now a t))"
  obtain cl n where cl: "st_claims s = Some cl" "?now = Some n"
    using snapshot_state_at_cases[OF assms(3)] assms(2) by blast
  with assms(3) obtain ex base where b: "claims_snapshot s ex base cl n = Inr snap" "ss_entitlements base = []"
    by (auto simp: snapshot_state_at_def Let_def rbind_Inr_iff)
  note snap = claims_snapshot_cases[OF b]
  from assms(2) snap(2) have g: "granting snap" by (auto split: if_splits)
  from cl(2) obtain a where a: "st_anchor s = Some a" "anchor_now a t = Inr n"
    by (cases "st_anchor s") (auto simp: result_ok_def split: sum.splits)
  have "grant_backed L T K cl a" using assms(1) cl(1) a(1) by (simp add: authentic_state_def)
  with cl(1) a snap g claims_access_granting[of s cl n] show ?thesis
    unfolding grant_supports_def granting_def by fastforce
qed

lemma shown_supported:
  assumes "shown s t snap" "authentic_state L T K s" "ss_entitlements snap \<noteq> [] \<or> granting snap"
  shows "supported L T K s t snap"
proof (cases "st_session_required s \<or> snap = session_snapshot s t")
  case True
  with assms(1) have "snap = session_snapshot s t" by (auto simp: shown_def snapshot_state_def)
  with assms(2,3) session_snapshot_supported show ?thesis by (simp add: supported_def)
next
  case False
  with assms(1) have s: "snapshot_state s t = Inr snap" "\<not> st_session_required s" by (auto simp: shown_def)
  show ?thesis
  proof (cases "authorized_offline s")
    case (Some rt)
    with s have "snap = offline_snapshot rt (offline_now rt t)" by (simp add: snapshot_state_def)
    from offline_snapshot_supported[OF assms(2) Some this assms(3)] show ?thesis by (simp add: supported_def)
  next
    case None
    with s have "snapshot_state_at s (Option.bind (st_anchor s) (\<lambda>a. result_ok (anchor_now a t))) = Inr snap"
      by (simp add: snapshot_state_def)
    from claims_snapshot_supported[OF assms(2,3) this] show ?thesis by (simp add: supported_def)
  qed
qed

subsection \<open>The snapshot of each look\<close>

lemma clear_disk_cache_state:
  assumes "clear_disk_cache p q io c = (c', Inr u)"
  shows "\<exists>v. cl_state c' = (cl_state c)\<lparr>st_storage_version := v\<rparr>"
  using assms
  by (auto simp: clear_disk_cache_def abind_Inr_iff act_Inr_iff on_disk_def set_version_def
      split: if_splits store.splits prod.splits)
    (metis state.surjective state.update_convs(2))

lemma checked_snapshot_shown:
  assumes "checked_snapshot_locked t io c = (c', Inr snap)"
  shows "snapshot_state (cl_state c') t = Inr snap"
proof (cases "st_session_required (cl_state c)")
  case True
  with assms show ?thesis
    by (auto simp: checked_snapshot_locked_def abind_def gets_def ret_def snapshot_state_def)
next
  case False
  show ?thesis
  proof (cases "authorized_offline (cl_state c)")
    case (Some rt)
    with False assms show ?thesis
      by (cases "or_anchor rt")
        (auto simp: checked_snapshot_locked_def abind_def gets_def ret_def modify_def Let_def snapshot_state_def
          set_offline_def authorized_offline_def filter_opt_Some_iff offline_now_def[of rt])
  next
    case None
    show ?thesis
    proof (cases "st_anchor (cl_state c)")
      case (Some a)
      show ?thesis
      proof (cases "anchor_now a t")
        case (Inl e)
        with False None Some assms obtain c1 where
          c1: "clear_disk_cache False False io (c\<lparr>cl_state := revoke_claims (cl_state c)\<rparr>) = (c1, Inr ())"
            "c' = c1" "snapshot_state_at (cl_state c1) None = Inr snap"
          by (auto simp: checked_snapshot_locked_def abind_Inr_iff act_Inr_iff)
        from clear_disk_cache_state[OF c1(1)] c1(2,3) False None show ?thesis
          by (auto simp: snapshot_state_def revoke_claims_def authorized_offline_def)
      qed (use False None Some assms in \<open>auto simp: checked_snapshot_locked_def abind_def gets_def of_result_def
          snapshot_state_def result_ok_def\<close>)
    qed (use False None assms in \<open>auto simp: checked_snapshot_locked_def abind_def gets_def of_result_def
        snapshot_state_def\<close>)
  qed
qed

lemmas look_simps = check_cancelled_def abind_Inr_iff act_Inr_iff

lemma first_look_shown:
  "first_look w c = (c', Inr (snap, required, disabled)) \<Longrightarrow> shown (cl_state c') (w_tick w 0) snap"
  by (auto simp: first_look_def look_simps shown_def dest: checked_snapshot_shown)

lemma second_look_shown:
  "second_look w c = (c', Inr snap) \<Longrightarrow> shown (cl_state c') (w_tick w 2) snap"
  by (auto simp: second_look_def look_simps shown_def dest: checked_snapshot_shown)

lemma final_look_shown:
  assumes "final_look w feature e c = (c', Inr snap)"
  shows "shown (cl_state c') (w_tick w 4) snap \<or> shown (cl_state c') (w_tick w 6) snap"
  using assms
  by (auto simp: final_look_def Let_def look_simps shown_def require_feature_def snapshot_state_def
      dest!: checked_snapshot_shown split: if_splits)

lemma session_status_shown:
  assumes "session_status w c = (c', Inr (Inl snap))"
  shows "shown (cl_state c') (w_tick w 0) snap"
  using assms
  by (auto simp: session_status_def Let_def look_simps shown_def snapshot_state_def
      dest!: checked_snapshot_shown split: if_splits)

lemma plan_session_plans: "plan_session L w c \<noteq> (c', Inr (Inl snap))"
  by (auto simp: plan_session_def look_simps)

lemma prepare_session_shown:
  assumes "prepare_session L w g explicit c = (c', Inr (Inl snap))"
  shows "shown (cl_state c') (w_tick w 0) snap"
  using assms
  by (auto simp: prepare_session_def look_simps shown_def plan_session_plans same_generation_def
      dest!: checked_snapshot_shown split: if_splits)

lemma settle_session_shown:
  assumes "settle_session w g verified c = (c', Inr (Inr snap, cleanup))"
  shows "shown (cl_state c') (w_tick w 21) snap \<and> \<not> cleanup"
proof -
  have failed: "failed_session w e c1 \<noteq> (c', Inr (Inr snap, cleanup))" for e c1
    by (auto simp: failed_session_def look_simps)
  have installed: "shown (cl_state c') (w_tick w 21) snap \<and> \<not> cleanup"
    if "install_session w rt c1 = (c', Inr (Inr snap, cleanup))" for rt c1
    using that by (auto simp: install_session_def look_simps shown_def split: if_splits)
  obtain c1 r where s: "sync_storage (w_io w 20) (w_others w 20 c) = (c1, r)"
    by (cases "sync_storage (w_io w 20) (w_others w 20 c)")
  with assms show ?thesis
    by (cases r; cases verified)
      (auto simp: settle_session_def abind_def lock_def try_act_def gets_def ret_def modify_def failed
        dest: installed split: if_splits)
qed

lemma start_serialized_shown:
  assumes "start_session_serialized L w g explicit c = (c', Inr snap)"
  shows "shown (cl_state c') (w_tick w 0) snap \<or> shown (cl_state c') (w_tick w 21) snap"
proof -
  from assms obtain c1 plan where p: "prepare_session L w g explicit c = (c1, Inr plan)"
    by (auto simp: start_session_serialized_def abind_Inr_iff)
  show ?thesis
  proof (cases plan)
    case (Inl s)
    with p assms have "c' = c1" "snap = s" by (auto simp: start_session_serialized_def abind_def ret_def)
    with prepare_session_shown p Inl show ?thesis by blast
  next
    case (Inr q)
    obtain saved sid licence body where q: "q = (saved, sid, licence, body)" by (cases q)
    let ?finish = "\<lambda>(outcome, cleanup).
      abind (if cleanup then send_session_end_cleanup saved sid else ret ()) (\<lambda>_. of_result outcome)"
    from p assms obtain started c2 where "abind (session_exchange L (sub w 4) (activation_path saved ''/sessions'')
        body saved (sid, 1) started licence) (\<lambda>verified. abind (settle_session w g verified) ?finish) c2 = (c', Inr snap)"
      by (auto simp: start_session_serialized_def Inr q abind_Inr_iff[of "prepare_session _ _ _ _"]
          abind_Inr_iff[of "guarded _ _ _ _ _ _"])
    then obtain verified c3 where "abind (settle_session w g verified) ?finish c3 = (c', Inr snap)"
      by (auto simp only: abind_Inr_iff[of "session_exchange _ _ _ _ _ _ _ _"])
    then obtain c4 x where x: "settle_session w g verified c3 = (c4, Inr x)" "?finish x c4 = (c', Inr snap)"
      by (auto simp only: abind_Inr_iff[of "settle_session _ _ _"])
    obtain outcome cleanup where "x = (outcome, cleanup)" by (cases x)
    with x have st: "settle_session w g verified c3 = (c4, Inr (outcome, cleanup))"
      and out: "abind (if cleanup then send_session_end_cleanup saved sid else ret ()) (\<lambda>_. of_result outcome) c4
        = (c', Inr snap)" by simp_all
    from out have o: "outcome = Inr snap" by (auto simp: abind_Inr_iff act_Inr_iff)
    with settle_session_shown st have "shown (cl_state c4) (w_tick w 21) snap" "\<not> cleanup" by blast+
    with out show ?thesis by (auto simp: abind_Inr_iff act_Inr_iff)
  qed
qed

lemma sub_tick [simp]: "w_tick (sub w n) k = w_tick w (n + k)"
  by (simp add: sub_def)

lemma start_session_shown:
  assumes "start_session_with_cancel L w c = (c', Inr snap)"
  shows "\<exists>k \<in> {0, 10, 31}. shown (cl_state c') (w_tick w k) snap"
proof -
  from assms obtain c1 c2 status where s: "session_status w c1 = (c2, Inr status)"
    and rest: "(case status of Inl snap \<Rightarrow> ret snap
      | Inr (known, saved) \<Rightarrow>
        abind (if known then ret ()
          else abind (demand NotActivated (saved \<noteq> None)) (\<lambda>_.
               abind (refresh_with_cancel L (sub w 100)) (\<lambda>_. ret ()))) (\<lambda>_.
        abind (current_generation w 2) (\<lambda>generation.
        abind (serialize w 2) (\<lambda>_.
          start_session_serialized L (sub w 10) generation True)))) c2 = (c', Inr snap)"
    unfolding start_session_with_cancel_def abind_Inr_iff by blast
  show ?thesis
  proof (cases status)
    case (Inl x)
    with rest have "c' = c2" "snap = x" by (auto simp: act_Inr_iff)
    with session_status_shown s Inl show ?thesis by blast
  next
    case (Inr q)
    with rest obtain g c3 where "start_session_serialized L (sub w 10) g True c3 = (c', Inr snap)"
      by (cases q) (auto simp: abind_Inr_iff)
    from start_serialized_shown[OF this] show ?thesis by auto
  qed
qed

text \<open>The clock readings of \<open>require_access\<close> at which its decision may be made: its first, its second
  and its final look, and, when it starts a session, the looks of the start (at 200), of the
  attempt (at 210) and of the settlement of the attempt (at 231).\<close>

definition decision_points :: "nat set" where
  "decision_points = {0, 2, 4, 6, 200, 210, 231}"

lemma decision_points_mem [simp]:
  "0 \<in> decision_points" "2 \<in> decision_points" "4 \<in> decision_points" "6 \<in> decision_points"
  "200 \<in> decision_points" "210 \<in> decision_points" "231 \<in> decision_points"
  by (simp_all add: decision_points_def)

lemma require_feature_Inr: "require_feature feature s = Inr snap \<longleftrightarrow> snap = s \<and> has_feature snap feature"
  by (auto simp: require_feature_def)

lemma offline_decision_Inr: "offline_decision feature s = Inr snap \<Longrightarrow> snap = s \<and> has_feature snap feature"
  by (auto simp: offline_decision_def split: if_splits)

lemma final_look_feature: "final_look w feature e c = (c', Inr snap) \<Longrightarrow> has_feature snap feature"
  by (auto simp: final_look_def Let_def look_simps require_feature_Inr split: if_splits)

lemma refresh_then_look_Inr:
  assumes "refresh_then_look L w feature c = (c', Inr snap)"
  obtains c1 e where "final_look w feature e c1 = (c', Inr snap)"
proof -
  from assms obtain c1 and r :: "snapshot result" where "(case r of Inr _ \<Rightarrow> final_look w feature None
     | Inl e \<Rightarrow> if is_transient e then final_look w feature (Some e) else fail e) c1 = (c', Inr snap)"
    unfolding refresh_then_look_def abind_Inr_iff by blast
  with that show thesis by (cases r) (auto simp: act_Inr_iff split: if_splits)
qed

lemma require_access_shown:
  assumes "require_access L w feature c = (c', Inr snap)"
  shows "has_feature snap feature \<and> (\<exists>k \<in> decision_points. shown (cl_state c') (w_tick w k) snap)"
proof -
  from assms obtain c1 first required disabled where f: "first_look w c = (c1, Inr (first, required, disabled))"
    by (auto simp: require_access_def abind_Inr_iff)
  note s0 = first_look_shown[OF f]
  from assms f have rest: "(if ss_offline_file_mode first then of_result (offline_decision feature first)
     else if ss_access first = Online then
       abind (if required then second_look w else ret first) (\<lambda>final.
         of_result (require_feature feature final))
     else if required then
       abind (demand SessionRequired (\<not> disabled)) (\<lambda>_.
       abind (start_session_with_cancel L (sub w 200)) (\<lambda>snap.
         of_result (require_feature feature snap)))
     else if \<not> wants_refresh first then fail NotActivated
     else refresh_then_look L w feature) c1 = (c', Inr snap)"
    by (simp add: require_access_def abind_def)
  consider (offline) "c' = c1" "offline_decision feature first = Inr snap"
    | (second) c2 where "second_look w c2 = (c', Inr snap)" "has_feature snap feature"
    | (first) "c' = c1" "snap = first" "has_feature snap feature"
    | (start) c2 where "start_session_with_cancel L (sub w 200) c2 = (c', Inr snap)" "has_feature snap feature"
    | (final) "refresh_then_look L w feature c1 = (c', Inr snap)"
    using rest by (auto simp: look_simps require_feature_Inr split: if_splits)
  then show ?thesis
  proof cases
    case offline
    with offline_decision_Inr[OF offline(2)] s0 decision_points_mem show ?thesis by blast
  next
    case second
    with second_look_shown[OF second(1)] decision_points_mem show ?thesis by blast
  next
    case first
    with s0 decision_points_mem show ?thesis by blast
  next
    case start
    from start_session_shown[OF start(1)] start(2) show ?thesis by auto
  next
    case final
    then obtain c2 e where "final_look w feature e c2 = (c', Inr snap)" by (rule refresh_then_look_Inr)
    from final_look_shown[OF this] final_look_feature[OF this] decision_points_mem show ?thesis by blast
  qed
qed

end
