(* ===== verification/Guarantees.thy ===== *)
theory Guarantees
  imports Bounds Decisions
begin

text \<open>
  What the client as a whole guarantees: where access comes from, what a reply, a logout, a
  failure and a closed client do, and what the disk keeps.
\<close>

subsection \<open>Access decisions\<close>

text \<open>
  C1.  Soundness of the access decision.  Take a client that held only verified documents, and
  any sequence of its calls, each under any interference by its other tasks.  If
  \<open>require_access\<close> then returns a snapshot, the requested feature is enabled in it, and there is
  one of the clock readings this call takes for its decision at which the state that the call
  leaves holds the document behind the snapshot: the session, the imported file or the grant in
  that state, verified for this application and environment under trusted keys, whose end (and,
  for a session, the end of the licence) still lay ahead of the trusted time that the document's
  own anchor gives for that reading.  Online access by a grant also needs a grant that is not yet
  due for refresh, and Offline access one that allows offline use.
\<close>

theorem granted_access_is_backed:
  assumes "client_run L T K c0 c" "authentic L T K c0" "trusted_world L T K w"
    and "require_access L w feature c = (c', Inr snap)"
  shows "has_feature snap feature \<and> granting snap
    \<and> (\<exists>k \<in> decision_points. supported L T K (cl_state c') (w_tick w k) snap)"
proof -
  have "authentic L T K c" using assms(1,2) by (rule client_run_authentic)
  then have a: "authentic_state L T K (cl_state c')"
    using triple_state[OF triple_require_access[OF assms(3)] _ assms(4)] by (simp add: authentic_def)
  from require_access_shown[OF assms(4)] obtain k where k: "k \<in> decision_points"
    "shown (cl_state c') (w_tick w k) snap" and f: "has_feature snap feature" by blast
  from f have "ss_entitlements snap \<noteq> []" by (auto simp: has_feature_def)
  with shown_supported[OF k(2) a] have "supported L T K (cl_state c') (w_tick w k) snap" by simp
  with f k(1) supported_granting show ?thesis by blast
qed

theorem granted_access_is_backed_witness:
  "\<exists>snap c'. require_access online_libs quiet_world ''pro'' online_client = (c', Inr snap)
    \<and> has_feature snap ''pro'' \<and> granting snap
    \<and> supported online_libs (\<lambda>ks. ks = sample_keys) (env_of online_client) (cl_state c') sample_tick snap"
proof -
  obtain snap where "require_access online_libs quiet_world ''pro'' online_client = (online_client, Inr snap)"
    using online_access by blast
  with granted_access_is_backed[OF client_run.start online_authentic quiet_trusted this]
  show ?thesis by (auto simp: quiet_world_def)
qed

text \<open>
  C2.  Opening establishes what C1 starts from.  Whatever the disk holds, a client that opens
  holds only grants and offline files that verify again, under keys a saved document describes
  or the application configured, each with a clock that starts no earlier than the document's
  own reception.
\<close>

theorem opened_client_is_authentic:
  assumes "open_installed L de prov w key binding orig version offline_bytes file = Inr c"
    and "trusts_documents L T"
  shows "authentic L T (env_of c) c"
  using assms by (rule open_installed_authentic)

text \<open>
  C3.  No call of the client, and no interference that itself keeps to the rule, brings an
  unverified grant, session or offline file into its state.
\<close>

theorem client_stays_authentic:
  assumes "client_run L T K c c'" "authentic L T K c"
  shows "authentic L T K c'"
  using assms by (rule client_run_authentic)

theorem client_stays_authentic_witness:
  "authentic online_libs (\<lambda>ks. ks = sample_keys) (env_of online_client)
     (run_call online_libs quiet_world (CallRequire ''pro'') online_client)"
  by (rule client_stays_authentic[OF client_run.call[OF client_run.start quiet_trusted] online_authentic])


theorem opened_client_is_authentic_witness:
  "\<exists>c. open_installed sample_libs (\<lambda>_. None) ''private_file'' quiet_world sample_key (None, None)
     ''https://o.eu'' None None (Inr None) = Inr c \<and> authentic sample_libs (\<lambda>_. True) (env_of c) c"
proof -
  obtain c where "open_installed sample_libs (\<lambda>_. None) ''private_file'' quiet_world sample_key (None, None)
     ''https://o.eu'' None None (Inr None) = Inr c"
    using sample_opens by blast
  with opened_client_is_authentic[OF this, of "\<lambda>_. True"] show ?thesis
    by (auto simp: trusts_documents_def)
qed

subsection \<open>Logging out\<close>

text \<open>A state with no authority left in it.\<close>

definition revoked :: "state \<Rightarrow> bool" where
  "revoked s \<longleftrightarrow> st_claims s = None \<and> st_anchor s = None \<and> st_credential s = None
     \<and> st_account s = None \<and> st_session s = None \<and> st_pending_session_id s = None
     \<and> \<not> st_session_required s \<and> authorized_offline s = None"

lemma revoked_clear [simp]: "revoked (clear s)"
  by (auto simp: revoked_def clear_def clear_access_def authorized_offline_def filter_opt_def
      split: option.split)

lemma revoked_denies: "revoked s \<Longrightarrow>
    \<exists>snap. snapshot_state s t = Inr snap \<and> ss_access snap = AccessDenied \<and> ss_entitlements snap = []"
  by (simp add: revoked_def snapshot_state_def snapshot_state_at_def Let_def base_access_def)

lemma on_store_state: "on_store f g c = (c', r) \<Longrightarrow> cl_state c' = cl_state c"
  by (auto simp: on_store_def split: store.splits prod.splits)

lemma drop_authority_revokes: "revoked (cl_state (fst (drop_authority w k c)))"
proof -
  obtain c1 r where tr: "try_act (checkpoint_authorized True (w_io w k)) c = (c1, Inr r)"
    by (cases "checkpoint_authorized True (w_io w k) c") (simp add: try_act_def)
  obtain c2 v where iv: "store_invalidate (w_io w (k + 1)) (c1\<lparr>cl_state := clear (cl_state c1)\<rparr>) = (c2, v)"
    by (cases "store_invalidate (w_io w (k + 1)) (c1\<lparr>cl_state := clear (cl_state c1)\<rparr>)")
  have "cl_state c2 = clear (cl_state c1)"
    using iv by (auto simp: store_invalidate_def dest: on_store_state)
  moreover have "fst (drop_authority w k c) = c2 \<or>
      (\<exists>n. fst (drop_authority w k c) = c2\<lparr>cl_state := (cl_state c2)\<lparr>st_storage_version := n\<rparr>\<rparr>)"
    by (cases v) (auto simp add: drop_authority_def abind_def tr modify_def iv[simplified] set_version_def of_result_def)
  moreover have "revoked (s\<lparr>st_storage_version := n\<rparr>) = revoked s" for s n
    by (simp add: revoked_def authorized_offline_def)
  ultimately show ?thesis by auto
qed

lemma logout_drops: "logout w c = drop_authority w 0 (w_others w 0 c)"
  by (simp add: logout_def drop_authority_def abind_def[of "lock w 0"] lock_def)

text \<open>
  C4.  A logout takes all authority away, at once and in every case: even when the checkpoint or
  the invalidation of the storage fails, the state keeps no credential, grant, session, account
  or authorised offline file, and every snapshot of it denies access.
\<close>

theorem logout_revokes:
  "revoked (cl_state (fst (logout w c)))
   \<and> (\<exists>snap. snapshot_state (cl_state (fst (logout w c))) t = Inr snap
        \<and> ss_access snap = AccessDenied \<and> ss_entitlements snap = [])"
  unfolding logout_drops using drop_authority_revokes revoked_denies by blast


subsection \<open>Replies and failures\<close>

text \<open>
  C5.  A reply that comes too late is ignored.  If the generation of the client has moved on by
  the time a reply (or its failure) is settled, because of a logout, an activation or an outside
  invalidation, the reply is refused with \<open>StaleResponse\<close> and the client stays exactly as the
  newer operation left it: nothing of the reply reaches the state or the disk.
\<close>

theorem late_reply_ignored:
  assumes "check_generation w 9 g c = (c1, Inr ())" and "w_others w 20 = (\<lambda>_. c2)"
    and "sync_storage (w_io w 20) c2 = (c3, Inr ())" "st_generation (cl_state c3) \<noteq> g"
  shows "accept_for_licence L w response g previous started licence c = (c3, Inl StaleResponse)"
proof -
  obtain x c4 where x: "check_response L w response previous licence started c1 = (c4, Inr x)"
    by (cases response; cases "projr response";
        cases "verify_reply L (sub w 10) (the (projr response)) previous licence started c1")
      (auto simp: check_response_def abind_def try_act_def ret_def)
  show ?thesis
    by (cases x) (simp add: accept_for_licence_def abind_def assms(1) x lock_def assms(2,3)
        same_generation_def gets_def demand_def ensure_def assms(4))
qed

theorem late_reply_ignored_witness:
  "accept_for_licence online_libs (quiet_world\<lparr>w_others := (\<lambda>k c. if k = 20
       then online_client\<lparr>cl_state := revoke_claims (cl_state online_client)\<rparr> else c)\<rparr>)
     (Inl (Denied ''suspended'' None)) 0 None \<lparr>start_elapsed = 0, start_wall = 0\<rparr> None online_client
   = (online_client\<lparr>cl_state := revoke_claims (cl_state online_client)\<rparr>, Inl StaleResponse)"
proof (rule late_reply_ignored)
  let ?w = "quiet_world\<lparr>w_others := (\<lambda>k c. if k = 20
       then online_client\<lparr>cl_state := revoke_claims (cl_state online_client)\<rparr> else c)\<rparr>"
  have io: "w_io quiet_world k = sample_io" for k by (simp add: quiet_world_def)
  have g: "st_generation (cl_state online_client) = 0" by (simp add: online_client_def fresh_state_def)
  show "check_generation ?w 9 0 online_client = (online_client, Inr ())"
    by (simp add: check_generation_def current_generation_def abind_def lock_def io online_sync
        gets_def demand_def g)
  show "sync_storage (w_io ?w 20) (online_client\<lparr>cl_state := revoke_claims (cl_state online_client)\<rparr>)
    = (online_client\<lparr>cl_state := revoke_claims (cl_state online_client)\<rparr>, Inr ())"
    by (simp add: io action_defs online_client_def installed_version_def checked_def sample_io_def
        fresh_state_def revoke_claims_def) (simp add: sample_disk_def sample_record_def fresh_record_def)
  show "w_others ?w 20 = (\<lambda>_. online_client\<lparr>cl_state := revoke_claims (cl_state online_client)\<rparr>)"
    by (simp add: fun_eq_iff)
  show "st_generation (cl_state (online_client\<lparr>cl_state := revoke_claims (cl_state online_client)\<rparr>)) \<noteq> 0"
    by (simp add: revoke_claims_def g)
qed

lemma snapshot_now_Inr:
  "snapshot_now w k c = (c', Inr snap) \<longleftrightarrow> c' = c \<and> snapshot_state (cl_state c) (w_tick w k) = Inr snap"
  by (auto simp: snapshot_now_def abind_Inr_iff act_Inr_iff)

text \<open>
  C6.  A transient failure never creates access.  When the service cannot be reached, a check
  succeeds only with offline access, and that only from an authorised offline file or from a
  cached grant that allows offline use and has not expired.
\<close>

theorem transient_failure_needs_offline_grant:
  assumes "accept_for_licence L w (Inl e) g previous started licence c = (c', Inr snap)"
    and "is_transient e"
  shows "ss_access snap = Offline \<and>
    (authorized_offline (cl_state c') \<noteq> None
     \<or> (\<exists>cl a now. st_claims (cl_state c') = Some cl \<and> gc_offline_allowed cl
          \<and> st_anchor (cl_state c') = Some a \<and> anchor_now a (w_tick w 25) = Inr now \<and> now < gc_exp cl))"
proof -
  from assms obtain c1 where "accept_transient w False e c1 = (c', Inr snap)"
    by (auto simp: accept_for_licence_def abind_Inr_iff check_response_def act_Inr_iff)
  then have snap: "snapshot_state (cl_state c') (w_tick w 25) = Inr snap" and off: "ss_access snap = Offline"
    by (auto simp: accept_transient_def abind_Inr_iff act_Inr_iff snapshot_now_Inr split: if_splits)
  show ?thesis
  proof (cases "authorized_offline (cl_state c') = None")
    case True
    let ?s = "cl_state c'"
    have "\<not> st_session_required ?s"
      using snap off by (auto simp: snapshot_state_def session_snapshot_def Let_def
          split: option.splits sum.splits if_splits)
    with snap True have "snapshot_state_at ?s
        (Option.bind (st_anchor ?s) (\<lambda>a. result_ok (anchor_now a (w_tick w 25)))) = Inr snap"
      by (simp add: snapshot_state_def)
    from snapshot_state_at_cases[OF this] off obtain cl n where
      cl: "st_claims ?s = Some cl" "n < gc_exp cl" "gc_offline_allowed cl"
      and n: "Option.bind (st_anchor ?s) (\<lambda>a. result_ok (anchor_now a (w_tick w 25))) = Some n"
      by (auto simp: granting_def)
    from n obtain a where "st_anchor ?s = Some a" "anchor_now a (w_tick w 25) = Inr n"
      by (auto simp: bind_eq_Some_conv result_ok_Some_iff)
    with cl off show ?thesis by blast
  qed (simp add: off)
qed

text \<open>
  C7.  A definitive failure always ends in a refusal and revokes what was cached: the reply is an
  error, and afterwards the state has no grant and no session, requires none, and keeps the
  credential only when the denial does not prove it dead.
\<close>

theorem definitive_failure_revokes:
  "(\<exists>e'. snd (accept_failure w activation e c) = Inl e')
   \<and> st_claims (cl_state (fst (accept_failure w activation e c))) = None
   \<and> st_session (cl_state (fst (accept_failure w activation e c))) = None
   \<and> st_credential (cl_state (fst (accept_failure w activation e c)))
       \<in> (if discards_credential e then {None} else {None, st_credential (cl_state c)})"
proof -
  let ?kept = "if discards_credential e then {None} else {None, st_credential (cl_state c)}"
  define P where "P c \<longleftrightarrow> st_claims (cl_state c) = None \<and> st_session (cl_state c) = None
    \<and> st_credential (cl_state c) \<in> ?kept" for c :: client
  have free: "storage_free P" by (simp add: storage_free_def P_def)
  have version: "keeps P (set_version v)" for v
    by (simp add: set_version_def keeps_def modify_def P_def)
  have store: "keeps P (store_save io v cr)" "keeps P (store_invalidate io)" for io v cr
    by (simp_all add: store_save_def store_invalidate_def keeps_on_store free)
  have start: "keeps P m \<Longrightarrow> P (c\<lparr>cl_state := f (cl_state c)\<rparr>) \<Longrightarrow> P (fst (abind (modify f) (\<lambda>_. m) c))"
    for m :: "unit act" and f c
    by (simp add: abind_def modify_def keeps_def)
  have inst: "P (fst (fail_installed w activation e c))"
    unfolding fail_installed_def
    by (rule start) (auto intro!: keeps_intro keeps_on_disk free version
        simp: P_def failed_state_def Let_def)
  have "keeps P (abind (store_invalidate (w_io w 26)) (\<lambda>v. abind (set_version v) (\<lambda>_.
      case kept_credential e (st_credential (cl_state c)) of None \<Rightarrow> ret ()
      | Some saved \<Rightarrow> abind (store_save (w_io w 27) v saved) (\<lambda>_.
          modify (\<lambda>s. s\<lparr>st_credential := Some saved\<rparr>)))))"
    by (intro keeps_intro store version)
      (auto simp: keeps_def modify_def P_def kept_credential_def filter_opt_Some_iff)
  then have mem: "P (fst (fail_memory w e c))"
    unfolding fail_memory_def
    by (simp add: abind_def[of "gets _"] gets_def comp_def)
      (rule start, auto simp: P_def clear_def clear_access_def)
  have "P (fst (accept_failure w activation e c)) \<and> (\<exists>e'. snd (accept_failure w activation e c) = Inl e')"
    using inst mem
    by (auto simp: accept_failure_def abind_def gets_def fail_def split: prod.split sum.split)
  then show ?thesis unfolding P_def by blast
qed


definition offline_client :: client where
  "offline_client = online_client\<lparr>cl_state := (cl_state online_client)
     \<lparr>st_claims := Some (sample_claims\<lparr>gc_offline_allowed := True\<rparr>)\<rparr>\<rparr>"

theorem transient_failure_needs_offline_grant_witness:
  "\<exists>snap c'. accept_for_licence online_libs quiet_world (Inl transient) 0 None
      \<lparr>start_elapsed = 0, start_wall = 0\<rparr> None offline_client = (c', Inr snap)
    \<and> ss_access snap = Offline
    \<and> (\<exists>cl a now. st_claims (cl_state c') = Some cl \<and> gc_offline_allowed cl
          \<and> st_anchor (cl_state c') = Some a \<and> anchor_now a (w_tick quiet_world 25) = Inr now \<and> now < gc_exp cl)"
proof -
  have q: "w_others quiet_world k c = c" "w_io quiet_world k = sample_io"
    "w_cancelled quiet_world k = False" "w_tick quiet_world k = sample_tick" for k c
    by (simp_all add: quiet_world_def)
  have sync: "sync_storage sample_io offline_client = (offline_client, Inr ())"
    by (simp add: action_defs offline_client_def online_client_def installed_version_def checked_def
        sample_io_def fresh_state_def)
      (simp add: sample_disk_def sample_record_def fresh_record_def)
  have st: "st_generation (cl_state offline_client) = 0" "st_restored (cl_state offline_client) = False"
    by (simp_all add: offline_client_def online_client_def fresh_state_def)
  let ?s = "transient_state transient (retry_at quiet_world 24) (cl_state offline_client)"
  have "\<exists>snap. snapshot_state ?s sample_tick = Inr snap \<and> ss_access snap = Offline"
    by (simp add: snapshot_state_def transient_state_def offline_client_def online_client_def
        fresh_state_def authorized_offline_def sample_anchor_now snapshot_state_at_def
        claims_snapshot_def sample_claims_def from_unix_seconds_def checked_i64_def i64_defs
        describe_claims_def claims_access_def grant_claimed_def)
  then obtain snap where snap: "snapshot_state ?s sample_tick = Inr snap" "ss_access snap = Offline"
    by blast
  have "accept_for_licence online_libs quiet_world (Inl transient) 0 None
      \<lparr>start_elapsed = 0, start_wall = 0\<rparr> None offline_client
    = (offline_client\<lparr>cl_state := ?s\<rparr>, Inr snap)"
    using snap
    by (simp add: accept_for_licence_def check_generation_def current_generation_def abind_def lock_def
        q sync gets_def demand_def st check_response_def ret_def same_generation_def
        check_cancelled_def transient_def accept_transient_def checkpoint_restored_def modify_def
        snapshot_now_def of_result_def)
  moreover have "authorized_offline ?s = None"
    by (simp add: transient_state_def offline_client_def online_client_def fresh_state_def
        authorized_offline_def)
  ultimately show ?thesis
    using transient_failure_needs_offline_grant[of online_libs quiet_world transient 0 None
        "\<lparr>start_elapsed = 0, start_wall = 0\<rparr>" None offline_client "offline_client\<lparr>cl_state := ?s\<rparr>" snap]
    by (auto simp: transient_def)
qed

subsection \<open>The disk\<close>

text \<open>
  C8.  Anti-rollback.  No sequence of storage operations, whatever their arguments, clocks and
  failing system calls, lowers the generation of the installation or the sequence, the time mark
  or the wall mark of its offline file, forgets that file's marks, or gives one sequence number a
  second content.
\<close>

theorem disk_never_rolls_back:
  assumes "disk_run L d d'"
  shows "record_le (dk_record d) (dk_record d')"
  using assms by (rule disk_run_le)

theorem disk_never_rolls_back_witness:
  "record_le (dk_record sample_disk)
     (dk_record (run_op sample_libs OpClose sample_io (run_op sample_libs OpInvalidate sample_io sample_disk)))"
  by (rule disk_never_rolls_back[OF disk_run.step[OF disk_run.step[OF disk_run.start]]])

text \<open>
  C9.  A record the storage writes is a record the next start accepts.  From a valid record, every
  operation with the inputs its callers check (well-formed identifiers, times before the year
  10000, a working generator) leaves a record that \<open>validate\<close> accepts, whether it succeeds or
  fails half way.
\<close>

theorem operations_keep_records_valid:
  assumes "\<not> record_invalid prov scope key (dk_record d)"
    and "sound_op op io (dk_record d)" "sound_io L io" "\<And>s. length (sha256 L s) = 32"
  shows "validate prov scope key (dk_record (run_op L op io d)) = Inr ()"
  using run_op_valid[OF assms] by (simp add: validate_def)

theorem operations_keep_records_valid_witness:
  "validate ''private_file'' (scope_of sample_key ''https://o.eu'') sample_key
     (dk_record (run_op sample_libs (OpPrepare (KeyPrincipal ''key'') None None []) sample_io sample_disk)) = Inr ()"
proof (rule operations_keep_records_valid)
  show "\<not> record_invalid ''private_file'' (scope_of sample_key ''https://o.eu'') sample_key (dk_record sample_disk)"
    using sample_record_valid by (simp add: sample_disk_def)
  show "sound_op (OpPrepare (KeyPrincipal ''key'') None None []) sample_io (dk_record sample_disk)" by simp
qed (simp_all add: sample_io_sound)

text \<open>A storage that refuses everything: poisoned by a failed write or check, or closed.\<close>

definition dead :: "disk \<Rightarrow> bool" where
  "dead d \<longleftrightarrow> dk_poisoned d \<or> dk_backend d = None"

lemma dead_check: "dead d \<Longrightarrow> \<exists>e. disk_check v d = (d, Inl e)"
  by (cases "dk_poisoned d") (simp_all add: dead_def disk_check_def)

lemma dead_checked: "dead d \<Longrightarrow> \<exists>e. checked io d k = (d, Inl e)"
proof -
  assume "dead d"
  then obtain e where "disk_check (io_verify io) d = (d, Inl e)" using dead_check by blast
  then show ?thesis by (simp add: checked_def)
qed

lemma dead_checked_fst: "dead d \<Longrightarrow> fst (checked io d k) = d"
  using dead_checked by (metis fst_conv)

lemma dead_checkpoint_offline: "dead d \<Longrightarrow> fst (snd (checkpoint_offline rt force io d)) = d"
proof -
  assume "dead d"
  then have "\<exists>e. persist_offline_checkpoint f io d = (d, Inl e)" for f
    unfolding persist_offline_checkpoint_def by (rule dead_checked)
  then show ?thesis unfolding checkpoint_offline_def
    by (auto split: option.split sum.split prod.split) (metis fst_conv)+
qed

lemma dead_op: "dead d \<Longrightarrow> run_op L op io d = d \<or> run_op L op io d = close_disk d"
  by (cases op)
    (simp_all add: dead_checked_fst dead_checkpoint_offline identity_def activation_pending_def
      prepare_activation_def commit_access_def commit_floating_def clear_cached_def restore_def
      restore_offline_def offline_state_def save_offline_def checkpoint_def installed_version_def
      installed_load_def installed_save_def installed_invalidate_def)

text \<open>A poisoned or closed storage never changes its record and never works again.\<close>

lemma dead_storage_stays_dead:
  assumes "disk_run L d d'" "dead d"
  shows "dead d' \<and> dk_record d' = dk_record d"
  using assms
proof (induction rule: disk_run.induct)
  case (step d d1 op io)
  then show ?case
    using dead_op[of d1 L op io] by (auto simp: dead_def close_disk_def)
qed simp

end
