(* ===== verification/Protocol.thy ===== *)
theory Protocol
  imports Bounds
begin

text \<open>
  The exchanges with the service: activations are written ahead and survive until they are
  resolved, seats are freed when an attempt fails, renewals advance, and local decisions beat
  replies that are still on their way.
\<close>

subsection \<open>Activations\<close>

text \<open>The storage operations that settle an activation, one way or the other.\<close>

fun resolves_pending :: "disk_op \<Rightarrow> bool" where
  "resolves_pending (OpAccess _ _ _ activation) = activation"
| "resolves_pending (OpFloating _ _ activation) = activation"
| "resolves_pending (OpClear pend _) = pend"
| "resolves_pending (OpSaveOffline _ _) = True"
| "resolves_pending _ = False"

lemma next_pending_kept:
  "r_pending_activation r = Some p \<Longrightarrow> next_pending L io r dg kind operation now = Inr q \<Longrightarrow> q = p"
  by (auto simp: next_pending_def result_simps)

lemma prepare_keeps_pending:
  assumes "r_pending_activation (dk_record d) = Some p"
  shows "changes (\<lambda>rec. r_pending_activation rec = Some p) io d
    (fst (prepare_activation L who customer previous operation io d))"
  unfolding prepare_activation_def Let_def
  by (intro written.after_check written.after_lift written.committed_with)
    (auto simp: result_simps clear_offline_authority_def dest!: next_pending_kept[OF assms]
      split: prod.splits intro!: written.same written.committed written.committed_with written.after_lift)

lemma run_op_pending:
  assumes "r_pending_activation (dk_record d) = Some p" "\<not> resolves_pending op"
  shows "r_pending_activation (dk_record (run_op L op io d)) = Some p"
proof (cases "\<exists>who customer previous operation. op = OpPrepare who customer previous operation")
  case True
  then obtain who customer previous operation where
    op: "op = OpPrepare who customer previous operation" by blast
  show ?thesis
    using prepare_keeps_pending[OF assms(1), of io L who customer previous operation] assms(1)
    by (auto simp: op changes_def with_format_def)
next
  case False
  have "next_record L op io (dk_record d) rec \<Longrightarrow> r_pending_activation rec = Some p" for rec
    using assms False by (cases op)
      (auto simp: access_record_def saved_record_def cleared_record_def clear_offline_authority_def Let_def)
  then show ?thesis using written.run_op_frame[of L op io d] assms(1)
    by (auto simp: changes_def with_format_def)
qed

text \<open>
  C15.  An uncertain activation is never forgotten.  Once its intent is on the disk, no sequence
  of other storage operations replaces or drops it: not another activation, not a refresh, not a
  checkpoint, an invalidation or a restart of the file, whatever fails on the way.  Only a commit
  of its own result, an explicit resolution or an offline import ends it.
\<close>

theorem pending_activation_survives:
  assumes "r_pending_activation (dk_record d) = Some p"
    and "list_all (\<lambda>(op, io). \<not> resolves_pending op) steps"
  shows "r_pending_activation (dk_record (foldl (\<lambda>d (op, io). run_op L op io d) d steps)) = Some p"
  using assms
proof (induction steps arbitrary: d)
  case (Cons s steps)
  obtain op io where s: "s = (op, io)" by (cases s)
  with Cons.prems have "r_pending_activation (dk_record (run_op L op io d)) = Some p"
    by (intro run_op_pending) simp_all
  from Cons.IH[OF this] Cons.prems(2) show ?case by (simp add: s)
qed simp

definition sample_pending :: pending where
  "sample_pending = \<lparr>p_operation_id = ''operation-0123456'', p_principal_kind = ''key'',
     p_input_digest = replicate 64 CHR ''a'', p_created_at = 5000\<rparr>"

definition pending_disk :: disk where
  "pending_disk = sample_disk\<lparr>dk_record := sample_record\<lparr>r_pending_activation := Some sample_pending\<rparr>\<rparr>"

theorem pending_activation_survives_witness:
  "r_pending_activation (dk_record (foldl (\<lambda>d (op, io). run_op sample_libs op io d) pending_disk
     [(OpPrepare (KeyPrincipal ''other'') None None [], sample_io), (OpInvalidate, sample_io)]))
   = Some sample_pending"
  by (rule pending_activation_survives) (simp_all add: pending_disk_def)

lemma next_pending_requested:
  "next_pending L io r dg kind operation now = Inr q \<Longrightarrow> operation \<noteq> [] \<Longrightarrow> p_operation_id q = operation"
  by (auto simp: next_pending_def pending_conflict_def result_simps split: option.splits)

lemma prepare_activation_Inr:
  assumes "prepare_activation L who customer previous operation io d = (d', Inr (opid, g))"
  obtains p bytes where "dk_backend d' = Some (Some bytes)" "io_encode io (dk_record d') = Some bytes"
    "r_pending_activation (dk_record d') = Some p" "p_operation_id p = opid" "r_access (dk_record d') = None"
    "r_generation (dk_record d') = g" "operation \<noteq> [] \<Longrightarrow> opid = operation"
proof -
  from assms obtain p h b now where
    p: "next_pending L io (dk_record d) (digest L b) (principal_kind who) operation now = Inr p"
    and c: "commit_with io ((clear_offline_authority
          ((dk_record d)\<lparr>r_pending_activation := Some p, r_access := None\<rparr>))\<lparr>r_generation := h\<rparr>)
        (p_operation_id p, h) d = (d', Inr (opid, g))"
    unfolding prepare_activation_def Let_def
    by (auto elim!: checked_run_cases simp: lift_Inr_iff result_simps)
  note w = commit_with_Inr[OF c]
  then have v: "opid = p_operation_id p" "g = h" by auto
  note k = commit_Inr[OF conjunct2[OF w]]
  then obtain bytes where "dk_backend d' = Some (Some bytes)" "io_encode io (dk_record d') = Some bytes"
    by auto
  then show thesis
    by (rule that[of _ p])
      (use k v next_pending_requested[OF p] in \<open>auto simp: clear_offline_authority_def\<close>)
qed

lemma begin_installed_Inr:
  assumes "begin_installed L w who customer previous key c = (c', Inr operation)"
  obtains d p bytes where "cl_storage c' = InstalledStore d" "dk_backend d = Some (Some bytes)"
    "io_encode (w_io w 3) (dk_record d) = Some bytes" "r_pending_activation (dk_record d) = Some p"
    "p_operation_id p = operation" "key \<noteq> [] \<Longrightarrow> operation = key"
    "st_claims (cl_state c') = None" "st_session (cl_state c') = None"
    "authorized_offline (cl_state c') = None" "cl_sent c' = cl_sent c"
    "st_storage_version (cl_state c') = r_generation (dk_record d)"
proof -
  from assms obtain c1 c2 version where
    k: "checkpoint_authorized True (w_io w 2) c = (c1, Inr ())"
    and pr: "on_disk (prepare_activation L who customer previous key (w_io w 3)) c1 = (c2, Inr (operation, version))"
    and c': "c' = c2\<lparr>cl_state := prepared_state version (is_key who) (cl_state c2)\<rparr>"
    by (auto simp: begin_installed_def abind_Inr_iff act_Inr_iff split: prod.splits)
  have s1: "cl_sent c1 = cl_sent c"
    using k by (auto simp: checkpoint_authorized_def abind_Inr_iff act_Inr_iff
        split: option.splits if_splits store.splits prod.splits)
  from pr obtain d0 d where d: "cl_storage c2 = InstalledStore d" and s2: "cl_sent c2 = cl_sent c1"
    and pd: "prepare_activation L who customer previous key (w_io w 3) d0 = (d, Inr (operation, version))"
    by (auto simp: on_disk_def split: store.splits prod.splits)
  from prepare_activation_Inr[OF pd] obtain p bytes where
    "dk_backend d = Some (Some bytes)" "io_encode (w_io w 3) (dk_record d) = Some bytes"
    "r_pending_activation (dk_record d) = Some p" "p_operation_id p = operation"
    "r_generation (dk_record d) = version" "key \<noteq> [] \<Longrightarrow> operation = key" by metis
  then show thesis
    by (intro that[of d bytes p])
      (simp_all add: c' d s1 s2 prepared_state_def Let_def authorized_offline_def filter_opt_def
        split: option.split)
qed

text \<open>
  C16.  Activations are written ahead.  When an installed client is about to send an activation,
  its operation id is in the file that was written and synced before: a crash at any later point
  finds the operation pending on the disk and repeats it under the same id.  At that moment the
  state holds no grant, session or authorised file any more, and nothing has been sent yet.
\<close>

theorem activation_is_written_ahead:
  assumes "begin_activation L w generation who previous key c = (c', Inr (g, token, operation))"
    and "installed (w_others w 2 c)"
  shows "\<exists>d p bytes. cl_storage c' = InstalledStore d \<and> dk_backend d = Some (Some bytes)
    \<and> io_encode (w_io w 3) (dk_record d) = Some bytes
    \<and> r_pending_activation (dk_record d) = Some p \<and> p_operation_id p = operation
    \<and> st_claims (cl_state c') = None \<and> st_session (cl_state c') = None
    \<and> authorized_offline (cl_state c') = None
    \<and> cl_sent c' = cl_sent (w_others w 2 c)"
proof -
  from assms obtain customer where
    "begin_installed L w who customer previous key (w_others w 2 c) = (c', Inr operation)"
    by (auto simp: begin_activation_def abind_Inr_iff act_Inr_iff same_generation_def split: prod.splits)
  from begin_installed_Inr[OF this] show ?thesis by metis
qed

lemma sample_prepare:
  "\<exists>d g. prepare_activation online_libs (KeyPrincipal ''key'') None None ''operation-0123456'' sample_io sample_disk
    = (d, Inr (''operation-0123456'', g))"
proof -
  have io: "io_verify sample_io" "io_reverify sample_io" "wall (io_tick sample_io) = Inr 5000"
    "io_encode sample_io r = Some ''record''" "io_write sample_io = WriteOk" for r
    by (simp_all add: sample_io_def sample_tick_def wall_def checked_i64_def i64_defs)
  have r: "r_pending_activation (dk_record sample_disk) = None" "r_generation (dk_record sample_disk) = 0"
    by (simp_all add: sample_disk_def sample_record_def fresh_record_def)
  have gen: "next_generation (dk_record sample_disk) = Inr (Suc 0)"
    by (simp add: next_generation_Inr r MAX_GENERATION_def)
  have bytes: "to_bytes online_libs j = Some []" for j by (simp add: online_libs_def sample_libs_def)
  have backend: "dk_backend sample_disk = Some None" by (simp add: sample_disk_def)
  have commit: "\<exists>d. commit_with sample_io rec v sample_disk = (d, Inr v)" for rec and v :: "string \<times> nat"
    by (simp add: commit_with_def commit_def io backend MAX_BYTES_def)
  show ?thesis
    by (simp add: prepare_activation_def checked_def io bytes gen next_pending_def r)
      (use commit in blast)
qed

theorem activation_is_written_ahead_witness:
  "\<exists>c' g. begin_activation online_libs quiet_world 0 (KeyPrincipal ''key'') None ''operation-0123456'' online_client
      = (c', Inr (g, None, ''operation-0123456''))
    \<and> (\<exists>d p. cl_storage c' = InstalledStore d \<and> r_pending_activation (dk_record d) = Some p
         \<and> p_operation_id p = ''operation-0123456'')"
proof -
  obtain d g where d: "prepare_activation online_libs (KeyPrincipal ''key'') None None ''operation-0123456''
      sample_io sample_disk = (d, Inr (''operation-0123456'', g))" using sample_prepare by blast
  have q: "w_others quiet_world k c = c" "w_io quiet_world k = sample_io" for k c
    by (simp_all add: quiet_world_def)
  have st: "st_generation (cl_state online_client) = 0" "installed online_client"
    "authorized_offline (cl_state online_client) = None" "cl_storage online_client = InstalledStore sample_disk"
    by (simp_all add: online_client_def fresh_state_def installed_def authorized_offline_def)
  obtain c' h where run: "begin_activation online_libs quiet_world 0 (KeyPrincipal ''key'') None
      ''operation-0123456'' online_client = (c', Inr (h, None, ''operation-0123456''))"
    by (simp add: begin_activation_def abind_def lock_def q same_generation_def gets_def demand_def st
        activation_session_def of_result_def begin_installed_def checkpoint_authorized_def ret_def
        on_disk_def d modify_def)
  from activation_is_written_ahead[OF this] st(2) q(1) run show ?thesis by auto
qed

subsection \<open>Seats\<close>

definition end_sent :: "stored_credential \<Rightarrow> string \<Rightarrow> client \<Rightarrow> bool" where
  "end_sent saved sid c \<longleftrightarrow> cl_sent c \<noteq> []
     \<and> last (cl_sent c) = (session_path saved sid ''/end'', credential_body c saved)"

lemma cleanup_sends: "end_sent saved sid (fst (send_session_end_cleanup saved sid c))"
  by (simp add: send_session_end_cleanup_def end_sent_def abind_def gets_def sent_def credential_body_def)

lemma cleanup_Inr: "\<exists>c1. send_session_end_cleanup saved sid c = (c1, Inr ())"
  by (simp add: send_session_end_cleanup_def abind_def gets_def sent_def)

lemma try_act_Inr_iff: "try_act m c = (c', Inr r) \<longleftrightarrow> m c = (c', r)"
  by (auto simp: try_act_def split: prod.splits)

lemma try_act_not_Inl: "try_act m c \<noteq> (c', Inl e)"
  by (auto simp: try_act_def split: prod.splits)

lemma post_eq: "post w k path body safe c
    = (c\<lparr>cl_sent := cl_sent c @ [(path, body)]\<rparr>, Inr (w_post w k path body safe))"
  by (simp add: post_def abind_def sent_def ret_def)

lemma session_exchange_total:
  "\<exists>c' v. session_exchange L w path body saved expected started lic c = (c', Inr v)"
proof (cases "session_exchange L w path body saved expected started lic c")
  case (Pair c' x)
  have "x \<noteq> Inl e" for e
    using Pair by (auto simp: session_exchange_def abind_Inl_iff act_Inl_iff post_eq try_act_not_Inl
        split: sum.splits option.splits)
  with Pair show ?thesis by (cases x) auto
qed

lemma session_exchange_id:
  assumes "session_exchange L w path body saved (sid, sequence) started lic c = (c', Inr (Inr rt))"
  shows "sm_id (sr_metadata rt) = sid \<and> sm_sequence (sr_metadata rt) = sequence
    \<and> sg_session_id (sr_grant rt) = sid \<and> sg_sequence (sr_grant rt) = sequence
    \<and> sr_pending_sequence rt = None"
proof -
  obtain v where v: "w_post w 0 path body True = Inr (Some v)"
    using assms by (cases "w_post w 0 path body True"; cases "projr (w_post w 0 path body True)")
      (auto simp: session_exchange_def abind_Inr_iff act_Inr_iff post_eq)
  with assms obtain c1 where
    "verify_session_reply L (sub w 1) v saved (sid, sequence) started lic c1 = (c', Inr rt)"
    by (auto simp: session_exchange_def abind_Inr_iff try_act_Inr_iff post_eq)
  then obtain grant expires a where "session_runtime_of grant sid sequence expires a = Inr rt"
    by (auto simp: verify_session_reply_def Let_def abind_Inr_iff act_Inr_iff split: prod.splits)
  then show ?thesis by (auto simp: session_runtime_of_def result_simps)
qed

text \<open>A client in the middle of an attempt: its generation and the seat it asks for.  Nobody disturbs
  the attempt when the other tasks of the client leave these two alone.\<close>

definition attempting :: "64 word \<Rightarrow> string \<Rightarrow> client \<Rightarrow> bool" where
  "attempting g sid c \<longleftrightarrow> st_generation (cl_state c) = g \<and> st_pending_session_id (cl_state c) = Some sid"

definition undisturbed :: "world \<Rightarrow> 64 word \<Rightarrow> string \<Rightarrow> bool" where
  "undisturbed w g sid \<longleftrightarrow> (\<forall>k c. attempting g sid c \<longrightarrow> attempting g sid (w_others w k c))"

lemma undisturbed_sub: "undisturbed w g sid \<Longrightarrow> undisturbed (sub w n) g sid"
  by (simp add: undisturbed_def sub_def)

lemma attempting_free: "storage_free (attempting g sid)" "log_free (attempting g sid)"
  by (simp_all add: storage_free_def log_free_def attempting_def)

lemma attempting_keys: "attempting g sid (c\<lparr>cl_session_keys := ks\<rparr>) = attempting g sid c"
  by (simp add: attempting_def)

lemma attempting_lock: "undisturbed w g sid \<Longrightarrow> keeps (attempting g sid) (lock w k)"
  by (rule keeps_lock) (simp add: undisturbed_def)

lemma exchange_keeps_attempt:
  assumes "undisturbed w g sid"
  shows "keeps (attempting g sid) (session_exchange L w path body saved expected started lic)"
proof -
  have install: "keeps (attempting g sid) (\<lambda>c. (c\<lparr>cl_session_keys := ks\<rparr>, Inr ()))" for ks
    by (simp add: keeps_def attempting_keys)
  have sent: "keeps (attempting g sid) (sent path body)" for path body
    by (rule keeps_sent) (rule attempting_free)
  have fetch: "keeps (attempting g sid) (fetch_session_keys L v)" if "undisturbed v g sid" for v
    unfolding fetch_session_keys_def get_def by (intro keeps_intro sent install attempting_lock that)
  have reply: "keeps (attempting g sid) (verify_session_reply L v value saved expected started lic)"
    if "undisturbed v g sid" for v "value"
    unfolding verify_session_reply_def Let_def
    by (intro keeps_intro attempting_lock that fetch)
  show ?thesis
    unfolding session_exchange_def post_def by (intro keeps_intro sent reply undisturbed_sub assms)
qed

text \<open>What prepares an attempt leaves the client in the middle of it.\<close>

lemma attempt_id_pending:
  "attempt_id L w c = (c', Inr sid) \<Longrightarrow> st_pending_session_id (cl_state c') = Some sid
     \<and> st_generation (cl_state c') = st_generation (cl_state c)"
  by (auto simp: attempt_id_def result_simps split: option.splits if_splits)

lemma plan_session_attempting:
  assumes "plan_session L w c = (c', Inr (Inr (saved, sid, licence, body)))"
  shows "attempting (st_generation (cl_state c)) sid c'"
proof -
  from assms obtain c1 where "attempt_id L w c = (c1, Inr sid)" "c' = c1"
    by (auto simp: plan_session_def result_simps)
  then show ?thesis using attempt_id_pending by (auto simp: attempting_def)
qed

lemma prepare_session_attempting:
  assumes "prepare_session L w g explicit c = (c', Inr (Inr (saved, sid, licence, body)))"
  shows "attempting g sid c'"
proof -
  from assms obtain c1 where "plan_session L w c1 = (c', Inr (Inr (saved, sid, licence, body)))"
    "st_generation (cl_state c1) = g"
    by (auto simp: prepare_session_def same_generation_def check_cancelled_def drop_session_def result_simps
        split: if_splits)
  then show ?thesis using plan_session_attempting by blast
qed

lemma sync_same_generation:
  assumes "sync_storage io c = (c1, Inr u)" "st_generation (cl_state c1) = st_generation (cl_state c)"
  shows "cl_state c1 = cl_state c"
proof -
  have store: "store_version io c = (c2, r) \<Longrightarrow> cl_state c2 = cl_state c" for c2 r
    by (auto simp: store_version_def on_store_def split: store.splits prod.splits)
  obtain c2 r where v: "store_version io c = (c2, r)" by (cases "store_version io c")
  with assms store[OF v] show ?thesis
    by (cases r) (auto simp: sync_storage_def abind_def gets_def try_act_def modify_def fail_def
        set_version_def ret_def clear_def clear_access_def split: if_splits)
qed

text \<open>A denial that tells that the service has no such seat any more.\<close>

definition seat_is_gone :: "error \<Rightarrow> bool" where
  "seat_is_gone e \<longleftrightarrow> is_denied e \<and> err_code e \<in> settled_denials"

text \<open>What the settlement of an attempt says: whether to free the seat, and the outcome.\<close>

definition settled_well ::
    "string \<Rightarrow> bool \<Rightarrow> session_runtime result \<Rightarrow> client \<times> (snapshot result \<times> bool) result \<Rightarrow> bool" where
  "settled_well sid calm verified x \<longleftrightarrow> (\<exists>c' outcome cleanup. x = (c', Inr (outcome, cleanup)) \<and>
     (if cleanup then \<exists>e. outcome = Inl e
      else (\<exists>e. outcome = Inl e \<and> (is_transient e \<or> is_denied e)
          \<and> (calm \<longrightarrow> seat_is_gone e \<or> st_pending_session_id (cl_state c') = Some sid))
        \<or> (\<exists>snap rt. outcome = Inr snap \<and> ss_access snap = Online \<and> verified = Inr rt
             \<and> st_session (cl_state c') = Some rt)))"

lemma settled_well_cleanup: "settled_well sid calm v (c', Inr (Inl e, True))"
  unfolding settled_well_def by (intro exI conjI, rule refl) simp

lemma settled_well_refused:
  "is_transient e \<or> is_denied e \<Longrightarrow> calm \<longrightarrow> seat_is_gone e \<or> st_pending_session_id (cl_state c') = Some sid
    \<Longrightarrow> settled_well sid calm v (c', Inr (Inl e, False))"
  unfolding settled_well_def by (intro exI conjI, rule refl) simp

lemma settled_well_installed:
  "ss_access snap = Online \<Longrightarrow> st_session (cl_state c') = Some rt
    \<Longrightarrow> settled_well sid calm (Inr rt) (c', Inr (Inr snap, False))"
  unfolding settled_well_def by (intro exI conjI, rule refl) simp

lemma failed_session_well:
  assumes "calm \<longrightarrow> st_pending_session_id (cl_state c) = Some sid"
  shows "settled_well sid calm v (failed_session w e c)"
  using assms
  by (auto simp: failed_session_def abind_def modify_def ret_def seat_is_gone_def
      intro!: settled_well_cleanup settled_well_refused)

lemma install_session_well: "settled_well sid calm (Inr rt) (install_session w rt c)"
  by (simp add: install_session_def abind_def modify_def ret_def gets_def settled_well_installed
      settled_well_cleanup)

lemma settle_session_well:
  assumes "calm \<longrightarrow> attempting g sid (w_others w 20 c)"
  shows "settled_well sid calm verified (settle_session w g verified c)"
proof -
  obtain c1 s where s: "sync_storage (w_io w 20) (w_others w 20 c) = (c1, s)"
    by (cases "sync_storage (w_io w 20) (w_others w 20 c)")
  show ?thesis
  proof (cases s)
    case (Inl e)
    then show ?thesis
      by (simp add: settle_session_def abind_def lock_def try_act_def s ret_def settled_well_cleanup)
  next
    case (Inr u)
    then have run: "settle_session w g verified c =
       (if st_generation (cl_state c1) \<noteq> g then (c1, Inr (Inl StaleResponse, True))
        else if w_cancelled w 20 then
          (c1\<lparr>cl_state := (cl_state c1)\<lparr>st_pending_session_id := None\<rparr>\<rparr>, Inr (Inl Cancelled, True))
        else (case verified of Inl e \<Rightarrow> failed_session w e | Inr runtime \<Rightarrow> install_session w runtime) c1)"
      by (simp add: settle_session_def abind_def lock_def try_act_def s ret_def gets_def modify_def)
    have "calm \<longrightarrow> st_pending_session_id (cl_state c1) = Some sid" if "st_generation (cl_state c1) = g"
      using assms that sync_same_generation[OF s[unfolded Inr]] by (auto simp: attempting_def)
    with run show ?thesis
      by (cases verified) (simp_all add: settled_well_cleanup failed_session_well install_session_well)
  qed
qed

text \<open>
  C17.  Seats are not leaked.  An attempt that sent a request for a seat ends in one of three ways:
  the session is installed under the id that was asked for and shown as Online; or the service
  could not be reached or refused, and unless the refusal says that there is no such seat, the
  client still holds the id of the seat, with which the next attempt asks for the same one (as long
  as no logout or other task of the client has dropped it meanwhile); or the attempt failed locally
  (a bad reply, a cancelled call, a logout meanwhile, a doubtful clock), and the last thing sent
  is the request that ends that very session.
\<close>

theorem no_seat_is_leaked:
  assumes "start_session_serialized L w g explicit c = (c', r)"
    and "prepare_session L w g explicit c = (c1, Inr (Inr (saved, sid, licence, body)))"
  shows "(\<exists>snap rt. r = Inr snap \<and> ss_access snap = Online \<and> st_session (cl_state c') = Some rt
        \<and> sm_id (sr_metadata rt) = sid)
    \<or> (\<exists>e. r = Inl e \<and> (is_transient e \<or> is_denied e)
        \<and> (undisturbed w g sid \<longrightarrow> seat_is_gone e \<or> st_pending_session_id (cl_state c') = Some sid))
    \<or> (\<exists>e. r = Inl e \<and> end_sent saved sid c')"
proof (cases "start_capture (w_tick w 3)")
  case (Inl e)
  obtain c2 where c2: "send_session_end_cleanup saved sid
      ((w_others w 3 c1)\<lparr>cl_state := (if st_generation (cl_state (w_others w 3 c1)) = g
        then disable_session (cl_state (w_others w 3 c1)) else cl_state (w_others w 3 c1))\<rparr>) = (c2, Inr ())"
    using cleanup_Inr by blast
  have "start_session_serialized L w g explicit c = (c2, Inl e)"
    using c2 by (simp add: start_session_serialized_def abind_def assms(2) guarded_def Inl guard_drop_def
        lock_def modify_def fail_def)
  with assms(1) c2 cleanup_sends[of saved sid] show ?thesis by (metis Pair_inject fst_conv)
next
  case (Inr started)
  obtain c2 verified where ex: "session_exchange L (sub w 4) (activation_path saved ''/sessions'') body saved
      (sid, 1) started licence c1 = (c2, Inr verified)" using session_exchange_total by blast
  have calm: "undisturbed w g sid \<longrightarrow> attempting g sid (w_others w 20 c2)"
    using keepsD[OF exchange_keeps_attempt[OF undisturbed_sub] prepare_session_attempting[OF assms(2)] ex]
    by (auto simp: undisturbed_def)
  obtain c3 outcome cleanup where st: "settle_session w g verified c2 = (c3, Inr (outcome, cleanup))"
    and out: "if cleanup then \<exists>e. outcome = Inl e
      else (\<exists>e. outcome = Inl e \<and> (is_transient e \<or> is_denied e)
          \<and> (undisturbed w g sid \<longrightarrow> seat_is_gone e \<or> st_pending_session_id (cl_state c3) = Some sid))
        \<or> (\<exists>snap rt. outcome = Inr snap \<and> ss_access snap = Online \<and> verified = Inr rt
             \<and> st_session (cl_state c3) = Some rt)"
    using settle_session_well[OF calm, of verified] unfolding settled_well_def by blast
  obtain c4 where c4: "send_session_end_cleanup saved sid c3 = (c4, Inr ())" using cleanup_Inr by blast
  have run: "start_session_serialized L w g explicit c = (if cleanup then c4 else c3, outcome)"
    by (simp add: start_session_serialized_def abind_def assms(2) guarded_def Inr ret_def
        ex[unfolded One_nat_def] st c4 of_result_def)
  show ?thesis
  proof (cases cleanup)
    case True
    with run assms(1) have "c' = c4" "r = outcome" by auto
    with True out cleanup_sends[of saved sid c3] c4 show ?thesis by auto
  next
    case False
    with run assms(1) have "c' = c3" "r = outcome" by auto
    with out False session_exchange_id[of L "sub w 4" _ body saved sid 1 started licence c1 c2] ex
    show ?thesis by auto
  qed
qed

text \<open>The next attempt asks for the same seat, unless the pending one is two minutes old.\<close>

lemma next_attempt_repeats:
  "st_pending_session_id (cl_state c) = Some sid \<Longrightarrow> \<not> pending_expired (cl_state c) (w_tick w 1)
     \<Longrightarrow> snd (attempt_id L w c) = Inr sid"
  by (simp add: attempt_id_def abind_def modify_def gets_def ret_def)

definition seat_saved :: stored_credential where
  "seat_saved = \<lparr>sc_application_id = ''app'', sc_environment_id = ''env'', sc_activation_id = ''act'',
     sc_licence_id = ''licence'', sc_installation_id = replicate 16 CHR ''i'', sc_credential = ''secret'',
     sc_credential_expires_at = None, sc_fingerprint = None, sc_fingerprint_provider = None\<rparr>"

text \<open>A client that repeats a request for a seat whose reply was lost.\<close>

definition seat_client :: client where
  "seat_client = online_client\<lparr>cl_state :=
     (fresh_state 0 (Some seat_saved))\<lparr>st_pending_session_id := Some ''seat''\<rparr>\<rparr>"

lemma seat_sync: "sync_storage sample_io seat_client = (seat_client, Inr ())"
  by (simp add: action_defs seat_client_def online_client_def installed_version_def checked_def
      sample_io_def fresh_state_def) (simp add: sample_disk_def sample_record_def fresh_record_def)

lemma quiet_points:
  "w_others quiet_world k c = c" "w_io quiet_world k = sample_io" "w_cancelled quiet_world k = False"
  "w_tick quiet_world k = sample_tick" "w_post quiet_world k = (\<lambda>_ _ _. Inl (Transient None None))"
  by (simp_all add: quiet_world_def)

lemmas seat_state_defs = seat_client_def fresh_state_def authorized_offline_def pending_expired_def

lemma seat_state [simp]:
  "st_session (cl_state seat_client) = None" "authorized_offline (cl_state seat_client) = None"
  "st_generation (cl_state seat_client) = 0" "\<not> st_session_disabled (cl_state seat_client)"
  "\<not> st_session_policy_known (cl_state seat_client)" "st_credential (cl_state seat_client) = Some seat_saved"
  "st_pending_session_id (cl_state seat_client) = Some ''seat''" "\<not> pending_expired (cl_state seat_client) t"
  "st_session_licence_expires_at (cl_state seat_client) = None"
  by (simp_all add: seat_state_defs)

lemma seat_state_again:
  "seat_client\<lparr>cl_state := (cl_state seat_client)\<lparr>st_session_disabled := False,
     st_session_retry_deadline := None\<rparr>\<rparr> = seat_client"
  by (simp add: seat_state_defs)

lemma seat_modify_id: "modify (\<lambda>s. s) c = (c, Inr ())"
  by (simp add: modify_def)

lemma seat_attempt: "attempt_id L quiet_world seat_client = (seat_client, Inr ''seat'')"
  by (simp add: attempt_id_def abind_def modify_def gets_def ret_def)

lemma seat_plan:
  "\<exists>body. plan_session L quiet_world seat_client = (seat_client, Inr (Inr (seat_saved, ''seat'', None, body)))"
  by (simp add: plan_session_def abind_def gets_def demand_def of_result_def ret_def seat_attempt)

lemma seat_prepared:
  "\<exists>body. prepare_session L quiet_world 0 True seat_client
     = (seat_client, Inr (Inr (seat_saved, ''seat'', None, body)))"
proof -
  obtain body where plan: "plan_session L quiet_world seat_client
      = (seat_client, Inr (Inr (seat_saved, ''seat'', None, body)))" using seat_plan by blast
  show ?thesis
    by (simp add: prepare_session_def abind_def lock_def quiet_points seat_sync same_generation_def
        check_cancelled_def demand_def gets_def modify_def ret_def seat_state_again plan
        del: split_paired_Ex)
qed

lemma seat_undisturbed: "undisturbed quiet_world g sid"
  by (simp add: undisturbed_def quiet_points)

text \<open>The service cannot be reached: the attempt fails and can be repeated.\<close>

lemma seat_attempt_fails:
  "\<exists>c'. start_session_serialized L quiet_world 0 True seat_client = (c', Inl (Transient None None))"
proof -
  obtain body where p: "prepare_session L quiet_world 0 True seat_client
     = (seat_client, Inr (Inr (seat_saved, ''seat'', None, body)))" using seat_prepared by blast
  have start: "start_capture sample_tick = Inr \<lparr>start_elapsed = 100000000000, start_wall = 5000\<rparr>"
    by (simp add: start_capture_def sample_tick_def elapsed_clock_def wall_def checked_i64_def i64_defs)
  let ?c = "\<lambda>path. seat_client\<lparr>cl_sent := cl_sent seat_client @ [(path, body)]\<rparr>"
  have sync: "sync_storage sample_io (?c path) = (?c path, Inr ())" for path
    by (simp add: action_defs seat_client_def online_client_def installed_version_def checked_def
        sample_io_def fresh_state_def) (simp add: sample_disk_def sample_record_def fresh_record_def)
  show ?thesis
    by (simp add: start_session_serialized_def abind_def p guarded_def quiet_points start ret_def
        session_exchange_def post_eq sub_def settle_session_def lock_def try_act_def sync gets_def
        failed_session_def modify_def of_result_def)
qed

theorem no_seat_is_leaked_witness:
  "\<exists>c'. start_session_serialized sample_libs quiet_world 0 True seat_client = (c', Inl (Transient None None))
    \<and> (st_pending_session_id (cl_state c') = Some ''seat'' \<or> end_sent seat_saved ''seat'' c')"
proof -
  obtain c' where run: "start_session_serialized sample_libs quiet_world 0 True seat_client
      = (c', Inl (Transient None None))" using seat_attempt_fails by blast
  obtain body where "prepare_session sample_libs quiet_world 0 True seat_client
     = (seat_client, Inr (Inr (seat_saved, ''seat'', None, body)))" using seat_prepared by blast
  from no_seat_is_leaked[OF run this] run seat_undisturbed show ?thesis by (auto simp: seat_is_gone_def)
qed

end
