(* ===== verification/Transport.thy ===== *)
theory Transport
  imports Limits
begin

text \<open>
  The HTTP transport (\<open>transport.rs\<close>): which paths may be requested, how one attempt's response
  is read and classified, when a request is repeated, and how cancellation and the overall time
  limit cut in.  The HTTP client is third-party: what it returns for each attempt is an input.
\<close>

definition MAX_BYTES_BODY :: nat where "MAX_BYTES_BODY = 64 * 1024"
definition OPERATION_TIMEOUT :: duration where "OPERATION_TIMEOUT = from_secs 30"
definition CLIENT_PREFIX :: string where "CLIENT_PREFIX = ''/api/client/v1/''"
definition JWKS_PATH :: string where "JWKS_PATH = ''/.well-known/orbit-jwks.json''"
definition LICENCES_PATH :: string where "LICENCES_PATH = ''/api/client/v1/licences''"
definition CURRENT_PATH :: string where "CURRENT_PATH = ''/api/client/v1/sessions/current''"

subsection \<open>Endpoints\<close>

text \<open>\<open>Transport::new\<close>, \<open>local_loopback\<close>: the base URL of a transport; its HTTP client is third-party.\<close>

definition transport_new :: "('x) external_scheme \<Rightarrow> string \<Rightarrow> url result" where
  "transport_new X base = origin X base ''https''"

definition local_loopback :: "('x) external_scheme \<Rightarrow> string \<Rightarrow> url result" where
  "local_loopback X base = validate_local_origin X base"

definition canonical_origin :: "url \<Rightarrow> string" where "canonical_origin base = url_origin base"

definition contains_any :: "char set \<Rightarrow> string \<Rightarrow> bool" where
  "contains_any cs s = list_ex (\<lambda>c. c \<in> cs) s"

definition route_of :: "string \<Rightarrow> string \<times> string option" where
  "route_of path = (case split_once CHR ''?'' path of
       None \<Rightarrow> (path, None) | Some (route, query) \<Rightarrow> (route, Some query))"

definition bad_pair :: "string \<times> string \<Rightarrow> bool" where
  "bad_pair kv = (case kv of (_, v) \<Rightarrow> v = [] \<or> length v > 128
     \<or> \<not> list_all (\<lambda>c. is_alphanumeric c \<or> c = CHR ''_'' \<or> c = CHR ''-'') v)"

definition bad_query :: "string \<Rightarrow> (string \<times> string) list \<Rightarrow> bool" where
  "bad_query route pairs =
     (let with_cursor = route = LICENCES_PATH \<and> length pairs = 3
      in (length pairs \<noteq> 2 \<and> \<not> with_cursor)
         \<or> fst (pairs ! 0) \<noteq> ''application_id''
         \<or> fst (pairs ! 1) \<noteq> ''environment_id''
         \<or> (with_cursor \<and> fst (pairs ! 2) \<noteq> ''after'')
         \<or> list_ex bad_pair pairs)"

definition endpoint :: "('x) external_scheme \<Rightarrow> url \<Rightarrow> string \<Rightarrow> url result" where
  "endpoint X base path =
     (case route_of path of (route, query) \<Rightarrow>
      rbind (ensure Configuration (\<not> (length path > 2048
         \<or> \<not> (starts_with route CLIENT_PREFIX \<or> route = JWKS_PATH)
         \<or> contains_str path ''//''
         \<or> contains_any {CHR 0x5C, CHR ''#''} path
         \<or> \<not> no_control_or_whitespace path
         \<or> (query \<noteq> None \<and> route \<notin> {JWKS_PATH, LICENCES_PATH, CURRENT_PATH})))) (\<lambda>_.
      rbind (ok_or Configuration (url_join X base path)) (\<lambda>u.
      rbind (ensure Configuration (\<not> (url_origin u \<noteq> url_origin base
         \<or> url_path u \<noteq> route \<or> url_fragment u \<noteq> None))) (\<lambda>_.
      rbind (ensure Configuration (\<not> (query \<noteq> None \<and> bad_query route (url_pairs u)))) (\<lambda>_.
        Inr u)))))"

text \<open>\<open>download_endpoint\<close>: the authority is checked in the raw text before the URL is parsed.\<close>

definition raw_port :: "string \<Rightarrow> string option result" where
  "raw_port authority =
     (case strip_prefix ''['' authority of
        Some bracketed \<Rightarrow>
          rbind (ok_or Configuration (split_once CHR '']'' bracketed)) (\<lambda>(address, suffix).
          rbind (ensure Configuration (parse_ipv6 address \<noteq> None)) (\<lambda>_.
            if suffix = [] then Inr None
            else if starts_with suffix '':'' then Inr (Some (tl suffix))
            else Inl Configuration))
      | None \<Rightarrow>
          rbind (ensure Configuration (\<not> contains_any {CHR ''['', CHR '']''} authority)) (\<lambda>_.
            (case split_once CHR '':'' authority of
               Some (host, port) \<Rightarrow>
                 if host \<noteq> [] \<and> CHR '':'' \<notin> set port then Inr (Some port) else Inl Configuration
             | None \<Rightarrow> Inr None)))"

definition good_port :: "string \<Rightarrow> bool" where
  "good_port p \<longleftrightarrow> p \<noteq> [] \<and> list_all is_digit p
     \<and> (let n = number_value 10 p in n \<le> 65535 \<and> n \<noteq> 0)"

definition download_endpoint :: "('x) external_scheme \<Rightarrow> string \<Rightarrow> url result" where
  "download_endpoint X value =
     rbind (ok_or Configuration (strip_prefix ''https://'' value)) (\<lambda>rest.
     rbind (ensure Configuration (\<not> (\<not> no_control_or_whitespace value
        \<or> contains_any {CHR 0x5C, CHR ''?'', CHR ''#''} value))) (\<lambda>_.
     let authority = takeWhile (\<lambda>c. c \<notin> {CHR ''/'', CHR ''?'', CHR ''#''}) rest in
     rbind (ensure Configuration (\<not> (authority = []
        \<or> contains_any {CHR ''@'', CHR ''%'', CHR 0x5C} authority))) (\<lambda>_.
     rbind (raw_port authority) (\<lambda>port.
     rbind (ensure Configuration (none_or good_port port)) (\<lambda>_.
     rbind (ok_or Configuration (url_parse X value)) (\<lambda>parsed.
     rbind (ensure Configuration (\<not> (url_scheme parsed \<noteq> ''https''
         \<or> url_host parsed = None
         \<or> url_username parsed \<noteq> []
         \<or> url_password parsed \<noteq> None
         \<or> url_query parsed \<noteq> None
         \<or> url_fragment parsed \<noteq> None))) (\<lambda>_.
       Inr parsed)))))))"

subsection \<open>One attempt\<close>

text \<open>What the HTTP client reports: an error with its chain of causes, or a response whose body
  arrives in chunks and may break off.\<close>

datatype io_kind = ConnectionRefused | ConnectionReset | NetworkUnreachable | HostUnreachable
  | TimedOut | OtherKind

datatype cause = ResolutionFailed | IoCause io_kind | OtherCause

record request_error =
  re_timeout :: bool
  re_sources :: "cause list"

record response =
  rs_status :: nat
  rs_retry_after :: "string option"
  rs_content_length :: "nat option"
  rs_chunks :: "(request_error + string) list"

record attempt_failure =
  af_error :: error
  af_retry_after :: "duration option"

definition invalid_attempt :: attempt_failure where
  "invalid_attempt = \<lparr>af_error = InvalidResponse, af_retry_after = None\<rparr>"

fun outage :: "cause \<Rightarrow> bool" where
  "outage ResolutionFailed = True"
| "outage (IoCause k) = (k \<noteq> OtherKind)"
| "outage OtherCause = False"

fun any_outage :: "bool \<Rightarrow> cause list \<Rightarrow> bool" where
  "any_outage found [] = found"
| "any_outage found (c # cs) = any_outage (found \<or> outage c) cs"

definition transport_failure :: "request_error \<Rightarrow> attempt_failure" where
  "transport_failure e =
     \<lparr>af_error = (if any_outage (re_timeout e) (re_sources e) then transient else TransportSecurity),
      af_retry_after = None\<rparr>"

definition retry_after_of :: "string option \<Rightarrow> duration option" where
  "retry_after_of hdr =
     map_option (\<lambda>v. from_secs (let n = number_value 10 v in if n < 2 ^ 64 then n else 2 ^ 64 - 1))
       (filter_opt (\<lambda>v. v \<noteq> [] \<and> list_all is_digit v) hdr)"

fun read_body :: "string \<Rightarrow> (request_error + string) list \<Rightarrow> attempt_failure + string" where
  "read_body acc [] = Inr acc"
| "read_body acc (Inl e # rest) = Inl (transport_failure e)"
| "read_body acc (Inr chunk # rest) =
     (if length chunk > MAX_BYTES_BODY - length acc then Inl invalid_attempt
      else read_body (acc @ chunk) rest)"

definition is_success :: "nat \<Rightarrow> bool" where "is_success s \<longleftrightarrow> 200 \<le> s \<and> s < 300"
definition is_server_error :: "nat \<Rightarrow> bool" where "is_server_error s \<longleftrightarrow> 500 \<le> s \<and> s < 600"

definition has_orbit_error_member :: "('x) external_scheme \<Rightarrow> string \<Rightarrow> bool" where
  "has_orbit_error_member X bytes =
     some_and (\<lambda>m. contains_key m ''error'') (Option.bind (from_slice_value X bytes) as_object)"

definition unique_value :: "('x) external_scheme \<Rightarrow> string \<Rightarrow> attempt_failure + json option" where
  "unique_value X bytes =
     rbind (ok_or invalid_attempt (from_slice_unique X bytes)) (\<lambda>v. Inr (Some v))"

definition capacity_codes :: "string set" where
  "capacity_codes = {''usage_limit_reached'', ''resource_limit_reached''}"

text \<open>The error a checked envelope stands for.\<close>

definition denied_error :: "nat \<Rightarrow> string \<Rightarrow> string \<Rightarrow> error" where
  "denied_error status code request_id =
     (if status = 403 \<and> code = ''app_version_unsupported'' then AppVersionUnsupported (Some request_id)
      else if (status = 429 \<and> code = ''rate_limited'') \<or> (status = 503 \<and> code = ''service_unavailable'')
        then Transient (Some code) (Some request_id)
      else Denied code (Some request_id))"

text \<open>The third-party decoder of the error envelope: its code, message and request id.\<close>

type_synonym envelopes = "string \<Rightarrow> (string \<times> string \<times> string) option"

definition classify_error ::
    "('x) external_scheme \<Rightarrow> envelopes \<Rightarrow> string \<Rightarrow> nat \<Rightarrow> duration option \<Rightarrow> string
      \<Rightarrow> attempt_failure + json option" where
  "classify_error X de path status retry_after bytes =
     rbind (ok_or invalid_attempt (de bytes)) (\<lambda>(code, message, request_id).
     rbind (ensure invalid_attempt (\<not> (\<not> valid_code code \<or> message = [] \<or> \<not> valid_request_id request_id))) (\<lambda>_.
     rbind (ensure invalid_attempt (\<not> (service_route path \<and> status \<noteq> 409 \<and> code \<in> capacity_codes))) (\<lambda>_.
       if service_route path \<and> status = 409 \<and> code \<in> capacity_codes then unique_value X bytes
       else Inl \<lparr>af_error = denied_error status code request_id, af_retry_after = retry_after\<rparr>)))"

definition classify ::
    "('x) external_scheme \<Rightarrow> envelopes \<Rightarrow> string \<Rightarrow> nat \<Rightarrow> duration option \<Rightarrow> string
      \<Rightarrow> attempt_failure + json option" where
  "classify X de path status retry_after bytes =
     (if service_route path \<and> is_success status \<and> status \<noteq> 200 then Inl invalid_attempt
      else if status = 204 then (if bytes = [] then Inr None else Inl invalid_attempt)
      else if is_success status then
        (if service_route path \<and> has_orbit_error_member X bytes then Inl invalid_attempt
         else unique_value X bytes)
      else if 502 \<le> status \<and> status \<le> 504 \<and> \<not> has_orbit_error_member X bytes
        then Inl \<lparr>af_error = transient, af_retry_after = retry_after\<rparr>
      else if status \<notin> {401, 403, 404, 409, 422, 429} \<and> \<not> is_server_error status
        then Inl invalid_attempt
      else classify_error X de path status retry_after bytes)"

definition attempt ::
    "('x) external_scheme \<Rightarrow> envelopes \<Rightarrow> string \<Rightarrow> request_error + response \<Rightarrow> attempt_failure + json option" where
  "attempt X de path outcome =
     (case outcome of
        Inl e \<Rightarrow> Inl (transport_failure e)
      | Inr r \<Rightarrow>
          rbind (ensure invalid_attempt (\<not> some_and (\<lambda>n. n > MAX_BYTES_BODY) (rs_content_length r))) (\<lambda>_.
          rbind (read_body [] (rs_chunks r)) (\<lambda>bytes.
            classify X de path (rs_status r) (retry_after_of (rs_retry_after r)) bytes)))"

subsection \<open>Repeating and cancelling\<close>

text \<open>What one request meets: the outcome of each attempt, the random byte after it and the time
  elapsed since the first, and how cancellation and the overall time limit cut in.\<close>

datatype race = Finished | OutOfTime | Interrupted

record net =
  nt_send :: "nat \<Rightarrow> request_error + response"
  nt_entropy :: "nat \<Rightarrow> nat option"
  nt_elapsed :: "nat \<Rightarrow> duration"
  nt_cancelled :: bool            \<comment> \<open>before the request\<close>
  nt_race :: race
  nt_cancelled_after :: bool

definition backoff :: "nat \<Rightarrow> nat \<Rightarrow> duration" where
  "backoff attempt_no entropy = (250 + entropy) * 2 ^ attempt_no * 1000000"

text \<open>The delays slept before each repetition, and the outcome.\<close>

fun retry_over ::
    "(request_error + response \<Rightarrow> attempt_failure + json option) \<Rightarrow> net \<Rightarrow> bool \<Rightarrow> nat list
      \<Rightarrow> duration list \<times> json option result" where
  "retry_over f net safe [] = ([], Inl transient)"
| "retry_over f net safe (a # rest) =
     (case f (nt_send net a) of
        Inr v \<Rightarrow> ([], Inr v)
      | Inl fl \<Rightarrow>
          if \<not> safe \<or> a = 2 \<or> \<not> is_transient (af_error fl) then ([], Inl (af_error fl))
          else (case nt_entropy net a of
              None \<Rightarrow> ([], Inl TransportSecurity)
            | Some b \<Rightarrow>
               (let delay = max (backoff a b) (or_else (af_retry_after fl) 0);
                    remaining = OPERATION_TIMEOUT - nt_elapsed net a
                in if delay \<ge> remaining then ([], Inl (af_error fl))
                   else (case retry_over f net safe rest of (ds, r) \<Rightarrow> (delay # ds, r)))))"

definition retry ::
    "('x) external_scheme \<Rightarrow> envelopes \<Rightarrow> net \<Rightarrow> string \<Rightarrow> bool \<Rightarrow> duration list \<times> json option result" where
  "retry X de net path safe = retry_over (attempt X de path) net safe [0, 1, 2]"

definition authorization :: "string \<Rightarrow> string result" where
  "authorization token =
     (if token = [] \<or> length token > 256
         \<or> \<not> list_all (\<lambda>c. is_alphanumeric c \<or> c = CHR ''_'' \<or> c = CHR ''-'') token
      then Inl Configuration else Inr (''Bearer '' @ token))"

definition send_request ::
    "('x) external_scheme \<Rightarrow> envelopes \<Rightarrow> net \<Rightarrow> url \<Rightarrow> string \<Rightarrow> string option \<Rightarrow> bool \<Rightarrow> json option result" where
  "send_request X de net base path bearer_token retry_safe =
     rbind (ensure Cancelled (\<not> nt_cancelled net)) (\<lambda>_.
     rbind (endpoint X base path) (\<lambda>u.
     rbind (opt_traverse authorization bearer_token) (\<lambda>_.
     let result = (case nt_race net of
           Interrupted \<Rightarrow> Inl Cancelled
         | OutOfTime \<Rightarrow> Inl transient
         | Finished \<Rightarrow> snd (retry X de net (url_path u) retry_safe))
     in if nt_cancelled_after net then Inl Cancelled else result)))"

definition get_with_cancel where
  "get_with_cancel X de net base path = send_request X de net base path None True"

definition get_bearer_with_cancel where
  "get_bearer_with_cancel X de net base path token =
     rbind (ensure Configuration (hd (split_on CHR ''?'' path) \<in> {LICENCES_PATH, CURRENT_PATH})) (\<lambda>_.
       send_request X de net base path (Some token) True)"

definition delete_bearer_with_cancel where
  "delete_bearer_with_cancel X de net base path token =
     rbind (ensure Configuration (hd (split_on CHR ''?'' path) = CURRENT_PATH)) (\<lambda>_.
       send_request X de net base path (Some token) False)"

text \<open>\<open>LimitedBody\<close>: the serialiser writes the body in pieces into a buffer of bounded size.\<close>

definition limited_write :: "string \<Rightarrow> string \<Rightarrow> string result" where
  "limited_write buffer bytes =
     (if length bytes > MAX_BYTES_BODY - length buffer then Inl Configuration else Inr (buffer @ bytes))"

fun write_all :: "string \<Rightarrow> string list \<Rightarrow> string result" where
  "write_all buffer [] = Inr buffer"
| "write_all buffer (piece # rest) = rbind (limited_write buffer piece) (\<lambda>b. write_all b rest)"

definition encode_body :: "(json \<Rightarrow> string list option) \<Rightarrow> json \<Rightarrow> string result" where
  "encode_body pieces body =
     rbind (ok_or Configuration (pieces body)) (\<lambda>ps. write_all [] ps)"

definition post_with_cancel where
  "post_with_cancel X de pieces net base path body retry_safe =
     rbind (ensure Cancelled (\<not> nt_cancelled net)) (\<lambda>_.
     rbind (encode_body pieces body) (\<lambda>_.
       send_request X de net base path None retry_safe))"

definition post_cleanup ::
    "('x) external_scheme \<Rightarrow> envelopes \<Rightarrow> (json \<Rightarrow> string list option) \<Rightarrow> net \<Rightarrow> url \<Rightarrow> string \<Rightarrow> json
      \<Rightarrow> json option result" where
  "post_cleanup X de pieces net base path body =
     rbind (ensure Configuration (\<not> (\<not> starts_with path CLIENT_PREFIX
        \<or> \<not> contains_str path ''/sessions/'' \<or> \<not> ends_with path ''/end''))) (\<lambda>_.
     rbind (endpoint X base path) (\<lambda>u.
     rbind (encode_body pieces body) (\<lambda>_.
       (case nt_race net of
          OutOfTime \<Rightarrow> Inl transient
        | _ \<Rightarrow> (case attempt X de (url_path u) (nt_send net 0) of
              Inl fl \<Rightarrow> Inl (af_error fl) | Inr v \<Rightarrow> Inr v)))))"

end
