(* ===== verification/Delivery.thy ===== *)
theory Delivery
  imports Transport Samples
begin

text \<open>
  What the transport guarantees: how often and when a request is repeated, which responses count
  as an answer of the service, a denial or an outage, and where requests can go.
\<close>

subsection \<open>Repetition\<close>

text \<open>The wait that the code computes after a failed attempt: the backoff, or the server's
  Retry-After when that is longer.\<close>

definition wait_of :: "attempt_failure \<Rightarrow> nat \<Rightarrow> nat \<Rightarrow> duration" where
  "wait_of fl i b = max (backoff i b) (or_else (af_retry_after fl) 0)"

text \<open>What one delay of a run is: the wait after attempt \<open>i\<close>, which failed transiently.\<close>

definition fair_delay ::
    "(request_error + response \<Rightarrow> attempt_failure + json option) \<Rightarrow> net \<Rightarrow> nat \<Rightarrow> duration \<Rightarrow> bool" where
  "fair_delay f net i d \<longleftrightarrow> (\<exists>fl b. f (nt_send net i) = Inl fl \<and> is_transient (af_error fl)
     \<and> nt_entropy net i = Some b \<and> d = wait_of fl i b
     \<and> nt_elapsed net i + d < OPERATION_TIMEOUT)"

text \<open>A run may end after attempt \<open>i\<close> only for one of these reasons: it was answered, it may not be
  repeated (unsafe, or the third), it did not fail transiently, the random generator failed, or
  the wait would not end within the time of the operation.\<close>

definition may_stop ::
    "(request_error + response \<Rightarrow> attempt_failure + json option) \<Rightarrow> net \<Rightarrow> bool \<Rightarrow> nat \<Rightarrow> bool" where
  "may_stop f net safe i = (case f (nt_send net i) of
       Inr v \<Rightarrow> True
     | Inl fl \<Rightarrow> \<not> safe \<or> i = 2 \<or> \<not> is_transient (af_error fl)
         \<or> (case nt_entropy net i of None \<Rightarrow> True
            | Some b \<Rightarrow> OPERATION_TIMEOUT \<le> nt_elapsed net i + wait_of fl i b))"

text \<open>The outcome of a run whose last attempt is \<open>i\<close>: its value or its error; \<open>TransportSecurity\<close>
  instead only when the attempt had to be repeated and the random generator failed.\<close>

definition settled_by ::
    "(request_error + response \<Rightarrow> attempt_failure + json option) \<Rightarrow> net \<Rightarrow> bool \<Rightarrow> nat \<Rightarrow> json option result \<Rightarrow> bool" where
  "settled_by f net safe i r = (case f (nt_send net i) of
       Inr v \<Rightarrow> r = Inr v
     | Inl fl \<Rightarrow> r = Inl (if safe \<and> i \<noteq> 2 \<and> is_transient (af_error fl) \<and> nt_entropy net i = None
         then TransportSecurity else af_error fl))"

text \<open>A step of the loop: what the head of the remaining attempts does.\<close>

lemma retry_over_cases:
  assumes "retry_over f net safe (a # rest) = (ds, r)"
  shows "(ds = [] \<and> settled_by f net safe a r \<and> may_stop f net safe a)
    \<or> (\<exists>d ds'. ds = d # ds' \<and> safe \<and> a \<noteq> 2 \<and> fair_delay f net a d \<and> retry_over f net safe rest = (ds', r))"
proof (cases "f (nt_send net a)")
  case (Inr v)
  with assms show ?thesis by (simp add: settled_by_def may_stop_def)
next
  case (Inl fl)
  show ?thesis
  proof (cases "\<not> safe \<or> a = 2 \<or> \<not> is_transient (af_error fl)")
    case True
    with Inl assms show ?thesis by (auto simp: settled_by_def may_stop_def)
  next
    case again: False
    show ?thesis
    proof (cases "nt_entropy net a")
      case None
      with Inl again assms show ?thesis by (simp add: settled_by_def may_stop_def)
    next
      case (Some b)
      let ?d = "wait_of fl a b"
      show ?thesis
      proof (cases "?d \<ge> OPERATION_TIMEOUT - nt_elapsed net a")
        case True
        with Inl again Some assms show ?thesis by (simp add: settled_by_def may_stop_def wait_of_def)
      next
        case False
        then have "fair_delay f net a ?d" using Inl again Some by (simp add: fair_delay_def)
        with Inl again Some False assms show ?thesis by (auto simp: Let_def wait_of_def split: prod.splits)
      qed
    qed
  qed
qed

text \<open>
  C22.  Requests are repeated at most twice.  A request sleeps at most twice, never when it is not
  safe to repeat, and only after an attempt that failed transiently; every delay is the backoff or
  the server's Retry-After, whichever is longer, and ends within the thirty seconds of the
  operation.  The request ends after an attempt only when it was answered, may not be repeated or
  has no time left, and its outcome is exactly that of this last attempt; only when an attempt was
  to be repeated and the random generator failed is the outcome \<open>TransportSecurity\<close>.
\<close>

theorem retry_is_bounded:
  assumes "retry X de net path safe = (ds, r)"
  shows "length ds \<le> 2 \<and> (safe \<or> ds = [])
    \<and> (\<forall>i < length ds. fair_delay (attempt X de path) net i (ds ! i))
    \<and> may_stop (attempt X de path) net safe (length ds)
    \<and> settled_by (attempt X de path) net safe (length ds) r"
proof -
  let ?f = "attempt X de path"
  have last: "ds' = [] \<and> settled_by ?f net safe 2 r \<and> may_stop ?f net safe 2"
    if "retry_over ?f net safe [2] = (ds', r)" for ds' using retry_over_cases[OF that] by auto
  have second: "(ds' = [] \<and> settled_by ?f net safe 1 r \<and> may_stop ?f net safe 1)
      \<or> (\<exists>d. ds' = [d] \<and> safe \<and> fair_delay ?f net 1 d \<and> settled_by ?f net safe 2 r \<and> may_stop ?f net safe 2)"
    if "retry_over ?f net safe [1, 2] = (ds', r)" for ds' using retry_over_cases[OF that] last by auto
  from assms have "retry_over ?f net safe [0, 1, 2] = (ds, r)" by (simp add: retry_def)
  from retry_over_cases[OF this] second show ?thesis
    by (auto simp del: retry_over.simps simp: less_Suc_eq nth_Cons numeral_2_eq_2 split: nat.splits)
qed

definition unavailable_net :: net where
  "unavailable_net = \<lparr>nt_send = (\<lambda>i. if i < 2 then Inl \<lparr>re_timeout = True, re_sources = []\<rparr>
        else Inr \<lparr>rs_status = 204, rs_retry_after = None, rs_content_length = None, rs_chunks = []\<rparr>),
     nt_entropy = (\<lambda>_. Some 7), nt_elapsed = (\<lambda>_. 0), nt_cancelled = False, nt_race = Finished,
     nt_cancelled_after = False\<rparr>"

lemma unavailable_attempt:
  "attempt X de path (nt_send unavailable_net 0) = Inl \<lparr>af_error = transient, af_retry_after = None\<rparr>"
  "attempt X de path (nt_send unavailable_net (Suc 0)) = Inl \<lparr>af_error = transient, af_retry_after = None\<rparr>"
  "\<not> service_route path \<Longrightarrow> attempt X de path (nt_send unavailable_net 2) = Inr None"
  by (simp_all add: attempt_def unavailable_net_def transport_failure_def classify_def retry_after_of_def)

lemma not_service: "\<not> service_route ''/api/client/v1/licences''"
  by (simp add: service_route_def starts_with_def)

lemma unavailable_retry:
  "retry X de unavailable_net ''/api/client/v1/licences'' True
    = ([257000000, 514000000], Inr None)"
  using unavailable_attempt(1,2)[of X de "''/api/client/v1/licences''"] unavailable_attempt(3)[OF not_service, of X de]
  by (simp add: retry_def transient_def)
    (simp add: unavailable_net_def backoff_def OPERATION_TIMEOUT_def from_secs_def)

theorem retry_is_bounded_witness:
  "retry sample_libs (\<lambda>_. None) unavailable_net ''/api/client/v1/licences'' True = ([257000000, 514000000], Inr None)
   \<and> length [257000000, 514000000 :: nat] \<le> 2"
  using retry_is_bounded[OF unavailable_retry] unavailable_retry by simp

text \<open>
  C23.  A short outage is survived.  A repeatable request whose first or first two attempts fail
  transiently, and whose next attempt is answered, succeeds with that answer, after one wait for
  each failure: as long as each failure came within 28 seconds of the start, the server's
  Retry-After, if it sent one, ended within the thirty seconds, and the random generator worked.
\<close>

theorem short_outage_is_survived:
  assumes "k \<le> 2" and "attempt X de path (nt_send net k) = Inr v"
    and "\<And>i. i < k \<Longrightarrow> \<exists>fl b. attempt X de path (nt_send net i) = Inl fl \<and> is_transient (af_error fl)
      \<and> nt_entropy net i = Some b \<and> b < 256 \<and> nt_elapsed net i \<le> from_secs 28
      \<and> nt_elapsed net i + or_else (af_retry_after fl) 0 < from_secs 30"
  shows "snd (retry X de net path True) = Inr v \<and> length (fst (retry X de net path True)) = k"
proof -
  let ?f = "attempt X de path"
  have step: "snd (retry_over ?f net True (i # rest)) = snd (retry_over ?f net True rest)
      \<and> length (fst (retry_over ?f net True (i # rest))) = Suc (length (fst (retry_over ?f net True rest)))"
    if "i < k" for i rest
  proof -
    obtain fl b where f: "?f (nt_send net i) = Inl fl" "is_transient (af_error fl)" "nt_entropy net i = Some b"
      and t: "b < 256" "nt_elapsed net i \<le> from_secs 28" "nt_elapsed net i + or_else (af_retry_after fl) 0 < from_secs 30"
      using assms(3)[OF \<open>i < k\<close>] by blast
    have i: "i = 0 \<or> i = 1" using \<open>i < k\<close> assms(1) by auto
    then have "backoff i b < OPERATION_TIMEOUT - nt_elapsed net i"
      using t by (auto simp: backoff_def OPERATION_TIMEOUT_def from_secs_def)
    moreover have "or_else (af_retry_after fl) 0 < OPERATION_TIMEOUT - nt_elapsed net i"
      using t by (simp add: OPERATION_TIMEOUT_def)
    ultimately show ?thesis using f i by (auto simp: Let_def split: prod.splits)
  qed
  have stop: "retry_over ?f net True (k # rest) = ([], Inr v)" for rest using assms(2) by simp
  consider "k = 0" | "k = 1" | "k = 2" using assms(1) by linarith
  then show ?thesis
    using step[of 0] step[of 1] stop by cases (simp_all del: retry_over.simps add: retry_def)
qed

text \<open>Two refusals of a busy service with a Retry-After of five seconds, and then an answer.\<close>

definition busy_net :: net where
  "busy_net = unavailable_net\<lparr>nt_send := (\<lambda>i. Inr \<lparr>rs_status = (if i < 2 then 503 else 204),
     rs_retry_after = Some ''5'', rs_content_length = None, rs_chunks = []\<rparr>)\<rparr>"

lemma busy_attempt:
  assumes "\<not> service_route path"
  shows "i < 2 \<Longrightarrow> attempt sample_libs de path (nt_send busy_net i)
      = Inl \<lparr>af_error = transient, af_retry_after = Some (from_secs 5)\<rparr>"
    "attempt sample_libs de path (nt_send busy_net 2) = Inr None"
  using assms
  by (simp_all add: attempt_def busy_net_def classify_def is_success_def retry_after_of_def filter_opt_def
      has_orbit_error_member_def sample_libs_def contains_key_def from_slice_value_def number_value_def byte_def is_digit_def digit_value.simps)

theorem short_outage_is_survived_witness:
  "snd (retry sample_libs (\<lambda>_. None) busy_net ''/api/client/v1/licences'' True) = Inr None"
proof (rule conjunct1[OF short_outage_is_survived[where k = 2]])
  show "attempt sample_libs (\<lambda>_. None) ''/api/client/v1/licences'' (nt_send busy_net 2) = Inr None"
    by (rule busy_attempt(2)[OF not_service])
  fix i :: nat assume "i < 2"
  from busy_attempt(1)[OF not_service this, of "\<lambda>_. None"]
  show "\<exists>fl b. attempt sample_libs (\<lambda>_. None) ''/api/client/v1/licences'' (nt_send busy_net i) = Inl fl
      \<and> is_transient (af_error fl) \<and> nt_entropy busy_net i = Some b \<and> b < 256
      \<and> nt_elapsed busy_net i \<le> from_secs 28 \<and> nt_elapsed busy_net i + or_else (af_retry_after fl) 0 < from_secs 30"
    by (simp add: transient_def busy_net_def unavailable_net_def from_secs_def)
qed simp

subsection \<open>What counts as an answer\<close>

lemma read_body_Inr:
  "read_body acc chunks = Inr bytes \<Longrightarrow> length acc \<le> MAX_BYTES_BODY \<Longrightarrow>
     bytes = acc @ concat (map projr chunks) \<and> length bytes \<le> MAX_BYTES_BODY"
proof (induction acc chunks rule: read_body.induct)
  case (3 acc chunk rest)
  then have l: "length chunk \<le> MAX_BYTES_BODY - length acc" by (auto split: if_splits)
  with 3 have "read_body (acc @ chunk) rest = Inr bytes" "length (acc @ chunk) \<le> MAX_BYTES_BODY" by auto
  with 3 l show ?case by auto
qed auto

definition body_of :: "response \<Rightarrow> string" where
  "body_of r = concat (map projr (rs_chunks r))"

lemma attempt_cases:
  assumes "attempt X de path outcome = x" "x \<noteq> Inl invalid_attempt"
  obtains e where "x = Inl (transport_failure e)"
  | r where "outcome = Inr r" "length (body_of r) \<le> MAX_BYTES_BODY"
      "classify X de path (rs_status r) (retry_after_of (rs_retry_after r)) (body_of r) = x"
proof (cases outcome)
  case (Inl e)
  with assms that(1)[of e] show thesis by (simp add: attempt_def)
next
  case (Inr r)
  have broken: "\<exists>e. fl = invalid_attempt \<or> fl = transport_failure e" if "read_body acc cs = Inl fl" for acc cs fl
    using that by (induction acc cs rule: read_body.induct) (auto split: if_splits)
  from Inr assms have e: "read_body [] (rs_chunks r) = Inl fl \<Longrightarrow> x = Inl fl" for fl
    by (auto simp: attempt_def ensure_def split: if_splits)
  show thesis
  proof (cases "read_body [] (rs_chunks r)")
    case (Inl fl)
    with e broken assms(2) that(1) show thesis by blast
  next
    case ok: (Inr bytes)
    from read_body_Inr[OF this] have "bytes = body_of r" "length bytes \<le> MAX_BYTES_BODY"
      by (auto simp: body_of_def MAX_BYTES_BODY_def)
    with Inr assms ok that(2)[of r] show thesis
      by (auto simp: attempt_def ensure_def split: if_splits)
  qed
qed

lemma transport_failure_not_denied: "af_error (transport_failure e) \<noteq> Denied code rid"
  by (simp add: transport_failure_def transient_def)

lemma denied_error_denied: "denied_error st c i = Denied code rid \<Longrightarrow> c = code \<and> rid = Some i"
  by (auto simp: denied_error_def split: if_splits)

lemma classify_error_Inl:
  assumes "classify_error X de path status ra bytes = Inl fl" "af_error fl = Denied code rid"
  shows "\<exists>message request_id. de bytes = Some (code, message, request_id) \<and> rid = Some request_id
    \<and> valid_code code \<and> valid_request_id request_id"
proof (cases "de bytes")
  case None
  with assms show ?thesis by (simp add: classify_error_def invalid_attempt_def) auto
next
  case (Some m)
  obtain c msg i where m: "m = (c, msg, i)" by (cases m)
  have bad: "fl \<noteq> invalid_attempt" using assms(2) by (auto simp: invalid_attempt_def)
  have valid: "valid_code c \<and> msg \<noteq> [] \<and> valid_request_id i"
    using assms(1) bad Some m by (rule_tac ccontr) (simp add: classify_error_def ensure_def)
  have "fl = \<lparr>af_error = denied_error status c i, af_retry_after = ra\<rparr>"
  proof (cases "service_route path \<and> c \<in> capacity_codes")
    case True
    with assms(1) bad Some m valid show ?thesis
      by (cases "status = 409"; cases "from_slice_unique X bytes")
        (simp_all add: classify_error_def ensure_def unique_value_def)
  next
    case False
    with assms(1) Some m valid show ?thesis by (auto simp: classify_error_def ensure_def)
  qed
  with assms(2) Some m valid show ?thesis by (auto dest: denied_error_denied)
qed

text \<open>
  C21.  Only the service can deny.  A request ends as denied only after a complete response of at
  most 64 KiB whose status is one the service uses for refusals and whose body is its error
  envelope, with a valid code and request id; a gateway's own 502 to 504, a broken connection or
  an unreadable body never is a denial.
\<close>

theorem denial_is_from_orbit:
  assumes "attempt X de path outcome = Inl fl" "af_error fl = Denied code rid"
  shows "\<exists>r message request_id. outcome = Inr r \<and> de (body_of r) = Some (code, message, request_id)
    \<and> rid = Some request_id \<and> valid_code code \<and> valid_request_id request_id
    \<and> length (body_of r) \<le> 65536
    \<and> (rs_status r \<in> {401, 403, 404, 409, 422, 429} \<or> is_server_error (rs_status r))
    \<and> \<not> (502 \<le> rs_status r \<and> rs_status r \<le> 504 \<and> \<not> has_orbit_error_member X (body_of r))"
proof -
  have "Inl fl \<noteq> (Inl invalid_attempt :: attempt_failure + json option)"
    using assms(2) by (auto simp: invalid_attempt_def)
  from attempt_cases[OF assms(1) this] obtain r where r: "outcome = Inr r" "length (body_of r) \<le> MAX_BYTES_BODY"
    "classify X de path (rs_status r) (retry_after_of (rs_retry_after r)) (body_of r) = Inl fl"
    using assms(2) transport_failure_not_denied by (metis sum.inject(1))
  have bad: "fl \<noteq> invalid_attempt" using assms(2) by (auto simp: invalid_attempt_def)
  have "\<not> (502 \<le> rs_status r \<and> rs_status r \<le> 504 \<and> \<not> has_orbit_error_member X (body_of r))"
    using r(3) assms(2) by (auto simp: classify_def is_success_def transient_def split: if_splits)
  moreover from this r(3) bad have
    "rs_status r \<in> {401, 403, 404, 409, 422, 429} \<or> is_server_error (rs_status r)"
    "classify_error X de path (rs_status r) (retry_after_of (rs_retry_after r)) (body_of r) = Inl fl"
    by (auto simp: classify_def unique_value_def rbind_Inl_iff ok_or_iff split: if_splits)
  ultimately show ?thesis
    using r(1,2) classify_error_Inl[OF _ assms(2)] by (auto simp: MAX_BYTES_BODY_def)
qed

definition refusal :: response where
  "refusal = \<lparr>rs_status = 403, rs_retry_after = None, rs_content_length = Some 4, rs_chunks = [Inr ''body'']\<rparr>"

lemma sample_codes: "valid_code ''licence_revoked''" "valid_request_id ''request''"
  by (simp_all add: valid_code_def valid_request_id_def text_defs byte_def)

lemma refusal_denies:
  "attempt sample_libs (\<lambda>_. Some (''licence_revoked'', ''m'', ''request'')) ''/api/client/v1/licences'' (Inr refusal)
     = Inl \<lparr>af_error = Denied ''licence_revoked'' (Some ''request''), af_retry_after = None\<rparr>"
  by (simp add: attempt_def refusal_def MAX_BYTES_BODY_def classify_def is_success_def classify_error_def
      sample_codes not_service denied_error_def retry_after_of_def)

theorem denial_is_from_orbit_witness:
  "attempt sample_libs (\<lambda>_. Some (''licence_revoked'', ''m'', ''request'')) ''/api/client/v1/licences'' (Inr refusal)
     = Inl \<lparr>af_error = Denied ''licence_revoked'' (Some ''request''), af_retry_after = None\<rparr>
   \<and> (\<exists>r :: response. length (body_of r) \<le> 65536 \<and> rs_status r = 403)"
  using denial_is_from_orbit[OF refusal_denies] refusal_denies by (auto simp: refusal_def is_server_error_def)

lemma unique_value_Inr:
  "unique_value X bytes = Inr x \<longleftrightarrow> (\<exists>v. x = Some v \<and> from_slice_unique X bytes = Some v)"
  by (auto simp: unique_value_def rbind_Inr_iff ok_or_iff)

text \<open>
  C24.  An accepted reply is unambiguous.  The JSON value an attempt returns is the whole document
  in the body of a response of at most 64 KiB, and in that document as it was sent, with all its
  members, no object at any depth repeats a key: a body with a repeated key is refused, not read
  with the last of the two values.  Its status was a success, or the 409 by which a metering route
  reports its capacity; a metering route's success is a plain 200 without an error member.
\<close>

theorem accepted_reply_is_unambiguous:
  assumes "attempt X de path outcome = Inr (Some v)"
  shows "\<exists>r. outcome = Inr r \<and> length (body_of r) \<le> 65536
    \<and> parse_json X (body_of r) = Some v \<and> no_duplicates v
    \<and> (is_success (rs_status r) \<or> service_route path \<and> rs_status r = 409)
    \<and> (\<not> service_route path \<or> rs_status r = 409
        \<or> rs_status r = 200 \<and> \<not> has_orbit_error_member X (body_of r))"
proof -
  from attempt_cases[OF assms] obtain r where r: "outcome = Inr r" "length (body_of r) \<le> MAX_BYTES_BODY"
    "classify X de path (rs_status r) (retry_after_of (rs_retry_after r)) (body_of r) = Inr (Some v)"
    by auto
  then have "from_slice_unique X (body_of r) = Some v"
    by (auto simp: classify_def classify_error_def unique_value_Inr rbind_Inr_iff split: if_splits prod.splits)
  then have "parse_json X (body_of r) = Some v" "no_duplicates v"
    by (auto simp: from_slice_unique_def bind_eq_Some_conv unique_json_iff split: if_splits)
  moreover have "is_success (rs_status r) \<or> service_route path \<and> rs_status r = 409"
    "\<not> service_route path \<or> rs_status r = 409 \<or> rs_status r = 200 \<and> \<not> has_orbit_error_member X (body_of r)"
    using r(3) by (auto simp: classify_def classify_error_def rbind_Inr_iff split: if_splits prod.splits)
  ultimately show ?thesis
    using r(1,2) by (auto simp: MAX_BYTES_BODY_def)
qed

text \<open>The other direction: a body with a repeated key is never accepted.\<close>

lemma repeated_key_is_refused:
  "parse_json X bytes = Some doc \<Longrightarrow> \<not> no_duplicates doc \<Longrightarrow> unique_value X bytes = Inl invalid_attempt"
  by (simp add: unique_value_def from_slice_unique_def unique_json_iff)

lemma plain_reply:
  "attempt sample_libs (\<lambda>_. None) ''/api/client/v1/licences'' (Inr (refusal\<lparr>rs_status := 200\<rparr>)) = Inr (Some (JObj []))"
  by (simp add: attempt_def refusal_def MAX_BYTES_BODY_def classify_def is_success_def not_service
      unique_value_def from_slice_unique_def sample_libs_def)

theorem accepted_reply_is_unambiguous_witness:
  "attempt sample_libs (\<lambda>_. None) ''/api/client/v1/licences'' (Inr (refusal\<lparr>rs_status := 200\<rparr>)) = Inr (Some (JObj []))
   \<and> parse_json sample_libs ''body'' = Some (JObj []) \<and> no_duplicates (JObj [])"
  using accepted_reply_is_unambiguous[OF plain_reply] plain_reply by (auto simp: body_of_def refusal_def)

subsection \<open>Where requests go\<close>

text \<open>
  C25.  Requests stay on the service's origin.  A path that is accepted is joined to a URL of the
  client's own origin, without a fragment, whose path is exactly the route that was written: one
  below the client prefix, or the key set; and a query can only name an application, an
  environment and, for the list of licences, a cursor, each an opaque identifier.
\<close>

theorem request_stays_on_origin:
  assumes "endpoint X base path = Inr u"
  shows "url_origin u = url_origin base \<and> url_path u = fst (route_of path) \<and> url_fragment u = None
    \<and> (starts_with (url_path u) CLIENT_PREFIX \<or> url_path u = JWKS_PATH) \<and> length path \<le> 2048
    \<and> (snd (route_of path) = None
       \<or> (\<exists>app envt rest. url_pairs u = (''application_id'', app) # (''environment_id'', envt) # rest
            \<and> opaque app \<and> opaque envt \<and> (rest = [] \<or> (\<exists>c. rest = [(''after'', c)] \<and> opaque c \<and> url_path u = LICENCES_PATH))))"
proof -
  obtain route query where rq: "route_of path = (route, query)" by (cases "route_of path")
  from assms rq have e: "url_origin u = url_origin base" "url_path u = route" "url_fragment u = None"
    "starts_with route CLIENT_PREFIX \<or> route = JWKS_PATH" "length path \<le> 2048"
    "query = None \<or> \<not> bad_query route (url_pairs u)"
    by (auto simp: endpoint_def rbind_Inr_iff ensure_iff ok_or_iff)
  have ok: "\<not> bad_pair (k, v) \<longleftrightarrow> opaque v" for k v
    by (auto simp: bad_pair_def opaque_def Suc_le_eq)
  have "\<exists>app envt rest. url_pairs u = (''application_id'', app) # (''environment_id'', envt) # rest
      \<and> opaque app \<and> opaque envt \<and> (rest = [] \<or> (\<exists>c. rest = [(''after'', c)] \<and> opaque c \<and> route = LICENCES_PATH))"
    if nb: "\<not> bad_query route (url_pairs u)"
  proof -
    from nb consider "length (url_pairs u) = 2" | "length (url_pairs u) = 3" "route = LICENCES_PATH"
      by (auto simp: bad_query_def Let_def)
    then show ?thesis
    proof cases
      case 1
      then obtain p q where "url_pairs u = [p, q]" by (auto simp: numeral_2_eq_2 length_Suc_conv)
      with nb show ?thesis by (cases p; cases q) (auto simp: bad_query_def Let_def ok)
    next
      case 2
      then obtain p q r where "url_pairs u = [p, q, r]" by (auto simp: numeral_3_eq_3 length_Suc_conv)
      with nb 2(2) show ?thesis by (cases p; cases q; cases r) (auto simp: bad_query_def Let_def ok)
    qed
  qed
  with e rq show ?thesis by auto
qed

definition licences_url :: url where
  "licences_url = sample_url\<lparr>url_path := ''/api/client/v1/licences''\<rparr>"

lemma licences_endpoint: "endpoint sample_libs licences_url ''/api/client/v1/licences'' = Inr licences_url"
  by (simp add: endpoint_def route_of_def starts_with_def CLIENT_PREFIX_def contains_any_def
      no_control_or_whitespace_def ws_front_def byte_def sample_libs_def licences_url_def sample_url_def)

theorem request_stays_on_origin_witness:
  "endpoint sample_libs licences_url ''/api/client/v1/licences'' = Inr licences_url
   \<and> starts_with (url_path licences_url) CLIENT_PREFIX"
  using request_stays_on_origin[OF licences_endpoint] licences_endpoint
  by (auto simp: licences_url_def JWKS_PATH_def)

text \<open>A body is sent exactly when its pieces fit in 64 KiB, and it is their concatenation.\<close>

lemma body_is_bounded:
  "encode_body pieces body = Inr bytes \<longleftrightarrow>
     (\<exists>ps. pieces body = Some ps \<and> bytes = concat ps \<and> length bytes \<le> 65536)"
proof -
  have "length acc \<le> MAX_BYTES_BODY \<Longrightarrow>
      write_all acc ps = Inr b \<longleftrightarrow> b = acc @ concat ps \<and> length b \<le> MAX_BYTES_BODY" for acc ps b
  proof (induction ps arbitrary: acc)
    case (Cons p ps)
    show ?case
    proof (cases "length p \<le> MAX_BYTES_BODY - length acc")
      case True
      with Cons.prems have "length (acc @ p) \<le> MAX_BYTES_BODY" by simp
      from Cons.IH[OF this] True show ?thesis by (simp add: limited_write_def)
    next
      case False
      with Cons.prems show ?thesis by (auto simp: limited_write_def)
    qed
  qed auto
  then show ?thesis by (auto simp: encode_body_def rbind_Inr_iff ok_or_iff MAX_BYTES_BODY_def)
qed

end
