(* ===== verification/Metering.thy ===== *)
theory Metering
  imports Limits Protocol
begin

text \<open>
  What online metering guarantees: counters that are internally consistent, results that belong
  to the operation that was asked for, and errors that say truthfully whether the service may
  have applied it.
\<close>

subsection \<open>Reading replies\<close>

lemma text_of_Inr_iff [result_simps]: "text_of v k = Inr s \<longleftrightarrow> json_get v k = Some (JStr s)"
  by (auto simp: text_of_def ok_or_iff bind_eq_Some_conv as_str_Some_iff)

lemma as_u64_Some_iff: "as_u64 v = Some n \<longleftrightarrow> v = JInt (int n) \<and> n < 2 ^ 64"
proof (cases v)
  case (JInt i)
  then show ?thesis by auto
qed auto

lemma integer_Inr_iff [result_simps]:
  "integer v k = Inr n \<longleftrightarrow> json_get v k = Some (JInt (int n)) \<and> n \<le> MAX_INTEGER"
  by (auto simp: integer_def ok_or_iff bind_eq_Some_conv filter_opt_Some_iff as_u64_Some_iff MAX_INTEGER_def)

definition consistent :: "nat \<Rightarrow> nat \<Rightarrow> nat \<Rightarrow> bool" where
  "consistent lim used remaining \<longleftrightarrow> used \<le> lim \<and> remaining = lim - used \<and> lim \<le> MAX_INTEGER"

definition good_usage :: "string \<Rightarrow> usage_counter \<Rightarrow> bool" where
  "good_usage name u \<longleftrightarrow> uc_name u = name \<and> metric_name name
     \<and> consistent (uc_limit u) (uc_used u) (uc_remaining u)
     \<and> period_bounds (uc_period u) (uc_period_started_at u) (uc_resets_at u)"

definition good_resources :: "string \<Rightarrow> resource_counter \<Rightarrow> bool" where
  "good_resources name r \<longleftrightarrow> rc_name r = name \<and> metric_name name
     \<and> consistent (rc_limit r) (rc_used r) (rc_remaining r)"

lemma counter_Inr_iff [result_simps]:
  "counter v expected = Inr r \<longleftrightarrow> good_resources expected r
     \<and> json_get v ''name'' = Some (JStr expected) \<and> json_get v ''limit'' = Some (JInt (int (rc_limit r)))
     \<and> json_get v ''used'' = Some (JInt (int (rc_used r)))
     \<and> json_get v ''remaining'' = Some (JInt (int (rc_remaining r)))"
proof -
  have [simp]: "MAX_INTEGER = 9007199254740991" by (simp add: MAX_INTEGER_def)
  show ?thesis
    by (cases r) (auto simp: counter_def rbind_Inr_iff ensure_iff text_of_Inr_iff integer_Inr_iff
        good_resources_def consistent_def)
qed

lemma usage_Inr:
  "usage X v expected = Inr u \<Longrightarrow> good_usage expected u
     \<and> json_get v ''used'' = Some (JInt (int (uc_used u)))
     \<and> json_get v ''limit'' = Some (JInt (int (uc_limit u)))"
  by (auto simp: usage_def result_simps good_usage_def good_resources_def)

text \<open>A counter is accepted exactly when the reply names the metric and holds three consistent integers.\<close>

lemma counter_is_exact:
  "counter v expected = Inr r \<longleftrightarrow> metric_name expected \<and> rc_name r = expected
     \<and> rc_used r \<le> rc_limit r \<and> rc_limit r < 2 ^ 53 \<and> rc_remaining r = rc_limit r - rc_used r
     \<and> json_get v ''name'' = Some (JStr expected) \<and> json_get v ''limit'' = Some (JInt (int (rc_limit r)))
     \<and> json_get v ''used'' = Some (JInt (int (rc_used r)))
     \<and> json_get v ''remaining'' = Some (JInt (int (rc_remaining r)))"
  by (auto simp: counter_Inr_iff good_resources_def consistent_def MAX_INTEGER_def)

subsection \<open>The service call\<close>





lemma post_Inr: "post w k path body safe c = (c1, Inr r) \<longleftrightarrow>
    c1 = c\<lparr>cl_sent := cl_sent c @ [(path, body)]\<rparr> \<and> r = w_post w k path body safe"
  by (auto simp: post_def abind_def sent_def ret_def)


lemma json_set_get:
  "json_get (json_set (JObj m) k v) k' = (if k' = k then Some v else json_get (JObj m) k')"
  by (simp add: json_get_def)


text \<open>A synchronisation that leaves a credential in the state changed nothing but the storage.\<close>

lemma sync_keeps_credential:
  assumes "sync_storage io c = (c1, Inr ())" "st_credential (cl_state c1) \<noteq> None"
  shows "cl_state c1 = cl_state c \<and> cl_config c1 = cl_config c \<and> cl_device c1 = cl_device c"
proof -
  have store: "store_version io c = (c2, r) \<Longrightarrow> cl_state c2 = cl_state c \<and> cl_config c2 = cl_config c
      \<and> cl_device c2 = cl_device c" for c2 r
    by (auto simp: store_version_def on_store_def split: store.splits prod.splits)
  obtain c2 r where v: "store_version io c = (c2, r)" by (cases "store_version io c")
  with assms store[OF v] show ?thesis
    by (cases r) (auto simp: sync_storage_def abind_def gets_def try_act_def modify_def fail_def
        set_version_def ret_def clear_def clear_access_def split: if_splits)
qed

lemma require_settled_frame:
  assumes "require_settled io c = (c1, r)"
  shows "cl_state c1 = cl_state c \<and> cl_config c1 = cl_config c \<and> cl_device c1 = cl_device c"
proof -
  have "keeps (\<lambda>d. cl_state d = cl_state c \<and> cl_config d = cl_config c \<and> cl_device d = cl_device c)
      (require_settled io)"
    unfolding require_settled_def by (intro keeps_intro keeps_on_disk) (auto simp: storage_free_def)
  from keepsD[OF this _ assms] show ?thesis by simp
qed

lemma service_request_Inr:
  assumes "service_request w extra c = (c1, Inr (saved, g, body))"
  shows "st_credential (cl_state (w_others w 0 c)) = Some saved
    \<and> body = body_extend (credential_body (w_others w 0 c) saved) extra"
proof -
  let ?c = "w_others w 0 c"
  from assms obtain c2 c3 where y: "sync_storage (w_io w 0) ?c = (c2, Inr ())"
    and q: "require_settled (w_io w 1) c2 = (c3, Inr ())"
    and k: "st_credential (cl_state c3) = Some saved" "body = body_extend (credential_body c3 saved) extra"
    by (auto simp: service_request_def service_section_def check_cancelled_def result_simps split: prod.splits)
  from require_settled_frame[OF q] k have f: "cl_state c3 = cl_state c2" "cl_config c3 = cl_config c2"
    "cl_device c3 = cl_device c2" "st_credential (cl_state c2) = Some saved" by auto
  with sync_keeps_credential[OF y] k show ?thesis by (simp add: credential_body_def)
qed

lemma online_service_Inr:
  assumes "online_service w suffix extra c = (c', Inr v)"
  obtains c1 saved g body where "service_request w extra c = (c1, Inr (saved, g, body))"
    "w_post w 2 (activation_path saved suffix) body True = Inr (Some v)"
  using assms by (auto simp: online_service_def result_simps post_Inr split: prod.splits)





subsection \<open>Mutations\<close>

lemma with_operation_Inr:
  "with_operation oid m f c = (c', Inr y) \<longleftrightarrow> (\<exists>v. m c = (c', Inr v) \<and> f v = Inr y)"
  by (auto simp: with_operation_def split: prod.splits sum.splits)


lemma failure_simps [simp]:
  "me_operation_id (failure oid x) = oid" "me_uncertain (failure oid x) = uncertain_cause x"
  "me_cause (failure oid x) = x" "me_counter (failure oid x) = None"
  by (simp_all add: failure_def)

lemma as_mutation_iff:
  "as_mutation oid r = Inr x \<longleftrightarrow> r = Inr x"
  "as_mutation oid r = Inl e \<longleftrightarrow> (\<exists>x. r = Inl x \<and> e = failure oid x)"
  by (auto simp: as_mutation_def split: sum.splits)

lemma parse_denial_Inr:
  "parse_denial X v expected oid units resource = Inr e \<Longrightarrow> me_operation_id e = oid
     \<and> (\<exists>ctr. me_counter e = Some ctr \<and> capacity_remaining ctr < units)
     \<and> (\<exists>err. json_get v ''error'' = Some err \<and> json_get err ''idempotency_key'' = Some (JStr oid)
          \<and> json_get err ''requested_units'' = Some (JInt (int units)))"
  unfolding parse_denial_def by (elim rbind_Inr_iff[THEN iffD1, elim_format] exE conjE)
    (auto simp: result_simps)

text \<open>A body that carries the proof of the activation, the operation and the units.\<close>

definition carries :: "stored_credential \<Rightarrow> string \<Rightarrow> nat \<Rightarrow> json \<Rightarrow> bool" where
  "carries saved oid units body \<longleftrightarrow> json_get body ''credential'' = Some (JStr (sc_credential saved))
     \<and> json_get body ''idempotency_key'' = Some (JStr oid) \<and> json_get body ''units'' = Some (JInt (int units))"

text \<open>What the service answered to the one request of a mutation.  The request goes to the activation
  of the credential that the client held when the call took its lock, and carries that credential.\<close>

definition answered_with ::
    "world \<Rightarrow> client \<Rightarrow> string \<Rightarrow> string \<Rightarrow> nat \<Rightarrow> json option result \<Rightarrow> bool" where
  "answered_with w c suffix oid units r \<longleftrightarrow>
     (\<exists>saved body. st_credential (cl_state (w_others w 0 c)) = Some saved \<and> carries saved oid units body
        \<and> w_post w 2 (activation_path saved suffix) body True = r)"

lemma request_carries:
  "carries saved oid units (body_extend (credential_body c0 saved) (consume_body units oid))"
  "carries saved oid units (body_extend (credential_body c0 saved) (acquire_body resource units oid))"
  by (simp_all add: carries_def body_extend_def consume_body_def acquire_body_def credential_body_def json_get_def)

lemma online_service_answered:
  assumes "online_service w suffix extra c = (c', Inr v)"
    and "\<And>c0 saved. carries saved oid units (body_extend (credential_body c0 saved) extra)"
  shows "answered_with w c suffix oid units (Inr (Some v))"
proof -
  from online_service_Inr[OF assms(1)] obtain c1 saved g body where
    "service_request w extra c = (c1, Inr (saved, g, body))"
    "w_post w 2 (activation_path saved suffix) body True = Inr (Some v)" .
  with service_request_Inr[OF this(1)] assms(2) show ?thesis unfolding answered_with_def by blast
qed

text \<open>
  C18.  A consumption is accounted for.  When \<open>consume\<close> succeeds, the service answered a request
  to the activation of the credential that the client held when the call began, carrying that
  credential, this operation id and these units; its answer names the same id and the same number
  of units, and the counter it returns is consistent and contains them.
\<close>

theorem consumption_is_accounted:
  assumes "consume_with_id L w name units oid c = (c', Inr r)"
  shows "co_operation_id r = oid \<and> co_consumed_units r = units \<and> 0 < units
    \<and> units \<le> uc_used (co_counter r) \<and> good_usage name (co_counter r)
    \<and> (\<exists>v. answered_with w c (''/usage/'' @ name @ ''/consume'') oid units (Inr (Some v))
        \<and> json_get v ''idempotency_key'' = Some (JStr oid)
        \<and> json_get v ''consumed_units'' = Some (JInt (int units))
        \<and> json_get v ''used'' = Some (JInt (int (uc_used (co_counter r))))
        \<and> json_get v ''limit'' = Some (JInt (int (uc_limit (co_counter r)))))"
proof -
  from assms have u: "0 < units" and run: "with_operation oid
      (online_service w (''/usage/'' @ name @ ''/consume'') (consume_body units oid))
      (consumed L name units oid) c = (c', Inr r)"
    by (auto simp: consume_with_id_def consume_optional_def operation_id_def split: if_splits)
  from run obtain v where v: "online_service w (''/usage/'' @ name @ ''/consume'') (consume_body units oid) c = (c', Inr v)"
    and r: "consumed L name units oid v = Inr r" by (auto simp: with_operation_Inr)
  from v request_carries(1) have "answered_with w c (''/usage/'' @ name @ ''/consume'') oid units (Inr (Some v))"
    by (rule online_service_answered)
  with r u usage_Inr[of L v name] show ?thesis
    by (auto simp: consumed_def as_mutation_iff result_simps split: if_splits)
qed

text \<open>Every way in which a reply can fail its checks is an \<open>InvalidResponse\<close>, which is uncertain.\<close>

lemma reading_errors [dest]:
  "text_of v k = Inl e \<Longrightarrow> e = InvalidResponse"
  "integer v k = Inl e \<Longrightarrow> e = InvalidResponse"
  "date X v k = Inl e \<Longrightarrow> e = InvalidResponse"
  "period_of q = Inl e \<Longrightarrow> e = InvalidResponse"
  "state_of q = Inl e \<Longrightarrow> e = InvalidResponse"
  by (auto simp: text_of_def integer_def date_def period_of_def state_of_def rbind_Inl_iff ok_or_iff
      ensure_iff split: if_splits prod.splits)

lemma optional_date_error [dest]: "optional_date X v k = Inl e \<Longrightarrow> e = InvalidResponse"
  by (auto simp: optional_date_def rbind_Inl_iff split: option.splits json.splits)

lemma counter_error [dest]: "counter v expected = Inl e \<Longrightarrow> e = InvalidResponse"
  by (auto simp: counter_def rbind_Inl_iff ensure_iff)

lemma usage_error [dest]: "usage X v expected = Inl e \<Longrightarrow> e = InvalidResponse"
  by (auto simp: usage_def rbind_Inl_iff ensure_iff)

lemma allocation_error [dest]: "allocation v n r a u oid rel = Inl e \<Longrightarrow> e = InvalidResponse"
  by (auto simp: allocation_def rbind_Inl_iff ensure_iff)

lemma parse_denial_error [dest]: "parse_denial X v n oid u r = Inl e \<Longrightarrow> e = InvalidResponse"
  by (auto simp: parse_denial_def rbind_Inl_iff ensure_iff ok_or_iff split: if_splits)



lemma denial_id [simp]: "me_operation_id (denial X v n oid u r) = oid"
  using parse_denial_Inr[of X v n oid u r] by (auto simp: denial_def split: sum.splits)









subsection \<open>The properties at a client with a licence\<close>

definition answering :: "json option result \<Rightarrow> world" where
  "answering r = quiet_world\<lparr>w_post := (\<lambda>_ _ _ _. r)\<rparr>"

lemma answering_points [simp]:
  "w_others (answering r) k c = c" "w_io (answering r) k = sample_io" "w_cancelled (answering r) k = False"
  "w_post (answering r) k = (\<lambda>_ _ _. r)"
  by (simp_all add: answering_def quiet_world_def)

lemma seat_sync_sent: "sync_storage sample_io (seat_client\<lparr>cl_sent := l\<rparr>) = (seat_client\<lparr>cl_sent := l\<rparr>, Inr ())"
  by (simp add: action_defs seat_client_def online_client_def installed_version_def checked_def
      sample_io_def fresh_state_def) (simp add: sample_disk_def sample_record_def fresh_record_def)

lemma seat_settled: "require_settled sample_io seat_client = (seat_client, Inr ())"
  by (simp add: require_settled_def abind_def gets_def on_disk_def demand_def installed_def
      activation_pending_def checked_def sample_io_def seat_client_def online_client_def)
    (simp add: sample_disk_def sample_record_def fresh_record_def)

lemma seat_service_request:
  "service_request (answering r) extra seat_client
    = (seat_client, Inr (seat_saved, 0, body_extend (credential_body seat_client seat_saved) extra))"
  by (simp add: service_request_def service_section_def abind_def lock_def seat_sync check_cancelled_def
      demand_def gets_def seat_settled of_result_def ret_def)

lemma seat_online_service:
  "\<exists>c'. online_service (answering r) suffix extra seat_client = (c', rbind r (ok_or InvalidResponse))"
proof -
  have "check_generation (answering r) k 0 (seat_client\<lparr>cl_sent := l\<rparr>) = (seat_client\<lparr>cl_sent := l\<rparr>, Inr ())" for k l
    by (simp add: check_generation_def current_generation_def abind_def lock_def seat_sync_sent gets_def demand_def)
  then show ?thesis
    by (simp add: online_service_def abind_def seat_service_request post_def sent_def ret_def
        check_cancelled_def demand_def of_result_def)
qed

definition export_counter :: "(string \<times> json) list" where
  "export_counter = [(''name'', JStr ''exports''), (''limit'', JInt 10), (''used'', JInt 2), (''remaining'', JInt 8),
     (''period'', JStr ''lifetime''), (''period_started_at'', JNull), (''resets_at'', JNull)]"

definition consume_reply :: json where
  "consume_reply = JObj (export_counter @ [(''idempotency_key'', JStr ''operation-0123456''), (''consumed_units'', JInt 2)])"


lemma sample_operation: "valid_operation_id ''operation-0123456''" "metric_name ''exports''"
  by (simp_all add: valid_operation_id_def metric_name_def text_defs byte_def)

lemma consumed_reply: "\<exists>r. consumed sample_libs ''exports'' 2 ''operation-0123456'' consume_reply = Inr r"
  by (simp add: consumed_def consume_reply_def export_counter_def json_get_def usage_def counter_def text_of_def
      integer_def MAX_INTEGER_def period_of_def optional_date_def as_mutation_def sample_operation)


theorem consumption_is_accounted_witness:
  "\<exists>c' r. consume_with_id sample_libs (answering (Inr (Some consume_reply))) ''exports'' 2
      ''operation-0123456'' seat_client = (c', Inr r) \<and> 2 \<le> uc_used (co_counter r)"
proof -
  let ?w = "answering (Inr (Some consume_reply))"
  obtain r where r: "consumed sample_libs ''exports'' 2 ''operation-0123456'' consume_reply = Inr r"
    using consumed_reply by blast
  obtain c' where "online_service ?w (''/usage/'' @ ''exports'' @ ''/consume'')
      (consume_body 2 ''operation-0123456'') seat_client = (c', Inr consume_reply)"
    using seat_online_service[of "Inr (Some consume_reply)"] by (auto simp: ok_or_def)
  then have run: "consume_with_id sample_libs ?w ''exports'' 2 ''operation-0123456'' seat_client = (c', Inr r)"
    by (simp add: consume_with_id_def consume_optional_def operation_id_def sample_operation
        with_operation_def r MAX_INTEGER_def)
  from consumption_is_accounted[OF run] run show ?thesis by blast
qed



end
