(* ===== verification/Customers.thy ===== *)
theory Customers
  imports Guarantees Metering
begin

text \<open>
  What the account calls guarantee: a login starts from nothing and installs only a checked
  customer, a logout revokes at once, definitive failures revoke and outages do not, and the
  licences of a page are within their bounds.
\<close>

subsection \<open>Logging in and out\<close>

lemma checkpoint_authorized_frame:
  "checkpoint_authorized force io c = (c', r) \<Longrightarrow> cl_config c' = cl_config c \<and> cl_sent c' = cl_sent c"
  by (auto simp: checkpoint_authorized_def abind_def gets_def ret_def
      split: option.splits if_splits store.splits prod.splits)

lemma on_store_frame: "on_store f g c = (c', r) \<Longrightarrow> cl_config c' = cl_config c \<and> cl_sent c' = cl_sent c"
  by (auto simp: on_store_def split: store.splits prod.splits)

lemma drop_authority_frame:
  "drop_authority w k c = (c', r) \<Longrightarrow> cl_config c' = cl_config c \<and> cl_sent c' = cl_sent c"
proof -
  assume run: "drop_authority w k c = (c', r)"
  obtain c1 x where ch: "checkpoint_authorized True (w_io w k) c = (c1, x)"
    by (cases "checkpoint_authorized True (w_io w k) c")
  obtain c2 y where iv: "store_invalidate (w_io w (k + 1)) (c1\<lparr>cl_state := clear (cl_state c1)\<rparr>) = (c2, y)"
    by (cases "store_invalidate (w_io w (k + 1)) (c1\<lparr>cl_state := clear (cl_state c1)\<rparr>)")
  have "cl_config c2 = cl_config c \<and> cl_sent c2 = cl_sent c"
    using checkpoint_authorized_frame[OF ch] on_store_frame[OF iv[unfolded store_invalidate_def]] by simp
  with run show ?thesis
    by (cases y) (auto simp: drop_authority_def abind_def try_act_def ch modify_def iv[simplified] set_version_def of_result_def)
qed

text \<open>The address of the session of the client, which a logout deletes.\<close>

definition current_session_path :: "client \<Rightarrow> string" where
  "current_session_path c = account_path (cl_config c) ''/api/client/v1/sessions/current'' None"

text \<open>
  C26.  An account logout takes all authority away at once, whatever the storage and the service do
  afterwards.  It reports success only when there was no customer session, or the service answered
  a DELETE of the current session, authorised by this session's own token, with an empty success;
  and it sends that one request or none.
\<close>

theorem account_logout_revokes:
  assumes "logout_account w c = (c', r)" and "w_others w 0 c = c0"
  shows "revoked (cl_state c')
    \<and> (case st_account (cl_state c0) of
         None \<Rightarrow> cl_sent c' = cl_sent c0
       | Some a \<Rightarrow>
           (cl_sent c' = cl_sent c0 \<and> r \<noteq> Inr ()
            \<or> cl_sent c' = cl_sent c0 @ [(current_session_path c0, JStr (as_token a))])
           \<and> (r = Inr () \<longleftrightarrow> cl_sent c' \<noteq> cl_sent c0
                \<and> w_bearer w 2 BearerDelete (current_session_path c0) (as_token a) = Inr None))"
proof -
  obtain c1 d where dr: "drop_authority w 0 c0 = (c1, d)" by (cases "drop_authority w 0 c0")
  have rv: "revoked (cl_state c1)" using drop_authority_revokes[of w 0 c0] dr by simp
  note fr = drop_authority_frame[OF dr]
  have run: "logout_account w c = (case d of Inl e \<Rightarrow> (c1, Inl e) | Inr _ \<Rightarrow>
      (case st_account (cl_state c0) of None \<Rightarrow> (c1, Inr ()) | Some a \<Rightarrow>
        (c1\<lparr>cl_sent := cl_sent c0 @ [(current_session_path c0, JStr (as_token a))]\<rparr>,
         rbind (w_bearer w 2 BearerDelete (current_session_path c0) (as_token a))
           (\<lambda>v. ensure InvalidResponse (v = None)))))"
    using fr assms(2)
    by (simp add: logout_account_def abind_def lock_def gets_def dr account_delete_def sent_def ret_def
        of_result_def demand_def current_session_path_def split: sum.split option.split)
  have ok: "rbind x (\<lambda>v. ensure InvalidResponse (v = None)) = Inr () \<longleftrightarrow> x = Inr None" for x :: "json option result"
    by (auto simp: rbind_Inr_iff ensure_iff)
  show ?thesis
    using run assms(1) rv fr
    by (auto simp: ok split: sum.splits option.splits)
qed

lemma install_login_Inr:
  "install_login w g reply c = (c', Inr acc) \<Longrightarrow>
     acc = \<lparr>ac_customer = lr_customer reply, ac_expires_at = lr_expires_at reply\<rparr>
     \<and> st_account (cl_state c') = Some \<lparr>as_token = lr_session reply, as_account = acc\<rparr>
     \<and> st_generation (cl_state c') = g"
  by (auto simp: install_login_def Let_def set_account_def same_generation_def check_cancelled_def result_simps)

lemma finish_fails: "finish_account w k g (Inl e) c \<noteq> (c', Inr x)"
  by (auto simp: finish_account_def result_simps)

lemma finish_account_Inr: "finish_account w k g r c = (c', Inr x) \<Longrightarrow> r = Inr x"
  by (auto simp: finish_account_def result_simps)

lemma begin_login_revokes:
  assumes "begin_login w g c = (c', Inr h)" shows "revoked (cl_state c')" "h = st_generation (cl_state c')"
proof -
  from assms obtain c1 u where "drop_authority w 2 c1 = (c', Inr u)" "h = st_generation (cl_state c')"
    by (auto simp: begin_login_def result_simps)
  then show "revoked (cl_state c')" "h = st_generation (cl_state c')"
    using drop_authority_revokes[of w 2 c1] by auto
qed

text \<open>When \<open>login\<close> succeeds, authority had been dropped before the password was sent, the reply named an active customer with a session token of the right form, and exactly that session is in the state.\<close>

lemma login_starts_from_nothing:
  assumes "login L w username password c = (c', Inr acc)"
  shows "\<exists>(c1 :: client) token. revoked (cl_state c1) \<and> st_generation (cl_state c') = st_generation (cl_state c1)
    \<and> st_account (cl_state c') = Some \<lparr>as_token = token, as_account = acc\<rparr>
    \<and> valid_customer (ac_customer acc) \<and> bearer token
    \<and> (\<exists>body v. w_post w 4 ''/api/client/v1/sessions'' body False = Inr (Some v)
         \<and> json_get body ''username'' = Some (JStr username) \<and> json_get body ''password'' = Some (JStr password)
         \<and> (\<exists>reply. login_reply_of L v = Some reply \<and> lr_session reply = token))"
proof -
  let ?body = "\<lambda>c1. account_body (cl_config c1) (login_body username password)"
  from assms obtain g0 ca c1 g c3 c4 reply where
    b: "begin_login w g0 ca = (c1, Inr g)"
    and f: "finish_account w 4 g (decode (login_reply_of L) (w_post w 4 ''/api/client/v1/sessions'' (?body c1) False)) c3
      = (c4, Inr reply)"
    and i: "(if \<not> valid_login reply then finish_account w 6 g (Inl InvalidResponse) else install_login w g reply) c4 = (c', Inr acc)"
    unfolding login_def abind_Inr_iff post_Inr act_Inr_iff by blast
  from finish_account_Inr[OF f] obtain v where
    v: "w_post w 4 ''/api/client/v1/sessions'' (?body c1) False = Inr (Some v)" "login_reply_of L v = Some reply"
    by (auto simp: decode_def rbind_Inr_iff ok_or_iff)
  have ok: "valid_login reply" using i by (auto simp: finish_fails split: if_splits)
  with i have "install_login w g reply c4 = (c', Inr acc)" by simp
  note inst = install_login_Inr[OF this]
  have body: "json_get (?body c1) ''username'' = Some (JStr username)"
    "json_get (?body c1) ''password'' = Some (JStr password)"
    by (simp_all add: account_body_def login_body_def json_get_def)
  have "valid_customer (ac_customer acc)" "bearer (lr_session reply)"
    using ok inst by (auto simp: valid_login_def)
  moreover have "st_account (cl_state c') = Some \<lparr>as_token = lr_session reply, as_account = acc\<rparr>"
    "st_generation (cl_state c') = st_generation (cl_state c1)"
    using inst begin_login_revokes(2)[OF b] by auto
  moreover have "\<exists>body v. w_post w 4 ''/api/client/v1/sessions'' body False = Inr (Some v)
      \<and> json_get body ''username'' = Some (JStr username) \<and> json_get body ''password'' = Some (JStr password)
      \<and> (\<exists>reply'. login_reply_of L v = Some reply' \<and> lr_session reply' = lr_session reply)"
    by (rule exI[of _ "?body c1"], rule exI[of _ v]) (simp add: v body)
  ultimately show ?thesis using begin_login_revokes(1)[OF b] by (metis (no_types))
qed

subsection \<open>The properties at a client without a disk\<close>

definition memory_client :: client where
  "memory_client = online_client\<lparr>cl_storage := MemoryStore (0, None), cl_state := fresh_state 0 None\<rparr>"

lemma memory_sync:
  "\<not> cl_closed c \<Longrightarrow> cl_storage c = MemoryStore m \<Longrightarrow> st_storage_version (cl_state c) = fst m
    \<Longrightarrow> sync_storage io c = (c, Inr ())"
  by (simp add: sync_storage_def abind_def gets_def try_act_def store_version_def on_store_def
      memory_version_def ret_def)

definition bob :: customer_doc where
  "bob = \<lparr>cd_id = ''bob'', cd_username = ''bob'', cd_email = ''b'', cd_suspended = False, cd_created_at = []\<rparr>"

definition pro_licence :: licence_doc where
  "pro_licence = \<lparr>ol_id = ''licence'', ol_policy_name = ''pro'', ol_state = ''active'', ol_expiry_mode = ''never'',
     ol_first_used_at = None, ol_expires_at = None, ol_duration_seconds = None, ol_device_limit = 1,
     ol_concurrent_session_limit = 0, ol_usage_limits = JObj [], ol_resource_limits = JObj [],
     ol_hwid_locked = False, ol_offline_allowed = True, ol_offline_seconds = 0, ol_offline_file_seconds = 0,
     ol_entitlements = []\<rparr>"

definition account_libs :: libs where
  "account_libs = sample_libs
     \<lparr>de_login := (\<lambda>_. Some \<lparr>ld_customer = bob, ld_session = replicate 43 CHR ''s'', ld_expires_at = []\<rparr>),
      de_page := (\<lambda>_. Some \<lparr>pd_items = [pro_licence], pd_next_cursor = None\<rparr>)\<rparr>"

lemma account_times [simp]: "deserialize_time account_libs v = Some 1000"
  by (simp add: deserialize_time_def timestamp_def account_libs_def sample_libs_def from_unix_seconds_def
      checked_i64_def i64_defs)

lemma account_reply: "\<exists>reply. login_reply_of account_libs v = Some reply \<and> valid_login reply"
  by (simp add: login_reply_of_def customer_of_def)
    (simp add: account_libs_def bob_def valid_login_def valid_customer_def bearer_def opaque_def text_defs byte_def)

lemma memory_begin_login:
  "begin_login (answering r) 0 memory_client = (memory_client\<lparr>cl_storage := MemoryStore (1, None),
     cl_state := (clear (fresh_state 0 None))\<lparr>st_storage_version := 1\<rparr>\<rparr>, Inr 1)"
  by (simp add: begin_login_def abind_def lock_def memory_sync memory_client_def online_client_def fresh_state_def
      same_generation_def gets_def demand_def drop_authority_def try_act_def checkpoint_authorized_def
      authorized_offline_def ret_def modify_def clear_def clear_access_def store_invalidate_def on_store_def
      memory_invalidate_def set_version_def of_result_def)

subsection \<open>Failures\<close>

text \<open>A definitive failure of an account call leaves no authority; a temporary one changes nothing.\<close>

lemma account_failure_is_settled:
  assumes "finish_account w k g (Inl e) c = (c', r)"
    and "sync_storage (w_io w k) (w_others w k c) = (c1, Inr ())"
    and "st_generation (cl_state c1) = g" "\<not> w_cancelled w k"
  shows "if account_definitive e then revoked (cl_state c') else c' = c1 \<and> r = Inl e"
proof (cases "account_definitive e")
  case True
  obtain c2 v where iv: "store_invalidate (w_io w (k + 1)) (c1\<lparr>cl_state := clear (cl_state c1)\<rparr>) = (c2, v)"
    by (cases "store_invalidate (w_io w (k + 1)) (c1\<lparr>cl_state := clear (cl_state c1)\<rparr>)")
  have "cl_state c2 = clear (cl_state c1)"
    using iv by (auto simp: store_invalidate_def dest: on_store_state)
  moreover have "c' = c2 \<or> (\<exists>n. c' = c2\<lparr>cl_state := (cl_state c2)\<lparr>st_storage_version := n\<rparr>\<rparr>)"
    using assms True iv
    by (cases v) (auto simp: finish_account_def abind_def lock_def same_generation_def gets_def demand_def
        check_cancelled_def modify_def set_version_def of_result_def)
  moreover have "revoked (s\<lparr>st_storage_version := n\<rparr>) = revoked s" for s n
    by (simp add: revoked_def authorized_offline_def)
  ultimately have "revoked (cl_state c')" by auto
  with True show ?thesis by simp
next
  case False
  with assms show ?thesis
    by (auto simp: finish_account_def abind_def lock_def same_generation_def gets_def demand_def
        check_cancelled_def ret_def of_result_def)
qed

subsection \<open>The licences of a customer\<close>

definition sound_licence :: "owned_licence \<Rightarrow> bool" where
  "sound_licence l \<longleftrightarrow> opaque (ow_id l) \<and> 1 \<le> ow_device_limit l \<and> ow_device_limit l \<le> 100
     \<and> length (ow_entitlements l) \<le> 64 \<and> ow_concurrent_session_limit l < 65536
     \<and> (ow_offline_file_duration l = 0
        \<or> from_secs 86400 \<le> ow_offline_file_duration l \<and> ow_offline_file_duration l \<le> from_secs (366 * 86400))
     \<and> length (ow_usage_limits l) \<le> 32 \<and> list_all (\<lambda>(k, u). metric_name k \<and> ul_limit u \<le> MAX_INTEGER) (ow_usage_limits l)
     \<and> length (ow_resource_limits l) \<le> 32 \<and> list_all (\<lambda>(k, u). metric_name k \<and> rl_limit u \<le> MAX_INTEGER) (ow_resource_limits l)"

lemma collect_Inr: "collect f xs = Inr ys \<Longrightarrow> length ys = length xs \<and> list_all (\<lambda>y. \<exists>x. f x = Inr y) ys"
  by (induction xs arbitrary: ys) (auto simp: rbind_Inr_iff)

lemma limits_of_Inr:
  "limits_of entry v = Inr ls \<Longrightarrow> length ls \<le> 32 \<and> list_all (\<lambda>y. \<exists>x. entry x = Inr y) ls"
  using collect_Inr by (fastforce simp: limits_of_def rbind_Inr_iff ensure_iff)

lemma usage_limits_sound:
  "deserialize_usage_limits v = Inr ls \<Longrightarrow>
     length ls \<le> 32 \<and> list_all (\<lambda>(k, u). metric_name k \<and> ul_limit u \<le> MAX_INTEGER) ls"
  unfolding deserialize_usage_limits_def
  by (drule limits_of_Inr) (auto simp: list_all_iff usage_limit_entry_def rbind_Inr_iff ensure_iff integer_Inr_iff
      split: prod.splits)

lemma resource_limits_sound:
  "deserialize_resource_limits v = Inr ls \<Longrightarrow>
     length ls \<le> 32 \<and> list_all (\<lambda>(k, u). metric_name k \<and> rl_limit u \<le> MAX_INTEGER) ls"
  unfolding deserialize_resource_limits_def
  by (drule limits_of_Inr) (auto simp: list_all_iff resource_limit_entry_def rbind_Inr_iff ensure_iff integer_Inr_iff
      split: prod.splits)

lemma licence_of_sound:
  assumes "licence_of X d = Some l" "check_licence l = Inr u" shows "sound_licence l"
proof -
  from assms(1) obtain us rs where
    "deserialize_usage_limits (ol_usage_limits d) = Inr us" "ow_usage_limits l = us"
    "deserialize_resource_limits (ol_resource_limits d) = Inr rs" "ow_resource_limits l = rs"
    by (auto simp: licence_of_def bind_eq_Some_conv result_ok_Some_iff)
  moreover from assms(1) have
    "deserialize_concurrent_session_limit (ol_concurrent_session_limit d) = Some (ow_concurrent_session_limit l)"
    "deserialize_offline_file_duration (ol_offline_file_seconds d) = Some (ow_offline_file_duration l)"
    by (auto simp: licence_of_def bind_eq_Some_conv)
  moreover have "ow_offline_file_duration l = 0
      \<or> from_secs 86400 \<le> ow_offline_file_duration l \<and> ow_offline_file_duration l \<le> from_secs (366 * 86400)"
    using calculation(6) by (auto simp: deserialize_offline_file_duration_def from_secs_def split: if_splits)
  moreover have "ow_concurrent_session_limit l < 65536"
    using calculation(5) by (auto simp: deserialize_concurrent_session_limit_def nat_less_iff split: if_splits)
  ultimately show ?thesis
    using assms(2) usage_limits_sound resource_limits_sound
    by (auto simp: sound_licence_def check_licence_def ensure_iff)
qed

lemma opt_map_Some: "opt_map f xs = Some ys \<Longrightarrow> y \<in> set ys \<Longrightarrow> \<exists>x. f x = Some y"
  by (induction xs arbitrary: ys) (auto simp: bind_eq_Some_conv)

lemma check_all_Inr: "check_all ls = Inr u \<Longrightarrow> l \<in> set ls \<Longrightarrow> \<exists>v. check_licence l = Inr v"
  by (induction ls) (auto simp: rbind_Inr_iff)

text \<open>An accepted page has at most a hundred licences, each with identifiers and limits in range.\<close>

lemma owned_licences_are_bounded:
  assumes "owned_licences L w after c = (c', Inr page)"
  shows "length (os_items page) \<le> 100 \<and> none_or opaque (os_next_cursor page)
    \<and> list_all sound_licence (os_items page)"
proof -
  from assms obtain g r c1 where
    "finish_account w 3 g (rbind (decode (page_of L) r) check_page) c1 = (c', Inr page)"
    unfolding owned_licences_def abind_Inr_iff by blast
  from finish_account_Inr[OF this] obtain v q where v: "page_of L v = Some q" "check_page q = Inr page"
    by (auto simp: decode_def rbind_Inr_iff ok_or_iff)
  then have q: "q = page" by (simp add: check_page_def rbind_Inr_iff)
  with v obtain d where "de_page L v = Some d" "opt_map (licence_of L) (pd_items d) = Some (os_items page)"
    by (auto simp: page_of_def bind_eq_Some_conv)
  with v(2) q show ?thesis
    by (auto simp: check_page_def rbind_Inr_iff ensure_iff list_all_iff some_and_iff none_or_iff
        dest!: opt_map_Some check_all_Inr intro: licence_of_sound)
qed

definition account_client :: client where
  "account_client = memory_client\<lparr>cl_state := (fresh_state 0 None)\<lparr>st_account := Some
     \<lparr>as_token = ''token'', as_account = \<lparr>ac_customer = \<lparr>cu_id = ''bob'', cu_username = ''bob'', cu_email = ''b'',
       cu_suspended = False, cu_created_at = 0\<rparr>, ac_expires_at = 0\<rparr>\<rparr>\<rparr>\<rparr>"

definition account_world :: world where
  "account_world = quiet_world\<lparr>w_bearer := (\<lambda>_ _ _ _. Inr (Some JNull))\<rparr>"

lemma account_page: "\<exists>page. page_of account_libs JNull = Some page \<and> check_page page = Inr page"
  by (simp add: page_of_def account_libs_def pro_licence_def licence_of_def deserialize_optional_time_def
      deserialize_optional_duration_def deserialize_concurrent_session_limit_def deserialize_usage_limits_def
      deserialize_resource_limits_def limits_of_def deserialize_duration_def deserialize_offline_file_duration_def
      check_page_def check_licence_def opaque_def text_defs byte_def char_count_def)

text \<open>A logout of a customer whose session the service deletes.\<close>

lemma account_logout:
  "\<exists>c'. logout_account quiet_world account_client = (c', Inr ())"
proof -
  have q: "w_others quiet_world k c = c" "w_bearer quiet_world k m path token = Inr None" for k c m path token
    by (simp_all add: quiet_world_def)
  show ?thesis
    by (simp add: logout_account_def abind_def lock_def q gets_def drop_authority_def try_act_def
        checkpoint_authorized_def account_client_def memory_client_def fresh_state_def authorized_offline_def
        ret_def modify_def clear_def clear_access_def store_invalidate_def on_store_def memory_invalidate_def
        set_version_def of_result_def account_delete_def sent_def demand_def)
qed

theorem account_logout_revokes_witness:
  "\<exists>c'. logout_account quiet_world account_client = (c', Inr ()) \<and> revoked (cl_state c')
    \<and> st_account (cl_state account_client) \<noteq> None
    \<and> cl_sent c' = [(current_session_path account_client, JStr ''token'')]"
proof -
  obtain c' where run: "logout_account quiet_world account_client = (c', Inr ())" using account_logout by blast
  have q: "w_others quiet_world 0 account_client = account_client" by (simp add: quiet_world_def)
  have a: "cl_sent account_client = []" "\<exists>a. st_account (cl_state account_client) = Some a \<and> as_token a = ''token''"
    by (simp_all add: account_client_def memory_client_def online_client_def)
  from account_logout_revokes[OF run q] run a show ?thesis by auto
qed

end
