(* ===== verification/Downloads.thy ===== *)
theory Downloads
  imports Transport
begin

text \<open>
  Protected-download tickets (\<open>downloads.rs\<close>): the grammar of a seller's endpoint and the verifier
  of the short-lived tickets that a seller's server checks.  Times of the system clock are in
  nanoseconds from the Unix epoch.
\<close>

subsection \<open>Endpoints\<close>

definition bad_url_byte :: "char \<Rightarrow> bool" where
  "bad_url_byte c \<longleftrightarrow> byte c \<le> 32 \<or> byte c = 127
     \<or> c \<in> {CHR 0x5C, CHR ''?'', CHR ''#'', CHR ''<'', CHR ''>'', CHR 0x22, CHR ''{'', CHR ''}'',
           CHR ''|'', CHR ''^'', CHR 0x60}"

text \<open>The scan of the bytes: a percent sign has two hexadecimal digits behind it.\<close>

fun url_bytes :: "string \<Rightarrow> bool" where
  "url_bytes [] = True"
| "url_bytes (c # cs) =
     (\<not> bad_url_byte c \<and>
      (if c = CHR ''%'' then
         (case cs of a # b # rest \<Rightarrow> is_hexdigit a \<and> is_hexdigit b \<and> url_bytes rest | _ \<Rightarrow> False)
       else url_bytes cs))"

definition valid_endpoint :: "('x) external_scheme \<Rightarrow> string \<Rightarrow> bool" where
  "valid_endpoint X v \<longleftrightarrow>
     \<not> (v = [] \<or> length v > 2048 \<or> \<not> list_all is_ascii v \<or> \<not> starts_with v ''https://'')
     \<and> url_bytes v \<and> result_ok (download_endpoint X v) \<noteq> None"

subsection \<open>Tickets\<close>

record ticket_verifier =
  tv_app :: app_key
  tv_endpoint :: string
  tv_keys :: keys

record ticket =
  dt_licence_id :: string
  dt_release_id :: string
  dt_artifact_id :: string
  dt_sha256 :: string
  dt_byte_length :: nat
  dt_ticket_id :: string
  dt_issued_at :: int
  dt_expires_at :: int

definition verifier_new :: "libs \<Rightarrow> string \<Rightarrow> string \<Rightarrow> string \<Rightarrow> ticket_verifier result" where
  "verifier_new L key endpoint_text trusted_jwks =
     rbind (parse L key) (\<lambda>app.
     rbind (ensure Configuration (valid_endpoint L endpoint_text)) (\<lambda>_.
     rbind (map_err Configuration (parse_connected L trusted_jwks (environment app))) (\<lambda>ks.
       Inr \<lparr>tv_app = app, tv_endpoint = endpoint_text, tv_keys = ks\<rparr>)))"

definition unix_time :: "int \<Rightarrow> int result" where
  "unix_time seconds = (if 0 \<le> seconds \<and> seconds \<le> MAX_TIME then Inr seconds else Inl InvalidResponse)"

definition nanos :: "int \<Rightarrow> int" where "nanos seconds = seconds * 1000000000"

definition ticket_rejected :: "ticket_verifier \<Rightarrow> ticket_claims \<Rightarrow> int \<Rightarrow> bool" where
  "ticket_rejected v c now \<longleftrightarrow>
     \<not> (0 \<le> now \<and> now \<le> nanos MAX_TIME)
     \<or> tc_ver c \<noteq> 1
     \<or> \<not> opaque (tc_sub c)
     \<or> \<not> opaque (tc_jti c)
     \<or> tc_iss c \<noteq> issuer (tv_app v)
     \<or> tc_aud c \<noteq> tv_endpoint v
     \<or> tc_application_id c \<noteq> application_id (tv_app v)
     \<or> tc_environment_id c \<noteq> environment_id (tv_app v)
     \<or> \<not> opaque (tc_application_id c)
     \<or> \<not> opaque (tc_environment_id c)
     \<or> \<not> opaque (tc_release_id c)
     \<or> \<not> opaque (tc_artifact_id c)
     \<or> \<not> lower_hex (tc_sha256 c) 64
     \<or> tc_byte_length c = 0
     \<or> tc_byte_length c > 9007199254740991
     \<or> tc_nbf c \<noteq> tc_iat c
     \<or> tc_exp c \<le> tc_iat c
     \<or> tc_exp c - tc_iat c > 120
     \<or> nanos (tc_iat c) > now + nanos 30
     \<or> nanos (tc_exp c) \<le> now"

definition verify_ticket :: "libs \<Rightarrow> ticket_verifier \<Rightarrow> string \<Rightarrow> int \<Rightarrow> ticket result" where
  "verify_ticket L v token now =
     rbind (ensure InvalidResponse (\<not> (token = [] \<or> length token > 16 * 1024 \<or> \<not> list_all is_ascii token))) (\<lambda>_.
     rbind (ok_or InvalidResponse (three_parts CHR ''.'' token)) (\<lambda>(hdr, payload, signature).
     rbind (canonical L hdr) (\<lambda>header_bytes.
     rbind (ok_or InvalidResponse (de_header L header_bytes)) (\<lambda>h.
     rbind (ensure InvalidResponse (\<not> (h_alg h \<noteq> ''ES256'' \<or> h_typ h \<noteq> ''orbit-download+jwt''
        \<or> \<not> opaque (h_kid h)))) (\<lambda>_.
     rbind (ok_or InvalidResponse (decoding (tv_keys v) (h_kid h))) (\<lambda>key.
     rbind (canonical L payload) (\<lambda>_.
     rbind (canonical L signature) (\<lambda>sig.
     rbind (ensure InvalidResponse (length sig = 64)) (\<lambda>_.
     rbind (ok_or InvalidResponse
        (jwt_ticket L token key (es256_validation (tv_endpoint v) (issuer (tv_app v))))) (\<lambda>c.
     rbind (unix_time (tc_iat c)) (\<lambda>issued_at.
     rbind (unix_time (tc_exp c)) (\<lambda>expires_at.
     rbind (ensure InvalidResponse (\<not> ticket_rejected v c now)) (\<lambda>_.
       Inr \<lparr>dt_licence_id = tc_sub c, dt_release_id = tc_release_id c, dt_artifact_id = tc_artifact_id c,
            dt_sha256 = tc_sha256 c, dt_byte_length = tc_byte_length c, dt_ticket_id = tc_jti c,
            dt_issued_at = issued_at, dt_expires_at = expires_at\<rparr>)))))))))))))"

lemma unix_time_iff [result_simps]:
  "unix_time s = Inr t \<longleftrightarrow> t = s \<and> 0 \<le> s \<and> s \<le> MAX_TIME"
  "unix_time s = Inl e \<longleftrightarrow> e = InvalidResponse \<and> \<not> (0 \<le> s \<and> s \<le> MAX_TIME)"
  by (auto simp: unix_time_def)

definition ticket_of :: "ticket_claims \<Rightarrow> ticket" where
  "ticket_of c = \<lparr>dt_licence_id = tc_sub c, dt_release_id = tc_release_id c, dt_artifact_id = tc_artifact_id c,
     dt_sha256 = tc_sha256 c, dt_byte_length = tc_byte_length c, dt_ticket_id = tc_jti c,
     dt_issued_at = tc_iat c, dt_expires_at = tc_exp c\<rparr>"

lemma verify_ticket_Inr:
  "verify_ticket L v token now = Inr t \<Longrightarrow>
    \<exists>kid key c. decoding (tv_keys v) kid = Some key
      \<and> jwt_ticket L token key (es256_validation (tv_endpoint v) (issuer (tv_app v))) = Some c
      \<and> \<not> ticket_rejected v c now \<and> t = ticket_of c"
  by (auto simp: verify_ticket_def ticket_of_def rbind_Inr_iff ensure_iff ok_or_iff unix_time_iff
      split: prod.splits)

lemma verify_ticket_error: "verify_ticket L v token now = Inl e \<Longrightarrow> e = InvalidResponse"
  by (auto simp: verify_ticket_def rbind_Inl_iff ensure_iff ok_or_iff unix_time_iff canonical_err
      split: prod.splits)

interpretation ticket: token_verifier
  "\<lambda>t e. verify_ticket L (fst e) t (snd e)" "\<lambda>t. nanos (dt_expires_at t)" snd "nanos 150" for L
proof (unfold_locales, goal_cases)
  case (1 t e c)
  from verify_ticket_Inr[OF this] show ?case by (auto simp: ticket_rejected_def ticket_of_def)
next
  case (2 t e c)
  from verify_ticket_Inr[OF this] show ?case by (auto simp: ticket_rejected_def ticket_of_def nanos_def)
next
  case (3 t e x)
  then show ?case by (rule verify_ticket_error)
qed

end
