(* ===== verification/Updates.thy ===== *)
theory Updates
  imports Downloads
begin

text \<open>
  Updates (\<open>updates.rs\<close>): the metadata of releases and artifacts, the update check, download
  authorisations, and the verified download into a destination file.  The HTTP client, the joining
  of URLs and the file system are inputs of the download.
\<close>

subsection \<open>Artifacts\<close>

datatype delivery_mode = Public | Protected

record artifact =
  ar_id :: string
  ar_release_id :: string
  ar_platform :: string
  ar_architecture :: string
  ar_filename :: string
  ar_byte_length :: nat
  ar_sha256 :: string
  ar_delivery_mode :: delivery_mode
  ar_url :: string
  ar_required_feature :: "string option"

record release =
  re_id :: string
  re_channel :: string
  re_version :: string
  re_notes :: string
  re_release_number :: nat
  re_created_at :: int
  re_published_at :: int
  re_artifacts :: "artifact list"

record update_options =
  uo_channel :: "string option"
  uo_platform :: "string option"
  uo_architecture :: "string option"

record download_authorization =
  da_artifact :: artifact
  da_ticket :: "string option"
  da_expires_at :: "int option"

definition debug_authorization :: "download_authorization \<Rightarrow> string" where
  "debug_authorization a = ''[Orbit download authorization redacted]''"

definition target :: "string \<Rightarrow> bool" where
  "target v \<longleftrightarrow> 1 \<le> length v \<and> length v \<le> 32 \<and> is_lower (hd v)
     \<and> list_all (\<lambda>b. is_lower b \<or> is_digit b \<or> b = CHR ''_'' \<or> b = CHR ''-'') v"

text \<open>The operating system and the architecture are the compiler's constants.\<close>

definition host_platform :: "string \<Rightarrow> string result" where
  "host_platform os = (if os \<in> {''linux'', ''windows'', ''macos''} then Inr os else Inl Configuration)"

definition host_architecture :: "string \<Rightarrow> string result" where
  "host_architecture arch = (if arch = ''x86_64'' then Inr ''x64'' else if arch = ''aarch64'' then Inr ''arm64''
     else if arch = ''x86'' then Inr ''x86'' else Inl Configuration)"

definition options :: "string \<Rightarrow> string \<Rightarrow> update_options \<Rightarrow> (string \<times> string \<times> string) result" where
  "options os arch opt =
     (let channel = or_else (uo_channel opt) ''stable'' in
      rbind (case uo_platform opt of Some v \<Rightarrow> Inr v | None \<Rightarrow> host_platform os) (\<lambda>platform.
      rbind (case uo_architecture opt of Some v \<Rightarrow> Inr v | None \<Rightarrow> host_architecture arch) (\<lambda>architecture.
      rbind (ensure Configuration (\<not> (\<not> target channel \<or> \<not> target platform \<or> \<not> target architecture))) (\<lambda>_.
        Inr (channel, platform, architecture)))))"

definition delivery_url :: "('x) external_scheme \<Rightarrow> string \<Rightarrow> bool \<Rightarrow> bool" where
  "delivery_url X v protected =
     (if protected then valid_endpoint X v
      else if length v > 2048 \<or> \<not> starts_with v ''https://''
        \<or> list_ex (\<lambda>b. byte b \<le> 32 \<or> byte b \<ge> 127 \<or> b = CHR 0x5C \<or> b = CHR ''#'') v then False
      else valid_endpoint X (hd (split_on CHR ''?'' v))
        \<and> some_and (\<lambda>u. url_username u = [] \<and> url_password u = None \<and> url_fragment u = None)
            (url_parse X v))"

definition artifact_keys :: "string list" where
  "artifact_keys = [''id'', ''release_id'', ''platform'', ''architecture'', ''filename'', ''byte_length'',
     ''sha256'', ''delivery_mode'', ''url'', ''required_feature'']"

definition mode_of :: "string \<Rightarrow> delivery_mode result" where
  "mode_of m = (if m = ''public'' then Inr Public else if m = ''protected'' then Inr Protected
     else Inl InvalidResponse)"

definition bad_filename :: "string \<Rightarrow> bool" where
  "bad_filename f \<longleftrightarrow> f = [] \<or> length f > 255 \<or> f \<in> {''.'', ''..''}
     \<or> contains_any {CHR ''/'', CHR 0x5C} f \<or> has_control f"

definition read_artifact :: "('x) external_scheme \<Rightarrow> json \<Rightarrow> artifact result" where
  "read_artifact X v =
     rbind (exact v artifact_keys) (\<lambda>_.
     rbind (text_of v ''id'') (\<lambda>i.
     rbind (text_of v ''release_id'') (\<lambda>release_id.
     rbind (text_of v ''platform'') (\<lambda>platform.
     rbind (text_of v ''architecture'') (\<lambda>architecture.
     rbind (text_of v ''filename'') (\<lambda>filename.
     rbind (text_of v ''sha256'') (\<lambda>sha.
     rbind (integer v ''byte_length'') (\<lambda>len.
     rbind (text_of v ''delivery_mode'') (\<lambda>m.
     rbind (mode_of m) (\<lambda>mode.
     rbind (text_of v ''url'') (\<lambda>u.
     rbind (required_feature v) (\<lambda>f.
     rbind (ensure InvalidResponse (\<not> (\<not> opaque i
        \<or> \<not> opaque release_id
        \<or> \<not> target platform
        \<or> \<not> target architecture
        \<or> bad_filename filename
        \<or> len = 0
        \<or> \<not> lower_hex sha 64
        \<or> \<not> delivery_url X u (mode = Protected)))) (\<lambda>_.
       Inr \<lparr>ar_id = i, ar_release_id = release_id, ar_platform = platform,
            ar_architecture = architecture, ar_filename = filename, ar_byte_length = len,
            ar_sha256 = sha, ar_delivery_mode = mode, ar_url = u, ar_required_feature = f\<rparr>)))))))))))))"

subsection \<open>Update checks and authorisations\<close>

definition release_keys :: "string list" where
  "release_keys = [''id'', ''channel'', ''version'', ''notes'', ''release_number'', ''state'', ''created_at'',
     ''published_at'', ''artifacts'']"

definition read_update ::
    "('x) external_scheme \<Rightarrow> string \<Rightarrow> string \<Rightarrow> string \<Rightarrow> nat \<Rightarrow> json \<Rightarrow> (release \<times> artifact) option result" where
  "read_update X channel platform architecture installed_no v =
     rbind (exact v [''release'', ''artifact'']) (\<lambda>_.
     if json_index v ''release'' = JNull \<and> json_index v ''artifact'' = JNull then Inr None
     else
     rbind (read_artifact X (json_index v ''artifact'')) (\<lambda>art.
     let rel = json_index v ''release'' in
     rbind (exact rel release_keys) (\<lambda>_.
     rbind (text_of rel ''id'') (\<lambda>i.
     rbind (text_of rel ''version'') (\<lambda>version.
     rbind (text_of rel ''notes'') (\<lambda>notes.
     rbind (integer rel ''release_number'') (\<lambda>no.
     rbind (ok_or InvalidResponse (as_array (json_index rel ''artifacts''))) (\<lambda>arts.
     rbind (ensure InvalidResponse (i = ar_release_id art)) (\<lambda>_.
     rbind (text_of rel ''channel'') (\<lambda>ch.
     rbind (ensure InvalidResponse (ch = channel)) (\<lambda>_.
     rbind (text_of rel ''state'') (\<lambda>st.
     rbind (ensure InvalidResponse (\<not> (st \<noteq> ''published''
        \<or> version = []
        \<or> length version > 64
        \<or> length notes > 8192
        \<or> no \<le> installed_no
        \<or> ar_platform art \<noteq> platform
        \<or> ar_architecture art \<noteq> architecture
        \<or> length arts \<noteq> 1))) (\<lambda>_.
     rbind (read_artifact X (arts ! 0)) (\<lambda>only.
     rbind (ensure InvalidResponse (only = art)) (\<lambda>_.
     rbind (date X rel ''created_at'') (\<lambda>created.
     rbind (date X rel ''published_at'') (\<lambda>published.
       Inr (Some (\<lparr>re_id = i, re_channel = channel, re_version = version, re_notes = notes,
         re_release_number = no, re_created_at = created, re_published_at = published,
         re_artifacts = [art]\<rparr>, art)))))))))))))))))))"

definition updates_body :: "string \<Rightarrow> string \<Rightarrow> string \<Rightarrow> nat \<Rightarrow> json" where
  "updates_body channel platform architecture n =
     JObj [(''channel'', JStr channel), (''platform'', JStr platform),
       (''architecture'', JStr architecture), (''installed_release_number'', JInt (int n))]"

definition check_for_updates_with ::
    "libs \<Rightarrow> world \<Rightarrow> string \<Rightarrow> string \<Rightarrow> nat \<Rightarrow> update_options \<Rightarrow> (release \<times> artifact) option act" where
  "check_for_updates_with L w os arch n opt =
     abind (demand Configuration (\<not> n > MAX_INTEGER)) (\<lambda>_.
     abind (of_result (options os arch opt)) (\<lambda>(channel, platform, architecture).
     abind (online_service w ''/updates'' (updates_body channel platform architecture n)) (\<lambda>v.
       of_result (read_update L channel platform architecture n v))))"

definition check_for_updates where
  "check_for_updates L w os arch n = check_for_updates_with L w os arch n
     \<lparr>uo_channel = None, uo_platform = None, uo_architecture = None\<rparr>"

definition read_authorization ::
    "('x) external_scheme \<Rightarrow> string \<Rightarrow> string \<Rightarrow> json \<Rightarrow> download_authorization result" where
  "read_authorization X release_id artifact_id v =
     rbind (exact v [''artifact'', ''ticket'', ''expires_at'']) (\<lambda>_.
     rbind (read_artifact X (json_index v ''artifact'')) (\<lambda>art.
     rbind (ensure InvalidResponse (\<not> (ar_id art \<noteq> artifact_id \<or> ar_release_id art \<noteq> release_id))) (\<lambda>_.
     case ar_delivery_mode art of
       Public \<Rightarrow>
         rbind (ensure InvalidResponse (\<not> (json_index v ''ticket'' \<noteq> JNull \<or> json_index v ''expires_at'' \<noteq> JNull))) (\<lambda>_.
           Inr \<lparr>da_artifact = art, da_ticket = None, da_expires_at = None\<rparr>)
     | Protected \<Rightarrow>
         rbind (text_of v ''ticket'') (\<lambda>t.
         rbind (ensure InvalidResponse (\<not> (t = [] \<or> length t > 16 * 1024
            \<or> list_ex (\<lambda>b. byte b \<le> 32 \<or> byte b \<ge> 127) t))) (\<lambda>_.
         rbind (date X v ''expires_at'') (\<lambda>e.
           Inr \<lparr>da_artifact = art, da_ticket = Some t, da_expires_at = Some e\<rparr>))))))"

definition authorize_download ::
    "libs \<Rightarrow> world \<Rightarrow> string \<Rightarrow> string \<Rightarrow> download_authorization act" where
  "authorize_download L w release_id artifact_id =
     abind (demand Configuration (\<not> (\<not> opaque release_id \<or> \<not> opaque artifact_id))) (\<lambda>_.
     abind (online_service w ''/downloads/authorize''
        (JObj [(''release_id'', JStr release_id), (''artifact_id'', JStr artifact_id)])) (\<lambda>v.
       of_result (read_authorization L release_id artifact_id v)))"

subsection \<open>Downloading\<close>

text \<open>One response of the seller's server; \<open>None\<close> in the location is a header that is not text.\<close>

record hop =
  hp_status :: nat
  hp_location :: "string option option"
  hp_content_length :: "nat option"
  hp_content_encoding :: "string option"
  hp_chunks :: "(request_error + string) list"

datatype destination_state = Absent | Present | Unreadable

text \<open>What a download meets: the responses, by request number, URL and bearer ticket; joining a
  location to the URL of a response; the wall clock in nanoseconds; the file system; cancellation.\<close>

record download_world =
  dw_send :: "nat \<Rightarrow> string \<Rightarrow> string option \<Rightarrow> request_error + hop"
  dw_join :: "string \<Rightarrow> string \<Rightarrow> string option"
  dw_now :: int
  dw_destination :: destination_state
  dw_random :: "string option"  \<comment> \<open>for the name of the temporary file\<close>
  dw_stage :: bool             \<comment> \<open>creating it succeeds\<close>
  dw_write :: "nat \<Rightarrow> bool"     \<comment> \<open>writing a chunk at this offset succeeds\<close>
  dw_sync :: bool
  dw_cancelled :: bool
  dw_install :: bool           \<comment> \<open>the final rename or link succeeds\<close>

definition redirect_codes :: "nat set" where "redirect_codes = {301, 302, 303, 307, 308}"

definition check_location :: "('x) external_scheme \<Rightarrow> string \<Rightarrow> unit result" where
  "check_location X loc =
     rbind (ensure TransportSecurity (\<not> (list_ex (\<lambda>b. byte b \<le> 32 \<or> byte b \<ge> 127 \<or> b = CHR 0x5C) loc
        \<or> CHR ''#'' \<in> set loc))) (\<lambda>_.
     rbind (ensure TransportSecurity (\<not> (starts_with loc ''//'' \<and> \<not> delivery_url X (''https:'' @ loc) False))) (\<lambda>_.
       ensure TransportSecurity (\<not> (starts_with loc ''https://'' \<and> \<not> delivery_url X loc False))))"

definition next_url :: "('x) external_scheme \<Rightarrow> download_world \<Rightarrow> string \<Rightarrow> hop \<Rightarrow> string result" where
  "next_url X dw current h =
     rbind (ok_or InvalidResponse (hp_location h)) (\<lambda>value.
     rbind (ok_or InvalidResponse value) (\<lambda>loc.
     rbind (check_location X loc) (\<lambda>_.
       ok_or InvalidResponse (dw_join dw current loc))))"

text \<open>The redirect loop: the requests made, with the ticket each carried, and the final response.\<close>

fun follow ::
    "('x) external_scheme \<Rightarrow> download_world \<Rightarrow> string option \<Rightarrow> string \<Rightarrow> nat list
      \<Rightarrow> (string \<times> string option) list \<times> hop result" where
  "follow X dw ticket current [] = ([], Inl InvalidResponse)"
| "follow X dw ticket current (n # rest) =
     (if \<not> delivery_url X current False then ([], Inl TransportSecurity)
      else let carried = (if n = 0 then ticket else None) in
       (case dw_send dw n current carried of
          Inl e \<Rightarrow> ([(current, carried)], Inl (af_error (transport_failure e)))
        | Inr h \<Rightarrow>
            if hp_status h \<in> redirect_codes then
              (if n = 5 then ([(current, carried)], Inl InvalidResponse)
               else (case next_url X dw current h of
                   Inl e \<Rightarrow> ([(current, carried)], Inl e)
                 | Inr current' \<Rightarrow>
                     (case follow X dw ticket current' rest of
                        (reqs, r) \<Rightarrow> ((current, carried) # reqs, r))))
            else ([(current, carried)], Inr h)))"

definition chunk_error :: "request_error \<Rightarrow> error" where
  "chunk_error e = (let x = af_error (transport_failure e) in if is_transient x then x else InvalidResponse)"

fun save_chunks ::
    "download_world \<Rightarrow> nat \<Rightarrow> nat \<Rightarrow> string \<Rightarrow> (request_error + string) list \<Rightarrow> string result" where
  "save_chunks dw max_size len acc [] = Inr acc"
| "save_chunks dw max_size len acc (Inl e # rest) = Inl (chunk_error e)"
| "save_chunks dw max_size len acc (Inr chunk # rest) =
     (let size = length acc + length chunk in
      if size \<ge> 2 ^ 64 then Inl InvalidResponse
      else if size > max_size \<or> size > len then Inl InvalidResponse
      else if \<not> dw_write dw (length acc) then Inl StorageError
      else save_chunks dw max_size len (acc @ chunk) rest)"

definition check_download :: "artifact \<Rightarrow> nat \<Rightarrow> hop \<Rightarrow> unit result" where
  "check_download art max_size h =
     ensure InvalidResponse (\<not> (hp_status h \<noteq> 200
        \<or> some_and (\<lambda>size. size \<noteq> ar_byte_length art \<or> size > max_size) (hp_content_length h)
        \<or> some_and (\<lambda>v. v \<noteq> ''identity'') (hp_content_encoding h)))"

definition prepare_download ::
    "('x) external_scheme \<Rightarrow> download_world \<Rightarrow> download_authorization \<Rightarrow> string \<Rightarrow> nat \<Rightarrow> bool \<Rightarrow> unit result" where
  "prepare_download X dw a destination max_size replace_existing =
     rbind (ensure Configuration (\<not> (max_size = 0 \<or> max_size > MAX_INTEGER
        \<or> ar_byte_length (da_artifact a) > max_size \<or> destination = []))) (\<lambda>_.
     rbind (ensure (Denied ''download_authorization_expired'' None)
        (\<not> some_and (\<lambda>t. nanos t \<le> dw_now dw) (da_expires_at a))) (\<lambda>_.
     rbind (if replace_existing then Inr ()
            else (case dw_destination dw of
                Present \<Rightarrow> Inl Configuration | Absent \<Rightarrow> Inr () | Unreadable \<Rightarrow> Inl StorageError)) (\<lambda>_.
     rbind (new_installation X (dw_random dw)) (\<lambda>_.
       ensure StorageError (dw_stage dw)))))"

text \<open>A finished download: the requests, what the destination now holds if it was written, and the
  result.\<close>

record download_run =
  dr_requests :: "(string \<times> string option) list"
  dr_written :: "string option"
  dr_result :: "unit result"

definition finish_download ::
    "('x) external_scheme \<Rightarrow> download_world \<Rightarrow> artifact \<Rightarrow> nat \<Rightarrow> hop \<Rightarrow> string result" where
  "finish_download X dw art max_size h =
     rbind (check_download art max_size h) (\<lambda>_.
     rbind (save_chunks dw max_size (ar_byte_length art) [] (hp_chunks h)) (\<lambda>bytes.
     rbind (ensure InvalidResponse (\<not> (length bytes \<noteq> ar_byte_length art
        \<or> digest X bytes \<noteq> ar_sha256 art))) (\<lambda>_.
     rbind (ensure StorageError (dw_sync dw)) (\<lambda>_.
     rbind (ensure Cancelled (\<not> dw_cancelled dw)) (\<lambda>_.
     rbind (ensure StorageError (dw_install dw)) (\<lambda>_. Inr bytes))))))"

definition download_using ::
    "('x) external_scheme \<Rightarrow> download_world \<Rightarrow> download_authorization \<Rightarrow> string \<Rightarrow> nat \<Rightarrow> bool
      \<Rightarrow> download_run" where
  "download_using X dw a destination max_size replace_existing =
     (case prepare_download X dw a destination max_size replace_existing of
        Inl e \<Rightarrow> \<lparr>dr_requests = [], dr_written = None, dr_result = Inl e\<rparr>
      | Inr _ \<Rightarrow>
         (case follow X dw (da_ticket a) (ar_url (da_artifact a)) [0, 1, 2, 3, 4, 5] of
            (reqs, Inl e) \<Rightarrow> \<lparr>dr_requests = reqs, dr_written = None, dr_result = Inl e\<rparr>
          | (reqs, Inr h) \<Rightarrow>
             (case finish_download X dw (da_artifact a) max_size h of
                Inl e \<Rightarrow> \<lparr>dr_requests = reqs, dr_written = None, dr_result = Inl e\<rparr>
              | Inr bytes \<Rightarrow> \<lparr>dr_requests = reqs, dr_written = Some bytes, dr_result = Inr ()\<rparr>)))"

end
