(* ===== verification/Releases.thy ===== *)
theory Releases
  imports Updates Metering
begin

text \<open>
  What tickets, update checks and downloads guarantee: a ticket is accepted for minutes at one
  endpoint, an offered update is newer and for this target, a destination file holds exactly the
  signed bytes, and a ticket is shown to the seller's server only.
\<close>

subsection \<open>Tickets\<close>

text \<open>
  C27.  A ticket is short-lived and for one endpoint.  A ticket that the verifier accepts twice was
  checked within 150 seconds; it was signed for exactly this endpoint, issuer, application and
  environment, is still running at each check, and names a file by its SHA-256 digest and a
  length of 1 to 53 bits.
\<close>

theorem ticket_is_short_lived:
  assumes "verify_ticket L v token now = Inr t" "verify_ticket L v token' now' = Inr t"
  shows "\<bar>now - now'\<bar> < nanos 150 \<and> now < nanos (dt_expires_at t)
    \<and> (\<exists>kid key c. decoding (tv_keys v) kid = Some key
        \<and> jwt_ticket L token key (es256_validation (tv_endpoint v) (issuer (tv_app v))) = Some c
        \<and> t = ticket_of c \<and> tc_aud c = tv_endpoint v \<and> tc_iss c = issuer (tv_app v)
        \<and> tc_application_id c = application_id (tv_app v) \<and> tc_environment_id c = environment_id (tv_app v))
    \<and> lower_hex (dt_sha256 t) 64 \<and> 0 < dt_byte_length t \<and> dt_byte_length t < 2 ^ 53"
proof -
  have "\<bar>now - now'\<bar> < nanos 150"
    using ticket.replay_window[where L = L and e = "(v, now)" and e' = "(v, now')" and t = token and t' = token'] assms by simp
  moreover have "now < nanos (dt_expires_at t)"
    using ticket.check_running[where L = L and e = "(v, now)" and t = token] assms by simp
  ultimately show ?thesis
    using verify_ticket_Inr[OF assms(1)] by (fastforce simp: ticket_rejected_def ticket_of_def)
qed

definition ticket_doc :: ticket_claims where
  "ticket_doc = \<lparr>tc_ver = 1, tc_iss = ''https://o.eu'', tc_aud = ''https://d.eu'', tc_sub = ''licence'',
     tc_jti = ''j'', tc_iat = 1000, tc_nbf = 1000, tc_exp = 1100, tc_application_id = ''app'',
     tc_environment_id = ''env'', tc_release_id = ''r'', tc_artifact_id = ''a'',
     tc_sha256 = replicate 64 CHR ''a'', tc_byte_length = 7\<rparr>"

definition ticket_libs :: libs where
  "ticket_libs = sample_libs
     \<lparr>de_header := (\<lambda>_. Some \<lparr>h_alg = ''ES256'', h_typ = ''orbit-download+jwt'', h_kid = ''live-k''\<rparr>),
      jwt_ticket := (\<lambda>token key v. if token = sample_token then Some ticket_doc else None)\<rparr>"

definition sample_verifier :: ticket_verifier where
  "sample_verifier = \<lparr>tv_app = sample_key, tv_endpoint = ''https://d.eu'', tv_keys = sample_keys\<rparr>"

lemma sample_ticket:
  assumes "nanos 1000 \<le> now" "now < nanos 1100"
  shows "verify_ticket ticket_libs sample_verifier sample_token now = Inr (ticket_of ticket_doc)"
proof -
  have parts: "three_parts CHR ''.'' sample_token = Some (''h'', ''p'', replicate 64 CHR ''s'')"
    unfolding sample_token_def by (simp add: three_parts_iff split_on_id)
  have ascii: "list_all is_ascii sample_token" "length sample_token = 68" "sample_token \<noteq> []"
    by (simp_all add: sample_token_def text_defs byte_def)
  have ok: "\<not> ticket_rejected sample_verifier ticket_doc now"
    using assms
    by (simp add: ticket_rejected_def ticket_doc_def sample_verifier_def sample_key_def issuer_def opaque_def
        lower_hex_def text_defs byte_def nanos_def MAX_TIME_def)
  have canon: "canonical ticket_libs x = Inr x" for x
    by (simp add: canonical_def ticket_libs_def sample_libs_def)
  have lib: "de_header ticket_libs x = Some \<lparr>h_alg = ''ES256'', h_typ = ''orbit-download+jwt'', h_kid = ''live-k''\<rparr>"
    "jwt_ticket ticket_libs sample_token key w = Some ticket_doc" for x key w
    by (simp_all add: ticket_libs_def)
  have key: "decoding (tv_keys sample_verifier) ''live-k'' = Some (''x'', ''y'')" "opaque ''live-k''"
    by (simp_all add: sample_verifier_def sample_keys_def opaque_def text_defs byte_def)
  have times: "unix_time (tc_iat ticket_doc) = Inr (tc_iat ticket_doc)" "unix_time (tc_exp ticket_doc) = Inr (tc_exp ticket_doc)"
    by (simp_all add: unix_time_def ticket_doc_def MAX_TIME_def)
  show ?thesis
    by (simp add: verify_ticket_def parts ascii canon lib key times ok ticket_of_def)
qed

theorem ticket_is_short_lived_witness:
  "verify_ticket ticket_libs sample_verifier sample_token (nanos 1000) = Inr (ticket_of ticket_doc)
   \<and> \<bar>nanos 1000 - nanos 1099\<bar> < nanos 150"
proof -
  have a: "verify_ticket ticket_libs sample_verifier sample_token (nanos 1000) = Inr (ticket_of ticket_doc)"
    by (rule sample_ticket) (simp_all add: nanos_def)
  have b: "verify_ticket ticket_libs sample_verifier sample_token (nanos 1099) = Inr (ticket_of ticket_doc)"
    by (rule sample_ticket) (simp_all add: nanos_def)
  from ticket_is_short_lived[OF a b] a show ?thesis by blast
qed

subsection \<open>Downloads\<close>

lemma save_chunks_Inr:
  "save_chunks dw m len acc chunks = Inr bytes \<Longrightarrow> length acc \<le> m \<and> length acc \<le> len \<Longrightarrow>
     length bytes \<le> m \<and> length bytes \<le> len"
proof (induction dw m len acc chunks rule: save_chunks.induct)
  case (3 dw m len acc chunk rest)
  from "3.prems"(1) have c: "\<not> length acc + length chunk \<ge> 2 ^ 64" "\<not> (length acc + length chunk > m \<or> length acc + length chunk > len)"
    "dw_write dw (length acc)" "save_chunks dw m len (acc @ chunk) rest = Inr bytes"
    by (auto simp: Let_def split: if_splits)
  show ?case by (rule "3.IH"[OF refl c(1,2) _ c(4)]) (use c in auto)
qed auto

lemma follow_requests:
  assumes "follow X dw ticket current ns = (reqs, r)"
  shows "length reqs \<le> length ns \<and> list_all (\<lambda>(u, t). delivery_url X u False) reqs
    \<and> list_all (\<lambda>(u, t). t = None \<or> (0 \<in> set ns \<and> t = ticket)) reqs
    \<and> (reqs = [] \<or> fst (hd reqs) = current)
    \<and> (0 \<in> set (tl ns) \<or> list_all (\<lambda>(u, t). t = None) (tl reqs))"
  using assms
proof (induction X dw ticket current ns arbitrary: reqs r rule: follow.induct)
  case (2 X dw ticket current n rest)
  show ?case
  proof (cases "delivery_url X current False")
    case True
    let ?t = "if n = 0 then ticket else None"
    show ?thesis
    proof (cases "\<exists>h current'. dw_send dw n current ?t = Inr h \<and> hp_status h \<in> redirect_codes \<and> n \<noteq> 5
        \<and> next_url X dw current h = Inr current'")
      case redirect: True
      then obtain h current' where h: "dw_send dw n current ?t = Inr h" "hp_status h \<in> redirect_codes" "n \<noteq> 5"
        "next_url X dw current h = Inr current'" by blast
      obtain reqs' r' where f: "follow X dw ticket current' rest = (reqs', r')"
        by (cases "follow X dw ticket current' rest")
      have "length reqs' \<le> length rest \<and> list_all (\<lambda>(u, t). delivery_url X u False) reqs'
        \<and> list_all (\<lambda>(u, t). t = None \<or> (0 \<in> set rest \<and> t = ticket)) reqs'"
        using "2.IH"[of ?t h current' reqs' r'] True h f by simp
      moreover have "reqs = (current, ?t) # reqs'"
        using "2.prems" True h f by (auto simp: Let_def)
      ultimately show ?thesis using True by (auto simp: list_all_iff)
    next
      case False
      then have "reqs = [(current, ?t)]"
        using "2.prems" True by (auto simp: Let_def split: sum.splits if_splits)
      with True show ?thesis by auto
    qed
  qed (use "2.prems" in auto)
qed auto

text \<open>
  C28.  The ticket is shown to the seller's server only.  A download makes at most six requests, all
  to acceptable HTTPS URLs; the first goes to the URL of the signed artifact, and no request after
  it, wherever the redirects lead, carries the ticket.
\<close>

theorem ticket_stays_with_seller:
  "length (dr_requests (download_using X dw a destination max_size replace)) \<le> 6
   \<and> list_all (\<lambda>(u, t). delivery_url X u False) (dr_requests (download_using X dw a destination max_size replace))
   \<and> (dr_requests (download_using X dw a destination max_size replace) = []
      \<or> fst (hd (dr_requests (download_using X dw a destination max_size replace))) = ar_url (da_artifact a))
   \<and> list_all (\<lambda>(u, t). t = None) (tl (dr_requests (download_using X dw a destination max_size replace)))"
proof (cases "prepare_download X dw a destination max_size replace")
  case (Inr u)
  obtain reqs h where f: "follow X dw (da_ticket a) (ar_url (da_artifact a)) [0, 1, 2, 3, 4, 5] = (reqs, h)"
    by (cases "follow X dw (da_ticket a) (ar_url (da_artifact a)) [0, 1, 2, 3, 4, 5]")
  have "dr_requests (download_using X dw a destination max_size replace) = reqs"
    using Inr f by (simp add: download_using_def split: sum.splits)
  with follow_requests[OF f] show ?thesis by simp
qed (simp add: download_using_def)

text \<open>A destination holds exactly the signed file: a download succeeds exactly when it writes the destination, and then the bytes have the artifact's length and digest.\<close>

lemma download_is_exact:
  assumes "download_using X dw a destination max_size replace = run"
    and "dr_result run = Inr () \<or> dr_written run \<noteq> None"
  shows "\<exists>bytes. dr_written run = Some bytes \<and> dr_result run = Inr ()
    \<and> length bytes = ar_byte_length (da_artifact a) \<and> length bytes \<le> max_size
    \<and> digest X bytes = ar_sha256 (da_artifact a)
    \<and> none_or (\<lambda>t. dw_now dw < nanos t) (da_expires_at a)
    \<and> (replace \<or> dw_destination dw = Absent)"
proof -
  obtain reqs hr where f: "follow X dw (da_ticket a) (ar_url (da_artifact a)) [0, 1, 2, 3, 4, 5] = (reqs, hr)"
    by (cases "follow X dw (da_ticket a) (ar_url (da_artifact a)) [0, 1, 2, 3, 4, 5]")
  from assms f obtain u h bytes where p: "prepare_download X dw a destination max_size replace = Inr u"
    and hr: "hr = Inr h" and fin: "finish_download X dw (da_artifact a) max_size h = Inr bytes"
    by (auto simp: download_using_def split: sum.splits)
  have run: "dr_written run = Some bytes" "dr_result run = Inr ()"
    using assms(1) p f hr fin by (auto simp: download_using_def)
  have "length bytes = ar_byte_length (da_artifact a)" "digest X bytes = ar_sha256 (da_artifact a)"
    "save_chunks dw max_size (ar_byte_length (da_artifact a)) [] (hp_chunks h) = Inr bytes"
    using fin by (auto simp: finish_download_def rbind_Inr_iff ensure_iff)
  moreover from this(3) have "length bytes \<le> max_size" by (auto dest: save_chunks_Inr)
  moreover have "none_or (\<lambda>t. dw_now dw < nanos t) (da_expires_at a)" "replace \<or> dw_destination dw = Absent"
    using p by (cases "da_expires_at a"; cases "dw_destination dw";
        simp add: prepare_download_def rbind_Inr_iff ensure_iff split: if_splits)+
  ultimately show ?thesis using run by blast
qed

text \<open>A seller who sends seven bytes at once, and one who redirects first.\<close>

definition sample_artifact :: artifact where
  "sample_artifact = \<lparr>ar_id = ''a'', ar_release_id = ''r'', ar_platform = ''linux'', ar_architecture = ''x64'',
     ar_filename = ''f'', ar_byte_length = 7, ar_sha256 = digest sample_libs ''content'',
     ar_delivery_mode = Protected, ar_url = ''https://o.eu'', ar_required_feature = None\<rparr>"

definition sample_authorization :: download_authorization where
  "sample_authorization = \<lparr>da_artifact = sample_artifact, da_ticket = Some ''ticket'', da_expires_at = Some 1100\<rparr>"

definition sample_hop :: hop where
  "sample_hop = \<lparr>hp_status = 200, hp_location = None, hp_content_length = Some 7, hp_content_encoding = None,
     hp_chunks = [Inr ''con'', Inr ''tent'']\<rparr>"

definition sample_seller :: download_world where
  "sample_seller = \<lparr>dw_send = (\<lambda>_ _ _. Inr sample_hop), dw_join = (\<lambda>_ _. None), dw_now = nanos 1000,
     dw_destination = Absent, dw_random = Some (replicate 16 CHR ''r''), dw_stage = True, dw_write = (\<lambda>_. True),
     dw_sync = True, dw_cancelled = False, dw_install = True\<rparr>"

lemma sample_endpoint: "valid_endpoint sample_libs ''https://o.eu''"
  by (simp add: valid_endpoint_def download_endpoint_def raw_port_def sample_libs_def sample_url_def text_defs byte_def
      bad_url_byte_def contains_any_def rbind_def ok_or_def ensure_def
      starts_with_def no_control_or_whitespace_def ws_front_def Let_def)

lemma sample_delivery: "delivery_url sample_libs ''https://o.eu'' False"
proof -
  have "url_parse sample_libs v = Some sample_url" for v by (simp add: sample_libs_def)
  then show ?thesis
    using sample_endpoint by (simp add: delivery_url_def text_defs byte_def starts_with_def sample_url_def)
qed

subsection \<open>Update checks\<close>

lemma read_artifact_Inr:
  "read_artifact X v = Inr a \<Longrightarrow> opaque (ar_id a) \<and> target (ar_platform a) \<and> target (ar_architecture a)
     \<and> \<not> bad_filename (ar_filename a) \<and> 0 < ar_byte_length a \<and> lower_hex (ar_sha256 a) 64
     \<and> delivery_url X (ar_url a) (ar_delivery_mode a = Protected)"
  by (auto simp: read_artifact_def rbind_Inr_iff ensure_iff)

text \<open>
  C30.  An offered update is newer and for this target.  When an update check offers a release, its
  number is above the installed one, it is of the channel asked for, its only artifact is the one
  offered, made for the platform and architecture asked for, with a plain file name (no separator,
  no control character, neither dot name), a SHA-256 digest, a length and an acceptable HTTPS URL.
\<close>

theorem update_is_newer:
  assumes "check_for_updates_with L w os arch n opt c = (c', Inr (Some (rel, art)))"
  shows "n < re_release_number rel \<and> re_artifacts rel = [art] \<and> ar_release_id art = re_id rel
    \<and> options os arch opt = Inr (re_channel rel, ar_platform art, ar_architecture art)
    \<and> \<not> bad_filename (ar_filename art) \<and> 0 < ar_byte_length art \<and> lower_hex (ar_sha256 art) 64
    \<and> delivery_url L (ar_url art) (ar_delivery_mode art = Protected)"
proof -
  from assms obtain ch pf ac v where o: "options os arch opt = Inr (ch, pf, ac)"
    and r: "read_update L ch pf ac n v = Inr (Some (rel, art))"
    by (auto simp: check_for_updates_with_def result_simps)
  from r have "read_artifact L (json_index v ''artifact'') = Inr art"
    and "n < re_release_number rel" "re_artifacts rel = [art]" "ar_release_id art = re_id rel"
    "re_channel rel = ch" "ar_platform art = pf" "ar_architecture art = ac"
    by (auto simp: read_update_def Let_def rbind_Inr_iff ensure_iff split: if_splits)
  with read_artifact_Inr[OF this(1)] o show ?thesis by simp
qed

text \<open>A reply that offers release 8 for Linux.\<close>

definition artifact_json :: json where
  "artifact_json = JObj [(''id'', JStr ''a''), (''release_id'', JStr ''r''), (''platform'', JStr ''linux''),
     (''architecture'', JStr ''x64''), (''filename'', JStr ''f''), (''byte_length'', JInt 7),
     (''sha256'', JStr (replicate 64 CHR ''a'')), (''delivery_mode'', JStr ''protected''),
     (''url'', JStr ''https://o.eu''), (''required_feature'', JNull)]"

definition update_json :: json where
  "update_json = JObj [(''release'', JObj [(''id'', JStr ''r''), (''channel'', JStr ''stable''),
       (''version'', JStr ''2''), (''notes'', JStr []), (''release_number'', JInt 8), (''state'', JStr ''published''),
       (''created_at'', JStr ''t''), (''published_at'', JStr ''t''), (''artifacts'', JArr [artifact_json])]),
     (''artifact'', artifact_json)]"

definition offered_artifact :: artifact where
  "offered_artifact = sample_artifact\<lparr>ar_sha256 := replicate 64 CHR ''a''\<rparr>"

lemma offered_artifact: "read_artifact sample_libs artifact_json = Inr offered_artifact"
  by (simp add: read_artifact_def artifact_json_def exact_def artifact_keys_def text_of_def json_get_def contains_key_def
      integer_def mode_of_def required_feature_def target_def bad_filename_def opaque_def lower_hex_def text_defs byte_def
      MAX_INTEGER_def delivery_url_def sample_endpoint contains_any_def offered_artifact_def sample_artifact_def)

lemma offered_update:
  "\<exists>rel. read_update sample_libs ''stable'' ''linux'' ''x64'' 7 update_json = Inr (Some (rel, offered_artifact))"
proof -
  have "date sample_libs v k = rbind (text_of v k) (\<lambda>_. Inr 1000)" for v k
    by (simp add: date_def sample_libs_def from_unix_seconds_def checked_i64_def i64_defs)
  moreover have "json_index update_json ''artifact'' = artifact_json" "artifact_json \<noteq> JNull"
    by (simp_all add: update_json_def json_index_def json_get_def artifact_json_def)
  ultimately show ?thesis
    by (simp add: read_update_def offered_artifact Let_def)
      (simp add: update_json_def json_index_def json_get_def exact_def contains_key_def release_keys_def text_of_def
        integer_def MAX_INTEGER_def offered_artifact offered_artifact_def sample_artifact_def)
qed

theorem update_is_newer_witness:
  "\<exists>c' rel. check_for_updates_with sample_libs (answering (Inr (Some update_json))) ''linux'' ''x86_64'' 7
     \<lparr>uo_channel = None, uo_platform = None, uo_architecture = None\<rparr> seat_client
     = (c', Inr (Some (rel, offered_artifact))) \<and> 7 < re_release_number rel"
proof -
  obtain rel where r: "read_update sample_libs ''stable'' ''linux'' ''x64'' 7 update_json = Inr (Some (rel, offered_artifact))"
    using offered_update by blast
  obtain c' where o: "online_service (answering (Inr (Some update_json))) ''/updates''
      (updates_body ''stable'' ''linux'' ''x64'' 7) seat_client = (c', Inr update_json)"
    using seat_online_service[of "Inr (Some update_json)"] by (auto simp: ok_or_def)
  have "options ''linux'' ''x86_64'' \<lparr>uo_channel = None, uo_platform = None, uo_architecture = None\<rparr>
      = Inr (''stable'', ''linux'', ''x64'')"
    by (simp add: options_def host_platform_def host_architecture_def target_def text_defs byte_def)
  with o r have run: "check_for_updates_with sample_libs (answering (Inr (Some update_json))) ''linux'' ''x86_64'' 7
     \<lparr>uo_channel = None, uo_platform = None, uo_architecture = None\<rparr> seat_client
     = (c', Inr (Some (rel, offered_artifact)))"
    by (simp add: check_for_updates_with_def abind_def demand_def of_result_def MAX_INTEGER_def)
  from update_is_newer[OF run] run show ?thesis by blast
qed

end
