(* ===== verification/Staging.thy ===== *)
theory Staging
  imports Releases
begin

text \<open>
  A download on the file system (\<open>updates.rs\<close>): the temporary file beside the destination, which
  \<open>StagedFile\<close> removes when it is dropped, and the race of the transfer against cancellation.  A
  cancellation takes effect where the transfer waits: before it starts, at a request, or at a read
  of the body.
\<close>

subsection \<open>The temporary file\<close>

text \<open>\<open>parent\<close> is \<open>Path::parent\<close> of the destination.\<close>

definition stage_path :: "string option \<Rightarrow> string \<Rightarrow> string" where
  "stage_path parent name = path_join (or_else (filter_opt (\<lambda>p. p \<noteq> []) parent) ''.'') (''.orbit-download-'' @ name)"

type_synonym file_tree = "string \<Rightarrow> string option"

text \<open>\<open>sg_cancel\<close>: where a cancellation wins, 0 before the start and \<open>n + 1\<close> at the \<open>n\<close>-th wait;
  \<open>sg_left\<close>: what the temporary file holds if the download ends early.\<close>

record staging =
  sg_builds :: bool              \<comment> \<open>the HTTP client can be built\<close>
  sg_parent :: "string option"
  sg_cancel :: "nat option"
  sg_left :: string
  sg_removes :: bool

definition staged_at :: "('x) external_scheme \<Rightarrow> download_world \<Rightarrow> staging \<Rightarrow> string" where
  "staged_at X dw sg = (case new_installation X (dw_random dw) of
       Inl _ \<Rightarrow> [] | Inr dev \<Rightarrow> stage_path (sg_parent sg) (installation_id dev))"

definition drop_stage :: "staging \<Rightarrow> string \<Rightarrow> file_tree \<Rightarrow> file_tree" where
  "drop_stage sg path files = (if sg_removes sg then files(path := None) else files)"

subsection \<open>Waiting\<close>

text \<open>How often the body is read before the loop over its chunks stops.\<close>

fun chunk_reads :: "download_world \<Rightarrow> nat \<Rightarrow> nat \<Rightarrow> nat \<Rightarrow> (request_error + string) list \<Rightarrow> nat" where
  "chunk_reads dw max_size len n [] = 1"
| "chunk_reads dw max_size len n (Inl e # rest) = 1"
| "chunk_reads dw max_size len n (Inr chunk # rest) =
     (let size = n + length chunk in
      if size \<ge> 2 ^ 64 \<or> size > max_size \<or> size > len \<or> \<not> dw_write dw n then 1
      else Suc (chunk_reads dw max_size len size rest))"

definition awaits :: "('x) external_scheme \<Rightarrow> download_world \<Rightarrow> download_authorization \<Rightarrow> nat \<Rightarrow> nat" where
  "awaits X dw a max_size =
     (case follow X dw (da_ticket a) (ar_url (da_artifact a)) [0, 1, 2, 3, 4, 5] of
        (reqs, Inl e) \<Rightarrow> length reqs
      | (reqs, Inr h) \<Rightarrow> length reqs + (case check_download (da_artifact a) max_size h of
            Inl _ \<Rightarrow> 0
          | Inr _ \<Rightarrow> chunk_reads dw max_size (ar_byte_length (da_artifact a)) 0 (hp_chunks h)))"

subsection \<open>The download\<close>

text \<open>What the calls of the download see of the file system.\<close>

definition on_files :: "download_world \<Rightarrow> string \<Rightarrow> string \<Rightarrow> bool \<Rightarrow> file_tree \<Rightarrow> download_world" where
  "on_files dw path destination replace_existing files =
     dw\<lparr>dw_destination := (if dw_destination dw = Unreadable then Unreadable
          else if files destination = None then Absent else Present),
        dw_stage := (dw_stage dw \<and> files path = None),
        dw_install := (dw_install dw \<and> (replace_existing \<or> files destination = None))\<rparr>"

definition install_file :: "bool \<Rightarrow> string \<Rightarrow> string \<Rightarrow> string \<Rightarrow> file_tree \<Rightarrow> file_tree" where
  "install_file replace_existing path destination bytes files =
     (if replace_existing then files(path := None, destination \<mapsto> bytes)
      else files(path \<mapsto> bytes, destination \<mapsto> bytes))"

definition download_with ::
    "('x) external_scheme \<Rightarrow> download_world \<Rightarrow> staging \<Rightarrow> download_authorization \<Rightarrow> string \<Rightarrow> nat \<Rightarrow> bool
      \<Rightarrow> file_tree \<Rightarrow> file_tree \<times> download_run" where
  "download_with X dw0 sg a destination max_size replace_existing files =
     (let path = staged_at X dw0 sg;
          dw = on_files dw0 path destination replace_existing files;
          run = download_using X dw a destination max_size replace_existing;
          early = drop_stage sg path (files(path \<mapsto> sg_left sg));
          stopped = (\<lambda>n. \<lparr>dr_requests = take n (dr_requests run), dr_written = None, dr_result = Inl Cancelled\<rparr>) in
      if \<not> sg_builds sg then (files, \<lparr>dr_requests = [], dr_written = None, dr_result = Inl Configuration\<rparr>)
      else if sg_cancel sg = Some 0 then (files, stopped 0)
      else case prepare_download X dw a destination max_size replace_existing of
        Inl e \<Rightarrow> (files, run)
      | Inr _ \<Rightarrow>
          if some_and (\<lambda>n. n \<le> awaits X dw a max_size) (sg_cancel sg) then (early, stopped (the (sg_cancel sg)))
          else (case dr_written run of
              None \<Rightarrow> (early, run)
            | Some bytes \<Rightarrow> (drop_stage sg path (install_file replace_existing path destination bytes files), run)))"

lemma download_using_results:
  "(\<exists>e. dr_result (download_using X dw a destination max_size replace_existing) = Inl e
      \<and> dr_written (download_using X dw a destination max_size replace_existing) = None)
   \<or> (\<exists>bytes. dr_result (download_using X dw a destination max_size replace_existing) = Inr ()
      \<and> dr_written (download_using X dw a destination max_size replace_existing) = Some bytes)"
  by (simp add: download_using_def del: follow.simps split: sum.split prod.split)

lemma download_using_unprepared:
  "prepare_download X dw a destination max_size replace_existing = Inl e \<Longrightarrow>
     dr_result (download_using X dw a destination max_size replace_existing) = Inl e"
  by (simp add: download_using_def)

text \<open>The ways a download ends: before there is a temporary file, with it dropped, or installed.\<close>

lemma download_with_cases:
  assumes "download_with X dw sg a destination max_size replace_existing files = (files', run)"
  defines "path \<equiv> staged_at X dw sg"
  defines "execution \<equiv> download_using X (on_files dw path destination replace_existing files) a destination max_size replace_existing"
  obtains (untouched) e where "files' = files" "dr_result run = Inl e"
    | (dropped) e where "files' = drop_stage sg path (files(path \<mapsto> sg_left sg))" "dr_result run = Inl e"
    | (installed) bytes where "run = execution" "dr_result execution = Inr ()" "dr_written execution = Some bytes"
        "files' = drop_stage sg path (install_file replace_existing path destination bytes files)"
proof -
  have pick: "f' = f \<and> (r = r1 \<or> r = r2 \<or> (\<exists>e. p = Inl e) \<and> r = d) \<or> f' = g \<and> (r = r3 \<or> w = None \<and> r = d)
      \<or> (\<exists>x. w = Some x \<and> f' = h x \<and> r = d)"
    if "(if \<not> b then (f, r1) else if c then (f, r2) else case p of Inl e \<Rightarrow> (f, d)
        | Inr u \<Rightarrow> if k then (g, r3) else case w of None \<Rightarrow> (g, d) | Some x \<Rightarrow> (h x, d)) = (f', r)"
    for f f' g :: file_tree and h :: "string \<Rightarrow> file_tree" and b c k w r r1 r2 r3 d and p :: "unit result"
    using that by (auto split: if_splits sum.splits option.splits)
  note run = pick[OF assms(1)[unfolded download_with_def Let_def, folded path_def, folded execution_def]]
  note unprepared = download_using_unprepared[of X "on_files dw path destination replace_existing files" a destination
      max_size replace_existing, folded execution_def]
  have ends: "(\<exists>e. dr_result execution = Inl e \<and> dr_written execution = None) \<or> (\<exists>bytes. dr_result execution = Inr () \<and> dr_written execution = Some bytes)"
    unfolding execution_def by (rule download_using_results)
  from run ends unprepared show thesis
    using untouched dropped installed by (elim disjE exE conjE) force+
qed

text \<open>
  C29.  A download is all or nothing, whenever it is cancelled and whatever fails.  If it reports
  success, the destination holds bytes with the length and the digest of the signed artifact, the
  authorisation had not expired, and an existing file was replaced on request only; otherwise the
  destination is as it was.  No other file is touched, and the temporary file is gone.
\<close>

theorem download_is_all_or_nothing:
  assumes "download_with X dw sg a destination max_size replace_existing files = (files', run)"
    and "staged_at X dw sg \<noteq> destination"
  shows "(case dr_result run of
        Inl _ \<Rightarrow> files' destination = files destination
      | Inr _ \<Rightarrow> \<exists>bytes. files' destination = Some bytes \<and> length bytes = ar_byte_length (da_artifact a)
          \<and> length bytes \<le> max_size \<and> digest X bytes = ar_sha256 (da_artifact a)
          \<and> (replace_existing \<or> files destination = None)
          \<and> none_or (\<lambda>t. dw_now dw < nanos t) (da_expires_at a))
    \<and> (\<forall>p. p \<notin> {destination, staged_at X dw sg} \<longrightarrow> files' p = files p)
    \<and> (sg_removes sg \<and> files (staged_at X dw sg) = None \<longrightarrow> files' (staged_at X dw sg) = None)"
proof -
  let ?path = "staged_at X dw sg"
  let ?dw = "on_files dw ?path destination replace_existing files"
  let ?run = "download_using X ?dw a destination max_size replace_existing"
  from assms(1) show ?thesis
  proof (cases rule: download_with_cases)
    case untouched
    then show ?thesis by simp
  next
    case dropped
    then show ?thesis using assms(2) by (auto simp: drop_stage_def)
  next
    case (installed bytes)
    obtain b where b: "dr_written ?run = Some b" "length b = ar_byte_length (da_artifact a)" "length b \<le> max_size"
        "digest X b = ar_sha256 (da_artifact a)" "replace_existing \<or> dw_destination ?dw = Absent"
        "none_or (\<lambda>t. dw_now ?dw < nanos t) (da_expires_at a)"
      using download_is_exact[of X ?dw a destination max_size replace_existing ?run] installed(2) by auto
    then have "replace_existing \<or> files destination = None" by (auto simp: on_files_def split: if_splits)
    moreover have "dw_now ?dw = dw_now dw" by (simp add: on_files_def)
    ultimately show ?thesis using b installed assms(2) by (auto simp: drop_stage_def install_file_def)
  qed
qed

text \<open>The sample download, once undisturbed and once cancelled while the second chunk is awaited.\<close>

definition sample_stage :: staging where
  "sample_stage = \<lparr>sg_builds = True, sg_parent = Some ''/'', sg_cancel = None, sg_left = ''con'', sg_removes = True\<rparr>"

lemma sample_path: "staged_at sample_libs sample_seller sg \<noteq> ''/f''"
  by (simp add: staged_at_def stage_path_def path_join_def sample_seller_def sample_libs_def new_installation_def or_else_def)

lemma sample_download:
  "download_using sample_libs sample_seller sample_authorization ''/f'' 10 False
     = \<lparr>dr_requests = [(''https://o.eu'', Some ''ticket'')], dr_written = Some ''content'', dr_result = Inr ()\<rparr>"
  "prepare_download sample_libs sample_seller sample_authorization ''/f'' 10 False = Inr ()"
  "awaits sample_libs sample_seller sample_authorization 10 = 4"
proof -
  have id: "\<exists>i. new_installation sample_libs (Some (replicate 16 CHR ''r'')) = Inr i"
    by (simp add: new_installation_def)
  show prep: "prepare_download sample_libs sample_seller sample_authorization ''/f'' 10 False = Inr ()"
    using id by (auto simp: prepare_download_def sample_seller_def sample_authorization_def sample_artifact_def
        nanos_def MAX_INTEGER_def)
  have fol: "follow sample_libs sample_seller (Some ''ticket'') ''https://o.eu'' [0, 1, 2, 3, 4, 5]
      = ([(''https://o.eu'', Some ''ticket'')], Inr sample_hop)"
    by (simp add: sample_delivery) (simp add: sample_seller_def sample_hop_def redirect_codes_def)
  have fin: "finish_download sample_libs sample_seller sample_artifact 10 sample_hop = Inr ''content''"
    by (simp add: finish_download_def check_download_def sample_seller_def sample_artifact_def sample_hop_def)
  show "download_using sample_libs sample_seller sample_authorization ''/f'' 10 False
     = \<lparr>dr_requests = [(''https://o.eu'', Some ''ticket'')], dr_written = Some ''content'', dr_result = Inr ()\<rparr>"
    using prep fol fin by (simp add: download_using_def sample_authorization_def sample_artifact_def del: follow.simps)
  show "awaits sample_libs sample_seller sample_authorization 10 = 4"
    using fol by (simp add: awaits_def sample_authorization_def sample_artifact_def sample_hop_def check_download_def
        sample_seller_def del: follow.simps)
qed

lemma sample_on_files: "on_files sample_seller path ''/f'' False (\<lambda>_. None) = sample_seller"
  by (simp add: on_files_def sample_seller_def)

theorem download_is_all_or_nothing_witness:
  "fst (download_with sample_libs sample_seller sample_stage sample_authorization ''/f'' 10 False (\<lambda>_. None)) ''/f'' \<noteq> None
   \<and> fst (download_with sample_libs sample_seller (sample_stage\<lparr>sg_cancel := Some 3\<rparr>) sample_authorization ''/f'' 10 False (\<lambda>_. None)) ''/f'' = None"
proof -
  let ?get = "\<lambda>sg. download_with sample_libs sample_seller sg sample_authorization ''/f'' 10 False (\<lambda>_. None)"
  let ?stop = "sample_stage\<lparr>sg_cancel := Some 3\<rparr>"
  have run: "dr_result (snd (?get sample_stage)) = Inr ()" "dr_result (snd (?get ?stop)) = Inl Cancelled"
    by (simp_all add: download_with_def Let_def sample_on_files sample_download) (simp_all add: sample_stage_def)
  show ?thesis
    using download_is_all_or_nothing[OF prod.collapse[symmetric] sample_path, of sample_stage sample_authorization 10 False "\<lambda>_. None"]
      download_is_all_or_nothing[OF prod.collapse[symmetric] sample_path, of ?stop sample_authorization 10 False "\<lambda>_. None"] run
    by auto
qed

end
