(* ===== verification/Medium.thy ===== *)
theory Medium
  imports Installed
begin

text \<open>
  The private files of the installed storage as a state, and the actions of the three platform
  backends on it.  For each file the state has the visible content and the contents that a power
  failure may leave; a system call works, fails (with or without its effect), or is cut short by a
  crash.  The write marker of \<open>installed.rs\<close> is here, since the backends share it.
\<close>

subsection \<open>Files and system calls\<close>

text \<open>\<open>f_locks\<close>, \<open>f_datas\<close> and \<open>f_temps\<close> are what a power failure may leave of each file, and
  \<open>f_inode\<close> what it may leave of the content that the data file's name points to.\<close>

record files =
  f_lock :: "string option"
  f_locks :: "string option list"
  f_data :: "string option"
  f_datas :: "string option list"
  f_inode :: "string list"
  f_temp :: "string option"
  f_temps :: "string list"
  f_current :: bool               \<comment> \<open>the backend holds the data file open\<close>

datatype sys = Works | Fails bool | Crashes

datatype 'a outcome = Crashed | Returned "'a result"

type_synonym 'a fs = "files \<Rightarrow> files \<times> 'a outcome"

definition fbind :: "'a fs \<Rightarrow> ('a \<Rightarrow> 'b fs) \<Rightarrow> 'b fs" where
  "fbind m k s = (case m s of
       (s1, Crashed) \<Rightarrow> (s1, Crashed)
     | (s1, Returned (Inl e)) \<Rightarrow> (s1, Returned (Inl e))
     | (s1, Returned (Inr x)) \<Rightarrow> k x s1)"

definition pure :: "'a result \<Rightarrow> 'a fs" where "pure r s = (s, Returned r)"

definition reading :: "(files \<Rightarrow> 'a result) \<Rightarrow> 'a fs" where "reading f s = (s, Returned (f s))"

text \<open>Run a clean-up after an error, and return the error.\<close>

definition on_error :: "'a fs \<Rightarrow> unit fs \<Rightarrow> 'a fs" where
  "on_error m cleanup s = (case m s of
       (s1, Returned (Inl e)) \<Rightarrow> (case cleanup s1 of
            (s2, Crashed) \<Rightarrow> (s2, Crashed) | (s2, Returned _) \<Rightarrow> (s2, Returned (Inl e)))
     | other \<Rightarrow> other)"

text \<open>The same, where an error of the clean-up replaces the first one.\<close>

definition on_error_replacing :: "'a fs \<Rightarrow> unit fs \<Rightarrow> 'a fs" where
  "on_error_replacing m cleanup s = (case m s of
       (s1, Returned (Inl e)) \<Rightarrow> (case cleanup s1 of
            (s2, Crashed) \<Rightarrow> (s2, Crashed)
          | (s2, Returned (Inl e')) \<Rightarrow> (s2, Returned (Inl e'))
          | (s2, Returned (Inr _)) \<Rightarrow> (s2, Returned (Inl e)))
     | other \<Rightarrow> other)"

text \<open>A call that changes what is visible, and one that makes it durable.\<close>

definition change :: "sys \<Rightarrow> (files \<Rightarrow> files) \<Rightarrow> unit fs" where
  "change c f s = (case c of
       Works \<Rightarrow> (f s, Returned (Inr ()))
     | Fails done \<Rightarrow> (if done then f s else s, Returned (Inl StorageError))
     | Crashes \<Rightarrow> (f s, Crashed))"

definition flush :: "sys \<Rightarrow> (files \<Rightarrow> files) \<Rightarrow> unit fs" where
  "flush c f s = (case c of
       Works \<Rightarrow> (f s, Returned (Inr ()))
     | Fails _ \<Rightarrow> (s, Returned (Inl StorageError))
     | Crashes \<Rightarrow> (s, Crashed))"

definition WRITE_PENDING :: string where "WRITE_PENDING = [CHR 0x01]"

text \<open>An unsynced byte may be lost, or its length may survive without it.\<close>

definition put_marker :: "files \<Rightarrow> files" where
  "put_marker s = s\<lparr>f_lock := Some WRITE_PENDING, f_locks := f_locks s @ [Some [CHR 0x00], Some WRITE_PENDING]\<rparr>"

definition clear_marker :: "files \<Rightarrow> files" where
  "clear_marker s = s\<lparr>f_lock := Some [], f_locks := f_locks s @ [Some []]\<rparr>"

text \<open>Syncing the lease keeps open whether its name is durable; syncing the directory settles the
  names.\<close>

definition sync_lease :: "files \<Rightarrow> files" where
  "sync_lease s = s\<lparr>f_locks := filter (\<lambda>x. x = None) (f_locks s) @ [f_lock s]\<rparr>"

definition sync_parent :: "files \<Rightarrow> files" where
  "sync_parent s = s\<lparr>f_locks := filter (\<lambda>x. x \<noteq> None \<or> f_lock s = None) (f_locks s),
     f_datas := (if f_data s = None then [None] else map Some (f_inode s))\<rparr>"

definition create_lease :: "files \<Rightarrow> files" where
  "create_lease s = s\<lparr>f_lock := Some [], f_locks := f_locks s @ [Some []]\<rparr>"

definition create_temp :: "files \<Rightarrow> files" where
  "create_temp s = s\<lparr>f_temp := Some [], f_temps := [[]]\<rparr>"

definition write_temp :: "string \<Rightarrow> files \<Rightarrow> files" where
  "write_temp bytes s = s\<lparr>f_temp := Some bytes, f_temps := map (\<lambda>n. take n bytes) [0..<Suc (length bytes)]\<rparr>"

definition sync_temp :: "files \<Rightarrow> files" where
  "sync_temp s = s\<lparr>f_temps := (case f_temp s of None \<Rightarrow> [] | Some b \<Rightarrow> [b])\<rparr>"

definition rename_temp :: "files \<Rightarrow> files" where
  "rename_temp s = s\<lparr>f_data := f_temp s, f_inode := f_temps s, f_datas := f_datas s @ map Some (f_temps s),
     f_temp := None, f_temps := []\<rparr>"

definition unlink_temp :: "files \<Rightarrow> files" where
  "unlink_temp s = s\<lparr>f_temp := None, f_temps := []\<rparr>"

definition hold_file :: "files \<Rightarrow> files" where "hold_file s = s\<lparr>f_current := True\<rparr>"

text \<open>On Windows, flushing a file also settles the name by which it was created or renamed.\<close>

definition sync_named_lease :: "files \<Rightarrow> files" where
  "sync_named_lease s = s\<lparr>f_locks := [f_lock s]\<rparr>"

definition sync_data :: "files \<Rightarrow> files" where
  "sync_data s = s\<lparr>f_datas := (if f_data s = None then [None] else map Some (f_inode s))\<rparr>"

lemmas effect_defs = put_marker_def clear_marker_def sync_lease_def sync_parent_def create_temp_def write_temp_def
  sync_temp_def rename_temp_def unlink_temp_def hold_file_def create_lease_def sync_named_lease_def sync_data_def

subsection \<open>The write marker\<close>

text \<open>\<open>meta\<close> and \<open>readable\<close>: whether the calls for the length and for the content work.\<close>

definition check_write_marker :: "bool \<Rightarrow> bool \<Rightarrow> string \<Rightarrow> files \<Rightarrow> unit result" where
  "check_write_marker meta readable expected s =
     (let content = or_else (f_lock s) [] in
      rbind (ensure StorageError meta) (\<lambda>_.
      rbind (ensure CorruptState (length content = length expected)) (\<lambda>_.
      rbind (ensure StorageError readable) (\<lambda>_.
        ensure CorruptState (content = expected)))))"

text \<open>\<open>write_pending_marker\<close>: its three calls, from number \<open>n\<close> on.\<close>

definition write_pending_marker :: "(nat \<Rightarrow> sys) \<Rightarrow> nat \<Rightarrow> unit fs" where
  "write_pending_marker sys n =
     fbind (change (sys n) id) (\<lambda>_.
     fbind (change (sys (n + 1)) put_marker) (\<lambda>_.
       flush (sys (n + 2)) sync_lease))"

subsection \<open>Paths and locks\<close>

datatype path_component = RootDir | CurDir | ParentDir | Normal string

definition path_ok :: "path_component list \<Rightarrow> bool" where
  "path_ok path \<longleftrightarrow> path \<noteq> [] \<and> hd path = RootDir
     \<and> list_all (\<lambda>c. case c of RootDir \<Rightarrow> True | Normal _ \<Rightarrow> True | _ \<Rightarrow> False) path"

definition normal_count :: "path_component list \<Rightarrow> nat" where
  "normal_count path = length (filter (\<lambda>c. case c of Normal _ \<Rightarrow> True | _ \<Rightarrow> False) path)"

datatype lock_attempt = Locked | WouldBlock | LockFailed

definition flock :: "lock_attempt \<Rightarrow> unit result" where
  "flock a = (case a of Locked \<Rightarrow> Inr () | WouldBlock \<Rightarrow> Inl InstallationInUse | LockFailed \<Rightarrow> Inl StorageError)"

end
