(* ===== verification/Backend.thy ===== *)
theory Backend
  imports Medium
begin

unbundle bit_operations_syntax

text \<open>
  The Linux backend of the installed storage (\<open>installed_linux.rs\<close>): how the private directory is
  checked and how the record replaces the file.  Metadata are readings, so another process may have
  changed anything between two calls.
\<close>

subsection \<open>Metadata\<close>

record metadata =
  md_dev :: nat
  md_ino :: nat
  md_uid :: nat
  md_mode :: "32 word"
  md_nlink :: nat
  md_is_dir :: bool
  md_is_file :: bool
  md_len :: nat

definition same :: "metadata \<Rightarrow> metadata \<Rightarrow> bool" where
  "same a b \<longleftrightarrow> md_dev a = md_dev b \<and> md_ino a = md_ino b"

text \<open>The masks are octal in the source: 077, 07000, 022, 01000.\<close>

definition private_mode :: "nat \<Rightarrow> metadata \<Rightarrow> bool" where
  "private_mode euid m \<longleftrightarrow> md_uid m = euid \<and> md_mode m AND 0x3F = 0"

definition regular :: "nat \<Rightarrow> metadata \<Rightarrow> bool" where
  "regular euid m \<longleftrightarrow> md_is_file m \<and> private_mode euid m \<and> md_nlink m = 1 \<and> md_mode m AND 0xE00 = 0"

definition supported_filesystems :: "nat list" where
  "supported_filesystems = [0xef53, 0x58465342, 0x9123683e, 0x01021994, 0x794c7630, 0x858458f6,
     0xf2f52010, 0x2fc12fc1, 0x3153464a, 0x52654973]"

definition local_fs :: "nat option \<Rightarrow> unit result" where
  "local_fs fs = rbind (ok_or StorageError fs) (\<lambda>kind. ensure StorageError (kind \<in> set supported_filesystems))"

definition directory :: "nat \<Rightarrow> metadata \<Rightarrow> bool \<Rightarrow> bool" where
  "directory euid m leaf \<longleftrightarrow> md_is_dir m \<and> md_nlink m > 0
     \<and> (if leaf then private_mode euid m
        else (md_uid m = 0 \<or> md_uid m = euid)
          \<and> (md_mode m AND 0x12 = 0 \<or> (md_uid m = 0 \<and> md_mode m AND 0x200 \<noteq> 0)))"

subsection \<open>Verification\<close>

text \<open>One verification's readings: held and actual metadata, or \<open>None\<close> where a call fails.\<close>

record view =
  vw_dirs :: "(metadata option \<times> metadata option) list"
  vw_lease :: "metadata option \<times> metadata option"
  vw_data :: "metadata option \<times> metadata option"
  vw_marker_meta :: bool
  vw_marker_read :: bool

record linux =
  lx_euid :: nat
  lx_sys :: "nat \<Rightarrow> sys"
  lx_views :: "nat \<Rightarrow> view"
  lx_random :: "string option"

fun verify_directories :: "nat \<Rightarrow> (metadata option \<times> metadata option) list \<Rightarrow> unit result" where
  "verify_directories euid [] = Inr ()"
| "verify_directories euid ((h, a) # rest) =
     rbind (ok_or StorageError h) (\<lambda>held.
     rbind (ok_or StorageError a) (\<lambda>actual.
     rbind (ensure StorageError (\<not> (\<not> same held actual
        \<or> \<not> directory euid held (rest = []) \<or> \<not> directory euid actual (rest = [])))) (\<lambda>_.
       verify_directories euid rest)))"

definition verify_file :: "nat \<Rightarrow> metadata option \<times> metadata option \<Rightarrow> unit result" where
  "verify_file euid p =
     rbind (ok_or StorageError (fst p)) (\<lambda>held.
     rbind (ok_or StorageError (snd p)) (\<lambda>actual.
       ensure StorageError (\<not> (\<not> same held actual \<or> \<not> regular euid held \<or> \<not> regular euid actual))))"

definition verify_marker :: "linux \<Rightarrow> nat \<Rightarrow> string \<Rightarrow> unit fs" where
  "verify_marker w n marker = reading (\<lambda>s.
     let v = lx_views w n; euid = lx_euid w in
     rbind (verify_directories euid (vw_dirs v)) (\<lambda>_.
     rbind (verify_file euid (vw_lease v)) (\<lambda>_.
     rbind (check_write_marker (vw_marker_meta v) (vw_marker_read v) marker s) (\<lambda>_.
       if f_current s then verify_file euid (vw_data v) else Inr ()))))"

subsection \<open>Writing\<close>

definition complete_write :: "linux \<Rightarrow> unit fs" where
  "complete_write w =
     on_error
       (fbind (change (lx_sys w 8) clear_marker) (\<lambda>_.
        fbind (flush (lx_sys w 9) sync_lease) (\<lambda>_.
          verify_marker w 4 [])))
       (write_pending_marker (lx_sys w) 10)"

definition replace_data :: "linux \<Rightarrow> string \<Rightarrow> unit fs" where
  "replace_data w bytes =
     fbind (change (lx_sys w 4) (write_temp bytes)) (\<lambda>_.
     fbind (flush (lx_sys w 5) sync_temp) (\<lambda>_.
     fbind (verify_marker w 2 WRITE_PENDING) (\<lambda>_.
     fbind (change (lx_sys w 6) rename_temp) (\<lambda>_.
     fbind (flush (lx_sys w 7) sync_parent) (\<lambda>_.
     fbind (change Works hold_file) (\<lambda>_.
     fbind (verify_marker w 3 WRITE_PENDING) (\<lambda>_.
       complete_write w)))))))"

definition backend_write :: "('x) external_scheme \<Rightarrow> linux \<Rightarrow> string \<Rightarrow> unit fs" where
  "backend_write X w bytes =
     fbind (verify_marker w 0 []) (\<lambda>_.
     fbind (write_pending_marker (lx_sys w) 0) (\<lambda>_.
     fbind (verify_marker w 1 WRITE_PENDING) (\<lambda>_.
     fbind (pure (new_installation X (lx_random w))) (\<lambda>_.
     fbind (change (lx_sys w 3) create_temp) (\<lambda>_.
       on_error (replace_data w bytes) (change (lx_sys w 13) unlink_temp))))))"

subsection \<open>Opening\<close>

datatype dir_open = DirOpened | DirMissing bool bool bool | DirRefused

text \<open>One step of the walk: the parent's metadata, how opening the child goes (when it is missing,
  whether creating it, syncing the parent and opening it again work), and its file system.\<close>

record dir_step =
  ds_parent :: "metadata option"
  ds_open :: dir_open
  ds_fs :: "nat option"

fun open_child :: "dir_open \<Rightarrow> unit result" where
  "open_child DirOpened = Inr ()"
| "open_child (DirMissing made synced opened) = ensure StorageError (made \<and> synced \<and> opened)"
| "open_child DirRefused = Inl StorageError"

fun open_directories :: "nat \<Rightarrow> dir_step list \<Rightarrow> unit result" where
  "open_directories euid [] = Inr ()"
| "open_directories euid (d # rest) =
     rbind (ok_or StorageError (ds_parent d)) (\<lambda>parent.
     rbind (ensure StorageError (directory euid parent False)) (\<lambda>_.
     rbind (open_child (ds_open d)) (\<lambda>_.
     rbind (local_fs (ds_fs d)) (\<lambda>_.
       open_directories euid rest))))"

record open_world =
  og_linux :: linux
  og_root :: bool
  og_steps :: "nat \<Rightarrow> dir_step"
  og_leaf :: "metadata option"
  og_lease :: "metadata option"
  og_lock :: lock_attempt
  og_data :: bool                  \<comment> \<open>opening an existing data file succeeds\<close>
  og_data_meta :: "metadata option"
  og_read :: bool

definition take_lease :: "open_world \<Rightarrow> bool fs" where
  "take_lease o' = (\<lambda>s.
     if f_lock s = None
     then fbind (change (lx_sys (og_linux o') 0) create_lease) (\<lambda>_. pure (Inr True)) s
     else fbind (change (lx_sys (og_linux o') 0) id) (\<lambda>_. pure (Inr False)) s)"

definition read_data :: "open_world \<Rightarrow> string option fs" where
  "read_data o' = reading (\<lambda>s. case f_data s of
       None \<Rightarrow> Inr None
     | Some bytes \<Rightarrow>
        rbind (ok_or StorageError (og_data_meta o')) (\<lambda>m.
        rbind (ensure CorruptState (\<not> (\<not> regular (lx_euid (og_linux o')) m \<or> md_len m = 0 \<or> md_len m > MAX_BYTES))) (\<lambda>_.
        rbind (ensure StorageError (og_read o')) (\<lambda>_.
        rbind (ensure CorruptState (\<not> length bytes > MAX_BYTES)) (\<lambda>_.
          Inr (Some bytes))))))"

definition open_backend :: "open_world \<Rightarrow> path_component list \<Rightarrow> string option fs" where
  "open_backend o' path =
     (let w = og_linux o'; euid = lx_euid w in
     fbind (pure (ensure Configuration (path_ok path))) (\<lambda>_.
     fbind (pure (ensure StorageError (og_root o'))) (\<lambda>_.
     fbind (pure (open_directories euid (map (og_steps o') [0..<normal_count path]))) (\<lambda>_.
     fbind (pure (rbind (ok_or StorageError (og_leaf o')) (\<lambda>m.
        ensure StorageError (\<not> (normal_count path + 1 < 2 \<or> \<not> directory euid m True))))) (\<lambda>_.
     fbind (take_lease o') (\<lambda>fresh.
     fbind (pure (rbind (ok_or StorageError (og_lease o')) (\<lambda>m. ensure StorageError (regular euid m)))) (\<lambda>_.
     fbind (pure (flock (og_lock o'))) (\<lambda>_.
     fbind (reading (check_write_marker (vw_marker_meta (lx_views w 0)) (vw_marker_read (lx_views w 0)) [])) (\<lambda>_.
     fbind (if fresh then fbind (flush (lx_sys w 1) sync_lease) (\<lambda>_. flush (lx_sys w 2) sync_parent) else pure (Inr ())) (\<lambda>_.
     fbind (reading (\<lambda>s. ensure CorruptState (f_data s = None \<or> og_data o'))) (\<lambda>_.
     fbind (reading (\<lambda>s. ensure CorruptState ((f_data s = None) = fresh))) (\<lambda>_.
     fbind (read_data o') (\<lambda>bytes.
     fbind (change Works (\<lambda>s. s\<lparr>f_current := f_data s \<noteq> None\<rparr>)) (\<lambda>_.
     fbind (verify_marker w 1 []) (\<lambda>_.
       pure (Inr bytes))))))))))))))))"

end
