(* ===== verification/Register.thy ===== *)
theory Register
  imports Medium
begin

text \<open>
  What a platform backend promises: its file is an atomic register, whatever fails and whenever the
  power does.  Triples describe a file action by the states in which it starts, succeeds, and fails
  or is cut short; the locale \<open>settling_file\<close> says what a write must do, and \<open>atomic_file\<close> what a
  start must do too, and concludes what a restart finds.  Each backend interprets it.
\<close>

subsection \<open>Triples for file actions\<close>

text \<open>From states in \<open>P\<close>, success ends in \<open>Q\<close>, and errors and crashes in \<open>R\<close>.\<close>

definition file_triple :: "(files \<Rightarrow> bool) \<Rightarrow> 'a fs \<Rightarrow> ('a \<Rightarrow> files \<Rightarrow> bool) \<Rightarrow> (files \<Rightarrow> bool) \<Rightarrow> bool" where
  "file_triple P m Q R \<longleftrightarrow> (\<forall>s. P s \<longrightarrow> (case m s of
       (s', Crashed) \<Rightarrow> R s' | (s', Returned (Inl e)) \<Rightarrow> R s' | (s', Returned (Inr x)) \<Rightarrow> Q x s'))"

lemma fbind_triple:
  assumes "file_triple P m Q R" "\<And>x. file_triple (Q x) (k x) S R"
  shows "file_triple P (fbind m k) S R"
  using assms by (fastforce simp: file_triple_def fbind_def split: prod.splits outcome.splits sum.splits)

lemma on_error_triple:
  assumes "file_triple P m Q R" "file_triple R cleanup (\<lambda>_. R) R"
  shows "file_triple P (on_error m cleanup) Q R"
  using assms by (fastforce simp: file_triple_def on_error_def split: prod.splits outcome.splits sum.splits)

lemma weaken_triple:
  assumes "file_triple P m Q R" "\<And>s. P' s \<Longrightarrow> P s" "\<And>x s. Q x s \<Longrightarrow> Q' x s" "\<And>s. R s \<Longrightarrow> R' s"
  shows "file_triple P' m Q' R'"
  using assms by (fastforce simp: file_triple_def split: prod.splits outcome.splits sum.splits)

lemma change_triple:
  assumes "\<And>s. P s \<Longrightarrow> R s" "\<And>s. P s \<Longrightarrow> R (f s)" "\<And>s. P s \<Longrightarrow> Q (f s)"
  shows "file_triple P (change c f) (\<lambda>_. Q) R"
  using assms by (auto simp: file_triple_def change_def split: sys.splits)

lemma flush_triple:
  assumes "\<And>s. P s \<Longrightarrow> R s" "\<And>s. P s \<Longrightarrow> Q (f s)"
  shows "file_triple P (flush c f) (\<lambda>_. Q) R"
  using assms by (auto simp: file_triple_def flush_def split: sys.splits)

lemma pure_triple: "(\<And>s. P s \<Longrightarrow> R s) \<Longrightarrow> file_triple P (pure r) (\<lambda>_. P) R"
  by (auto simp: file_triple_def pure_def split: sum.splits)

lemma pure_value_triple: "(\<And>s. P s \<Longrightarrow> R s) \<Longrightarrow> file_triple P (pure r) (\<lambda>x s. P s \<and> r = Inr x) R"
  by (auto simp: file_triple_def pure_def split: sum.splits)

lemma reading_triple: "(\<And>s. P s \<Longrightarrow> R s) \<Longrightarrow> file_triple P (reading f) (\<lambda>_. P) R"
  by (auto simp: file_triple_def reading_def split: sum.splits)

lemma replacing_triple:
  assumes "file_triple P m Q R" "file_triple R cleanup (\<lambda>_. R) R"
  shows "file_triple P (on_error_replacing m cleanup) Q R"
  using assms by (fastforce simp: file_triple_def on_error_replacing_def split: prod.splits outcome.splits sum.splits)

subsection \<open>The phases of a write\<close>

text \<open>Nothing is in flight: the marker is clear and the content certain.\<close>

definition settled :: "string option \<Rightarrow> files \<Rightarrow> bool" where
  "settled d s \<longleftrightarrow> f_lock s = Some [] \<and> set (f_locks s) = {Some []} \<and> f_data s = d \<and> set (f_datas s) = {d}"

text \<open>The marker may be in flight while the old content is certain; the marker is certain; the
  marker may be in flight while the new content is certain.\<close>

definition phase_old :: "string option \<Rightarrow> files \<Rightarrow> bool" where
  "phase_old d s \<longleftrightarrow> f_lock s \<noteq> None \<and> None \<notin> set (f_locks s) \<and> f_data s = d \<and> set (f_datas s) = {d}"

definition phase_marked :: "files \<Rightarrow> bool" where
  "phase_marked s \<longleftrightarrow> f_lock s = Some WRITE_PENDING \<and> set (f_locks s) = {Some WRITE_PENDING}"

definition phase_new :: "string \<Rightarrow> files \<Rightarrow> bool" where
  "phase_new b s \<longleftrightarrow> f_lock s \<noteq> None \<and> None \<notin> set (f_locks s) \<and> f_data s = Some b \<and> set (f_datas s) = {Some b}"

text \<open>What an unfinished write of \<open>b\<close> may leave of a file whose content was \<open>e\<close>, where \<open>decode\<close>
  recovers a record from the content.\<close>

definition torn :: "(string \<Rightarrow> string option) \<Rightarrow> string option \<Rightarrow> string \<Rightarrow> files \<Rightarrow> bool" where
  "torn decode e b s \<longleftrightarrow> phase_old e s \<or> phase_marked s \<or> (\<exists>c. decode c = Some b \<and> phase_new c s)"

lemmas phase_defs = settled_def phase_old_def phase_marked_def phase_new_def

lemma torn_phases [intro]:
  "phase_old e s \<Longrightarrow> torn decode e b s" "phase_marked s \<Longrightarrow> torn decode e b s"
  "decode c = Some b \<Longrightarrow> phase_new c s \<Longrightarrow> torn decode e b s"
  by (auto simp: torn_def)

text \<open>The temporary file holds the content, its content is certain, and it has taken the name.\<close>

definition temp_written :: "string \<Rightarrow> files \<Rightarrow> bool" where
  "temp_written b s \<longleftrightarrow> phase_marked s \<and> f_temp s = Some b"

definition temp_synced :: "string \<Rightarrow> files \<Rightarrow> bool" where
  "temp_synced b s \<longleftrightarrow> phase_marked s \<and> f_temp s = Some b \<and> f_temps s = [b]"

definition renamed :: "string \<Rightarrow> files \<Rightarrow> bool" where
  "renamed b s \<longleftrightarrow> phase_marked s \<and> f_data s = Some b \<and> f_inode s = [b]"

lemmas temp_defs = temp_written_def temp_synced_def renamed_def

lemma filter_no_None: "None \<notin> set xs \<Longrightarrow> filter (\<lambda>x. x = None) xs = []"
  by (rule filter_False) metis

lemma phase_old_stable:
  "phase_old d s \<Longrightarrow> phase_old d (put_marker s)" "phase_old d s \<Longrightarrow> phase_old d (sync_lease s)"
  by (simp_all add: phase_old_def put_marker_def sync_lease_def filter_no_None)
    (elim conjE exE, simp)

lemma phase_new_stable:
  "phase_new b s \<Longrightarrow> phase_new b (put_marker s)" "phase_new b s \<Longrightarrow> phase_new b (sync_lease s)"
  "phase_new b s \<Longrightarrow> phase_new b (clear_marker s)"
  by (simp_all add: phase_new_def put_marker_def clear_marker_def sync_lease_def filter_no_None)
    (elim conjE exE, simp)

subsection \<open>The steps of a write\<close>

text \<open>One triple per action; \<open>R\<close> is whatever holds after a failure, of which the states before the
  action must be a part.\<close>

named_theorems write_steps \<open>triples for the actions of a write\<close>

lemma marked_steps [write_steps]:
  assumes "\<And>s. phase_marked s \<Longrightarrow> R s"
  shows "file_triple phase_marked (change k create_temp) (\<lambda>_. phase_marked) R"
    "file_triple phase_marked (change k (write_temp b)) (\<lambda>_. temp_written b) R"
    "file_triple (temp_written b) (flush k sync_temp) (\<lambda>_. temp_synced b) R"
    "file_triple (temp_synced b) (change k rename_temp) (\<lambda>_. renamed b) R"
  by (rule change_triple flush_triple; use assms in \<open>auto simp: temp_defs phase_marked_def effect_defs\<close>)+

lemma renamed_steps [write_steps]:
  assumes "\<And>s. phase_marked s \<Longrightarrow> R s"
  shows "file_triple (renamed b) (flush k sync_parent) (\<lambda>_. phase_new b) R"
    "file_triple (renamed b) (flush k sync_data) (\<lambda>_. phase_new b) R"
  by (rule flush_triple; use assms in \<open>auto simp: temp_defs phase_defs effect_defs\<close>)+

lemma hold_step [write_steps]:
  "(\<And>s. phase_new b s \<Longrightarrow> R s) \<Longrightarrow> file_triple (phase_new b) (change k hold_file) (\<lambda>_. phase_new b) R"
  by (rule change_triple) (auto simp: phase_new_def hold_file_def)

lemma pending_marker_triple:
  assumes "\<And>s. P s \<Longrightarrow> f_lock s \<noteq> None \<and> None \<notin> set (f_locks s)"
    and "\<And>s. P s \<Longrightarrow> P (put_marker s)" "\<And>s. P s \<Longrightarrow> P (sync_lease s)"
  shows "file_triple P (write_pending_marker sys n) (\<lambda>_ s. P s \<and> phase_marked s) P"
proof -
  let ?M = "\<lambda>s. P s \<and> f_lock s = Some WRITE_PENDING"
  have a: "file_triple P (change (sys n) id) (\<lambda>_. P) P" by (rule change_triple) auto
  have b: "file_triple P (change (sys (n + 1)) put_marker) (\<lambda>_. ?M) P"
    by (rule change_triple) (use assms in \<open>auto simp: put_marker_def\<close>)
  have c: "file_triple ?M (flush (sys (n + 2)) sync_lease) (\<lambda>_ s. P s \<and> phase_marked s) P"
  proof (rule flush_triple)
    fix s assume m: "P s \<and> f_lock s = Some WRITE_PENDING"
    then have "filter (\<lambda>x. x = None) (f_locks s) = []" using assms(1) filter_no_None by blast
    with m have "phase_marked (sync_lease s)" by (simp add: phase_marked_def sync_lease_def)
    with m assms(3) show "P (sync_lease s) \<and> phase_marked (sync_lease s)" by blast
  qed auto
  show ?thesis unfolding write_pending_marker_def by (intro fbind_triple[OF a] fbind_triple[OF b] c)
qed

lemma mark_step:
  "(\<And>s. phase_old e s \<Longrightarrow> R s) \<Longrightarrow> file_triple (phase_old e) (write_pending_marker sys n) (\<lambda>_. phase_marked) R"
  by (rule weaken_triple[OF pending_marker_triple[of "phase_old e"]])
    (simp_all add: phase_old_stable, simp add: phase_old_def)

lemma remark_step: "file_triple (phase_new b) (write_pending_marker sys n) (\<lambda>_. phase_new b) (phase_new b)"
  by (rule weaken_triple[OF pending_marker_triple[of "phase_new b"]])
    (simp_all add: phase_new_stable, simp add: phase_new_def)

lemma clear_step:
  "file_triple (phase_new b) (change k clear_marker) (\<lambda>_ s. phase_new b s \<and> f_lock s = Some []) (phase_new b)"
  by (rule change_triple) (simp_all add: phase_new_stable, simp add: clear_marker_def)

lemma clear_sync_step:
  "file_triple (\<lambda>s. phase_new b s \<and> f_lock s = Some []) (flush k sync_lease) (\<lambda>_. settled (Some b)) (phase_new b)"
  by (rule flush_triple) (auto simp: phase_new_def settled_def sync_lease_def filter_no_None)

lemma settled_new: "settled (Some b) s \<Longrightarrow> phase_new b s"
  by (auto simp: phase_new_def settled_def)

lemma settled_old: "settled e s \<Longrightarrow> phase_old e s"
  by (simp add: settled_def phase_old_def)

lemma torn_unlink: "torn decode e b s \<Longrightarrow> torn decode e b (unlink_temp s)"
  by (auto simp: torn_def phase_defs unlink_temp_def)

lemma unlink_step: "file_triple (torn decode e b) (change k unlink_temp) (\<lambda>_. torn decode e b) (torn decode e b)"
  by (rule change_triple) (auto intro: torn_unlink)


subsection \<open>Restarting\<close>

text \<open>What a restart may find: any of the contents that were possible when the process ended.\<close>

definition restarts :: "files \<Rightarrow> files \<Rightarrow> bool" where
  "restarts s c \<longleftrightarrow> f_lock c \<in> set (f_locks s) \<and> f_data c \<in> set (f_datas s) \<and> \<not> f_current c"

lemma fbind_Inr:
  "fbind m k s = (s', Returned (Inr y)) \<longleftrightarrow> (\<exists>s1 x. m s = (s1, Returned (Inr x)) \<and> k x s1 = (s', Returned (Inr y)))"
  by (auto simp: fbind_def split: prod.splits outcome.splits sum.splits)

lemma pure_Inr: "pure r s = (s', Returned (Inr y)) \<longleftrightarrow> s' = s \<and> r = Inr y"
  by (auto simp: pure_def)

lemma reading_Inr: "reading f s = (s', Returned (Inr y)) \<longleftrightarrow> s' = s \<and> f s = Inr y"
  by (auto simp: reading_def)

lemma change_Inr: "change c f s = (s', Returned (Inr y)) \<longleftrightarrow> c = Works \<and> s' = f s"
  by (auto simp: change_def split: sys.splits)

lemma flush_Inr: "flush c f s = (s', Returned (Inr y)) \<longleftrightarrow> c = Works \<and> s' = f s"
  by (auto simp: flush_def split: sys.splits)

lemmas run_Inr = fbind_Inr pure_Inr reading_Inr change_Inr flush_Inr

lemma started:
  assumes "fresh = (f_lock c = None)" "s1 = (if fresh then create_lease c else c)"
    and "check_write_marker meta readable [] s1 = Inr ()"
    and "s2 = (if fresh then settle s1 else s1)" "f_data (settle s1) = f_data s1" "(f_data s2 = None) = fresh"
  shows "f_lock c = (if f_data c = None then None else Some [])" "f_data s2 = f_data c" "f_lock s1 = Some []"
proof -
  have "or_else (f_lock s1) [] = []"
    using assms(3) by (auto simp: check_write_marker_def Let_def rbind_Inr_iff ensure_iff)
  then show "f_lock s1 = Some []"
    using assms(1,2) by (cases "f_lock c") (auto simp: or_else_def create_lease_def)
  then show "f_data s2 = f_data c" "f_lock c = (if f_data c = None then None else Some [])"
    using assms by (auto simp: create_lease_def split: if_splits)
qed

subsection \<open>The register\<close>

text \<open>The writes of a process, up to the first that is not acknowledged (the storage is poisoned
  then): the files, the last acknowledged record, and the one that was not acknowledged.\<close>

fun register_writes ::
    "('w \<Rightarrow> string \<Rightarrow> unit fs) \<Rightarrow> string option \<Rightarrow> ('w \<times> string) list \<Rightarrow> files \<Rightarrow> files \<times> string option \<times> string option" where
  "register_writes put d [] s = (s, d, None)"
| "register_writes put d ((w, b) # ops) s = (case put w b s of
       (s1, Returned (Inr _)) \<Rightarrow> register_writes put (Some b) ops s1
     | (s1, _) \<Rightarrow> (s1, d, Some b))"

text \<open>The file content \<open>e\<close> stands for the record \<open>d\<close>.\<close>

definition stands_for :: "(string \<Rightarrow> string option) \<Rightarrow> string option \<Rightarrow> string option \<Rightarrow> bool" where
  "stands_for decode e d \<longleftrightarrow> (case e of None \<Rightarrow> d = None | Some c \<Rightarrow> d \<noteq> None \<and> decode c = d)"

lemma stands_for_Some [simp]: "stands_for Some e d \<longleftrightarrow> e = d"
  by (auto simp: stands_for_def split: option.splits)

lemma stands_for_unique: "stands_for decode e d \<Longrightarrow> stands_for decode e d' \<Longrightarrow> d = d'"
  by (auto simp: stands_for_def split: option.splits)

text \<open>The contract of a write: it settles its record, or leaves the files unfinished between the old
  content and the new record.\<close>

locale settling_file =
  fixes put :: "'w \<Rightarrow> string \<Rightarrow> unit fs"
    and unfinished :: "string option \<Rightarrow> string \<Rightarrow> files \<Rightarrow> bool"
    and decode :: "string \<Rightarrow> string option"
  assumes write_law: "file_triple (settled e) (put w b)
      (\<lambda>_ s. \<exists>c. decode c = Some b \<and> settled (Some c) s) (unfinished e b)"
begin

lemma writes_phase:
  "register_writes put d ops s = (s', saved, pending) \<Longrightarrow> settled e s \<Longrightarrow> stands_for decode e d \<Longrightarrow>
     \<exists>e'. stands_for decode e' saved \<and>
       (case pending of None \<Rightarrow> settled e' s' | Some b \<Rightarrow> unfinished e' b s')"
proof (induction ops arbitrary: d s e)
  case (Cons op ops)
  obtain w b where op: "op = (w, b)" by (cases op)
  obtain s1 r where run: "put w b s = (s1, r)" by (cases "put w b s")
  have law: "case put w b s of (s', Crashed) \<Rightarrow> unfinished e b s' | (s', Returned (Inl err)) \<Rightarrow> unfinished e b s'
      | (s', Returned (Inr x)) \<Rightarrow> \<exists>c. decode c = Some b \<and> settled (Some c) s'"
    using write_law[of e w b] Cons.prems(2) by (simp add: file_triple_def)
  show ?case
  proof (cases "\<exists>u. r = Returned (Inr u)")
    case True
    then obtain u c where c: "r = Returned (Inr u)" "decode c = Some b" "settled (Some c) s1"
      using law run by auto
    have "register_writes put (Some b) ops s1 = (s', saved, pending)" using Cons.prems(1) op run c(1) by simp
    moreover have "stands_for decode (Some c) (Some b)" using c(2) by (simp add: stands_for_def)
    ultimately show ?thesis using Cons.IH c(3) by blast
  next
    case False
    with Cons.prems(1) op run have "s' = s1" "saved = d" "pending = Some b" by (auto split: outcome.splits sum.splits)
    with law run False Cons.prems(3) show ?thesis by (auto split: outcome.splits sum.splits)
  qed
qed auto

end

text \<open>Where an unfinished write leaves a torn file, a start must succeed only with a clear marker, and
  on the record the file stands for.\<close>

locale atomic_file = settling_file put "torn decode" decode
  for put :: "'w \<Rightarrow> string \<Rightarrow> unit fs"
    and start :: "'o \<Rightarrow> string option fs"
    and decode :: "string \<Rightarrow> string option" +
  assumes start_law: "start og s = (s', Returned (Inr found)) \<Longrightarrow>
      f_lock s \<in> {None, Some []} \<and> stands_for decode (f_data s) found"
begin

lemma register:
  assumes "settled e s" "stands_for decode e d" "register_writes put d ops s = (s', saved, pending)" "restarts s' c"
  shows "start og c = (c', Returned (Inr found)) \<Longrightarrow> found = saved \<or> pending \<noteq> None \<and> found = pending"
    and "pending = None \<Longrightarrow> f_lock c = Some [] \<and> stands_for decode (f_data c) saved"
proof -
  obtain e' where e': "stands_for decode e' saved"
    and ph: "case pending of None \<Rightarrow> settled e' s' | Some b \<Rightarrow> torn decode e' b s'"
    using writes_phase[OF assms(3,1,2)] by blast
  show "f_lock c = Some [] \<and> stands_for decode (f_data c) saved" if "pending = None"
    using ph e' assms(4) that by (auto simp: settled_def restarts_def)
  show "found = saved \<or> pending \<noteq> None \<and> found = pending" if op: "start og c = (c', Returned (Inr found))"
  proof (cases pending)
    case None
    then have "f_data c = e'" using ph assms(4) by (auto simp: settled_def restarts_def)
    then show ?thesis using start_law[OF op] e' stands_for_unique by blast
  next
    case (Some b)
    have lock: "f_lock c \<in> {None, Some []}" and found: "stands_for decode (f_data c) found"
      using start_law[OF op] by simp_all
    from ph Some consider "phase_old e' s'" | "phase_marked s'" | k where "decode k = Some b" "phase_new k s'"
      by (auto simp: torn_def)
    then have "found = saved \<or> found = Some b"
    proof cases
      case 1
      then have "f_data c = e'" using assms(4) by (auto simp: phase_old_def restarts_def)
      then show ?thesis using found e' stands_for_unique by blast
    next
      case 2
      then have "f_lock c = Some WRITE_PENDING" using assms(4) by (simp add: phase_marked_def restarts_def)
      then show ?thesis using lock by (simp add: WRITE_PENDING_def split: if_splits)
    next
      case 3
      then have "f_data c = Some k" using assms(4) by (auto simp: phase_new_def restarts_def)
      with found 3(1) show ?thesis by (auto simp: stands_for_def)
    qed
    with Some show ?thesis by blast
  qed
qed

end

end
