(* ===== verification/Durable.thy ===== *)
theory Durable
  imports Backend Register Samples
begin

text \<open>
  The Linux backend meets the contract of \<open>Register\<close>: every write settles its record or leaves the
  file torn, and a start succeeds only on a clear marker.
\<close>

subsection \<open>Writing\<close>

lemma verify_marker_triple: "(\<And>s. P s \<Longrightarrow> R s) \<Longrightarrow> file_triple P (verify_marker w n m) (\<lambda>_. P) R"
  unfolding verify_marker_def by (rule reading_triple)

lemma complete_write_triple:
  "file_triple (phase_new b) (complete_write w) (\<lambda>_. settled (Some b)) (phase_new b)"
  unfolding complete_write_def
  by (intro on_error_triple[OF _ remark_step] fbind_triple[OF clear_step] fbind_triple[OF clear_sync_step]
      verify_marker_triple settled_new)

lemma replace_data_triple:
  "file_triple phase_marked (replace_data w b) (\<lambda>_. settled (Some b)) (torn Some d b)"
  unfolding replace_data_def
  by (rule fbind_triple write_steps verify_marker_triple weaken_triple[OF complete_write_triple]
      | force simp: temp_defs intro: torn_phases)+

lemma backend_write_triple:
  "file_triple (settled d) (backend_write X w b) (\<lambda>_. settled (Some b)) (torn Some d b)"
proof -
  have "file_triple (settled d) (verify_marker w 0 []) (\<lambda>_. phase_old d) (torn Some d b)"
    by (rule weaken_triple[OF verify_marker_triple[of "phase_old d" "phase_old d"]]) (auto simp: settled_old)
  then show ?thesis unfolding backend_write_def
    by (rule fbind_triple)
      (intro fbind_triple[OF mark_step] fbind_triple[OF verify_marker_triple] fbind_triple[OF pure_triple]
        fbind_triple[OF marked_steps(1)] on_error_triple[OF replace_data_triple unlink_step] torn_phases)
qed

subsection \<open>Opening\<close>

lemma read_data_Inr:
  "read_data og s = (s', Returned (Inr found)) \<Longrightarrow> s' = s \<and> found = f_data s \<and> none_or (\<lambda>b. length b \<le> MAX_BYTES) found"
  by (auto simp: read_data_def reading_Inr rbind_Inr_iff ensure_iff ok_or_iff split: option.splits)

lemma open_backend_Inr:
  assumes "open_backend og path c = (c', Returned (Inr found))"
  shows "found = f_data c" "f_lock c = (if f_data c = None then None else Some [])" "f_lock c' = Some []"
    "f_data c' = f_data c" "f_data c \<noteq> None \<Longrightarrow> f_locks c' = f_locks c \<and> f_datas c' = f_datas c"
    "f_data c = None \<Longrightarrow> set (f_locks c') = {Some []} \<and> f_datas c' = [None]"
proof -
  from assms obtain s1 s2 fresh where
    l: "take_lease og c = (s1, Returned (Inr fresh))"
    and m: "check_write_marker (vw_marker_meta (lx_views (og_linux og) 0)) (vw_marker_read (lx_views (og_linux og) 0)) [] s1 = Inr ()"
    and d: "(if fresh then fbind (flush (lx_sys (og_linux og) 1) sync_lease) (\<lambda>_. flush (lx_sys (og_linux og) 2) sync_parent)
        else pure (Inr ())) s1 = (s2, Returned (Inr ()))"
    and f: "(f_data s2 = None) = fresh" "read_data og s2 = (s2, Returned (Inr found))"
      "c' = s2\<lparr>f_current := f_data s2 \<noteq> None\<rparr>"
    unfolding open_backend_def Let_def verify_marker_def
    by (fastforce simp: run_Inr ensure_iff dest: read_data_Inr)
  have lease: "fresh = (f_lock c = None)" "s1 = (if fresh then create_lease c else c)"
    using l by (auto simp: take_lease_def run_Inr split: if_splits)
  have s2: "s2 = (if fresh then sync_parent (sync_lease s1) else s1)"
    using d by (auto simp: run_Inr split: if_splits)
  note start = started[where settle = "\<lambda>s. sync_parent (sync_lease s)", OF lease m s2 _ f(1)]
  show "f_lock c = (if f_data c = None then None else Some [])" by (rule start) (simp add: effect_defs)
  show "found = f_data c" "f_data c' = f_data c"
    using read_data_Inr[OF f(2)] f(3) start(2) by (simp_all add: effect_defs)
  show "f_lock c' = Some []" "f_data c \<noteq> None \<Longrightarrow> f_locks c' = f_locks c \<and> f_datas c' = f_datas c"
    "f_data c = None \<Longrightarrow> set (f_locks c') = {Some []} \<and> f_datas c' = [None]"
    using start f(1,3) s2 lease by (auto simp: effect_defs split: if_splits)
qed

text \<open>Once a file is open, what it read is settled.\<close>

lemma open_settles:
  assumes "open_backend og path c = (c', Returned (Inr found))"
    and "f_locks c = [f_lock c]" "f_datas c = [f_data c]"
  shows "settled found c'"
  using open_backend_Inr[OF assms(1)] assms(2,3) by (cases "f_data c") (auto simp: settled_def)

interpretation linux_file: atomic_file "backend_write X" "\<lambda>(og, path). open_backend og path" Some for X
proof unfold_locales
  show "file_triple (settled e) (backend_write X w b)
      (\<lambda>_ s. \<exists>c. Some c = Some b \<and> settled (Some c) s) (torn Some e b)" for e w b
    by (rule weaken_triple[OF backend_write_triple]) auto
  show "f_lock s \<in> {None, Some []} \<and> stands_for Some (f_data s) found"
    if "(\<lambda>(og, path). open_backend og path) x s = (s', Returned (Inr found))" for x s s' found
    using that open_backend_Inr(1,2) by (auto split: prod.splits)
qed

text \<open>A calm world: a private directory, nothing fails.\<close>

definition own_file :: metadata where
  "own_file = \<lparr>md_dev = 1, md_ino = 2, md_uid = 1000, md_mode = 0x180, md_nlink = 1, md_is_dir = False,
     md_is_file = True, md_len = 6\<rparr>"

definition own_directory :: metadata where
  "own_directory = \<lparr>md_dev = 1, md_ino = 3, md_uid = 1000, md_mode = 0x1C0, md_nlink = 2, md_is_dir = True,
     md_is_file = False, md_len = 0\<rparr>"

definition calm :: linux where
  "calm = \<lparr>lx_euid = 1000, lx_sys = (\<lambda>_. Works),
     lx_views = (\<lambda>_. \<lparr>vw_dirs = [(Some own_directory, Some own_directory)], vw_lease = (Some own_file, Some own_file),
        vw_data = (Some own_file, Some own_file), vw_marker_meta = True, vw_marker_read = True\<rparr>),
     lx_random = Some (replicate 16 CHR ''r'')\<rparr>"

definition empty_store :: files where
  "empty_store = \<lparr>f_lock = Some [], f_locks = [Some []], f_data = None, f_datas = [None], f_inode = [],
     f_temp = None, f_temps = [], f_current = False\<rparr>"

lemma calm_verifies: "verify_marker calm n m s = (s, Returned (if or_else (f_lock s) [] = m then Inr () else Inl CorruptState))"
  by (simp add: verify_marker_def reading_def calm_def verify_file_def same_def directory_def regular_def
      private_mode_def own_file_def own_directory_def check_write_marker_def Let_def ensure_def rbind_def)

lemma calm_calls: "change (lx_sys calm n) f s = (f s, Returned (Inr ()))" "flush (lx_sys calm n) f s = (f s, Returned (Inr ()))"
  "change Works f s = (f s, Returned (Inr ()))"
  by (simp_all add: change_def flush_def calm_def)

lemma calm_write:
  "\<exists>s'. backend_write sample_libs calm ''record'' empty_store = (s', Returned (Inr ()))"
  by (simp add: backend_write_def fbind_def calm_verifies calm_calls write_pending_marker_def pure_def new_installation_def
      on_error_def replace_data_def complete_write_def empty_store_def effect_defs WRITE_PENDING_def or_else_def)
    (simp add: calm_def new_installation_def pure_def)

end
