(* ===== verification/Darwin.thy ===== *)
theory Darwin
  imports Register Samples
begin

unbundle bit_operations_syntax

text \<open>
  The macOS backend of the installed storage (\<open>installed_macos.rs\<close>): the walk down the private
  directory, its verification before and after every step of a write, and the same atomic
  replacement as on Linux with a full flush.  It interprets the contract of \<open>Register\<close>.
\<close>

subsection \<open>Metadata\<close>

datatype file_kind = KindDirectory | KindRegular | KindOther

text \<open>\<open>st_kind\<close> is the \<open>FileType\<close> of the raw mode.\<close>

record stat =
  st_dev :: nat
  st_ino :: nat
  st_uid :: nat
  st_kind :: file_kind
  st_mode :: "32 word"
  st_nlink :: nat
  st_size :: int

definition same_stat :: "stat \<Rightarrow> stat \<Rightarrow> bool" where
  "same_stat a b \<longleftrightarrow> st_dev a = st_dev b \<and> st_ino a = st_ino b"

definition MNT_LOCAL :: "32 word" where "MNT_LOCAL = 0x1000"

definition local_volume :: "32 word option \<Rightarrow> unit result" where
  "local_volume flags = rbind (ok_or StorageError flags) (\<lambda>f. ensure StorageError (f AND MNT_LOCAL \<noteq> 0))"

text \<open>The masks are octal in the source: 07777, 077, 022, 01000, 0600.\<close>

definition mac_directory :: "nat \<Rightarrow> stat \<Rightarrow> bool \<Rightarrow> bool" where
  "mac_directory euid st leaf =
     (if st_kind st \<noteq> KindDirectory \<or> st_nlink st = 0 then False
      else let mode = st_mode st AND 0xFFF in
        if leaf then st_uid st = euid \<and> mode AND 0x3F = 0
        else (st_uid st = 0 \<or> st_uid st = euid)
          \<and> (mode AND 0x12 = 0 \<or> (st_uid st = 0 \<and> mode AND 0x200 \<noteq> 0)))"

definition mac_regular :: "nat \<Rightarrow> stat \<Rightarrow> bool" where
  "mac_regular euid st \<longleftrightarrow> st_kind st = KindRegular \<and> st_uid st = euid
     \<and> st_mode st AND 0xFFF = 0x180 \<and> st_nlink st = 1"

definition same_pair :: "(stat \<Rightarrow> bool) \<Rightarrow> stat option \<times> stat option \<Rightarrow> unit result" where
  "same_pair good p =
     rbind (ok_or StorageError (fst p)) (\<lambda>held.
     rbind (ok_or StorageError (snd p)) (\<lambda>actual.
       ensure StorageError (\<not> (\<not> same_stat held actual \<or> \<not> good held \<or> \<not> good actual))))"

subsection \<open>Verification\<close>

text \<open>One verification's readings: per directory the held and the actual metadata and the mount
  flags; the root has no parent, so what is held counts twice.  \<open>mv_stat_data\<close>: asking for an absent
  data file gives no other error than that it is absent.\<close>

record mac_view =
  mv_dirs :: "((stat option \<times> stat option) \<times> 32 word option) list"
  mv_lease :: "stat option \<times> stat option"
  mv_data :: "stat option \<times> stat option"
  mv_stat_data :: bool
  mv_marker_meta :: bool
  mv_marker_read :: bool

record darwin =
  dw_euid :: nat
  dw_sys :: "nat \<Rightarrow> sys"
  dw_views :: "nat \<Rightarrow> mac_view"
  dw_random :: "string option"

fun verify_mac_directories ::
    "nat \<Rightarrow> bool \<Rightarrow> ((stat option \<times> stat option) \<times> 32 word option) list \<Rightarrow> unit result" where
  "verify_mac_directories euid root [] = Inr ()"
| "verify_mac_directories euid root (((h, a), flags) # rest) =
     rbind (same_pair (\<lambda>st. mac_directory euid st (rest = [])) (h, if root then h else a)) (\<lambda>_.
     rbind (local_volume flags) (\<lambda>_.
       verify_mac_directories euid False rest))"

definition mac_verify_marker :: "darwin \<Rightarrow> nat \<Rightarrow> string \<Rightarrow> unit fs" where
  "mac_verify_marker w n marker = reading (\<lambda>s.
     let v = dw_views w n; euid = dw_euid w in
     rbind (verify_mac_directories euid True (mv_dirs v)) (\<lambda>_.
     rbind (same_pair (mac_regular euid) (mv_lease v)) (\<lambda>_.
     rbind (check_write_marker (mv_marker_meta v) (mv_marker_read v) marker s) (\<lambda>_.
       if f_current s then same_pair (mac_regular euid) (mv_data v)
       else ensure StorageError (f_data s = None \<and> mv_stat_data v)))))"

subsection \<open>Writing\<close>

text \<open>\<open>write_pending\<close> makes the same calls as \<open>write_pending_marker\<close>, with a full flush at the end.\<close>

definition write_pending :: "darwin \<Rightarrow> nat \<Rightarrow> unit fs" where
  "write_pending w n =
     fbind (change (dw_sys w n) id) (\<lambda>_.
     fbind (change (dw_sys w (n + 1)) put_marker) (\<lambda>_.
       flush (dw_sys w (n + 2)) sync_lease))"

definition mac_complete_write :: "darwin \<Rightarrow> unit fs" where
  "mac_complete_write w =
     on_error_replacing
       (fbind (change (dw_sys w 8) clear_marker) (\<lambda>_.
        fbind (flush (dw_sys w 9) sync_lease) (\<lambda>_.
          mac_verify_marker w 4 [])))
       (write_pending w 10)"

definition mac_replace_data :: "darwin \<Rightarrow> string \<Rightarrow> unit fs" where
  "mac_replace_data w bytes =
     fbind (change (dw_sys w 4) (write_temp bytes)) (\<lambda>_.
     fbind (flush (dw_sys w 5) sync_temp) (\<lambda>_.
     fbind (mac_verify_marker w 2 WRITE_PENDING) (\<lambda>_.
     fbind (change (dw_sys w 6) rename_temp) (\<lambda>_.
     fbind (flush (dw_sys w 7) sync_parent) (\<lambda>_.
     fbind (change Works hold_file) (\<lambda>_.
     fbind (mac_verify_marker w 3 WRITE_PENDING) (\<lambda>_.
       mac_complete_write w)))))))"

definition mac_write :: "('x) external_scheme \<Rightarrow> darwin \<Rightarrow> string \<Rightarrow> unit fs" where
  "mac_write X w bytes =
     fbind (mac_verify_marker w 0 []) (\<lambda>_.
     fbind (write_pending w 0) (\<lambda>_.
     fbind (mac_verify_marker w 1 WRITE_PENDING) (\<lambda>_.
     fbind (pure (new_installation X (dw_random w))) (\<lambda>_.
     fbind (change (dw_sys w 3) create_temp) (\<lambda>_.
       on_error (mac_replace_data w bytes) (change (dw_sys w 13) unlink_temp))))))"

subsection \<open>Opening\<close>

text \<open>Opening a child that is missing creates it, opens it again and syncs it and its parent.\<close>

datatype child_open = ChildOpened | ChildMissing bool bool bool bool | ChildRefused

record mac_step =
  ms_parent :: "stat option"
  ms_parent_fs :: "32 word option"
  ms_open :: child_open
  ms_child :: "stat option \<times> stat option"
  ms_child_fs :: "32 word option"

fun open_mac_child :: "child_open \<Rightarrow> unit result" where
  "open_mac_child ChildOpened = Inr ()"
| "open_mac_child (ChildMissing made opened synced parent_synced) =
     ensure StorageError (made \<and> opened \<and> synced \<and> parent_synced)"
| "open_mac_child ChildRefused = Inl StorageError"

fun open_mac_directories :: "nat \<Rightarrow> mac_step list \<Rightarrow> unit result" where
  "open_mac_directories euid [] = Inr ()"
| "open_mac_directories euid (d # rest) =
     rbind (ok_or StorageError (ms_parent d)) (\<lambda>parent.
     rbind (ensure StorageError (mac_directory euid parent False)) (\<lambda>_.
     rbind (local_volume (ms_parent_fs d)) (\<lambda>_.
     rbind (open_mac_child (ms_open d)) (\<lambda>_.
     rbind (same_pair (\<lambda>st. mac_directory euid st False) (ms_child d)) (\<lambda>_.
     rbind (local_volume (ms_child_fs d)) (\<lambda>_.
       open_mac_directories euid rest))))))"

record mac_open =
  mo_darwin :: darwin
  mo_root :: bool
  mo_steps :: "nat \<Rightarrow> mac_step"
  mo_leaf :: "stat option"
  mo_lease :: "stat option"
  mo_lock :: lock_attempt
  mo_data :: bool                  \<comment> \<open>opening an existing data file succeeds\<close>
  mo_data_meta :: "stat option \<times> stat option"
  mo_read :: bool

definition mac_take_lease :: "mac_open \<Rightarrow> bool fs" where
  "mac_take_lease o' = (\<lambda>s.
     if f_lock s = None
     then fbind (change (dw_sys (mo_darwin o') 0) create_lease) (\<lambda>_. pure (Inr True)) s
     else fbind (change (dw_sys (mo_darwin o') 0) id) (\<lambda>_. pure (Inr False)) s)"

definition mac_read_data :: "mac_open \<Rightarrow> string option fs" where
  "mac_read_data o' = reading (\<lambda>s. case f_data s of
       None \<Rightarrow> Inr None
     | Some bytes \<Rightarrow>
        rbind (ok_or StorageError (fst (mo_data_meta o'))) (\<lambda>held.
        rbind (ok_or StorageError (snd (mo_data_meta o'))) (\<lambda>named.
        rbind (ensure CorruptState (\<not> (\<not> same_stat held named \<or> \<not> mac_regular (dw_euid (mo_darwin o')) held
           \<or> \<not> mac_regular (dw_euid (mo_darwin o')) named \<or> st_size held \<le> 0 \<or> st_size held > int MAX_BYTES))) (\<lambda>_.
        rbind (ensure StorageError (mo_read o')) (\<lambda>_.
        rbind (ensure CorruptState (\<not> length bytes > MAX_BYTES)) (\<lambda>_.
          Inr (Some bytes)))))))"

definition open_mac :: "mac_open \<Rightarrow> path_component list \<Rightarrow> string option fs" where
  "open_mac o' path =
     (let w = mo_darwin o'; euid = dw_euid w; v = dw_views w 0 in
     fbind (pure (ensure Configuration (path_ok path))) (\<lambda>_.
     fbind (pure (ensure StorageError (mo_root o'))) (\<lambda>_.
     fbind (pure (open_mac_directories euid (map (mo_steps o') [0..<normal_count path]))) (\<lambda>_.
     fbind (pure (ensure Configuration (\<not> normal_count path + 1 < 2))) (\<lambda>_.
     fbind (pure (rbind (ok_or StorageError (mo_leaf o')) (\<lambda>m. ensure StorageError (mac_directory euid m True)))) (\<lambda>_.
     fbind (mac_take_lease o') (\<lambda>fresh.
     fbind (pure (rbind (ok_or StorageError (mo_lease o')) (\<lambda>m. ensure StorageError (mac_regular euid m)))) (\<lambda>_.
     fbind (pure (flock (mo_lock o'))) (\<lambda>_.
     fbind (reading (check_write_marker (mv_marker_meta v) (mv_marker_read v) [])) (\<lambda>_.
     fbind (if fresh then fbind (flush (dw_sys w 1) sync_lease) (\<lambda>_. flush (dw_sys w 2) sync_parent) else pure (Inr ())) (\<lambda>_.
     fbind (reading (\<lambda>s. ensure CorruptState (f_data s = None \<or> mo_data o'))) (\<lambda>_.
     fbind (reading (\<lambda>s. ensure CorruptState ((f_data s = None) = fresh))) (\<lambda>_.
     fbind (mac_read_data o') (\<lambda>bytes.
     fbind (change Works (\<lambda>s. s\<lparr>f_current := f_data s \<noteq> None\<rparr>)) (\<lambda>_.
     fbind (mac_verify_marker w 1 []) (\<lambda>_.
       pure (Inr bytes)))))))))))))))))"

subsection \<open>Correctness\<close>

lemma mac_verify_triple: "(\<And>s. P s \<Longrightarrow> R s) \<Longrightarrow> file_triple P (mac_verify_marker w n m) (\<lambda>_. P) R"
  unfolding mac_verify_marker_def by (rule reading_triple)

lemma write_pending_marker: "write_pending w n = write_pending_marker (dw_sys w) n"
  by (simp add: write_pending_def write_pending_marker_def)

lemma mac_complete_triple:
  "file_triple (phase_new b) (mac_complete_write w) (\<lambda>_. settled (Some b)) (phase_new b)"
  unfolding mac_complete_write_def write_pending_marker
  by (intro replacing_triple[OF _ remark_step] fbind_triple[OF clear_step] fbind_triple[OF clear_sync_step]
      mac_verify_triple settled_new)

lemma mac_replace_triple:
  "file_triple phase_marked (mac_replace_data w b) (\<lambda>_. settled (Some b)) (torn Some d b)"
  unfolding mac_replace_data_def
  by (rule fbind_triple write_steps mac_verify_triple weaken_triple[OF mac_complete_triple]
      | force simp: temp_defs intro: torn_phases)+

lemma mac_write_triple:
  "file_triple (settled d) (mac_write X w b) (\<lambda>_. settled (Some b)) (torn Some d b)"
proof -
  have "file_triple (settled d) (mac_verify_marker w 0 []) (\<lambda>_. phase_old d) (torn Some d b)"
    by (rule weaken_triple[OF mac_verify_triple[of "phase_old d" "phase_old d"]]) (auto simp: settled_old)
  then show ?thesis unfolding mac_write_def write_pending_marker
    by (rule fbind_triple)
      (intro fbind_triple[OF mark_step] fbind_triple[OF mac_verify_triple] fbind_triple[OF pure_triple]
        fbind_triple[OF marked_steps(1)] on_error_triple[OF mac_replace_triple unlink_step] torn_phases)
qed

lemma mac_read_Inr:
  "mac_read_data og s = (s', Returned (Inr found)) \<Longrightarrow> s' = s \<and> found = f_data s"
  by (auto simp: mac_read_data_def reading_Inr rbind_Inr_iff ensure_iff ok_or_iff split: option.splits)

lemma open_mac_Inr:
  assumes "open_mac og path c = (c', Returned (Inr found))"
  shows "found = f_data c" "f_lock c = (if f_data c = None then None else Some [])"
proof -
  from assms obtain s1 s2 fresh where
    l: "mac_take_lease og c = (s1, Returned (Inr fresh))"
    and m: "check_write_marker (mv_marker_meta (dw_views (mo_darwin og) 0)) (mv_marker_read (dw_views (mo_darwin og) 0)) [] s1 = Inr ()"
    and d: "(if fresh then fbind (flush (dw_sys (mo_darwin og) 1) sync_lease) (\<lambda>_. flush (dw_sys (mo_darwin og) 2) sync_parent)
        else pure (Inr ())) s1 = (s2, Returned (Inr ()))"
    and f: "(f_data s2 = None) = fresh" "mac_read_data og s2 = (s2, Returned (Inr found))"
    unfolding open_mac_def Let_def
    by (fastforce simp: run_Inr ensure_iff dest: mac_read_Inr)
  have lease: "fresh = (f_lock c = None)" "s1 = (if fresh then create_lease c else c)"
    using l by (auto simp: mac_take_lease_def run_Inr split: if_splits)
  have s2: "s2 = (if fresh then sync_parent (sync_lease s1) else s1)"
    using d by (auto simp: run_Inr split: if_splits)
  note start = started[where settle = "\<lambda>s. sync_parent (sync_lease s)", OF lease m s2 _ f(1)]
  show "f_lock c = (if f_data c = None then None else Some [])" by (rule start) (simp add: effect_defs)
  show "found = f_data c" using mac_read_Inr[OF f(2)] start(2) by (simp add: effect_defs)
qed

interpretation mac_file: atomic_file "mac_write X" "\<lambda>(og, path). open_mac og path" Some for X
proof unfold_locales
  show "file_triple (settled e) (mac_write X w b)
      (\<lambda>_ s. \<exists>c. Some c = Some b \<and> settled (Some c) s) (torn Some e b)" for e w b
    by (rule weaken_triple[OF mac_write_triple]) auto
  show "f_lock s \<in> {None, Some []} \<and> stands_for Some (f_data s) found"
    if "(\<lambda>(og, path). open_mac og path) x s = (s', Returned (Inr found))" for x s s' found
    using that open_mac_Inr by (auto split: prod.splits)
qed

subsection \<open>A calm world\<close>

definition mac_file_stat :: stat where
  "mac_file_stat = \<lparr>st_dev = 1, st_ino = 2, st_uid = 501, st_kind = KindRegular, st_mode = 0x8180, st_nlink = 1, st_size = 6\<rparr>"

definition mac_directory_stat :: stat where
  "mac_directory_stat = \<lparr>st_dev = 1, st_ino = 3, st_uid = 501, st_kind = KindDirectory, st_mode = 0x41C0, st_nlink = 2, st_size = 64\<rparr>"

definition calm_mac :: darwin where
  "calm_mac = \<lparr>dw_euid = 501, dw_sys = (\<lambda>_. Works),
     dw_views = (\<lambda>_. \<lparr>mv_dirs = [((Some mac_directory_stat, None), Some MNT_LOCAL)],
        mv_lease = (Some mac_file_stat, Some mac_file_stat), mv_data = (Some mac_file_stat, Some mac_file_stat),
        mv_stat_data = True, mv_marker_meta = True, mv_marker_read = True\<rparr>),
     dw_random = Some (replicate 16 CHR ''r'')\<rparr>"

lemma calm_mac_verifies:
  "or_else (f_lock s) [] = m \<Longrightarrow> f_current s \<or> f_data s = None \<Longrightarrow> mac_verify_marker calm_mac n m s = (s, Returned (Inr ()))"
  by (auto simp: mac_verify_marker_def reading_def calm_mac_def same_pair_def same_stat_def mac_directory_def mac_regular_def
      mac_file_stat_def mac_directory_stat_def local_volume_def MNT_LOCAL_def check_write_marker_def Let_def ensure_def)

lemma calm_mac_write:
  assumes "f_lock s = Some []" "f_data s = None" "\<not> f_current s"
  shows "\<exists>s'. mac_write sample_libs calm_mac ''record'' s = (s', Returned (Inr ()))"
proof -
  have sys: "dw_sys calm_mac n = Works" for n by (simp add: calm_mac_def)
  have random: "\<exists>d. new_installation sample_libs (dw_random calm_mac) = Inr d"
    by (simp add: calm_mac_def new_installation_def)
  from random show ?thesis
    by (auto simp: mac_write_def fbind_def calm_mac_verifies sys pure_def change_def flush_def write_pending_def
        on_error_def on_error_replacing_def mac_replace_data_def mac_complete_write_def assms effect_defs
        WRITE_PENDING_def or_else_def)
qed

end
