(* ===== verification/Native.thy ===== *)
theory Native
  imports Prelude
begin

unbundle bit_operations_syntax

text \<open>
  The native helpers on Windows (\<open>native/src/private_storage.rs\<close>, \<open>data_protection.rs\<close> and
  \<open>storage.rs\<close>): which security descriptors count as private, data protection within its bounds,
  and the replacement of the ciphertext file.  What a Windows function answers is a reading of the
  model, with the buffers it fills; everything the helpers do with an answer is here.
\<close>

subsection \<open>The process's user\<close>

text \<open>\<open>OpenThreadToken\<close>: whether it opens a token, and the last error when it does not.\<close>

record thread_token =
  tk_opened :: bool
  tk_error :: "nat option"

definition process_user_context :: "thread_token \<Rightarrow> bool" where
  "process_user_context t = (if tk_opened t then False else tk_error t = Some 1008)"

text \<open>\<open>String::from_utf16\<close>, with its result in UTF-8.\<close>

fun utf16_points :: "16 word list \<Rightarrow> nat list option" where
  "utf16_points [] = Some []"
| "utf16_points (u # rest) =
     (if u < 0xD800 \<or> 0xDFFF < u then map_option (Cons (unat u)) (utf16_points rest)
      else if 0xDC00 \<le> u then None
      else (case rest of
          [] \<Rightarrow> None
        | v # rest' \<Rightarrow>
           if v < 0xDC00 \<or> 0xDFFF < v then None
           else map_option (Cons (0x10000 + (unat u - 0xD800) * 0x400 + (unat v - 0xDC00))) (utf16_points rest')))"

definition utf8_point :: "nat \<Rightarrow> string" where
  "utf8_point c = map char_of
     (if c < 0x80 then [c]
      else if c < 0x800 then [0xC0 + c div 64, 0x80 + c mod 64]
      else if c < 0x10000 then [0xE0 + c div 4096, 0x80 + c div 64 mod 64, 0x80 + c mod 64]
      else [0xF0 + c div 262144, 0x80 + c div 4096 mod 64, 0x80 + c div 64 mod 64, 0x80 + c mod 64])"

definition from_utf16 :: "16 word list \<Rightarrow> string option" where
  "from_utf16 us = map_option (\<lambda>ps. concat (map utf8_point ps)) (utf16_points us)"

text \<open>A SID as the helpers see it: a null pointer, an invalid one, one whose conversion fails, or
  the memory from the start of its text.\<close>

datatype sid = SidNull | SidInvalid | SidOpaque | SidText "16 word list"

text \<open>The loop that looks for the end of the text, from position \<open>n\<close>.\<close>

function sid_length :: "16 word list \<Rightarrow> nat \<Rightarrow> nat" where
  "sid_length memory n = (if n < 256 \<and> memory ! n \<noteq> 0 then sid_length memory (n + 1) else n)"
  by pat_completeness auto
termination
  by (relation "measure (\<lambda>(_, n). 256 - n)") auto

declare sid_length.simps [simp del]

fun sid_text :: "sid \<Rightarrow> string option" where
  "sid_text SidNull = None"
| "sid_text SidInvalid = None"
| "sid_text SidOpaque = None"
| "sid_text (SidText memory) =
     (let n = sid_length memory 0 in if n = 256 then None else from_utf16 (take n memory))"

record process_token =
  pt_thread :: thread_token
  pt_opened :: bool
  pt_needed :: "32 word"
  pt_information :: bool
  pt_user :: sid

text \<open>The size of \<open>SidAndAttributes\<close> on a 64-bit target.\<close>

definition SID_AND_ATTRIBUTES :: "32 word" where "SID_AND_ATTRIBUTES = 16"

definition user_sid :: "process_token \<Rightarrow> string option" where
  "user_sid p =
     (if \<not> process_user_context (pt_thread p) then None
      else if \<not> pt_opened p then None
      else if pt_needed p < SID_AND_ATTRIBUTES \<or> pt_needed p > 65536 then None
      else if \<not> pt_information p then None
      else sid_text (pt_user p))"

definition sddl :: "string \<Rightarrow> string" where
  "sddl user = ''O:'' @ user @ ''D:P(A;;FA;;;'' @ user @ '')(A;;FA;;;SY)(A;;FA;;;BA)''"

definition descriptor :: "(string \<Rightarrow> bool) \<Rightarrow> process_token \<Rightarrow> string option" where
  "descriptor converts p =
     (case user_sid p of None \<Rightarrow> None
      | Some user \<Rightarrow> if converts (sddl user) then Some (sddl user) else None)"

subsection \<open>Private objects\<close>

record ace =
  ace_kind :: "8 word"
  ace_flags :: "8 word"
  ace_size :: "16 word"
  ace_mask :: "32 word"
  ace_sid :: sid

text \<open>The size of the \<open>Ace\<close> structure.\<close>

definition ACE :: "16 word" where "ACE = 12"

record security =
  se_information :: bool            \<comment> \<open>\<open>GetSecurityInfo\<close> succeeds\<close>
  se_control :: "16 word option"
  se_acl :: "ace option list option" \<comment> \<open>the DACL, when the pointer is not null\<close>
  se_owner :: sid

definition DACL_PROTECTED :: "16 word" where "DACL_PROTECTED = 0x1000"

definition FULL_ACCESS :: "32 word" where "FULL_ACCESS = 0x001f01ff"

fun check_aces :: "string \<Rightarrow> bool \<Rightarrow> ace option list \<Rightarrow> bool" where
  "check_aces user user_access [] = user_access"
| "check_aces user user_access (None # rest) = False"
| "check_aces user user_access (Some a # rest) =
     (if ace_kind a \<noteq> 0 \<or> ace_flags a \<noteq> 0 \<or> ace_size a < ACE \<or> ace_mask a \<noteq> FULL_ACCESS then False
      else (case sid_text (ace_sid a) of
          None \<Rightarrow> False
        | Some sid \<Rightarrow>
           if sid = user then check_aces user True rest
           else if sid \<noteq> ''S-1-5-18'' \<and> sid \<noteq> ''S-1-5-32-544'' then False
           else check_aces user user_access rest))"

definition private_storage_object :: "process_token \<Rightarrow> security \<Rightarrow> bool" where
  "private_storage_object p se =
     (case user_sid p of
        None \<Rightarrow> False
      | Some user \<Rightarrow>
         if \<not> se_information se then False
         else (case (se_control se, se_acl se) of
             (Some control, Some aces) \<Rightarrow>
               if control AND DACL_PROTECTED = 0 then False
               else if sid_text (se_owner se) \<noteq> Some user then False
               else if length aces = 0 \<or> length aces > 32 then False
               else check_aces user False aces
           | _ \<Rightarrow> False))"

text \<open>\<open>GetFileInformationByHandle\<close>: the number of links, when it succeeds.\<close>

definition storage_file_single_link :: "nat option \<Rightarrow> bool" where
  "storage_file_single_link links = some_and (\<lambda>n. n = 1) links"

subsection \<open>Creating objects\<close>

datatype error_kind = KindNotFound | KindAlreadyExists | KindOther

record io_error =
  ie_kind :: error_kind
  ie_raw :: "nat option"

definition security_failure :: io_error where
  "security_failure = \<lparr>ie_kind = KindOther, ie_raw = None\<rparr>"

definition wide :: "16 word list \<Rightarrow> 16 word list option" where
  "wide path = (if path = [] \<or> length path > 32760 \<or> 0 \<in> set path then None else Some (path @ [0]))"

text \<open>\<open>create_private_storage_directory\<close> and \<open>create_private_storage_file\<close> make one system call,
  \<open>create\<close>, on the descriptor and the path.\<close>

definition create_private ::
    "(string \<Rightarrow> bool) \<Rightarrow> process_token \<Rightarrow> 16 word list \<Rightarrow> (string \<Rightarrow> 16 word list \<Rightarrow> io_error + unit) \<Rightarrow> io_error + unit" where
  "create_private converts p path create =
     rbind (ok_or security_failure (descriptor converts p)) (\<lambda>d.
     rbind (ok_or security_failure (wide path)) (\<lambda>text'.
       create d text'))"

subsection \<open>Data protection\<close>

definition MAX_PLAINTEXT_BYTES :: nat where "MAX_PLAINTEXT_BYTES = 64 * 1024"
definition MAX_CIPHERTEXT_BYTES :: nat where "MAX_CIPHERTEXT_BYTES = 96 * 1024"
definition MAX_ENTROPY_BYTES :: nat where "MAX_ENTROPY_BYTES = 1024"

text \<open>A blob that the API allocated: its length, and its memory unless the pointer is null.\<close>

record blob =
  bl_length :: nat
  bl_data :: "string option"

definition input_blob :: "string \<Rightarrow> blob option" where
  "input_blob bytes = (if length bytes < 2 ^ 32 then Some \<lparr>bl_length = length bytes, bl_data = Some bytes\<rparr> else None)"

definition copy_bounded :: "nat \<Rightarrow> blob \<Rightarrow> string option" where
  "copy_bounded maximum b =
     (if bl_length b > maximum then None
      else if bl_length b = 0 then Some []
      else map_option (take (bl_length b)) (bl_data b))"

text \<open>What the memory of a blob holds when it is given back.\<close>

definition wiped :: "blob \<Rightarrow> string option" where
  "wiped b = map_option (\<lambda>m. foldl (\<lambda>m i. m[i := CHR 0x00]) m [0..<bl_length b]) (bl_data b)"

definition protect_user_data ::
    "thread_token \<Rightarrow> (blob \<Rightarrow> blob \<Rightarrow> blob option) \<Rightarrow> string \<Rightarrow> string \<Rightarrow> string option" where
  "protect_user_data t crypt plaintext entropy =
     (if \<not> process_user_context t then None
      else if length plaintext > MAX_PLAINTEXT_BYTES
        \<or> \<not> (1 \<le> length entropy \<and> length entropy \<le> MAX_ENTROPY_BYTES) then None
      else Option.bind (input_blob plaintext) (\<lambda>input.
        Option.bind (input_blob entropy) (\<lambda>scope.
        Option.bind (crypt input scope) (copy_bounded MAX_CIPHERTEXT_BYTES))))"

definition unprotect_user_data ::
    "thread_token \<Rightarrow> (blob \<Rightarrow> blob \<Rightarrow> blob option) \<Rightarrow> string \<Rightarrow> string \<Rightarrow> string option" where
  "unprotect_user_data t crypt ciphertext entropy =
     (if \<not> process_user_context t then None
      else if length ciphertext > MAX_CIPHERTEXT_BYTES
        \<or> \<not> (1 \<le> length entropy \<and> length entropy \<le> MAX_ENTROPY_BYTES) then None
      else Option.bind (input_blob ciphertext) (\<lambda>input.
        Option.bind (input_blob entropy) (\<lambda>scope.
        Option.bind (crypt input scope) (copy_bounded MAX_PLAINTEXT_BYTES))))"

subsection \<open>Replacing the ciphertext file\<close>

definition STORAGE_CIPHERTEXT_FILE :: string where "STORAGE_CIPHERTEXT_FILE = ''orbit-storage.bin''"

definition REPARSE_POINT :: "32 word" where "REPARSE_POINT = 0x400"

definition MAX_PATH_UNITS :: nat where "MAX_PATH_UNITS = 32768"

record win_metadata =
  wm_is_file :: bool
  wm_is_dir :: bool
  wm_attributes :: "32 word"
  wm_len :: nat

definition ascii_units :: "string \<Rightarrow> 16 word list" where
  "ascii_units s = map (\<lambda>c. of_nat (byte c)) s"

text \<open>The name to replace: \<open>GetFinalPathNameByHandleW\<close> answers a length and fills the buffer.\<close>

definition ciphertext_target :: "nat \<Rightarrow> 16 word list \<Rightarrow> 16 word list option" where
  "ciphertext_target len buffer =
     (if len = 0 \<or> len \<ge> MAX_PATH_UNITS then None
      else let path = take len buffer;
               path = (if path \<noteq> [] \<and> last path = 92 then path else path @ [92]);
               path = path @ ascii_units STORAGE_CIPHERTEXT_FILE @ [0]
           in if length path > MAX_PATH_UNITS then None else Some path)"

definition replace_storage_ciphertext ::
    "win_metadata option \<Rightarrow> win_metadata option \<Rightarrow> nat \<Rightarrow> 16 word list \<Rightarrow> (16 word list \<Rightarrow> bool) \<Rightarrow> bool" where
  "replace_storage_ciphertext source directory len buffer rename =
     (case (source, directory) of
        (Some sm, Some dm) \<Rightarrow>
          if \<not> wm_is_file sm \<or> \<not> wm_is_dir dm
            \<or> (wm_attributes sm OR wm_attributes dm) AND REPARSE_POINT \<noteq> 0 then False
          else (case ciphertext_target len buffer of None \<Rightarrow> False | Some path \<Rightarrow> rename path)
      | _ \<Rightarrow> False)"

text \<open>\<open>GetDriveTypeW\<close> answers fixed (3), RAM disk (6) or removable (2) for a local drive.\<close>

definition is_local_storage_drive :: "char \<Rightarrow> nat \<Rightarrow> bool" where
  "is_local_storage_drive letter drive = (if \<not> (is_lower letter \<or> is_upper letter) then False else drive \<in> {3, 6, 2})"

subsection \<open>What the helpers guarantee\<close>

lemma sid_length_bounds: "n \<le> 256 \<Longrightarrow> n \<le> sid_length m n \<and> sid_length m n \<le> 256"
proof (induction m n rule: sid_length.induct)
  case (1 m n)
  then show ?case by (subst (1 2) sid_length.simps) auto
qed

text \<open>The text of a SID ends at the first null unit.\<close>

lemma sid_length_first:
  "n \<le> 256 \<Longrightarrow> (\<forall>i. n \<le> i \<and> i < sid_length m n \<longrightarrow> m ! i \<noteq> 0) \<and> (sid_length m n < 256 \<longrightarrow> m ! sid_length m n = 0)"
proof (induction m n rule: sid_length.induct)
  case (1 m n)
  show ?case
  proof (cases "n < 256 \<and> m ! n \<noteq> 0")
    case True
    have step: "sid_length m n = sid_length m (n + 1)" by (subst sid_length.simps) (simp add: True)
    have "m ! i \<noteq> 0" if "n \<le> i" "i < sid_length m (n + 1)" for i
      using that True 1(1)[OF True] by (cases "i = n") auto
    with 1(1)[OF True] True step show ?thesis by auto
  next
    case False
    then have "sid_length m n = n" by (subst sid_length.simps) auto
    with False 1(2) show ?thesis by auto
  qed
qed

definition full_access :: "string \<Rightarrow> ace option \<Rightarrow> bool" where
  "full_access user x \<longleftrightarrow> (case x of None \<Rightarrow> False
     | Some a \<Rightarrow> ace_kind a = 0 \<and> ace_flags a = 0 \<and> ACE \<le> ace_size a \<and> ace_mask a = FULL_ACCESS
         \<and> sid_text (ace_sid a) \<in> {Some user, Some ''S-1-5-18'', Some ''S-1-5-32-544''})"

lemma check_aces_iff:
  "check_aces user seen aces \<longleftrightarrow> list_all (full_access user) aces
     \<and> (seen \<or> (\<exists>a. Some a \<in> set aces \<and> sid_text (ace_sid a) = Some user))"
proof (induction user seen aces rule: check_aces.induct)
  case (3 user seen a rest)
  then show ?case
    by (cases "sid_text (ace_sid a)") (auto simp: full_access_def not_less)
qed (auto simp: full_access_def)

lemma private_storage_object_iff:
  "private_storage_object p se \<longleftrightarrow> (\<exists>user control aces. user_sid p = Some user
     \<and> se_information se \<and> se_control se = Some control \<and> control AND DACL_PROTECTED \<noteq> 0
     \<and> sid_text (se_owner se) = Some user \<and> se_acl se = Some aces \<and> length aces \<in> {1..32}
     \<and> list_all (full_access user) aces \<and> (\<exists>a. Some a \<in> set aces \<and> sid_text (ace_sid a) = Some user))"
  by (auto simp: private_storage_object_def check_aces_iff Suc_le_eq not_less split: option.splits)

lemma wiped_zeroes:
  assumes "bl_data b = Some m" "bl_length b \<le> length m"
  shows "wiped b = Some (replicate (bl_length b) (CHR 0x00) @ drop (bl_length b) m)"
proof -
  have "n \<le> length m \<Longrightarrow> foldl (\<lambda>m i. m[i := CHR 0x00]) m [0..<n] = replicate n (CHR 0x00) @ drop n m" for n
  proof (induction n)
    case (Suc n)
    then have "drop n m = m ! n # drop (Suc n) m" by (simp add: Cons_nth_drop_Suc)
    with Suc show ?case by (simp add: list_update_append replicate_append_same)
  qed simp
  then show ?thesis using assms by (simp add: wiped_def)
qed

lemma copy_bounded_length: "copy_bounded n b = Some c \<Longrightarrow> length c \<le> n"
  by (auto simp: copy_bounded_def split: if_splits)

text \<open>What the documentation of the data protection functions promises: what was protected comes
  back under the same entropy.\<close>

definition blob_of :: "string \<Rightarrow> blob" where "blob_of s = \<lparr>bl_length = length s, bl_data = Some s\<rparr>"

definition inverse_protection :: "(blob \<Rightarrow> blob \<Rightarrow> blob option) \<Rightarrow> (blob \<Rightarrow> blob \<Rightarrow> blob option) \<Rightarrow> bool" where
  "inverse_protection crypt uncrypt \<longleftrightarrow> (\<forall>p e out c. crypt (blob_of p) e = Some out \<longrightarrow>
     copy_bounded MAX_CIPHERTEXT_BYTES out = Some c \<longrightarrow> uncrypt (blob_of c) e = Some (blob_of p))"

lemma protection_round_trip:
  assumes "inverse_protection crypt uncrypt" "protect_user_data t crypt p e = Some c" "process_user_context t'"
  shows "unprotect_user_data t' uncrypt c e = Some p"
proof -
  have p: "length p \<le> MAX_PLAINTEXT_BYTES" "1 \<le> length e" "length e \<le> MAX_ENTROPY_BYTES"
    and blobs: "Option.bind (input_blob p) (\<lambda>input. Option.bind (input_blob e) (\<lambda>scope.
        Option.bind (crypt input scope) (copy_bounded MAX_CIPHERTEXT_BYTES))) = Some c"
    using assms(2) by (auto simp: protect_user_data_def split: if_splits)
  have input: "length s < 2 ^ 32 \<Longrightarrow> input_blob s = Some (blob_of s)" for s
    by (simp add: input_blob_def blob_of_def)
  have small: "length p < 2 ^ 32" "length e < 2 ^ 32"
    using p by (simp_all add: MAX_PLAINTEXT_BYTES_def MAX_ENTROPY_BYTES_def)
  obtain out where out: "crypt (blob_of p) (blob_of e) = Some out" "copy_bounded MAX_CIPHERTEXT_BYTES out = Some c"
    using blobs by (auto simp: input[OF small(1)] input[OF small(2)] bind_eq_Some_conv)
  have c: "length c \<le> MAX_CIPHERTEXT_BYTES" "length c < 2 ^ 32"
    using copy_bounded_length[OF out(2)] by (simp_all add: MAX_CIPHERTEXT_BYTES_def)
  have undone: "uncrypt (blob_of c) (blob_of e) = Some (blob_of p)"
    using assms(1) out by (auto simp: inverse_protection_def)
  show ?thesis
    using assms(3) p c by (simp add: unprotect_user_data_def input[OF c(2)] input[OF small(2)] undone)
      (simp add: copy_bounded_def blob_of_def)
qed

lemma ciphertext_target_bounded:
  assumes "ciphertext_target n buffer = Some path"
  shows "length path \<le> MAX_PATH_UNITS" "\<exists>dir. path = dir @ ascii_units STORAGE_CIPHERTEXT_FILE @ [0] \<and> last dir = 92"
  using assms by (auto simp: ciphertext_target_def Let_def split: if_splits)

end
