(* ===== verification/Windows.thy ===== *)
theory Windows
  imports Native Register Samples
begin

text \<open>
  The Windows backend of the installed storage (\<open>installed_windows.rs\<close>): private directories and
  files by security descriptor, a record that is protected for the user before it is written, and
  the replacement of the ciphertext file.  It interprets the contract of \<open>Register\<close>, where the file
  stands for what its unprotection yields.
\<close>

subsection \<open>Files and directories\<close>

definition ENTROPY :: string where "ENTROPY = ''orbit.installed-client.format-2''"

definition MAX_CIPHERTEXT :: nat where "MAX_CIPHERTEXT = 96 * 1024"

text \<open>What one inspection of an open file reads.\<close>

record win_file =
  wf_meta :: "win_metadata option"
  wf_process :: process_token
  wf_security :: security
  wf_links :: "nat option"

definition win_regular :: "win_metadata \<Rightarrow> bool" where
  "win_regular m \<longleftrightarrow> wm_is_file m \<and> wm_attributes m AND REPARSE_POINT = 0"

definition safe_file :: "win_file \<Rightarrow> bool" where
  "safe_file f \<longleftrightarrow> some_and win_regular (wf_meta f)
     \<and> private_storage_object (wf_process f) (wf_security f) \<and> storage_file_single_link (wf_links f)"

definition win_directory :: "win_metadata option \<Rightarrow> bool" where
  "win_directory m \<longleftrightarrow> some_and (\<lambda>m. wm_is_dir m \<and> wm_attributes m AND REPARSE_POINT = 0) m"

text \<open>The creation of a private object: the account, the descriptor's conversion, and the path.\<close>

record creation =
  cr_converts :: "string \<Rightarrow> bool"
  cr_process :: process_token
  cr_path :: "16 word list"

definition create_in :: "creation \<Rightarrow> io_error + unit \<Rightarrow> io_error + unit" where
  "create_in c outcome = create_private (cr_converts c) (cr_process c) (cr_path c) (\<lambda>_ _. outcome)"

subsection \<open>Verification and reading\<close>

record win_view =
  wv_thread :: thread_token
  wv_dirs :: "win_metadata option list"
  wv_private :: "process_token \<times> security"
  wv_lease :: win_file
  wv_marker_meta :: bool
  wv_marker_read :: bool

text \<open>One reading of the data file; \<open>wr_open\<close>: opening it gives no other error than that it is
  absent.\<close>

record win_read =
  wr_thread :: thread_token
  wr_open :: bool
  wr_size :: "win_metadata option"
  wr_file :: win_file
  wr_read :: bool
  wr_unprotect :: thread_token

record windows =
  wx_sys :: "nat \<Rightarrow> sys"
  wx_views :: "nat \<Rightarrow> win_view"
  wx_reads :: "nat \<Rightarrow> win_read"
  wx_thread :: thread_token
  wx_seed :: nat
  wx_random :: "string option"
  wx_creation :: creation
  wx_temp :: win_file
  wx_source :: "win_metadata option"
  wx_directory :: "win_metadata option"
  wx_final :: "nat \<times> 16 word list"

text \<open>The data protection API: what protects (its randomness is a number), and what unprotects.\<close>

record dpapi =
  dp_protect :: "nat \<Rightarrow> blob \<Rightarrow> blob \<Rightarrow> blob option"
  dp_unprotect :: "blob \<Rightarrow> blob \<Rightarrow> blob option"

definition win_verify_marker :: "windows \<Rightarrow> nat \<Rightarrow> string \<Rightarrow> unit fs" where
  "win_verify_marker w n marker = reading (\<lambda>s.
     let v = wx_views w n in
     rbind (ensure StorageError (\<not> (\<not> process_user_context (wv_thread v)
        \<or> \<not> list_all win_directory (wv_dirs v)
        \<or> \<not> (wv_dirs v \<noteq> [] \<and> private_storage_object (fst (wv_private v)) (snd (wv_private v)))
        \<or> \<not> safe_file (wv_lease v)))) (\<lambda>_.
       check_write_marker (wv_marker_meta v) (wv_marker_read v) marker s))"

definition win_read_data :: "dpapi \<Rightarrow> win_read \<Rightarrow> string option fs" where
  "win_read_data D r = reading (\<lambda>s.
     rbind (ensure StorageError (process_user_context (wr_thread r))) (\<lambda>_.
     rbind (ensure CorruptState (wr_open r)) (\<lambda>_.
     case f_data s of
       None \<Rightarrow> Inr None
     | Some bytes \<Rightarrow>
        rbind (ok_or StorageError (wr_size r)) (\<lambda>m.
        rbind (ensure CorruptState (\<not> (\<not> safe_file (wr_file r) \<or> wm_len m = 0 \<or> wm_len m > MAX_CIPHERTEXT))) (\<lambda>_.
        rbind (ensure StorageError (wr_read r)) (\<lambda>_.
        rbind (ensure CorruptState (\<not> length bytes > MAX_CIPHERTEXT)) (\<lambda>_.
        rbind (ok_or CorruptState (unprotect_user_data (wr_unprotect r) (dp_unprotect D) bytes ENTROPY)) (\<lambda>plain.
          Inr (Some plain)))))))))"

subsection \<open>Writing\<close>

definition win_complete_write :: "windows \<Rightarrow> unit fs" where
  "win_complete_write w =
     on_error
       (fbind (change (wx_sys w 8) clear_marker) (\<lambda>_.
        fbind (flush (wx_sys w 9) sync_lease) (\<lambda>_.
          win_verify_marker w 4 [])))
       (write_pending_marker (wx_sys w) 10)"

definition win_replace_data :: "windows \<Rightarrow> string \<Rightarrow> unit fs" where
  "win_replace_data w ciphertext =
     fbind (change (wx_sys w 4) (write_temp ciphertext)) (\<lambda>_.
     fbind (flush (wx_sys w 5) sync_temp) (\<lambda>_.
     fbind (win_verify_marker w 2 WRITE_PENDING) (\<lambda>_.
     fbind (pure (ensure StorageError (safe_file (wx_temp w)
        \<and> replace_storage_ciphertext (wx_source w) (wx_directory w) (fst (wx_final w)) (snd (wx_final w)) (\<lambda>_. True)))) (\<lambda>_.
     fbind (change (wx_sys w 6) rename_temp) (\<lambda>_.
     fbind (flush (wx_sys w 7) sync_data) (\<lambda>_.
     fbind (win_verify_marker w 3 WRITE_PENDING) (\<lambda>_.
       win_complete_write w)))))))"

definition win_write :: "('x) external_scheme \<Rightarrow> dpapi \<Rightarrow> windows \<Rightarrow> string \<Rightarrow> unit fs" where
  "win_write X D w bytes =
     fbind (win_verify_marker w 0 []) (\<lambda>_.
     fbind (win_read_data D (wx_reads w 0)) (\<lambda>_.
     fbind (write_pending_marker (wx_sys w) 0) (\<lambda>_.
     fbind (win_verify_marker w 1 WRITE_PENDING) (\<lambda>_.
     fbind (pure (ok_or StorageError (protect_user_data (wx_thread w) (dp_protect D (wx_seed w)) bytes ENTROPY))) (\<lambda>ciphertext.
     fbind (pure (new_installation X (wx_random w))) (\<lambda>_.
     fbind (pure (map_err StorageError (create_in (wx_creation w) (Inr ())))) (\<lambda>_.
     fbind (change (wx_sys w 3) create_temp) (\<lambda>_.
       on_error (win_replace_data w ciphertext) (change (wx_sys w 13) unlink_temp)))))))))"

subsection \<open>Opening\<close>

datatype win_component = Disk char | OtherPrefix | WinRoot | WinName "16 word list" | OtherComponent

fun win_names :: "win_component list \<Rightarrow> nat result" where
  "win_names [] = Inr 0"
| "win_names (WinName name # rest) =
     (if \<exists>u \<in> set name. u = 0 \<or> u = 58 then Inl Configuration
      else rbind (win_names rest) (\<lambda>n. Inr (n + 1)))"
| "win_names (_ # rest) = Inl Configuration"

text \<open>The number of directories to open, the root included; \<open>drives\<close> is \<open>GetDriveTypeW\<close>.\<close>

fun win_path :: "(char \<Rightarrow> nat) \<Rightarrow> win_component list \<Rightarrow> nat result" where
  "win_path drives (Disk drive # rest) =
     (case rest of
        WinRoot # names \<Rightarrow>
          (if \<not> is_local_storage_drive drive (drives drive) then Inl Configuration
           else rbind (win_names names) (\<lambda>n.
             if n + 1 < 2 then Inl Configuration else Inr (n + 1)))
      | _ \<Rightarrow> Inl Configuration)"
| "win_path drives _ = Inl Configuration"

datatype win_opening = WinOpened | WinMissing creation "io_error + unit" bool | WinRefused

record win_step =
  ws_open :: win_opening
  ws_meta :: "win_metadata option"
  ws_private :: "process_token \<times> security"

fun open_win_child :: "win_opening \<Rightarrow> unit result" where
  "open_win_child WinOpened = Inr ()"
| "open_win_child (WinMissing c outcome again) =
     rbind (map_err StorageError (create_in c outcome)) (\<lambda>_. ensure StorageError again)"
| "open_win_child WinRefused = Inl StorageError"

fun open_win_directories :: "win_step list \<Rightarrow> unit result" where
  "open_win_directories [] = Inr ()"
| "open_win_directories (d # rest) =
     rbind (open_win_child (ws_open d)) (\<lambda>_.
     rbind (ensure StorageError (\<not> (\<not> win_directory (ws_meta d)
        \<or> (rest = [] \<and> \<not> private_storage_object (fst (ws_private d)) (snd (ws_private d)))))) (\<lambda>_.
       open_win_directories rest))"

text \<open>The creation of the lock file fails with \<open>wo_existing\<close> when there is one, and opening that one
  gives an error or none.\<close>

record win_open =
  wo_windows :: windows
  wo_thread :: thread_token
  wo_drives :: "char \<Rightarrow> nat"
  wo_steps :: "nat \<Rightarrow> win_step"
  wo_creation :: creation
  wo_creating :: "io_error + unit"
  wo_existing :: io_error
  wo_reopen :: "io_error option"
  wo_lease :: win_file

definition sharing_error :: "io_error \<Rightarrow> error" where
  "sharing_error e = (if ie_raw e = Some 32 then InstallationInUse else StorageError)"

definition win_take_lease :: "win_open \<Rightarrow> bool fs" where
  "win_take_lease o' = (\<lambda>s.
     case create_in (wo_creation o') (if f_lock s = None then wo_creating o' else Inl (wo_existing o')) of
       Inr _ \<Rightarrow> fbind (change (wx_sys (wo_windows o') 0) create_lease) (\<lambda>_. pure (Inr True)) s
     | Inl e \<Rightarrow>
        if ie_kind e = KindAlreadyExists
        then fbind (pure (rbind (ensure StorageError (f_lock s \<noteq> None)) (\<lambda>_.
            case wo_reopen o' of None \<Rightarrow> Inr () | Some e' \<Rightarrow> Inl (sharing_error e')))) (\<lambda>_. pure (Inr False)) s
        else pure (Inl (sharing_error e)) s)"

definition open_windows :: "dpapi \<Rightarrow> win_open \<Rightarrow> win_component list \<Rightarrow> string option fs" where
  "open_windows D o' path =
     (let w = wo_windows o'; v = wx_views w 0 in
     fbind (pure (ensure StorageError (process_user_context (wo_thread o')))) (\<lambda>_.
     fbind (pure (win_path (wo_drives o') path)) (\<lambda>count.
     fbind (pure (open_win_directories (map (wo_steps o') [0..<count]))) (\<lambda>_.
     fbind (win_take_lease o') (\<lambda>fresh.
     fbind (pure (ensure StorageError (safe_file (wo_lease o')))) (\<lambda>_.
     fbind (reading (check_write_marker (wv_marker_meta v) (wv_marker_read v) [])) (\<lambda>_.
     fbind (if fresh then flush (wx_sys w 1) sync_named_lease else pure (Inr ())) (\<lambda>_.
     fbind (win_verify_marker w 1 []) (\<lambda>_.
     fbind (win_read_data D (wx_reads w 0)) (\<lambda>bytes.
     fbind (pure (ensure CorruptState ((bytes = None) = fresh))) (\<lambda>_.
       pure (Inr bytes))))))))))))"

subsection \<open>Correctness\<close>

text \<open>What a ciphertext stands for: its unprotection in the process's own context.\<close>

definition own_context :: thread_token where
  "own_context = \<lparr>tk_opened = False, tk_error = Some 1008\<rparr>"

definition plain_of :: "dpapi \<Rightarrow> string \<Rightarrow> string option" where
  "plain_of D c = unprotect_user_data own_context (dp_unprotect D) c ENTROPY"

lemma unprotect_context: "unprotect_user_data t u c e = Some p \<Longrightarrow> unprotect_user_data own_context u c e = Some p"
  by (auto simp: unprotect_user_data_def process_user_context_def own_context_def split: if_splits)

definition protects :: "dpapi \<Rightarrow> bool" where
  "protects D \<longleftrightarrow> (\<forall>seed. inverse_protection (dp_protect D seed) (dp_unprotect D))"

lemma protected_plain:
  assumes "protects D" "protect_user_data t (dp_protect D seed) b ENTROPY = Some c"
  shows "plain_of D c = Some b"
  using protection_round_trip[OF _ assms(2), of "dp_unprotect D" own_context] assms(1)
  by (simp add: protects_def plain_of_def process_user_context_def own_context_def)

lemma win_verify_triple: "(\<And>s. P s \<Longrightarrow> R s) \<Longrightarrow> file_triple P (win_verify_marker w n m) (\<lambda>_. P) R"
  unfolding win_verify_marker_def by (rule reading_triple)

lemma win_read_triple: "(\<And>s. P s \<Longrightarrow> R s) \<Longrightarrow> file_triple P (win_read_data D r) (\<lambda>_. P) R"
  unfolding win_read_data_def by (rule reading_triple)

lemma win_complete_triple:
  "file_triple (phase_new c) (win_complete_write w) (\<lambda>_. settled (Some c)) (phase_new c)"
  unfolding win_complete_write_def
  by (intro on_error_triple[OF _ remark_step] fbind_triple[OF clear_step] fbind_triple[OF clear_sync_step]
      win_verify_triple settled_new)

lemma win_replace_triple:
  assumes "recover c = Some b"
  shows "file_triple phase_marked (win_replace_data w c) (\<lambda>_. settled (Some c)) (torn recover e b)"
  unfolding win_replace_data_def
  by (rule fbind_triple write_steps win_verify_triple pure_triple weaken_triple[OF win_complete_triple]
      | force simp: temp_defs intro: torn_phases(1,2) torn_phases(3)[of recover, OF assms])+

lemma win_write_triple:
  assumes "protects D"
  shows "file_triple (settled e) (win_write X D w b)
    (\<lambda>_ s. \<exists>c. plain_of D c = Some b \<and> settled (Some c) s) (torn (plain_of D) e b)"
proof -
  let ?T = "torn (plain_of D) e b"
  let ?p = "ok_or StorageError (protect_user_data (wx_thread w) (dp_protect D (wx_seed w)) b ENTROPY)"
  have verify: "file_triple (settled e) (win_verify_marker w 0 []) (\<lambda>_. phase_old e) ?T"
    by (rule weaken_triple[OF win_verify_triple[of "phase_old e" "phase_old e"]]) (auto simp: settled_old)
  have tail: "file_triple (\<lambda>s. phase_marked s \<and> ?p = Inr c)
      (fbind (pure (new_installation X (wx_random w))) (\<lambda>_.
       fbind (pure (map_err StorageError (create_in (wx_creation w) (Inr ())))) (\<lambda>_.
       fbind (change (wx_sys w 3) create_temp) (\<lambda>_.
         on_error (win_replace_data w c) (change (wx_sys w 13) unlink_temp)))))
      (\<lambda>_ s. \<exists>c. plain_of D c = Some b \<and> settled (Some c) s) ?T" for c
  proof (cases "?p = Inr c")
    case True
    then have plain: "plain_of D c = Some b" using protected_plain[OF assms] by (simp add: ok_or_iff)
    have "file_triple phase_marked
      (fbind (pure (new_installation X (wx_random w))) (\<lambda>_.
       fbind (pure (map_err StorageError (create_in (wx_creation w) (Inr ())))) (\<lambda>_.
       fbind (change (wx_sys w 3) create_temp) (\<lambda>_.
         on_error (win_replace_data w c) (change (wx_sys w 13) unlink_temp)))))
      (\<lambda>_. settled (Some c)) ?T"
      by (intro fbind_triple[OF pure_triple] fbind_triple[OF marked_steps(1)]
          on_error_triple[OF win_replace_triple[of "plain_of D", OF plain] unlink_step] torn_phases)
    then show ?thesis by (rule weaken_triple) (use plain in auto)
  qed (simp add: file_triple_def)
  show ?thesis unfolding win_write_def
    by (rule fbind_triple[OF verify], rule fbind_triple[OF win_read_triple], erule torn_phases,
        rule fbind_triple[OF mark_step], erule torn_phases, rule fbind_triple[OF win_verify_triple], erule torn_phases,
        rule fbind_triple[OF pure_value_triple], erule torn_phases, rule tail)
qed

lemma win_read_Inr:
  "win_read_data D r s = (s', Returned (Inr found)) \<Longrightarrow> s' = s \<and> stands_for (plain_of D) (f_data s) found"
  by (auto simp: win_read_data_def reading_Inr rbind_Inr_iff ensure_iff ok_or_iff stands_for_def plain_of_def
      dest: unprotect_context split: option.splits)

lemma create_in_Inl: "create_in c (Inl e) \<noteq> Inr u"
  by (simp add: create_in_def create_private_def rbind_def split: sum.splits)

lemma win_take_Inr:
  assumes take: "win_take_lease og c = (s1, Returned (Inr fresh))"
  shows "fresh = (f_lock c = None)" "s1 = (if fresh then create_lease c else c)"
proof -
  let ?made = "create_in (wo_creation og) (if f_lock c = None then wo_creating og else Inl (wo_existing og))"
  have "fresh = (f_lock c = None) \<and> s1 = (if fresh then create_lease c else c)"
  proof (cases ?made)
    case (Inl e)
    have "ie_kind e = KindAlreadyExists" using take unfolding win_take_lease_def Inl
      by (simp add: pure_def split: if_splits)
    then show ?thesis using take unfolding win_take_lease_def Inl
      by (auto simp: run_Inr rbind_Inr_iff ensure_iff)
  next
    case (Inr u)
    then have "f_lock c = None" using create_in_Inl by metis
    then show ?thesis using take Inr unfolding win_take_lease_def by (simp add: run_Inr)
  qed
  then show "fresh = (f_lock c = None)" "s1 = (if fresh then create_lease c else c)" by simp_all
qed

lemma open_windows_Inr:
  assumes "open_windows D og path c = (c', Returned (Inr found))"
  shows "stands_for (plain_of D) (f_data c) found" "f_lock c = (if f_data c = None then None else Some [])"
proof -
  from assms obtain s1 s2 fresh where
    l: "win_take_lease og c = (s1, Returned (Inr fresh))"
    and m: "check_write_marker (wv_marker_meta (wx_views (wo_windows og) 0)) (wv_marker_read (wx_views (wo_windows og) 0)) [] s1 = Inr ()"
    and d: "(if fresh then flush (wx_sys (wo_windows og) 1) sync_named_lease else pure (Inr ())) s1 = (s2, Returned (Inr ()))"
    and f: "(found = None) = fresh" "win_read_data D (wx_reads (wo_windows og) 0) s2 = (s2, Returned (Inr found))"
    unfolding open_windows_def Let_def win_verify_marker_def
    by (fastforce simp: run_Inr ensure_iff dest: win_read_Inr)
  note lease = win_take_Inr[OF l]
  have s2: "s2 = (if fresh then sync_named_lease s1 else s1)"
    using d by (auto simp: run_Inr split: if_splits)
  have read: "stands_for (plain_of D) (f_data s2) found" using win_read_Inr[OF f(2)] by simp
  then have "(f_data s2 = None) = fresh" using f(1) by (auto simp: stands_for_def split: option.splits)
  note start = started[where settle = sync_named_lease, OF lease m s2 _ this]
  show "f_lock c = (if f_data c = None then None else Some [])" by (rule start) (simp add: effect_defs)
  show "stands_for (plain_of D) (f_data c) found" using read start(2) by (simp add: effect_defs)
qed

lemma windows_file:
  assumes "protects D"
  shows "atomic_file (win_write X D) (\<lambda>(og, path). open_windows D og path) (plain_of D)"
proof unfold_locales
  show "file_triple (settled e) (win_write X D w b)
      (\<lambda>_ s. \<exists>c. plain_of D c = Some b \<and> settled (Some c) s) (torn (plain_of D) e b)" for e w b
    by (rule win_write_triple[OF assms])
  show "f_lock s \<in> {None, Some []} \<and> stands_for (plain_of D) (f_data s) found"
    if "(\<lambda>(og, path). open_windows D og path) x s = (s', Returned (Inr found))" for x s s' found
    using that open_windows_Inr[of D "fst x" "snd x" s s' found] by (simp add: case_prod_beta)
qed

subsection \<open>A calm world\<close>

definition plain_api :: dpapi where
  "plain_api = \<lparr>dp_protect = (\<lambda>_ p _. Some p), dp_unprotect = (\<lambda>c _. Some c)\<rparr>"

definition user_text :: sid where "user_text = SidText [85, 0]"

definition own_process :: process_token where
  "own_process = \<lparr>pt_thread = own_context, pt_opened = True, pt_needed = 44, pt_information = True, pt_user = user_text\<rparr>"

definition own_security :: security where
  "own_security = \<lparr>se_information = True, se_control = Some 0x9004, se_acl = Some [Some \<lparr>ace_kind = 0, ace_flags = 0,
     ace_size = 36, ace_mask = FULL_ACCESS, ace_sid = user_text\<rparr>], se_owner = user_text\<rparr>"

definition plain_file :: win_file where
  "plain_file = \<lparr>wf_meta = Some \<lparr>wm_is_file = True, wm_is_dir = False, wm_attributes = 0x20, wm_len = 6\<rparr>,
     wf_process = own_process, wf_security = own_security, wf_links = Some 1\<rparr>"

definition plain_directory :: win_metadata where
  "plain_directory = \<lparr>wm_is_file = False, wm_is_dir = True, wm_attributes = 0x10, wm_len = 0\<rparr>"

definition calm_windows :: windows where
  "calm_windows = \<lparr>wx_sys = (\<lambda>_. Works),
     wx_views = (\<lambda>_. \<lparr>wv_thread = own_context, wv_dirs = [Some plain_directory], wv_private = (own_process, own_security),
        wv_lease = plain_file, wv_marker_meta = True, wv_marker_read = True\<rparr>),
     wx_reads = (\<lambda>_. \<lparr>wr_thread = own_context, wr_open = True, wr_size = None, wr_file = plain_file, wr_read = True,
        wr_unprotect = own_context\<rparr>),
     wx_thread = own_context, wx_seed = 0, wx_random = Some (replicate 16 CHR ''r''),
     wx_creation = \<lparr>cr_converts = (\<lambda>_. True), cr_process = own_process, cr_path = [67]\<rparr>,
     wx_temp = plain_file, wx_source = wf_meta plain_file, wx_directory = Some plain_directory, wx_final = (1, [67])\<rparr>"

definition no_record :: files where
  "no_record = \<lparr>f_lock = Some [], f_locks = [Some []], f_data = None, f_datas = [None], f_inode = [],
     f_temp = None, f_temps = [], f_current = False\<rparr>"

lemma user_text: "sid_text user_text = Some ''U''"
proof -
  have "sid_length [85, 0] 0 = 1" by (subst sid_length.simps, simp, subst sid_length.simps, simp)
  moreover have "char_of (85 :: nat) = CHR ''U''" by (simp add: char_of_eq_iff)
  ultimately show ?thesis by (simp add: user_text_def from_utf16_def utf8_point_def)
qed

lemma own_user: "user_sid own_process = Some ''U''"
  by (simp add: user_sid_def own_process_def process_user_context_def own_context_def SID_AND_ATTRIBUTES_def user_text)

lemma own_private: "private_storage_object own_process own_security"
  by (simp add: private_storage_object_def own_user own_security_def user_text DACL_PROTECTED_def FULL_ACCESS_def ACE_def)

lemma plain_safe: "safe_file plain_file"
  using own_private by (simp add: safe_file_def plain_file_def win_regular_def REPARSE_POINT_def storage_file_single_link_def)

lemma calm_windows_verifies:
  "win_verify_marker calm_windows n m s = (s, Returned (if or_else (f_lock s) [] = m then Inr () else Inl CorruptState))"
  using own_private plain_safe
  by (auto simp: win_verify_marker_def reading_def calm_windows_def process_user_context_def own_context_def win_directory_def
      plain_directory_def REPARSE_POINT_def check_write_marker_def Let_def ensure_def)

lemma calm_windows_replaces:
  "replace_storage_ciphertext (wx_source calm_windows) (wx_directory calm_windows) (fst (wx_final calm_windows))
     (snd (wx_final calm_windows)) (\<lambda>_. True)"
  by (simp add: replace_storage_ciphertext_def calm_windows_def plain_file_def plain_directory_def REPARSE_POINT_def
      ciphertext_target_def MAX_PATH_UNITS_def ascii_units_def STORAGE_CIPHERTEXT_FILE_def)

lemma calm_windows_creates: "create_in (wx_creation calm_windows) r = r"
  by (simp add: create_in_def create_private_def calm_windows_def descriptor_def own_user wide_def)

lemma calm_windows_write: "\<exists>s'. win_write sample_libs plain_api calm_windows ''record'' no_record = (s', Returned (Inr ()))"
proof -
  have protect: "protect_user_data (wx_thread calm_windows) (dp_protect plain_api (wx_seed calm_windows)) ''record'' ENTROPY = Some ''record''"
    by (simp add: protect_user_data_def calm_windows_def process_user_context_def own_context_def plain_api_def input_blob_def
        copy_bounded_def ENTROPY_def MAX_PLAINTEXT_BYTES_def MAX_ENTROPY_BYTES_def MAX_CIPHERTEXT_BYTES_def)
  have read: "win_read_data plain_api (wx_reads calm_windows 0) s = (s, Returned (Inr None))" if "f_data s = None" for s
    using that by (simp add: win_read_data_def reading_def calm_windows_def process_user_context_def own_context_def)
  have sys: "wx_sys calm_windows n = Works" for n by (simp add: calm_windows_def)
  have random: "\<exists>d. new_installation sample_libs (wx_random calm_windows) = Inr d"
    by (simp add: calm_windows_def new_installation_def)
  have safe: "safe_file (wx_temp calm_windows)" using plain_safe by (simp add: calm_windows_def)
  from random show ?thesis
    by (auto simp: win_write_def fbind_def calm_windows_verifies protect read sys pure_def calm_windows_creates
        calm_windows_replaces safe change_def flush_def write_pending_marker_def on_error_def win_replace_data_def
        win_complete_write_def no_record_def effect_defs WRITE_PENDING_def or_else_def)
qed

lemma plain_api_protects: "protects plain_api"
  by (auto simp: protects_def inverse_protection_def plain_api_def blob_of_def copy_bounded_def split: if_splits)

end
