(* ===== verification/Platforms.thy ===== *)
theory Platforms
  imports Durable Darwin Windows
begin

text \<open>
  The backend of the platform the library is built for, selected at compile time in \<open>installed.rs\<close>.
  The file of the installed storage is an atomic register on all of them: whatever fails, and
  whenever the power does, the next start finds the last acknowledged record, or the one record
  whose writing was not acknowledged, or refuses to start.
\<close>

datatype platform = OnLinux | OnWindows | OnMac | Elsewhere

text \<open>The world of one write and of one start, on whichever platform.\<close>

record write_world =
  ww_linux :: linux
  ww_windows :: windows
  ww_mac :: darwin

record start_world =
  sw_linux :: open_world
  sw_windows :: win_open
  sw_mac :: mac_open
  sw_path :: "path_component list"
  sw_win_path :: "win_component list"

definition platform_write :: "platform \<Rightarrow> ('x) external_scheme \<Rightarrow> dpapi \<Rightarrow> write_world \<Rightarrow> string \<Rightarrow> unit fs" where
  "platform_write p X D w bytes = (case p of
       OnLinux \<Rightarrow> backend_write X (ww_linux w) bytes
     | OnWindows \<Rightarrow> win_write X D (ww_windows w) bytes
     | OnMac \<Rightarrow> mac_write X (ww_mac w) bytes
     | Elsewhere \<Rightarrow> pure (Inl StorageError))"

definition platform_open :: "platform \<Rightarrow> dpapi \<Rightarrow> start_world \<Rightarrow> string option fs" where
  "platform_open p D og = (case p of
       OnLinux \<Rightarrow> open_backend (sw_linux og) (sw_path og)
     | OnWindows \<Rightarrow> open_windows D (sw_windows og) (sw_win_path og)
     | OnMac \<Rightarrow> open_mac (sw_mac og) (sw_path og)
     | Elsewhere \<Rightarrow> pure (Inl StorageError))"

text \<open>What the content of the file stands for.\<close>

definition platform_plain :: "platform \<Rightarrow> dpapi \<Rightarrow> string \<Rightarrow> string option" where
  "platform_plain p D = (if p = OnWindows then plain_of D else Some)"

lemma platform_file:
  assumes "protects D"
  shows "atomic_file (platform_write p X D) (platform_open p D) (platform_plain p D)"
proof (cases p)
  case OnLinux
  then show ?thesis using linux_file.write_law[of _ X] linux_file.start_law[where og = "(_, _)"]
    by unfold_locales (auto simp: platform_write_def platform_open_def platform_plain_def)
next
  case OnWindows
  note win = settling_file.write_law[OF atomic_file.axioms(1)[OF windows_file[OF assms]]] atomic_file.start_law[OF windows_file[OF assms], where og = "(_, _)"]
  show ?thesis using OnWindows win
    by unfold_locales (auto simp: platform_write_def platform_open_def platform_plain_def)
next
  case OnMac
  then show ?thesis using mac_file.write_law[of _ X] mac_file.start_law[where og = "(_, _)"]
    by unfold_locales (auto simp: platform_write_def platform_open_def platform_plain_def)
next
  case Elsewhere
  then show ?thesis
    by unfold_locales (auto simp: platform_write_def platform_open_def platform_plain_def file_triple_def pure_def
        intro: torn_phases settled_old)
qed

text \<open>
  C13.  On every platform the record file is an atomic register, where on Windows data protection is
  assumed to give back what it protected.  After any writes of one process, cut short at any system
  call by an error or by a power failure, whatever such a failure leaves of the files: a start that
  succeeds reads the last record whose write was acknowledged, or the one whose write was not, and
  never a mixture or an older one; and when every write was acknowledged there is nothing else to
  find, with the marker clear.
\<close>

theorem storage_is_atomic:
  assumes "protects D" "settled e s" "stands_for (platform_plain p D) e d"
    and "register_writes (platform_write p X D) d ops s = (s', saved, pending)" "restarts s' c"
  shows "(\<forall>found c'. platform_open p D og c = (c', Returned (Inr found)) \<longrightarrow> found = saved \<or> pending \<noteq> None \<and> found = pending)
    \<and> (pending = None \<longrightarrow> f_lock c = Some [] \<and> stands_for (platform_plain p D) (f_data c) saved)"
proof -
  note register = atomic_file.register[OF platform_file[OF assms(1)] assms(2-5)]
  show ?thesis using register(1) register(2) by blast
qed

definition calm_world :: write_world where
  "calm_world = \<lparr>ww_linux = calm, ww_windows = calm_windows, ww_mac = calm_mac\<rparr>"

lemma calm_platform_writes:
  assumes "p \<noteq> Elsewhere"
  shows "\<exists>s'. platform_write p sample_libs plain_api calm_world ''record'' empty_store = (s', Returned (Inr ()))"
  using assms calm_write calm_windows_write calm_mac_write[of empty_store]
  by (cases p) (auto simp: platform_write_def calm_world_def empty_store_def no_record_def)

definition keeps_the_record :: "platform \<Rightarrow> bool" where
  "keeps_the_record p \<longleftrightarrow> (\<exists>s' c.
     register_writes (platform_write p sample_libs plain_api) None [(calm_world, ''record'')] empty_store = (s', Some ''record'', None)
     \<and> restarts s' c \<and> f_lock c = Some [] \<and> stands_for (platform_plain p plain_api) (f_data c) (Some ''record''))"

theorem storage_is_atomic_witness: "keeps_the_record OnLinux \<and> keeps_the_record OnWindows \<and> keeps_the_record OnMac"
proof -
  have "keeps_the_record p" if p: "p \<noteq> Elsewhere" for p
  proof -
    obtain s' where w: "platform_write p sample_libs plain_api calm_world ''record'' empty_store = (s', Returned (Inr ()))"
      using calm_platform_writes[OF p] by auto
    have start: "settled None empty_store" "stands_for (platform_plain p plain_api) None None"
      by (simp_all add: settled_def empty_store_def stands_for_def)
    from w have run: "register_writes (platform_write p sample_libs plain_api) None [(calm_world, ''record'')] empty_store
        = (s', Some ''record'', None)" by simp
    obtain e where "settled e s'"
      using settling_file.writes_phase[OF atomic_file.axioms(1)[OF platform_file[OF plain_api_protects]] run start] by auto
    then have "restarts s' (s'\<lparr>f_current := False\<rparr>)" by (auto simp: settled_def restarts_def)
    with storage_is_atomic[OF plain_api_protects start run this] run show ?thesis
      unfolding keeps_the_record_def by blast
  qed
  then show ?thesis by simp
qed

end
