(* ===== verification/Firmware.thy ===== *)
theory Firmware
  imports Prelude
begin

text \<open>
  The machine identity from the firmware (\<open>native/src/firmware.rs\<close>): the bounded walk over the
  structures of a raw SMBIOS table, and the grammar of the tables that yield an identity.  Bytes
  are characters, as everywhere in the development; the loop's cursor is the rest of the payload.
\<close>

subsection \<open>The parser\<close>

definition MAX_RAW_TABLE_BYTES :: nat where "MAX_RAW_TABLE_BYTES = 1024 * 1024"

text \<open>\<open>u32::from_le_bytes\<close>.\<close>

definition le_u32 :: "string \<Rightarrow> nat" where
  "le_u32 b = byte (b ! 0) + 256 * byte (b ! 1) + 65536 * byte (b ! 2) + 16777216 * byte (b ! 3)"

text \<open>\<open>windows(2).position(|bytes| bytes == [0, 0])\<close>.\<close>

fun double_null :: "string \<Rightarrow> nat option" where
  "double_null (a # b # r) =
     (if byte a = 0 \<and> byte b = 0 then Some 0 else map_option Suc (double_null (b # r)))"
| "double_null _ = None"

definition reorder :: "string \<Rightarrow> string" where
  "reorder u = rev (take 4 u) @ rev (take 2 (drop 4 u)) @ rev (take 2 (drop 6 u)) @ drop 8 u"

fun print_uuid :: "nat \<Rightarrow> string \<Rightarrow> string" where
  "print_uuid i [] = []"
| "print_uuid i (b # bs) = (if i \<in> {4, 6, 8, 10} then ''-'' else []) @ hex_byte b @ print_uuid (Suc i) bs"

definition uuid_text :: "string \<Rightarrow> string option" where
  "uuid_text u =
     (if list_all (\<lambda>b. byte b = 0) u \<or> list_all (\<lambda>b. byte b = 255) u then None
      else Some (print_uuid 0 (reorder u)))"

function walk :: "string \<Rightarrow> string option \<Rightarrow> string option" where
  "walk rest identity =
     (if rest = [] \<or> length rest < 4 then None
      else let len = byte (rest ! 1) in
        if len < 4 \<or> length rest < len then None
        else (case double_null (drop len rest) of
            None \<Rightarrow> None
          | Some terminated \<Rightarrow>
             let after = drop (len + terminated + 2) rest in
             if byte (rest ! 0) = 1 then
               (if identity \<noteq> None \<or> len < 25 then None
                else (case uuid_text (take 16 (drop 8 rest)) of
                    None \<Rightarrow> None | Some u \<Rightarrow> walk after (Some u)))
             else if byte (rest ! 0) = 127 then identity
             else walk after identity))"
  by pat_completeness auto
termination
  by (relation "measure (length \<circ> fst)") auto

declare walk.simps [simp del]

definition parse_uuid :: "string \<Rightarrow> string option" where
  "parse_uuid raw =
     (if length raw < 8 \<or> length raw > MAX_RAW_TABLE_BYTES
         \<or> byte (raw ! 1) < 2 \<or> (byte (raw ! 1) = 2 \<and> byte (raw ! 2) < 6) then None
      else if le_u32 (take 4 (drop 4 raw)) \<noteq> length (drop 8 raw) then None
      else walk (drop 8 raw) None)"

text \<open>On Windows the table comes from the system: the size it reports, the size it writes on the
  second call, and the buffer afterwards.\<close>

definition machine_uuid :: "nat \<Rightarrow> nat \<Rightarrow> string \<Rightarrow> string option" where
  "machine_uuid required written raw =
     (if required < 8 \<or> required > MAX_RAW_TABLE_BYTES then None
      else if written \<noteq> required then None
      else parse_uuid raw)"

subsection \<open>The tables it accepts\<close>

text \<open>A structure of the table: its type, the bytes of its formatted area after the length byte,
  and its strings, which end at the first double null.\<close>

record smbios =
  sb_type :: char
  sb_body :: string
  sb_strings :: string

definition NUL2 :: string where "NUL2 = [CHR 0x00, CHR 0x00]"

definition wf_smbios :: "smbios \<Rightarrow> bool" where
  "wf_smbios s \<longleftrightarrow> 2 \<le> length (sb_body s) \<and> length (sb_body s) \<le> 253
     \<and> double_null (sb_strings s @ NUL2) = Some (length (sb_strings s))"

definition encode_smbios :: "smbios \<Rightarrow> string" where
  "encode_smbios s = sb_type s # char_of (2 + length (sb_body s)) # sb_body s @ sb_strings s @ NUL2"

definition is_system :: "smbios \<Rightarrow> bool" where "is_system s \<longleftrightarrow> byte (sb_type s) = 1"

definition is_end :: "smbios \<Rightarrow> bool" where "is_end s \<longleftrightarrow> byte (sb_type s) = 127"

definition system_uuid :: "smbios \<Rightarrow> string option" where
  "system_uuid s = (if length (sb_body s) < 23 then None else uuid_text (take 16 (drop 6 (sb_body s))))"

lemma double_null_append: "double_null s = Some n \<Longrightarrow> double_null (s @ t) = Some n"
  by (induction s arbitrary: n rule: double_null.induct) (auto split: if_splits)

lemma byte_zero: "byte c = 0 \<longleftrightarrow> c = CHR 0x00"
proof -
  have "byte c = byte (CHR 0x00) \<longleftrightarrow> c = CHR 0x00" by (simp only: byte_def of_char_eq_iff)
  then show ?thesis by (simp add: byte_def)
qed

lemma double_null_split:
  "double_null s = Some n \<Longrightarrow> \<exists>a b. s = a @ NUL2 @ b \<and> length a = n \<and> double_null (a @ NUL2) = Some n"
proof (induction s arbitrary: n rule: double_null.induct)
  case (1 a b r)
  show ?case
  proof (cases "byte a = 0 \<and> byte b = 0")
    case True
    then have "a = CHR 0x00" "b = CHR 0x00" by (simp_all add: byte_zero)
    with 1 show ?thesis by (auto simp: NUL2_def byte_def)
  next
    case False
    with 1 obtain m where m: "double_null (b # r) = Some m" "n = Suc m" by auto
    from "1.IH"[OF False m(1)] obtain x y where x: "b # r = x @ NUL2 @ y" "length x = m"
      "double_null (x @ NUL2) = Some m" by blast
    have "double_null ((a # x) @ NUL2) = Some n"
      using x m False by (cases x) (auto simp: NUL2_def)
    with x m show ?thesis by (intro exI[of _ "a # x"] exI[of _ y]) simp
  qed
qed auto

lemma length_print_uuid:
  "length (print_uuid i bs) = 2 * length bs + length (filter (\<lambda>j. j \<in> {4, 6, 8, 10}) [i..<i + length bs])"
proof (induction i bs rule: print_uuid.induct)
  case (2 i b bs)
  have "[i..<i + length (b # bs)] = i # [Suc i..<Suc i + length bs]"
    by (subst upt_conv_Cons) simp_all
  with 2 show ?case by (simp add: hex_byte_def)
qed simp

lemma length_reorder [simp]: "length u = 16 \<Longrightarrow> length (reorder u) = 16"
  by (simp add: reorder_def)

lemma length_uuid_text: "length u = 16 \<Longrightarrow> uuid_text u = Some t \<Longrightarrow> length t = 36"
  by (auto simp: uuid_text_def length_print_uuid upt_rec split: if_splits)

text \<open>One turn of the loop.\<close>

lemma walk_step:
  assumes "4 \<le> length t" "byte (t ! 1) = len" "4 \<le> len" "len \<le> length t" "double_null (drop len t) = Some n"
    and "drop (len + n + 2) t = after"
  shows "walk t identity =
    (if byte (t ! 0) = 1 then
       (if identity \<noteq> None \<or> len < 25 then None
        else (case uuid_text (take 16 (drop 8 t)) of None \<Rightarrow> None | Some u \<Rightarrow> walk after (Some u)))
     else if byte (t ! 0) = 127 then identity else walk after identity)"
proof -
  have "\<not> (t = [] \<or> length t < 4)" "\<not> (len < 4 \<or> length t < len)" using assms by auto
  then show ?thesis by (subst walk.simps) (simp only: assms Let_def if_False option.case)
qed

lemma walk_Some:
  assumes "walk t identity = Some u"
  shows "4 \<le> length t \<and> 4 \<le> byte (t ! 1) \<and> byte (t ! 1) \<le> length t
    \<and> (\<exists>n. double_null (drop (byte (t ! 1)) t) = Some n)"
proof -
  have "walk t identity = None" if "t = [] \<or> length t < 4"
    using that by (subst walk.simps) (simp only: if_True)
  moreover have "walk t identity = None"
    if "\<not> (t = [] \<or> length t < 4)" "byte (t ! 1) < 4 \<or> length t < byte (t ! 1)"
    using that by (subst walk.simps) (simp only: if_True if_False Let_def)
  moreover have "walk t identity = None"
    if "\<not> (t = [] \<or> length t < 4)" "\<not> (byte (t ! 1) < 4 \<or> length t < byte (t ! 1))"
      "double_null (drop (byte (t ! 1)) t) = None"
    using that by (subst walk.simps) (simp only: if_True if_False Let_def option.case)
  ultimately show ?thesis using assms by (metis linorder_not_less list.size(3) not_None_eq option.distinct(1))
qed

lemma walk_encoded:
  assumes "wf_smbios s"
  shows "walk (encode_smbios s @ rest) identity =
    (if is_system s then
       (if identity \<noteq> None then None
        else (case system_uuid s of None \<Rightarrow> None | Some u \<Rightarrow> walk rest (Some u)))
     else if is_end s then identity else walk rest identity)"
proof -
  let ?t = "encode_smbios s @ rest" and ?n = "length (sb_body s)"
  have len: "byte (?t ! 1) = 2 + ?n" using assms by (simp add: encode_smbios_def wf_smbios_def byte_def)
  have "drop (2 + ?n) ?t = (sb_strings s @ NUL2) @ rest" by (simp add: encode_smbios_def)
  then have dn: "double_null (drop (2 + ?n) ?t) = Some (length (sb_strings s))"
    using assms double_null_append[of "sb_strings s @ NUL2"] by (simp add: wf_smbios_def)
  have after: "drop (2 + ?n + length (sb_strings s) + 2) ?t = rest" by (simp add: encode_smbios_def NUL2_def)
  have uuid: "take 16 (drop 8 ?t) = take 16 (drop 6 (sb_body s))" if "23 \<le> ?n"
    using that by (simp add: encode_smbios_def)
  have bounds: "4 \<le> length ?t" "4 \<le> 2 + ?n" "2 + ?n \<le> length ?t"
    using assms by (auto simp: encode_smbios_def wf_smbios_def)
  have first: "?t ! 0 = sb_type s" by (simp add: encode_smbios_def)
  show ?thesis
    unfolding walk_step[OF bounds(1) len bounds(2,3) dn after] first is_system_def is_end_def system_uuid_def
    using uuid by (cases "?n < 23") (simp_all del: take_append drop_append)
qed

lemma walk_starts_encoded:
  assumes "walk t identity = Some u"
  shows "\<exists>s rest. t = encode_smbios s @ rest \<and> wf_smbios s"
proof -
  note w = walk_Some[OF assms]
  then obtain k l r where t: "t = k # l # r" by (cases t; cases "tl t") auto
  obtain n where "double_null (drop (byte l) t) = Some n" using w by (auto simp: t)
  from double_null_split[OF this] obtain a b where ab: "drop (byte l) t = a @ NUL2 @ b"
    "double_null (a @ NUL2) = Some (length a)" by blast
  let ?s = "\<lparr>sb_type = k, sb_body = take (byte l - 2) r, sb_strings = a\<rparr>"
  have n: "length (sb_body ?s) = byte l - 2" "4 \<le> byte l" using w by (auto simp: t)
  have "2 + length (sb_body ?s) = byte l" using n by linarith
  then have "char_of (2 + length (sb_body ?s)) = l" by (simp only: byte_def char_of_char)
  moreover have "drop (byte l - 2) r = a @ NUL2 @ b"
    using ab(1) n(2) by (simp add: t drop_Cons' numeral_2_eq_2 split: if_splits)
  moreover have "t = k # l # take (byte l - 2) r @ drop (byte l - 2) r" by (simp add: t)
  ultimately have "t = encode_smbios ?s @ b" by (simp add: encode_smbios_def)
  moreover have "2 \<le> byte l - 2" "byte l - 2 \<le> 253" using n(2) byte_lt_256[of l] by linarith+
  then have "wf_smbios ?s" using n(1) ab(2) unfolding wf_smbios_def by simp
  ultimately show ?thesis by blast
qed

text \<open>The whole walk: structures up to the first end marker, one of them a system structure.\<close>

definition table_of :: "smbios list \<Rightarrow> smbios \<Rightarrow> string \<Rightarrow> string" where
  "table_of ss marker padding = concat (map encode_smbios ss) @ encode_smbios marker @ padding"

definition one_system :: "smbios list \<Rightarrow> string option \<Rightarrow> string \<Rightarrow> bool" where
  "one_system ss identity u \<longleftrightarrow>
     (case filter is_system ss of [] \<Rightarrow> identity = Some u | [s] \<Rightarrow> identity = None \<and> system_uuid s = Some u | _ \<Rightarrow> False)"

lemma walk_sound:
  "walk t identity = Some u \<Longrightarrow> \<exists>ss marker padding. t = table_of ss marker padding \<and> list_all wf_smbios ss
     \<and> \<not> list_ex is_end ss \<and> wf_smbios marker \<and> is_end marker \<and> one_system ss identity u"
proof (induction "length t" arbitrary: t identity rule: less_induct)
  case less
  obtain s rest where s: "t = encode_smbios s @ rest" "wf_smbios s" using walk_starts_encoded[OF less.prems] by blast
  note run = less.prems[unfolded s(1) walk_encoded[OF s(2)]]
  have shorter: "length rest < length t" by (simp add: s(1) encode_smbios_def)
  show ?case
  proof (cases "is_end s")
    case True
    then have "\<not> is_system s" by (simp add: is_end_def is_system_def)
    with True run s have "t = table_of [] s rest \<and> one_system [] identity u" by (simp add: table_of_def one_system_def)
    with s(2) True show ?thesis by (intro exI[of _ "[]"] exI[of _ s] exI[of _ rest]) simp
  next
    case False
    obtain identity' where more: "walk rest identity' = Some u"
      and step: "if is_system s then identity = None \<and> identity' = system_uuid s \<and> identity' \<noteq> None else identity' = identity"
      using run False by (auto split: if_splits option.splits)
    from less.hyps[OF shorter more] obtain ss marker padding where rest: "rest = table_of ss marker padding"
      "list_all wf_smbios ss" "\<not> list_ex is_end ss" "wf_smbios marker" "is_end marker" "one_system ss identity' u"
      by blast
    have "one_system (s # ss) identity u"
      using rest(6) step by (auto simp: one_system_def split: list.splits if_splits)
    moreover have "t = table_of (s # ss) marker padding" using s(1) rest(1) by (simp add: table_of_def)
    moreover have "list_all wf_smbios (s # ss)" "\<not> list_ex is_end (s # ss)" using rest s(2) False by auto
    ultimately show ?thesis using rest(4,5) by blast
  qed
qed

lemma walk_complete:
  "list_all wf_smbios ss \<Longrightarrow> \<not> list_ex is_end ss \<Longrightarrow> wf_smbios marker \<Longrightarrow> is_end marker \<Longrightarrow>
     one_system ss identity u \<Longrightarrow> walk (table_of ss marker padding) identity = Some u"
proof (induction ss arbitrary: identity)
  case Nil
  then have "\<not> is_system marker" by (simp add: is_end_def is_system_def)
  with Nil show ?case by (simp add: table_of_def one_system_def walk_encoded)
next
  case (Cons s ss)
  let ?next = "if is_system s then system_uuid s else identity"
  have step: "one_system ss ?next u" "is_system s \<Longrightarrow> identity = None \<and> ?next \<noteq> None"
    using Cons.prems(5) by (auto simp: one_system_def split: list.splits if_splits)
  have "walk (table_of ss marker padding) ?next = Some u" using Cons.IH step(1) Cons.prems by simp
  moreover have "table_of (s # ss) marker padding = encode_smbios s @ table_of ss marker padding"
    by (simp add: table_of_def)
  ultimately show ?case using Cons.prems(1,2) step(2) by (auto simp: walk_encoded split: option.splits)
qed

text \<open>
  C38.  The firmware identity is found exactly in well-formed tables.  The parser returns an
  identity exactly for a raw table of at most a mebibyte, of SMBIOS version 2.6 or later, whose
  declared length is its payload's, and whose payload is a sequence of well-formed structures up
  to an end marker in which exactly one is a system structure; and it is that structure's UUID,
  neither all zeros nor all ones, printed with its first three fields in little-endian order.
\<close>

theorem machine_uuid_iff:
  "parse_uuid raw = Some u \<longleftrightarrow>
     8 \<le> length raw \<and> length raw \<le> MAX_RAW_TABLE_BYTES
     \<and> (2 < byte (raw ! 1) \<or> byte (raw ! 1) = 2 \<and> 6 \<le> byte (raw ! 2))
     \<and> le_u32 (take 4 (drop 4 raw)) = length raw - 8
     \<and> (\<exists>ss s marker padding. drop 8 raw = table_of ss marker padding
          \<and> list_all wf_smbios ss \<and> \<not> list_ex is_end ss \<and> wf_smbios marker \<and> is_end marker
          \<and> filter is_system ss = [s] \<and> system_uuid s = Some u)"
proof -
  have one: "one_system ss None u \<longleftrightarrow> (\<exists>s. filter is_system ss = [s] \<and> system_uuid s = Some u)" for ss
    by (auto simp: one_system_def split: list.splits)
  have "walk (drop 8 raw) None = Some u \<longleftrightarrow>
      (\<exists>ss s marker padding. drop 8 raw = table_of ss marker padding
          \<and> list_all wf_smbios ss \<and> \<not> list_ex is_end ss \<and> wf_smbios marker \<and> is_end marker
          \<and> filter is_system ss = [s] \<and> system_uuid s = Some u)"
    using walk_sound[of "drop 8 raw" None u] walk_complete[of _ _ None u] one by metis
  then show ?thesis by (auto simp: parse_uuid_def)
qed

text \<open>The canonical spelling: 36 characters, hexadecimal digits apart from the hyphens.\<close>

lemma parse_uuid_length:
  assumes "parse_uuid raw = Some u" shows "length u = 36"
proof -
  have "walk (drop 8 raw) None = Some u" using assms by (auto simp: parse_uuid_def split: if_splits)
  from walk_sound[OF this] obtain ss where "one_system ss None u" by blast
  then obtain s where "system_uuid s = Some u" by (auto simp: one_system_def split: list.splits)
  then show ?thesis by (auto simp: system_uuid_def intro!: length_uuid_text split: if_splits)
qed

end
