(* ===== verification/Machines.thy ===== *)
theory Machines
  imports Identity Clock Firmware
begin

text \<open>
  The native clocks and machine identities of the platforms (\<open>native/src/lib.rs\<close>, \<open>macos.rs\<close>), and
  how the fingerprint of \<open>device.rs\<close> and the clock of \<open>clock.rs\<close> use them.  A duration is a number
  of nanoseconds, as in \<open>Clock\<close>; what a native call answers is a reading.
\<close>

subsection \<open>Clocks\<close>

definition checked_mul_u128 :: "128 word \<Rightarrow> 128 word \<Rightarrow> 128 word option" where
  "checked_mul_u128 a b = (if unat a * unat b < 2 ^ 128 then Some (a * b) else None)"

definition checked_mach_duration :: "64 word \<Rightarrow> 32 word \<Rightarrow> 32 word \<Rightarrow> duration option" where
  "checked_mach_duration ticks numerator denominator =
     (if numerator = 0 \<or> denominator = 0 then None
      else Option.bind (checked_mul_u128 (ucast ticks) (ucast numerator)) (\<lambda>product.
        let nanoseconds = product div ucast denominator;
            seconds = nanoseconds div 1000000000
        in if unat seconds < 2 ^ 64
           then Some (unat seconds * 1000000000 + unat (nanoseconds mod 1000000000)) else None))"

text \<open>\<open>mach_timebase_info\<close>: its answer, unless it fails; \<open>OnceLock\<close> keeps the first result.\<close>

definition timebase :: "(32 word \<times> 32 word) option option \<Rightarrow> (32 word \<times> 32 word) option
    \<Rightarrow> (32 word \<times> 32 word) option option \<times> (32 word \<times> 32 word) option" where
  "timebase cell info = (case cell of
       Some kept \<Rightarrow> (cell, kept)
     | None \<Rightarrow>
        let base = (case info of None \<Rightarrow> None
          | Some (n, d) \<Rightarrow> if n = 0 \<or> d = 0 then None else Some (n, d))
        in (Some base, base))"

definition mac_elapsed_clock ::
    "(32 word \<times> 32 word) option option \<Rightarrow> (32 word \<times> 32 word) option \<Rightarrow> 64 word \<Rightarrow> duration option" where
  "mac_elapsed_clock cell info ticks =
     Option.bind (snd (timebase cell info)) (\<lambda>(n, d). checked_mach_duration ticks n d)"

text \<open>Windows counts in units of 100 nanoseconds.\<close>

definition windows_elapsed_clock :: "64 word \<Rightarrow> duration" where
  "windows_elapsed_clock ticks =
     unat (ticks div 10000000) * 1000000000 + unat (ucast (ticks mod 10000000 * 100) :: 32 word)"

text \<open>The clock of \<open>clock.rs\<close>, by platform.\<close>

datatype clock_reading =
    Boottime int int
  | InterruptTime "64 word"
  | ContinuousTime "(32 word \<times> 32 word) option option" "(32 word \<times> 32 word) option" "64 word"
  | NoClock

fun platform_elapsed :: "clock_reading \<Rightarrow> duration result" where
  "platform_elapsed (Boottime sec nsec) =
     (if sec < 0 \<or> nsec < 0 then Inl ClockUncertain else Inr (nat sec * 1000000000 + nat nsec))"
| "platform_elapsed (InterruptTime ticks) = Inr (windows_elapsed_clock ticks)"
| "platform_elapsed (ContinuousTime cell info ticks) = ok_or ClockUncertain (mac_elapsed_clock cell info ticks)"
| "platform_elapsed NoClock = Inl ClockUncertain"

subsection \<open>The identity of a Mac\<close>

definition normalize_macos_platform_uuid :: "string \<Rightarrow> nat \<Rightarrow> string option" where
  "normalize_macos_platform_uuid value source_length =
     (if \<not> (1 \<le> source_length \<and> source_length \<le> 256) \<or> length value \<noteq> source_length
        \<or> \<not> list_all is_ascii value \<or> CHR 0x00 \<in> set value then None
      else Some (trim_matches {CHR '' '', CHR 0x09, CHR 0x0A, CHR 0x0D, CHR 0x0B, CHR 0x0C} value))"

text \<open>The property of the platform expert: a missing service or property, a value of another type,
  or a string with its length and, unless the conversion fails, its bytes in the buffer of 257.\<close>

datatype platform_property = NoMatching | NoService | NoKey | NoProperty | OtherType | StringProperty int "string option"

definition c_str :: "string \<Rightarrow> string" where "c_str buffer = takeWhile (\<lambda>c. c \<noteq> CHR 0x00) buffer"

fun platform_uuid :: "platform_property \<Rightarrow> string option" where
  "platform_uuid (StringProperty len buffer) =
     (if \<not> (1 \<le> len \<and> len \<le> 256) then None
      else Option.bind buffer (\<lambda>b. normalize_macos_platform_uuid (c_str b) (nat len)))"
| "platform_uuid _ = None"

text \<open>\<open>native_fingerprint\<close> on the three platforms.\<close>

datatype native_identity = MachineIdFile "string option" | SystemFirmware nat nat string | PlatformExpert platform_property | NoIdentity

fun platform_fingerprint :: "('x) external_scheme \<Rightarrow> native_identity \<Rightarrow> string \<Rightarrow> string \<Rightarrow> string result" where
  "platform_fingerprint X (MachineIdFile content) app envt = native_fingerprint X content app envt"
| "platform_fingerprint X (SystemFirmware required written raw) app envt =
     rbind (check_scope app envt) (\<lambda>_.
     rbind (ok_or unavailable (machine_uuid required written raw)) (\<lambda>identity.
       machine_fingerprint X app envt ''windows'' identity))"
| "platform_fingerprint X (PlatformExpert property) app envt =
     rbind (check_scope app envt) (\<lambda>_.
     rbind (ok_or unavailable (platform_uuid property)) (\<lambda>identity.
       machine_fingerprint X app envt ''macos'' identity))"
| "platform_fingerprint X NoIdentity app envt =
     rbind (check_scope app envt) (\<lambda>_. Inl unavailable)"

subsection \<open>The clocks are exact\<close>

lemma unat_less: "unat (w :: 'a :: len word) < 2 ^ LENGTH('a)"
  by (rule unsigned_less)

lemma wide_product: "unat (a :: 64 word) * unat (b :: 32 word) < 2 ^ 96"
proof -
  have "unat a * unat b \<le> unat a * 2 ^ 32" using unat_less[of b] by (simp add: order_less_imp_le)
  also have "\<dots> < 2 ^ 64 * 2 ^ 32" using unat_less[of a] by simp
  finally show ?thesis by simp
qed

text \<open>The product fits, so the conversion fails only for an empty time base or for more than
  64 bits of seconds.\<close>

lemma checked_mach_duration_exact:
  "checked_mach_duration t n d =
     (if n = 0 \<or> d = 0 then None
      else let x = unat t * unat n div unat d in if x div 1000000000 < 2 ^ 64 then Some x else None)"
proof (cases "n = 0 \<or> d = 0")
  case False
  let ?p = "(ucast t :: 128 word) * ucast n"
  have fit: "unat t * unat n < 2 ^ 128"
    using wide_product[of t n] by (rule less_trans) simp
  have up: "unat (ucast t :: 128 word) = unat t" "unat (ucast n :: 128 word) = unat n" "unat (ucast d :: 128 word) = unat d"
    by (simp_all add: unsigned_ucast_eq take_bit_nat_eq_self unat_less[THEN less_trans])
  have p: "unat ?p = unat t * unat n" using fit by (simp add: unat_word_ariths up)
  have x: "unat (?p div ucast d) = unat t * unat n div unat d" by (simp add: unat_div p up)
  have s: "unat (?p div ucast d div 1000000000) = unat t * unat n div unat d div 1000000000"
    by (simp only: unat_div p up) simp
  have r: "unat (?p div ucast d mod 1000000000) = unat t * unat n div unat d mod 1000000000"
    by (simp only: unat_mod unat_div p up) simp
  have mul: "checked_mul_u128 (ucast t) (ucast n) = Some ?p" using fit by (simp add: checked_mul_u128_def up)
  show ?thesis using False by (simp add: checked_mach_duration_def mul Let_def s r)
qed (simp add: checked_mach_duration_def)

lemma checked_mach_duration_mono:
  assumes "checked_mach_duration t n d = Some x" "checked_mach_duration t' n d = Some x'" "t \<le> t'"
  shows "x \<le> x'"
proof -
  have "unat t \<le> unat t'" using assms(3) by (simp add: word_le_nat_alt)
  then have "unat t * unat n div unat d \<le> unat t' * unat n div unat d"
    by (intro div_le_mono mult_le_mono1)
  with assms(1,2) show ?thesis by (simp add: checked_mach_duration_exact Let_def split: if_splits)
qed

lemma windows_elapsed_clock_exact: "windows_elapsed_clock ticks = unat ticks * 100"
proof -
  have r: "unat (ticks mod 10000000) = unat ticks mod 10000000" by (simp add: unat_mod)
  have small: "unat ticks mod 10000000 * 100 < 2 ^ 32" using mod_less_divisor[of 10000000 "unat ticks"] by simp
  then have "unat (ticks mod 10000000 * 100) = unat ticks mod 10000000 * 100"
    by (subst unat_word_ariths) (simp add: r)
  with small have "unat (ucast (ticks mod 10000000 * 100) :: 32 word) = unat ticks mod 10000000 * 100"
    by (simp add: unsigned_ucast_eq take_bit_nat_eq_self)
  moreover have "unat (ticks div 10000000) = unat ticks div 10000000" by (simp add: unat_div)
  ultimately have "windows_elapsed_clock ticks = (unat ticks div 10000000 * 10000000 + unat ticks mod 10000000) * 100"
    unfolding windows_elapsed_clock_def by (simp only: distrib_right)
  then show ?thesis by (simp only: div_mult_mod_eq)
qed

lemma boottime_is_clock: "platform_elapsed (Boottime (tv_sec t) (tv_nsec t)) = elapsed_clock t"
  by (simp add: elapsed_clock_def)

subsection \<open>The identity is the machine's\<close>

lemma trim_matches_idem: "trim_matches cs (trim_matches cs s) = trim_matches cs s"
proof -
  have idem: "dropWhile P (dropWhile P xs) = dropWhile P xs" for P and xs :: string
    by (induction xs) auto
  have front: "dropWhile P (rev (dropWhile P (rev xs))) = rev (dropWhile P (rev xs))"
    if "dropWhile P xs = xs" for P and xs :: string
  proof (cases xs)
    case (Cons y ys)
    then have y: "\<not> P y" using that by (metis dropWhile_eq_Cons_conv)
    have "rev (dropWhile P (rev ys @ [y])) = y # rev (dropWhile P (rev ys))"
      using y by (simp add: dropWhile_append)
    with Cons y show ?thesis by simp
  qed simp
  let ?P = "\<lambda>c. c \<in> cs"
  show ?thesis unfolding trim_matches_def
    using front[of ?P "dropWhile ?P s"] idem[of ?P] by simp
qed

lemma trim_matches_part: "set (trim_matches cs s) \<subseteq> set s" "length (trim_matches cs s) \<le> length s"
proof -
  show "set (trim_matches cs s) \<subseteq> set s" unfolding trim_matches_def by (auto dest!: set_dropWhileD)
  have "length (dropWhile P (rev (dropWhile P s))) \<le> length s" for P
    using length_dropWhile_le[of P "rev (dropWhile P s)"] length_dropWhile_le[of P s] by simp
  then show "length (trim_matches cs s) \<le> length s" by (simp add: trim_matches_def)
qed

text \<open>The identity is trimmed twice, which makes no difference to the fingerprint.\<close>

lemma platform_expert_fingerprint:
  assumes "platform_uuid (StringProperty len (Some buffer)) = Some u"
  shows "platform_fingerprint X (PlatformExpert (StringProperty len (Some buffer))) app envt
     = machine_fingerprint X app envt ''macos'' (c_str buffer)"
    and "length (c_str buffer) = nat len" "length u \<le> 256" "list_all is_ascii u"
proof -
  have u: "u = trim_matches {CHR '' '', CHR 0x09, CHR 0x0A, CHR 0x0D, CHR 0x0B, CHR 0x0C} (c_str buffer)"
    and len: "length (c_str buffer) = nat len" "1 \<le> len" "len \<le> 256" and ascii: "list_all is_ascii (c_str buffer)"
    using assms by (auto simp: normalize_macos_platform_uuid_def split: if_splits)
  have same: "normalize_machine_id u = normalize_machine_id (c_str buffer)"
    unfolding normalize_machine_id_def u by (simp only: trim_matches_idem)
  have "machine_fingerprint X app envt ''macos'' u = machine_fingerprint X app envt ''macos'' (c_str buffer)"
    unfolding machine_fingerprint_def same ..
  then show "platform_fingerprint X (PlatformExpert (StringProperty len (Some buffer))) app envt
      = machine_fingerprint X app envt ''macos'' (c_str buffer)"
    using assms by (cases "check_scope app envt") (auto simp: machine_fingerprint_def)
  show "length (c_str buffer) = nat len" by (rule len)
  have sub: "set u \<subseteq> set (c_str buffer)" "length u \<le> length (c_str buffer)"
    unfolding u by (rule trim_matches_part)+
  then show "length u \<le> 256" "list_all is_ascii u" using len ascii by (auto simp: list_all_iff)
qed

end
