(* ===== verification/Restart.thy ===== *)
theory Restart
  imports Samples
begin

text \<open>
  From one start to the next: the record that a process leaves in its file, through any sequence of
  storage operations and failures, is the record the next start works with.
\<close>

subsection \<open>The file of a session\<close>











subsection \<open>Starting\<close>






subsection \<open>A small session\<close>












end
