(* ===== verification/Terminal.thy ===== *)
theory Terminal
  imports External "HOL-Library.List_Lexorder" "HOL-Library.Char_ord"
begin

text \<open>
  The command line tool: its failures, its local helpers (\<open>cli/src/files.rs\<close>) and the plain-text
  rendering of API documents (\<open>cli/src/output.rs\<close>).  Output is a string; the members of an API
  document are in the order of its keys, as the tool's \<open>serde_json\<close> maps are.
\<close>

datatype failure =
    Usage string
  | Api nat string string "string option"   \<comment> \<open>status, code, message, request id\<close>
  | Transport string
  | Other string

record cli_external = external +
  json_text :: "json \<Rightarrow> string"   \<comment> \<open>compact JSON text of a value\<close>

subsection \<open>Numbers as text\<close>

definition digits_value :: "string \<Rightarrow> int" where
  "digits_value s = foldl (\<lambda>n c. 10 * n + (int (byte c) - 48)) 0 s"

subsection \<open>Helpers\<close>

definition random_hex :: "string option \<Rightarrow> failure + string" where
  "random_hex random =
     rbind (ok_or (Other ''system randomness is unavailable'') random) (\<lambda>buffer. Inr (hexify buffer))"

text \<open>The argument is 16 random bytes.\<close>

definition fresh_idempotency_key :: "string option \<Rightarrow> failure + string" where
  "fresh_idempotency_key random = rbind (random_hex random) (\<lambda>h. Inr (''orbit-cli-'' @ h))"

definition valid_idempotency_key :: "string \<Rightarrow> bool" where
  "valid_idempotency_key v \<longleftrightarrow> 16 \<le> length v \<and> length v \<le> 128
     \<and> list_all (\<lambda>b. 33 \<le> byte b \<and> byte b \<le> 126) v"

text \<open>What reading a file gives: the outcome of opening it and of its metadata (whether it is a
  regular file), and the results of the reads up to the end of the file.\<close>

datatype read_step = Interrupted | ReadFailed string | ReadBytes string

record file_view =
  fv_open :: "string + unit"
  fv_is_file :: "string + bool"
  fv_reads :: "read_step list"

record file_digest =
  fd_byte_length :: nat
  fd_sha256 :: string

definition shown_failure :: "string \<Rightarrow> string \<Rightarrow> failure" where
  "shown_failure path message = Other (path @ '': '' @ message)"

fun read_all :: "string \<Rightarrow> string \<Rightarrow> read_step list \<Rightarrow> failure + string" where
  "read_all path acc [] = Inr acc"
| "read_all path acc (Interrupted # rest) = read_all path acc rest"
| "read_all path acc (ReadFailed message # rest) = Inl (shown_failure path message)"
| "read_all path acc (ReadBytes [] # rest) = Inr acc"
| "read_all path acc (ReadBytes bytes # rest) = read_all path (acc @ bytes) rest"

definition shown_err :: "string \<Rightarrow> string + 'a \<Rightarrow> failure + 'a" where
  "shown_err path r = (case r of Inl m \<Rightarrow> Inl (shown_failure path m) | Inr x \<Rightarrow> Inr x)"

definition digest_file :: "('x) external_scheme \<Rightarrow> string \<Rightarrow> file_view \<Rightarrow> failure + file_digest" where
  "digest_file X path f =
     rbind (shown_err path (fv_open f)) (\<lambda>_.
     rbind (shown_err path (fv_is_file f)) (\<lambda>is_file.
     rbind (ensure (Usage (path @ '' is not a regular file'')) is_file) (\<lambda>_.
     rbind (read_all path [] (fv_reads f)) (\<lambda>bytes.
     rbind (ensure (Usage (path @ '' is empty'')) (bytes \<noteq> [])) (\<lambda>_.
       Inr \<lparr>fd_byte_length = length bytes, fd_sha256 = hexify (sha256 X bytes)\<rparr>)))))"

definition is_alphabetic :: "char \<Rightarrow> bool" where
  "is_alphabetic c \<longleftrightarrow> is_lower c \<or> is_upper c"

definition invalid_duration :: "string \<Rightarrow> failure" where
  "invalid_duration v = Usage (''invalid duration '' @ [CHR 0x60] @ v @ [CHR 0x60] @ ''; use for example 30d'')"

definition split_unit :: "string \<Rightarrow> string \<times> char" where
  "split_unit v = (if v \<noteq> [] \<and> is_alphabetic (last v) then (butlast v, last v) else (v, CHR ''s''))"

definition unit_seconds :: "char \<Rightarrow> int option" where
  "unit_seconds u = (if u = CHR ''s'' then Some 1 else if u = CHR ''m'' then Some 60
     else if u = CHR ''h'' then Some 3600 else if u = CHR ''d'' then Some 86400 else None)"

definition duration_seconds :: "string \<Rightarrow> failure + int" where
  "duration_seconds v =
     (case split_unit v of (digits, unit) \<Rightarrow>
     rbind (ensure (invalid_duration v) (\<not> (digits = [] \<or> \<not> list_all is_digit digits))) (\<lambda>_.
     rbind (ok_or (invalid_duration v) (unit_seconds unit)) (\<lambda>multiplier.
       ok_or (invalid_duration v)
         (filter_opt (\<lambda>n. n > 0)
           (Option.bind (checked_i64 (digits_value digits)) (\<lambda>n. checked_i64 (n * multiplier)))))))"

subsection \<open>Documents\<close>

text \<open>A parsed document with every object in key order.\<close>

fun ordered :: "json \<Rightarrow> json"
  and ordered_list :: "json list \<Rightarrow> json list"
  and ordered_members :: "(string \<times> json) list \<Rightarrow> (string \<times> json) list"
  where
  "ordered (JArr xs) = JArr (ordered_list xs)"
| "ordered (JObj m) = JObj (sort_key fst (ordered_members m))"
| "ordered j = j"
| "ordered_list [] = []"
| "ordered_list (x # xs) = ordered x # ordered_list xs"
| "ordered_members [] = []"
| "ordered_members ((k, v) # m) = (k, ordered v) # ordered_members m"

definition read_value :: "('x) external_scheme \<Rightarrow> string \<Rightarrow> json option" where
  "read_value X bytes = map_option ordered (from_slice_value X bytes)"

definition json_object :: "(string \<times> json) list \<Rightarrow> json" where
  "json_object m = JObj (sort_key fst m)"

definition map_insert :: "string \<Rightarrow> json \<Rightarrow> (string \<times> json) list \<Rightarrow> (string \<times> json) list" where
  "map_insert k v m = sort_key fst (obj_insert k v m)"

definition map_remove :: "string \<Rightarrow> (string \<times> json) list \<Rightarrow> (string \<times> json) list" where
  "map_remove k m = filter (\<lambda>(k', v). k' \<noteq> k) m"

definition json_items :: "json \<Rightarrow> json list" where
  "json_items v = or_else (as_array v) []"

subsection \<open>Rendering\<close>

fun is_boolean :: "json \<Rightarrow> bool" where
  "is_boolean (JBool b) = True"
| "is_boolean _ = False"

fun blank_controls :: "string \<Rightarrow> string" where
  "blank_controls [] = []"
| "blank_controls (c # cs) =
     (if byte c < 32 \<or> byte c = 127 then CHR '' '' # blank_controls cs
      else if byte c = 194 then
        (case cs of
           d # ds \<Rightarrow> if 128 \<le> byte d \<and> byte d \<le> 159 then CHR '' '' # blank_controls ds
                    else c # blank_controls cs
         | [] \<Rightarrow> [c])
      else c # blank_controls cs)"

fun cell_text :: "('x) cli_external_scheme \<Rightarrow> json \<Rightarrow> string" where
  "cell_text X JNull = ''-''"
| "cell_text X (JStr s) = s"
| "cell_text X (JObj m) =
     (if list_all (\<lambda>(k, v). is_boolean v) m
      then join_with '','' (map fst (filter (\<lambda>(k, v). v = JBool True) m))
      else json_text X (JObj m))"
| "cell_text X other = json_text X other"

definition cell :: "('x) cli_external_scheme \<Rightarrow> json \<Rightarrow> string" where
  "cell X v = blank_controls (cell_text X v)"

definition newline :: string where "newline = [CHR 0x0A]"

definition pad :: "nat \<Rightarrow> string \<Rightarrow> string" where
  "pad w s = s @ replicate (w - char_count s) CHR '' ''"

definition to_upper :: "char \<Rightarrow> char" where
  "to_upper c = (if is_lower c then char_of (byte c - 32) else c)"

definition table_line :: "nat list \<Rightarrow> string list \<Rightarrow> string" where
  "table_line widths row = trim_end (join_with ''  '' (map (\<lambda>(v, w). pad w v) (zip row widths))) @ newline"

definition column_width :: "string list list \<Rightarrow> nat \<Rightarrow> string \<Rightarrow> nat" where
  "column_width cells i c = max (fold max (map (\<lambda>r. char_count (r ! i)) cells) 0) (length c)"

definition table :: "('x) cli_external_scheme \<Rightarrow> string list \<Rightarrow> json list \<Rightarrow> string" where
  "table X columns rows =
     (if rows = [] then ''No results.'' @ newline
      else
       let cells = map (\<lambda>row. map (\<lambda>c. cell X (json_index row c)) columns) rows;
           widths = map (\<lambda>(i, c). column_width cells i c) (enumerate 0 columns)
       in concat (map (table_line widths) (map (map to_upper) columns # cells)))"

definition field_lines :: "('x) cli_external_scheme \<Rightarrow> json \<Rightarrow> string list \<Rightarrow> string" where
  "field_lines X v names =
     (let width = fold max (map length names) 0 in
      concat (map (\<lambda>name. trim_end (pad width name @ ''  '' @ cell X (json_index v name)) @ newline) names))"

definition next_page :: "('x) cli_external_scheme \<Rightarrow> json \<Rightarrow> string" where
  "next_page X page = (case as_str (json_index page ''next_cursor'') of
       Some cursor \<Rightarrow> ''More results: --after '' @ cell X (JStr cursor) @ newline
     | None \<Rightarrow> [])"

end
