(* ===== verification/Profiles.thy ===== *)
theory Profiles
  imports Terminal "HOL-Library.Word"
begin

text \<open>
  Saved credential profiles of the command line tool (\<open>cli/src/config.rs\<close>): the grammar of
  management tokens, their redacted form, the search for the configuration directory, and the
  private credentials file.
\<close>

unbundle bit_operations_syntax

definition FILE_NAME :: string where "FILE_NAME = ''credentials.json''"

record profile =
  pl_token :: string
  pl_application_id :: string
  pl_environment_id :: string
  pl_api_url :: "string option"

text \<open>The profiles of a store, in the order of their names.\<close>

type_synonym profiles = "(string \<times> profile) list"

record cli_libs = cli_external +
  store_text :: "profiles \<Rightarrow> string option"     \<comment> \<open>\<open>to_vec_pretty\<close> of the store\<close>
  de_store :: "string \<Rightarrow> profiles option"

subsection \<open>Tokens and names\<close>

definition token_prefix :: string where "token_prefix = ''orb_mgmt_''"

definition token_byte :: "char \<Rightarrow> bool" where
  "token_byte b \<longleftrightarrow> is_alphanumeric b \<or> b = CHR ''_'' \<or> b = CHR ''-''"

definition valid_token :: "string \<Rightarrow> bool" where
  "valid_token v \<longleftrightarrow> length v = 52 \<and> starts_with v token_prefix \<and> list_all token_byte (drop 9 v)"

text \<open>The ellipsis is one character of three bytes.\<close>

definition redact :: "string \<Rightarrow> string" where
  "redact token = (if valid_token token then token_prefix @ [CHR 0xE2, CHR 0x80, CHR 0xA6] @ drop 48 token
     else ''(invalid token)'')"

definition valid_profile_name :: "string \<Rightarrow> bool" where
  "valid_profile_name v \<longleftrightarrow> 1 \<le> length v \<and> length v \<le> 64 \<and> list_all token_byte v"

subsection \<open>The configuration directory\<close>

text \<open>The operating system's name and its notion of absolute paths are arguments.\<close>

definition absolute_var :: "(string \<Rightarrow> bool) \<Rightarrow> (string \<Rightarrow> string option) \<Rightarrow> string \<Rightarrow> string option" where
  "absolute_var is_absolute env name = filter_opt is_absolute (filter_opt (\<lambda>v. v \<noteq> []) (env name))"

definition directory_base :: "string \<Rightarrow> (string \<Rightarrow> bool) \<Rightarrow> (string \<Rightarrow> string option) \<Rightarrow> string option" where
  "directory_base os is_absolute env =
     (let absolute = absolute_var is_absolute env in
      if os = ''windows'' then absolute ''APPDATA''
      else if os = ''macos'' then
        map_option (\<lambda>home. path_join (path_join home ''Library'') ''Application Support'') (absolute ''HOME'')
      else (case absolute ''XDG_CONFIG_HOME'' of
          Some d \<Rightarrow> Some d
        | None \<Rightarrow> map_option (\<lambda>home. path_join home ''.config'') (absolute ''HOME'')))"

definition config_directory :: "string \<Rightarrow> (string \<Rightarrow> bool) \<Rightarrow> (string \<Rightarrow> string option) \<Rightarrow> failure + string" where
  "config_directory os is_absolute env =
     (case absolute_var is_absolute env ''ORBIT_CONFIG_DIR'' of
        Some dir \<Rightarrow> Inr dir
      | None \<Rightarrow> ok_or (Other ''cannot find your configuration directory; set ORBIT_CONFIG_DIR'')
          (map_option (\<lambda>base. path_join base (if os = ''windows'' then ''Orbit'' else ''orbit''))
             (directory_base os is_absolute env)))"

subsection \<open>The credentials file\<close>

text \<open>What the path of the file leads to, without following a link: nothing, an error, something
  else than a file, or a file with its mode (on Unix only) and its bytes or a read error.\<close>

datatype credentials_file =
    Missing
  | Unreadable string
  | Irregular
  | Regular "32 word option" "string + string"

definition octal_digit :: "nat \<Rightarrow> char" where "octal_digit n = char_of (48 + n)"

definition octal3 :: "nat \<Rightarrow> string" where
  "octal3 m = [octal_digit (m div 64), octal_digit (m div 8 mod 8), octal_digit (m mod 8)]"

definition quoted :: "string \<Rightarrow> string" where "quoted s = [CHR 0x60] @ s @ [CHR 0x60]"

definition check_private :: "string \<Rightarrow> 32 word option \<Rightarrow> failure + unit" where
  "check_private path file_mode = (case file_mode of
       None \<Rightarrow> Inr ()
     | Some bits \<Rightarrow>
        (let m = bits AND 0x1FF in
         ensure (Other (path @ '' is accessible by other users (mode '' @ octal3 (unat m)
             @ ''); run '' @ quoted (''chmod 600 '' @ path)))
           (m AND 0x3F = 0)))"

definition load_profiles :: "cli_libs \<Rightarrow> string \<Rightarrow> credentials_file \<Rightarrow> failure + profiles" where
  "load_profiles X dir file =
     (let path = path_join dir FILE_NAME in
      case file of
        Missing \<Rightarrow> Inr []
      | Unreadable m \<Rightarrow> Inl (shown_failure path m)
      | Irregular \<Rightarrow> Inl (Other (path @ '' is not a regular file''))
      | Regular file_mode content \<Rightarrow>
          rbind (check_private path file_mode) (\<lambda>_.
          rbind (shown_err path content) (\<lambda>bytes.
            ok_or (Other (path @ '' is not a valid credentials file'')) (de_store X bytes))))"

text \<open>The system calls of a save: an error message where one fails.\<close>

record save_calls =
  sv_unix :: bool                   \<comment> \<open>whether new files have a mode\<close>
  sv_dir :: "string option"
  sv_remove :: "string option"      \<comment> \<open>other than that there is no file\<close>
  sv_random :: "string option"
  sv_write :: "string option"       \<comment> \<open>creating, writing and syncing the new file\<close>
  sv_rename :: "string option"

definition worked :: "string \<Rightarrow> string option \<Rightarrow> failure + unit" where
  "worked path m = (case m of None \<Rightarrow> Inr () | Some e \<Rightarrow> Inl (shown_failure path e))"

definition save_profiles ::
    "cli_libs \<Rightarrow> save_calls \<Rightarrow> string \<Rightarrow> profiles \<Rightarrow> credentials_file \<Rightarrow> credentials_file \<times> (failure + unit)" where
  "save_profiles X k dir ps file =
     (let path = path_join dir FILE_NAME in
      case worked dir (sv_dir k) of
        Inl e \<Rightarrow> (file, Inl e)
      | Inr _ \<Rightarrow>
          if ps = [] then
            (case worked path (sv_remove k) of Inl e \<Rightarrow> (file, Inl e) | Inr _ \<Rightarrow> (Missing, Inr ()))
          else (case store_text X ps of
              None \<Rightarrow> (file, Inl (Other ''cannot encode credentials''))
            | Some text \<Rightarrow>
               (case rbind (random_hex (sv_random k)) (\<lambda>_.
                     rbind (worked path (sv_write k)) (\<lambda>_. worked path (sv_rename k))) of
                  Inl e \<Rightarrow> (file, Inl e)
                | Inr _ \<Rightarrow> (Regular (if sv_unix k then Some 0x180 else None) (Inr (text @ newline)), Inr ()))))"

definition insert_profile :: "string \<Rightarrow> profile \<Rightarrow> profiles \<Rightarrow> profiles" where
  "insert_profile name p ps = sort_key fst ((name, p) # filter (\<lambda>(k, q). k \<noteq> name) ps)"

definition remove_profile :: "string \<Rightarrow> profiles \<Rightarrow> profiles" where
  "remove_profile name ps = filter (\<lambda>(k, q). k \<noteq> name) ps"

end
