(* ===== verification/Invocation.thy ===== *)
theory Invocation
  imports Profiles Addresses
begin

text \<open>
  One invocation of the command line tool (\<open>cli/src/app.rs\<close>, \<open>cli/src/api.rs\<close>): settings from
  flags, the environment and the saved profile, the requests to the management API, output, and the
  report of a failure.  An action changes the state of the invocation, which records what was
  written, every request sent, the idempotency key used and the credentials file.
\<close>

subsection \<open>Settings, requests and state\<close>

record global =
  gl_profile :: "string option"
  gl_api_url :: "string option"
  gl_application_id :: "string option"
  gl_environment_id :: "string option"
  gl_json :: bool
  gl_idempotency_key :: "string option"

datatype http_method = Get | Post | Patch | Delete

text \<open>A connection, and a request: its path below the base is \<open>api/management/v1\<close> and the segments,
  each of them percent-encoded by the URL library.\<close>

record api =
  ap_base :: url
  ap_token :: string
  ap_application_id :: string
  ap_environment_id :: string

record request =
  rq_api :: api
  rq_method :: http_method
  rq_segments :: "string list"
  rq_query :: "(string \<times> string) list"
  rq_body :: "json option"

datatype http = NoReply string | Reply nat string

text \<open>What the invocation meets outside.  Requests are numbered.\<close>

record machine =
  mc_libs :: cli_libs
  mc_global :: global
  mc_env :: "string \<Rightarrow> string option"
  mc_os :: string
  mc_absolute :: "string \<Rightarrow> bool"
  mc_development :: bool                 \<comment> \<open>a test or development build\<close>
  mc_start :: "string option"            \<comment> \<open>why the HTTPS client cannot start\<close>
  mc_send :: "nat \<Rightarrow> request \<Rightarrow> http"
  mc_random :: "string option"
  mc_terminal :: bool
  mc_line :: "string + string"           \<comment> \<open>the line read from the standard input or the prompt\<close>
  mc_output :: "string option"           \<comment> \<open>why writing output fails\<close>
  mc_file :: "string \<Rightarrow> file_view"       \<comment> \<open>files that a command digests\<close>
  mc_text :: "string \<Rightarrow> string + string"  \<comment> \<open>files that a command reads whole\<close>
  mc_exists :: "string \<Rightarrow> bool"
  mc_create :: "string \<Rightarrow> string option"  \<comment> \<open>why creating and writing a new file fails\<close>
  mc_save :: save_calls

record run_state =
  rs_out :: string
  rs_err :: string
  rs_key :: "string option"
  rs_requests :: "request list"
  rs_profiles :: credentials_file
  rs_created :: "(string \<times> string) list"

type_synonym 'a cmd = "run_state \<Rightarrow> run_state \<times> (failure + 'a)"

definition cbind :: "'a cmd \<Rightarrow> ('a \<Rightarrow> 'b cmd) \<Rightarrow> 'b cmd" where
  "cbind m k s = (case m s of (s1, Inl e) \<Rightarrow> (s1, Inl e) | (s1, Inr x) \<Rightarrow> k x s1)"

definition cof :: "failure + 'a \<Rightarrow> 'a cmd" where "cof r s = (s, r)"
definition cgets :: "(run_state \<Rightarrow> 'a) \<Rightarrow> 'a cmd" where "cgets f s = (s, Inr (f s))"

definition writing :: "machine \<Rightarrow> (run_state \<Rightarrow> run_state) \<Rightarrow> unit cmd" where
  "writing w f s = (case mc_output w of None \<Rightarrow> (f s, Inr ()) | Some m \<Rightarrow> (s, Inl (Other m)))"

definition write_out :: "machine \<Rightarrow> string \<Rightarrow> unit cmd" where
  "write_out w text = writing w (\<lambda>s. s\<lparr>rs_out := rs_out s @ text\<rparr>)"

definition write_err :: "machine \<Rightarrow> string \<Rightarrow> unit cmd" where
  "write_err w text = writing w (\<lambda>s. s\<lparr>rs_err := rs_err s @ text\<rparr>)"

subsection \<open>The management API\<close>

definition DEFAULT_URL :: string where "DEFAULT_URL = ''https://orbit.mayvie.dev''"

definition loopback_host :: "string \<Rightarrow> bool" where
  "loopback_host host \<longleftrightarrow> host = ''localhost''
     \<or> some_and is_loopback (parse_ip (rev (dropWhile (\<lambda>c. c = CHR '']'') (rev (dropWhile (\<lambda>c. c = CHR ''['') host)))))"

definition invalid_url :: "string \<Rightarrow> string \<Rightarrow> failure" where
  "invalid_url v why = Usage (''invalid API URL '' @ quoted v @ '': '' @ why)"

text \<open>\<open>cannot_be_a_base\<close> is an argument, next to the URL parser.\<close>

definition base_url :: "('x) external_scheme \<Rightarrow> (url \<Rightarrow> bool) \<Rightarrow> bool \<Rightarrow> string \<Rightarrow> failure + url" where
  "base_url X opaque_url development v =
     rbind (ok_or (invalid_url v ''not a URL'') (url_parse X v)) (\<lambda>u.
     let http_allowed = (development \<and> some_and loopback_host (url_host u)) in
     rbind (ensure (invalid_url v ''use https://'')
        (url_scheme u = ''https'' \<or> url_scheme u = ''http'' \<and> http_allowed)) (\<lambda>_.
     rbind (ensure (invalid_url v ''remove credentials, query and fragment'')
        (\<not> (url_username u \<noteq> [] \<or> url_password u \<noteq> None \<or> url_query u \<noteq> None \<or> url_fragment u \<noteq> None
          \<or> opaque_url u))) (\<lambda>_.
       Inr u)))"

text \<open>The bytes a header value may have.\<close>

definition header_text :: "string \<Rightarrow> bool" where
  "header_text s \<longleftrightarrow> list_all (\<lambda>c. (32 \<le> byte c \<and> byte c \<noteq> 127) \<or> byte c = 9) s"

definition api_new :: "machine \<Rightarrow> url \<Rightarrow> string \<Rightarrow> string \<Rightarrow> string \<Rightarrow> failure + api" where
  "api_new w base token application environment =
     rbind (case mc_start w of None \<Rightarrow> Inr () | Some m \<Rightarrow> Inl (Other m)) (\<lambda>_.
     rbind (ensure (Usage ''the management token is malformed'') (header_text (''Bearer '' @ token))) (\<lambda>_.
       Inr \<lparr>ap_base = base, ap_token = token, ap_application_id = application,
            ap_environment_id = environment\<rparr>))"

definition scope_query :: "api \<Rightarrow> (string \<times> string) list" where
  "scope_query a = [(''application_id'', ap_application_id a), (''environment_id'', ap_environment_id a)]"

definition error_field :: "json option \<Rightarrow> string \<Rightarrow> string option" where
  "error_field v name = Option.bind v (\<lambda>v. as_str (json_index (json_index v ''error'') name))"

definition api_error :: "('x) external_scheme \<Rightarrow> nat \<Rightarrow> string \<Rightarrow> failure" where
  "api_error X status body =
     (let v = read_value X body in
      Api status (or_else (error_field v ''code'') (''http_'' @ decimal status))
        (or_else (error_field v ''message'') ''request failed'') (error_field v ''request_id''))"

definition success :: "nat \<Rightarrow> bool" where "success status \<longleftrightarrow> 200 \<le> status \<and> status < 300"

definition send ::
    "machine \<Rightarrow> api \<Rightarrow> http_method \<Rightarrow> string list \<Rightarrow> (string \<times> string) list \<Rightarrow> json option \<Rightarrow> string cmd" where
  "send w a m segments query body s =
     (let r = \<lparr>rq_api = a, rq_method = m, rq_segments = segments, rq_query = scope_query a @ query, rq_body = body\<rparr>;
          s1 = s\<lparr>rs_requests := rs_requests s @ [r]\<rparr>
      in (s1, case mc_send w (length (rs_requests s)) r of
           NoReply message \<Rightarrow> Inl (Transport message)
         | Reply status reply \<Rightarrow> if success status then Inr reply else Inl (api_error (mc_libs w) status reply)))"

definition api_get where "api_get w a segments query = send w a Get segments query None"
definition api_post where "api_post w a segments body = send w a Post segments [] (Some body)"

definition response_json :: "('x) external_scheme \<Rightarrow> string \<Rightarrow> failure + json" where
  "response_json X body = ok_or (Other ''the API returned an unreadable response'') (read_value X body)"

subsection \<open>The context\<close>

definition setting :: "machine \<Rightarrow> string option \<Rightarrow> string \<Rightarrow> string option" where
  "setting w flag name = filter_opt (\<lambda>v. v \<noteq> []) (case flag of Some v \<Rightarrow> Some v | None \<Rightarrow> mc_env w name)"

definition profile_name :: "machine \<Rightarrow> failure + string" where
  "profile_name w =
     (let name = or_else (setting w (gl_profile (mc_global w)) ''ORBIT_PROFILE'') ''default'' in
      rbind (ensure (Usage (''invalid profile name '' @ quoted name @ ''; use letters, digits, '' @ quoted ''-''
          @ '' and '' @ quoted ''_'')) (valid_profile_name name)) (\<lambda>_. Inr name))"

definition application_setting where
  "application_setting w = setting w (gl_application_id (mc_global w)) ''ORBIT_APPLICATION_ID''"
definition environment_setting where
  "environment_setting w = setting w (gl_environment_id (mc_global w)) ''ORBIT_ENVIRONMENT_ID''"
definition url_setting where "url_setting w = setting w (gl_api_url (mc_global w)) ''ORBIT_API_URL''"
definition env_token where "env_token w = filter_opt (\<lambda>v. v \<noteq> []) (mc_env w ''ORBIT_MANAGEMENT_TOKEN'')"

definition saved_profile :: "machine \<Rightarrow> string \<Rightarrow> credentials_file \<Rightarrow> failure + profile option" where
  "saved_profile w name file =
     rbind (config_directory (mc_os w) (mc_absolute w) (mc_env w)) (\<lambda>dir.
     rbind (load_profiles (mc_libs w) dir file) (\<lambda>ps. Inr (map_of ps name)))"

text \<open>The token: the environment's, or the saved profile's; a malformed one is an error and never
  replaced by the other.\<close>

definition choose_token :: "string \<Rightarrow> string option \<Rightarrow> profile option \<Rightarrow> failure + string" where
  "choose_token name token saved =
     (case (token, saved) of
        (Some t, _) \<Rightarrow> if valid_token t then Inr t
          else Inl (Usage ''ORBIT_MANAGEMENT_TOKEN is not an Orbit management token'')
      | (None, Some p) \<Rightarrow> if valid_token (pl_token p) then Inr (pl_token p)
          else Inl (Usage (''the saved token for profile '' @ quoted name @ '' is malformed; run ''
            @ quoted ''orbit credentials set''))
      | (None, None) \<Rightarrow> Inl (Usage (''no management token for profile '' @ quoted name @ ''; run ''
            @ quoted ''orbit credentials set'' @ '' or set ORBIT_MANAGEMENT_TOKEN'')))"

definition missing :: "string \<Rightarrow> string \<Rightarrow> failure" where
  "missing what flag = Usage (''no '' @ what @ ''; pass '' @ flag @ '' or save it with '' @ quoted ''orbit credentials set'')"

definition first_some :: "'a option \<Rightarrow> 'a option \<Rightarrow> 'a option" where
  "first_some x y = (case x of Some v \<Rightarrow> Some v | None \<Rightarrow> y)"

definition connection :: "(url \<Rightarrow> bool) \<Rightarrow> machine \<Rightarrow> credentials_file \<Rightarrow> failure + api" where
  "connection opaque_url w file =
     rbind (profile_name w) (\<lambda>name.
     let token = env_token w; application = application_setting w; environment = environment_setting w in
     rbind (if token = None \<or> application = None \<or> environment = None then saved_profile w name file
            else Inr None) (\<lambda>saved.
     rbind (choose_token name token saved) (\<lambda>token.
     rbind (ok_or (missing ''application ID'' ''--application-id'')
        (first_some application (map_option pl_application_id saved))) (\<lambda>application.
     rbind (ok_or (missing ''environment ID'' ''--environment-id'')
        (first_some environment (map_option pl_environment_id saved))) (\<lambda>environment.
     let u = or_else (first_some (url_setting w) (Option.bind saved pl_api_url)) DEFAULT_URL in
     rbind (base_url (mc_libs w) opaque_url (mc_development w) u) (\<lambda>base.
       api_new w base token application environment))))))"

definition connect :: "(url \<Rightarrow> bool) \<Rightarrow> machine \<Rightarrow> api cmd" where
  "connect opaque_url w = cbind (cgets rs_profiles) (\<lambda>file. cof (connection opaque_url w file))"

text \<open>The idempotency key of the operation: the flag's or a new one; the state remembers it.\<close>

definition chosen_key :: "machine \<Rightarrow> failure + string" where
  "chosen_key w = (case gl_idempotency_key (mc_global w) of
       Some k \<Rightarrow> if valid_idempotency_key k then Inr k
         else Inl (Usage ''--idempotency-key must be 16 to 128 printable ASCII characters'')
     | None \<Rightarrow> fresh_idempotency_key (mc_random w))"

definition operation_key :: "machine \<Rightarrow> string cmd" where
  "operation_key w = cbind (cof (chosen_key w)) (\<lambda>k s. (s\<lparr>rs_key := Some k\<rparr>, Inr k))"

definition emit :: "machine \<Rightarrow> string \<Rightarrow> (json \<Rightarrow> string) \<Rightarrow> unit cmd" where
  "emit w body render =
     (if gl_json (mc_global w)
      then write_out w (body @ (if ends_with body newline then [] else newline))
      else cbind (cof (response_json (mc_libs w) body)) (\<lambda>v. write_out w (render v)))"

definition done_message :: "machine \<Rightarrow> string \<Rightarrow> unit cmd" where
  "done_message w message = (if gl_json (mc_global w) then cof (Inr ()) else write_out w (message @ newline))"

subsection \<open>The exit status and the report\<close>

fun failure_text :: "('x) cli_external_scheme \<Rightarrow> failure \<Rightarrow> string" where
  "failure_text X (Usage m) = ''orbit: '' @ m @ newline"
| "failure_text X (Api status code message request_id) =
     ''orbit: '' @ cell X (JStr code) @ '': '' @ cell X (JStr message) @ '' (HTTP '' @ decimal status
       @ (case request_id of None \<Rightarrow> [] | Some i \<Rightarrow> '', request '' @ cell X (JStr i)) @ '')'' @ newline"
| "failure_text X (Transport m) = ''orbit: cannot reach Orbit: '' @ m @ newline"
| "failure_text X (Other m) = ''orbit: '' @ m @ newline"

fun exit_status :: "failure \<Rightarrow> nat" where
  "exit_status (Usage m) = 2"
| "exit_status _ = 1"

text \<open>Whether the service may have applied the change.\<close>

fun may_have_applied :: "failure \<Rightarrow> bool" where
  "may_have_applied (Api status _ _ _) = (status \<ge> 500 \<or> status = 429)"
| "may_have_applied (Transport m) = True"
| "may_have_applied _ = False"

definition retry_hint :: "failure \<Rightarrow> string option \<Rightarrow> string" where
  "retry_hint e key = (case key of
       Some k \<Rightarrow> if may_have_applied e
         then ''orbit: the change may have been applied; repeat the command with --idempotency-key '' @ k @ newline
         else []
     | None \<Rightarrow> [])"

definition report :: "machine \<Rightarrow> run_state \<times> (failure + unit) \<Rightarrow> run_state \<times> nat" where
  "report w r = (case r of
       (s, Inr _) \<Rightarrow> (s, 0)
     | (s, Inl e) \<Rightarrow>
         (s\<lparr>rs_err := rs_err s @ failure_text (mc_libs w) e @ retry_hint e (rs_key s)\<rparr>, exit_status e))"

end
