(* ===== verification/Policies.thy ===== *)
theory Policies
  imports Invocation
begin

text \<open>
  Policies (\<open>cli/src/policies.rs\<close>): the terms that the flags change, creating a policy from defaults
  or from another, and moving licences to a policy after a preview and a confirmation.
\<close>

definition POLICY_FIELDS :: "string list" where
  "POLICY_FIELDS = [''id'', ''name'', ''version'', ''expiry_mode'', ''duration_seconds'', ''fixed_expires_at'',
     ''device_limit'', ''hwid_locked'', ''offline_allowed'', ''offline_seconds'', ''offline_file_seconds'',
     ''concurrent_session_limit'', ''entitlements'', ''usage_limits'', ''resource_limits'', ''created_at'']"

definition TERMS :: "string list" where
  "TERMS = [''name'', ''expiry_mode'', ''duration_seconds'', ''fixed_expires_at'', ''device_limit'', ''hwid_locked'',
     ''offline_allowed'', ''offline_seconds'', ''offline_file_seconds'', ''concurrent_session_limit'',
     ''usage_limits'', ''resource_limits'', ''entitlements'']"

definition CHANGED_TERMS :: "string list" where
  "CHANGED_TERMS = [''expires_at'', ''duration_seconds'', ''device_limit'', ''hwid_locked'', ''entitlements'',
     ''concurrent_session_limit'', ''offline_allowed'']"

definition BATCH :: nat where "BATCH = 100"

subsection \<open>Terms\<close>

datatype expiry = Perpetual | Fixed | FirstActivation

fun expiry_name :: "expiry \<Rightarrow> string" where
  "expiry_name Perpetual = ''perpetual''"
| "expiry_name Fixed = ''fixed''"
| "expiry_name FirstActivation = ''first_activation''"

record policy_terms =
  pt_from :: "string option"
  pt_name :: "string option"
  pt_expiry :: "expiry option"
  pt_duration :: "string option"
  pt_expires_at :: "string option"
  pt_device_limit :: "int option"
  pt_hwid_locked :: "bool option"
  pt_offline :: "bool option"
  pt_offline_allowance :: "string option"
  pt_offline_file_allowance :: "string option"
  pt_concurrent_sessions :: "int option"
  pt_entitlement :: "string list"
  pt_remove_entitlement :: "string list"

definition entitlement :: "string \<Rightarrow> failure + (string \<times> bool)" where
  "entitlement v =
     rbind (case split_once CHR ''='' v of
         None \<Rightarrow> Inr (v, True)
       | Some (name, on) \<Rightarrow> if on = ''true'' then Inr (name, True) else if on = ''false'' then Inr (name, False)
           else Inl (Usage (''invalid entitlement '' @ quoted v @ ''; use NAME, NAME=true or NAME=false'')))
       (\<lambda>(name, on).
     rbind (ensure (Usage ''entitlement names cannot be empty'') (name \<noteq> [])) (\<lambda>_. Inr (name, on)))"

fun each :: "('a \<Rightarrow> 'e + 'b) \<Rightarrow> 'a list \<Rightarrow> 'e + 'b list" where
  "each f [] = Inr []"
| "each f (x # xs) = rbind (f x) (\<lambda>y. rbind (each f xs) (\<lambda>ys. Inr (y # ys)))"

record changes =
  ch_fields :: "(string \<times> json) list"
  ch_add :: "(string \<times> bool) list"
  ch_remove :: "string list"

definition one_field :: "string \<Rightarrow> 'a option \<Rightarrow> ('a \<Rightarrow> json) \<Rightarrow> (string \<times> json) list" where
  "one_field name x f = (case x of None \<Rightarrow> [] | Some v \<Rightarrow> [(name, f v)])"

definition seconds_field :: "string \<Rightarrow> string option \<Rightarrow> failure + (string \<times> json) list" where
  "seconds_field name x = (case x of None \<Rightarrow> Inr []
     | Some v \<Rightarrow> rbind (duration_seconds v) (\<lambda>n. Inr [(name, JInt n)]))"

definition expiry_fields :: "expiry option \<Rightarrow> (string \<times> json) list" where
  "expiry_fields x = (case x of None \<Rightarrow> []
     | Some e \<Rightarrow> [(''expiry_mode'', JStr (expiry_name e))]
         @ (if e \<noteq> FirstActivation then [(''duration_seconds'', JNull)] else [])
         @ (if e \<noteq> Fixed then [(''fixed_expires_at'', JNull)] else []))"

definition offline_fields :: "bool option \<Rightarrow> (string \<times> json) list" where
  "offline_fields x = (case x of None \<Rightarrow> []
     | Some on \<Rightarrow> [(''offline_allowed'', JBool on)] @ (if on then [] else [(''offline_seconds'', JInt 0)]))"

definition file_allowance :: "string option \<Rightarrow> failure + (string \<times> json) list" where
  "file_allowance x = (case x of None \<Rightarrow> Inr []
     | Some v \<Rightarrow> rbind (if v = ''0'' then Inr 0 else duration_seconds v) (\<lambda>n. Inr [(''offline_file_seconds'', JInt n)]))"

definition policy_changes :: "policy_terms \<Rightarrow> failure + changes" where
  "policy_changes p =
     rbind (seconds_field ''duration_seconds'' (pt_duration p)) (\<lambda>duration.
     rbind (seconds_field ''offline_seconds'' (pt_offline_allowance p)) (\<lambda>allowance.
     rbind (file_allowance (pt_offline_file_allowance p)) (\<lambda>files.
     rbind (each entitlement (pt_entitlement p)) (\<lambda>add.
     rbind (case find (\<lambda>(n, on). n \<in> set (pt_remove_entitlement p)) add of
         Some (n, _) \<Rightarrow> Inl (Usage (quoted n @ '' is both added and removed'')) | None \<Rightarrow> Inr ()) (\<lambda>_.
       Inr \<lparr>ch_fields = one_field ''name'' (pt_name p) JStr
              @ expiry_fields (pt_expiry p)
              @ duration
              @ one_field ''fixed_expires_at'' (pt_expires_at p) JStr
              @ one_field ''device_limit'' (pt_device_limit p) JInt
              @ one_field ''hwid_locked'' (pt_hwid_locked p) JBool
              @ offline_fields (pt_offline p)
              @ allowance
              @ files
              @ one_field ''concurrent_session_limit'' (pt_concurrent_sessions p) JInt,
            ch_add = add, ch_remove = pt_remove_entitlement p\<rparr>)))))"

definition insert_all :: "(string \<times> json) list \<Rightarrow> (string \<times> json) list \<Rightarrow> (string \<times> json) list" where
  "insert_all added m = fold (\<lambda>(k, v). map_insert k v) added m"

fun remove_all :: "string list \<Rightarrow> (string \<times> json) list \<Rightarrow> failure + (string \<times> json) list" where
  "remove_all [] m = Inr m"
| "remove_all (name # rest) m =
     (if contains_key m name then remove_all rest (map_remove name m)
      else Inl (Usage (''the policy has no entitlement '' @ quoted name @ '' to remove'')))"

definition apply_changes :: "changes \<Rightarrow> (string \<times> json) list \<Rightarrow> failure + (string \<times> json) list" where
  "apply_changes c m0 =
     (let m = insert_all (ch_fields c) m0;
          entitlements = or_else (Option.bind (map_of m ''entitlements'') as_object) [] in
      rbind (remove_all (ch_remove c) entitlements) (\<lambda>kept.
        Inr (map_insert ''entitlements''
          (JObj (insert_all (map (\<lambda>(n, on). (n, JBool on)) (ch_add c)) kept)) m)))"

definition missing_flags :: "policy_terms \<Rightarrow> string list" where
  "missing_flags p = map fst (filter snd
     [(''--name'', pt_name p = None), (''--expiry'', pt_expiry p = None),
      (''--device-limit'', pt_device_limit p = None), (''--hwid-locked'', pt_hwid_locked p = None)])"

definition default_terms :: "(string \<times> json) list" where
  "default_terms = sort_key fst
     [(''duration_seconds'', JNull), (''fixed_expires_at'', JNull), (''offline_allowed'', JBool False),
      (''offline_seconds'', JInt 0), (''offline_file_seconds'', JInt 0), (''concurrent_session_limit'', JInt 0),
      (''usage_limits'', JObj []), (''resource_limits'', JObj []), (''entitlements'', JObj [])]"

definition copied_terms :: "json \<Rightarrow> (string \<times> json) list" where
  "copied_terms policy = sort_key fst (map (\<lambda>name. (name, json_index policy name)) TERMS)"

definition source_terms :: "machine \<Rightarrow> api \<Rightarrow> string option \<Rightarrow> (string \<times> json) list cmd" where
  "source_terms w a from_id = (case from_id of
       None \<Rightarrow> cof (Inr default_terms)
     | Some i \<Rightarrow>
        cbind (api_get w a [''policies''] []) (\<lambda>reply.
        cbind (cof (response_json (mc_libs w) reply)) (\<lambda>v.
          cof (ok_or (Other (''policy '' @ quoted i @ '' is not one of this environment's 100 most recent policy versions''))
            (map_option copied_terms (find (\<lambda>p. json_index p ''id'' = JStr i) (json_items v)))))))"

definition create_policy :: "(url \<Rightarrow> bool) \<Rightarrow> machine \<Rightarrow> policy_terms \<Rightarrow> unit cmd" where
  "create_policy B w p =
     cbind (cof (ensure (Usage (''pass '' @ join_with '', '' (missing_flags p)
         @ '', or start from an existing policy with --from''))
        (pt_from p \<noteq> None \<or> missing_flags p = []))) (\<lambda>_.
     cbind (cof (policy_changes p)) (\<lambda>c.
     cbind (connect B w) (\<lambda>a.
     cbind (source_terms w a (pt_from p)) (\<lambda>m.
     cbind (cof (apply_changes c m)) (\<lambda>terms.
     cbind (api_post w a [''policies''] (JObj terms)) (\<lambda>reply.
       emit w reply (\<lambda>v. field_lines (mc_libs w) v POLICY_FIELDS)))))))"

definition list_policies :: "(url \<Rightarrow> bool) \<Rightarrow> machine \<Rightarrow> unit cmd" where
  "list_policies B w =
     cbind (connect B w) (\<lambda>a.
     cbind (api_get w a [''policies''] []) (\<lambda>reply.
       emit w reply (\<lambda>v. table (mc_libs w) [''id'', ''name'', ''version'', ''expiry_mode'', ''device_limit''] (json_items v))))"

subsection \<open>Moving licences\<close>

definition page_items :: "json \<Rightarrow> json list" where
  "page_items page = json_items (json_index page ''items'')"

definition merged :: "json list \<Rightarrow> json" where
  "merged pages =
     (let first = (case pages of [] \<Rightarrow> JObj [] | p # _ \<Rightarrow> p) in
      json_object [(''policy_id'', json_index first ''policy_id''), (''policy_name'', json_index first ''policy_name''),
        (''policy_version'', json_index first ''policy_version''), (''items'', JArr (concat (map page_items pages)))])"

definition policy_label :: "('x) cli_external_scheme \<Rightarrow> json \<Rightarrow> json \<Rightarrow> string" where
  "policy_label X name version = cell X name @ '' version '' @ cell X version"

definition shown_term :: "('x) cli_external_scheme \<Rightarrow> json \<Rightarrow> string" where
  "shown_term X v = (let t = cell X v in if t = [] then ''none'' else t)"

definition preview_term :: "('x) cli_external_scheme \<Rightarrow> nat \<Rightarrow> json \<Rightarrow> string \<Rightarrow> string" where
  "preview_term X width item name =
     (let before = json_index item (''previous_'' @ name); after = json_index item name in
      ''  '' @ pad width name @ ''  ''
        @ (if before = after then shown_term X after else shown_term X before @ '' -> '' @ shown_term X after)
        @ newline)"

definition preview_item :: "('x) cli_external_scheme \<Rightarrow> string \<Rightarrow> json \<Rightarrow> string" where
  "preview_item X target item =
     (let i = cell X (json_index item ''licence_id'');
          width = fold max (map length CHANGED_TERMS) 0 in
      if json_index item ''changed'' = JBool False then i @ '': already on '' @ target @ newline
      else i @ '': '' @ policy_label X (json_index item ''previous_policy_name'') (json_index item ''previous_policy_version'')
        @ '' -> '' @ target @ newline @ concat (map (preview_term X width item) CHANGED_TERMS))"

definition render_preview :: "('x) cli_external_scheme \<Rightarrow> json \<Rightarrow> string" where
  "render_preview X preview =
     (let target = policy_label X (json_index preview ''policy_name'') (json_index preview ''policy_version'') in
      concat (map (preview_item X target) (page_items preview)))"

fun distinct_ids :: "string list \<Rightarrow> string list \<Rightarrow> string list" where
  "distinct_ids acc [] = acc"
| "distinct_ids acc (i # rest) = distinct_ids (if i \<in> set acc then acc else acc @ [i]) rest"

function chunks :: "nat \<Rightarrow> 'a list \<Rightarrow> 'a list list" where
  "chunks n xs = (if xs = [] \<or> n = 0 then [] else take n xs # chunks n (drop n xs))"
  by pat_completeness auto
termination by (relation "measure (length \<circ> snd)") auto

declare chunks.simps [simp del]

definition preview_body :: "string \<Rightarrow> string list \<Rightarrow> json" where
  "preview_body policy batch = json_object [(''licence_ids'', JArr (map JStr batch)), (''policy_id'', JStr policy)]"

fun preview_all :: "machine \<Rightarrow> api \<Rightarrow> string \<Rightarrow> string list list \<Rightarrow> json list cmd" where
  "preview_all w a policy [] = cof (Inr [])"
| "preview_all w a policy (batch # rest) =
     cbind (api_post w a [''licences'', ''policy-changes'', ''preview''] (preview_body policy batch)) (\<lambda>reply.
     cbind (cof (response_json (mc_libs w) reply)) (\<lambda>v.
     cbind (preview_all w a policy rest) (\<lambda>vs. cof (Inr (v # vs)))))"

definition pending_of :: "json \<Rightarrow> json list" where
  "pending_of preview =
     map (\<lambda>item. json_object [(''id'', json_index item ''licence_id''), (''revision'', json_index item ''revision'')])
       (filter (\<lambda>item. json_index item ''changed'' \<noteq> JBool False) (page_items preview))"

definition change_body :: "string \<Rightarrow> string \<Rightarrow> json list \<Rightarrow> json" where
  "change_body policy reason batch =
     json_object [(''licences'', JArr batch), (''policy_id'', JStr policy), (''reason'', JStr reason)]"

definition moved_before :: "('x) cli_external_scheme \<Rightarrow> string \<Rightarrow> json list \<Rightarrow> string" where
  "moved_before X target results =
     ''orbit: '' @ decimal (length (concat (map page_items results))) @ '' licence(s) moved to '' @ target
       @ '' before this failure'' @ newline"

text \<open>The batches in turn; a failure after some licences moved is reported with their number.\<close>

fun apply_all ::
    "machine \<Rightarrow> api \<Rightarrow> string \<Rightarrow> string \<Rightarrow> string \<Rightarrow> json list \<Rightarrow> json list list \<Rightarrow> json list cmd" where
  "apply_all w a policy reason target results [] = cof (Inr results)"
| "apply_all w a policy reason target results (batch # rest) = (\<lambda>s.
     case api_post w a [''licences'', ''policy-changes''] (change_body policy reason batch) s of
       (s1, Inl e) \<Rightarrow>
         if concat (map page_items results) \<noteq> []
         then cbind (write_err w (moved_before (mc_libs w) target results)) (\<lambda>_. cof (Inl e)) s1
         else (s1, Inl e)
     | (s1, Inr reply) \<Rightarrow>
         cbind (cof (response_json (mc_libs w) reply)) (\<lambda>v.
           apply_all w a policy reason target (results @ [v]) rest) s1)"

definition lower :: "string \<Rightarrow> string" where "lower s = map to_lower s"

definition confirm :: "machine \<Rightarrow> bool \<Rightarrow> nat \<Rightarrow> string \<Rightarrow> unit cmd" where
  "confirm w yes count target =
     (if yes then cof (Inr ())
      else cbind (cof (ensure (Usage ''no licences changed; add --yes to apply without a prompt'') (mc_terminal w))) (\<lambda>_.
       cbind (write_err w (''Move '' @ decimal count @ '' licence(s) to '' @ target @ ''? [y/N] '')) (\<lambda>_.
       cbind (cof (case mc_line w of Inl m \<Rightarrow> Inl (Other m) | Inr l \<Rightarrow> Inr l)) (\<lambda>answer.
         cof (ensure (Other ''cancelled; no licences changed'') (lower (trim answer) \<in> {''y'', ''yes''}))))))"

definition json_text_line :: "machine \<Rightarrow> json \<Rightarrow> string" where
  "json_text_line w v = json_text (mc_libs w) v @ newline"

text \<open>The part from the question on.\<close>

definition move_licences ::
    "machine \<Rightarrow> api \<Rightarrow> string \<Rightarrow> string \<Rightarrow> bool \<Rightarrow> string \<Rightarrow> json list list \<Rightarrow> unit cmd" where
  "move_licences w a policy reason yes target pending =
     cbind (confirm w yes (length (concat pending)) target) (\<lambda>_.
     cbind (apply_all w a policy reason target [] (filter (\<lambda>b. b \<noteq> []) pending)) (\<lambda>results.
     let result = merged results in
     if gl_json (mc_global w) then write_out w (json_text_line w result)
     else done_message w (''Moved '' @ decimal (length (filter (\<lambda>item. json_index item ''changed'' \<noteq> JBool False)
         (page_items result))) @ '' licence(s) to '' @ target @ ''.'')))"

definition change_policy ::
    "(url \<Rightarrow> bool) \<Rightarrow> machine \<Rightarrow> string \<Rightarrow> string \<Rightarrow> bool \<Rightarrow> string list \<Rightarrow> unit cmd" where
  "change_policy B w policy reason yes licences =
     (let X = mc_libs w; json_output = gl_json (mc_global w);
          ids = distinct_ids [] licences in
     cbind (connect B w) (\<lambda>a.
     cbind (preview_all w a policy (chunks BATCH ids)) (\<lambda>previews.
     let pending = map pending_of previews; count = length (concat pending);
         text = concat (map (render_preview X) previews);
         all = merged previews;
         target = policy_label X (json_index all ''policy_name'') (json_index all ''policy_version'') in
     cbind (if json_output then write_err w text else write_out w text) (\<lambda>_.
     if count = 0 then
       (if json_output then write_out w (json_text_line w all)
        else done_message w (''Every licence is already on '' @ target @ ''.''))
     else move_licences w a policy reason yes target pending))))"

end
