(* ===== verification/Commands.thy ===== *)
theory Commands
  imports Policies
begin

text \<open>
  The commands of the command line tool (\<open>cli/src/licences.rs\<close>, \<open>cli/src/releases.rs\<close>,
  \<open>cli/src/credentials.rs\<close>) and their dispatch (\<open>run\<close> of \<open>cli/src/app.rs\<close>).  The argument parser is
  a library: a command is its parsed value.
\<close>

subsection \<open>Licences\<close>

definition LICENCE_FIELDS :: "string list" where
  "LICENCE_FIELDS = [''id'', ''status'', ''state'', ''policy_name'', ''policy_version'', ''policy_id'', ''key_suffix'',
     ''key_generation'', ''expiry_mode'', ''duration_seconds'', ''first_used_at'', ''expires_at'', ''device_limit'',
     ''hwid_locked'', ''concurrent_session_limit'', ''offline_allowed'', ''entitlements'', ''reference'', ''note'',
     ''customer_id'', ''created_at'', ''transfer_retry_at'']"

datatype search_status = SearchActive | SearchRevoked | SearchAll
datatype session_filter = SessionActive | SessionEnded | SessionExpired

datatype licences_command =
    LicenceList string "search_status option" "string option"
  | LicenceShow string
  | LicenceChangePolicy string string bool "string list"
  | LicenceIssue string int string string
  | LicenceSuspend string string
  | LicenceReinstate string string
  | LicenceRevoke string string bool
  | LicenceExtend string string string
  | LicenceEntitlements string "string list" "string list" string
  | LicenceAnnotate string "string option" "string option" string
  | LicenceDevices string "string option"
  | LicenceResetDevice string string string
  | LicenceReplaceKey string string
  | LicenceSessions string "session_filter option" "nat option" "string option"
  | LicenceEndSession string string string
  | LicenceOfflineFile string string string string

definition licence_lines where "licence_lines X v = field_lines X v LICENCE_FIELDS"

definition key_lines :: "('x) cli_external_scheme \<Rightarrow> json \<Rightarrow> string" where
  "key_lines X v =
     (if json_index v ''secret_replay_expired'' = JBool True
      then ''These keys were returned by the original request and are no longer available.'' @ newline
      else table X [''licence_id'', ''key''] (json_items (json_index v ''keys''))
        @ ''Store these keys now; Orbit does not show them again.'' @ newline)"

definition paged :: "('x) cli_external_scheme \<Rightarrow> string list \<Rightarrow> json \<Rightarrow> string" where
  "paged X columns page = table X columns (page_items page) @ next_page X page"

definition set_status :: "(url \<Rightarrow> bool) \<Rightarrow> machine \<Rightarrow> string \<Rightarrow> string \<Rightarrow> string \<Rightarrow> unit cmd" where
  "set_status B w i status reason =
     cbind (connect B w) (\<lambda>a.
     cbind (api_post w a [''licences'', i, ''status''] (json_object [(''status'', JStr status), (''reason'', JStr reason)])) (\<lambda>reply.
       emit w reply (licence_lines (mc_libs w))))"

fun search_name :: "search_status \<Rightarrow> string" where
  "search_name SearchActive = ''active''" | "search_name SearchRevoked = ''revoked''" | "search_name SearchAll = ''all''"

fun session_name :: "session_filter \<Rightarrow> string" where
  "session_name SessionActive = ''active''" | "session_name SessionEnded = ''ended''"
| "session_name SessionExpired = ''expired''"

definition query_pair :: "string \<Rightarrow> string option \<Rightarrow> (string \<times> string) list" where
  "query_pair name x = (case x of None \<Rightarrow> [] | Some v \<Rightarrow> [(name, v)])"

definition keyed_body :: "machine \<Rightarrow> (string \<times> json) list \<Rightarrow> json cmd" where
  "keyed_body w fs = cbind (operation_key w) (\<lambda>k. cof (Inr (json_object (fs @ [(''idempotency_key'', JStr k)]))))"

definition list_licences :: "(url \<Rightarrow> bool) \<Rightarrow> machine \<Rightarrow> string \<Rightarrow> search_status option \<Rightarrow> string option \<Rightarrow> unit cmd" where
  "list_licences B w query status after =
     (let body = json_object ([(''query'', JStr query)] @ one_field ''status'' status (JStr \<circ> search_name)
          @ one_field ''after'' after JStr) in
     cbind (connect B w) (\<lambda>a.
     cbind (api_post w a [''licences'', ''search''] body) (\<lambda>reply.
       emit w reply (paged (mc_libs w) [''id'', ''key_suffix'', ''policy_name'', ''state'', ''expires_at'', ''reference'']))))"

definition set_entitlements :: "(url \<Rightarrow> bool) \<Rightarrow> machine \<Rightarrow> string \<Rightarrow> string list \<Rightarrow> string list \<Rightarrow> string \<Rightarrow> unit cmd" where
  "set_entitlements B w i enable disable reason =
     cbind (cof (ensure (Usage ''pass --enable or --disable'') (\<not> (enable = [] \<and> disable = [])))) (\<lambda>_.
     cbind (cof (case find (\<lambda>n. n \<in> set disable) enable of
         Some n \<Rightarrow> Inl (Usage (quoted n @ '' is both enabled and disabled'')) | None \<Rightarrow> Inr ())) (\<lambda>_.
     cbind (connect B w) (\<lambda>a.
     cbind (api_get w a [''licences'', i] []) (\<lambda>reply.
     cbind (cof (response_json (mc_libs w) reply)) (\<lambda>current.
     let entitlements = insert_all (map (\<lambda>n. (n, JBool True)) enable @ map (\<lambda>n. (n, JBool False)) disable)
           (or_else (as_object (json_index current ''entitlements'')) []) in
     cbind (api_post w a [''licences'', i, ''entitlements'']
        (json_object [(''entitlements'', JObj entitlements), (''reason'', JStr reason)])) (\<lambda>reply.
       emit w reply (licence_lines (mc_libs w))))))))"

text \<open>The text of a member, or nothing.\<close>

definition kept_text :: "json \<Rightarrow> string \<Rightarrow> string" where
  "kept_text v name = or_else (as_str (json_index v name)) []"

definition annotate :: "(url \<Rightarrow> bool) \<Rightarrow> machine \<Rightarrow> string \<Rightarrow> string option \<Rightarrow> string option \<Rightarrow> string \<Rightarrow> unit cmd" where
  "annotate B w i reference note reason =
     cbind (cof (ensure (Usage ''pass --reference or --note'') (\<not> (reference = None \<and> note = None)))) (\<lambda>_.
     cbind (connect B w) (\<lambda>a.
     cbind (case (reference, note) of
         (Some r, Some n) \<Rightarrow> cof (Inr (r, n))
       | (r, n) \<Rightarrow>
          cbind (api_get w a [''licences'', i] []) (\<lambda>reply.
          cbind (cof (response_json (mc_libs w) reply)) (\<lambda>current.
            cof (Inr (or_else r (kept_text current ''reference''), or_else n (kept_text current ''note'')))))) (\<lambda>(r, n).
     cbind (api_post w a [''licences'', i, ''annotations'']
        (json_object [(''reference'', JStr r), (''note'', JStr n), (''reason'', JStr reason)])) (\<lambda>reply.
       emit w reply (licence_lines (mc_libs w))))))"

definition created :: "machine \<Rightarrow> string \<Rightarrow> string \<Rightarrow> unit cmd" where
  "created w path content s = (case mc_create w path of
       Some m \<Rightarrow> (s, Inl (shown_failure path m))
     | None \<Rightarrow> (s\<lparr>rs_created := rs_created s @ [(path, content)]\<rparr>, Inr ()))"

definition issue_offline_file :: "(url \<Rightarrow> bool) \<Rightarrow> machine \<Rightarrow> string \<Rightarrow> string \<Rightarrow> string \<Rightarrow> string \<Rightarrow> unit cmd" where
  "issue_offline_file B w i request duration output =
     cbind (cof (duration_seconds duration)) (\<lambda>seconds.
     cbind (cof (shown_err request (mc_text w request))) (\<lambda>bytes.
     cbind (cof (ok_or (Usage (request @ '' is not an offline request file'')) (read_value (mc_libs w) bytes))) (\<lambda>v.
     cbind (cof (ensure (Usage (output @ '' already exists'')) (\<not> mc_exists w output))) (\<lambda>_.
     cbind (connect B w) (\<lambda>a.
     cbind (keyed_body w [(''request'', v), (''duration_seconds'', JInt seconds)]) (\<lambda>body.
     cbind (api_post w a [''licences'', i, ''offline-files''] body) (\<lambda>reply.
     cbind (cof (response_json (mc_libs w) reply)) (\<lambda>issued.
     cbind (cof (ok_or (Other ''the API response has no file'') (as_str (json_index issued ''file'')))) (\<lambda>file.
     cbind (created w output file) (\<lambda>_.
       emit w reply (\<lambda>v. field_lines (mc_libs w) v
         [''issuance_id'', ''activation_id'', ''installation_id'', ''sequence'', ''issued_at'', ''expires_at'']
         @ ''Wrote '' @ output @ ''.'' @ newline)))))))))))"

definition keyed_post ::
    "(url \<Rightarrow> bool) \<Rightarrow> machine \<Rightarrow> string list \<Rightarrow> (string \<times> json) list \<Rightarrow> (string \<Rightarrow> unit cmd) \<Rightarrow> unit cmd" where
  "keyed_post B w segments fs k =
     cbind (connect B w) (\<lambda>a. cbind (keyed_body w fs) (\<lambda>body. cbind (api_post w a segments body) k))"

definition list_devices :: "(url \<Rightarrow> bool) \<Rightarrow> machine \<Rightarrow> string \<Rightarrow> string option \<Rightarrow> unit cmd" where
  "list_devices B w i after =
     cbind (connect B w) (\<lambda>a.
     cbind (api_get w a [''licences'', i, ''devices''] (query_pair ''after'' after)) (\<lambda>reply.
       emit w reply (paged (mc_libs w) [''id'', ''installation_id'', ''active'', ''fingerprint_provider'',
         ''fingerprint_suffix'', ''last_seen_at''])))"

definition reset_device :: "(url \<Rightarrow> bool) \<Rightarrow> machine \<Rightarrow> string \<Rightarrow> string \<Rightarrow> string \<Rightarrow> unit cmd" where
  "reset_device B w i activation reason =
     keyed_post B w [''licences'', i, ''device-resets''] [(''activation_id'', JStr activation),
       (''override_cooldown'', JBool False), (''reason'', JStr reason)] (\<lambda>reply. done_message w ''Device released.'')"

definition replace_key :: "(url \<Rightarrow> bool) \<Rightarrow> machine \<Rightarrow> string \<Rightarrow> string \<Rightarrow> unit cmd" where
  "replace_key B w i reason =
     keyed_post B w [''licences'', i, ''key-replacements''] [(''reason'', JStr reason)]
       (\<lambda>reply. emit w reply (key_lines (mc_libs w)))"

definition list_sessions :: "(url \<Rightarrow> bool) \<Rightarrow> machine \<Rightarrow> string \<Rightarrow> session_filter option \<Rightarrow> nat option \<Rightarrow> string option \<Rightarrow> unit cmd" where
  "list_sessions B w i state limit after =
     cbind (connect B w) (\<lambda>a.
     cbind (api_get w a [''licences'', i, ''sessions''] (query_pair ''state'' (map_option session_name state)
        @ query_pair ''limit'' (map_option decimal limit) @ query_pair ''after'' after)) (\<lambda>reply.
       emit w reply (paged (mc_libs w) [''session_id'', ''activation_id'', ''state'', ''renewed_at'', ''expires_at'', ''ended_at''])))"

definition end_session :: "(url \<Rightarrow> bool) \<Rightarrow> machine \<Rightarrow> string \<Rightarrow> string \<Rightarrow> string \<Rightarrow> unit cmd" where
  "end_session B w i session reason =
     keyed_post B w [''licences'', i, ''sessions'', session, ''end''] [(''reason'', JStr reason)]
       (\<lambda>reply. done_message w ''Session ended.'')"

fun run_licences :: "(url \<Rightarrow> bool) \<Rightarrow> machine \<Rightarrow> licences_command \<Rightarrow> unit cmd" where
  "run_licences B w (LicenceList query status after) = list_licences B w query status after"
| "run_licences B w (LicenceChangePolicy policy reason yes licences) = change_policy B w policy reason yes licences"
| "run_licences B w (LicenceShow i) =
     cbind (connect B w) (\<lambda>a. cbind (api_get w a [''licences'', i] []) (\<lambda>reply. emit w reply (licence_lines (mc_libs w))))"
| "run_licences B w (LicenceIssue policy quantity reference note) =
     keyed_post B w [''licences''] [(''policy_id'', JStr policy), (''quantity'', JInt quantity),
       (''reference'', JStr reference), (''note'', JStr note)] (\<lambda>reply. emit w reply (key_lines (mc_libs w)))"
| "run_licences B w (LicenceSuspend i reason) = set_status B w i ''suspended'' reason"
| "run_licences B w (LicenceReinstate i reason) = set_status B w i ''enabled'' reason"
| "run_licences B w (LicenceRevoke i reason yes) =
     cbind (cof (ensure (Usage ''revocation cannot be undone; add --yes to confirm'') yes)) (\<lambda>_.
       set_status B w i ''revoked'' reason)"
| "run_licences B w (LicenceExtend i period reason) =
     cbind (cof (duration_seconds period)) (\<lambda>seconds.
       keyed_post B w [''licences'', i, ''extensions''] [(''seconds'', JInt seconds), (''reason'', JStr reason)]
         (\<lambda>reply. emit w reply (licence_lines (mc_libs w))))"
| "run_licences B w (LicenceEntitlements i enable disable reason) = set_entitlements B w i enable disable reason"
| "run_licences B w (LicenceAnnotate i reference note reason) = annotate B w i reference note reason"
| "run_licences B w (LicenceDevices i after) = list_devices B w i after"
| "run_licences B w (LicenceResetDevice i activation reason) = reset_device B w i activation reason"
| "run_licences B w (LicenceReplaceKey i reason) = replace_key B w i reason"
| "run_licences B w (LicenceSessions i state limit after) = list_sessions B w i state limit after"
| "run_licences B w (LicenceEndSession i session reason) = end_session B w i session reason"
| "run_licences B w (LicenceOfflineFile i request duration output) = issue_offline_file B w i request duration output"

subsection \<open>Releases\<close>

definition ARTIFACT_COLUMNS :: "string list" where
  "ARTIFACT_COLUMNS = [''id'', ''platform'', ''architecture'', ''filename'', ''byte_length'', ''delivery_mode'',
     ''required_feature'']"

definition release_lines :: "('x) cli_external_scheme \<Rightarrow> json \<Rightarrow> string" where
  "release_lines X v =
     (let artifacts = json_items (json_index v ''artifacts'') in
      field_lines X v [''id'', ''channel'', ''version'', ''state'', ''release_number'', ''created_at'', ''published_at'', ''notes'']
        @ newline @ (if artifacts = [] then ''No files.'' @ newline else table X ARTIFACT_COLUMNS artifacts))"

datatype releases_command =
    ReleaseList "string option" "nat option" "string option"
  | ReleaseShow string
  | ReleaseCreate string string "string option" "string option"
  | ReleaseEdit string "string option" "string option" "string option" "string option"
  | ReleaseAddArtifact string string string string string "string option" "string option" bool
  | ReleaseRemoveArtifact string string
  | ReleasePublish string
  | ReleaseUnpublish string

definition release_notes :: "machine \<Rightarrow> string option \<Rightarrow> string option \<Rightarrow> failure + string option" where
  "release_notes w text path = (case (text, path) of
       (Some t, _) \<Rightarrow> Inr (Some t)
     | (None, Some p) \<Rightarrow> (case mc_text w p of Inl m \<Rightarrow> Inl (Usage (p @ '': '' @ m)) | Inr t \<Rightarrow> Inr (Some t))
     | (None, None) \<Rightarrow> Inr None)"

definition publication :: "(url \<Rightarrow> bool) \<Rightarrow> machine \<Rightarrow> string \<Rightarrow> string \<Rightarrow> unit cmd" where
  "publication B w i action =
     keyed_post B w [''releases'', i, action] [] (\<lambda>reply. emit w reply (release_lines (mc_libs w)))"

text \<open>
  \<open>r["files"] = ...\<close> of a listed release, where \<open>null\<close> becomes an object.  An item that is neither an
  object nor \<open>null\<close> makes the program panic here; the model prints such an item as it is.
\<close>

definition with_files :: "json \<Rightarrow> json" where
  "with_files r = json_set r ''files'' (JInt (int (length (json_items (json_index r ''artifacts'')))))"

definition edit_release ::
    "(url \<Rightarrow> bool) \<Rightarrow> machine \<Rightarrow> string \<Rightarrow> string option \<Rightarrow> string option \<Rightarrow> string option \<Rightarrow> string option \<Rightarrow> unit cmd" where
  "edit_release B w i version channel text path =
     cbind (cof (release_notes w text path)) (\<lambda>notes.
     cbind (cof (ensure (Usage ''pass --version, --channel, --notes or --notes-file'')
        (\<not> (version = None \<and> channel = None \<and> notes = None)))) (\<lambda>_.
     cbind (connect B w) (\<lambda>a.
     cbind (api_get w a [''releases'', i] []) (\<lambda>reply.
     cbind (cof (response_json (mc_libs w) reply)) (\<lambda>current.
     cbind (keyed_body w [(''channel'', JStr (or_else channel (kept_text current ''channel''))),
        (''version'', JStr (or_else version (kept_text current ''version''))),
        (''notes'', JStr (or_else notes (kept_text current ''notes'')))]) (\<lambda>body.
     cbind (send w a Patch [''releases'', i] [] (Some body)) (\<lambda>reply.
       emit w reply (release_lines (mc_libs w)))))))))"

text \<open>\<open>Path::file_name\<close>: the last component, unless it leads up.\<close>

definition file_name :: "string \<Rightarrow> string option" where
  "file_name path =
     (let parts = filter (\<lambda>p. p \<noteq> [] \<and> p \<noteq> ''.'') (split_on CHR ''/'' path) in
      if parts = [] \<or> last parts = ''..'' then None else Some (last parts))"

definition add_artifact ::
    "(url \<Rightarrow> bool) \<Rightarrow> machine \<Rightarrow> string \<Rightarrow> string \<Rightarrow> string \<Rightarrow> string \<Rightarrow> string \<Rightarrow> string option \<Rightarrow> string option
      \<Rightarrow> bool \<Rightarrow> unit cmd" where
  "add_artifact B w i file u platform architecture filename feature protected =
     cbind (cof (ensure (Usage ''--url must be an https:// URL'') (starts_with u ''https://''))) (\<lambda>_.
     cbind (cof (case filename of Some n \<Rightarrow> Inr n
        | None \<Rightarrow> ok_or (Usage ''pass --filename for this file name'')
            (filter_opt (utf8 (mc_libs w)) (file_name file)))) (\<lambda>name.
     cbind (cof (digest_file (mc_libs w) file (mc_file w file))) (\<lambda>d.
       keyed_post B w [''releases'', i, ''artifacts'']
         [(''platform'', JStr platform), (''architecture'', JStr architecture), (''filename'', JStr name),
          (''byte_length'', JInt (int (fd_byte_length d))), (''sha256'', JStr (fd_sha256 d)),
          (''delivery_mode'', JStr (if protected then ''protected'' else ''public'')), (''url'', JStr u),
          (''required_feature'', json_opt feature)]
         (\<lambda>reply. emit w reply (\<lambda>v. field_lines (mc_libs w) v [''id'', ''release_id'', ''platform'', ''architecture'',
            ''filename'', ''byte_length'', ''sha256'', ''delivery_mode'', ''url'', ''required_feature''])))))"

fun run_releases :: "(url \<Rightarrow> bool) \<Rightarrow> machine \<Rightarrow> releases_command \<Rightarrow> unit cmd" where
  "run_releases B w (ReleaseList channel limit after) =
     cbind (connect B w) (\<lambda>a.
     cbind (api_get w a [''releases''] (query_pair ''channel'' channel @ query_pair ''limit'' (map_option decimal limit)
        @ query_pair ''after'' after)) (\<lambda>reply.
       emit w reply (\<lambda>page. table (mc_libs w) [''id'', ''channel'', ''version'', ''state'', ''release_number'', ''files'', ''published_at'']
         (map with_files (page_items page)) @ next_page (mc_libs w) page)))"
| "run_releases B w (ReleaseShow i) =
     cbind (connect B w) (\<lambda>a. cbind (api_get w a [''releases'', i] []) (\<lambda>reply. emit w reply (release_lines (mc_libs w))))"
| "run_releases B w (ReleaseCreate version channel text path) =
     cbind (cof (release_notes w text path)) (\<lambda>notes.
       keyed_post B w [''releases''] [(''channel'', JStr channel), (''version'', JStr version),
         (''notes'', JStr (or_else notes []))] (\<lambda>reply. emit w reply (release_lines (mc_libs w))))"
| "run_releases B w (ReleaseEdit i version channel text path) = edit_release B w i version channel text path"
| "run_releases B w (ReleaseAddArtifact i file u platform architecture filename feature protected) =
     add_artifact B w i file u platform architecture filename feature protected"
| "run_releases B w (ReleaseRemoveArtifact i artifact) =
     cbind (connect B w) (\<lambda>a. cbind (keyed_body w []) (\<lambda>body.
     cbind (send w a Delete [''releases'', i, ''artifacts'', artifact] [] (Some body)) (\<lambda>reply.
       done_message w ''File removed.'')))"
| "run_releases B w (ReleasePublish i) = publication B w i ''publish''"
| "run_releases B w (ReleaseUnpublish i) = publication B w i ''unpublish''"

subsection \<open>Credentials\<close>

datatype credentials_command = CredentialsSet | CredentialsShow | CredentialsRemove

definition ellipsis :: string where "ellipsis = [CHR 0xE2, CHR 0x80, CHR 0xA6]"

definition read_token :: "machine \<Rightarrow> failure + string" where
  "read_token w =
     rbind (case mc_line w of Inl m \<Rightarrow> Inl (Other m) | Inr l \<Rightarrow> Inr (trim l)) (\<lambda>token.
     rbind (ensure (Usage (''expected an Orbit management token ('' @ token_prefix @ ellipsis @ '') on standard input''))
        (valid_token token)) (\<lambda>_. Inr token))"

definition needed :: "string option \<Rightarrow> string \<Rightarrow> failure + string" where
  "needed v flag = ok_or (Usage (quoted ''orbit credentials set'' @ '' needs '' @ flag)) v"

definition save_to :: "machine \<Rightarrow> string \<Rightarrow> profiles \<Rightarrow> unit cmd" where
  "save_to w dir ps s =
     (case save_profiles (mc_libs w) (mc_save w) dir ps (rs_profiles s) of
        (file, r) \<Rightarrow> (s\<lparr>rs_profiles := file\<rparr>, r))"

definition set_credentials :: "(url \<Rightarrow> bool) \<Rightarrow> machine \<Rightarrow> unit cmd" where
  "set_credentials B w =
     cbind (cof (profile_name w)) (\<lambda>name.
     cbind (cof (needed (application_setting w) ''--application-id'')) (\<lambda>application.
     cbind (cof (needed (environment_setting w) ''--environment-id'')) (\<lambda>environment.
     cbind (cof (case gl_api_url (mc_global w) of None \<Rightarrow> Inr ()
        | Some u \<Rightarrow> rbind (base_url (mc_libs w) B (mc_development w) u) (\<lambda>_. Inr ()))) (\<lambda>_.
     cbind (cof (config_directory (mc_os w) (mc_absolute w) (mc_env w))) (\<lambda>dir.
     cbind (cgets rs_profiles) (\<lambda>file.
     cbind (cof (load_profiles (mc_libs w) dir file)) (\<lambda>ps.
     cbind (cof (read_token w)) (\<lambda>token.
     cbind (save_to w dir (insert_profile name \<lparr>pl_token = token, pl_application_id = application,
         pl_environment_id = environment, pl_api_url = gl_api_url (mc_global w)\<rparr> ps)) (\<lambda>_.
       write_out w (''Saved '' @ redact token @ '' as profile '' @ quoted name @ '' in ''
         @ path_join dir FILE_NAME @ ''.'' @ newline))))))))))"

definition shown_token :: "string \<Rightarrow> string option \<Rightarrow> profile option \<Rightarrow> failure + (string \<times> string)" where
  "shown_token name token saved = (case (token, saved) of
       (Some t, _) \<Rightarrow> Inr (t, ''ORBIT_MANAGEMENT_TOKEN'')
     | (None, Some p) \<Rightarrow> Inr (pl_token p, ''saved profile'')
     | (None, None) \<Rightarrow> Inl (Other (''no credentials for profile '' @ quoted name @ ''; run '' @ quoted ''orbit credentials set'')))"

definition shown_credentials :: "machine \<Rightarrow> string \<Rightarrow> string \<Rightarrow> string \<Rightarrow> string \<Rightarrow> profile option \<Rightarrow> json" where
  "shown_credentials w dir name token source saved =
     json_object [(''profile'', JStr name), (''token'', JStr (redact token)), (''token_source'', JStr source),
       (''application_id'', json_opt (first_some (application_setting w) (map_option pl_application_id saved))),
       (''environment_id'', json_opt (first_some (environment_setting w) (map_option pl_environment_id saved))),
       (''api_url'', JStr (or_else (first_some (url_setting w) (Option.bind saved pl_api_url)) DEFAULT_URL)),
       (''file'', JStr (path_join dir FILE_NAME))]"

definition show_credentials :: "machine \<Rightarrow> unit cmd" where
  "show_credentials w =
     cbind (cof (profile_name w)) (\<lambda>name.
     cbind (cof (config_directory (mc_os w) (mc_absolute w) (mc_env w))) (\<lambda>dir.
     cbind (cgets rs_profiles) (\<lambda>file.
     cbind (cof (load_profiles (mc_libs w) dir file)) (\<lambda>ps.
     let saved = map_of ps name in
     cbind (cof (shown_token name (env_token w) saved)) (\<lambda>(token, source).
     let v = shown_credentials w dir name token source saved in
     write_out w (if gl_json (mc_global w) then json_text_line w v
       else field_lines (mc_libs w) v [''profile'', ''token'', ''token_source'', ''application_id'', ''environment_id'',
         ''api_url'', ''file'']))))))"

definition remove_credentials :: "machine \<Rightarrow> unit cmd" where
  "remove_credentials w =
     cbind (cof (profile_name w)) (\<lambda>name.
     cbind (cof (config_directory (mc_os w) (mc_absolute w) (mc_env w))) (\<lambda>dir.
     cbind (cgets rs_profiles) (\<lambda>file.
     cbind (cof (load_profiles (mc_libs w) dir file)) (\<lambda>ps.
     cbind (cof (ensure (Other (''no saved profile '' @ quoted name)) (map_of ps name \<noteq> None))) (\<lambda>_.
     cbind (save_to w dir (remove_profile name ps)) (\<lambda>_.
       done_message w (''Removed profile '' @ quoted name @ ''.'')))))))"

fun run_credentials :: "(url \<Rightarrow> bool) \<Rightarrow> machine \<Rightarrow> credentials_command \<Rightarrow> unit cmd" where
  "run_credentials B w CredentialsSet = set_credentials B w"
| "run_credentials B w CredentialsShow = show_credentials w"
| "run_credentials B w CredentialsRemove = remove_credentials w"

subsection \<open>Dispatch\<close>

datatype command =
    Credentials credentials_command
  | PoliciesList
  | PoliciesCreate policy_terms
  | Licences licences_command
  | Releases releases_command

fun run_command :: "(url \<Rightarrow> bool) \<Rightarrow> machine \<Rightarrow> command \<Rightarrow> unit cmd" where
  "run_command B w (Credentials c) = run_credentials B w c"
| "run_command B w PoliciesList = list_policies B w"
| "run_command B w (PoliciesCreate p) = create_policy B w p"
| "run_command B w (Licences c) = run_licences B w c"
| "run_command B w (Releases c) = run_releases B w c"

definition start_state :: "credentials_file \<Rightarrow> run_state" where
  "start_state file = \<lparr>rs_out = [], rs_err = [], rs_key = None, rs_requests = [], rs_profiles = file, rs_created = []\<rparr>"

definition run_invocation :: "(url \<Rightarrow> bool) \<Rightarrow> machine \<Rightarrow> command \<Rightarrow> credentials_file \<Rightarrow> run_state \<times> nat" where
  "run_invocation B w c file = report w (run_command B w c (start_state file))"

end
