(* ===== verification/Operator.thy ===== *)
theory Operator
  imports Commands
begin

text \<open>
  What the command line tool guarantees: where the management token goes, which licences a policy
  change may move, that what the service sends cannot control the terminal, and that saved
  credentials are read back.
\<close>

subsection \<open>Triples for commands\<close>

text \<open>\<open>m\<close> keeps \<open>P\<close>, and the value it returns satisfies \<open>Q\<close>.\<close>

definition cmd_keeps :: "(run_state \<Rightarrow> bool) \<Rightarrow> 'a cmd \<Rightarrow> ('a \<Rightarrow> bool) \<Rightarrow> bool" where
  "cmd_keeps P m Q \<longleftrightarrow> (\<forall>s. P s \<longrightarrow> P (fst (m s)) \<and> (\<forall>x. snd (m s) = Inr x \<longrightarrow> Q x))"

named_theorems cmd_rules "rules that take a command apart"

lemma cbind_keeps [cmd_rules]:
  assumes "cmd_keeps P m Q" "\<And>x. Q x \<Longrightarrow> cmd_keeps P (k x) R"
  shows "cmd_keeps P (cbind m k) R"
  using assms by (fastforce simp: cmd_keeps_def cbind_def split: prod.splits sum.splits)

lemma if_keeps [cmd_rules]:
  "(b \<Longrightarrow> cmd_keeps P m1 Q) \<Longrightarrow> (\<not> b \<Longrightarrow> cmd_keeps P m2 Q) \<Longrightarrow> cmd_keeps P (if b then m1 else m2) Q"
  by simp

lemma case_keeps [cmd_rules]:
  "(\<And>a b. cmd_keeps P (f a b) Q) \<Longrightarrow> cmd_keeps P (case x of (a, b) \<Rightarrow> f a b) Q"
  "cmd_keeps P g Q \<Longrightarrow> (\<And>a. cmd_keeps P (h a) Q) \<Longrightarrow> cmd_keeps P (case y of None \<Rightarrow> g | Some a \<Rightarrow> h a) Q"
  by (simp_all split: prod.splits option.splits)

lemma cof_keeps: "(\<And>x. r = Inr x \<Longrightarrow> Q x) \<Longrightarrow> cmd_keeps P (cof r) Q"
  by (auto simp: cmd_keeps_def cof_def)

lemma cgets_keeps: "cmd_keeps P (cgets f) (\<lambda>_. True)"
  by (auto simp: cmd_keeps_def cgets_def)

text \<open>Properties of the requests alone.\<close>

definition about_requests :: "(request \<Rightarrow> bool) \<Rightarrow> run_state \<Rightarrow> bool" where
  "about_requests p s \<longleftrightarrow> list_all p (rs_requests s)"

lemma quiet_keeps:
  assumes "\<And>s. rs_requests (fst (m s)) = rs_requests s" shows "cmd_keeps (about_requests p) m (\<lambda>_. True)"
  using assms by (simp add: cmd_keeps_def about_requests_def)

lemma writing_keeps [cmd_rules]:
  "cmd_keeps (about_requests p) (write_out w t) (\<lambda>_. True)"
  "cmd_keeps (about_requests p) (write_err w t) (\<lambda>_. True)"
  by (auto intro!: quiet_keeps simp: write_out_def write_err_def writing_def split: option.splits)

lemma true_cof [cmd_rules]: "cmd_keeps P (cof r) (\<lambda>_. True)"
  by (rule cof_keeps) simp

lemma emit_keeps [cmd_rules]: "cmd_keeps (about_requests p) (emit w b f) (\<lambda>_. True)"
  by (auto simp: emit_def intro!: cmd_rules)

lemma done_keeps [cmd_rules]: "cmd_keeps (about_requests p) (done_message w t) (\<lambda>_. True)"
  by (auto simp: done_message_def intro!: cmd_rules)

lemma operation_key_keeps [cmd_rules]: "cmd_keeps (about_requests p) (operation_key w) (\<lambda>_. True)"
  by (rule quiet_keeps) (auto simp: operation_key_def cbind_def cof_def split: sum.splits)

lemma keyed_body_keeps [cmd_rules]: "cmd_keeps (about_requests p) (keyed_body w fs) (\<lambda>_. True)"
  unfolding keyed_body_def by (rule cmd_rules | assumption)+

lemma created_keeps [cmd_rules]: "cmd_keeps (about_requests p) (created w path content) (\<lambda>_. True)"
  by (rule quiet_keeps) (auto simp: created_def split: option.splits)

lemma save_to_keeps [cmd_rules]: "cmd_keeps (about_requests p) (save_to w dir ps) (\<lambda>_. True)"
  by (rule quiet_keeps) (auto simp: save_to_def split: prod.splits)

subsection \<open>Where the token goes\<close>

definition secure_base :: "bool \<Rightarrow> url \<Rightarrow> bool" where
  "secure_base development u \<longleftrightarrow>
     (url_scheme u = ''https'' \<or> development \<and> url_scheme u = ''http'' \<and> some_and loopback_host (url_host u))
     \<and> url_username u = [] \<and> url_password u = None \<and> url_query u = None \<and> url_fragment u = None"

definition sound_api :: "machine \<Rightarrow> api \<Rightarrow> bool" where
  "sound_api w a \<longleftrightarrow> valid_token (ap_token a) \<and> secure_base (mc_development w) (ap_base a)"

definition sound_request :: "machine \<Rightarrow> request \<Rightarrow> bool" where
  "sound_request w r \<longleftrightarrow> sound_api w (rq_api r) \<and> (\<exists>q. rq_query r = scope_query (rq_api r) @ q)"

lemma base_url_secure: "base_url X B dev v = Inr u \<Longrightarrow> secure_base dev u"
  by (auto simp: base_url_def secure_base_def Let_def rbind_Inr_iff ensure_iff)

lemma choose_token_valid: "choose_token name token saved = Inr t \<Longrightarrow> valid_token t"
  by (auto simp: choose_token_def split: option.splits if_splits)

lemma connection_sound: "connection B w file = Inr a \<Longrightarrow> sound_api w a"
  by (auto simp: connection_def Let_def rbind_Inr_iff api_new_def sound_api_def
      dest!: base_url_secure choose_token_valid)

abbreviation "sound_requests w \<equiv> about_requests (sound_request w)"

lemma connect_keeps [cmd_rules]: "cmd_keeps (sound_requests w) (connect B w) (sound_api w)"
  unfolding connect_def by (rule cbind_keeps[OF cgets_keeps]) (auto intro!: cof_keeps dest: connection_sound)

lemma send_keeps:
  "sound_api w a \<Longrightarrow> cmd_keeps (sound_requests w) (send w a m segs q b) (\<lambda>_. True)"
  by (auto simp: cmd_keeps_def send_def Let_def about_requests_def sound_request_def)

lemma api_keeps [cmd_rules]:
  "sound_api w a \<Longrightarrow> cmd_keeps (sound_requests w) (api_get w a segs q) (\<lambda>_. True)"
  "sound_api w a \<Longrightarrow> cmd_keeps (sound_requests w) (api_post w a segs b) (\<lambda>_. True)"
  "sound_api w a \<Longrightarrow> cmd_keeps (sound_requests w) (send w a Patch segs [] d) (\<lambda>_. True)"
  "sound_api w a \<Longrightarrow> cmd_keeps (sound_requests w) (send w a Delete segs [] d) (\<lambda>_. True)"
  unfolding api_get_def api_post_def by (auto intro: send_keeps)

lemma keyed_post_keeps [cmd_rules]:
  "(\<And>reply. cmd_keeps (sound_requests w) (k reply) (\<lambda>_. True)) \<Longrightarrow>
     cmd_keeps (sound_requests w) (keyed_post B w segs fs k) (\<lambda>_. True)"
  unfolding keyed_post_def by (rule cmd_rules | assumption)+

lemma preview_all_keeps [cmd_rules]:
  "sound_api w a \<Longrightarrow> cmd_keeps (sound_requests w) (preview_all w a policy batches) (\<lambda>_. True)"
proof (induction batches)
  case (Cons b bs)
  show ?case unfolding preview_all.simps by (rule cmd_rules | rule Cons.prems | rule Cons.IH)+
qed (simp add: true_cof)


lemma apply_all_keeps [cmd_rules]:
  "sound_api w a \<Longrightarrow> cmd_keeps (sound_requests w) (apply_all w a policy reason target results batches) (\<lambda>_. True)"
proof (induction batches arbitrary: results)
  case (Cons b bs)
  let ?post = "api_post w a [''licences'', ''policy-changes''] (change_body policy reason b)"
  have post: "cmd_keeps (sound_requests w) ?post (\<lambda>_. True)" using Cons.prems by (rule api_keeps)
  have ok: "cmd_keeps (sound_requests w) (cbind (cof (response_json (mc_libs w) reply)) (\<lambda>v.
      apply_all w a policy reason target (results @ [v]) bs)) (\<lambda>_. True)" for reply
    by (rule cbind_keeps[OF true_cof]) (rule Cons.IH[OF Cons.prems])
  have bad: "cmd_keeps (sound_requests w) (cbind (write_err w t) (\<lambda>_. cof (Inl e))) (\<lambda>_. True)" for t e
    by (rule cmd_rules)+
  show ?case
    using post ok bad by (fastforce simp: cmd_keeps_def split: prod.splits sum.splits)
qed (simp add: true_cof)

lemma source_terms_keeps [cmd_rules]:
  "sound_api w a \<Longrightarrow> cmd_keeps (sound_requests w) (source_terms w a i) (\<lambda>_. True)"
  unfolding source_terms_def by (rule cmd_rules | assumption)+

lemma confirm_keeps [cmd_rules]: "cmd_keeps (about_requests p) (confirm w yes n target) (\<lambda>_. True)"
  unfolding confirm_def by (rule cmd_rules)+

lemmas command_defs = set_credentials_def show_credentials_def remove_credentials_def list_policies_def create_policy_def
  list_licences_def change_policy_def move_licences_def set_status_def set_entitlements_def annotate_def issue_offline_file_def
  list_devices_def reset_device_def replace_key_def list_sessions_def end_session_def
  edit_release_def add_artifact_def publication_def Let_def

lemma run_credentials_keeps: "cmd_keeps (sound_requests w) (run_credentials B w x) (\<lambda>_. True)"
  by (cases x; simp only: run_credentials.simps command_defs; (rule cmd_rules cgets_keeps | assumption)+)

lemma run_licences_keeps: "cmd_keeps (sound_requests w) (run_licences B w x) (\<lambda>_. True)"
  by (cases x; simp only: run_licences.simps command_defs; (rule cmd_rules | assumption)+)

lemma run_releases_keeps: "cmd_keeps (sound_requests w) (run_releases B w x) (\<lambda>_. True)"
  by (cases x; simp only: run_releases.simps command_defs; (rule cmd_rules | assumption)+)

lemma run_policies_keeps:
  "cmd_keeps (sound_requests w) (list_policies B w) (\<lambda>_. True)"
  "cmd_keeps (sound_requests w) (create_policy B w p) (\<lambda>_. True)"
  unfolding command_defs by (rule cmd_rules | assumption)+

lemma run_command_keeps: "cmd_keeps (sound_requests w) (run_command B w c) (\<lambda>_. True)"
  by (cases c) (simp_all add: run_credentials_keeps run_licences_keeps run_releases_keeps run_policies_keeps)

text \<open>
  C31.  The management token goes to secure servers only.  Every request of an invocation carries a
  token of the management grammar and the two scope parameters, and goes to a base URL that is
  HTTPS (or, in a development build, HTTP on a loopback host) and has no credentials, query or
  fragment of its own.
\<close>

theorem token_goes_to_secure_servers:
  "list_all (sound_request w) (rs_requests (fst (run_invocation B w c file)))"
proof -
  have "about_requests (sound_request w) (start_state file)" by (simp add: about_requests_def start_state_def)
  then have "about_requests (sound_request w) (fst (run_command B w c (start_state file)))"
    using run_command_keeps[of w B c] by (simp add: cmd_keeps_def)
  then show ?thesis
    by (auto simp: run_invocation_def report_def about_requests_def split: prod.splits sum.splits)
qed

subsection \<open>Moving licences\<close>

definition preview_request :: "api \<Rightarrow> string \<Rightarrow> string list \<Rightarrow> request" where
  "preview_request a policy batch = \<lparr>rq_api = a, rq_method = Post,
     rq_segments = [''licences'', ''policy-changes'', ''preview''], rq_query = scope_query a,
     rq_body = Some (preview_body policy batch)\<rparr>"

definition change_request :: "api \<Rightarrow> string \<Rightarrow> string \<Rightarrow> json list \<Rightarrow> request" where
  "change_request a policy reason batch = \<lparr>rq_api = a, rq_method = Post,
     rq_segments = [''licences'', ''policy-changes''], rq_query = scope_query a,
     rq_body = Some (change_body policy reason batch)\<rparr>"

text \<open>The \<open>k\<close>-th request was answered with success and the document \<open>v\<close>.\<close>

definition answered :: "machine \<Rightarrow> nat \<Rightarrow> request \<Rightarrow> json \<Rightarrow> bool" where
  "answered w k r v \<longleftrightarrow> (\<exists>status body. mc_send w k r = Reply status body \<and> success status
     \<and> read_value (mc_libs w) body = Some v)"

definition confirmed :: "machine \<Rightarrow> bool" where
  "confirmed w \<longleftrightarrow> mc_terminal w \<and> (\<exists>line. mc_line w = Inr line \<and> lower (trim line) \<in> {''y'', ''yes''})"

lemma cbind_cases:
  assumes "cbind m k s = (s', r)"
  obtains (failed) e where "m s = (s', Inl e)" "r = Inl e" | (ran) s1 x where "m s = (s1, Inr x)" "k x s1 = (s', r)"
  using assms by (auto simp: cbind_def split: prod.splits sum.splits)

lemma api_post_run:
  "api_post w a segs b s = (s', r) \<Longrightarrow>
     rs_requests s' = rs_requests s @ [\<lparr>rq_api = a, rq_method = Post, rq_segments = segs, rq_query = scope_query a, rq_body = Some b\<rparr>]
     \<and> (\<forall>reply. r = Inr reply \<longrightarrow> (\<exists>status. mc_send w (length (rs_requests s))
          \<lparr>rq_api = a, rq_method = Post, rq_segments = segs, rq_query = scope_query a, rq_body = Some b\<rparr> = Reply status reply \<and> success status))"
  by (auto simp: api_post_def send_def Let_def split: http.splits if_splits)

lemma concat_chunks:
  "0 < n \<Longrightarrow> concat (chunks n xs) = xs \<and> (\<forall>c\<in>set (chunks n xs). length c \<le> n)"
  by (induction n xs rule: chunks.induct) (subst (1 2) chunks.simps, auto)

lemma distinct_ids:
  "distinct acc \<Longrightarrow> distinct (distinct_ids acc xs) \<and> set (distinct_ids acc xs) = set acc \<union> set xs"
  by (induction acc xs rule: distinct_ids.induct) auto

lemma preview_all_run:
  "preview_all w a policy batches s = (s', r) \<Longrightarrow>
     \<exists>n \<le> length batches. rs_requests s' = rs_requests s @ map (preview_request a policy) (take n batches)
       \<and> (\<forall>vs. r = Inr vs \<longrightarrow> n = length batches \<and> length vs = n
            \<and> (\<forall>i<n. answered w (length (rs_requests s) + i) (preview_request a policy (batches ! i)) (vs ! i)))"
proof (induction batches arbitrary: s s' r)
  case (Cons b bs)
  let ?q = "preview_request a policy b"
  from Cons.prems show ?case unfolding preview_all.simps
  proof (cases rule: cbind_cases)
    case (failed e)
    then show ?thesis using api_post_run[OF failed(1)] by (intro exI[of _ 1]) (auto simp: preview_request_def)
  next
    case (ran s1 reply)
    note post = api_post_run[OF ran(1)]
    have sent: "rs_requests s1 = rs_requests s @ [?q]" using post by (simp add: preview_request_def)
    from ran(2) show ?thesis
    proof (cases rule: cbind_cases)
      case (failed e)
      then show ?thesis using sent by (intro exI[of _ 1]) (auto simp: cof_def)
    next
      case (ran s2 v)
      then have s2: "s2 = s1" "answered w (length (rs_requests s)) ?q v"
        using post by (auto simp: cof_def response_json_def ok_or_iff answered_def preview_request_def)
      from ran(2) show ?thesis
      proof (cases rule: cbind_cases)
        case (failed e)
        from Cons.IH[OF failed(1)] obtain n where "n \<le> length bs"
          "rs_requests s' = rs_requests s2 @ map (preview_request a policy) (take n bs)" by blast
        then show ?thesis using failed(2) sent s2 by (intro exI[of _ "Suc n"]) auto
      next
        case (ran s3 vs)
        from Cons.IH[OF ran(1)] have n: "length vs = length bs"
          "rs_requests s3 = rs_requests s2 @ map (preview_request a policy) bs"
          "\<forall>i<length bs. answered w (length (rs_requests s2) + i) (preview_request a policy (bs ! i)) (vs ! i)"
          by auto
        have "answered w (length (rs_requests s) + i) (preview_request a policy ((b # bs) ! i)) ((v # vs) ! i)"
          if "i < Suc (length bs)" for i
          using that n(3) s2 sent by (cases i) auto
        then show ?thesis using ran(2) n s2 sent
          by (intro exI[of _ "Suc (length bs)"]) (auto simp: cof_def)
      qed
    qed
  qed
qed (auto simp: cof_def)

lemma apply_all_run:
  "apply_all w a policy reason target results batches s = (s', r) \<Longrightarrow>
     \<exists>n. rs_requests s' = rs_requests s @ map (change_request a policy reason) (take n batches)"
proof (induction batches arbitrary: results s s' r)
  case (Cons b bs)
  obtain s1 x where post: "api_post w a [''licences'', ''policy-changes''] (change_body policy reason b) s = (s1, x)"
    by (cases "api_post w a [''licences'', ''policy-changes''] (change_body policy reason b) s")
  have sent: "rs_requests s1 = rs_requests s @ [change_request a policy reason b]"
    using api_post_run[OF post] by (simp add: change_request_def)
  show ?case
  proof (cases x)
    case (Inl e)
    with Cons.prems post have "rs_requests s' = rs_requests s1"
      by (auto simp: cbind_def write_err_def writing_def cof_def split: if_splits option.splits)
    with sent show ?thesis by (intro exI[of _ 1]) simp
  next
    case (Inr reply)
    with Cons.prems post have "cbind (cof (response_json (mc_libs w) reply)) (\<lambda>v.
        apply_all w a policy reason target (results @ [v]) bs) s1 = (s', r)" by simp
    then show ?thesis
    proof (cases rule: cbind_cases)
      case (failed e)
      with sent show ?thesis by (intro exI[of _ 1]) (simp add: cof_def)
    next
      case (ran s2 v)
      then have "s2 = s1" by (simp add: cof_def)
      with Cons.IH[OF ran(2)] sent obtain n where
        "rs_requests s' = rs_requests s @ change_request a policy reason b # map (change_request a policy reason) (take n bs)"
        by auto
      then show ?thesis by (intro exI[of _ "Suc n"]) simp
    qed
  qed
qed (auto simp: cof_def)

lemma confirm_run:
  "confirm w yes n target s = (s', r) \<Longrightarrow> rs_requests s' = rs_requests s \<and> (r = Inr () \<longrightarrow> yes \<or> confirmed w)"
  by (auto simp: confirm_def confirmed_def cbind_def cof_def write_err_def writing_def ensure_def
      split: if_splits sum.splits option.splits prod.splits)

lemma output_run:
  "write_out w t s = (s', r) \<Longrightarrow> rs_requests s' = rs_requests s"
  "write_err w t s = (s', r) \<Longrightarrow> rs_requests s' = rs_requests s"
  "done_message w t s = (s', r) \<Longrightarrow> rs_requests s' = rs_requests s"
  by (auto simp: write_out_def write_err_def done_message_def writing_def cof_def split: option.splits if_splits)

lemma move_licences_run:
  assumes "move_licences w a policy reason yes target pending s = (s', r)"
  shows "\<exists>moves. rs_requests s' = rs_requests s @ map (change_request a policy reason) moves
    \<and> (moves = [] \<or> (yes \<or> confirmed w) \<and> (\<exists>k. moves = take k (filter (\<lambda>b. b \<noteq> []) pending)))"
  using assms unfolding move_licences_def
proof (cases rule: cbind_cases)
  case (failed e)
  then show ?thesis using confirm_run[OF failed(1)] by simp
next
  case (ran s1 u)
  have s1: "rs_requests s1 = rs_requests s" "yes \<or> confirmed w" using confirm_run[OF ran(1)] by auto
  from ran(2) show ?thesis
  proof (cases rule: cbind_cases)
    case (failed e)
    with apply_all_run[OF failed(1)] s1 show ?thesis by auto
  next
    case (ran s2 results)
    then have "rs_requests s' = rs_requests s2" using output_run by (auto simp: Let_def split: if_splits)
    with apply_all_run[OF ran(1)] s1 show ?thesis by auto
  qed
qed

lemma change_policy_run:
  assumes "change_policy B w policy reason yes licences s = (s', r)" "rs_requests s = []"
  shows "\<exists>a n previews moves.
      rs_requests s' = map (preview_request a policy) (take n (chunks BATCH (distinct_ids [] licences)))
        @ map (change_request a policy reason) moves
    \<and> (moves = [] \<or> n = length (chunks BATCH (distinct_ids [] licences)) \<and> (yes \<or> confirmed w) \<and> length previews = n
        \<and> (\<forall>i<n. answered w i (preview_request a policy (chunks BATCH (distinct_ids [] licences) ! i)) (previews ! i))
        \<and> (\<exists>k. moves = take k (filter (\<lambda>b. b \<noteq> []) (map pending_of previews))))"
    (is "\<exists>a n previews moves. ?R a n moves \<and> ?M a n previews moves")
proof -
  let ?batches = "chunks BATCH (distinct_ids [] licences)"
  have stop: ?thesis if "rs_requests s' = map (preview_request a policy) (take n ?batches)" for a n
    using that by (intro exI[of _ a] exI[of _ n] exI[of _ "[]"] exI[of _ "[]"]) simp
  from assms(1) show ?thesis unfolding change_policy_def Let_def
  proof (cases rule: cbind_cases)
    case (failed e)
    then have "rs_requests s' = []" using assms(2) by (auto simp: connect_def cbind_def cgets_def cof_def)
    with stop[where n = 0] show ?thesis by simp
  next
    case (ran s1 a)
    have s1: "rs_requests s1 = []" using ran(1) assms(2) by (auto simp: connect_def cbind_def cgets_def cof_def)
    from ran(2) show ?thesis
    proof (cases rule: cbind_cases)
      case (failed e)
      with preview_all_run[OF failed(1)] s1 stop show ?thesis by auto
    next
      case (ran s2 previews)
      have pv: "rs_requests s2 = map (preview_request a policy) ?batches" "length previews = length ?batches"
        "\<forall>i<length ?batches. answered w i (preview_request a policy (?batches ! i)) (previews ! i)"
        using preview_all_run[OF ran(1)] s1 by auto
      have stop2: ?thesis if "rs_requests s' = rs_requests s2" using stop[of a "length ?batches"] that pv(1) by simp
      from ran(2) show ?thesis
      proof (cases rule: cbind_cases)
        case (failed e)
        then show ?thesis using stop2 output_run by (auto split: if_splits)
      next
        case (ran s3 u)
        have s3: "rs_requests s3 = rs_requests s2" using ran(1) output_run by (auto split: if_splits)
        let ?target = "policy_label (mc_libs w) (json_index (merged previews) ''policy_name'') (json_index (merged previews) ''policy_version'')"
        show ?thesis
        proof (cases "length (concat (map pending_of previews)) = 0")
          case True
          then show ?thesis using ran(2) s3 stop2 output_run by (auto split: if_splits)
        next
          case False
          from ran(2)[unfolded if_not_P[OF False]]
          have "move_licences w a policy reason yes ?target (map pending_of previews) s3 = (s', r)" .
          from move_licences_run[OF this] obtain moves where
            "rs_requests s' = rs_requests s3 @ map (change_request a policy reason) moves"
            "moves = [] \<or> (yes \<or> confirmed w) \<and> (\<exists>k. moves = take k (filter (\<lambda>b. b \<noteq> []) (map pending_of previews)))"
            by blast
          then have "?R a (length ?batches) moves" "?M a (length ?batches) previews moves" using s3 pv by auto
          then show ?thesis by blast
        qed
      qed
    qed
  qed
qed

text \<open>
  C32.  Licences move only as previewed and confirmed.  A policy change previews every licence that
  was named, once each and at most a hundred in a request.  Only when every preview was answered,
  and the operator passed the flag or said yes at a terminal, does it send changes, and each change
  names the licences, with their revisions, of one of these previews that were not on the policy
  already.
\<close>

theorem licences_move_as_previewed:
  assumes "run_licences B w (LicenceChangePolicy policy reason yes licences) (start_state file) = (s', r)"
  shows "\<exists>a batches n previews moves.
      rs_requests s' = map (preview_request a policy) (take n batches) @ map (change_request a policy reason) moves
    \<and> distinct (concat batches) \<and> set (concat batches) = set licences \<and> list_all (\<lambda>b. length b \<le> 100) batches
    \<and> (moves = [] \<or> n = length batches \<and> (yes \<or> confirmed w) \<and> length previews = n
        \<and> list_all (\<lambda>i. answered w i (preview_request a policy (batches ! i)) (previews ! i)) [0..<n]
        \<and> (\<exists>k. moves = take k (filter (\<lambda>b. b \<noteq> []) (map pending_of previews))))"
proof -
  let ?batches = "chunks BATCH (distinct_ids [] licences)"
  have "concat ?batches = distinct_ids [] licences" "list_all (\<lambda>b. length b \<le> 100) ?batches"
    using concat_chunks[of BATCH "distinct_ids [] licences"] by (auto simp: BATCH_def list_all_iff)
  moreover have "distinct (distinct_ids [] licences)" "set (distinct_ids [] licences) = set licences"
    using distinct_ids[of "[]" licences] by simp_all
  moreover obtain a n previews moves where
    "rs_requests s' = map (preview_request a policy) (take n ?batches) @ map (change_request a policy reason) moves"
    "moves = [] \<or> n = length ?batches \<and> (yes \<or> confirmed w) \<and> length previews = n
        \<and> (\<forall>i<n. answered w i (preview_request a policy (?batches ! i)) (previews ! i))
        \<and> (\<exists>k. moves = take k (filter (\<lambda>b. b \<noteq> []) (map pending_of previews)))"
    using change_policy_run[OF assms[unfolded run_licences.simps]]
    by (elim meta_impE exE conjE) (simp_all add: start_state_def)
  ultimately show ?thesis
    by (intro exI[of _ a] exI[of _ ?batches] exI[of _ n] exI[of _ previews] exI[of _ moves])
      (auto simp: list_all_iff)
qed

text \<open>An operator who moves one licence and confirms it on the command line.\<close>

definition management_url :: url where
  "management_url = \<lparr>url_scheme = ''https'', url_host = Some ''o.eu'', url_username = [], url_password = None,
     url_path = ''/'', url_query = None, url_pairs = [], url_fragment = None, url_origin = ''https://o.eu''\<rparr>"

definition preview_reply :: json where
  "preview_reply = JObj [(''items'', JArr [JObj [(''licence_id'', JStr ''l1''), (''revision'', JInt 3)]])]"

definition tool_libs :: cli_libs where
  "tool_libs = \<lparr>b64_decode = Some, b64_encode = id, sha256 = (\<lambda>_. []), parse_json = (\<lambda>_. Some preview_reply),
     rfc3339 = (\<lambda>_. None), utf8 = (\<lambda>_. True), url_parse = (\<lambda>_. Some management_url), url_join = (\<lambda>_ _. None),
     json_text = (\<lambda>_. []), store_text = (\<lambda>_. Some []), de_store = (\<lambda>_. Some [])\<rparr>"

definition sample_management_token :: string where
  "sample_management_token = token_prefix @ replicate 43 CHR ''A''"

definition tool :: machine where
  "tool = \<lparr>mc_libs = tool_libs,
     mc_global = \<lparr>gl_profile = None, gl_api_url = None, gl_application_id = Some ''app'', gl_environment_id = Some ''env'',
       gl_json = True, gl_idempotency_key = None\<rparr>,
     mc_env = (\<lambda>name. if name = ''ORBIT_MANAGEMENT_TOKEN'' then Some sample_management_token else None),
     mc_os = ''linux'', mc_absolute = (\<lambda>_. True), mc_development = False, mc_start = None,
     mc_send = (\<lambda>k r. Reply 200 ''{}''), mc_random = None, mc_terminal = False, mc_line = Inr [], mc_output = None,
     mc_file = (\<lambda>_. \<lparr>fv_open = Inr (), fv_is_file = Inr True, fv_reads = []\<rparr>), mc_text = (\<lambda>_. Inr []),
     mc_exists = (\<lambda>_. False), mc_create = (\<lambda>_. None),
     mc_save = \<lparr>sv_unix = True, sv_dir = None, sv_remove = None, sv_random = None, sv_write = None, sv_rename = None\<rparr>\<rparr>"

definition tool_api :: api where
  "tool_api = \<lparr>ap_base = management_url, ap_token = sample_management_token, ap_application_id = ''app'',
     ap_environment_id = ''env''\<rparr>"

lemma sample_management_token: "valid_token sample_management_token"
  by (simp add: valid_token_def sample_management_token_def token_prefix_def starts_with_iff token_byte_def
      list_all_iff text_defs byte_def)

lemma tool_connects: "connection (\<lambda>_. False) tool file = Inr tool_api"
proof -
  have "header_text (''Bearer '' @ sample_management_token)"
    by (simp add: header_text_def sample_management_token_def token_prefix_def list_all_iff byte_def)
  moreover have "base_url tool_libs (\<lambda>_. False) False v = Inr management_url" for v
    by (simp add: base_url_def tool_libs_def management_url_def Let_def)
  moreover have "valid_profile_name ''default''"
    by (simp add: valid_profile_name_def token_byte_def text_defs byte_def)
  ultimately show ?thesis
    by (simp add: connection_def tool_def profile_name_def setting_def env_token_def application_setting_def
        environment_setting_def url_setting_def choose_token_def sample_management_token first_some_def api_new_def
        tool_api_def Let_def)
      (simp add: sample_management_token_def token_prefix_def)
qed

lemma tool_read: "read_value tool_libs body = Some preview_reply"
  by (simp add: read_value_def from_slice_value_def tool_libs_def preview_reply_def)

theorem licences_move_as_previewed_witness:
  "\<exists>s' r batches. run_licences (\<lambda>_. False) tool (LicenceChangePolicy ''p'' ''r'' True [''l1'']) (start_state Missing) = (s', r)
     \<and> length (rs_requests s') = 2 \<and> set (concat batches) = {''l1''}"
proof -
  obtain s' r where run: "run_licences (\<lambda>_. False) tool (LicenceChangePolicy ''p'' ''r'' True [''l1'']) (start_state Missing) = (s', r)"
    by (cases "run_licences (\<lambda>_. False) tool (LicenceChangePolicy ''p'' ''r'' True [''l1'']) (start_state Missing)")
  have connected: "connect (\<lambda>_. False) tool s = (s, Inr tool_api)" for s
    by (simp add: connect_def cbind_def cgets_def cof_def tool_connects)
  have posted: "api_post tool tool_api segs b s = (s\<lparr>rs_requests := rs_requests s @ [\<lparr>rq_api = tool_api,
      rq_method = Post, rq_segments = segs, rq_query = scope_query tool_api, rq_body = Some b\<rparr>]\<rparr>, Inr ''{}'')" for segs b s
    by (simp add: api_post_def send_def tool_def success_def)
  have out: "write_err tool t s = (s\<lparr>rs_err := rs_err s @ t\<rparr>, Inr ())" "write_out tool t s = (s\<lparr>rs_out := rs_out s @ t\<rparr>, Inr ())"
    "gl_json (mc_global tool)" "mc_libs tool = tool_libs" for t s
    by (simp_all add: write_err_def write_out_def writing_def tool_def)
  have batches: "chunks BATCH [''l1''] = [[''l1'']]" by (simp add: chunks.simps BATCH_def)
  have pending: "pending_of preview_reply = [json_object [(''id'', JStr ''l1''), (''revision'', JInt 3)]]"
    by (simp add: pending_of_def page_items_def json_items_def preview_reply_def json_index_def json_get_def)
  have "length (rs_requests s') = 2"
    using run by (simp add: change_policy_def Let_def cbind_def connected cof_def posted out response_json_def tool_read
        batches pending move_licences_def confirm_def start_state_def split: if_splits)
      (auto simp: out)
  with licences_move_as_previewed[OF run] run show ?thesis by fastforce
qed

subsection \<open>Output\<close>

text \<open>A control is one byte below 32, DEL, or C2 before a byte of the second half.\<close>

definition starts_control :: "char \<Rightarrow> string \<Rightarrow> bool" where
  "starts_control c cs \<longleftrightarrow> byte c < 32 \<or> byte c = 127
     \<or> byte c = 194 \<and> cs \<noteq> [] \<and> 128 \<le> byte (hd cs) \<and> byte (hd cs) \<le> 159"

lemma has_control_Cons: "has_control (c # cs) \<longleftrightarrow> starts_control c cs \<or> has_control cs"
  by (cases cs) (auto simp: starts_control_def)

lemma has_control_append:
  "\<not> has_control a \<Longrightarrow> \<not> has_control b \<Longrightarrow> b = [] \<or> byte (hd b) < 128 \<Longrightarrow> \<not> has_control (a @ b)"
proof (induction a)
  case (Cons c cs)
  then have "\<not> starts_control c (cs @ b)" by (cases cs) (auto simp: has_control_Cons starts_control_def simp del: has_control.simps)
  with Cons show ?case by (simp add: has_control_Cons del: has_control.simps)
qed simp

lemma has_control_take: "\<not> has_control s \<Longrightarrow> \<not> has_control (take n s)"
proof (induction s arbitrary: n)
  case (Cons c cs)
  show ?case
  proof (cases n)
    case (Suc m)
    have "\<not> starts_control c (take m cs)"
      using Cons.prems by (cases cs; cases m) (auto simp: has_control_Cons starts_control_def simp del: has_control.simps)
    with Cons Suc show ?thesis by (simp add: has_control_Cons del: has_control.simps)
  qed simp
qed simp

lemma blank_controls_clean: "\<not> has_control (blank_controls s)"
proof (induction s rule: blank_controls.induct)
  case (2 c cs)
  show ?case
  proof (cases "byte c = 194")
    case False
    with 2 have "\<not> has_control (blank_controls cs)"
      by (cases "byte c < 32 \<or> byte c = 127") blast+
    moreover have "\<not> starts_control CHR '' '' x" for x by (simp add: starts_control_def byte_def)
    ultimately show ?thesis using False
      by (auto simp: has_control_Cons starts_control_def simp del: has_control.simps)
  next
    case c: True
    show ?thesis
    proof (cases cs)
      case (Cons d ds)
      have sp: "\<not> starts_control CHR '' '' x" for x by (simp add: starts_control_def byte_def)
      show ?thesis
      proof (cases "128 \<le> byte d \<and> byte d \<le> 159")
        case True
        then have "\<not> has_control (blank_controls ds)" using 2 c Cons by simp
        then show ?thesis using c Cons True sp by (simp add: has_control_Cons del: has_control.simps)
      next
        case False
        then have "\<not> has_control (blank_controls cs)" using 2 c Cons by simp
        moreover have "blank_controls cs \<noteq> [] \<and> (hd (blank_controls cs) = d \<or> hd (blank_controls cs) = CHR '' '')"
          using Cons by (cases ds) auto
        ultimately show ?thesis using c Cons False
          by (auto simp: has_control_Cons starts_control_def byte_def simp del: has_control.simps blank_controls.simps)
            (auto simp: blank_controls.simps(2)[of c] byte_def has_control_Cons starts_control_def simp del: has_control.simps)
      qed
    qed (use c in simp)
  qed
qed simp

lemma trim_end_clean: "\<not> has_control s \<Longrightarrow> \<not> has_control (trim_end s)"
proof (induction s rule: trim_end.induct)
  case (1 s)
  then show ?case by (subst trim_end.simps) (simp add: has_control_take)
qed


text \<open>Text of exactly \<open>n\<close> ended lines, without a control in any of them.\<close>

definition plain_lines :: "nat \<Rightarrow> string \<Rightarrow> bool" where
  "plain_lines n text \<longleftrightarrow> (let ls = split_on CHR 0x0A text in
     length ls = Suc n \<and> last ls = [] \<and> list_all (\<lambda>l. \<not> has_control l) ls)"

lemma newline_is_control: "\<not> has_control s \<Longrightarrow> CHR 0x0A \<notin> set s"
  by (induction s) (auto simp: has_control_Cons starts_control_def byte_def simp del: has_control.simps(2))

lemma split_lines:
  "list_all (\<lambda>l. \<not> has_control l) ls \<Longrightarrow> split_on CHR 0x0A (concat (map (\<lambda>l. l @ newline) ls)) = ls @ [[]]"
  by (induction ls) (auto simp: newline_def newline_is_control split_on_append)

lemma plain_concat:
  "list_all (\<lambda>l. \<not> has_control l) ls \<Longrightarrow> plain_lines (length ls) (concat (map (\<lambda>l. l @ newline) ls))"
  by (simp add: plain_lines_def split_lines)

definition printable :: "string \<Rightarrow> bool" where
  "printable s \<longleftrightarrow> list_all (\<lambda>c. 32 \<le> byte c \<and> byte c < 127) s"

lemma printable_clean: "printable s \<Longrightarrow> \<not> has_control s \<and> (s = [] \<or> byte (hd s) < 128)"
  unfolding printable_def
  by (induction s) (auto simp: has_control_Cons starts_control_def simp del: has_control.simps(2))

lemma spaces_clean: "\<not> has_control (replicate n CHR '' '') \<and> (n = 0 \<or> byte (hd (replicate n CHR '' '')) < 128)"
  by (cases n) (use printable_clean[of "replicate n CHR '' ''"] in \<open>auto simp: printable_def list_all_iff byte_def\<close>)

lemma pad_clean: "\<not> has_control s \<Longrightarrow> \<not> has_control (pad w s)"
  unfolding pad_def using spaces_clean[of "w - char_count s"] by (intro has_control_append) auto

lemma spaced_clean:
  assumes "\<not> has_control a" "\<not> has_control b" shows "\<not> has_control (a @ ''  '' @ b)"
proof (rule has_control_append)
  show "\<not> has_control (''  '' @ b)"
    using assms(2) by (simp add: has_control_Cons starts_control_def byte_def del: has_control.simps(2))
qed (use assms in \<open>simp_all add: byte_def\<close>)

lemma join_clean: "list_all (\<lambda>s. \<not> has_control s) xs \<Longrightarrow> \<not> has_control (join_with ''  '' xs)"
proof (induction "''  ''" xs rule: join_with.induct)
  case (3 p q ps)
  then have "\<not> has_control p" "\<not> has_control (join_with ''  '' (q # ps))" by simp_all
  from spaced_clean[OF this] show ?case by (simp only: join_with.simps not_False_eq_True)
qed auto

lemma table_line_plain:
  "list_all (\<lambda>s. \<not> has_control s) row \<Longrightarrow> \<exists>l. table_line widths row = l @ newline \<and> \<not> has_control l"
  unfolding table_line_def
  by (rule exI, rule conjI, rule refl, rule trim_end_clean, rule join_clean)
    (auto simp: list_all_iff dest!: set_zip_leftD dest: pad_clean)

lemma to_upper_printable: "printable c \<Longrightarrow> printable (map to_upper c)"
  by (auto simp: printable_def list_all_iff to_upper_def is_lower_def byte_char_of)

lemma cell_clean: "\<not> has_control (cell X v)"
  unfolding cell_def by (rule blank_controls_clean)

lemma concat_lines:
  "list_all (\<lambda>t. \<exists>l. t = l @ newline \<and> \<not> has_control l) ts \<Longrightarrow> plain_lines (length ts) (concat ts)"
proof -
  assume "list_all (\<lambda>t. \<exists>l. t = l @ newline \<and> \<not> has_control l) ts"
  then have "\<exists>ls. concat ts = concat (map (\<lambda>l. l @ newline) ls) \<and> list_all (\<lambda>l. \<not> has_control l) ls
      \<and> length ls = length ts"
  proof (induction ts)
    case (Cons t ts)
    then obtain l ls where "t = l @ newline" "\<not> has_control l" "concat ts = concat (map (\<lambda>l. l @ newline) ls)"
      "list_all (\<lambda>l. \<not> has_control l) ls" "length ls = length ts" by auto
    then show ?case by (intro exI[of _ "l # ls"]) simp
  qed (simp add: exI[of _ "[]"])
  then show ?thesis using plain_concat by metis
qed

text \<open>
  C33.  What the service sends cannot control the terminal.  Whatever strings, controls and line
  breaks included, an API document holds, the table of its rows is exactly one line for the header
  and one for each row (or the one line that there are none), the list of its fields exactly one
  line for each field, and no line has a C0 or C1 control character.
\<close>

theorem output_has_no_controls:
  assumes "list_all printable columns"
  shows "plain_lines (Suc (length rows)) (table X columns rows)
    \<and> plain_lines (length columns) (field_lines X v columns)"
proof
  have up: "list_all (\<lambda>s. \<not> has_control s) (map (map to_upper) columns)"
    using assms printable_clean to_upper_printable by (auto simp: list_all_iff)
  have row: "list_all (\<lambda>s. \<not> has_control s) (map (\<lambda>c. cell X (json_index r c)) columns)" for r
    by (simp add: list_all_iff cell_clean)
  show "plain_lines (Suc (length rows)) (table X columns rows)"
  proof (cases "rows = []")
    case True
    have "\<not> has_control ''No results.''" by (simp add: byte_def)
    with True plain_concat[of "[''No results.'']"] show ?thesis by (simp add: table_def)
  next
    case False
    let ?cells = "map (\<lambda>row. map (\<lambda>c. cell X (json_index row c)) columns) rows"
    let ?ts = "\<lambda>widths. map (table_line widths) (map (map to_upper) columns # ?cells)"
    have "list_all (\<lambda>t. \<exists>l. t = l @ newline \<and> \<not> has_control l) (?ts widths)" for widths
      using table_line_plain[OF up] table_line_plain[OF row] by (auto simp: list_all_iff)
    from concat_lines[OF this] have "plain_lines (Suc (length rows)) (concat (?ts widths))" for widths by simp
    with False show ?thesis unfolding table_def Let_def by (simp only: if_False)
  qed
  let ?line = "\<lambda>width name. trim_end (pad width name @ ''  '' @ cell X (json_index v name)) @ newline"
  have "\<exists>l. ?line width name = l @ newline \<and> \<not> has_control l" if "name \<in> set columns" for width name
  proof -
    have "\<not> has_control (pad width name)"
      using assms that printable_clean pad_clean by (auto simp: list_all_iff)
    then have "\<not> has_control (pad width name @ ''  '' @ cell X (json_index v name))"
      by (rule spaced_clean[OF _ cell_clean])
    then show ?thesis using trim_end_clean by blast
  qed
  then have "list_all (\<lambda>t. \<exists>l. t = l @ newline \<and> \<not> has_control l) (map (?line width) columns)" for width
    by (auto simp: list_all_iff)
  from concat_lines[OF this] show "plain_lines (length columns) (field_lines X v columns)"
    unfolding field_lines_def Let_def by (simp only: length_map)
qed

theorem output_has_no_controls_witness:
  "plain_lines 2 (table tool_libs [''id''] [JObj [(''id'', JStr [CHR 0x1B, CHR ''['', CHR 0x0A, CHR ''J''])]])"
proof -
  have "list_all printable [''id'']" by (simp add: printable_def byte_def)
  from output_has_no_controls[OF this, where X = tool_libs
      and rows = "[JObj [(''id'', JStr [CHR 0x1B, CHR ''['', CHR 0x0A, CHR ''J''])]]"]
  show ?thesis by (simp add: numeral_2_eq_2)
qed

subsection \<open>Saved credentials\<close>

lemma map_of_filter: "map_of xs k = map_option snd (case filter (\<lambda>x. fst x = k) xs of [] \<Rightarrow> None | x # _ \<Rightarrow> Some x)"
  by (induction xs) auto

lemma map_of_sort_key [simp]: "map_of (sort_key fst xs) = map_of xs"
  by (rule ext) (simp add: map_of_filter[of "sort_key fst xs"] map_of_filter[of xs] sort_key_stable)

lemma map_of_insert_profile: "map_of (insert_profile name p ps) = (map_of ps)(name \<mapsto> p)"
proof -
  have "map_of (filter (\<lambda>(k, q). k \<noteq> name) ps) x = map_of ps x" if "x \<noteq> name" for x
    using that by (induction ps) auto
  then show ?thesis unfolding insert_profile_def map_of_sort_key by auto
qed

lemma cbind_Inr: "cbind m k s = (s', Inr y) \<longleftrightarrow> (\<exists>s1 x. m s = (s1, Inr x) \<and> k x s1 = (s', Inr y))"
  by (auto simp: cbind_def split: prod.splits sum.splits)

lemma cof_Inr: "cof r s = (s', Inr x) \<longleftrightarrow> s' = s \<and> r = Inr x"
  by (auto simp: cof_def)

lemma save_then_load:
  assumes "save_profiles X k dir ps file = (file', Inr ())"
    and "\<And>ps text. store_text X ps = Some text \<Longrightarrow> de_store X (text @ newline) = Some ps"
  shows "load_profiles X dir file' = Inr ps"
  using assms
  by (auto simp: save_profiles_def load_profiles_def Let_def check_private_def shown_err_def
      split: sum.splits option.splits if_splits)

text \<open>
  C34.  Saved credentials are read back.  When \<open>orbit credentials set\<close> succeeds, the token it read is
  well formed, and loading the file afterwards gives the profiles that were there before, with
  exactly the named one replaced by this token, the scope of the flags or the environment, and the
  URL of the flag; nothing was sent.
\<close>

theorem credentials_are_read_back:
  assumes "run_credentials B w CredentialsSet s = (s', Inr ())"
    and "\<And>ps text. store_text (mc_libs w) ps = Some text \<Longrightarrow> de_store (mc_libs w) (text @ newline) = Some ps"
  shows "\<exists>name dir token application environment ps ps'.
      profile_name w = Inr name \<and> config_directory (mc_os w) (mc_absolute w) (mc_env w) = Inr dir
    \<and> read_token w = Inr token \<and> valid_token token
    \<and> application_setting w = Some application \<and> environment_setting w = Some environment
    \<and> load_profiles (mc_libs w) dir (rs_profiles s) = Inr ps \<and> load_profiles (mc_libs w) dir (rs_profiles s') = Inr ps'
    \<and> map_of ps' = (map_of ps)(name \<mapsto> \<lparr>pl_token = token, pl_application_id = application,
         pl_environment_id = environment, pl_api_url = gl_api_url (mc_global w)\<rparr>)
    \<and> rs_requests s' = rs_requests s"
proof -
  from assms(1) obtain name application environment dir ps token s1 where
    r: "profile_name w = Inr name" "application_setting w = Some application" "environment_setting w = Some environment"
      "config_directory (mc_os w) (mc_absolute w) (mc_env w) = Inr dir"
      "load_profiles (mc_libs w) dir (rs_profiles s) = Inr ps" "read_token w = Inr token"
    and save: "save_to w dir (insert_profile name \<lparr>pl_token = token, pl_application_id = application,
         pl_environment_id = environment, pl_api_url = gl_api_url (mc_global w)\<rparr> ps) s = (s1, Inr ())"
    and out: "write_out w (''Saved '' @ redact token @ '' as profile '' @ quoted name @ '' in ''
         @ path_join dir FILE_NAME @ ''.'' @ newline) s1 = (s', Inr ())"
    by (auto simp: set_credentials_def cbind_Inr cof_Inr cgets_def needed_def ok_or_iff)
  have s': "rs_profiles s' = rs_profiles s1" "rs_requests s' = rs_requests s1"
    using out by (auto simp: write_out_def writing_def split: option.splits)
  from save obtain stored where "save_profiles (mc_libs w) (mc_save w) dir (insert_profile name \<lparr>pl_token = token,
       pl_application_id = application, pl_environment_id = environment, pl_api_url = gl_api_url (mc_global w)\<rparr> ps)
       (rs_profiles s) = (stored, Inr ())" "s1 = s\<lparr>rs_profiles := stored\<rparr>"
    by (auto simp: save_to_def split: prod.splits)
  with save_then_load[OF this(1) assms(2)] s'
  have "load_profiles (mc_libs w) dir (rs_profiles s') = Inr (insert_profile name \<lparr>pl_token = token,
       pl_application_id = application, pl_environment_id = environment, pl_api_url = gl_api_url (mc_global w)\<rparr> ps)"
    "rs_requests s' = rs_requests s" by simp_all
  moreover have "valid_token token" using r(6) by (auto simp: read_token_def rbind_Inr_iff ensure_iff)
  ultimately show ?thesis using r map_of_insert_profile by blast
qed

text \<open>The same operator saves a first profile.\<close>

definition first_profiles :: profiles where
  "first_profiles = insert_profile ''default'' \<lparr>pl_token = sample_management_token, pl_application_id = ''app'',
     pl_environment_id = ''env'', pl_api_url = None\<rparr> []"

definition saving_tool :: machine where
  "saving_tool = tool\<lparr>mc_line := Inr sample_management_token,
     mc_env := (\<lambda>name. if name = ''ORBIT_CONFIG_DIR'' then Some ''/c'' else None),
     mc_libs := tool_libs\<lparr>store_text := (\<lambda>ps. if ps = first_profiles then Some ''p'' else None),
       de_store := (\<lambda>_. Some first_profiles)\<rparr>,
     mc_save := \<lparr>sv_unix = True, sv_dir = None, sv_remove = None, sv_random = Some ''r'', sv_write = None, sv_rename = None\<rparr>\<rparr>"

theorem credentials_are_read_back_witness:
  "\<exists>s' ps'. run_credentials (\<lambda>_. False) saving_tool CredentialsSet (start_state Missing) = (s', Inr ())
     \<and> load_profiles (mc_libs saving_tool) ''/c'' (rs_profiles s') = Inr ps' \<and> map_of ps' ''default'' \<noteq> None"
proof -
  have dir: "config_directory (mc_os saving_tool) (mc_absolute saving_tool) (mc_env saving_tool) = Inr ''/c''"
    by (simp add: config_directory_def absolute_var_def saving_tool_def tool_def)
  have name: "profile_name saving_tool = Inr ''default''"
    by (simp add: profile_name_def setting_def saving_tool_def tool_def valid_profile_name_def token_byte_def text_defs byte_def)
  have settings: "application_setting saving_tool = Some ''app''" "environment_setting saving_tool = Some ''env''"
    "gl_api_url (mc_global saving_tool) = None"
    by (simp_all add: application_setting_def environment_setting_def setting_def saving_tool_def tool_def)
  have "trim sample_management_token = sample_management_token"
    by (rule trim_id) (simp_all add: sample_management_token_def token_prefix_def ws_front_def ws_back_def byte_def Let_def
        numeral_eq_Suc)
  then have token: "read_token saving_tool = Inr sample_management_token"
    by (simp add: read_token_def saving_tool_def sample_management_token)
  have save: "save_profiles (mc_libs saving_tool) (mc_save saving_tool) ''/c'' first_profiles Missing
      = (Regular (Some 0x180) (Inr (''p'' @ newline)), Inr ())"
  proof -
    have "first_profiles \<noteq> []" by (simp add: first_profiles_def insert_profile_def)
    then show ?thesis by (simp add: save_profiles_def saving_tool_def worked_def random_hex_def)
  qed
  obtain s' where run: "run_credentials (\<lambda>_. False) saving_tool CredentialsSet (start_state Missing) = (s', Inr ())"
    by (simp add: set_credentials_def cbind_def cof_def cgets_def name settings dir needed_def token start_state_def
        load_profiles_def Let_def save_to_def save first_profiles_def[symmetric] write_out_def writing_def)
      (simp add: saving_tool_def tool_def)
  have law: "store_text (mc_libs saving_tool) ps = Some t \<Longrightarrow> de_store (mc_libs saving_tool) (t @ newline) = Some ps"
    for ps t by (simp add: saving_tool_def split: if_splits)
  from credentials_are_read_back[OF run law] run show ?thesis
    using dir name by fastforce
qed

end
