(* ===== verification/Bindings.thy ===== *)
theory Bindings
  imports External
begin

text \<open>
  The Rust bindings of the embedded client (\<open>sdk/embedded/rust/src/lib.rs\<close>): result codes, the
  platform callbacks that the C client calls back into, the exchange of one request, and the
  checks on what the C functions hand back.

  A call into the C client is a parameter of the definition that makes it; the C receivers of
  response bytes (\<open>sdk/embedded/src/orbit_client.c\<close>, \<open>orbit_services_codec.c\<close>) are translated here,
  since the exchange loop ends only because they bound what they accept.  What the platform
  answers is an input: every answer is a value that the callback receives.  A C or Rust \<open>i32\<close> is an
  \<open>int\<close>; nothing is computed with it.
\<close>

subsection \<open>Result codes\<close>

datatype code_error = CodeError int

abbreviation "ARGUMENT \<equiv> CodeError 10"
abbreviation "UNTRUSTED \<equiv> CodeError 12"

type_synonym 'a code_result = "code_error + 'a"

fun error_code :: "code_error \<Rightarrow> int" where "error_code (CodeError n) = n"

definition error_names :: "(int \<times> string) list" where
  "error_names = [(10, ''argument''), (11, ''storage''), (12, ''untrusted''), (13, ''transient''), (14, ''denied''),
     (15, ''activation_required''), (16, ''clock''), (17, ''pending''), (18, ''stale''), (19, ''resource_limit''),
     (20, ''not_found''), (21, ''busy''), (23, ''cancelled''), (24, ''capacity''), (25, ''session_required''),
     (26, ''app_version_unsupported'')]"

definition error_name :: "code_error \<Rightarrow> string" where
  "error_name e = (case map_of error_names (error_code e) of Some s \<Rightarrow> s | None \<Rightarrow> ''unknown'')"

definition from_code :: "int \<Rightarrow> code_error option" where
  "from_code n = (if n = 0 then None else Some (CodeError n))"

definition display_code_error :: "code_error \<Rightarrow> string" where
  "display_code_error e = ''Orbit '' @ error_name e @ '' ('' @ decimal_int (error_code e) @ '')''"

definition check_code :: "int \<Rightarrow> unit code_result" where
  "check_code n = (if n = 0 then Inr () else Inl (CodeError n))"

definition code_of :: "unit code_result \<Rightarrow> int" where
  "code_of r = (case r of Inl e \<Rightarrow> error_code e | Inr _ \<Rightarrow> 0)"

text \<open>Every error that safe code can hold has a code other than 0: the constants, \<open>from_code\<close> and
  \<open>check\<close> are the only ways to make one.\<close>

definition sound_result :: "'a code_result \<Rightarrow> bool" where
  "sound_result r \<longleftrightarrow> (case r of Inl e \<Rightarrow> error_code e \<noteq> 0 | Inr _ \<Rightarrow> True)"

lemma check_code_sound: "sound_result (check_code n)"
  by (simp add: sound_result_def check_code_def)

lemma from_code_nonzero: "from_code n = Some e \<Longrightarrow> error_code e \<noteq> 0"
  by (auto simp: from_code_def split: if_splits)

lemma check_code_Inr_iff [result_simps]: "check_code n = Inr u \<longleftrightarrow> n = 0"
  by (simp add: check_code_def)

lemma check_code_Inl_iff [result_simps]: "check_code n = Inl e \<longleftrightarrow> n \<noteq> 0 \<and> e = CodeError n"
  by (auto simp: check_code_def)

lemma code_of_zero_iff: "sound_result r \<Longrightarrow> code_of r = 0 \<longleftrightarrow> r = Inr ()"
  by (cases r) (auto simp: code_of_def sound_result_def)

lemma check_code_of: "sound_result r \<Longrightarrow> check_code (code_of r) = r"
  by (cases r; cases "projl r") (auto simp: check_code_def code_of_def sound_result_def)

subsection \<open>Borrowed text\<close>

text \<open>\<open>Slice::str\<close>: the length is a \<open>u32\<close>.  The slice is modelled by its contents.\<close>

definition slice_str :: "string \<Rightarrow> string code_result" where
  "slice_str s = rbind (ensure ARGUMENT (length s < 2 ^ 32)) (\<lambda>_. Inr s)"

text \<open>\<open>raw_str\<close>.\<close>

definition raw_str :: "('x) external_scheme \<Rightarrow> string \<Rightarrow> string code_result" where
  "raw_str X s = rbind (ensure UNTRUSTED (utf8 X s)) (\<lambda>_. Inr s)"

lemma slice_str_Inr_iff [result_simps]: "slice_str s = Inr t \<longleftrightarrow> length s < 2 ^ 32 \<and> t = s"
  by (auto simp: slice_str_def rbind_Inr_iff ensure_iff)

lemma raw_str_Inr_iff [result_simps]: "raw_str X s = Inr t \<longleftrightarrow> utf8 X s \<and> t = s"
  by (auto simp: raw_str_def rbind_Inr_iff ensure_iff)

text \<open>
  A slice that the C parser returned, as address and length, and \<open>borrowed_str\<close>: the slice must
  lie within the text that was parsed, which is at address \<open>start\<close>.
\<close>

record raw_slice =
  sl_data :: nat
  sl_length :: nat

definition checked_usize :: "nat \<Rightarrow> nat \<Rightarrow> nat code_result" where
  "checked_usize a b = ok_or UNTRUSTED (if a + b < 2 ^ 64 then Some (a + b) else None)"

definition borrowed_str :: "('x) external_scheme \<Rightarrow> nat \<Rightarrow> string \<Rightarrow> raw_slice \<Rightarrow> string code_result" where
  "borrowed_str X start value s =
     rbind (checked_usize start (length value)) (\<lambda>e.
     rbind (checked_usize (sl_data s) (sl_length s)) (\<lambda>part_end.
     rbind (ensure UNTRUSTED (\<not> (sl_data s < start \<or> part_end > e \<or> part_end < sl_data s))) (\<lambda>_.
       raw_str X (take (sl_length s) (drop (sl_data s - start) value)))))"

lemma checked_usize_Inr_iff [result_simps]: "checked_usize a b = Inr n \<longleftrightarrow> a + b < 2 ^ 64 \<and> n = a + b"
  by (auto simp: checked_usize_def ok_or_iff)

text \<open>What is borrowed is a part of the parsed text, of the length the slice says.\<close>

lemma borrowed_str_within:
  assumes "borrowed_str X start value s = Inr t"
  shows "\<exists>p q. value = p @ t @ q \<and> length p = sl_data s - start \<and> length t = sl_length s \<and> utf8 X t"
proof -
  let ?k = "sl_data s - start"
  from assms have t: "t = take (sl_length s) (drop ?k value)" "utf8 X t"
    and le: "start \<le> sl_data s" "sl_data s + sl_length s \<le> start + length value"
    by (auto simp: borrowed_str_def result_simps)
  then have "length t = sl_length s" "length (take ?k value) = ?k" by auto
  moreover have "value = take ?k value @ t @ drop (sl_length s) (drop ?k value)"
    unfolding t(1) by (simp only: append_take_drop_id)
  ultimately show ?thesis using t(2) by blast
qed

subsection \<open>Buffers\<close>

text \<open>A callee that receives a mutable slice may write into it but not change its length.\<close>

definition overwrite :: "string \<Rightarrow> string \<Rightarrow> string" where
  "overwrite buffer out = take (length buffer) (out @ drop (length out) buffer)"

definition zeros :: "nat \<Rightarrow> string" where "zeros n = replicate n (char_of (0 :: nat))"

lemma length_overwrite [simp]: "length (overwrite buffer out) = length buffer"
  by (simp add: overwrite_def min_def)

lemma length_zeros [simp]: "length (zeros n) = n"
  by (simp add: zeros_def)

lemma overwrite_all: "length out = length buffer \<Longrightarrow> overwrite buffer out = out"
  by (simp add: overwrite_def)

subsection \<open>The platform callbacks\<close>

text \<open>
  Each callback turns the platform's answer into a result code and the memory that the C client
  sees: \<open>None\<close> where it writes nothing.
\<close>

definition clock_callback :: "(int \<times> nat) code_result \<Rightarrow> int \<times> (int \<times> nat) option" where
  "clock_callback r = (case r of Inr v \<Rightarrow> (0, Some v) | Inl e \<Rightarrow> (error_code e, None))"

definition entropy_callback :: "nat \<Rightarrow> string \<times> unit code_result \<Rightarrow> int \<times> string option" where
  "entropy_callback n answer =
     (let output = zeros 16 in
      if n > length output then (19, None)
      else (case snd answer of
          Inr _ \<Rightarrow> (0, Some (overwrite (take n output) (fst answer)))
        | Inl e \<Rightarrow> (error_code e, None)))"

text \<open>
  \<open>load\<close>, \<open>download_read\<close> and \<open>offline_read\<close> read straight into the caller's memory \<open>buffer\<close>, whose
  new contents are the second result; they differ in the code for a count beyond its end.
\<close>

definition read_callback :: "int \<Rightarrow> string \<Rightarrow> string \<times> nat code_result \<Rightarrow> int \<times> string \<times> nat option" where
  "read_callback too_long buffer answer =
     (let buffer' = overwrite buffer (fst answer) in
      case snd answer of
        Inr m \<Rightarrow> if m \<le> length buffer then (0, buffer', Some m) else (too_long, buffer', None)
      | Inl e \<Rightarrow> (error_code e, buffer', None))"

definition load_callback :: "string \<Rightarrow> string \<times> nat code_result \<Rightarrow> int \<times> string \<times> nat option" where
  "load_callback = read_callback 11"

text \<open>The digest, shared by \<open>sha256\<close> and \<open>hash_finish\<close>.\<close>

definition digest_callback :: "string \<times> unit code_result \<Rightarrow> int \<times> string option" where
  "digest_callback answer =
     (case snd answer of
        Inr _ \<Rightarrow> (0, Some (overwrite (zeros 32) (fst answer)))
      | Inl e \<Rightarrow> (error_code e, None))"

text \<open>\<open>commit\<close>, \<open>validate\<close> and \<open>verify\<close> hand the answer on as a code: they are \<open>code_of\<close>.\<close>

subsection \<open>The exchange\<close>

record raw_request =
  rr_origin :: string
  rr_path :: string
  rr_body :: string
  rr_client :: string
  rr_post :: nat

record platform_request =
  pr_origin :: string
  pr_path :: string
  pr_body :: string
  pr_client :: string
  pr_post :: bool

datatype platform_call = BeginRequest platform_request | ReadResponse | EndResponse

text \<open>
  The answers of one exchange: to the request, and to the \<open>k\<close>-th read.  The receiver also sees the
  status, which is written before the first chunk.
\<close>

record link =
  lk_begin :: "nat code_result"
  lk_read :: "nat \<Rightarrow> string \<times> nat code_result"

text \<open>
  The read loop, with the C receiver as a state transformer.  It yields the receiver's state, the
  result code and the number of reads, and nothing when it does not end.
\<close>

partial_function (option) read_loop ::
    "(nat \<Rightarrow> string \<times> nat code_result) \<Rightarrow> (string \<Rightarrow> 'c \<Rightarrow> 'c \<times> int) \<Rightarrow> nat \<Rightarrow> string \<Rightarrow> 'c \<Rightarrow> ('c \<times> int \<times> nat) option" where
  "read_loop reads receive k buffer c =
     (let buffer' = overwrite buffer (fst (reads k)) in
      case snd (reads k) of
        Inl e \<Rightarrow> Some (c, error_code e, Suc k)
      | Inr n \<Rightarrow>
          if n = 0 then Some (c, 0, Suc k)
          else if n \<le> length buffer then
            (case receive (take n buffer') c of (c', result) \<Rightarrow>
               if result \<noteq> 0 then Some (c', result, Suc k)
               else read_loop reads receive (Suc k) buffer' c')
          else Some (c, 19, Suc k))"

record 'c exchanged =
  ex_sink :: 'c
  ex_status :: "nat option"      \<comment> \<open>what was written to \<open>status\<close>\<close>
  ex_code :: int
  ex_calls :: "platform_call list"

definition platform_request_of :: "raw_request \<Rightarrow> platform_request" where
  "platform_request_of q = \<lparr>pr_origin = rr_origin q, pr_path = rr_path q, pr_body = rr_body q,
     pr_client = rr_client q, pr_post = (rr_post q \<noteq> 0)\<rparr>"

definition exchange ::
    "('x) external_scheme \<Rightarrow> link \<Rightarrow> (nat \<Rightarrow> string \<Rightarrow> 'c \<Rightarrow> 'c \<times> int) \<Rightarrow> raw_request \<Rightarrow> 'c \<Rightarrow> 'c exchanged option" where
  "exchange X w receive q c =
     (if \<not> utf8 X (rr_origin q) \<or> \<not> utf8 X (rr_path q) \<or> \<not> utf8 X (rr_client q)
      then Some \<lparr>ex_sink = c, ex_status = None, ex_code = 12, ex_calls = []\<rparr>
      else (case lk_begin w of
          Inl e \<Rightarrow> Some \<lparr>ex_sink = c, ex_status = None, ex_code = error_code e,
             ex_calls = [BeginRequest (platform_request_of q), EndResponse]\<rparr>
        | Inr s \<Rightarrow> map_option (\<lambda>(c', result, n). \<lparr>ex_sink = c', ex_status = Some s, ex_code = result,
             ex_calls = BeginRequest (platform_request_of q) # replicate n ReadResponse @ [EndResponse]\<rparr>)
            (read_loop (lk_read w) (receive s) 0 (zeros 512) c)))"

end
