(* ===== verification/Receivers.thy ===== *)
theory Receivers
  imports Bindings
begin

text \<open>
  The C functions that receive the chunks of a response (\<open>receive_response\<close> and \<open>receive_keys\<close> of
  \<open>sdk/embedded/src/orbit_client.c\<close>, \<open>receive_service\<close> of \<open>orbit_services_codec.c\<close>), what they have
  in common as a locale, and the guarantee of the Rust exchange over them: it ends, and it hands
  over the whole response or reports an error.
\<close>

subsection \<open>The receivers\<close>

record response_sink =
  rs_arena :: string
  rs_length :: nat
  rs_error :: int

definition store_at :: "string \<Rightarrow> nat \<Rightarrow> string \<Rightarrow> string" where
  "store_at arena n b = take n arena @ b @ drop (n + length b) arena"

definition receive_response :: "string \<Rightarrow> response_sink \<Rightarrow> response_sink \<times> int" where
  "receive_response b s =
     (if rs_length s > length (rs_arena s) \<or> length b > length (rs_arena s) - rs_length s
      then (s\<lparr>rs_error := 19\<rparr>, 19)
      else (s\<lparr>rs_arena := store_at (rs_arena s) (rs_length s) b, rs_length := rs_length s + length b\<rparr>, 0))"

definition MAX_JSON_BYTES :: nat where "MAX_JSON_BYTES = 32768"

record 'i key_sink =
  ks_importer :: 'i
  ks_bytes :: nat
  ks_error :: int

text \<open>\<open>feed\<close> is the incremental key-set parser, \<open>orbit_jwks_feed\<close>.\<close>

definition receive_keys ::
    "(string \<Rightarrow> 'i \<Rightarrow> 'i \<times> int) \<Rightarrow> nat \<Rightarrow> string \<Rightarrow> 'i key_sink \<Rightarrow> 'i key_sink \<times> int" where
  "receive_keys feed http b s =
     (if length b > MAX_JSON_BYTES - ks_bytes s then (s\<lparr>ks_error := 19\<rparr>, 19)
      else (let s1 = s\<lparr>ks_bytes := ks_bytes s + length b\<rparr> in
        if http \<noteq> 200 then (s1, 0)
        else (case feed b (ks_importer s1) of (i, r) \<Rightarrow>
          if r \<noteq> 0 then (s1\<lparr>ks_importer := i, ks_error := 12\<rparr>, 12) else (s1\<lparr>ks_importer := i\<rparr>, 0))))"

text \<open>\<open>ss_asked\<close> counts the questions to the operation's cancel callback.\<close>

record service_sink = response_sink +
  ss_asked :: nat

definition receive_service :: "(nat \<Rightarrow> bool) \<Rightarrow> string \<Rightarrow> service_sink \<Rightarrow> service_sink \<times> int" where
  "receive_service cancelled b s =
     (let s1 = s\<lparr>ss_asked := Suc (ss_asked s)\<rparr> in
      if cancelled (ss_asked s) then (s1\<lparr>rs_error := 23\<rparr>, 23)
      else if length b > length (rs_arena s) - rs_length s then (s1\<lparr>rs_error := 19\<rparr>, 19)
      else (s1\<lparr>rs_arena := store_at (rs_arena s) (rs_length s) b, rs_length := rs_length s + length b\<rparr>, 0))"

lemma length_store_at [simp]: "length b \<le> length arena - n \<Longrightarrow> length (store_at arena n b) = length arena"
  unfolding store_at_def by (cases "n \<le> length arena") (simp_all add: min_absorb1 min_absorb2)

lemma take_store_at: "n + length b \<le> length arena \<Longrightarrow> take (n + length b) (store_at arena n b) = take n arena @ b"
  unfolding store_at_def by (simp add: min_absorb2)

subsection \<open>What the receivers promise\<close>

text \<open>
  The chunks of the reads \<open>k\<close> to \<open>k + n\<close>, cut from the buffer that one read after the other writes
  into, and the receiver's run over a list of chunks.
\<close>

definition count_of :: "string \<times> nat code_result \<Rightarrow> nat" where
  "count_of a = (case snd a of Inr n \<Rightarrow> n | Inl _ \<Rightarrow> 0)"

fun chunks_from :: "(nat \<Rightarrow> string \<times> nat code_result) \<Rightarrow> string \<Rightarrow> nat \<Rightarrow> nat \<Rightarrow> string list" where
  "chunks_from reads buffer k 0 = []"
| "chunks_from reads buffer k (Suc n) =
     (let buffer' = overwrite buffer (fst (reads k)) in
      take (count_of (reads k)) buffer' # chunks_from reads buffer' (Suc k) n)"

fun feed_all :: "(string \<Rightarrow> 'c \<Rightarrow> 'c \<times> int) \<Rightarrow> string list \<Rightarrow> 'c \<Rightarrow> 'c option" where
  "feed_all receive [] c = Some c"
| "feed_all receive (b # bs) c =
     (case receive b c of (c', r) \<Rightarrow> if r = 0 then feed_all receive bs c' else None)"

text \<open>The platform delivers \<open>n\<close> full or partial buffers from read \<open>k\<close> on, and then the end.\<close>

definition complete_reads :: "(nat \<Rightarrow> string \<times> nat code_result) \<Rightarrow> nat \<Rightarrow> nat \<Rightarrow> nat \<Rightarrow> bool" where
  "complete_reads reads room k n \<longleftrightarrow>
     (\<forall>i<n. \<exists>x. snd (reads (k + i)) = Inr x \<and> 0 < x \<and> x \<le> room) \<and> snd (reads (k + n)) = Inr 0"

lemma complete_reads_0: "complete_reads reads room k 0 \<longleftrightarrow> snd (reads k) = Inr 0"
  by (simp add: complete_reads_def)

lemma complete_reads_Suc:
  "complete_reads reads room k (Suc n) \<longleftrightarrow>
     (\<exists>x. snd (reads k) = Inr x \<and> 0 < x \<and> x \<le> room) \<and> complete_reads reads room (Suc k) n"
  by (auto simp: complete_reads_def less_Suc_eq_0_disj)

lemma complete_reads_unique:
  assumes "complete_reads reads room k n" "complete_reads reads room k m"
  shows "n = m"
  using assms
proof (induction n arbitrary: k m)
  case 0
  then show ?case by (cases m) (auto simp: complete_reads_0 complete_reads_Suc)
next
  case (Suc n)
  then show ?case by (cases m) (auto simp: complete_reads_0 complete_reads_Suc)
qed

text \<open>The loop succeeds exactly when the platform delivers to the end and every chunk is taken.\<close>

lemma loop_succeeds:
  "complete_reads reads (length buffer) k m \<Longrightarrow> feed_all receive (chunks_from reads buffer k m) c = Some c' \<Longrightarrow>
   read_loop reads receive k buffer c = Some (c', 0, Suc (k + m))"
proof (induction m arbitrary: k buffer c)
  case 0
  then show ?case by (subst read_loop.simps) (simp add: complete_reads_0)
next
  case (Suc m)
  then show ?case
    by (subst read_loop.simps) (auto simp: complete_reads_Suc count_of_def Let_def split: prod.splits if_splits)
qed

lemma loop_success_aux:
  "read_loop reads receive k buffer c = Some y \<Longrightarrow> fst (snd y) = 0 \<longrightarrow> (\<forall>j. sound_result (snd (reads j))) \<longrightarrow>
    (\<exists>m. snd (snd y) = Suc (k + m) \<and> complete_reads reads (length buffer) k m
       \<and> feed_all receive (chunks_from reads buffer k m) c = Some (fst y))"
proof (induction rule: read_loop.raw_induct[rotated 1, consumes 1])
  case (1 loop reads receive k buffer c y)
  let ?b = "overwrite buffer (fst (reads k))"
  show ?case
  proof (intro impI)
    assume r: "fst (snd y) = 0" and sound: "\<forall>j. sound_result (snd (reads j))"
    then have "error_code e \<noteq> 0" if "snd (reads k) = Inl e" for e
      using spec[OF sound, of k] that by (simp add: sound_result_def)
    with 1(2) r consider "snd (reads k) = Inr 0" "y = (c, 0, Suc k)"
      | x c1 where "snd (reads k) = Inr x" "0 < x" "x \<le> length buffer" "receive (take x ?b) c = (c1, 0)"
          "loop reads receive (Suc k) ?b c1 = Some y"
      by (fastforce simp: Let_def split: sum.splits prod.splits if_splits)
    then show "\<exists>m. snd (snd y) = Suc (k + m) \<and> complete_reads reads (length buffer) k m
        \<and> feed_all receive (chunks_from reads buffer k m) c = Some (fst y)"
    proof cases
      case 1
      then show ?thesis by (intro exI[of _ 0]) (simp add: complete_reads_0)
    next
      case (2 x c1)
      from 1(1)[OF 2(5)] r sound obtain m where "snd (snd y) = Suc (Suc k + m)"
        "complete_reads reads (length ?b) (Suc k) m" "feed_all receive (chunks_from reads ?b (Suc k) m) c1 = Some (fst y)"
        by blast
      with 2 show ?thesis
        by (intro exI[of _ "Suc m"]) (simp add: complete_reads_Suc count_of_def Let_def)
    qed
  qed
qed

lemma loop_succeeds_iff:
  assumes "\<And>j. sound_result (snd (reads j))"
  shows "read_loop reads receive k buffer c = Some (c', 0, n) \<longleftrightarrow>
    (\<exists>m. n = Suc (k + m) \<and> complete_reads reads (length buffer) k m
       \<and> feed_all receive (chunks_from reads buffer k m) c = Some c')"
  using loop_success_aux[of reads receive k buffer c "(c', 0, n)"] loop_succeeds[of reads buffer k _ receive c c'] assms
  by auto

text \<open>Every receiver has room for so many more bytes, and takes no chunk that exceeds it.\<close>

locale receiver =
  fixes receive :: "string \<Rightarrow> 'c \<Rightarrow> 'c \<times> int" and room :: "'c \<Rightarrow> nat"
  assumes accepts: "receive b c = (c', 0) \<Longrightarrow> room c = room c' + length b"
begin

text \<open>The loop ends, after at most one read for each byte of room, and one more.\<close>

lemma loop_ends: "\<exists>c' r n. read_loop reads receive k buffer c = Some (c', r, n) \<and> k < n \<and> n \<le> k + room c + 1"
proof (induction "room c" arbitrary: c k buffer rule: less_induct)
  case less
  let ?b = "overwrite buffer (fst (reads k))"
  show ?case
  proof (cases "\<exists>x c'. snd (reads k) = Inr x \<and> 0 < x \<and> x \<le> length buffer \<and> receive (take x ?b) c = (c', 0)")
    case True
    then obtain x c' where x: "snd (reads k) = Inr x" "0 < x" "x \<le> length buffer" "receive (take x ?b) c = (c', 0)"
      by auto
    then have "room c = room c' + x" using accepts[of "take x ?b" c c'] by (simp add: min_absorb2)
    with less[of c' "Suc k" ?b] x show ?thesis by (subst read_loop.simps) fastforce
  next
    case False
    then show ?thesis by (subst read_loop.simps) (auto simp: Let_def split: sum.splits prod.splits)
  qed
qed

lemma taken: "feed_all receive bs c = Some c' \<Longrightarrow> room c = room c' + length (concat bs)"
  by (induction bs arbitrary: c) (auto dest: accepts split: prod.splits if_splits)

text \<open>So an exchange ends; it begins, reads and ends in this order, or calls nothing.\<close>

lemma exchange_ends:
  "\<exists>e n. exchange X w (\<lambda>_. receive) q c = Some e \<and> n \<le> room c + 1
     \<and> (ex_calls e = [] \<and> ex_code e = 12
        \<or> ex_calls e = BeginRequest (platform_request_of q) # replicate n ReadResponse @ [EndResponse])"
  using loop_ends[of "lk_read w" 0 "zeros 512" c]
  by (auto simp: exchange_def split: sum.splits intro: exI[of _ "0 :: nat"])

end

interpretation response: receiver receive_response "\<lambda>s. length (rs_arena s) - rs_length s"
  by unfold_locales (auto simp: receive_response_def split: if_splits)

interpretation keys: receiver "receive_keys feed http" "\<lambda>s. MAX_JSON_BYTES - ks_bytes s"
  for feed :: "string \<Rightarrow> 'i \<Rightarrow> 'i \<times> int" and http
  by unfold_locales (auto simp: receive_keys_def Let_def split: if_splits prod.splits)

interpretation service: receiver "receive_service cancelled" "\<lambda>s. length (rs_arena s) - rs_length s" for cancelled
  by unfold_locales (auto simp: receive_service_def Let_def split: if_splits)

subsection \<open>A response is read whole\<close>

lemma receive_response_takes:
  "rs_length s + length b \<le> length (rs_arena s) \<Longrightarrow> receive_response b s
     = (s\<lparr>rs_arena := store_at (rs_arena s) (rs_length s) b, rs_length := rs_length s + length b\<rparr>, 0)"
  by (simp add: receive_response_def)

lemma feed_response:
  assumes "rs_length s \<le> length (rs_arena s)"
  shows "feed_all receive_response bs s = (if rs_length s + length (concat bs) \<le> length (rs_arena s)
     then Some (s\<lparr>rs_arena := store_at (rs_arena s) (rs_length s) (concat bs), rs_length := rs_length s + length (concat bs)\<rparr>)
     else None)"
  using assms
proof (induction bs arbitrary: s)
  case Nil
  then show ?case by (simp add: store_at_def)
next
  case (Cons b bs)
  show ?case
  proof (cases "rs_length s + length b \<le> length (rs_arena s)")
    case True
    have "store_at (store_at a n x) (n + length x) y = store_at a n (x @ y)" if "n + length x \<le> length a" for a :: string and n x y
      using that by (simp add: store_at_def min_absorb2 ac_simps)
    with Cons.IH[of "fst (receive_response b s)"] True show ?thesis
      by (simp add: receive_response_takes add.assoc)
  next
    case False
    with Cons.prems show ?thesis by (auto simp: receive_response_def)
  qed
qed

text \<open>A platform as safe code can write it: no answer is an error with the code 0.\<close>

definition sound_link :: "link \<Rightarrow> bool" where
  "sound_link w \<longleftrightarrow> sound_result (lk_begin w) \<and> (\<forall>j. sound_result (snd (lk_read w j)))"

text \<open>The text that the platform delivered, when it delivered all of it in \<open>m\<close> reads.\<close>

definition delivered :: "link \<Rightarrow> nat \<Rightarrow> string" where
  "delivered w m = concat (chunks_from (lk_read w) (zeros 512) 0 m)"

lemma exchange_success_iff:
  assumes "sound_link w" "rs_length s = 0"
  shows "(\<exists>e. exchange X w (\<lambda>_. receive_response) q s = Some e \<and> ex_code e = 0 \<and> ex_status e = st \<and> ex_sink e = s') \<longleftrightarrow>
    utf8 X (rr_origin q) \<and> utf8 X (rr_path q) \<and> utf8 X (rr_client q)
    \<and> (\<exists>n m. lk_begin w = Inr n \<and> st = Some n \<and> complete_reads (lk_read w) 512 0 m
         \<and> length (delivered w m) \<le> length (rs_arena s)
         \<and> s' = s\<lparr>rs_arena := store_at (rs_arena s) 0 (delivered w m), rs_length := length (delivered w m)\<rparr>)"
proof (cases "utf8 X (rr_origin q) \<and> utf8 X (rr_path q) \<and> utf8 X (rr_client q)")
  case True
  have sound: "sound_result (snd (lk_read w j))" for j using assms(1) by (simp add: sound_link_def)
  have "rs_length s \<le> length (rs_arena s)" using assms(2) by simp
  note fed = feed_response[OF this, unfolded assms(2) add_0]
  show ?thesis
  proof (cases "lk_begin w")
    case (Inl e)
    then have "error_code e \<noteq> 0" using assms(1) by (simp add: sound_link_def sound_result_def)
    with True Inl show ?thesis by (simp add: exchange_def)
  next
    case (Inr n)
    have "(\<exists>e. exchange X w (\<lambda>_. receive_response) q s = Some e \<and> ex_code e = 0 \<and> ex_status e = st \<and> ex_sink e = s')
        \<longleftrightarrow> st = Some n \<and> (\<exists>k. read_loop (lk_read w) receive_response 0 (zeros 512) s = Some (s', 0, k))"
      using True Inr by (auto simp: exchange_def)
    also have "\<dots> \<longleftrightarrow> st = Some n \<and> (\<exists>m. complete_reads (lk_read w) 512 0 m
        \<and> feed_all receive_response (chunks_from (lk_read w) (zeros 512) 0 m) s = Some s')"
      by (auto simp: loop_succeeds_iff[OF sound])
    finally show ?thesis using True Inr by (auto simp: fed delivered_def split: if_splits)
  qed
qed (auto simp: exchange_def)

text \<open>
  C37.  A response of the embedded client is read whole.  With any platform that safe code can
  write, an exchange ends after at most one read for each byte of the arena and one more; it begins,
  reads and ends the request in this order, or calls nothing when the request is not text; and it
  reports success exactly when the platform answered, delivered its response in buffers of 1 to 512
  bytes up to the end, and all of it fits the arena, which then holds exactly what was delivered.
\<close>

theorem response_is_read_whole:
  assumes "sound_link w" and "rs_length s = 0"
  shows "\<exists>e n. exchange X w (\<lambda>_. receive_response) q s = Some e \<and> n \<le> length (rs_arena s) + 1
    \<and> (ex_calls e = [] \<and> ex_code e = 12
       \<or> ex_calls e = BeginRequest (platform_request_of q) # replicate n ReadResponse @ [EndResponse])
    \<and> (ex_code e = 0 \<longleftrightarrow> utf8 X (rr_origin q) \<and> utf8 X (rr_path q) \<and> utf8 X (rr_client q)
         \<and> (\<exists>st m. lk_begin w = Inr st \<and> complete_reads (lk_read w) 512 0 m \<and> length (delivered w m) \<le> length (rs_arena s)))
    \<and> (ex_code e = 0 \<longrightarrow> (\<exists>st m. lk_begin w = Inr st \<and> ex_status e = Some st \<and> complete_reads (lk_read w) 512 0 m
         \<and> take (rs_length (ex_sink e)) (rs_arena (ex_sink e)) = delivered w m))"
proof -
  obtain e n where e: "exchange X w (\<lambda>_. receive_response) q s = Some e" "n \<le> length (rs_arena s) + 1"
    "ex_calls e = [] \<and> ex_code e = 12
       \<or> ex_calls e = BeginRequest (platform_request_of q) # replicate n ReadResponse @ [EndResponse]"
    using response.exchange_ends[of X w q s] assms(2) by auto
  note iff = exchange_success_iff[OF assms, of X q, unfolded e(1)]
  have content: "take (length t) (store_at a 0 t) = t" for a t :: string by (simp add: store_at_def)
  have forth: "\<exists>st m. lk_begin w = Inr st \<and> ex_status e = Some st \<and> complete_reads (lk_read w) 512 0 m
      \<and> length (delivered w m) \<le> length (rs_arena s)
      \<and> ex_sink e = s\<lparr>rs_arena := store_at (rs_arena s) 0 (delivered w m), rs_length := length (delivered w m)\<rparr>"
    and utf: "utf8 X (rr_origin q) \<and> utf8 X (rr_path q) \<and> utf8 X (rr_client q)" if "ex_code e = 0"
    using iffD1[OF iff[of "ex_status e" "ex_sink e"]] that by blast+
  have conv: "ex_code e = 0" if "utf8 X (rr_origin q) \<and> utf8 X (rr_path q) \<and> utf8 X (rr_client q)"
    "lk_begin w = Inr st" "complete_reads (lk_read w) 512 0 m" "length (delivered w m) \<le> length (rs_arena s)" for st m
    using iffD2[OF iff] that by blast
  have "ex_code e = 0 \<longleftrightarrow> utf8 X (rr_origin q) \<and> utf8 X (rr_path q) \<and> utf8 X (rr_client q)
      \<and> (\<exists>st m. lk_begin w = Inr st \<and> complete_reads (lk_read w) 512 0 m \<and> length (delivered w m) \<le> length (rs_arena s))"
    using forth utf conv by blast
  moreover have "\<exists>st m. lk_begin w = Inr st \<and> ex_status e = Some st \<and> complete_reads (lk_read w) 512 0 m
      \<and> take (rs_length (ex_sink e)) (rs_arena (ex_sink e)) = delivered w m" if "ex_code e = 0"
    using forth[OF that] by (elim exE conjE) (auto simp: content)
  ultimately show ?thesis using e by blast
qed

definition sample_link :: link where
  "sample_link = \<lparr>lk_begin = Inr 200, lk_read = (\<lambda>k. if k = 0 then (''{}'', Inr 2) else ([], Inr 0))\<rparr>"

definition sample_sink :: response_sink where
  "sample_sink = \<lparr>rs_arena = zeros 4, rs_length = 0, rs_error = 0\<rparr>"

theorem response_is_read_whole_witness:
  "\<forall>X :: external. \<exists>e. exchange X sample_link (\<lambda>_. receive_response) \<lparr>rr_origin = [], rr_path = [], rr_body = [], rr_client = [], rr_post = 0\<rparr>
     sample_sink = Some e \<and> length (ex_calls e) \<le> 7"
proof
  fix X :: external
  have "sound_link sample_link" by (simp add: sound_link_def sample_link_def sound_result_def)
  moreover have "rs_length sample_sink = 0" by (simp add: sample_sink_def)
  ultimately show "\<exists>e. exchange X sample_link (\<lambda>_. receive_response)
      \<lparr>rr_origin = [], rr_path = [], rr_body = [], rr_client = [], rr_post = 0\<rparr> sample_sink = Some e \<and> length (ex_calls e) \<le> 7"
    using response_is_read_whole[of sample_link sample_sink X "\<lparr>rr_origin = [], rr_path = [], rr_body = [], rr_client = [], rr_post = 0\<rparr>"]
    by (auto simp: sample_sink_def)
qed

end
