(* ===== verification/Streaming.thy ===== *)
theory Streaming
  imports Bindings
begin

text \<open>
  The verified download of an embedded device: the Rust side
  (\<open>DownloadAuthorization::stream\<close> and its callbacks, \<open>sdk/embedded/rust/src/services.rs\<close>) over the C
  function that drives it (\<open>orbit_download_stream\<close>, \<open>sdk/embedded/src/orbit_downloads.c\<close>).

  The device's port is a record of answers: each is a function of the calls that the port has
  received so far, the call that it answers included, so any stateful port is an instance.
\<close>

subsection \<open>Identifiers and artifacts\<close>

definition id_new :: "string \<Rightarrow> string code_result" where
  "id_new v = rbind (ensure ARGUMENT (\<not> (v = [] \<or> length v > 128
      \<or> \<not> list_all (\<lambda>c. is_alphanumeric c \<or> c = CHR ''_'' \<or> c = CHR ''-'') v))) (\<lambda>_. Inr v)"

record raw_artifact =
  ra_id :: string
  ra_release_id :: string
  ra_platform :: string
  ra_architecture :: string
  ra_filename :: string
  ra_url :: string
  ra_required_feature :: string
  ra_byte_length :: nat
  ra_sha256 :: string
  ra_protected :: nat

record device_artifact =
  va_id :: string
  va_release_id :: string
  va_platform :: string
  va_architecture :: string
  va_filename :: string
  va_url :: string
  va_required_feature :: "string option"
  va_byte_length :: nat
  va_sha256 :: string
  va_protected :: bool

definition view_id :: "('x) external_scheme \<Rightarrow> string \<Rightarrow> string code_result" where
  "view_id X s = rbind (raw_str X s) id_new"

definition optional_str :: "('x) external_scheme \<Rightarrow> string \<Rightarrow> string option code_result" where
  "optional_str X s = (if s = [] then Inr None else rbind (raw_str X s) (\<lambda>v. Inr (Some v)))"

definition artifact_view :: "('x) external_scheme \<Rightarrow> raw_artifact \<Rightarrow> device_artifact code_result" where
  "artifact_view X raw =
     rbind (view_id X (ra_id raw)) (\<lambda>i.
     rbind (view_id X (ra_release_id raw)) (\<lambda>r.
     rbind (raw_str X (ra_platform raw)) (\<lambda>p.
     rbind (raw_str X (ra_architecture raw)) (\<lambda>a.
     rbind (raw_str X (ra_filename raw)) (\<lambda>f.
     rbind (raw_str X (ra_url raw)) (\<lambda>u.
     rbind (optional_str X (ra_required_feature raw)) (\<lambda>q.
       Inr \<lparr>va_id = i, va_release_id = r, va_platform = p, va_architecture = a, va_filename = f, va_url = u,
         va_required_feature = q, va_byte_length = ra_byte_length raw, va_sha256 = ra_sha256 raw,
         va_protected = (ra_protected raw \<noteq> 0)\<rparr>)))))))"

definition raw_artifact_of :: "device_artifact \<Rightarrow> raw_artifact code_result" where
  "raw_artifact_of v =
     rbind (slice_str (va_id v)) (\<lambda>i.
     rbind (slice_str (va_release_id v)) (\<lambda>r.
     rbind (slice_str (va_platform v)) (\<lambda>p.
     rbind (slice_str (va_architecture v)) (\<lambda>a.
     rbind (slice_str (va_filename v)) (\<lambda>f.
     rbind (slice_str (va_url v)) (\<lambda>u.
     rbind (slice_str (or_else (va_required_feature v) [])) (\<lambda>q.
       Inr \<lparr>ra_id = i, ra_release_id = r, ra_platform = p, ra_architecture = a, ra_filename = f, ra_url = u,
         ra_required_feature = q, ra_byte_length = va_byte_length v, ra_sha256 = va_sha256 v,
         ra_protected = (if va_protected v then 1 else 0)\<rparr>)))))))"

record device_authorization =
  dv_artifact :: device_artifact
  dv_ticket :: "string option"
  dv_expires_at :: "int option"

record raw_authorization =
  rz_artifact :: raw_artifact
  rz_ticket :: string
  rz_expires_at :: int

definition authorization_view :: "('x) external_scheme \<Rightarrow> raw_authorization \<Rightarrow> device_authorization code_result" where
  "authorization_view X raw =
     rbind (artifact_view X (rz_artifact raw)) (\<lambda>a.
     rbind (optional_str X (rz_ticket raw)) (\<lambda>t.
       Inr \<lparr>dv_artifact = a, dv_ticket = t,
         dv_expires_at = (if rz_ticket raw = [] then None else Some (rz_expires_at raw))\<rparr>))"

definition raw_authorization_of :: "device_authorization \<Rightarrow> raw_authorization code_result" where
  "raw_authorization_of d =
     rbind (raw_artifact_of (dv_artifact d)) (\<lambda>a.
     rbind (slice_str (or_else (dv_ticket d) [])) (\<lambda>t.
       Inr \<lparr>rz_artifact = a, rz_ticket = t, rz_expires_at = or_else (dv_expires_at d) 0\<rparr>))"

subsection \<open>The port and its callbacks\<close>

datatype io_call =
    Open string "string option"
  | ReadStream nat
  | CloseStream
  | StageBegin bool
  | StageWrite string
  | StageCommit
  | StageAbort
  | HashBegin
  | HashUpdate string
  | HashFinish
  | AskCancelled

type_synonym history = "io_call list"

record device_response =
  ds_status :: nat
  ds_location :: string
  ds_encoding :: string
  ds_length :: "nat option"

record download_io =
  io_open :: "history \<Rightarrow> device_response code_result"
  io_read :: "history \<Rightarrow> string \<times> nat code_result"
  io_stage_begin :: "history \<Rightarrow> unit code_result"
  io_stage_write :: "history \<Rightarrow> unit code_result"
  io_stage_commit :: "history \<Rightarrow> unit code_result"
  io_hash_begin :: "history \<Rightarrow> unit code_result"
  io_hash_update :: "history \<Rightarrow> unit code_result"
  io_hash_finish :: "history \<Rightarrow> string \<times> unit code_result"
  io_cancelled :: "history \<Rightarrow> bool"

record raw_response =
  rp_location :: string
  rp_encoding :: string
  rp_length :: nat
  rp_status :: nat
  rp_has_length :: nat

definition raw_response_of :: "device_response \<Rightarrow> raw_response code_result" where
  "raw_response_of r =
     rbind (slice_str (ds_location r)) (\<lambda>l.
     rbind (slice_str (ds_encoding r)) (\<lambda>e.
       Inr \<lparr>rp_location = l, rp_encoding = e, rp_length = or_else (ds_length r) 0, rp_status = ds_status r,
         rp_has_length = (if ds_length r = None then 0 else 1)\<rparr>))"

definition code_and_value :: "'a code_result \<Rightarrow> int \<times> 'a option" where
  "code_and_value r = (case r of Inl e \<Rightarrow> (error_code e, None) | Inr v \<Rightarrow> (0, Some v))"

definition download_open ::
    "('x) external_scheme \<Rightarrow> download_io \<Rightarrow> string \<Rightarrow> string \<Rightarrow> history \<Rightarrow> history \<times> int \<times> raw_response option" where
  "download_open X io url ticket h =
     (case rbind (raw_str X url) (\<lambda>u. rbind (optional_str X ticket) (\<lambda>t. Inr (u, t))) of
        Inl e \<Rightarrow> (h, error_code e, None)
      | Inr (u, t) \<Rightarrow>
          let h' = h @ [Open u t] in (h', code_and_value (rbind (io_open io h') raw_response_of)))"

definition download_read :: "download_io \<Rightarrow> string \<Rightarrow> history \<Rightarrow> history \<times> int \<times> string \<times> nat option" where
  "download_read io buffer h = (let h' = h @ [ReadStream (length buffer)] in (h', read_callback 19 buffer (io_read io h')))"

subsection \<open>The C side: steps\<close>

text \<open>
  A step appends calls to the history and yields a value, or the code with which the function
  goes to its exit, and whether a connection is open then.
\<close>

type_synonym 'a io_step = "history \<Rightarrow> history \<times> ((bool \<times> int) + 'a)"

definition io_bind :: "'a io_step \<Rightarrow> ('a \<Rightarrow> 'b io_step) \<Rightarrow> 'b io_step" where
  "io_bind m f h = (case m h of (h', Inl e) \<Rightarrow> (h', Inl e) | (h', Inr v) \<Rightarrow> f v h')"

definition io_ret :: "'a \<Rightarrow> 'a io_step" where "io_ret v h = (h, Inr v)"

definition io_fail :: "bool \<Rightarrow> int \<Rightarrow> 'a io_step" where "io_fail opened r h = (h, Inl (opened, r))"

text \<open>A call without a result, and a call whose answer is a code.\<close>

definition io_tell :: "io_call \<Rightarrow> unit io_step" where "io_tell c h = (h @ [c], Inr ())"

definition io_code :: "bool \<Rightarrow> (history \<Rightarrow> unit code_result) \<Rightarrow> io_call \<Rightarrow> unit io_step" where
  "io_code opened answer c h = (let h' = h @ [c]; r = code_of (answer h') in
     if r \<noteq> 0 then (h', Inl (opened, r)) else (h', Inr ()))"

definition ask_cancelled :: "download_io \<Rightarrow> bool \<Rightarrow> unit io_step" where
  "ask_cancelled io opened h = (let h' = h @ [AskCancelled] in
     if io_cancelled io h' then (h', Inl (opened, 23)) else (h', Inr ()))"

definition zero_response :: raw_response where
  "zero_response = \<lparr>rp_location = [], rp_encoding = [], rp_length = 0, rp_status = 0, rp_has_length = 0\<rparr>"

definition c_open :: "('x) external_scheme \<Rightarrow> download_io \<Rightarrow> string \<Rightarrow> string \<Rightarrow> raw_response io_step" where
  "c_open X io url ticket h = (case download_open X io url ticket h of (h', r, out) \<Rightarrow>
     if r \<noteq> 0 then (h', Inl (True, r)) else (h', Inr (or_else out zero_response)))"

definition c_hash_finish :: "download_io \<Rightarrow> string io_step" where
  "c_hash_finish io h = (let h' = h @ [HashFinish] in case digest_callback (io_hash_finish io h') of (r, out) \<Rightarrow>
     if r \<noteq> 0 then (h', Inl (False, r)) else (h', Inr (or_else out (zeros 32))))"

subsection \<open>The C side: URLs\<close>

text \<open>
  \<open>orbit_https_origin_valid\<close>, whose host grammar (IPv4, IPv6, DNS names, ports) is the parameter
  \<open>host_valid\<close>, and \<open>https_url\<close>.
\<close>

definition visible :: "char \<Rightarrow> bool" where "visible c \<longleftrightarrow> 32 < byte c \<and> byte c < 127"

definition origin_valid :: "(string \<Rightarrow> bool) \<Rightarrow> string \<Rightarrow> bool" where
  "origin_valid host_valid s \<longleftrightarrow> 9 \<le> length s \<and> length s \<le> 384 \<and> starts_with s ''https://'' \<and> last s \<noteq> CHR ''/''
     \<and> list_all (\<lambda>c. visible c \<and> c \<notin> {CHR ''/'', CHR 0x5C, CHR ''@'', CHR ''?'', CHR ''#'', CHR ''%''}) (drop 8 s)
     \<and> host_valid (drop 8 s)"

fun percent_ok :: "string \<Rightarrow> bool" where
  "percent_ok [] = True"
| "percent_ok (c # r) = (if c = CHR ''%'' then
      (case r of a # b # r' \<Rightarrow> is_hexdigit a \<and> is_hexdigit b \<and> percent_ok r' | _ \<Rightarrow> False)
    else percent_ok r)"

definition host_part :: "string \<Rightarrow> string" where
  "host_part s = takeWhile (\<lambda>c. c \<noteq> CHR ''/'' \<and> c \<noteq> CHR ''?'') (drop 8 s)"

definition https_url :: "(string \<Rightarrow> bool) \<Rightarrow> string \<Rightarrow> bool \<Rightarrow> bool" where
  "https_url host_valid s protected \<longleftrightarrow> 9 \<le> length s \<and> length s \<le> 2048
     \<and> list_all (\<lambda>c. visible c \<and> c \<noteq> CHR 0x5C \<and> c \<noteq> CHR ''#'' \<and> \<not> (protected \<and> c = CHR ''?'')) (drop 8 s)
     \<and> origin_valid host_valid (take 8 s @ host_part s)
     \<and> percent_ok (drop (8 + length (host_part s)) s)"

subsection \<open>The C side: the download\<close>

definition open_step ::
    "('x) external_scheme \<Rightarrow> download_io \<Rightarrow> raw_artifact \<Rightarrow> (raw_response \<Rightarrow> unit io_step) \<Rightarrow> string \<Rightarrow> string \<Rightarrow> unit io_step" where
  "open_step X io a redirect url ticket =
     io_bind (ask_cancelled io False) (\<lambda>_.
     io_bind (c_open X io url ticket) (\<lambda>resp.
       if rp_status resp \<in> {301, 302, 303, 307, 308} then redirect resp
       else if rp_status resp \<noteq> 200 \<or> (rp_encoding resp \<noteq> [] \<and> rp_encoding resp \<noteq> ''identity'')
         \<or> (rp_has_length resp \<noteq> 0 \<and> rp_length resp \<noteq> ra_byte_length a) then io_fail True 12
       else io_ret ()))"

primrec open_stream ::
    "('x) external_scheme \<Rightarrow> (string \<Rightarrow> bool) \<Rightarrow> download_io \<Rightarrow> raw_artifact \<Rightarrow> nat \<Rightarrow> string \<Rightarrow> string \<Rightarrow> unit io_step" where
  "open_stream X V io a 0 = open_step X io a (\<lambda>resp. io_fail True 12)"
| "open_stream X V io a (Suc n) = open_step X io a (\<lambda>resp.
     if \<not> https_url V (rp_location resp) False then io_fail True 12
     else io_bind (io_tell CloseStream) (\<lambda>_. open_stream X V io a n (rp_location resp) []))"

definition store_chunk :: "download_io \<Rightarrow> string \<Rightarrow> unit io_step" where
  "store_chunk io b = io_bind (io_code True (io_hash_update io) (HashUpdate b))
     (\<lambda>_. io_code True (io_stage_write io) (StageWrite b))"

text \<open>The stream loop; its measure is the number of bytes that are still missing.\<close>

function read_stream ::
    "download_io \<Rightarrow> raw_artifact \<Rightarrow> nat \<Rightarrow> string \<Rightarrow> nat \<Rightarrow> nat io_step" where
  "read_stream io a maximum buffer sofar h =
     (case ask_cancelled io True h of
        (h1, Inl e) \<Rightarrow> (h1, Inl e)
      | (h1, Inr _) \<Rightarrow>
         (case download_read io buffer h1 of (h2, r, buffer', got) \<Rightarrow>
            let n = or_else got 0 in
            if r \<noteq> 0 then (h2, Inl (True, r))
            else if n > length buffer \<or> n > ra_byte_length a - sofar \<or> n > maximum - sofar then (h2, Inl (True, 19))
            else if n = 0 then (h2, Inr sofar)
            else (case store_chunk io (take n buffer') h2 of
                (h3, Inl e) \<Rightarrow> (h3, Inl e)
              | (h3, Inr _) \<Rightarrow> read_stream io a maximum buffer' (sofar + n) h3)))"
  by pat_completeness auto
termination
  by (relation "measure (\<lambda>(io, a, maximum, buffer, sofar, h). ra_byte_length a - sofar)") auto

declare read_stream.simps [simp del]

definition finish_stream :: "('x) external_scheme \<Rightarrow> download_io \<Rightarrow> raw_artifact \<Rightarrow> nat \<Rightarrow> unit io_step" where
  "finish_stream X io a sofar =
     io_bind (io_tell CloseStream) (\<lambda>_.
     if sofar \<noteq> ra_byte_length a then io_fail False 12
     else io_bind (c_hash_finish io) (\<lambda>digest.
       if digest \<noteq> ra_sha256 a then io_fail False 12
       else io_bind (ask_cancelled io False) (\<lambda>_. io_code False (io_stage_commit io) StageCommit)))"

definition transfer ::
    "('x) external_scheme \<Rightarrow> (string \<Rightarrow> bool) \<Rightarrow> download_io \<Rightarrow> raw_authorization \<Rightarrow> nat \<Rightarrow> string \<Rightarrow> unit io_step" where
  "transfer X V io z maximum scratch =
     (let a = rz_artifact z in
      io_bind (io_code False (io_hash_begin io) HashBegin) (\<lambda>_.
      io_bind (open_stream X V io a 5 (ra_url a) (rz_ticket z)) (\<lambda>_.
      io_bind (read_stream io a maximum (drop 2048 scratch) 0) (\<lambda>sofar.
        finish_stream X io a sofar))))"

definition stream_arguments :: "(string \<Rightarrow> bool) \<Rightarrow> raw_authorization \<Rightarrow> nat \<Rightarrow> string \<Rightarrow> bool" where
  "stream_arguments V z maximum scratch \<longleftrightarrow>
     (let a = rz_artifact z; protected = (ra_protected a \<noteq> 0) in
      2304 \<le> length scratch \<and> ra_byte_length a \<noteq> 0 \<and> ra_byte_length a \<le> maximum \<and> https_url V (ra_url a) protected
      \<and> (if protected then rz_ticket z \<noteq> [] \<and> length (rz_ticket z) \<le> 16384 else rz_ticket z = [])
      \<and> list_all visible (rz_ticket z))"

text \<open>\<open>orbit_download_stream\<close>: the exit closes an open connection and discards what was staged.\<close>

definition c_stream ::
    "('x) external_scheme \<Rightarrow> (string \<Rightarrow> bool) \<Rightarrow> download_io \<Rightarrow> raw_authorization \<Rightarrow> nat \<Rightarrow> bool \<Rightarrow> string
      \<Rightarrow> history \<Rightarrow> history \<times> int" where
  "c_stream X V io z maximum replace scratch h =
     (if \<not> stream_arguments V z maximum scratch then (h, 10)
      else (case ask_cancelled io False h of
          (h1, Inl (_, r)) \<Rightarrow> (h1, r)
        | (h1, Inr _) \<Rightarrow>
           (case io_code False (io_stage_begin io) (StageBegin replace) h1 of
              (h2, Inl (_, r)) \<Rightarrow> (h2 @ [StageAbort], r)
            | (h2, Inr _) \<Rightarrow>
               (case transfer X V io z maximum scratch h2 of
                  (h3, Inr _) \<Rightarrow> (h3, 0)
                | (h3, Inl (opened, r)) \<Rightarrow> (h3 @ (if opened then [CloseStream] else []) @ [StageAbort], r)))))"

text \<open>\<open>DownloadAuthorization::stream\<close>.\<close>

definition stream ::
    "('x) external_scheme \<Rightarrow> (string \<Rightarrow> bool) \<Rightarrow> download_io \<Rightarrow> device_authorization \<Rightarrow> nat \<Rightarrow> bool \<Rightarrow> string
      \<Rightarrow> history \<times> unit code_result" where
  "stream X V io d maximum replace scratch =
     (case rbind (raw_authorization_of d) (\<lambda>z. rbind (ensure ARGUMENT (length scratch < 2 ^ 32)) (\<lambda>_. Inr z)) of
        Inl e \<Rightarrow> ([], Inl e)
      | Inr z \<Rightarrow> (case c_stream X V io z maximum replace scratch [] of (h, r) \<Rightarrow> (h, check_code r)))"

end
