(* ===== verification/Services.thy ===== *)
theory Services
  imports Streaming
begin

text \<open>
  The calls of the embedded client from Rust (\<open>sdk/embedded/rust/src/lib.rs\<close>, \<open>services.rs\<close>): how
  arguments reach the C client, and what is made of its answers.  The C client is the record
  \<open>c_client\<close> of its functions over its own state, so the lemmas hold whatever it answers; memory it
  hands back is modelled by its contents, a fixed array by a string of its length.
\<close>

subsection \<open>Values that cross the boundary\<close>

text \<open>A text in a fixed array with its length; \<open>None\<close> is the panic of a length beyond the array.\<close>

definition array_text :: "('x) external_scheme \<Rightarrow> string \<Rightarrow> nat \<Rightarrow> string option" where
  "array_text X buffer n = (if n \<le> length buffer then Some (if utf8 X (take n buffer) then take n buffer else []) else None)"

record raw_snapshot =
  sn_expires_at :: int
  sn_refresh_after :: int
  sn_credential_expires_at :: int
  sn_policy_version :: nat
  sn_allowed :: nat
  sn_offline :: nat
  sn_has_credential_expiry :: nat
  sn_activation_required :: nat
  sn_pending :: nat
  sn_update_length :: nat
  sn_update :: string

text \<open>\<open>update_available\<close> clamps the length to the array, so that it never panics.\<close>

definition update_available :: "('x) external_scheme \<Rightarrow> raw_snapshot \<Rightarrow> string option" where
  "update_available X s = (let v = take (min (sn_update_length s) (length (sn_update s))) (sn_update s) in
     if utf8 X v \<and> v \<noteq> [] then Some v else None)"

datatype period = Lifetime | Day | Month

record raw_counter =
  ct_limit :: nat
  ct_used :: nat
  ct_remaining :: nat
  ct_period_started_at :: int
  ct_resets_at :: int
  ct_name :: string
  ct_name_length :: nat
  ct_period :: nat
  ct_usage :: nat

definition counter_name :: "('x) external_scheme \<Rightarrow> raw_counter \<Rightarrow> string option" where
  "counter_name X c = array_text X (ct_name c) (ct_name_length c)"

definition counter_period :: "raw_counter \<Rightarrow> period option" where
  "counter_period c = (if ct_usage c = 0 then None
     else Some (if ct_period c = 1 then Day else if ct_period c = 2 then Month else Lifetime))"

record limit_result =
  lr_counter :: raw_counter
  lr_units :: nat
  lr_operation_id :: string
  lr_allocation_id :: string
  lr_resource_id :: string
  lr_operation_id_length :: nat
  lr_allocation_id_length :: nat
  lr_resource_id_length :: nat
  lr_released :: nat
  lr_capacity_denied :: nat
  lr_uncertain :: nat

definition zero_counter :: raw_counter where
  "zero_counter = \<lparr>ct_limit = 0, ct_used = 0, ct_remaining = 0, ct_period_started_at = 0, ct_resets_at = 0,
     ct_name = zeros 64, ct_name_length = 0, ct_period = 0, ct_usage = 0\<rparr>"

definition default_limit_result :: limit_result where
  "default_limit_result = \<lparr>lr_counter = zero_counter, lr_units = 0, lr_operation_id = zeros 128,
     lr_allocation_id = zeros 128, lr_resource_id = zeros 128, lr_operation_id_length = 0,
     lr_allocation_id_length = 0, lr_resource_id_length = 0, lr_released = 0, lr_capacity_denied = 0, lr_uncertain = 0\<rparr>"

definition operation_id :: "('x) external_scheme \<Rightarrow> limit_result \<Rightarrow> string option" where
  "operation_id X r = array_text X (lr_operation_id r) (lr_operation_id_length r)"

definition allocation_id :: "('x) external_scheme \<Rightarrow> limit_result \<Rightarrow> string option" where
  "allocation_id X r = array_text X (lr_allocation_id r) (lr_allocation_id_length r)"

definition resource_id :: "('x) external_scheme \<Rightarrow> limit_result \<Rightarrow> string option" where
  "resource_id X r = array_text X (lr_resource_id r) (lr_resource_id_length r)"

record mutation_error =
  mu_error :: code_error
  mu_counter :: "raw_counter option"
  mu_requested_units :: nat
  mu_operation_id :: string
  mu_operation_id_length :: nat
  mu_uncertain :: bool

record raw_session =
  se_id :: string
  se_sequence :: nat
  se_expires_at :: int
  se_refresh_after :: int
  se_id_length :: nat
  se_required :: nat
  se_active :: nat
  se_automatic :: nat

definition session_id_text :: "('x) external_scheme \<Rightarrow> raw_session \<Rightarrow> string option" where
  "session_id_text X s = array_text X (se_id s) (se_id_length s)"

text \<open>
  An operation of the caller: its id, and the answers of its cancel callback.  The trampoline
  \<open>cancelled\<close> turns them into an \<open>i32\<close>.
\<close>

record operation =
  op_id :: "string option"
  op_cancelled :: "(nat \<Rightarrow> bool) option"

record raw_operation =
  ro_id :: string
  ro_cancelled :: "(nat \<Rightarrow> int) option"

definition cancelled_callback :: "operation \<Rightarrow> nat \<Rightarrow> int" where
  "cancelled_callback op k = (if some_and (\<lambda>f. f k) (op_cancelled op) then 1 else 0)"

definition raw_operation_of :: "operation option \<Rightarrow> raw_operation code_result" where
  "raw_operation_of op = (case op of
      Some p \<Rightarrow> rbind (slice_str (or_else (op_id p) [])) (\<lambda>i. Inr \<lparr>ro_id = i, ro_cancelled = Some (cancelled_callback p)\<rparr>)
    | None \<Rightarrow> rbind (slice_str []) (\<lambda>i. Inr \<lparr>ro_id = i, ro_cancelled = None\<rparr>))"

record raw_release =
  rl_id :: string
  rl_channel :: string
  rl_version :: string
  rl_notes :: string
  rl_release_number :: nat
  rl_created_at :: int
  rl_published_at :: int

record raw_update =
  ru_release :: raw_release
  ru_artifact :: raw_artifact
  ru_available :: nat

subsection \<open>Configuration\<close>

record raw_config =
  rc_origin :: string
  rc_issuer :: string
  rc_application :: string
  rc_environment :: string
  rc_fingerprint :: string
  rc_provider :: string
  rc_app_version :: string
  rc_environment_kind :: nat

datatype environment = TestEnvironment | LiveEnvironment

record device_config =
  dc_api_origin :: string
  dc_issuer :: string
  dc_application_id :: string
  dc_environment_id :: string
  dc_fingerprint :: string
  dc_fingerprint_provider :: string
  dc_app_version :: string

record device_key =
  dk_original :: string
  dk_origin :: string
  dk_origin_length :: nat
  dk_application_id :: string
  dk_environment_id :: string
  dk_environment :: environment
  dk_app_version :: string

text \<open>What the C parser of app keys answers: a code, the buffer it decoded the origin into, and slices.\<close>

record parsed_key =
  pk_code :: int
  pk_origin :: string
  pk_origin_length :: nat
  pk_application :: raw_slice
  pk_environment :: raw_slice

definition app_key_parse :: "('x) external_scheme \<Rightarrow> (string \<Rightarrow> parsed_key) \<Rightarrow> nat \<Rightarrow> string \<Rightarrow> device_key code_result" where
  "app_key_parse X parse start value =
     rbind (slice_str value) (\<lambda>v.
     let raw = parse v; origin = overwrite (zeros 384) (pk_origin raw) in
     rbind (check_code (pk_code raw)) (\<lambda>_.
     rbind (borrowed_str X start value (pk_application raw)) (\<lambda>app.
     rbind (borrowed_str X start value (pk_environment raw)) (\<lambda>env.
     rbind (ensure UNTRUSTED (\<not> pk_origin_length raw > length origin)) (\<lambda>_.
       Inr \<lparr>dk_original = value, dk_origin = origin, dk_origin_length = pk_origin_length raw,
         dk_application_id = app, dk_environment_id = env,
         dk_environment = (if starts_with (trim value) ''orbit_app_test_'' then TestEnvironment else LiveEnvironment),
         dk_app_version = []\<rparr>)))))"

definition with_app_version :: "string \<Rightarrow> device_key \<Rightarrow> device_key" where
  "with_app_version v k = k\<lparr>dk_app_version := v\<rparr>"

definition api_origin :: "('x) external_scheme \<Rightarrow> device_key \<Rightarrow> string" where
  "api_origin X k = (let v = take (dk_origin_length k) (dk_origin k) in if utf8 X v then v else [])"

definition key_config :: "('x) external_scheme \<Rightarrow> device_key \<Rightarrow> device_config" where
  "key_config X k = \<lparr>dc_api_origin = api_origin X k, dc_issuer = api_origin X k, dc_application_id = dk_application_id k,
     dc_environment_id = dk_environment_id k, dc_fingerprint = [], dc_fingerprint_provider = [],
     dc_app_version = dk_app_version k\<rparr>"

definition config_slices :: "device_config \<Rightarrow> nat \<Rightarrow> raw_config code_result" where
  "config_slices c kind =
     rbind (slice_str (dc_api_origin c)) (\<lambda>o1.
     rbind (slice_str (dc_issuer c)) (\<lambda>i.
     rbind (slice_str (dc_application_id c)) (\<lambda>a.
     rbind (slice_str (dc_environment_id c)) (\<lambda>e.
     rbind (slice_str (dc_fingerprint c)) (\<lambda>f.
     rbind (slice_str (dc_fingerprint_provider c)) (\<lambda>p.
     rbind (slice_str (dc_app_version c)) (\<lambda>v.
       Inr \<lparr>rc_origin = o1, rc_issuer = i, rc_application = a, rc_environment = e, rc_fingerprint = f, rc_provider = p,
         rc_app_version = v, rc_environment_kind = kind\<rparr>)))))))"

fun environment_kind :: "environment \<Rightarrow> nat" where
  "environment_kind TestEnvironment = 1" | "environment_kind LiveEnvironment = 2"

text \<open>\<open>raw_config\<close> of \<open>services.rs\<close>: the key's configuration with the optional binding.\<close>

definition service_config :: "('x) external_scheme \<Rightarrow> device_key \<Rightarrow> (string \<times> string) option \<Rightarrow> raw_config code_result" where
  "service_config X k binding = (case or_else binding ([], []) of (fingerprint, provider) \<Rightarrow>
     config_slices ((key_config X k)\<lparr>dc_fingerprint := fingerprint, dc_fingerprint_provider := provider\<rparr>)
       (environment_kind (dk_environment k)))"

text \<open>The parts of a parsed key are parts of its text, and its origin fits its array.\<close>

lemma app_key_parse_within:
  assumes "app_key_parse X parse start value = Inr k"
  shows "\<exists>p q. value = p @ dk_application_id k @ q" "\<exists>p q. value = p @ dk_environment_id k @ q"
    "length (dk_origin k) = 384" "dk_origin_length k \<le> 384" "dk_app_version k = []"
proof -
  let ?raw = "parse value"
  from assms obtain app env where b: "borrowed_str X start value (pk_application ?raw) = Inr app"
    "borrowed_str X start value (pk_environment ?raw) = Inr env"
    and k: "dk_application_id k = app" "dk_environment_id k = env" "dk_origin k = overwrite (zeros 384) (pk_origin ?raw)"
      "dk_origin_length k = pk_origin_length ?raw" "pk_origin_length ?raw \<le> 384" "dk_app_version k = []"
    by (auto simp: app_key_parse_def result_simps Let_def)
  from borrowed_str_within[OF b(1)] borrowed_str_within[OF b(2)] k
  show "\<exists>p q. value = p @ dk_application_id k @ q" "\<exists>p q. value = p @ dk_environment_id k @ q"
    "length (dk_origin k) = 384" "dk_origin_length k \<le> 384" "dk_app_version k = []" by auto
qed

subsection \<open>The calls of the client\<close>

text \<open>What the offline profile hands to the C client: the imported key set, sizes and the app key.\<close>

record raw_offline =
  of_keys :: string
  of_capacity :: nat
  of_maximum :: nat
  of_app_key :: string

record 'c c_client =
  cc_init :: "raw_config \<Rightarrow> nat \<Rightarrow> 'c \<times> int"
  cc_init_extended :: "raw_config \<Rightarrow> nat \<Rightarrow> raw_offline option \<Rightarrow> 'c \<times> int"
  cc_jwks_import :: "string \<Rightarrow> int \<times> string"
  cc_close :: "'c \<Rightarrow> 'c \<times> int"
  cc_tick :: "'c \<Rightarrow> 'c \<times> int"
  cc_activate :: "string \<Rightarrow> 'c \<Rightarrow> 'c \<times> int"
  cc_require_access :: "string \<Rightarrow> 'c \<Rightarrow> 'c \<times> int"
  cc_snapshot :: "'c \<Rightarrow> 'c \<times> int \<times> raw_snapshot"
  cc_deactivate :: "'c \<Rightarrow> 'c \<times> int"
  cc_invalidate :: "'c \<Rightarrow> 'c \<times> int"
  cc_clock_lost :: "'c \<Rightarrow> 'c \<times> int"
  cc_start_session :: "raw_operation \<Rightarrow> 'c \<Rightarrow> 'c \<times> int \<times> raw_session"
  cc_end_session :: "raw_operation \<Rightarrow> 'c \<Rightarrow> 'c \<times> int"
  cc_session :: "'c \<Rightarrow> 'c \<times> int \<times> raw_session"
  cc_usage :: "string \<Rightarrow> 'c \<Rightarrow> 'c \<times> int \<times> limit_result"
  cc_resources :: "string \<Rightarrow> 'c \<Rightarrow> 'c \<times> int \<times> limit_result"
  cc_consume :: "string \<Rightarrow> nat \<Rightarrow> raw_operation \<Rightarrow> limit_result \<Rightarrow> 'c \<Rightarrow> 'c \<times> int \<times> limit_result"
  cc_acquire_resource :: "string \<Rightarrow> string \<Rightarrow> nat \<Rightarrow> raw_operation \<Rightarrow> limit_result \<Rightarrow> 'c \<Rightarrow> 'c \<times> int \<times> limit_result"
  cc_release_resource :: "string \<Rightarrow> string \<Rightarrow> raw_operation \<Rightarrow> limit_result \<Rightarrow> 'c \<Rightarrow> 'c \<times> int \<times> limit_result"
  cc_check_for_updates :: "nat \<Rightarrow> string \<Rightarrow> string \<Rightarrow> string \<Rightarrow> raw_operation \<Rightarrow> 'c \<Rightarrow> 'c \<times> int \<times> raw_update"
  cc_authorize_download :: "string \<Rightarrow> string \<Rightarrow> raw_operation \<Rightarrow> 'c \<Rightarrow> 'c \<times> int \<times> raw_authorization"
  cc_import_file :: "string \<Rightarrow> 'c \<Rightarrow> 'c \<times> int"
  cc_import_reader :: "(string \<Rightarrow> string \<times> nat code_result \<Rightarrow> int \<times> string \<times> nat option) \<Rightarrow> raw_operation \<Rightarrow> 'c \<Rightarrow> 'c \<times> int"
  cc_offline_request :: "nat \<Rightarrow> 'c \<Rightarrow> 'c \<times> int \<times> string \<times> nat"

text \<open>A call whose arguments were converted, and the check of its code.\<close>

definition call_with :: "'b code_result \<Rightarrow> ('b \<Rightarrow> 'c \<Rightarrow> 'c \<times> int \<times> 'a) \<Rightarrow> 'c \<Rightarrow> 'c \<times> 'a code_result" where
  "call_with arg f c = (case arg of Inl e \<Rightarrow> (c, Inl e)
     | Inr a \<Rightarrow> (case f a c of (c', n, v) \<Rightarrow> (c', rbind (check_code n) (\<lambda>_. Inr v))))"

definition no_output :: "'c \<times> int \<Rightarrow> 'c \<times> int \<times> unit" where
  "no_output r = (fst r, snd r, ())"

definition ARENA_MIN :: nat where "ARENA_MIN = 8192"
definition ARENA_MAX :: nat where "ARENA_MAX = 32768"

text \<open>\<open>Client::new\<close>, \<open>open_with_binding\<close> and \<open>open_offline\<close>; a client is the C state.\<close>

definition client_new :: "'c c_client \<Rightarrow> nat \<Rightarrow> device_config \<Rightarrow> 'c code_result" where
  "client_new C arena cfg =
     rbind (ensure ARGUMENT (ARENA_MIN \<le> arena \<and> arena \<le> ARENA_MAX)) (\<lambda>_.
     rbind (config_slices cfg 0) (\<lambda>raw.
       case cc_init C raw arena of (c, n) \<Rightarrow> rbind (check_code n) (\<lambda>_. Inr c)))"

definition client_open ::
    "('x) external_scheme \<Rightarrow> 'c c_client \<Rightarrow> nat \<Rightarrow> device_key \<Rightarrow> (string \<times> string) option \<Rightarrow> 'c code_result" where
  "client_open X C arena k binding =
     rbind (service_config X k binding) (\<lambda>raw.
     rbind (ensure ARGUMENT (arena < 2 ^ 32)) (\<lambda>_.
       case cc_init_extended C raw arena None of (c, n) \<Rightarrow> rbind (check_code n) (\<lambda>_. Inr c)))"

definition client_open_offline ::
    "('x) external_scheme \<Rightarrow> 'c c_client \<Rightarrow> bool \<Rightarrow> nat \<Rightarrow> nat \<Rightarrow> device_key \<Rightarrow> string \<Rightarrow> (string \<times> string) option \<Rightarrow> 'c code_result" where
  "client_open_offline X C offline_full arena size_limit k trusted_jwks binding =
     rbind (ensure ARGUMENT (\<not> (size_limit \<notin> {4096, 16384} \<or> (size_limit = 16384 \<and> \<not> offline_full)))) (\<lambda>_.
     rbind (service_config X k binding) (\<lambda>raw.
     rbind (ensure ARGUMENT (length trusted_jwks < 2 ^ 32)) (\<lambda>_.
     case cc_jwks_import C trusted_jwks of (r, keys) \<Rightarrow>
     rbind (ensure UNTRUSTED (r = 0)) (\<lambda>_.
     rbind (slice_str (dk_original k)) (\<lambda>key.
     rbind (ensure ARGUMENT (arena < 2 ^ 32)) (\<lambda>_.
       case cc_init_extended C raw arena (Some \<lparr>of_keys = keys, of_capacity = 1024 + size_limit, of_maximum = size_limit,
         of_app_key = key\<rparr>) of (c, n) \<Rightarrow> rbind (check_code n) (\<lambda>_. Inr c)))))))"

definition client_tick where
  "client_tick C = call_with (Inr ()) (\<lambda>_ c. no_output (cc_tick C c))"

definition client_activate where
  "client_activate C key = call_with (slice_str key) (\<lambda>k c. no_output (cc_activate C k c))"

definition client_require_access where
  "client_require_access C entitlement = call_with (slice_str entitlement) (\<lambda>e c. no_output (cc_require_access C e c))"

definition client_snapshot where
  "client_snapshot C = call_with (Inr ()) (\<lambda>_. cc_snapshot C)"

definition client_deactivate where
  "client_deactivate C = call_with (Inr ()) (\<lambda>_ c. no_output (cc_deactivate C c))"

definition client_invalidate where
  "client_invalidate C = call_with (Inr ()) (\<lambda>_ c. no_output (cc_invalidate C c))"

definition client_clock_lost where
  "client_clock_lost C = call_with (Inr ()) (\<lambda>_ c. no_output (cc_clock_lost C c))"

definition client_close where
  "client_close C = call_with (Inr ()) (\<lambda>_ c. no_output (cc_close C c))"

definition client_start_session where
  "client_start_session C op = call_with (raw_operation_of op) (cc_start_session C)"

definition client_end_session where
  "client_end_session C op = call_with (raw_operation_of op) (\<lambda>o1 c. no_output (cc_end_session C o1 c))"

definition client_session where
  "client_session C = call_with (Inr ()) (\<lambda>_. cc_session C)"

text \<open>\<open>usage\<close> and \<open>resources\<close>.\<close>

definition client_counter :: "(string \<Rightarrow> 'c \<Rightarrow> 'c \<times> int \<times> limit_result) \<Rightarrow> string \<Rightarrow> 'c \<Rightarrow> 'c \<times> raw_counter code_result" where
  "client_counter f name c = (case call_with (slice_str name) f c of
     (c', r) \<Rightarrow> (c', rbind r (\<lambda>out. Inr (lr_counter out))))"

subsection \<open>Metering\<close>

datatype mutation = Consume | AcquireResource | ReleaseResource

definition mutate ::
    "'c c_client \<Rightarrow> string \<Rightarrow> string \<Rightarrow> nat \<Rightarrow> operation option \<Rightarrow> mutation \<Rightarrow> 'c \<Rightarrow> 'c \<times> (mutation_error + limit_result)" where
  "mutate C name i units op kind c =
     (case (case rbind (slice_str name) (\<lambda>n. rbind (slice_str i) (\<lambda>j. rbind (raw_operation_of op) (\<lambda>o1. Inr (n, j, o1)))) of
          Inl e \<Rightarrow> (c, Inl e, default_limit_result)
        | Inr (n, j, o1) \<Rightarrow>
            (case (case kind of
                Consume \<Rightarrow> cc_consume C n units o1 default_limit_result c
              | AcquireResource \<Rightarrow> cc_acquire_resource C n j units o1 default_limit_result c
              | ReleaseResource \<Rightarrow> cc_release_resource C n j o1 default_limit_result c) of
              (c', r, result) \<Rightarrow> (c', check_code r, result))) of
        (c', Inr _, result) \<Rightarrow> (c', Inr result)
      | (c', Inl e, result) \<Rightarrow> (c', Inl \<lparr>mu_error = e,
          mu_counter = (if lr_capacity_denied result \<noteq> 0 then Some (lr_counter result) else None),
          mu_requested_units = lr_units result, mu_operation_id = lr_operation_id result,
          mu_operation_id_length = lr_operation_id_length result, mu_uncertain = (lr_uncertain result \<noteq> 0)\<rparr>))"

definition client_consume where
  "client_consume C name units op = mutate C name [] units op Consume"

definition client_acquire_resource where
  "client_acquire_resource C name resource units op = mutate C name resource units op AcquireResource"

definition client_release_resource where
  "client_release_resource C name allocation op = mutate C name allocation 0 op ReleaseResource"

text \<open>A mutation that never reached the C client reports no id, no counter and no uncertainty.\<close>

lemma mutate_not_sent:
  assumes "\<not> length name < 2 ^ 32 \<or> \<not> length i < 2 ^ 32"
  shows "\<exists>e. mutate C name i units op kind c = (c, Inl e) \<and> mu_error e = ARGUMENT \<and> mu_counter e = None
    \<and> mu_operation_id_length e = 0 \<and> \<not> mu_uncertain e"
  using assms by (auto simp: mutate_def slice_str_def rbind_def ensure_def default_limit_result_def)

subsection \<open>Updates, authorisations and offline files\<close>

definition release_view :: "('x) external_scheme \<Rightarrow> raw_release \<Rightarrow> raw_release code_result" where
  "release_view X r =
     rbind (view_id X (rl_id r)) (\<lambda>i.
     rbind (raw_str X (rl_channel r)) (\<lambda>c.
     rbind (raw_str X (rl_version r)) (\<lambda>v.
     rbind (raw_str X (rl_notes r)) (\<lambda>n. Inr (r\<lparr>rl_id := i, rl_channel := c, rl_version := v, rl_notes := n\<rparr>)))))"

definition update_view :: "('x) external_scheme \<Rightarrow> raw_update \<Rightarrow> (raw_release \<times> device_artifact) option code_result" where
  "update_view X u =
     (if ru_available u = 0 then Inr None
      else rbind (artifact_view X (ru_artifact u)) (\<lambda>a. rbind (release_view X (ru_release u)) (\<lambda>r. Inr (Some (r, a)))))"

definition client_check_for_updates where
  "client_check_for_updates X C installed platform architecture channel op c =
     (case call_with (rbind (raw_operation_of op) (\<lambda>o1.
          rbind (slice_str (or_else channel ''stable'')) (\<lambda>ch. rbind (slice_str platform) (\<lambda>p.
          rbind (slice_str architecture) (\<lambda>a. Inr (o1, ch, p, a))))))
        (\<lambda>(o1, ch, p, a). cc_check_for_updates C installed ch p a o1) c of
      (c', r) \<Rightarrow> (c', rbind r (update_view X)))"

definition client_authorize_download where
  "client_authorize_download X C release artifact op c =
     (case call_with (rbind (raw_operation_of op) (\<lambda>o1. rbind (slice_str release) (\<lambda>r. rbind (slice_str artifact) (\<lambda>a. Inr (o1, r, a)))))
        (\<lambda>(o1, r, a). cc_authorize_download C r a o1) c of
      (c', r) \<Rightarrow> (c', rbind r (authorization_view X)))"

definition client_import_offline_file where
  "client_import_offline_file C bytes =
     call_with (rbind (ensure ARGUMENT (length bytes < 2 ^ 32)) (\<lambda>_. Inr bytes)) (\<lambda>b c. no_output (cc_import_file C b c))"

text \<open>\<open>offline_read\<close> is \<open>read_callback\<close> with the code of \<open>ARGUMENT\<close>.\<close>

definition client_import_offline_reader where
  "client_import_offline_reader C op =
     call_with (raw_operation_of op) (\<lambda>o1 c. no_output (cc_import_reader C (read_callback 10) o1 c))"

definition client_offline_request :: "('x) external_scheme \<Rightarrow> 'c c_client \<Rightarrow> string \<Rightarrow> 'c \<Rightarrow> 'c \<times> string code_result" where
  "client_offline_request X C output c =
     (case call_with (rbind (ensure ARGUMENT (length output < 2 ^ 32)) (\<lambda>_. Inr (length output))) (cc_offline_request C) c of
      (c', r) \<Rightarrow> (c', rbind r (\<lambda>(written, n).
         rbind (ensure UNTRUSTED (n \<le> length output)) (\<lambda>_. raw_str X (take n (overwrite output written))))))"

text \<open>
  The offline request that the caller sees is text of at most the caller's buffer, whatever length
  the C client reports.
\<close>

lemma offline_request_fits:
  "client_offline_request X C output c = (c', Inr t) \<Longrightarrow> utf8 X t \<and> length t \<le> length output"
  by (auto simp: client_offline_request_def result_simps split: prod.splits)

text \<open>An update that is offered to the caller names its release and its artifact by identifiers.\<close>

lemma offered_update_ids:
  assumes "client_check_for_updates X C installed platform architecture channel op c = (c', Inr (Some (r, a)))"
  shows "id_new (rl_id r) = Inr (rl_id r)" "id_new (va_id a) = Inr (va_id a)" "id_new (va_release_id a) = Inr (va_release_id a)"
  using assms
  by (auto simp: client_check_for_updates_def update_view_def release_view_def artifact_view_def view_id_def id_new_def
      result_simps split: prod.splits if_splits)

end
