(* ===== verification/Device.thy ===== *)
theory Device
  imports Streaming
begin

text \<open>
  What a download of an embedded device guarantees: the destination is committed only with the
  signed bytes, staging and connections are always put away, and the bearer ticket is sent once.
\<close>

subsection \<open>What a port has been told\<close>

text \<open>The bytes hashed since the hash was started, and those staged since staging was started.\<close>

definition hashed :: "history \<Rightarrow> string" where
  "hashed h = foldl (\<lambda>acc c. case c of HashBegin \<Rightarrow> [] | HashUpdate b \<Rightarrow> acc @ b | _ \<Rightarrow> acc) [] h"

definition staged :: "history \<Rightarrow> string" where
  "staged h = foldl (\<lambda>acc c. case c of StageBegin _ \<Rightarrow> [] | StageWrite b \<Rightarrow> acc @ b | _ \<Rightarrow> acc) [] h"

text \<open>The calls that start or settle the staging, and those that open or close a connection.\<close>

fun is_stage_mark :: "io_call \<Rightarrow> bool" where
  "is_stage_mark (StageBegin _) = True" | "is_stage_mark StageCommit = True" | "is_stage_mark StageAbort = True"
| "is_stage_mark _ = False"

fun is_connection :: "io_call \<Rightarrow> bool" where
  "is_connection (Open _ _) = True" | "is_connection CloseStream = True" | "is_connection _ = False"

abbreviation "stage_marks h \<equiv> filter is_stage_mark h"
abbreviation "connections h \<equiv> filter is_connection h"

definition opens :: "history \<Rightarrow> (string \<times> string option) list" where
  "opens h = concat (map (\<lambda>c. case c of Open u t \<Rightarrow> [(u, t)] | _ \<Rightarrow> []) h)"

text \<open>Connections are opened and closed in turn.\<close>

fun paired :: "history \<Rightarrow> bool" where
  "paired [] = True"
| "paired (Open _ _ # CloseStream # r) = paired r"
| "paired _ = False"

definition half_paired :: "history \<Rightarrow> bool" where
  "half_paired h \<longleftrightarrow> (\<exists>p u t. h = p @ [Open u t] \<and> paired p)"

lemma opens_simps [simp]: "opens [] = []" "opens (h @ tr) = opens h @ opens tr"
  "opens (c # tr) = (case c of Open u t \<Rightarrow> [(u, t)] | _ \<Rightarrow> []) @ opens tr"
  by (simp_all add: opens_def)

lemma paired_append: "paired p \<Longrightarrow> paired q \<Longrightarrow> paired (p @ q)"
  by (induction p rule: paired.induct) auto

lemma half_paired_closed: "half_paired p \<Longrightarrow> paired (p @ [CloseStream])"
  using paired_append[of _ "[Open _ _, CloseStream]"] by (auto simp: half_paired_def)

lemma half_paired_append: "paired p \<Longrightarrow> half_paired q \<Longrightarrow> half_paired (p @ q)"
  using paired_append by (fastforce simp: half_paired_def)

text \<open>A stretch of calls that leaves hash and staging as they are, and one that adds the bytes \<open>b\<close> to both.\<close>

definition stores :: "string \<Rightarrow> history \<Rightarrow> bool" where
  "stores b tr \<longleftrightarrow> (\<forall>h. hashed (h @ tr) = hashed h @ b \<and> staged (h @ tr) = staged h @ b)"

lemma stores_Nil [simp]: "stores [] []"
  by (simp add: stores_def)

lemma stores_append: "stores a p \<Longrightarrow> stores b q \<Longrightarrow> stores (a @ b) (p @ q)"
  unfolding stores_def by (metis append_assoc)

lemma stores_calls [simp]:
  "stores [] [AskCancelled]" "stores [] [Open u t]" "stores [] [CloseStream]" "stores [] [ReadStream n]"
  "stores [] [HashFinish]" "stores b [HashUpdate b, StageWrite b]"
  by (simp_all add: stores_def hashed_def staged_def)

subsection \<open>Steps and what they add\<close>

definition adds :: "'a io_step \<Rightarrow> (history \<Rightarrow> history \<Rightarrow> (bool \<times> int) + 'a \<Rightarrow> bool) \<Rightarrow> bool" where
  "adds m P \<longleftrightarrow> (\<forall>h. \<exists>tr. fst (m h) = h @ tr \<and> P h tr (snd (m h)))"

lemma adds_weaken: "adds m P \<Longrightarrow> (\<And>h tr r. P h tr r \<Longrightarrow> Q h tr r) \<Longrightarrow> adds m Q"
  unfolding adds_def by blast

lemma adds_bind:
  assumes "adds m P" "\<And>v. adds (f v) (Q v)"
    and "\<And>h tr e. P h tr (Inl e) \<Longrightarrow> R h tr (Inl e)"
    and "\<And>h tr v tr' r. P h tr (Inr v) \<Longrightarrow> Q v (h @ tr) tr' r \<Longrightarrow> R h (tr @ tr') r"
  shows "adds (io_bind m f) R"
  unfolding adds_def
proof
  fix h
  from assms(1) obtain tr where tr: "fst (m h) = h @ tr" "P h tr (snd (m h))" by (auto simp: adds_def)
  show "\<exists>tr. fst (io_bind m f h) = h @ tr \<and> R h tr (snd (io_bind m f h))"
  proof (cases "snd (m h)")
    case (Inl e)
    with tr assms(3)[of h tr e] show ?thesis by (auto simp: io_bind_def split: prod.splits)
  next
    case (Inr v)
    from assms(2) obtain tr' where "fst (f v (h @ tr)) = (h @ tr) @ tr'" "Q v (h @ tr) tr' (snd (f v (h @ tr)))"
      unfolding adds_def by blast
    with tr Inr assms(4) show ?thesis
      by (intro exI[of _ "tr @ tr'"]) (auto simp: io_bind_def split: prod.splits)
  qed
qed

lemma io_fail_adds: "adds (io_fail opened e) (\<lambda>h tr r. tr = [] \<and> r = Inl (opened, e))"
  by (simp add: adds_def io_fail_def)

lemma io_ret_adds: "adds (io_ret v) (\<lambda>h tr r. tr = [] \<and> r = Inr v)"
  by (simp add: adds_def io_ret_def)

lemma io_tell_adds: "adds (io_tell c) (\<lambda>h tr r. tr = [c] \<and> r = Inr ())"
  by (simp add: adds_def io_tell_def)

lemma io_code_adds: "adds (io_code opened answer c) (\<lambda>h tr r. tr = [c] \<and>
    r = (if code_of (answer (h @ [c])) = 0 then Inr () else Inl (opened, code_of (answer (h @ [c])))))"
  by (simp add: adds_def io_code_def Let_def)

lemma ask_cancelled_adds: "adds (ask_cancelled io opened) (\<lambda>h tr r. tr = [AskCancelled] \<and> (r = Inl (opened, 23) \<or> r = Inr ()))"
  by (simp add: adds_def ask_cancelled_def Let_def)

definition ticket_option :: "string \<Rightarrow> string option" where
  "ticket_option t = (if t = [] then None else Some t)"

lemma c_open_adds:
  assumes "utf8 X url" "utf8 X ticket"
  shows "adds (c_open X io url ticket) (\<lambda>h tr r. tr = [Open url (ticket_option ticket)]
    \<and> (\<forall>opened e. r = Inl (opened, e) \<longrightarrow> opened \<and> e \<noteq> 0))"
  using assms by (auto simp: adds_def c_open_def download_open_def raw_str_def optional_str_def ticket_option_def
      code_and_value_def Let_def split: sum.splits if_splits)

subsection \<open>Opening\<close>

text \<open>A failure has a code other than 0 and says whether the connections \<open>tr\<close> are left open.\<close>

definition failed_tidily :: "history \<Rightarrow> bool \<times> int \<Rightarrow> bool" where
  "failed_tidily tr e \<longleftrightarrow> snd e \<noteq> 0 \<and> (if fst e then half_paired (connections tr) else paired (connections tr))"

definition opened_with :: "(string \<Rightarrow> bool) \<Rightarrow> nat \<Rightarrow> string \<Rightarrow> string \<Rightarrow> history \<Rightarrow> bool" where
  "opened_with V n url ticket tr \<longleftrightarrow> opens tr = [] \<or> (\<exists>rest. opens tr = (url, ticket_option ticket) # rest
     \<and> length rest \<le> n \<and> list_all (\<lambda>(u, t). t = None \<and> https_url V u False) rest)"

definition open_post :: "(string \<Rightarrow> bool) \<Rightarrow> nat \<Rightarrow> string \<Rightarrow> string \<Rightarrow> history \<Rightarrow> (bool \<times> int) + unit \<Rightarrow> bool" where
  "open_post V n url ticket tr r \<longleftrightarrow> stores [] tr \<and> stage_marks tr = [] \<and> opened_with V n url ticket tr
     \<and> (case r of Inl e \<Rightarrow> failed_tidily tr e | Inr _ \<Rightarrow> half_paired (connections tr))"

lemma open_step_adds:
  assumes "utf8 X url" "utf8 X ticket"
    and "\<And>resp. adds (redirect resp) (\<lambda>h tr r. open_post V n url ticket ([AskCancelled, Open url (ticket_option ticket)] @ tr) r)"
  shows "adds (open_step X io a redirect url ticket) (\<lambda>h. open_post V n url ticket)"
proof -
  let ?open = "[AskCancelled, Open url (ticket_option ticket)]"
  have "half_paired [Open url (ticket_option ticket)]" by (simp add: half_paired_def)
  moreover have "stores ([] @ []) ([AskCancelled] @ [Open url (ticket_option ticket)])" by (rule stores_append) simp_all
  ultimately have failed: "\<And>c. c \<noteq> 0 \<Longrightarrow> open_post V n url ticket ?open (Inl (True, c))"
    and ok: "open_post V n url ticket ?open (Inr ())"
    by (simp_all add: open_post_def opened_with_def failed_tidily_def)
  have asked: "open_post V n url ticket [AskCancelled] (Inl (False, 23))"
    by (simp add: open_post_def opened_with_def failed_tidily_def)
  have step: "adds (if rp_status resp \<in> {301, 302, 303, 307, 308} then redirect resp
       else if rp_status resp \<noteq> 200 \<or> (rp_encoding resp \<noteq> [] \<and> rp_encoding resp \<noteq> ''identity'')
         \<or> (rp_has_length resp \<noteq> 0 \<and> rp_length resp \<noteq> ra_byte_length a) then io_fail True 12
       else io_ret ()) (\<lambda>h tr r. open_post V n url ticket (?open @ tr) r)" for resp
    using assms(3) failed[of 12] ok by (auto intro!: adds_weaken[OF io_fail_adds] adds_weaken[OF io_ret_adds])
  show ?thesis
    unfolding open_step_def
    by (rule adds_bind[OF ask_cancelled_adds adds_bind[OF c_open_adds[OF assms(1,2)] step,
          where R = "\<lambda>h tr r. open_post V n url ticket (AskCancelled # tr) r"]])
      (use failed asked in auto)
qed

lemma visible_ascii: "list_all visible s \<Longrightarrow> list_all is_ascii s"
  by (auto simp: list_all_iff visible_def is_ascii_def)

lemma https_url_ascii: "https_url V u b \<Longrightarrow> list_all is_ascii u"
proof -
  assume u: "https_url V u b"
  then have "starts_with (take 8 u @ host_part u) ''https://''" "9 \<le> length u" and drop: "list_all visible (drop 8 u)"
    by (auto simp: https_url_def origin_valid_def list_all_iff)
  then obtain r where "take 8 u @ host_part u = ''https://'' @ r" by (auto simp: starts_with_iff)
  then have "take 8 (take 8 u @ host_part u) = ''https://''" by simp
  with \<open>9 \<le> length u\<close> have "take 8 u = ''https://''" by simp
  then have "list_all is_ascii (take 8 u)" by (simp add: is_ascii_def byte_def)
  with visible_ascii[OF drop] have "list_all is_ascii (take 8 u @ drop 8 u)" by (simp only: list_all_append)
  then show ?thesis by simp
qed

lemma open_stream_adds:
  assumes ascii: "\<And>s. list_all is_ascii s \<Longrightarrow> utf8 X s"
    and "list_all is_ascii url" "list_all is_ascii ticket"
  shows "adds (open_stream X V io a n url ticket) (\<lambda>h. open_post V n url ticket)"
  using assms(2,3)
proof (induction n arbitrary: url ticket)
  case 0
  let ?open = "[AskCancelled, Open url (ticket_option ticket)]"
  have "stores ([] @ []) ([AskCancelled] @ [Open url (ticket_option ticket)])" by (rule stores_append) simp_all
  then have "open_post V 0 url ticket ?open (Inl (True, 12))"
    by (simp add: open_post_def opened_with_def failed_tidily_def half_paired_def)
  with 0 show ?case
    by (simp, intro open_step_adds ascii adds_weaken[OF io_fail_adds]) auto
next
  case (Suc n)
  let ?open = "[AskCancelled, Open url (ticket_option ticket)]"
  have "stores ([] @ []) ([AskCancelled] @ [Open url (ticket_option ticket)])" by (rule stores_append) simp_all
  then have failed: "open_post V (Suc n) url ticket ?open (Inl (True, 12))" and st: "stores [] ?open"
    by (simp_all add: open_post_def opened_with_def failed_tidily_def half_paired_def)
  have more: "open_post V (Suc n) url ticket (?open @ CloseStream # tr) r"
    if post: "open_post V n u [] tr r" and "https_url V u False" for tr r u
  proof -
    have "stores ([] @ [] @ []) (?open @ [CloseStream] @ tr)"
      using post by (intro stores_append st) (simp_all add: open_post_def)
    moreover have "opened_with V (Suc n) url ticket (?open @ CloseStream # tr)"
      using that by (auto simp: open_post_def opened_with_def ticket_option_def)
    moreover have "half_paired q \<Longrightarrow> half_paired (Open url (ticket_option ticket) # CloseStream # q)" for q
      using half_paired_append[of "[Open url (ticket_option ticket), CloseStream]"] by simp
    ultimately show ?thesis
      using post by (auto simp: open_post_def failed_tidily_def split: sum.splits)
  qed
  have "adds (if \<not> https_url V (rp_location resp) False then io_fail True 12
     else io_bind (io_tell CloseStream) (\<lambda>_. open_stream X V io a n (rp_location resp) []))
       (\<lambda>h tr r. open_post V (Suc n) url ticket (?open @ tr) r)" for resp
  proof (cases "https_url V (rp_location resp) False")
    case True
    then have "adds (open_stream X V io a n (rp_location resp) []) (\<lambda>h. open_post V n (rp_location resp) [])"
      by (intro Suc.IH) (simp_all add: https_url_ascii)
    with True more show ?thesis
      by simp (rule adds_bind[OF io_tell_adds], assumption, auto)
  next
    case False
    with failed show ?thesis by (auto intro!: adds_weaken[OF io_fail_adds])
  qed
  with Suc.prems show ?case
    by (simp, intro open_step_adds ascii)
qed

subsection \<open>Reading\<close>

definition read_post :: "raw_artifact \<Rightarrow> nat \<Rightarrow> history \<Rightarrow> (bool \<times> int) + nat \<Rightarrow> bool" where
  "read_post a sofar tr r \<longleftrightarrow> stage_marks tr = [] \<and> connections tr = [] \<and> opens tr = []
     \<and> (case r of Inl e \<Rightarrow> fst e \<and> snd e \<noteq> 0
        | Inr n \<Rightarrow> n \<le> ra_byte_length a \<and> (\<exists>b. stores b tr \<and> n = sofar + length b))"

lemma store_chunk_adds: "adds (store_chunk io b) (\<lambda>h tr r. stage_marks tr = [] \<and> connections tr = [] \<and> opens tr = []
    \<and> (case r of Inl e \<Rightarrow> fst e \<and> snd e \<noteq> 0 | Inr _ \<Rightarrow> stores b tr))"
  unfolding store_chunk_def by (rule adds_bind[OF io_code_adds io_code_adds]) (auto split: if_splits)

lemma read_callback_length: "read_callback c buffer answer = (r, buffer', got) \<Longrightarrow> length buffer' = length buffer"
  by (auto simp: read_callback_def Let_def split: sum.splits if_splits)

lemma read_stream_adds:
  assumes "sofar \<le> ra_byte_length a"
  shows "\<exists>tr. fst (read_stream io a maximum buffer sofar h) = h @ tr
    \<and> read_post a sofar tr (snd (read_stream io a maximum buffer sofar h))"
  using assms
proof (induction io a maximum buffer sofar h rule: read_stream.induct)
  case (1 io a maximum buffer sofar h)
  let ?h1 = "h @ [AskCancelled]" and ?h2 = "h @ [AskCancelled, ReadStream (length buffer)]"
  obtain r buffer' got where read: "read_callback 19 buffer (io_read io ?h2) = (r, buffer', got)" by (metis prod_cases3)
  then have dl: "download_read io buffer ?h1 = (?h2, r, buffer', got)" by (simp add: download_read_def)
  let ?n = "or_else got 0"
  have st: "stores [] [AskCancelled, ReadStream (length buffer)]"
    using stores_append[OF stores_calls(1) stores_calls(4)] by simp
  show ?case
  proof (cases "io_cancelled io ?h1")
    case True
    then show ?thesis by (subst (1 2) read_stream.simps) (simp add: ask_cancelled_def read_post_def)
  next
    case False
    then have ask: "ask_cancelled io True h = (?h1, Inr ())" by (simp add: ask_cancelled_def)
    show ?thesis
    proof (cases "r \<noteq> 0 \<or> ?n > length buffer \<or> ?n > ra_byte_length a - sofar \<or> ?n > maximum - sofar \<or> ?n = 0")
      case True
      with ask dl st 1(2) show ?thesis
        by (subst (1 2) read_stream.simps) (auto simp: read_post_def Let_def)
    next
      case False
      then have n: "r = 0" "?n \<le> length buffer" "?n \<le> ra_byte_length a - sofar" "?n \<le> maximum - sofar" "0 < ?n" by auto
      let ?b = "take ?n buffer'"
      have len: "length ?b = ?n" using n(2) read_callback_length[OF read] by simp
      obtain tr where tr: "fst (store_chunk io ?b ?h2) = ?h2 @ tr" "stage_marks tr = []" "connections tr = []" "opens tr = []"
        "case snd (store_chunk io ?b ?h2) of Inl e \<Rightarrow> fst e \<and> snd e \<noteq> 0 | Inr _ \<Rightarrow> stores ?b tr"
        using store_chunk_adds[of io ?b] unfolding adds_def by blast
      have unfold: "read_stream io a maximum buffer sofar h = (case store_chunk io ?b ?h2 of
                (h3, Inl e) \<Rightarrow> (h3, Inl e)
              | (h3, Inr _) \<Rightarrow> read_stream io a maximum buffer' (sofar + ?n) h3)"
        using ask dl n by (subst read_stream.simps) (simp add: Let_def)
      show ?thesis
      proof (cases "snd (store_chunk io ?b ?h2)")
        case (Inl e)
        with tr show ?thesis unfolding unfold by (auto simp: read_post_def split: prod.splits)
      next
        case (Inr u)
        then have chunk: "store_chunk io ?b ?h2 = (?h2 @ tr, Inr ())" using tr(1) by (cases "store_chunk io ?b ?h2") simp
        have le: "sofar + ?n \<le> ra_byte_length a" using n(3) 1(2) by linarith
        obtain tr' where tr': "fst (read_stream io a maximum buffer' (sofar + ?n) (?h2 @ tr)) = (?h2 @ tr) @ tr'"
          "read_post a (sofar + ?n) tr' (snd (read_stream io a maximum buffer' (sofar + ?n) (?h2 @ tr)))"
          using 1(1)[of ?h1 "Inr ()" "()" ?h2 "(r, buffer', got)" r "(buffer', got)" buffer' got ?n "?h2 @ tr" "Inr ()" "()"]
            ask dl n chunk le by auto
        have "stores (?b @ b) ([AskCancelled, ReadStream (length buffer)] @ tr @ tr')" if "stores b tr'" for b
          using stores_append[OF st stores_append[OF _ that], of ?b tr] tr(5) Inr by simp
        moreover have "read_stream io a maximum buffer sofar h = read_stream io a maximum buffer' (sofar + ?n) (?h2 @ tr)"
          using unfold chunk by simp
        ultimately show ?thesis
          using tr tr' len by (intro exI[of _ "[AskCancelled, ReadStream (length buffer)] @ tr @ tr'"])
            (fastforce simp: read_post_def split: sum.splits)
      qed
    qed
  qed
qed

subsection \<open>Finishing\<close>

text \<open>A port as safe code can write it, whose hash is the hash of what it was given.\<close>

definition sound_port :: "('x) external_scheme \<Rightarrow> download_io \<Rightarrow> bool" where
  "sound_port X io \<longleftrightarrow>
     (\<forall>h. sound_result (io_stage_begin io h) \<and> sound_result (io_stage_commit io h)
        \<and> sound_result (snd (io_hash_finish io h))
        \<and> (snd (io_hash_finish io h) = Inr () \<longrightarrow> fst (io_hash_finish io h) = sha256 X (hashed h)))"

definition finish_post ::
    "('x) external_scheme \<Rightarrow> download_io \<Rightarrow> raw_artifact \<Rightarrow> nat \<Rightarrow> history \<Rightarrow> history \<Rightarrow> (bool \<times> int) + unit \<Rightarrow> bool" where
  "finish_post X io a sofar h tr r \<longleftrightarrow> connections tr = [CloseStream] \<and> opens tr = []
     \<and> (case r of
          Inl e \<Rightarrow> \<not> fst e \<and> snd e \<noteq> 0 \<and> (stage_marks tr = [] \<or> (\<exists>p. tr = p @ [StageCommit] \<and> stage_marks p = []
            \<and> io_stage_commit io (h @ tr) = Inl (CodeError (snd e))))
        | Inr _ \<Rightarrow> sofar = ra_byte_length a \<and> (\<exists>p. tr = p @ [StageCommit] \<and> stage_marks p = [] \<and> stores [] p)
            \<and> io_stage_commit io (h @ tr) = Inr () \<and> ra_sha256 a = sha256 X (hashed h))"

lemma hashed_skip [simp]: "hashed (h @ [CloseStream, HashFinish]) = hashed h"
  by (simp add: hashed_def)

lemma finish_stream_adds:
  assumes "sound_port X io" and "\<And>b. length (sha256 X b) = 32"
  shows "adds (finish_stream X io a sofar) (finish_post X io a sofar)"
  unfolding adds_def
proof
  fix h
  let ?h1 = "h @ [CloseStream, HashFinish]"
  obtain d u where fin: "io_hash_finish io ?h1 = (d, u)" by (metis prod.exhaust)
  have "sound_result (snd (io_hash_finish io ?h1))"
    and "snd (io_hash_finish io ?h1) = Inr () \<longrightarrow> fst (io_hash_finish io ?h1) = sha256 X (hashed ?h1)"
    and commit: "sound_result (io_stage_commit io h')" for h'
    using assms(1) unfolding sound_port_def by blast+
  then have d: "u = Inr () \<Longrightarrow> d = sha256 X (hashed h)" and u: "\<And>e. u = Inl e \<Longrightarrow> error_code e \<noteq> 0"
    by (simp_all add: fin sound_result_def)
  let ?commit = "h @ [CloseStream, HashFinish, AskCancelled, StageCommit]"
  obtain k where k: "io_stage_commit io ?commit = check_code k"
    using check_code_of[OF commit[of ?commit]] by (rule that[OF sym])
  then have c: "code_of (io_stage_commit io ?commit) = k" by (simp add: code_of_def check_code_def)
  have st: "stores [] [CloseStream, HashFinish, AskCancelled]"
    using stores_append[OF stores_calls(3) stores_append[OF stores_calls(5) stores_calls(1)]] by simp
  note defs = finish_stream_def io_bind_def io_tell_def io_fail_def c_hash_finish_def digest_callback_def
    ask_cancelled_def io_code_def Let_def finish_post_def
  show "\<exists>tr. fst (finish_stream X io a sofar h) = h @ tr \<and> finish_post X io a sofar h tr (snd (finish_stream X io a sofar h))"
  proof (cases "sofar = ra_byte_length a \<and> u = Inr () \<and> d = ra_sha256 a \<and> \<not> io_cancelled io (h @ [CloseStream, HashFinish, AskCancelled])")
    case True
    then have len: "length d = 32" using d assms(2) by simp
    have run: "finish_stream X io a sofar h = (?commit, if k = 0 then Inr () else Inl (False, k))"
      using True fin c len by (simp add: defs overwrite_all)
    let ?p = "[CloseStream, HashFinish, AskCancelled]"
    have "finish_post X io a sofar h (?p @ [StageCommit]) (if k = 0 then Inr () else Inl (False, k))"
      using True d k st unfolding finish_post_def by (auto simp: check_code_def)
    with run show ?thesis by (intro exI[of _ "?p @ [StageCommit]"]) simp
  next
    case False
    then show ?thesis
      using fin d u assms(2)[of "hashed h"]
      by (cases "sofar = ra_byte_length a"; cases u) (auto simp: defs overwrite_all)
  qed
qed

subsection \<open>The whole transfer\<close>

text \<open>How a stretch of calls settles the staging: not at all, or with a last commit that was answered with \<open>e\<close>.\<close>

definition commit_failed :: "download_io \<Rightarrow> history \<Rightarrow> history \<Rightarrow> bool \<times> int \<Rightarrow> bool" where
  "commit_failed io h tr e \<longleftrightarrow> stage_marks tr = []
     \<or> (\<exists>p. tr = p @ [StageCommit] \<and> stage_marks p = [] \<and> \<not> fst e
          \<and> io_stage_commit io (h @ tr) = Inl (CodeError (snd e)))"

definition committed :: "('x) external_scheme \<Rightarrow> download_io \<Rightarrow> raw_artifact \<Rightarrow> string \<Rightarrow> history \<Rightarrow> history \<Rightarrow> bool" where
  "committed X io a prior h tr \<longleftrightarrow> (\<exists>q b. tr = q @ [StageCommit] \<and> stage_marks q = [] \<and> stores b q
     \<and> length b = ra_byte_length a \<and> ra_sha256 a = sha256 X (prior @ b) \<and> io_stage_commit io (h @ tr) = Inr ())"

lemma commit_failed_prefix: "stage_marks p = [] \<Longrightarrow> commit_failed io (h @ p) tr e \<Longrightarrow> commit_failed io h (p @ tr) e"
  by (auto simp: commit_failed_def)

lemma committed_prefix:
  "stage_marks p = [] \<Longrightarrow> stores [] p \<Longrightarrow> committed X io a x (h @ p) tr \<Longrightarrow> committed X io a x h (p @ tr)"
  unfolding committed_def using stores_append[of "[]" p] by fastforce

lemma read_and_finish_adds:
  assumes "sound_port X io" and "\<And>b. length (sha256 X b) = 32"
  shows "adds (io_bind (read_stream io a maximum buffer 0) (finish_stream X io a)) (\<lambda>h tr r. opens tr = []
    \<and> (case r of
        Inl e \<Rightarrow> snd e \<noteq> 0 \<and> connections tr = (if fst e then [] else [CloseStream]) \<and> commit_failed io h tr e
      | Inr _ \<Rightarrow> connections tr = [CloseStream] \<and> committed X io a (hashed h) h tr))"
proof (rule adds_bind[where P = "\<lambda>h. read_post a 0", OF _ finish_stream_adds[OF assms]])
  show "adds (read_stream io a maximum buffer 0) (\<lambda>h. read_post a 0)"
    unfolding adds_def using read_stream_adds by blast
next
  fix h tr v tr' and r :: "(bool \<times> int) + unit"
  assume read: "read_post a 0 tr (Inr v)" and fin: "finish_post X io a v (h @ tr) tr' r"
  then have tr: "stage_marks tr = []" "connections tr = []" "opens tr = []" "connections tr' = [CloseStream]" "opens tr' = []"
    by (auto simp: read_post_def finish_post_def)
  obtain b where b: "stores b tr" "v = length b" using read by (auto simp: read_post_def)
  show "opens (tr @ tr') = [] \<and> (case r of
        Inl e \<Rightarrow> snd e \<noteq> 0 \<and> connections (tr @ tr') = (if fst e then [] else [CloseStream]) \<and> commit_failed io h (tr @ tr') e
      | Inr _ \<Rightarrow> connections (tr @ tr') = [CloseStream] \<and> committed X io a (hashed h) h (tr @ tr'))"
  proof (cases r)
    case (Inl e)
    then have "commit_failed io (h @ tr) tr' e" "snd e \<noteq> 0" "\<not> fst e"
      using fin by (auto simp: finish_post_def commit_failed_def)
    with tr Inl show ?thesis by (simp add: commit_failed_prefix)
  next
    case (Inr u)
    then obtain p where p: "tr' = p @ [StageCommit]" "stage_marks p = []" "stores [] p" "v = ra_byte_length a"
      "io_stage_commit io ((h @ tr) @ tr') = Inr ()" "ra_sha256 a = sha256 X (hashed (h @ tr))"
      using fin by (auto simp: finish_post_def)
    have "stores b (tr @ p)" using stores_append[OF b(1) p(3)] by simp
    moreover have "hashed (h @ tr) = hashed h @ b" using b(1) by (simp add: stores_def)
    ultimately have "committed X io a (hashed h) h (tr @ tr')"
      using p b(2) tr(1) unfolding committed_def by (intro exI[of _ "tr @ p"] exI[of _ b]) simp
    with tr Inr show ?thesis by simp
  qed
qed (auto simp: read_post_def commit_failed_def split: prod.splits)

definition transfer_post ::
    "('x) external_scheme \<Rightarrow> (string \<Rightarrow> bool) \<Rightarrow> download_io \<Rightarrow> raw_authorization \<Rightarrow> string \<Rightarrow> history \<Rightarrow> history \<Rightarrow> (bool \<times> int) + unit \<Rightarrow> bool" where
  "transfer_post X V io z prior h tr r \<longleftrightarrow> opened_with V 5 (ra_url (rz_artifact z)) (rz_ticket z) tr
     \<and> (case r of
          Inl e \<Rightarrow> failed_tidily tr e \<and> commit_failed io h tr e
        | Inr _ \<Rightarrow> paired (connections tr) \<and> committed X io (rz_artifact z) prior h tr)"

lemma open_and_finish_adds:
  assumes "sound_port X io" and "\<And>b. length (sha256 X b) = 32" and "\<And>s. list_all is_ascii s \<Longrightarrow> utf8 X s"
    and "list_all is_ascii (ra_url (rz_artifact z))" and "list_all is_ascii (rz_ticket z)"
  shows "adds (io_bind (open_stream X V io (rz_artifact z) 5 (ra_url (rz_artifact z)) (rz_ticket z)) (\<lambda>_.
      io_bind (read_stream io (rz_artifact z) maximum buffer 0) (finish_stream X io (rz_artifact z))))
      (\<lambda>h. transfer_post X V io z (hashed h) h)"
proof (rule adds_bind[OF open_stream_adds[OF assms(3,4,5)] read_and_finish_adds[OF assms(1,2)]])
  fix h tr v tr' and r :: "(bool \<times> int) + unit"
  assume op: "open_post V 5 (ra_url (rz_artifact z)) (rz_ticket z) tr (Inr v)"
    and rest: "opens tr' = [] \<and> (case r of
        Inl e \<Rightarrow> snd e \<noteq> 0 \<and> connections tr' = (if fst e then [] else [CloseStream]) \<and> commit_failed io (h @ tr) tr' e
      | Inr _ \<Rightarrow> connections tr' = [CloseStream] \<and> committed X io (rz_artifact z) (hashed (h @ tr)) (h @ tr) tr')"
  have "hashed (h @ tr) = hashed h" using op by (simp add: open_post_def stores_def)
  with op rest show "transfer_post X V io z (hashed h) h (tr @ tr') r"
    by (auto simp: transfer_post_def open_post_def opened_with_def failed_tidily_def half_paired_closed
        commit_failed_prefix committed_prefix split: sum.splits)
qed (auto simp: transfer_post_def open_post_def commit_failed_def)

lemma transfer_adds:
  assumes "sound_port X io" and "\<And>b. length (sha256 X b) = 32" and "\<And>s. list_all is_ascii s \<Longrightarrow> utf8 X s"
    and "list_all is_ascii (ra_url (rz_artifact z))" and "list_all is_ascii (rz_ticket z)"
  shows "adds (transfer X V io z maximum scratch) (\<lambda>h tr r. \<exists>tr'. tr = HashBegin # tr' \<and>
     ((tr' = [] \<and> (\<exists>e. r = Inl (False, e) \<and> e \<noteq> 0)) \<or> transfer_post X V io z [] (h @ [HashBegin]) tr' r))"
proof -
  have "hashed (h @ [HashBegin]) = []" for h by (simp add: hashed_def)
  then show ?thesis
    unfolding transfer_def Let_def
    by (intro adds_bind[OF io_code_adds open_and_finish_adds[OF assms]]) (auto split: if_splits)
qed

subsection \<open>The guarantees\<close>

definition good_libs :: "('x) external_scheme \<Rightarrow> bool" where
  "good_libs X \<longleftrightarrow> (\<forall>b. length (sha256 X b) = 32) \<and> (\<forall>s. list_all is_ascii s \<longrightarrow> utf8 X s)"

lemma raw_authorization_of_Inr:
  assumes "raw_authorization_of d = Inr z"
  shows "ra_url (rz_artifact z) = va_url (dv_artifact d)" "ra_byte_length (rz_artifact z) = va_byte_length (dv_artifact d)"
    "ra_sha256 (rz_artifact z) = va_sha256 (dv_artifact d)" "rz_ticket z = or_else (dv_ticket d) []"
  using assms by (auto simp: raw_authorization_of_def raw_artifact_of_def result_simps)

text \<open>
  A stream that got as far as the transfer: \<open>tr\<close> are the transfer's calls after the hash was started.
  Otherwise nothing was staged, or what was staged was discarded.
\<close>

lemma stream_cases:
  assumes "sound_port X io" "good_libs X" and run: "stream X V io d maximum replace scratch = (h, r)"
  obtains (early) e where "r = Inl e" "h = [] \<or> h = [AskCancelled] \<or> h = [AskCancelled, StageBegin replace, StageAbort]
      \<or> h = [AskCancelled, StageBegin replace, HashBegin, StageAbort]"
  | (moved) z tr opened where "raw_authorization_of d = Inr z" "stream_arguments V z maximum scratch"
      "transfer_post X V io z [] [AskCancelled, StageBegin replace, HashBegin] tr (case r of Inl e \<Rightarrow> Inl (opened, error_code e) | Inr u \<Rightarrow> Inr u)"
      "h = [AskCancelled, StageBegin replace, HashBegin] @ tr
         @ (case r of Inl _ \<Rightarrow> (if opened then [CloseStream] else []) @ [StageAbort] | Inr _ \<Rightarrow> [])"
proof (cases "\<exists>z. raw_authorization_of d = Inr z \<and> length scratch < 2 ^ 32 \<and> stream_arguments V z maximum scratch
    \<and> \<not> io_cancelled io [AskCancelled] \<and> code_of (io_stage_begin io [AskCancelled, StageBegin replace]) = 0")
  case True
  then obtain z where z: "raw_authorization_of d = Inr z" "length scratch < 2 ^ 32" "stream_arguments V z maximum scratch"
    "\<not> io_cancelled io [AskCancelled]" "code_of (io_stage_begin io [AskCancelled, StageBegin replace]) = 0" by auto
  let ?h2 = "[AskCancelled, StageBegin replace]"
  have ascii: "list_all is_ascii (ra_url (rz_artifact z))" "list_all is_ascii (rz_ticket z)"
    using z(3) by (auto simp: stream_arguments_def Let_def intro: https_url_ascii visible_ascii)
  obtain tr where tr: "fst (transfer X V io z maximum scratch ?h2) = ?h2 @ HashBegin # tr"
    "(tr = [] \<and> (\<exists>e. snd (transfer X V io z maximum scratch ?h2) = Inl (False, e) \<and> e \<noteq> 0))
      \<or> transfer_post X V io z [] (?h2 @ [HashBegin]) tr (snd (transfer X V io z maximum scratch ?h2))"
    using transfer_adds[OF assms(1) _ _ ascii, of V maximum scratch] assms(2) unfolding adds_def good_libs_def by blast
  obtain h3 t where t: "transfer X V io z maximum scratch ?h2 = (h3, t)" by (metis prod.exhaust)
  have h: "(h, r) = (case t of Inr _ \<Rightarrow> (h3, Inr ())
      | Inl (opened, e) \<Rightarrow> (h3 @ (if opened then [CloseStream] else []) @ [StageAbort], check_code e))"
    using run z t by (cases t)
      (auto simp: stream_def c_stream_def ask_cancelled_def io_code_def check_code_def)
  show ?thesis
  proof (cases t)
    case (Inr u)
    with h tr t have "h = ?h2 @ HashBegin # tr" "r = Inr ()" by auto
    with tr Inr t show ?thesis by (intro moved[OF z(1,3)]) simp_all
  next
    case (Inl oe)
    obtain opened e where oe: "oe = (opened, e)" by (cases oe)
    with h tr Inl t have h: "h = ?h2 @ HashBegin # tr @ (if opened then [CloseStream] else []) @ [StageAbort]" "r = check_code e"
      by auto
    have e: "e \<noteq> 0" using tr(2) Inl oe t by (auto simp: transfer_post_def failed_tidily_def)
    then have r: "r = Inl (CodeError e)" using h(2) by (simp add: check_code_def)
    show ?thesis
    proof (cases "tr = [] \<and> \<not> opened")
      case True
      with h r show ?thesis by (intro early[of "CodeError e"]) simp_all
    next
      case False
      with tr(2) Inl oe t have "transfer_post X V io z [] (?h2 @ [HashBegin]) tr (Inl (opened, e))" by auto
      with h(1) r show ?thesis by (intro moved[OF z(1,3), of tr opened]) simp_all
    qed
  qed
next
  case False
  then show ?thesis
    using run by (intro early[of "projl r"])
      (auto simp: stream_def c_stream_def ask_cancelled_def io_code_def check_code_def Let_def rbind_def ensure_def
        split: sum.splits if_splits)
qed

text \<open>
  C35.  A device commits exactly what was signed.  If a download succeeds, its last call to the port
  is a commit that the port acknowledged, and what was staged has the length and the SHA-256 digest
  of the authorised artifact and fits the caller's maximum; if it fails, nothing was staged, or what
  was staged has been discarded, and a commit that was tried was refused by the port.
\<close>

theorem device_commits_what_was_signed:
  assumes "sound_port X io" and "good_libs X" and "stream X V io d maximum replace scratch = (h, r)"
  shows "case r of
      Inr _ \<Rightarrow> stage_marks h = [StageBegin replace, StageCommit] \<and> last h = StageCommit \<and> io_stage_commit io h = Inr ()
        \<and> length (staged h) = va_byte_length (dv_artifact d) \<and> length (staged h) \<le> maximum
        \<and> sha256 X (staged h) = va_sha256 (dv_artifact d)
    | Inl e \<Rightarrow> stage_marks h = [] \<or> stage_marks h = [StageBegin replace, StageAbort]
        \<or> (stage_marks h = [StageBegin replace, StageCommit, StageAbort]
           \<and> (\<exists>p. h = p @ [StageAbort] \<and> io_stage_commit io p = Inl e))"
  using assms
proof (cases rule: stream_cases)
  case (early e)
  then show ?thesis by (elim disjE) simp_all
next
  case (moved z tr opened)
  let ?h = "[AskCancelled, StageBegin replace, HashBegin]"
  show ?thesis
  proof (cases r)
    case (Inr u)
    with moved obtain q b where q: "tr = q @ [StageCommit]" "stage_marks q = []" "stores b q"
      "length b = ra_byte_length (rz_artifact z)" "ra_sha256 (rz_artifact z) = sha256 X b" "io_stage_commit io (?h @ tr) = Inr ()"
      by (auto simp: transfer_post_def committed_def)
    have "staged (?h @ q) = staged ?h @ b" using q(3) unfolding stores_def by blast
    moreover have "staged ?h = []" "staged ((?h @ q) @ [StageCommit]) = staged (?h @ q)" by (simp_all add: staged_def)
    ultimately have "staged h = b" using moved(4) Inr q(1) by simp
    moreover have "ra_byte_length (rz_artifact z) \<le> maximum" using moved(2) by (simp add: stream_arguments_def Let_def)
    ultimately show ?thesis using q moved(4) Inr raw_authorization_of_Inr[OF moved(1)] by simp
  next
    case (Inl e)
    with moved have "commit_failed io ?h tr (opened, error_code e)" by (simp add: transfer_post_def)
    with moved(4) Inl show ?thesis by (cases e) (auto simp: commit_failed_def)
  qed
qed

text \<open>
  C36.  A device's ticket stays with the seller.  The port makes at most six connections, each closed
  before the next is opened and before the call returns; the first goes to the URL of the artifact,
  and no other carries the ticket; every one of them is an HTTPS URL without user information.
\<close>

theorem device_ticket_is_sent_once:
  assumes "sound_port X io" and "good_libs X" and "stream X V io d maximum replace scratch = (h, r)"
  shows "paired (connections h) \<and> (opens h = [] \<or> (\<exists>rest.
      opens h = (va_url (dv_artifact d), filter_opt (\<lambda>t. t \<noteq> []) (dv_ticket d)) # rest \<and> length rest \<le> 5
      \<and> https_url V (va_url (dv_artifact d)) (va_protected (dv_artifact d))
      \<and> list_all (\<lambda>(u, t). t = None \<and> https_url V u False) rest))"
  using assms
proof (cases rule: stream_cases)
  case (early e)
  then show ?thesis by (elim disjE) simp_all
next
  case (moved z tr opened)
  have "paired (connections (tr @ [CloseStream]))" if "half_paired (connections tr)" using half_paired_closed[OF that] by simp
  then have "paired (connections h)"
    using moved(3,4) by (auto simp: transfer_post_def failed_tidily_def split: sum.splits if_splits)
  moreover have "opens h = opens tr" using moved(4) by (auto split: sum.splits)
  moreover have "ticket_option (rz_ticket z) = filter_opt (\<lambda>t. t \<noteq> []) (dv_ticket d)"
    by (cases "dv_ticket d") (simp_all add: raw_authorization_of_Inr[OF moved(1)] ticket_option_def)
  moreover have "ra_protected (rz_artifact z) \<noteq> 0 \<longleftrightarrow> va_protected (dv_artifact d)"
    using moved(1) by (auto simp: raw_authorization_of_def raw_artifact_of_def result_simps split: if_splits)
  ultimately show ?thesis
    using moved(2,3) raw_authorization_of_Inr[OF moved(1)]
    by (auto simp: transfer_post_def opened_with_def stream_arguments_def Let_def)
qed

subsection \<open>Authorisations keep their content\<close>

text \<open>What the C client authorised is what its download function is given back.\<close>

lemma artifact_view_roundtrip:
  assumes "artifact_view X raw = Inr v" and "length (ra_platform raw) < 2 ^ 32" "length (ra_architecture raw) < 2 ^ 32"
    "length (ra_filename raw) < 2 ^ 32" "length (ra_url raw) < 2 ^ 32" "length (ra_required_feature raw) < 2 ^ 32"
    and "ra_protected raw \<in> {0, 1}"
  shows "raw_artifact_of v = Inr raw"
  using assms
  by (auto simp: artifact_view_def view_id_def id_new_def optional_str_def raw_artifact_of_def result_simps slice_str_def
      split: if_splits)

subsection \<open>A sample device\<close>

definition device_libs :: external where
  "device_libs = \<lparr>b64_decode = (\<lambda>_. None), b64_encode = (\<lambda>_. []), sha256 = (\<lambda>_. zeros 32), parse_json = (\<lambda>_. None),
     rfc3339 = (\<lambda>_. None), utf8 = (\<lambda>_. True), url_parse = (\<lambda>_. None), url_join = (\<lambda>_ _. None)\<rparr>"

text \<open>A port that serves the one byte \<open>x\<close>.\<close>

definition sample_port :: download_io where
  "sample_port = \<lparr>io_open = (\<lambda>_. Inr \<lparr>ds_status = 200, ds_location = [], ds_encoding = [], ds_length = Some 1\<rparr>),
     io_read = (\<lambda>h. if staged h = [] then (''x'', Inr 1) else ([], Inr 0)),
     io_stage_begin = (\<lambda>_. Inr ()), io_stage_write = (\<lambda>_. Inr ()), io_stage_commit = (\<lambda>_. Inr ()),
     io_hash_begin = (\<lambda>_. Inr ()), io_hash_update = (\<lambda>_. Inr ()), io_hash_finish = (\<lambda>_. (zeros 32, Inr ())),
     io_cancelled = (\<lambda>_. False)\<rparr>"

definition sample_device_authorization :: device_authorization where
  "sample_device_authorization = \<lparr>dv_artifact = \<lparr>va_id = ''a'', va_release_id = ''r'', va_platform = ''esp32'',
     va_architecture = ''xtensa'', va_filename = ''f'', va_url = ''https://a'', va_required_feature = None,
     va_byte_length = 1, va_sha256 = zeros 32, va_protected = False\<rparr>, dv_ticket = None, dv_expires_at = None\<rparr>"

lemma sample_port_simps:
  "io_open sample_port h = Inr \<lparr>ds_status = 200, ds_location = [], ds_encoding = [], ds_length = Some 1\<rparr>"
  "io_read sample_port h = (if staged h = [] then (''x'', Inr 1) else ([], Inr 0))"
  "io_stage_begin sample_port h = Inr ()" "io_stage_write sample_port h = Inr ()" "io_stage_commit sample_port h = Inr ()"
  "io_hash_begin sample_port h = Inr ()" "io_hash_update sample_port h = Inr ()"
  "io_hash_finish sample_port h = (zeros 32, Inr ())" "\<not> io_cancelled sample_port h" "utf8 device_libs t"
  by (simp_all add: sample_port_def device_libs_def)

lemma sample_port_sound: "sound_port device_libs sample_port" "good_libs device_libs"
  by (simp_all add: sound_port_def good_libs_def sample_port_def device_libs_def sound_result_def)

abbreviation "sample_stream \<equiv> stream device_libs (\<lambda>_. True) sample_port sample_device_authorization 1 False (zeros 2304)"

lemma sample_stream_ends: "snd sample_stream = Inr ()"
proof -
  let ?a = "\<lparr>ra_id = ''a'', ra_release_id = ''r'', ra_platform = ''esp32'', ra_architecture = ''xtensa'', ra_filename = ''f'',
     ra_url = ''https://a'', ra_required_feature = [], ra_byte_length = 1, ra_sha256 = zeros 32, ra_protected = 0\<rparr>"
  have raw: "raw_authorization_of sample_device_authorization = Inr \<lparr>rz_artifact = ?a, rz_ticket = [], rz_expires_at = 0\<rparr>"
    by (simp add: sample_device_authorization_def raw_authorization_of_def raw_artifact_of_def slice_str_def)
  have args: "stream_arguments (\<lambda>_. True) \<lparr>rz_artifact = ?a, rz_ticket = [], rz_expires_at = 0\<rparr> 1 (zeros 2304)"
    by (simp add: stream_arguments_def Let_def https_url_def origin_valid_def host_part_def visible_def byte_def starts_with_def)
  have five: "(5 :: nat) = Suc 4" by simp
  have op: "open_stream device_libs (\<lambda>_. True) sample_port ?a 5 ''https://a'' [] h
      = (h @ [AskCancelled, Open ''https://a'' None], Inr ())" for h
    unfolding five open_stream.simps(2) by (simp add: open_step_def io_bind_def ask_cancelled_def sample_port_simps c_open_def download_open_def
        raw_str_def optional_str_def  code_and_value_def raw_response_of_def slice_str_def or_else_def io_ret_def)
  let ?b = "drop 2048 (zeros 2304)"
  have chunk: "take 1 (overwrite ?b ''x'') = ''x''" "length ?b = 256" by (simp_all add: overwrite_def zeros_def)
  let ?tr = "[AskCancelled, ReadStream 256, HashUpdate ''x'', StageWrite ''x'', AskCancelled, ReadStream 256]"
  have end_of_file: "read_stream sample_port ?a 1 b 1 h = (h @ [AskCancelled, ReadStream (length b)], Inr 1)"
    if "staged h \<noteq> []" for h b
  proof -
    have "staged (h @ [AskCancelled, ReadStream (length b)]) = staged h" by (simp add: staged_def)
    with that show ?thesis
      by (subst read_stream.simps) (simp add: ask_cancelled_def sample_port_simps download_read_def read_callback_def or_else_def)
  qed
  have rd: "read_stream sample_port ?a 1 ?b 0 h = (h @ ?tr, Inr 1)" if "staged h = []" for h
  proof -
    have "staged (h @ [AskCancelled, ReadStream 256]) = staged h"
      "staged (h @ [AskCancelled, ReadStream 256, HashUpdate ''x'', StageWrite ''x'']) = staged h @ ''x''"
      by (simp_all add: staged_def)
    with that chunk end_of_file[of "h @ [AskCancelled, ReadStream 256, HashUpdate ''x'', StageWrite ''x'']" "overwrite ?b ''x''"]
    show ?thesis
      by (subst read_stream.simps) (simp add: ask_cancelled_def sample_port_simps download_read_def read_callback_def
          or_else_def store_chunk_def io_bind_def io_code_def code_of_def)
  qed
  show ?thesis
    using raw args op rd chunk
    by (simp add: stream_def c_stream_def ask_cancelled_def io_code_def code_of_def transfer_def io_bind_def
        finish_stream_def io_tell_def c_hash_finish_def digest_callback_def overwrite_all check_code_def staged_def
        sample_port_simps or_else_def Let_def del: open_stream.simps)
qed

theorem device_commits_what_was_signed_witness:
  "snd sample_stream = Inr () \<and> last (fst sample_stream) = StageCommit \<and> length (staged (fst sample_stream)) = 1"
  using device_commits_what_was_signed[OF sample_port_sound surjective_pairing[of sample_stream]] sample_stream_ends
  by (simp add: sample_device_authorization_def)

theorem device_ticket_is_sent_once_witness:
  "snd sample_stream = Inr () \<and> paired (connections (fst sample_stream))"
  using device_ticket_is_sent_once[OF sample_port_sound surjective_pairing[of sample_stream]] sample_stream_ends by blast

end
