(* ===== verification/Support.thy ===== *)
theory Support
  imports ClientState
begin

text \<open>
  \<open>SupportSummary\<close> (\<open>diagnostics.rs\<close>): the metadata a user may copy into a support request.  It is
  made of the public scope of the configuration and the sanitised parts of one error.
\<close>

record support_summary =
  su_application_id :: string
  su_environment_id :: string
  su_code :: string
  su_request_id :: "string option"
  su_timestamp :: "int option"

text \<open>\<open>since_epoch\<close> is \<open>SystemTime::now().duration_since(UNIX_EPOCH)\<close> in whole seconds, if the clock
  is not before the epoch.\<close>

definition support_summary :: "client \<Rightarrow> error \<Rightarrow> nat option \<Rightarrow> support_summary" where
  "support_summary c e since_epoch =
     \<lparr>su_application_id = cfg_application_id (cl_config c), su_environment_id = cfg_environment_id (cl_config c),
      su_code = err_code e, su_request_id = err_request_id e,
      su_timestamp = Option.bind since_epoch (\<lambda>s. checked_i64 (int s))\<rparr>"

definition summary_json :: "support_summary \<Rightarrow> json" where
  "summary_json s = JObj
     [(''application_id'', JStr (su_application_id s)), (''environment_id'', JStr (su_environment_id s)),
      (''code'', JStr (su_code s)), (''request_id'', json_opt (su_request_id s)),
      (''timestamp'', case su_timestamp s of None \<Rightarrow> JNull | Some t \<Rightarrow> JInt t)]"

text \<open>\<open>Display\<close>; \<open>ser\<close> is \<open>serde_json::to_string\<close>.\<close>

definition display_summary :: "(json \<Rightarrow> string option) \<Rightarrow> support_summary \<Rightarrow> string option" where
  "display_summary ser s = ser (summary_json s)"

text \<open>What is printed determines the summary, and nothing but the scope and the error reaches it:
  neither the service's text of a denial, nor the account, the device or the storage.\<close>

lemma summary_json_inj: "summary_json s = summary_json t \<Longrightarrow> s = t"
  by (cases s; cases t) (auto simp: summary_json_def json_opt_def split: option.splits)

lemma support_summary_safe:
  "valid_code (su_code (support_summary c e t))"
  "su_request_id (support_summary c e t) = Some r \<Longrightarrow> valid_request_id r"
  "su_timestamp (support_summary c e t) = Some n \<Longrightarrow> 0 \<le> n \<and> i64 n"
  by (auto simp: support_summary_def err_code_valid err_request_id_valid bind_eq_Some_conv checked_i64_iff)

lemma support_summary_scope:
  "cl_config c = cl_config d \<Longrightarrow> err_code e = err_code f \<Longrightarrow> err_request_id e = err_request_id f \<Longrightarrow>
     support_summary c e t = support_summary d f t"
  by (simp add: support_summary_def)

end
