(* ===== verification/Cancelling.thy ===== *)
theory Cancelling
  imports Prelude
begin

text \<open>
  \<open>Cancellation\<close> (\<open>transport.rs\<close>): a flag that is set once and the tasks that wait for it.  It is
  built on a watch channel, which has a value and a version; a receiver remembers the version it
  has seen.  Tasks and the caller of \<open>cancel\<close> interleave in any order, and no task that waits misses
  the cancellation.
\<close>

subsection \<open>The flag\<close>

record cancellation =
  cc_state :: bool
  cc_version :: nat

definition new_cancellation :: cancellation where
  "new_cancellation = \<lparr>cc_state = False, cc_version = 0\<rparr>"

text \<open>\<open>send_replace\<close> notifies whether or not the value changes.\<close>

definition cancel :: "cancellation \<Rightarrow> cancellation" where
  "cancel c = \<lparr>cc_state = True, cc_version = cc_version c + 1\<rparr>"

definition is_cancelled :: "cancellation \<Rightarrow> bool" where
  "is_cancelled c = cc_state c"

subsection \<open>A waiting task\<close>

text \<open>Where a task is in \<open>cancelled\<close>: before \<open>subscribe\<close>, before it reads the value, in \<open>changed\<close> with
  the version it has seen, or returned.\<close>

datatype waiter = Starting | Reading | Waiting nat | Woken

text \<open>One turn of the task.  \<open>changed\<close> is ready when the version is not the one seen; its error, that
  every sender is gone, cannot happen, since the caller holds one.\<close>

fun wait_turn :: "cancellation \<Rightarrow> waiter \<Rightarrow> waiter" where
  "wait_turn c Starting = Reading"
| "wait_turn c Reading = (if is_cancelled c then Woken else Waiting (cc_version c))"
| "wait_turn c (Waiting seen) = (if cc_version c \<noteq> seen then Reading else Waiting seen)"
| "wait_turn c Woken = Woken"

text \<open>Several tasks wait for one flag.\<close>

inductive cancel_step :: "cancellation \<times> waiter list \<Rightarrow> cancellation \<times> waiter list \<Rightarrow> bool" where
  cancels: "cancel_step (c, ws) (cancel c, ws)"
| turns: "i < length ws \<Longrightarrow> cancel_step (c, ws) (c, ws[i := wait_turn c (ws ! i)])"
| joins: "cancel_step (c, ws) (c, ws @ [Starting])"

definition reachable_wait :: "cancellation \<times> waiter list \<Rightarrow> bool" where
  "reachable_wait s = cancel_step\<^sup>*\<^sup>* (new_cancellation, []) s"

text \<open>A task that waits has seen a version at which the flag was not set, and a flag that is set has
  moved past it.\<close>

definition waits_well :: "cancellation \<Rightarrow> waiter \<Rightarrow> bool" where
  "waits_well c w = (case w of
       Waiting n \<Rightarrow> n \<le> cc_version c \<and> (is_cancelled c \<longrightarrow> n < cc_version c)
     | Woken \<Rightarrow> is_cancelled c
     | _ \<Rightarrow> True)"

lemma wait_turn_well: "waits_well c w \<Longrightarrow> waits_well c (wait_turn c w)"
  by (cases w) (auto simp: waits_well_def)

lemma cancel_well: "waits_well c w \<Longrightarrow> waits_well (cancel c) w"
  by (cases w) (auto simp: waits_well_def cancel_def is_cancelled_def)

lemma cancel_step_well: "cancel_step s t \<Longrightarrow> \<forall>w \<in> set (snd s). waits_well (fst s) w \<Longrightarrow> \<forall>w \<in> set (snd t). waits_well (fst t) w"
proof (induction rule: cancel_step.induct)
  case (turns i ws c)
  then show ?case using set_update_subset_insert[of ws i] wait_turn_well[of c "ws ! i"] nth_mem[of i ws] by auto
next
  case (joins c ws)
  then show ?case by (auto simp: waits_well_def)
qed (simp add: cancel_well)

lemma reachable_waits_well: "reachable_wait s \<Longrightarrow> \<forall>w \<in> set (snd s). waits_well (fst s) w"
  unfolding reachable_wait_def by (induction rule: rtranclp_induct) (auto dest: cancel_step_well)

text \<open>Once the flag is set it stays set, and every task returns after at most two turns of
  its own; no task returns before.\<close>

lemma cancelled_stays: "cancel_step\<^sup>*\<^sup>* s t \<Longrightarrow> is_cancelled (fst s) \<Longrightarrow> is_cancelled (fst t)"
  by (induction rule: rtranclp_induct) (auto simp: is_cancelled_def cancel_def elim: cancel_step.cases)

lemma woken_after_cancel: "reachable_wait (c, ws) \<Longrightarrow> Woken \<in> set ws \<Longrightarrow> is_cancelled c"
  using reachable_waits_well[of "(c, ws)"] by (auto simp: waits_well_def)

lemma no_missed_cancel:
  assumes "reachable_wait (c, ws)" "i < length ws" "is_cancelled c"
  shows "wait_turn c (wait_turn c (ws ! i)) = Woken \<or> ws ! i = Woken"
proof -
  have "waits_well c (ws ! i)" using reachable_waits_well[OF assms(1)] nth_mem[OF assms(2)] by simp
  with assms(3) show ?thesis by (cases "ws ! i") (auto simp: waits_well_def)
qed

end
