(* ===== verification/Codec.thy ===== *)
theory Codec
  imports Wire
begin

text \<open>
  The private record of the storage adapters that are built for tests (\<open>storage/codec.rs\<close>): the
  digest that binds it to its scope, its JSON form as serde derives it, and its bounds.  A record
  that was encoded is decoded to what was stored, and only in the scope it was encoded for.
\<close>

definition MAX_PLAINTEXT :: nat where "MAX_PLAINTEXT = 32 * 1024"

definition MAX_GENERATION :: nat where "MAX_GENERATION = 2 ^ 63 - 1"

definition SDK :: string where "SDK = ''orbit.rust.storage''"

subsection \<open>The digest of the scope\<close>

text \<open>\<open>u32::to_be_bytes\<close>.\<close>

definition be32 :: "32 word \<Rightarrow> string" where
  "be32 w = map (\<lambda>k. char_of (unat w div 256 ^ k)) [3, 2, 1, 0]"

fun entropy_fields :: "string list \<Rightarrow> string \<Rightarrow> string result" where
  "entropy_fields [] digested = Inr digested"
| "entropy_fields (v # vs) digested =
     rbind (ensure StorageError (\<not> length v > MAX_PLAINTEXT)) (\<lambda>_.
       entropy_fields vs (digested @ be32 (word_of_nat (length v)) @ v))"

definition entropy :: "('x) external_scheme \<Rightarrow> config \<Rightarrow> device \<Rightarrow> string result" where
  "entropy X cfg dev =
     rbind (ensure Configuration (valid_configuration cfg dev)) (\<lambda>_.
     rbind (entropy_fields [cfg_issuer cfg, cfg_application_id cfg, cfg_environment_id cfg, installation_id dev]
        (''orbit.sdk.storage.v1'' @ [CHR 0x00])) (\<lambda>digested.
       Inr (sha256 X digested)))"

subsection \<open>The record\<close>

record stored_bearer =
  sb_activation_id :: string
  sb_licence_id :: string
  sb_bearer :: string
  sb_expires_at :: "int option"

record stored_record =
  sr_sdk :: string
  sr_format :: nat
  sr_generation :: nat
  sr_issuer :: string
  sr_application_id :: string
  sr_environment_id :: string
  sr_installation_id :: string
  sr_fingerprint :: "string option"
  sr_fingerprint_provider :: "string option"
  sr_credential :: "stored_bearer option"

text \<open>\<open>derive(Serialize)\<close>: an object with the fields in their order.\<close>

definition bearer_json :: "stored_bearer \<Rightarrow> json" where
  "bearer_json b = JObj
     [(''activation_id'', JStr (sb_activation_id b)), (''licence_id'', JStr (sb_licence_id b)),
      (''bearer'', JStr (sb_bearer b)),
      (''expires_at'', case sb_expires_at b of None \<Rightarrow> JNull | Some t \<Rightarrow> JInt t)]"

definition record_json :: "stored_record \<Rightarrow> json" where
  "record_json r = JObj
     [(''sdk'', JStr (sr_sdk r)), (''format'', JInt (int (sr_format r))),
      (''generation'', JInt (int (sr_generation r))), (''issuer'', JStr (sr_issuer r)),
      (''application_id'', JStr (sr_application_id r)), (''environment_id'', JStr (sr_environment_id r)),
      (''installation_id'', JStr (sr_installation_id r)), (''fingerprint'', json_opt (sr_fingerprint r)),
      (''fingerprint_provider'', json_opt (sr_fingerprint_provider r)),
      (''credential'', case sr_credential r of None \<Rightarrow> JNull | Some b \<Rightarrow> bearer_json b)]"

text \<open>\<open>derive(Deserialize)\<close> with \<open>deny_unknown_fields\<close>: each field once and no other, or an array of
  all of them; \<open>deserialize_with\<close> makes the optional fields mandatory too.\<close>

definition struct_fields :: "string list \<Rightarrow> json \<Rightarrow> json list option" where
  "struct_fields names j = (case j of
       JObj m \<Rightarrow> if distinct (map fst m) \<and> set (map fst m) = set names
         then Some (map (\<lambda>k. the (map_of m k)) names) else None
     | JArr xs \<Rightarrow> if length xs = length names then Some xs else None
     | _ \<Rightarrow> None)"

definition de_nullable :: "(json \<Rightarrow> 'a option) \<Rightarrow> json \<Rightarrow> 'a option option" where
  "de_nullable de j = (if j = JNull then Some None else map_option Some (de j))"

definition de_u32 :: "json \<Rightarrow> nat option" where
  "de_u32 j = Option.bind (as_u64 j) (\<lambda>n. if n < 2 ^ 32 then Some n else None)"

definition de_bearer :: "json \<Rightarrow> stored_bearer option" where
  "de_bearer j = Option.bind
     (struct_fields [''activation_id'', ''licence_id'', ''bearer'', ''expires_at''] j) (\<lambda>xs.
     Option.bind (as_str (xs ! 0)) (\<lambda>activation.
     Option.bind (as_str (xs ! 1)) (\<lambda>licence.
     Option.bind (as_str (xs ! 2)) (\<lambda>bearer.
     Option.bind (de_nullable as_i64 (xs ! 3)) (\<lambda>expires.
       Some \<lparr>sb_activation_id = activation, sb_licence_id = licence, sb_bearer = bearer,
         sb_expires_at = expires\<rparr>)))))"

definition de_record :: "json \<Rightarrow> stored_record option" where
  "de_record j = Option.bind
     (struct_fields [''sdk'', ''format'', ''generation'', ''issuer'', ''application_id'', ''environment_id'',
        ''installation_id'', ''fingerprint'', ''fingerprint_provider'', ''credential''] j) (\<lambda>xs.
     Option.bind (as_str (xs ! 0)) (\<lambda>sdk.
     Option.bind (de_u32 (xs ! 1)) (\<lambda>format.
     Option.bind (as_u64 (xs ! 2)) (\<lambda>generation.
     Option.bind (as_str (xs ! 3)) (\<lambda>iss.
     Option.bind (as_str (xs ! 4)) (\<lambda>app.
     Option.bind (as_str (xs ! 5)) (\<lambda>envt.
     Option.bind (as_str (xs ! 6)) (\<lambda>inst.
     Option.bind (de_nullable as_str (xs ! 7)) (\<lambda>fp.
     Option.bind (de_nullable as_str (xs ! 8)) (\<lambda>prov.
     Option.bind (de_nullable de_bearer (xs ! 9)) (\<lambda>credential.
       Some \<lparr>sr_sdk = sdk, sr_format = format, sr_generation = generation, sr_issuer = iss,
         sr_application_id = app, sr_environment_id = envt, sr_installation_id = inst,
         sr_fingerprint = fp, sr_fingerprint_provider = prov, sr_credential = credential\<rparr>)))))))))))"

subsection \<open>Encoding and decoding\<close>

text \<open>\<open>ser\<close> is \<open>serde_json::to_vec\<close> on a document.\<close>

definition bearer_of :: "stored_credential \<Rightarrow> stored_bearer" where
  "bearer_of c = \<lparr>sb_activation_id = sc_activation_id c, sb_licence_id = sc_licence_id c,
     sb_bearer = sc_credential c, sb_expires_at = sc_credential_expires_at c\<rparr>"

definition storage_record :: "config \<Rightarrow> device \<Rightarrow> nat \<Rightarrow> stored_credential option \<Rightarrow> stored_record" where
  "storage_record cfg dev g c =
     \<lparr>sr_sdk = SDK, sr_format = 1, sr_generation = g, sr_issuer = cfg_issuer cfg,
      sr_application_id = cfg_application_id cfg, sr_environment_id = cfg_environment_id cfg,
      sr_installation_id = installation_id dev, sr_fingerprint = fingerprint dev,
      sr_fingerprint_provider = fingerprint_provider dev, sr_credential = map_option bearer_of c\<rparr>"

definition codec_encode ::
    "('x) external_scheme \<Rightarrow> (json \<Rightarrow> string option) \<Rightarrow> config \<Rightarrow> device \<Rightarrow> nat \<Rightarrow> stored_credential option \<Rightarrow> string result" where
  "codec_encode X ser cfg dev g c =
     rbind (entropy X cfg dev) (\<lambda>_.
     rbind (ensure StorageError (\<not> (g > MAX_GENERATION
        \<or> some_and (\<lambda>v. \<not> valid_stored_credential v cfg dev) c))) (\<lambda>_.
     rbind (ok_or StorageError (ser (record_json (storage_record cfg dev g c)))) (\<lambda>bytes.
     rbind (ensure StorageError (\<not> length bytes > MAX_PLAINTEXT)) (\<lambda>_.
       Inr bytes))))"

definition credential_of :: "stored_record \<Rightarrow> stored_bearer \<Rightarrow> stored_credential" where
  "credential_of r b =
     \<lparr>sc_application_id = sr_application_id r, sc_environment_id = sr_environment_id r,
      sc_activation_id = sb_activation_id b, sc_licence_id = sb_licence_id b,
      sc_installation_id = sr_installation_id r, sc_credential = sb_bearer b,
      sc_credential_expires_at = sb_expires_at b, sc_fingerprint = sr_fingerprint r,
      sc_fingerprint_provider = sr_fingerprint_provider r\<rparr>"

definition codec_decode ::
    "('x) external_scheme \<Rightarrow> config \<Rightarrow> device \<Rightarrow> string \<Rightarrow> (nat \<times> stored_credential option) result" where
  "codec_decode X cfg dev bytes =
     rbind (entropy X cfg dev) (\<lambda>_.
     rbind (ensure StorageError (\<not> length bytes > MAX_PLAINTEXT)) (\<lambda>_.
     rbind (ok_or StorageError (Option.bind (parse_json X bytes) de_record)) (\<lambda>r.
     rbind (ensure StorageError (\<not> (sr_sdk r \<noteq> SDK \<or> sr_format r \<noteq> 1 \<or> sr_generation r > MAX_GENERATION
        \<or> sr_issuer r \<noteq> cfg_issuer cfg \<or> sr_application_id r \<noteq> cfg_application_id cfg
        \<or> sr_environment_id r \<noteq> cfg_environment_id cfg \<or> sr_installation_id r \<noteq> installation_id dev
        \<or> sr_fingerprint r \<noteq> fingerprint dev \<or> sr_fingerprint_provider r \<noteq> fingerprint_provider dev))) (\<lambda>_.
     let c = map_option (credential_of r) (sr_credential r) in
     rbind (ensure StorageError (\<not> some_and (\<lambda>v. \<not> valid_stored_credential v cfg dev) c)) (\<lambda>_.
       Inr (sr_generation r, c))))))"

subsection \<open>Round trips\<close>

text \<open>What the Rust types promise of the fields.\<close>

definition typed_bearer :: "stored_bearer \<Rightarrow> bool" where
  "typed_bearer b \<longleftrightarrow> none_or i64 (sb_expires_at b)"

lemma de_nullable_simps [simp]:
  "de_nullable de JNull = Some None"
  "de_nullable as_str (json_opt x) = Some x"
  by (simp_all add: de_nullable_def json_opt_def split: option.split)

lemma bearer_json_object [simp]: "bearer_json b \<noteq> JNull"
  by (simp add: bearer_json_def)

lemma de_bearer_json: "typed_bearer b \<Longrightarrow> de_bearer (bearer_json b) = Some b"
  by (cases "sb_expires_at b")
    (auto simp: de_bearer_def bearer_json_def struct_fields_def typed_bearer_def de_nullable_def)

lemma de_record_json:
  assumes "sr_format r < 2 ^ 32" "sr_generation r < 2 ^ 64" "none_or typed_bearer (sr_credential r)"
  shows "de_record (record_json r) = Some r"
proof -
  have c: "de_nullable de_bearer (case sr_credential r of None \<Rightarrow> JNull | Some b \<Rightarrow> bearer_json b) = Some (sr_credential r)"
    using assms(3) by (cases "sr_credential r") (auto simp: de_nullable_def de_bearer_json)
  have n: "de_u32 (JInt (int (sr_format r))) = Some (sr_format r)"
    "as_u64 (JInt (int (sr_generation r))) = Some (sr_generation r)"
    using assms(1,2) by (auto simp: de_u32_def)
  show ?thesis
    by (simp add: de_record_def record_json_def struct_fields_def c n del: as_u64.simps)
qed

text \<open>A parser that reads what the serialiser writes.\<close>

definition reads_back :: "('x) external_scheme \<Rightarrow> (json \<Rightarrow> string option) \<Rightarrow> bool" where
  "reads_back X ser \<longleftrightarrow> (\<forall>j b. ser j = Some b \<longrightarrow> b \<noteq> [] \<and> parse_json X b = Some j)"

lemma credential_of_bearer_of:
  "valid_stored_credential c cfg dev \<Longrightarrow> credential_of (storage_record cfg dev g d) (bearer_of c) = c"
  by (simp add: credential_of_def storage_record_def bearer_of_def valid_stored_credential_def)

lemma codec_encode_Inr:
  "codec_encode X ser cfg dev g c = Inr b \<longleftrightarrow>
     (\<exists>h. entropy X cfg dev = Inr h) \<and> g \<le> MAX_GENERATION \<and> none_or (\<lambda>v. valid_stored_credential v cfg dev) c
     \<and> ser (record_json (storage_record cfg dev g c)) = Some b \<and> length b \<le> MAX_PLAINTEXT"
  by (cases c) (auto simp: codec_encode_def rbind_Inr_iff ensure_iff ok_or_iff)

lemma codec_roundtrip:
  assumes "reads_back X ser" "codec_encode X ser cfg dev g c = Inr b"
    and "none_or (\<lambda>v. none_or i64 (sc_credential_expires_at v)) c"
  shows "codec_decode X cfg dev b = Inr (g, c)"
proof -
  let ?r = "storage_record cfg dev g c"
  have e: "\<exists>h. entropy X cfg dev = Inr h" "g \<le> MAX_GENERATION" "length b \<le> MAX_PLAINTEXT"
    "none_or (\<lambda>v. valid_stored_credential v cfg dev) c" "ser (record_json ?r) = Some b"
    using assms(2) by (simp_all add: codec_encode_Inr)
  have "parse_json X b = Some (record_json ?r)" using assms(1) e(5) by (simp add: reads_back_def)
  moreover have "de_record (record_json ?r) = Some ?r"
    using assms(3) e(2) by (intro de_record_json)
      (auto simp: storage_record_def MAX_GENERATION_def typed_bearer_def bearer_of_def none_or_iff)
  moreover have "map_option (credential_of ?r) (sr_credential ?r) = c"
    using e(4) credential_of_bearer_of by (cases c) (auto simp: storage_record_def bearer_of_def credential_of_def valid_stored_credential_def)
  ultimately show ?thesis
    using e(1-4) by (cases c) (auto simp: codec_decode_def storage_record_def Let_def)
qed

text \<open>What is decoded belongs to the scope, whoever wrote the bytes.\<close>

lemma codec_decode_scope:
  assumes "codec_decode X cfg dev b = Inr (g, c)"
  shows "g \<le> MAX_GENERATION" "none_or (\<lambda>v. valid_stored_credential v cfg dev) c" "length b \<le> MAX_PLAINTEXT"
  using assms by (auto simp: codec_decode_def Let_def rbind_Inr_iff ensure_iff ok_or_iff some_and_iff none_or_iff)

lemma codec_decode_record:
  "codec_decode X cfg dev b = Inr (g, c) \<Longrightarrow> \<exists>r. Option.bind (parse_json X b) de_record = Some r
     \<and> sr_issuer r = cfg_issuer cfg \<and> sr_application_id r = cfg_application_id cfg
     \<and> sr_environment_id r = cfg_environment_id cfg \<and> sr_installation_id r = installation_id dev
     \<and> sr_fingerprint r = fingerprint dev \<and> sr_fingerprint_provider r = fingerprint_provider dev"
  by (auto simp: codec_decode_def Let_def rbind_Inr_iff ensure_iff ok_or_iff)

lemma codec_one_scope:
  assumes "codec_decode X cfg dev b = Inr x" "codec_decode X cfg' dev' b = Inr y"
  shows "cfg = cfg' \<and> dev = dev'"
  using codec_decode_record[of X cfg dev b "fst x" "snd x"] codec_decode_record[of X cfg' dev' b "fst y" "snd y"] assms
  by auto

subsection \<open>The digest separates the scopes\<close>

lemma length_be32 [simp]: "length (be32 w) = 4"
  by (simp add: be32_def)

lemma digits256:
  assumes "(m::nat) < 256 ^ l" "n < 256 ^ l" "\<And>k. k < l \<Longrightarrow> m div 256 ^ k mod 256 = n div 256 ^ k mod 256"
  shows "m = n"
  using assms
proof (induction l arbitrary: m n)
  case (Suc l)
  have "m div 256 = n div 256"
  proof (rule Suc.IH)
    show "m div 256 < 256 ^ l" "n div 256 < 256 ^ l" using Suc.prems(1,2) by (simp_all add: less_mult_imp_div_less mult.commute)
    show "m div 256 div 256 ^ k mod 256 = n div 256 div 256 ^ k mod 256" if "k < l" for k
      using Suc.prems(3)[of "Suc k"] that by (simp add: div_mult2_eq)
  qed
  moreover have "m mod 256 = n mod 256" using Suc.prems(3)[of 0] by simp
  ultimately show ?case by (metis div_mult_mod_eq)
qed simp

lemma be32_inj: "be32 v = be32 w \<Longrightarrow> v = w"
proof -
  assume e: "be32 v = be32 w"
  have "unat v div 256 ^ k mod 256 = unat w div 256 ^ k mod 256" if "k < 4" for k
  proof -
    have "char_of (unat v div 256 ^ k) = (char_of (unat w div 256 ^ k) :: char)"
      using e that unfolding be32_def map_eq_conv by (elim ballE) auto
    then have "of_char (char_of (unat v div 256 ^ k) :: char) = (of_char (char_of (unat w div 256 ^ k) :: char) :: nat)"
      by simp
    then show ?thesis by simp
  qed
  moreover have "unat x < 256 ^ 4" for x :: "32 word"
  proof -
    have "unat x < 2 ^ LENGTH(32)" by (rule unsigned_less)
    then show ?thesis by simp
  qed
  ultimately have "unat v = unat w" using digits256[where l = 4] by blast
  then show "v = w" by (simp add: word_unat_eq_iff)
qed

definition framed :: "string \<Rightarrow> string" where
  "framed v = be32 (word_of_nat (length v)) @ v"

lemma framed_inj:
  assumes "framed v @ x = framed w @ y" "length v \<le> MAX_PLAINTEXT" "length w \<le> MAX_PLAINTEXT"
  shows "v = w \<and> x = y"
proof -
  have "be32 (word_of_nat (length v)) = be32 (word_of_nat (length w))" "v @ x = w @ y"
    using assms(1) by (simp_all add: framed_def)
  then have "unat (word_of_nat (length v) :: 32 word) = unat (word_of_nat (length w) :: 32 word)"
    using be32_inj by metis
  moreover have "unat (word_of_nat n :: 32 word) = n" if "n \<le> MAX_PLAINTEXT" for n
    using that by (simp add: unat_of_nat MAX_PLAINTEXT_def)
  ultimately have "length v = length w" using assms(2,3) by simp
  then show ?thesis using \<open>v @ x = w @ y\<close> by simp
qed

lemma framed_list_inj:
  "concat (map framed vs) = concat (map framed ws) \<Longrightarrow> list_all (\<lambda>v. length v \<le> MAX_PLAINTEXT) vs \<Longrightarrow>
     list_all (\<lambda>v. length v \<le> MAX_PLAINTEXT) ws \<Longrightarrow> vs = ws"
proof (induction vs arbitrary: ws)
  case Nil
  then show ?case by (cases ws) (auto simp: framed_def be32_def)
next
  case (Cons v vs)
  then obtain w ws' where ws: "ws = w # ws'" by (cases ws) (auto simp: framed_def be32_def)
  have "v = w \<and> concat (map framed vs) = concat (map framed ws')"
    using Cons.prems ws by (intro framed_inj) auto
  then show ?case using Cons.IH Cons.prems(2,3) ws by simp
qed

lemma entropy_fields_Inr:
  "entropy_fields vs d = Inr e \<longleftrightarrow> list_all (\<lambda>v. length v \<le> MAX_PLAINTEXT) vs \<and> e = d @ concat (map framed vs)"
  by (induction vs arbitrary: d) (auto simp: rbind_Inr_iff ensure_iff framed_def)

text \<open>Two scopes with the same digest are the same, up to a collision of the hash.\<close>

lemma entropy_separates:
  assumes "entropy X cfg dev = Inr h" "entropy X cfg' dev' = Inr h" "inj (sha256 X)"
  shows "cfg = cfg' \<and> installation_id dev = installation_id dev'"
proof -
  let ?fields = "\<lambda>c d. [cfg_issuer c, cfg_application_id c, cfg_environment_id c, installation_id d]"
  have bound: "list_all (\<lambda>v. length v \<le> MAX_PLAINTEXT) (?fields c d)"
    and hash: "sha256 X (''orbit.sdk.storage.v1'' @ [CHR 0x00] @ concat (map framed (?fields c d))) = h"
    if "entropy X c d = Inr h" for c d
    using that by (simp_all add: entropy_def rbind_Inr_iff entropy_fields_Inr ensure_iff del: append.simps entropy_fields.simps)
  have "sha256 X (''orbit.sdk.storage.v1'' @ [CHR 0x00] @ concat (map framed (?fields cfg dev)))
      = sha256 X (''orbit.sdk.storage.v1'' @ [CHR 0x00] @ concat (map framed (?fields cfg' dev')))"
    unfolding hash[OF assms(1)] hash[OF assms(2)] ..
  then have "concat (map framed (?fields cfg dev)) = concat (map framed (?fields cfg' dev'))"
    by (drule_tac injD[OF assms(3)]) (simp only: same_append_eq)
  then have "?fields cfg dev = ?fields cfg' dev'"
    using framed_list_inj[OF _ bound[OF assms(1)] bound[OF assms(2)]] by simp
  then show ?thesis by (cases cfg; cases cfg') simp
qed

end
