(* ===== verification/SecretTool.thy ===== *)
theory SecretTool
  imports Codec
begin

text \<open>
  The Secret Service transport of the test-only Linux adapter: the text form of a record
  (\<open>secret_service/format.rs\<close>) and the bounded run of \<open>secret-tool\<close> (\<open>secret_service/helper.rs\<close>).
  The helper process is a record of its answers to the loop's calls, so it may do anything at any
  time; the two loops are partial functions, and they return when the clock advances.
\<close>

subsection \<open>The text form\<close>

definition MAX_RECORD :: nat where "MAX_RECORD = 4096"

definition MAX_BASE64 :: nat where "MAX_BASE64 = 5464"

definition MAX_STDOUT :: nat where "MAX_STDOUT = MAX_BASE64 + 1"

text \<open>The padded base64 of the library (\<open>STANDARD\<close>).\<close>

record base64 =
  std_encode :: "string \<Rightarrow> string"
  std_decode :: "string \<Rightarrow> string option"

definition service_scope :: "('x) external_scheme \<Rightarrow> config \<Rightarrow> device \<Rightarrow> string \<Rightarrow> string result" where
  "service_scope X cfg dev dir =
     rbind (entropy X cfg dev) (\<lambda>e.
     rbind (ensure StorageError (length dir < 2 ^ 32)) (\<lambda>_.
       Inr (hexify (sha256 X (''orbit.sdk.secret-service.v1'' @ [CHR 0x00] @ be32 4 @ ''rust'' @ e
         @ be32 (word_of_nat (length dir)) @ dir)))))"

definition secret_text :: "base64 \<Rightarrow> string \<Rightarrow> string result" where
  "secret_text B r = rbind (ensure StorageError (\<not> length r > MAX_RECORD)) (\<lambda>_. Inr (std_encode B r))"

definition secret_encode ::
    "('x) external_scheme \<Rightarrow> (json \<Rightarrow> string option) \<Rightarrow> base64 \<Rightarrow> config \<Rightarrow> device \<Rightarrow> nat \<Rightarrow> stored_credential option \<Rightarrow> string result" where
  "secret_encode X ser B cfg dev g c = rbind (codec_encode X ser cfg dev g c) (secret_text B)"

definition one_line :: "string \<Rightarrow> string" where
  "one_line out = or_else (strip_suffix [CHR 0x0A] out) out"

definition secret_plain :: "base64 \<Rightarrow> string \<Rightarrow> string result" where
  "secret_plain B out =
     rbind (ensure StorageError (\<not> length out > MAX_STDOUT)) (\<lambda>_.
     let encoded = one_line out in
     rbind (ensure StorageError (\<not> (encoded = [] \<or> length encoded > MAX_BASE64))) (\<lambda>_.
     rbind (ok_or StorageError (std_decode B encoded)) (\<lambda>decoded.
     rbind (ensure StorageError (\<not> (length decoded > MAX_RECORD \<or> std_encode B decoded \<noteq> encoded))) (\<lambda>_.
       Inr decoded))))"

definition secret_decode ::
    "('x) external_scheme \<Rightarrow> base64 \<Rightarrow> config \<Rightarrow> device \<Rightarrow> string \<Rightarrow> (nat \<times> stored_credential option) result" where
  "secret_decode X B cfg dev out = rbind (secret_plain B out) (codec_decode X cfg dev)"

text \<open>The documented behaviour of padded base64.\<close>

definition padded :: "base64 \<Rightarrow> bool" where
  "padded B \<longleftrightarrow> (\<forall>r. std_decode B (std_encode B r) = Some r
     \<and> length (std_encode B r) = 4 * ((length r + 2) div 3) \<and> CHR 0x0A \<notin> set (std_encode B r))"

lemma one_line_unfold: "one_line out = (if out \<noteq> [] \<and> last out = CHR 0x0A then butlast out else out)"
  by (cases out rule: rev_cases) (auto simp: one_line_def strip_suffix_def or_else_def)

lemma one_line_id: "CHR 0x0A \<notin> set e \<Longrightarrow> one_line e = e" "CHR 0x0A \<notin> set e \<Longrightarrow> one_line (e @ [CHR 0x0A]) = e"
  unfolding one_line_unfold using last_in_set by (metis, simp)

lemma secret_plain_Inr:
  "secret_plain B out = Inr d \<longleftrightarrow> length out \<le> MAX_STDOUT \<and> one_line out \<noteq> [] \<and> length (one_line out) \<le> MAX_BASE64
     \<and> std_decode B (one_line out) = Some d \<and> length d \<le> MAX_RECORD \<and> std_encode B d = one_line out"
  by (auto simp: secret_plain_def Let_def rbind_Inr_iff ensure_iff ok_or_iff)

lemma secret_text_Inr: "secret_text B r = Inr e \<longleftrightarrow> length r \<le> MAX_RECORD \<and> e = std_encode B r"
  by (auto simp: secret_text_def rbind_Inr_iff ensure_iff)

text \<open>Every reading of the output of an encoding, with or without one line feed, gives back the
  record.\<close>

lemma plain_text:
  assumes "padded B" "secret_text B r = Inr e" "r \<noteq> []" "out \<in> {e, e @ [CHR 0x0A]}"
  shows "secret_plain B out = Inr r"
proof -
  have b: "std_decode B e = Some r" "length e = 4 * ((length r + 2) div 3)" "CHR 0x0A \<notin> set e" "length r \<le> MAX_RECORD"
    "e = std_encode B r" using assms(1,2) by (auto simp: padded_def secret_text_Inr)
  have "e \<noteq> []" using assms(3) b(2) by (cases r) auto
  have strip: "one_line out = e" using assms(4) one_line_id[OF b(3)] by auto
  have "(length r + 2) div 3 \<le> 1366" using b(4) by (simp add: MAX_RECORD_def)
  then have l: "length e \<le> MAX_BASE64" using b(2) by (simp add: MAX_BASE64_def)
  then have "length out \<le> MAX_STDOUT" using assms(4) by (auto simp: MAX_STDOUT_def)
  with l strip b \<open>e \<noteq> []\<close> show ?thesis by (simp add: secret_plain_Inr)
qed

lemma secret_roundtrip:
  assumes "reads_back X ser" "padded B" "secret_encode X ser B cfg dev g c = Inr e"
    and "none_or (\<lambda>v. none_or i64 (sc_credential_expires_at v)) c" "out \<in> {e, e @ [CHR 0x0A]}"
  shows "secret_decode X B cfg dev out = Inr (g, c)"
proof -
  obtain r where r: "codec_encode X ser cfg dev g c = Inr r" "secret_text B r = Inr e"
    using assms(3) by (auto simp: secret_encode_def rbind_Inr_iff)
  then have "r \<noteq> []" using assms(1) by (auto simp: codec_encode_Inr reads_back_def)
  then show ?thesis
    using plain_text[OF assms(2) r(2) _ assms(5)] codec_roundtrip[OF assms(1) r(1) assms(4)]
    by (simp add: secret_decode_def)
qed

subsection \<open>The helper process\<close>

datatype read_event = Chunk string | ReadBlocked | ReadInterrupted | ReadFailed

datatype write_event = Wrote nat | WriteRetry | WriteFailed

datatype wait_event = Running | Exited "int option" | WaitFailed

text \<open>The answers of a child: whether it was spawned with its pipes not blocking, the time (ns) at
  each turn of the loop, what a write of some bytes gives at a turn, what the \<open>n\<close>-th read of at most
  so many bytes gives, and whether it has exited at a turn.\<close>

record child =
  ch_ready :: bool
  ch_elapsed :: "nat \<Rightarrow> nat"
  ch_stdin :: "nat \<Rightarrow> string \<Rightarrow> write_event"
  ch_stdout :: "nat \<Rightarrow> nat \<Rightarrow> read_event"
  ch_stderr :: "nat \<Rightarrow> nat \<Rightarrow> read_event"
  ch_wait :: "nat \<Rightarrow> wait_event"

record helper_output =
  out_code :: "int option"
  out_stdout :: string
  out_stderr :: string

definition MAX_STDERR :: nat where "MAX_STDERR = 4096"

definition DEADLINE :: nat where "DEADLINE = 5 * 10 ^ 9"

text \<open>\<open>drain\<close> reads until the pipe is empty for now or at its end.\<close>

partial_function (option) drain ::
    "(nat \<Rightarrow> nat \<Rightarrow> read_event) \<Rightarrow> nat \<Rightarrow> nat \<Rightarrow> string \<Rightarrow> (nat \<times> string \<times> bool) result option" where
  "drain reader limit n bytes = (case reader n (min 1024 (limit - length bytes + 1)) of
       Chunk chunk \<Rightarrow>
         if chunk = [] then Some (Inr (Suc n, bytes, True))
         else if length bytes + length chunk > limit then Some (Inl StorageError)
         else drain reader limit (Suc n) (bytes @ chunk)
     | ReadBlocked \<Rightarrow> Some (Inr (Suc n, bytes, False))
     | ReadInterrupted \<Rightarrow> drain reader limit (Suc n) bytes
     | ReadFailed \<Rightarrow> Some (Inl StorageError))"

definition feed :: "child \<Rightarrow> string \<Rightarrow> nat \<Rightarrow> nat \<Rightarrow> nat result" where
  "feed ch input k written =
     (if written = length input then Inr written
      else case ch_stdin ch k (drop written input) of
          Wrote l \<Rightarrow> if l = 0 then Inl StorageError else Inr (written + l)
        | WriteRetry \<Rightarrow> Inr written
        | WriteFailed \<Rightarrow> Inl StorageError)"

definition bind_run :: "'a result option \<Rightarrow> ('a \<Rightarrow> 'b result option) \<Rightarrow> 'b result option" where
  "bind_run m k = Option.bind m (\<lambda>r. case r of Inl e \<Rightarrow> Some (Inl e) | Inr x \<Rightarrow> k x)"

lemma bind_run_Inr: "bind_run m k = Some (Inr y) \<longleftrightarrow> (\<exists>x. m = Some (Inr x) \<and> k x = Some (Inr y))"
  by (cases m; cases "the m") (auto simp: bind_run_def)

lemma bind_run_mono [partial_function_mono]:
  "mono_option m \<Longrightarrow> (\<And>x. mono_option (\<lambda>f. k f x)) \<Longrightarrow> mono_option (\<lambda>f. bind_run (m f) (k f))"
proof -
  assume m: "mono_option m" and k: "\<And>x. mono_option (\<lambda>f. k f x)"
  have "mono_option (\<lambda>f. case r of Inl e \<Rightarrow> Some (Inl e) | Inr x \<Rightarrow> k f x)" for r
    using k by (cases r) (simp_all add: monotone_def flat_ord_def)
  with m show "mono_option (\<lambda>f. bind_run (m f) (k f))" unfolding bind_run_def by (rule bind_mono)
qed

partial_function (option) pipe_loop ::
    "child \<Rightarrow> string \<Rightarrow> nat \<Rightarrow> nat \<Rightarrow> nat \<Rightarrow> nat \<Rightarrow> nat \<Rightarrow> string \<Rightarrow> string \<Rightarrow> helper_output result option" where
  "pipe_loop ch input timeout k written n m out err =
     (if ch_elapsed ch k \<ge> timeout then Some (Inl StorageError)
      else bind_run (Some (feed ch input k written)) (\<lambda>written'.
      bind_run (drain (ch_stdout ch) MAX_STDOUT n out) (\<lambda>(n', out', out_done).
      bind_run (drain (ch_stderr ch) MAX_STDERR m err) (\<lambda>(m', err', err_done).
      case ch_wait ch k of
        WaitFailed \<Rightarrow> Some (Inl StorageError)
      | Running \<Rightarrow> pipe_loop ch input timeout (Suc k) written' n' m' out' err'
      | Exited code \<Rightarrow>
          if out_done \<and> err_done
          then if written' \<noteq> length input then Some (Inl StorageError)
            else Some (Inr \<lparr>out_code = code, out_stdout = out', out_stderr = err'\<rparr>)
          else pipe_loop ch input timeout (Suc k) written' n' m' out' err'))))"

definition run_helper :: "child \<Rightarrow> string \<Rightarrow> nat \<Rightarrow> helper_output result option" where
  "run_helper ch input timeout =
     (if ch_ready ch then pipe_loop ch input timeout 0 0 0 0 [] [] else Some (Inl StorageError))"

definition command :: "string \<Rightarrow> string \<Rightarrow> string list" where
  "command operation scope =
     [''/usr/bin/secret-tool'', operation]
     @ (if operation = ''store'' then [''--label=Orbit Rust SDK activation'', ''--collection=default''] else [])
     @ [''application'', ''orbit-sdk'', ''sdk'', ''rust'', ''scope'', scope]"

definition classify_lookup :: "helper_output \<Rightarrow> string option result" where
  "classify_lookup out =
     rbind (ensure StorageError (out_stderr out = [])) (\<lambda>_.
     if out_code out = Some 0 then Inr (Some (out_stdout out))
     else if out_code out = Some 1 \<and> out_stdout out = [] then Inr None
     else Inl StorageError)"

text \<open>\<open>spawn\<close> is the child a command line starts.\<close>

definition lookup_secret :: "(string list \<Rightarrow> child) \<Rightarrow> string \<Rightarrow> string option result option" where
  "lookup_secret spawn scope =
     bind_run (run_helper (spawn (command ''lookup'' scope)) [] DEADLINE) (\<lambda>out. Some (classify_lookup out))"

definition quiet :: "helper_output \<Rightarrow> unit result" where
  "quiet out = ensure StorageError (\<not> (out_code out \<noteq> Some 0 \<or> out_stdout out \<noteq> [] \<or> out_stderr out \<noteq> []))"

definition store_secret :: "(string list \<Rightarrow> child) \<Rightarrow> string \<Rightarrow> string \<Rightarrow> unit result option" where
  "store_secret spawn scope r =
     (if length r > MAX_BASE64 then Some (Inl StorageError)
      else bind_run (run_helper (spawn (command ''store'' scope)) r DEADLINE) (\<lambda>out. Some (quiet out)))"

definition clear_secret :: "(string list \<Rightarrow> child) \<Rightarrow> string \<Rightarrow> unit result option" where
  "clear_secret spawn scope =
     bind_run (run_helper (spawn (command ''clear'' scope)) [] DEADLINE) (\<lambda>out. Some (quiet out))"

subsection \<open>The loops return\<close>

text \<open>A pipe that is not interrupted for ever.\<close>

definition answers :: "(nat \<Rightarrow> nat \<Rightarrow> read_event) \<Rightarrow> bool" where
  "answers reader \<longleftrightarrow> (\<forall>n. \<exists>m\<ge>n. \<forall>size. reader m size \<noteq> ReadInterrupted)"

lemma drain_step_returns:
  assumes "\<And>size. reader m size \<noteq> ReadInterrupted" "n \<le> m"
    and "\<And>n' bytes'. length bytes' > length bytes \<Longrightarrow> length bytes' \<le> limit \<Longrightarrow> drain reader limit n' bytes' \<noteq> None"
  shows "drain reader limit n bytes \<noteq> None"
  using assms(2)
proof (induction n rule: inc_induct)
  case base
  then show ?case using assms(1)[of "min 1024 (limit - length bytes + 1)"] assms(3)
    by (subst drain.simps) (auto split: read_event.split)
next
  case (step n)
  then show ?case using assms(3) by (subst drain.simps) (auto split: read_event.split)
qed

lemma drain_returns: "answers reader \<Longrightarrow> drain reader limit n bytes \<noteq> None"
proof (induction "Suc limit - length bytes" arbitrary: n bytes rule: less_induct)
  case less
  obtain m where m: "n \<le> m" "\<And>size. reader m size \<noteq> ReadInterrupted"
    using less.prems unfolding answers_def by blast
  show ?case
  proof (rule drain_step_returns[where m = m])
    show "n \<le> m" by (rule m(1))
    show "reader m size \<noteq> ReadInterrupted" for size by (rule m(2))
  next
    fix n' and bytes' :: string
    assume "length bytes' > length bytes" "length bytes' \<le> limit"
    then show "drain reader limit n' bytes' \<noteq> None" using less by (intro less.hyps) auto
  qed
qed

lemma pipe_loop_returns:
  assumes "ch_elapsed ch turn \<ge> timeout" "answers (ch_stdout ch)" "answers (ch_stderr ch)" "k \<le> turn"
  shows "pipe_loop ch input timeout k written n m out err \<noteq> None"
  using assms(4)
proof (induction k arbitrary: written n m out err rule: inc_induct)
  case base
  then show ?case using assms(1) by (subst pipe_loop.simps) simp
next
  case (step k)
  obtain r1 r2 where "drain (ch_stdout ch) MAX_STDOUT n out = Some r1" "drain (ch_stderr ch) MAX_STDERR m err = Some r2"
    using drain_returns assms(2,3) by blast
  then show ?case using step.IH
    by (subst pipe_loop.simps) (auto simp: bind_run_def split: sum.split wait_event.split)
qed

text \<open>A run ends when the clock reaches the deadline.\<close>

lemma run_helper_returns:
  "ch_elapsed ch turn \<ge> timeout \<Longrightarrow> answers (ch_stdout ch) \<Longrightarrow> answers (ch_stderr ch) \<Longrightarrow>
     run_helper ch input timeout \<noteq> None"
  unfolding run_helper_def using pipe_loop_returns[of timeout ch turn 0] by simp

subsection \<open>What a run returns\<close>

lemma drain_bounded:
  assumes "drain reader limit n bytes = Some r" "length bytes \<le> limit" "r = Inr (n', bytes', d)"
  shows "length bytes' \<le> limit \<and> (\<exists>more. bytes' = bytes @ more)"
  using assms
proof (induction rule: drain.raw_induct[rotated 1, consumes 1])
  case (1 f reader limit n bytes r)
  then show ?case by (fastforce split: read_event.splits if_splits)
qed

text \<open>An output is within its bounds, and all of the input was written.\<close>

lemma pipe_loop_bounded:
  assumes "pipe_loop ch input timeout k written n m out err = Some r"
    and "length out \<le> MAX_STDOUT" "length err \<le> MAX_STDERR" "r = Inr res"
  shows "length (out_stdout res) \<le> MAX_STDOUT \<and> length (out_stderr res) \<le> MAX_STDERR"
  using assms
proof (induction rule: pipe_loop.raw_induct[rotated 1, consumes 1])
  case (1 f ch input timeout k written n m out err r)
  from 1(2,5) obtain w no o1 od me e1 ed where
    o1: "drain (ch_stdout ch) MAX_STDOUT n out = Some (Inr (no, o1, od))"
    and e1: "drain (ch_stderr ch) MAX_STDERR m err = Some (Inr (me, e1, ed))"
    and w: "(case ch_wait ch k of
        WaitFailed \<Rightarrow> Some (Inl StorageError)
      | Running \<Rightarrow> f ch input timeout (Suc k) w no me o1 e1
      | Exited code \<Rightarrow>
          if od \<and> ed
          then if w \<noteq> length input then Some (Inl StorageError)
            else Some (Inr \<lparr>out_code = code, out_stdout = o1, out_stderr = e1\<rparr>)
          else f ch input timeout (Suc k) w no me o1 e1) = Some (Inr res)"
    by (auto simp: bind_run_Inr simp del: split_paired_Ex split: if_splits)
  then have r: "r = Inr \<lparr>out_code = out_code res, out_stdout = o1, out_stderr = e1\<rparr>
      \<or> f ch input timeout (Suc k) w no me o1 e1 = Some r"
    using 1(5) by (auto split: if_splits wait_event.splits)
  have l: "length o1 \<le> MAX_STDOUT" "length e1 \<le> MAX_STDERR"
    using drain_bounded[OF o1 1(3)] drain_bounded[OF e1 1(4)] by simp_all
  from r show ?case
  proof
    assume "f ch input timeout (Suc k) w no me o1 e1 = Some r"
    then show ?thesis using 1(1) l 1(5) by blast
  qed (use 1(5) l in \<open>cases res; simp\<close>)
qed

lemma lookup_bounded:
  "lookup_secret spawn scope = Some (Inr (Some out)) \<Longrightarrow> length out \<le> MAX_STDOUT"
  using pipe_loop_bounded
  by (fastforce simp: lookup_secret_def bind_run_Inr run_helper_def classify_lookup_def rbind_Inr_iff ensure_iff
      split: if_splits)

lemma bind_run_returns: "m \<noteq> None \<Longrightarrow> (\<And>x. k x \<noteq> None) \<Longrightarrow> bind_run m k \<noteq> None"
  by (auto simp: bind_run_def split: sum.split)

text \<open>The operations return whatever the processes they start do.\<close>

definition timely :: "(string list \<Rightarrow> child) \<Rightarrow> bool" where
  "timely spawn \<longleftrightarrow> (\<forall>c. answers (ch_stdout (spawn c)) \<and> answers (ch_stderr (spawn c))
     \<and> (\<exists>turn. ch_elapsed (spawn c) turn \<ge> DEADLINE))"

lemma helper_returns:
  assumes "timely spawn"
  shows "lookup_secret spawn scope \<noteq> None" "store_secret spawn scope r \<noteq> None" "clear_secret spawn scope \<noteq> None"
proof -
  have "run_helper (spawn c) input DEADLINE \<noteq> None" for c input
    using assms run_helper_returns[of DEADLINE "spawn c"] unfolding timely_def by blast
  then show "lookup_secret spawn scope \<noteq> None" "store_secret spawn scope r \<noteq> None" "clear_secret spawn scope \<noteq> None"
    unfolding lookup_secret_def store_secret_def clear_secret_def by (simp_all add: bind_run_returns del: not_None_eq)
qed

end
