(* ===== verification/Adapters.thy ===== *)
theory Adapters
  imports Medium Storage Codec
begin

text \<open>
  What the two storage adapters that are built for tests have in common: the cached record, its
  poisoning, and the four operations of \<open>Storage\<close>, whose code is the same over the adapter's own
  check and commit.  The locale \<open>poisoning_adapter\<close> says what these two must do, and concludes the
  contract of a storage.
\<close>

subsection \<open>The cached record\<close>

record adapter =
  ad_generation :: nat
  ad_credential :: "stored_credential option"
  ad_poisoned :: bool
  ad_config :: config
  ad_device :: device

type_synonym ('x, 'a) adapter_op = "'x adapter_scheme \<times> files \<Rightarrow> ('x adapter_scheme \<times> files) \<times> 'a outcome"

definition poison :: "'x adapter_scheme \<Rightarrow> 'x adapter_scheme" where
  "poison st = st\<lparr>ad_poisoned := True, ad_credential := None\<rparr>"

definition cached :: "nat \<Rightarrow> stored_credential option \<Rightarrow> 'x adapter_scheme \<Rightarrow> 'x adapter_scheme" where
  "cached g c st = st\<lparr>ad_generation := g, ad_credential := c\<rparr>"

text \<open>Run a file action; any error poisons the storage.\<close>

definition poisoning :: "('x adapter_scheme \<Rightarrow> unit fs) \<Rightarrow> ('x adapter_scheme \<Rightarrow> 'x adapter_scheme) \<Rightarrow> ('x, unit) adapter_op" where
  "poisoning m f = (\<lambda>(st, s). case m st s of
       (s', Crashed) \<Rightarrow> ((st, s'), Crashed)
     | (s', Returned (Inl _)) \<Rightarrow> ((poison st, s'), Returned (Inl StorageError))
     | (s', Returned (Inr _)) \<Rightarrow> ((f st, s'), Returned (Inr ())))"

definition kbind :: "('x, 'a) adapter_op \<Rightarrow> ('a \<Rightarrow> ('x, 'b) adapter_op) \<Rightarrow> ('x, 'b) adapter_op" where
  "kbind m k = (\<lambda>s. case m s of
       (s', Crashed) \<Rightarrow> (s', Crashed)
     | (s', Returned (Inl e)) \<Rightarrow> (s', Returned (Inl e))
     | (s', Returned (Inr x)) \<Rightarrow> k x s')"

text \<open>The same on a state that is not shared yet: it is returned when the operation succeeds.\<close>

definition running :: "('x, unit) adapter_op \<Rightarrow> 'x adapter_scheme \<Rightarrow> 'x adapter_scheme fs" where
  "running m st s = (case m (st, s) of
       ((st', s'), Crashed) \<Rightarrow> (s', Crashed)
     | ((st', s'), Returned r) \<Rightarrow> (s', Returned (rbind r (\<lambda>_. Inr st'))))"

text \<open>The cached record is what a stored text decodes to in the adapter's scope, or the initial one.\<close>

definition holds :: "('e) external_scheme \<Rightarrow> 'x adapter_scheme \<Rightarrow> string option \<Rightarrow> bool" where
  "holds X st found \<longleftrightarrow> (case found of
       None \<Rightarrow> ad_generation st = 0 \<and> ad_credential st = None
     | Some r \<Rightarrow> codec_decode X (ad_config st) (ad_device st) r = Inr (ad_generation st, ad_credential st))"

subsection \<open>The operations\<close>

definition adapter_version :: "('x, unit) adapter_op \<Rightarrow> ('x, nat) adapter_op" where
  "adapter_version check = kbind check (\<lambda>_ (st, s). ((st, s), Returned (Inr (ad_generation st))))"

definition adapter_load :: "('x, unit) adapter_op \<Rightarrow> ('x, nat \<times> stored_credential option) adapter_op" where
  "adapter_load check = kbind check (\<lambda>_ (st, s). ((st, s), Returned (Inr (ad_generation st, ad_credential st))))"

definition adapter_save ::
    "('x, unit) adapter_op \<Rightarrow> (nat \<Rightarrow> stored_credential option \<Rightarrow> ('x, unit) adapter_op) \<Rightarrow> nat \<Rightarrow> stored_credential \<Rightarrow> ('x, unit) adapter_op" where
  "adapter_save check persist v c = kbind check (\<lambda>_ (st, s).
     if v \<noteq> ad_generation st then ((st, s), Returned (Inl StaleResponse))
     else persist v (Some c) (st, s))"

definition adapter_invalidate ::
    "('x, unit) adapter_op \<Rightarrow> (nat \<Rightarrow> stored_credential option \<Rightarrow> ('x, unit) adapter_op) \<Rightarrow> ('x, nat) adapter_op" where
  "adapter_invalidate check persist = kbind check (\<lambda>_ (st, s).
     if ad_generation st = MAX_GENERATION then ((poison st, s), Returned (Inl StorageError))
     else let g = ad_generation st + 1 in
       kbind (persist g None) (\<lambda>_ p. (p, Returned (Inr g))) (st, s))"

subsection \<open>The storage contract\<close>

text \<open>What a caller sees of an operation; after a crash there is no caller.\<close>

definition observed :: "'s \<times> 'a outcome \<Rightarrow> 's \<times> 'a result" where
  "observed p = (fst p, case snd p of Crashed \<Rightarrow> Inl StorageError | Returned r \<Rightarrow> r)"

lemma poisoning_frame:
  assumes "poisoning m f (st, s) = ((st', s'), r)"
  shows "r = Returned (Inr ()) \<and> st' = f st
    \<or> (\<forall>u. r \<noteq> Returned (Inr u)) \<and> (st' = st \<or> st' = poison st)"
  using assms by (auto simp: poisoning_def split: prod.splits outcome.splits sum.splits)

lemma kbind_cases:
  assumes "kbind m k p = (q, r)"
  obtains q1 x where "m p = (q1, Returned (Inr x))" "k x q1 = (q, r)"
    | r1 where "m p = (q, r1)" "\<forall>x. r1 \<noteq> Returned (Inr x)" "\<forall>x. r \<noteq> Returned (Inr x)"
  using assms by (auto simp: kbind_def split: prod.splits outcome.splits sum.splits)

lemma running_Inr:
  "running m st s = (s', Returned (Inr st')) \<longleftrightarrow> m (st, s) = ((st', s'), Returned (Inr ()))"
  by (auto simp: running_def rbind_Inr_iff split: prod.splits outcome.splits)

lemma poison_simps [simp]:
  "ad_generation (poison st) = ad_generation st" "ad_credential (poison st) = None"
  "ad_generation (cached g c st) = g" "ad_credential (cached g c st) = c"
  by (simp_all add: poison_def cached_def)

lemma observed_Inr: "observed p = (s', Inr x) \<longleftrightarrow> p = (s', Returned (Inr x))"
  by (cases p) (auto simp: observed_def split: outcome.splits)

lemma observed_state: "observed p = (s', r) \<Longrightarrow> \<exists>o'. p = (s', o')"
  by (cases p) (simp add: observed_def)

lemma observed_Inl: "observed p = (s', Inl e) \<Longrightarrow> \<exists>o'. p = (s', o') \<and> (\<forall>x. o' \<noteq> Returned (Inr x))"
  by (cases p) (auto simp: observed_def split: outcome.splits)

text \<open>A check changes nothing or poisons; a commit caches what it stored or poisons.\<close>

locale poisoning_adapter =
  fixes check :: "'i \<Rightarrow> ('x, unit) adapter_op"
    and persist :: "'i \<Rightarrow> nat \<Rightarrow> stored_credential option \<Rightarrow> ('x, unit) adapter_op"
  assumes check_law: "check i (st, s) = ((st', s'), r) \<Longrightarrow>
      r = Returned (Inr ()) \<and> st' = st \<or> (\<forall>u. r \<noteq> Returned (Inr u)) \<and> (st' = st \<or> st' = poison st)"
    and persist_law: "persist i g c (st, s) = ((st', s'), r) \<Longrightarrow>
      r = Returned (Inr ()) \<and> st' = cached g c st \<or> (\<forall>u. r \<noteq> Returned (Inr u)) \<and> (st' = st \<or> st' = poison st)"
begin

text \<open>Behind a check, an operation starts from an unchanged state or does not start.\<close>

lemma after_check:
  assumes "kbind (check i) k (st, s) = ((st', s'), r)"
  obtains s1 where "k () (st, s1) = ((st', s'), r)"
    | "\<forall>x. r \<noteq> Returned (Inr x)" "st' = st \<or> st' = poison st"
  using assms
proof (cases rule: kbind_cases)
  case (1 q1 x)
  then show ?thesis using that(1) check_law[of i st s] by (cases q1) force
next
  case (2 r1)
  then show ?thesis using that(2) check_law[of i st s] by force
qed

lemma save_frame:
  assumes "adapter_save (check i) (persist i) v c (st, s) = ((st', s'), r)"
  shows "r = Returned (Inr ()) \<and> v = ad_generation st \<and> st' = cached v (Some c) st
    \<or> (\<forall>u. r \<noteq> Returned (Inr u)) \<and> (st' = st \<or> st' = poison st)"
  using assms[unfolded adapter_save_def]
  by (rule after_check) (use persist_law in \<open>fastforce split: if_splits\<close>)+

lemma invalidate_frame:
  assumes "adapter_invalidate (check i) (persist i) (st, s) = ((st', s'), r)"
  shows "r = Returned (Inr (ad_generation st + 1)) \<and> st' = cached (ad_generation st + 1) None st
    \<or> (\<forall>u. r \<noteq> Returned (Inr u)) \<and> (st' = st \<or> st' = poison st)"
  using assms[unfolded adapter_invalidate_def]
proof (rule after_check)
  fix s1
  let ?g = "ad_generation st + 1"
  assume "(\<lambda>(st, s). if ad_generation st = MAX_GENERATION then ((poison st, s), Returned (Inl StorageError))
     else let g = ad_generation st + 1 in
       kbind (persist i g None) (\<lambda>_ p. (p, Returned (Inr g))) (st, s)) (st, s1) = ((st', s'), r)"
  then consider "kbind (persist i ?g None) (\<lambda>_ p. (p, Returned (Inr ?g))) (st, s1) = ((st', s'), r)"
    | "st' = poison st" "r = Returned (Inl StorageError)"
    by (auto simp: Let_def split: if_splits)
  then show ?thesis
  proof cases
    case 1
    then show ?thesis by (cases rule: kbind_cases) (use persist_law in fastforce)+
  qed simp
qed auto

lemma read_frame:
  "adapter_version (check i) (st, s) = ((st', s'), rv) \<Longrightarrow>
     rv = Returned (Inr (ad_generation st)) \<and> st' = st \<or> (\<forall>u. rv \<noteq> Returned (Inr u)) \<and> (st' = st \<or> st' = poison st)"
  "adapter_load (check i) (st, s) = ((st', s'), rl) \<Longrightarrow>
     rl = Returned (Inr (ad_generation st, ad_credential st)) \<and> st' = st
     \<or> (\<forall>u. rl \<noteq> Returned (Inr u)) \<and> (st' = st \<or> st' = poison st)"
  unfolding adapter_version_def adapter_load_def by (erule after_check; auto)+

sublocale fenced_storage
    "\<lambda>i s. observed (adapter_version (check i) s)" "\<lambda>i s. observed (adapter_load (check i) s)"
    "\<lambda>i v c s. observed (adapter_save (check i) (persist i) v c s)" "\<lambda>i s. observed (adapter_invalidate (check i) (persist i) s)"
    "\<lambda>p. ad_generation (fst p)" "\<lambda>p. ad_credential (fst p)"
proof unfold_locales
  fix i and p p' :: "'x adapter_scheme \<times> files"
  obtain st s st' s' where p: "p = (st, s)" "p' = (st', s')" by (cases p, cases p')
  { fix r assume a: "observed (adapter_version (check i) p) = (p', r)"
    from observed_state[OF a] obtain o' where run: "adapter_version (check i) (st, s) = ((st', s'), o')" by (auto simp: p)
    then show "ad_generation (fst p') = ad_generation (fst p) \<and> ad_credential (fst p') \<in> {ad_credential (fst p), None}"
      using read_frame(1)[OF run] p by auto }
  { fix v assume a: "observed (adapter_version (check i) p) = (p', Inr v)"
    then show "v = ad_generation (fst p)" using read_frame(1)[OF a[unfolded observed_Inr p]] p by auto }
  { fix r assume a: "observed (adapter_load (check i) p) = (p', r)"
    from observed_state[OF a] obtain o' where run: "adapter_load (check i) (st, s) = ((st', s'), o')" by (auto simp: p)
    then show "ad_generation (fst p') = ad_generation (fst p) \<and> ad_credential (fst p') \<in> {ad_credential (fst p), None}"
      using read_frame(2)[OF run] p by auto }
  { fix v c assume a: "observed (adapter_load (check i) p) = (p', Inr (v, c))"
    then show "v = ad_generation (fst p) \<and> c = ad_credential (fst p)"
      using read_frame(2)[OF a[unfolded observed_Inr p]] p by auto }
  { fix v c r assume a: "observed (adapter_save (check i) (persist i) v c p) = (p', r)"
    from observed_state[OF a] obtain o' where run: "adapter_save (check i) (persist i) v c (st, s) = ((st', s'), o')" by (auto simp: p)
    then show "ad_generation (fst p') = ad_generation (fst p)" using save_frame[OF run] p by auto }
  { fix v c e assume a: "observed (adapter_save (check i) (persist i) v c p) = (p', Inl e)"
    from observed_Inl[OF a] obtain o' where run: "adapter_save (check i) (persist i) v c (st, s) = ((st', s'), o')" and out: "\<forall>x. o' \<noteq> Returned (Inr x)"
      by (auto simp: p)
    then show "ad_credential (fst p') \<in> {ad_credential (fst p), None}" using save_frame[OF run] out p by auto }
  { fix v c u assume a: "observed (adapter_save (check i) (persist i) v c p) = (p', Inr u)"
    then show "v = ad_generation (fst p) \<and> (\<exists>c'. ad_credential (fst p') = Some c'
        \<and> sc_credential c' = sc_credential c \<and> sc_activation_id c' = sc_activation_id c)"
      using save_frame[OF a[unfolded observed_Inr p]] p by auto }
  { fix e assume a: "observed (adapter_invalidate (check i) (persist i) p) = (p', Inl e)"
    from observed_Inl[OF a] obtain o' where run: "adapter_invalidate (check i) (persist i) (st, s) = ((st', s'), o')" and out: "\<forall>x. o' \<noteq> Returned (Inr x)"
      by (auto simp: p)
    then show "ad_generation (fst p') = ad_generation (fst p) \<and> ad_credential (fst p') \<in> {ad_credential (fst p), None}"
      using invalidate_frame[OF run] out p by auto }
  { fix v assume a: "observed (adapter_invalidate (check i) (persist i) p) = (p', Inr v)"
    then show "ad_generation (fst p) < ad_generation (fst p') \<and> v = ad_generation (fst p') \<and> ad_credential (fst p') = None"
      using invalidate_frame[OF a[unfolded observed_Inr p]] p by auto }
qed

end

end
