(* ===== verification/Keyring.thy ===== *)
theory Keyring
  imports Backend Register SecretTool Adapters
begin

text \<open>
  The test-only Secret Service adapter (\<open>secret_service/lease.rs\<close>, \<open>secret_service.rs\<close>): a lease
  file with the write marker, and a credential kept by the keyring of the session.  Here \<open>f_lock\<close> is
  the lease file and \<open>f_data\<close> the keyring's item of the scope, with \<open>f_datas\<close> what a write whose end
  nobody saw may still turn it into.
\<close>

subsection \<open>The lease\<close>

record lease_view =
  lv_dirs :: "(metadata option \<times> metadata option) list"
  lv_file :: "metadata option \<times> metadata option"
  lv_read :: bool

text \<open>One operation's world: the user, the readings of its verifications and the system calls by
  their numbers, the state of the helper, whether it dies while the helper runs, and whether a
  helper that failed had stored the item.\<close>

record keyring_world =
  kw_euid :: nat
  kw_views :: "nat \<Rightarrow> lease_view"
  kw_sys :: "nat \<Rightarrow> sys"
  kw_seed :: nat
  kw_dies :: bool
  kw_stored :: bool

fun lease_directories :: "nat \<Rightarrow> (metadata option \<times> metadata option) list \<Rightarrow> unit result" where
  "lease_directories euid [] = Inr ()"
| "lease_directories euid ((h, a) # rest) =
     rbind (ok_or StorageError h) (\<lambda>held.
     rbind (ok_or StorageError a) (\<lambda>actual.
     rbind (ensure StorageError (\<not> (\<not> md_is_dir held \<or> \<not> md_is_dir actual \<or> \<not> same held actual
        \<or> md_nlink held = 0 \<or> md_nlink actual = 0
        \<or> rest = [] \<and> (\<not> private_mode euid held \<or> \<not> private_mode euid actual)))) (\<lambda>_.
       lease_directories euid rest)))"

definition lease_file :: "nat \<Rightarrow> nat \<Rightarrow> metadata option \<times> metadata option \<Rightarrow> unit result" where
  "lease_file euid len p =
     rbind (ok_or StorageError (fst p)) (\<lambda>held.
     rbind (ok_or StorageError (snd p)) (\<lambda>actual.
       ensure StorageError (\<not> (\<not> md_is_file held \<or> \<not> md_is_file actual \<or> \<not> same held actual
         \<or> \<not> private_mode euid held \<or> \<not> private_mode euid actual \<or> md_nlink held \<noteq> 1 \<or> md_nlink actual \<noteq> 1
         \<or> md_len held \<noteq> len \<or> md_len actual \<noteq> len))))"

definition lease_marker :: "keyring_world \<Rightarrow> nat \<Rightarrow> string \<Rightarrow> unit fs" where
  "lease_marker w n expected = reading (\<lambda>s.
     let v = kw_views w n in
     rbind (lease_directories (kw_euid w) (lv_dirs v)) (\<lambda>_.
     rbind (lease_file (kw_euid w) (length expected) (lv_file v)) (\<lambda>_.
     rbind (ensure StorageError (lv_read v)) (\<lambda>_.
       ensure StorageError (take 2 (or_else (f_lock s) []) = expected)))))"

definition lease_pending :: "keyring_world \<Rightarrow> nat \<Rightarrow> unit fs" where
  "lease_pending w n = fbind (change (kw_sys w n) put_marker) (\<lambda>_. flush (kw_sys w (n + 1)) sync_lease)"

definition begin_write :: "keyring_world \<Rightarrow> unit fs" where
  "begin_write w =
     fbind (lease_marker w 2 []) (\<lambda>_.
     fbind (lease_pending w 0) (\<lambda>_.
       lease_marker w 3 WRITE_PENDING))"

definition finish_write :: "keyring_world \<Rightarrow> unit fs" where
  "finish_write w =
     fbind (lease_marker w 4 WRITE_PENDING) (\<lambda>_.
     on_error
       (fbind (change (kw_sys w 2) clear_marker) (\<lambda>_.
        fbind (flush (kw_sys w 3) sync_lease) (\<lambda>_.
          lease_marker w 5 [])))
       (lease_pending w 4))"

text \<open>Opening: each directory of the path in turn, \<open>opens n\<close> saying whether the \<open>n\<close>-th can be
  opened; the names form the normalised path.\<close>

fun lease_walk :: "(nat \<Rightarrow> bool) \<Rightarrow> nat \<Rightarrow> path_component list \<Rightarrow> string list result" where
  "lease_walk opens n [] = Inr []"
| "lease_walk opens n (RootDir # rest) = lease_walk opens n rest"
| "lease_walk opens n (CurDir # rest) = lease_walk opens n rest"
| "lease_walk opens n (Normal name # rest) =
     rbind (ensure StorageError (opens n)) (\<lambda>_.
     rbind (lease_walk opens (Suc n) rest) (\<lambda>names. Inr (name # names)))"
| "lease_walk opens n (ParentDir # rest) = Inl StorageError"

definition directory_text :: "string list \<Rightarrow> string" where
  "directory_text names = (if names = [] then ''/'' else concat (map ((@) ''/'') names))"

record lease_open =
  lo_root :: bool
  lo_opens :: "nat \<Rightarrow> bool"
  lo_leaf :: "metadata option"
  lo_file :: "metadata option"
  lo_lock :: lock_attempt
  lo_dot :: bool
  lo_world :: keyring_world

definition sync_directory :: "files \<Rightarrow> files" where
  "sync_directory s = s\<lparr>f_locks := filter (\<lambda>x. x \<noteq> None \<or> f_lock s = None) (f_locks s)\<rparr>"

definition create_lease_file :: "keyring_world \<Rightarrow> bool fs" where
  "create_lease_file w = (\<lambda>s.
     if f_lock s = None
     then fbind (change (kw_sys w 6) create_lease) (\<lambda>_. pure (Inr True)) s
     else fbind (change (kw_sys w 6) id) (\<lambda>_. pure (Inr False)) s)"

definition open_lease :: "('x) external_scheme \<Rightarrow> lease_open \<Rightarrow> path_component list \<Rightarrow> (bool \<times> string) fs" where
  "open_lease X l path =
     (let w = lo_world l in
     fbind (pure (ensure StorageError (path \<noteq> [] \<and> hd path = RootDir))) (\<lambda>_.
     fbind (pure (ensure StorageError (lo_root l))) (\<lambda>_.
     fbind (pure (lease_walk (lo_opens l) 0 path)) (\<lambda>names.
     fbind (pure (ensure StorageError (utf8 X (directory_text names)))) (\<lambda>_.
     fbind (pure (rbind (ok_or StorageError (lo_leaf l)) (\<lambda>m.
        ensure StorageError (\<not> (\<not> private_mode (kw_euid w) m \<or> \<not> md_is_dir m \<or> md_nlink m = 0))))) (\<lambda>_.
     fbind (create_lease_file w) (\<lambda>created.
     fbind (pure (rbind (ok_or StorageError (lo_file l)) (\<lambda>m.
        ensure StorageError (\<not> (\<not> md_is_file m \<or> \<not> private_mode (kw_euid w) m \<or> md_nlink m \<noteq> 1))))) (\<lambda>_.
     fbind (pure (ensure StorageError (lo_lock l = Locked))) (\<lambda>_.
     fbind (lease_marker w 6 []) (\<lambda>_.
     fbind (if created
        then fbind (flush (kw_sys w 7) sync_lease) (\<lambda>_.
             fbind (pure (ensure StorageError (lo_dot l))) (\<lambda>_.
             fbind (flush (kw_sys w 8) sync_directory) (\<lambda>_.
               lease_marker w 7 [])))
        else pure (Inr ())) (\<lambda>_.
       pure (Inr (created, directory_text names)))))))))))))"

subsection \<open>The keyring\<close>

text \<open>The tool: the child that a command line starts, given the state of the keyring (a number) and
  its item of the scope.\<close>

type_synonym secret_tool = "nat \<Rightarrow> string option \<Rightarrow> string list \<Rightarrow> child"

definition keyring_lookup :: "secret_tool \<Rightarrow> keyring_world \<Rightarrow> string \<Rightarrow> string option fs" where
  "keyring_lookup T w scope s =
     (case lookup_secret (T (kw_seed w) (f_data s)) scope of
        None \<Rightarrow> (s, Crashed)
      | Some r \<Rightarrow> (s, if kw_dies w then Crashed else Returned r))"

text \<open>Only a quiet success means that the item is the new one; after anything else it may be either,
  then or later.\<close>

definition keyring_store :: "secret_tool \<Rightarrow> keyring_world \<Rightarrow> string \<Rightarrow> string \<Rightarrow> unit fs" where
  "keyring_store T w scope item s =
     (let unsure = s\<lparr>f_data := if kw_stored w then Some item else f_data s, f_datas := f_datas s @ [Some item]\<rparr>
      in case store_secret (T (kw_seed w) (f_data s)) scope item of
        None \<Rightarrow> (unsure, Crashed)
      | Some (Inl e) \<Rightarrow> (unsure, Returned (Inl e))
      | Some (Inr _) \<Rightarrow> if kw_dies w then (unsure, Crashed)
          else (s\<lparr>f_data := Some item, f_datas := [Some item]\<rparr>, Returned (Inr ())))"

definition keyring_put :: "secret_tool \<Rightarrow> keyring_world \<Rightarrow> string \<Rightarrow> string \<Rightarrow> unit fs" where
  "keyring_put T w scope item =
     fbind (begin_write w) (\<lambda>_.
     fbind (keyring_store T w scope item) (\<lambda>_.
       finish_write w))"

subsection \<open>The storage\<close>

record keyring_state = adapter +
  ks_scope :: string

type_synonym scope_field = "unit keyring_state_ext"

definition checked :: "keyring_world \<Rightarrow> nat \<Rightarrow> keyring_state \<Rightarrow> unit fs" where
  "checked w n st = (if ad_poisoned st then pure (Inl StorageError) else lease_marker w n [])"

definition keyring_check :: "keyring_world \<Rightarrow> (scope_field, unit) adapter_op" where
  "keyring_check w = poisoning (checked w 0) id"

record ('x) keyring_libs =
  kl_external :: "('x) external_scheme"
  kl_json :: "json \<Rightarrow> string option"
  kl_base64 :: base64
  kl_tool :: secret_tool

definition commit_action ::
    "('x) keyring_libs \<Rightarrow> keyring_world \<Rightarrow> nat \<Rightarrow> stored_credential option \<Rightarrow> keyring_state \<Rightarrow> unit fs" where
  "commit_action K w g c st =
     fbind (checked w 1 st) (\<lambda>_.
     fbind (pure (secret_encode (kl_external K) (kl_json K) (kl_base64 K) (ad_config st) (ad_device st) g c)) (\<lambda>item.
       keyring_put (kl_tool K) w (ks_scope st) item))"

definition keyring_commit ::
    "('x) keyring_libs \<Rightarrow> keyring_world \<Rightarrow> nat \<Rightarrow> stored_credential option \<Rightarrow> (scope_field, unit) adapter_op" where
  "keyring_commit K w g c = poisoning (commit_action K w g c) (cached g c)"

definition keyring_version :: "keyring_world \<Rightarrow> (scope_field, nat) adapter_op" where
  "keyring_version w = adapter_version (keyring_check w)"

definition keyring_load :: "keyring_world \<Rightarrow> (scope_field, nat \<times> stored_credential option) adapter_op" where
  "keyring_load w = adapter_load (keyring_check w)"

definition keyring_save :: "('x) keyring_libs \<Rightarrow> keyring_world \<Rightarrow> nat \<Rightarrow> stored_credential \<Rightarrow> (scope_field, unit) adapter_op" where
  "keyring_save K w = adapter_save (keyring_check w) (keyring_commit K w)"

definition keyring_invalidate :: "('x) keyring_libs \<Rightarrow> keyring_world \<Rightarrow> (scope_field, nat) adapter_op" where
  "keyring_invalidate K w = adapter_invalidate (keyring_check w) (keyring_commit K w)"

definition open_keyring ::
    "('x) keyring_libs \<Rightarrow> lease_open \<Rightarrow> keyring_world \<Rightarrow> path_component list \<Rightarrow> config \<Rightarrow> device \<Rightarrow> keyring_state fs" where
  "open_keyring K l w path cfg dev =
     (let X = kl_external K; B = kl_base64 K in
     fbind (pure (secret_encode X (kl_json K) B cfg dev 0 None)) (\<lambda>_.
     fbind (open_lease X l path) (\<lambda>(created, dir).
     fbind (pure (service_scope X cfg dev dir)) (\<lambda>scope.
     let st = \<lparr>ad_generation = 0, ad_credential = None, ad_poisoned = False, ad_config = cfg,
       ad_device = dev, ks_scope = scope\<rparr> in
     fbind (keyring_lookup (kl_tool K) (lo_world l) scope) (\<lambda>found.
     fbind (case found of
         Some out \<Rightarrow> pure (rbind (secret_decode X B cfg dev out) (\<lambda>(g, c).
           Inr (cached g c st)))
       | None \<Rightarrow> if created then running (keyring_commit K w 0 None) st
           else pure (Inl StorageError)) (\<lambda>st'.
     fbind (checked w 0 st') (\<lambda>_. pure (Inr st'))))))))"

subsection \<open>The storage contract\<close>

interpretation keyring: poisoning_adapter keyring_check "keyring_commit K" for K
  unfolding keyring_check_def keyring_commit_def
  by unfold_locales (drule poisoning_frame, simp)+

subsection \<open>The keyring item as an atomic register\<close>

text \<open>The two calls of the pending marker are the last two of the installed storage's.\<close>

lemma lease_pending_eq:
  "lease_pending w n = write_pending_marker (\<lambda>i. if i = 0 then Works else kw_sys w (n + i - 1)) 0"
  by (simp add: lease_pending_def write_pending_marker_def fbind_def change_def fun_eq_iff)

lemma lease_marker_triple: "(\<And>s. P s \<Longrightarrow> R s) \<Longrightarrow> file_triple P (lease_marker w n m) (\<lambda>_. P) R"
  unfolding lease_marker_def Let_def by (rule reading_triple)

lemma begin_write_triple:
  assumes "\<And>s. phase_old e s \<Longrightarrow> R s" "\<And>s. phase_marked s \<Longrightarrow> R s"
  shows "file_triple (settled e) (begin_write w) (\<lambda>_. phase_marked) R"
proof -
  have "file_triple (settled e) (lease_marker w 2 []) (\<lambda>_. phase_old e) R"
    by (rule weaken_triple[OF lease_marker_triple[of "phase_old e" "phase_old e"]]) (auto simp: settled_old assms)
  then show ?thesis unfolding begin_write_def lease_pending_eq
    by (rule fbind_triple) (intro fbind_triple[OF mark_step] lease_marker_triple assms)
qed

lemma finish_write_triple: "file_triple (phase_new b) (finish_write w) (\<lambda>_. settled (Some b)) (phase_new b)"
  unfolding finish_write_def lease_pending_eq
  by (rule fbind_triple[OF lease_marker_triple], assumption)
    (intro on_error_triple[OF _ remark_step] fbind_triple[OF clear_step] fbind_triple[OF clear_sync_step]
      lease_marker_triple settled_new)

lemma keyring_store_triple:
  assumes "\<And>s. phase_marked s \<Longrightarrow> R s"
  shows "file_triple phase_marked (keyring_store T w scope item) (\<lambda>_. phase_new item) R"
  using assms by (auto simp: file_triple_def keyring_store_def phase_defs Let_def split: option.split sum.split)

lemma keyring_put_triple:
  assumes "decode' item = Some b"
  shows "file_triple (settled e) (keyring_put T w scope item) (\<lambda>_. settled (Some item)) (torn decode' e b)"
  unfolding keyring_put_def
  by (intro fbind_triple[OF begin_write_triple] fbind_triple[OF keyring_store_triple])
    (auto intro: weaken_triple[OF finish_write_triple] torn_phases assms)

text \<open>What the tool promises: an item that is found is the one that is kept, and none is missed.\<close>

definition honest_tool :: "secret_tool \<Rightarrow> bool" where
  "honest_tool T \<longleftrightarrow> (\<forall>seed kept scope found. lookup_secret (T seed kept) scope = Some (Inr found) \<longrightarrow>
     (case found of None \<Rightarrow> kept = None | Some out \<Rightarrow> \<exists>item. kept = Some item \<and> out \<in> {item, item @ [CHR 0x0A]}))"

definition item_plain :: "base64 \<Rightarrow> string \<Rightarrow> string option" where
  "item_plain B item = std_decode B (one_line item)"

lemma keyring_lookup_Inr:
  assumes "honest_tool T" "keyring_lookup T w scope s = (s', Returned (Inr found))"
  shows "s' = s" "case found of None \<Rightarrow> f_data s = None | Some out \<Rightarrow> \<exists>item. f_data s = Some item \<and> out \<in> {item, item @ [CHR 0x0A]}"
  using assms by (auto simp: keyring_lookup_def honest_tool_def split: option.splits if_splits)

text \<open>The plain record a start reads, or none for a new directory without an item.\<close>

definition keyring_found ::
    "('x) keyring_libs \<Rightarrow> lease_open \<Rightarrow> path_component list \<Rightarrow> config \<Rightarrow> device \<Rightarrow> (string option \<times> string) fs" where
  "keyring_found K l path cfg dev =
     (let X = kl_external K; B = kl_base64 K in
     fbind (open_lease X l path) (\<lambda>(created, dir).
     fbind (pure (service_scope X cfg dev dir)) (\<lambda>scope.
     fbind (keyring_lookup (kl_tool K) (lo_world l) scope) (\<lambda>found.
       pure (case found of
         Some out \<Rightarrow> rbind (secret_plain B out) (\<lambda>r. Inr (Some r, scope))
       | None \<Rightarrow> if created then Inr (None, scope) else Inl StorageError)))))"

definition keyring_start ::
    "('x) keyring_libs \<Rightarrow> lease_open \<times> path_component list \<times> config \<times> device \<Rightarrow> string option fs" where
  "keyring_start K = (\<lambda>(l, path, cfg, dev). fbind (keyring_found K l path cfg dev) (\<lambda>(r, scope). pure (Inr r)))"

definition keyring_write :: "('x) keyring_libs \<Rightarrow> keyring_world \<times> string \<Rightarrow> string \<Rightarrow> unit fs" where
  "keyring_write K = (\<lambda>(w, scope) r. fbind (pure (secret_text (kl_base64 K) r)) (keyring_put (kl_tool K) w scope))"

lemma open_lease_Inr:
  assumes "open_lease X l path s = (s', Returned (Inr x))"
  shows "f_lock s \<in> {None, Some []}" "f_data s' = f_data s"
proof -
  from assms obtain s1 created where
    c: "create_lease_file (lo_world l) s = (s1, Returned (Inr created))"
    and m: "take 2 (or_else (f_lock s1) []) = []"
    and s': "s' = (if created then sync_directory (sync_lease s1) else s1)"
    unfolding open_lease_def Let_def lease_marker_def
    by (fastforce simp: run_Inr rbind_Inr_iff ensure_iff split: if_splits)
  have "s1 = (if f_lock s = None then create_lease s else s)"
    using c by (auto simp: create_lease_file_def run_Inr split: if_splits)
  then show "f_lock s \<in> {None, Some []}" "f_data s' = f_data s"
    using m s' by (auto simp: create_lease_def sync_directory_def sync_lease_def or_else_def split: if_splits)
qed

lemma keyring_file:
  assumes "padded (kl_base64 K)" "honest_tool (kl_tool K)"
  shows "atomic_file (keyring_write K) (keyring_start K) (item_plain (kl_base64 K))"
proof unfold_locales
  fix e :: "string option" and x :: "keyring_world \<times> string" and b
  show "file_triple (settled e) (keyring_write K x b)
      (\<lambda>_ s. \<exists>c. item_plain (kl_base64 K) c = Some b \<and> settled (Some c) s) (torn (item_plain (kl_base64 K)) e b)"
  proof (cases "secret_text (kl_base64 K) b")
    case (Inl err)
    then show ?thesis
      by (auto simp: keyring_write_def file_triple_def fbind_def pure_def torn_def settled_old split: prod.split)
  next
    case (Inr item)
    have "CHR 0x0A \<notin> set item" "std_decode (kl_base64 K) item = Some b"
      using assms(1) Inr by (auto simp: padded_def secret_text_Inr)
    then have plain: "item_plain (kl_base64 K) item = Some b" by (simp add: item_plain_def one_line_id)
    have run: "keyring_write K x b = keyring_put (kl_tool K) (fst x) (snd x) item"
      by (cases x) (simp add: keyring_write_def Inr fbind_def pure_def fun_eq_iff)
    show ?thesis unfolding run
      by (rule weaken_triple[OF keyring_put_triple[of "item_plain (kl_base64 K)", OF plain]]) (use plain in auto)
  qed
next
  fix og s s' found
  assume start: "keyring_start K og s = (s', Returned (Inr found))"
  obtain l path cfg dev where og: "og = (l, path, cfg, dev)" by (cases og)
  from start[unfolded og] obtain s1 x scope out where
    o1: "open_lease (kl_external K) l path s = (s1, Returned (Inr x))"
    and lk: "keyring_lookup (kl_tool K) (lo_world l) scope s1 = (s', Returned (Inr out))"
    and found: "case out of Some o' \<Rightarrow> \<exists>r. secret_plain (kl_base64 K) o' = Inr r \<and> found = Some r | None \<Rightarrow> found = None"
    unfolding keyring_start_def keyring_found_def Let_def prod.case run_Inr
    by (fastforce simp: run_Inr rbind_Inr_iff split: option.splits if_splits)
  note lease = open_lease_Inr[OF o1] and item = keyring_lookup_Inr[OF assms(2) lk]
  have "stands_for (item_plain (kl_base64 K)) (f_data s) found"
  proof (cases out)
    case None
    then show ?thesis using found item(2) lease(2) by (simp add: stands_for_def)
  next
    case (Some o')
    then obtain r i where r: "secret_plain (kl_base64 K) o' = Inr r" "found = Some r"
      and i: "f_data s = Some i" "o' \<in> {i, i @ [CHR 0x0A]}"
      using found item(2) lease(2) by auto
    have clean: "CHR 0x0A \<notin> set (one_line o')" "std_decode (kl_base64 K) (one_line o') = Some r"
      using r(1) assms(1) by (auto simp: secret_plain_Inr padded_def dest: sym)
    have "one_line i = one_line o'"
      using i(2) clean(1) one_line_id(1)[of i] by (auto simp: one_line_unfold)
    with clean(2) r i(1) show ?thesis by (simp add: stands_for_def item_plain_def)
  qed
  then show "f_lock s \<in> {None, Some []} \<and> stands_for (item_plain (kl_base64 K)) (f_data s) found"
    using lease(1) by simp
qed

text \<open>A commit is a write of the record that the codec encodes.\<close>

lemma pure_rbind: "fbind (pure (rbind r f)) k = fbind (pure r) (\<lambda>x. fbind (pure (f x)) k)"
  by (cases r) (simp_all add: fbind_def pure_def fun_eq_iff)

lemma commit_is_write:
  "commit_action K w g c st = fbind (checked w 1 st) (\<lambda>_.
     fbind (pure (codec_encode (kl_external K) (kl_json K) (ad_config st) (ad_device st) g c))
       (keyring_write K (w, ks_scope st)))"
  by (simp add: commit_action_def secret_encode_def pure_rbind keyring_write_def)

lemma open_keyring_Inr:
  assumes "open_keyring K l w path cfg dev s = (s', Returned (Inr st))"
  shows "\<exists>s1 found. keyring_start K (l, path, cfg, dev) s = (s1, Returned (Inr found)) \<and> holds (kl_external K) st found"
proof -
  let ?st = "\<lambda>scope. \<lparr>ad_generation = 0, ad_credential = None, ad_poisoned = False, ad_config = cfg,
       ad_device = dev, ks_scope = scope\<rparr>"
  let ?X = "kl_external K" and ?B = "kl_base64 K"
  from assms obtain s1 s2 s3 created dir scope out where
    o1: "open_lease ?X l path s = (s1, Returned (Inr (created, dir)))"
    and sc: "service_scope ?X cfg dev dir = Inr scope"
    and lk: "keyring_lookup (kl_tool K) (lo_world l) scope s1 = (s2, Returned (Inr out))"
    and f: "(case out of
         Some t \<Rightarrow> pure (rbind (secret_decode ?X ?B cfg dev t) (\<lambda>(g, c). Inr (cached g c (?st scope))))
       | None \<Rightarrow> if created then running (keyring_commit K w 0 None) (?st scope)
           else pure (Inl StorageError)) s2 = (s3, Returned (Inr st))"
    unfolding open_keyring_def Let_def by (fastforce simp: run_Inr simp del: split_paired_Ex split: prod.splits)
  show ?thesis
  proof (cases out)
    case None
    then have "created" "st = cached 0 None (?st scope)"
      using f keyring.persist_law[of K w 0 None "?st scope" s2 st s3] by (auto simp: running_Inr run_Inr split: if_splits)
    with None o1 sc lk show ?thesis
      by (intro exI[of _ s2] exI[of _ None])
        (simp add: keyring_start_def keyring_found_def Let_def fbind_def pure_def holds_def cached_def)
  next
    case (Some t)
    then obtain r g c where r: "secret_plain ?B t = Inr r" "codec_decode ?X cfg dev r = Inr (g, c)" "st = cached g c (?st scope)"
      using f by (auto simp: run_Inr rbind_Inr_iff secret_decode_def)
    with Some o1 sc lk show ?thesis
      by (intro exI[of _ s2] exI[of _ "Some r"])
        (simp add: keyring_start_def keyring_found_def Let_def fbind_def pure_def holds_def cached_def)
  qed
qed

lemma keyring_restart:
  assumes "padded (kl_base64 K)" "honest_tool (kl_tool K)"
    and "settled e s" "stands_for (item_plain (kl_base64 K)) e d"
    and "register_writes (keyring_write K) d ops s = (s', saved, pending)"
    and "restarts s' c" "open_keyring K l w path cfg dev c = (c', Returned (Inr st))"
  shows "holds (kl_external K) st saved \<or> pending \<noteq> None \<and> holds (kl_external K) st pending"
proof -
  obtain c1 found where "keyring_start K (l, path, cfg, dev) c = (c1, Returned (Inr found))" "holds (kl_external K) st found"
    using open_keyring_Inr[OF assms(7)] by blast
  then show ?thesis
    using atomic_file.register(1)[OF keyring_file[OF assms(1,2)] assms(3-6)] by blast
qed

end
