(* ===== verification/Sealed.thy ===== *)
theory Sealed
  imports Windows Adapters
begin

text \<open>
  The test-only Windows adapter (\<open>storage/windows.rs\<close>): pinned directories, an exclusive lease, and
  the record protected for the user.  It has no write marker: a replaced file is the old or the new
  one, and a storage that could not tell is poisoned.
\<close>

subsection \<open>The world\<close>

datatype destination = Present win_metadata | Absent | Unreadable

text \<open>One operation's world: the readings of the directory checks by their numbers, the protection,
  what the destination is, the random suffix, and the system calls.\<close>

record sealed_world =
  sw_dirs :: "nat \<Rightarrow> win_metadata option list"
  sw_thread :: thread_token
  sw_seed :: nat
  sw_pinned :: "win_metadata option"
  sw_destination :: destination
  sw_random :: "string option"
  sw_source :: "win_metadata option"
  sw_directory :: "win_metadata option"
  sw_final :: "nat \<times> 16 word list"
  sw_sys :: "nat \<Rightarrow> sys"

record sealed_state = adapter +
  ss_entropy :: string

type_synonym entropy_field = "unit sealed_state_ext"

record ('x) sealed_libs =
  sl_external :: "('x) external_scheme"
  sl_json :: "json \<Rightarrow> string option"
  sl_dpapi :: dpapi

definition MAX_SEALED :: nat where "MAX_SEALED = 64 * 1024"

subsection \<open>Checking and committing\<close>

definition checked_directory :: "win_metadata option \<Rightarrow> unit result" where
  "checked_directory m = ensure StorageError (win_directory m)"

fun check_directories :: "win_metadata option list \<Rightarrow> unit result" where
  "check_directories [] = Inr ()"
| "check_directories (d # rest) = rbind (checked_directory d) (\<lambda>_. check_directories rest)"

definition sealed_checked :: "sealed_world \<Rightarrow> nat \<Rightarrow> 'x adapter_scheme \<Rightarrow> unit result" where
  "sealed_checked w n st =
     rbind (ensure StorageError (\<not> (ad_poisoned st \<or> sw_dirs w n = []))) (\<lambda>_. check_directories (sw_dirs w n))"

text \<open>This check returns its error without poisoning.\<close>

definition sealed_check :: "sealed_world \<Rightarrow> (entropy_field, unit) adapter_op" where
  "sealed_check w = (\<lambda>(st, s). ((st, s), Returned (sealed_checked w 0 st)))"

fun regular_destination :: "destination \<Rightarrow> bool" where
  "regular_destination (Present m) = win_regular m"
| "regular_destination Absent = True"
| "regular_destination Unreadable = False"

definition replace_ciphertext :: "sealed_world \<Rightarrow> string \<Rightarrow> unit fs" where
  "replace_ciphertext w bytes =
     fbind (pure (checked_directory (sw_pinned w))) (\<lambda>_.
     fbind (pure (ensure StorageError (regular_destination (sw_destination w)))) (\<lambda>_.
     fbind (pure (ok_or StorageError (sw_random w))) (\<lambda>_.
     fbind (change (sw_sys w 0) create_temp) (\<lambda>_.
     fbind (on_error
        (fbind (change (sw_sys w 1) (write_temp bytes)) (\<lambda>_.
         fbind (flush (sw_sys w 2) sync_temp) (\<lambda>_.
         fbind (pure (ensure StorageError (replace_storage_ciphertext (sw_source w) (sw_directory w)
            (fst (sw_final w)) (snd (sw_final w)) (\<lambda>_. True)))) (\<lambda>_.
           change (sw_sys w 3) rename_temp))))
        (change (sw_sys w 4) unlink_temp)) (\<lambda>_.
       flush (sw_sys w 5) sync_data)))))"

definition sealed_write :: "dpapi \<Rightarrow> sealed_world \<Rightarrow> string \<Rightarrow> unit result \<Rightarrow> string \<Rightarrow> unit fs" where
  "sealed_write D w key recheck plaintext =
     fbind (pure (ok_or StorageError (protect_user_data (sw_thread w) (dp_protect D (sw_seed w)) plaintext key))) (\<lambda>ciphertext.
     fbind (pure (ensure StorageError (\<not> (ciphertext = [] \<or> length ciphertext > MAX_SEALED)))) (\<lambda>_.
     fbind (pure recheck) (\<lambda>_.
       replace_ciphertext w ciphertext)))"

definition sealed_action ::
    "('x) sealed_libs \<Rightarrow> sealed_world \<Rightarrow> nat \<Rightarrow> stored_credential option \<Rightarrow> sealed_state \<Rightarrow> unit fs" where
  "sealed_action K w g c st =
     fbind (pure (sealed_checked w 1 st)) (\<lambda>_.
     fbind (pure (codec_encode (sl_external K) (sl_json K) (ad_config st) (ad_device st) g c)) (\<lambda>plaintext.
       sealed_write (sl_dpapi K) w (ss_entropy st) (sealed_checked w 2 st) plaintext))"

definition sealed_commit ::
    "('x) sealed_libs \<Rightarrow> sealed_world \<Rightarrow> nat \<Rightarrow> stored_credential option \<Rightarrow> (entropy_field, unit) adapter_op" where
  "sealed_commit K w g c = poisoning (sealed_action K w g c) (cached g c)"

subsection \<open>The operations\<close>

definition sealed_version :: "sealed_world \<Rightarrow> (entropy_field, nat) adapter_op" where
  "sealed_version w = adapter_version (sealed_check w)"

definition sealed_load :: "sealed_world \<Rightarrow> (entropy_field, nat \<times> stored_credential option) adapter_op" where
  "sealed_load w = adapter_load (sealed_check w)"

definition sealed_save :: "('x) sealed_libs \<Rightarrow> sealed_world \<Rightarrow> nat \<Rightarrow> stored_credential \<Rightarrow> (entropy_field, unit) adapter_op" where
  "sealed_save K w = adapter_save (sealed_check w) (sealed_commit K w)"

definition sealed_invalidate :: "('x) sealed_libs \<Rightarrow> sealed_world \<Rightarrow> (entropy_field, nat) adapter_op" where
  "sealed_invalidate K w = adapter_invalidate (sealed_check w) (sealed_commit K w)"

interpretation sealed: poisoning_adapter sealed_check "sealed_commit K" for K
proof unfold_locales
  show "r = Returned (Inr ()) \<and> st' = st \<or> (\<forall>u. r \<noteq> Returned (Inr u)) \<and> (st' = st \<or> st' = poison st)"
    if "sealed_check w (st, s) = ((st', s'), r)" for w st s st' s' r
    using that by (cases "sealed_checked w 0 st") (auto simp: sealed_check_def)
  show "r = Returned (Inr ()) \<and> st' = cached g c st \<or> (\<forall>u. r \<noteq> Returned (Inr u)) \<and> (st' = st \<or> st' = poison st)"
    if "sealed_commit K w g c (st, s) = ((st', s'), r)" for w g c st s st' s' r
    using poisoning_frame[OF that[unfolded sealed_commit_def]] by simp
qed

subsection \<open>Opening\<close>

text \<open>The number of directories to pin, the root included.\<close>

fun sealed_names :: "win_component list \<Rightarrow> nat result" where
  "sealed_names [] = Inr 0"
| "sealed_names (WinName name # rest) =
     (if \<exists>u \<in> set name. u = 0 \<or> u = 58 then Inl StorageError
      else rbind (sealed_names rest) (\<lambda>n. Inr (n + 1)))"
| "sealed_names (_ # rest) = Inl StorageError"

fun sealed_path :: "(char \<Rightarrow> nat) \<Rightarrow> win_component list \<Rightarrow> nat result" where
  "sealed_path drives (Disk drive # WinRoot # names) =
     rbind (ensure StorageError (is_local_storage_drive drive (drives drive))) (\<lambda>_.
     rbind (sealed_names names) (\<lambda>n. Inr (n + 1)))"
| "sealed_path drives _ = Inl StorageError"

text \<open>Each handle: whether it opens, and its metadata.\<close>

fun pin_handles :: "(bool \<times> win_metadata option) list \<Rightarrow> unit result" where
  "pin_handles [] = Inr ()"
| "pin_handles (h # rest) =
     rbind (ensure StorageError (fst h)) (\<lambda>_. rbind (checked_directory (snd h)) (\<lambda>_. pin_handles rest))"

definition pin_directories ::
    "(char \<Rightarrow> nat) \<Rightarrow> (nat \<Rightarrow> bool \<times> win_metadata option) \<Rightarrow> win_component list \<Rightarrow> nat result" where
  "pin_directories drives handles path =
     rbind (sealed_path drives path) (\<lambda>n. rbind (pin_handles (map handles [0..<n])) (\<lambda>_. Inr n))"

record sealed_open =
  so_world :: sealed_world
  so_drives :: "char \<Rightarrow> nat"
  so_handles :: "nat \<Rightarrow> bool \<times> win_metadata option"
  so_reopens :: bool               \<comment> \<open>an existing lease file can be opened alone\<close>
  so_lease :: "win_metadata option"
  so_data :: bool                  \<comment> \<open>the data file can be opened, when there is one\<close>
  so_size :: "win_metadata option"
  so_read :: bool
  so_unprotect :: thread_token

definition take_sealed_lease :: "sealed_open \<Rightarrow> bool fs" where
  "take_sealed_lease o' =
     fbind (\<lambda>s. if f_lock s = None
       then fbind (change (sw_sys (so_world o') 6) create_lease) (\<lambda>_. pure (Inr True)) s
       else fbind (pure (ensure StorageError (so_reopens o'))) (\<lambda>_. pure (Inr False)) s) (\<lambda>new.
     fbind (pure (rbind (ok_or StorageError (so_lease o')) (\<lambda>m. ensure StorageError (win_regular m)))) (\<lambda>_.
       pure (Inr new)))"

definition read_ciphertext :: "sealed_open \<Rightarrow> string option fs" where
  "read_ciphertext o' = reading (\<lambda>s. case f_data s of
       None \<Rightarrow> if so_data o' then Inr None else Inl StorageError
     | Some bytes \<Rightarrow>
        rbind (ensure StorageError (so_data o')) (\<lambda>_.
        rbind (ok_or StorageError (so_size o')) (\<lambda>m.
        rbind (ensure StorageError (\<not> (\<not> win_regular m \<or> wm_len m = 0 \<or> wm_len m > MAX_SEALED))) (\<lambda>_.
        rbind (ensure StorageError (so_read o')) (\<lambda>_.
        rbind (ensure StorageError (length (take (MAX_SEALED + 1) bytes) = wm_len m)) (\<lambda>_.
          Inr (Some (take (MAX_SEALED + 1) bytes))))))))"

definition open_sealed ::
    "('x) sealed_libs \<Rightarrow> sealed_open \<Rightarrow> win_component list \<Rightarrow> config \<Rightarrow> device \<Rightarrow> sealed_state fs" where
  "open_sealed K o' path cfg dev =
     (let X = sl_external K; w = so_world o' in
     fbind (pure (entropy X cfg dev)) (\<lambda>e.
     fbind (pure (codec_encode X (sl_json K) cfg dev 0 None)) (\<lambda>_.
     fbind (pure (pin_directories (so_drives o') (so_handles o') path)) (\<lambda>_.
     fbind (take_sealed_lease o') (\<lambda>new.
     let st = \<lparr>ad_generation = 0, ad_credential = None, ad_poisoned = False, ad_config = cfg,
       ad_device = dev, ss_entropy = e\<rparr> in
     fbind (pure (sealed_checked w 0 st)) (\<lambda>_.
     fbind (read_ciphertext o') (\<lambda>found. case found of
         Some ciphertext \<Rightarrow> pure (
           rbind (ok_or StorageError (unprotect_user_data (so_unprotect o') (dp_unprotect (sl_dpapi K)) ciphertext e)) (\<lambda>plaintext.
           rbind (codec_decode X cfg dev plaintext) (\<lambda>(g, c). Inr (cached g c st))))
       | None \<Rightarrow> if new then running (sealed_commit K w 0 None) st
           else pure (Inl StorageError))))))))"

subsection \<open>What a restart finds\<close>

text \<open>The lease is untouched, and the data file is the old or the new one.\<close>

definition swapped :: "string option \<Rightarrow> string \<Rightarrow> files \<Rightarrow> bool" where
  "swapped e c s \<longleftrightarrow> f_lock s = Some [] \<and> set (f_locks s) = {Some []}
     \<and> f_data s \<in> {e, Some c} \<and> set (f_datas s) \<subseteq> {e, Some c}"

definition sealed_plain :: "dpapi \<Rightarrow> string \<Rightarrow> string \<Rightarrow> string option" where
  "sealed_plain D key c = unprotect_user_data own_context (dp_unprotect D) c key"

lemma swapped_stable:
  "settled e s \<Longrightarrow> swapped e c s" "settled e s \<Longrightarrow> settled e (create_temp s)" "settled e s \<Longrightarrow> settled e (write_temp b s)"
  "settled e s \<Longrightarrow> settled e (sync_temp s)" "swapped e c s \<Longrightarrow> swapped e c (unlink_temp s)"
  by (auto simp: settled_def swapped_def effect_defs)

lemma replace_ciphertext_triple:
  "file_triple (settled e) (replace_ciphertext w c) (\<lambda>_. settled (Some c)) (swapped e c)"
proof -
  let ?R = "swapped e c"
  let ?T = "\<lambda>s. settled e s \<and> f_temp s = Some c"
  let ?S = "\<lambda>s. settled e s \<and> f_temp s = Some c \<and> f_temps s = [c]"
  let ?D = "\<lambda>s. swapped e c s \<and> f_data s = Some c \<and> f_inode s = [c]"
  have a: "file_triple (settled e) (change k create_temp) (\<lambda>_. settled e) ?R" for k
    by (rule change_triple) (simp_all add: swapped_stable)
  have b: "file_triple (settled e) (change k (write_temp c)) (\<lambda>_. ?T) ?R" for k
    by (rule change_triple) (simp_all add: swapped_stable, simp add: write_temp_def)
  have s: "file_triple ?T (flush k sync_temp) (\<lambda>_. ?S) ?R" for k
    by (rule flush_triple) (auto simp: swapped_stable, auto simp: sync_temp_def)
  have n: "file_triple ?S (pure r) (\<lambda>_. ?S) ?R" for r :: "unit result"
    by (rule pure_triple) (simp add: swapped_stable)
  have r: "file_triple ?S (change k rename_temp) (\<lambda>_. ?D) ?R" for k
    by (rule change_triple) (auto simp: swapped_stable, auto simp: settled_def swapped_def rename_temp_def)
  have u: "file_triple ?R (change k unlink_temp) (\<lambda>_. ?R) ?R" for k
    by (rule change_triple) (simp_all add: swapped_stable)
  have d: "file_triple ?D (flush k sync_data) (\<lambda>_. settled (Some c)) ?R" for k
    by (rule flush_triple) (auto simp: settled_def swapped_def sync_data_def)
  have p: "file_triple (settled e) (pure q) (\<lambda>_. settled e) ?R" for q :: "'q result"
    by (rule pure_triple) (simp add: swapped_stable)
  show ?thesis unfolding replace_ciphertext_def
    by (rule fbind_triple[OF p], rule fbind_triple[OF p], rule fbind_triple[OF p], rule fbind_triple[OF a],
        rule fbind_triple[OF on_error_triple[OF _ u] d], rule fbind_triple[OF b], rule fbind_triple[OF s],
        rule fbind_triple[OF n], rule r)
qed

definition unfinished :: "dpapi \<Rightarrow> string \<Rightarrow> string option \<Rightarrow> string \<Rightarrow> files \<Rightarrow> bool" where
  "unfinished D key e b s \<longleftrightarrow> settled e s \<or> (\<exists>c. sealed_plain D key c = Some b \<and> swapped e c s)"

lemma sealed_file:
  assumes "protects D"
  shows "settling_file (\<lambda>(w, recheck). sealed_write D w key recheck) (unfinished D key) (sealed_plain D key)"
proof unfold_locales
  fix e :: "string option" and x :: "sealed_world \<times> unit result" and b
  obtain w recheck where x: "x = (w, recheck)" by (cases x)
  let ?Q = "\<lambda>_ s. \<exists>c. sealed_plain D key c = Some b \<and> settled (Some c) s"
  show "file_triple (settled e) ((\<lambda>(w, recheck). sealed_write D w key recheck) x b) ?Q (unfinished D key e b)"
  proof (cases "protect_user_data (sw_thread w) (dp_protect D (sw_seed w)) b key")
    case None
    then show ?thesis by (simp add: x sealed_write_def file_triple_def fbind_def pure_def unfinished_def)
  next
    case (Some c)
    have plain: "sealed_plain D key c = Some b"
      using protection_round_trip[OF _ Some, of "dp_unprotect D" own_context] assms
      by (simp add: protects_def sealed_plain_def process_user_context_def own_context_def)
    have q: "file_triple (settled e) (pure r) (\<lambda>_. settled e) (unfinished D key e b)" for r :: "unit result"
      by (rule pure_triple) (simp add: unfinished_def)
    have run: "sealed_write D w key recheck b =
        fbind (pure (ensure StorageError (\<not> (c = [] \<or> length c > MAX_SEALED)))) (\<lambda>_.
        fbind (pure recheck) (\<lambda>_. replace_ciphertext w c))"
      by (simp add: sealed_write_def Some fbind_def pure_def fun_eq_iff)
    show ?thesis unfolding x prod.case run
      by (rule fbind_triple[OF q], rule fbind_triple[OF q], rule weaken_triple[OF replace_ciphertext_triple])
        (use plain in \<open>auto simp: unfinished_def\<close>)
  qed
qed

text \<open>What is read back is the file that was found, unprotected under the scope's key.\<close>

lemma read_ciphertext_Inr:
  "read_ciphertext o' s = (s', Returned (Inr found)) \<Longrightarrow> s' = s \<and> found = f_data s"
  by (auto simp: read_ciphertext_def reading_Inr rbind_Inr_iff ensure_iff ok_or_iff split: option.splits if_splits)

lemma take_sealed_lease_data: "take_sealed_lease o' s = (s', Returned (Inr new)) \<Longrightarrow> f_data s' = f_data s"
  by (auto simp: take_sealed_lease_def run_Inr create_lease_def split: if_splits)

lemma open_sealed_Inr:
  assumes "open_sealed K o' path cfg dev s = (s', Returned (Inr st))" "entropy (sl_external K) cfg dev = Inr key"
  shows "\<exists>found. stands_for (sealed_plain (sl_dpapi K) key) (f_data s) found \<and> holds (sl_external K) st found"
proof -
  let ?st = "\<lparr>ad_generation = 0, ad_credential = None, ad_poisoned = False, ad_config = cfg,
       ad_device = dev, ss_entropy = key\<rparr>"
  let ?plain = "\<lambda>c. unprotect_user_data (so_unprotect o') (dp_unprotect (sl_dpapi K)) c key"
  from assms obtain s1 new found where
    l: "take_sealed_lease o' s = (s1, Returned (Inr new))"
    and r: "read_ciphertext o' s1 = (s1, Returned (Inr found))"
    and f: "(case found of Some c \<Rightarrow> pure (rbind (ok_or StorageError (?plain c)) (\<lambda>plaintext.
           rbind (codec_decode (sl_external K) cfg dev plaintext) (\<lambda>(g, c). Inr (cached g c ?st))))
       | None \<Rightarrow> if new then running (sealed_commit K (so_world o') 0 None) ?st
           else pure (Inl StorageError)) s1 = (s', Returned (Inr st))"
    unfolding open_sealed_def Let_def
    by (clarsimp simp: run_Inr simp del: case_prod_conv) (metis read_ciphertext_Inr)
  have data: "found = f_data s" using read_ciphertext_Inr[OF r] take_sealed_lease_data[OF l] by simp
  show ?thesis
  proof (cases found)
    case None
    then have "st = cached 0 None ?st"
      using f sealed.persist_law[of K "so_world o'" 0 None ?st s1 st s'] by (auto simp: running_Inr run_Inr split: if_splits)
    then show ?thesis using None data by (auto simp: stands_for_def holds_def cached_def intro: exI[of _ None])
  next
    case (Some c)
    then obtain plain g cr where p: "?plain c = Some plain" "codec_decode (sl_external K) cfg dev plain = Inr (g, cr)"
      "st = cached g cr ?st"
      using f by (auto simp: run_Inr rbind_Inr_iff ok_or_iff)
    then have "sealed_plain (sl_dpapi K) key c = Some plain"
      using unprotect_context by (simp add: sealed_plain_def)
    with p Some data show ?thesis by (auto simp: stands_for_def holds_def cached_def intro!: exI[of _ "Some plain"])
  qed
qed

lemma sealed_restart:
  assumes "protects (sl_dpapi K)" "entropy (sl_external K) cfg dev = Inr key"
    and "settled e s" "stands_for (sealed_plain (sl_dpapi K) key) e d"
    and "register_writes (\<lambda>(w, recheck). sealed_write (sl_dpapi K) w key recheck) d ops s = (s', saved, pending)"
    and "restarts s' c" "open_sealed K o' path cfg dev c = (c', Returned (Inr st))"
  shows "holds (sl_external K) st saved \<or> pending \<noteq> None \<and> holds (sl_external K) st pending"
proof -
  let ?plain = "sealed_plain (sl_dpapi K) key"
  obtain e' where e': "stands_for ?plain e' saved"
    and ph: "case pending of None \<Rightarrow> settled e' s' | Some b \<Rightarrow> unfinished (sl_dpapi K) key e' b s'"
    using settling_file.writes_phase[OF sealed_file[OF assms(1)] assms(5,3,4)] by blast
  obtain found where found: "stands_for ?plain (f_data c) found" "holds (sl_external K) st found"
    using open_sealed_Inr[OF assms(7,2)] by blast
  from ph have "f_data c = e' \<or> (\<exists>b k. pending = Some b \<and> ?plain k = Some b \<and> f_data c = Some k)"
    using assms(6) by (auto simp: unfinished_def settled_def swapped_def restarts_def split: option.splits)
  then show ?thesis
  proof
    assume "f_data c = e'"
    then show ?thesis using found e' stands_for_unique by metis
  next
    assume "\<exists>b k. pending = Some b \<and> ?plain k = Some b \<and> f_data c = Some k"
    then show ?thesis using found by (auto simp: stands_for_def)
  qed
qed

end
