(* ===== verification/Discrepancies.thy ===== *)
theory Discrepancies
  imports Samples Durable
begin

text \<open>
  Two places where the code does not do what it means to, each shown on the model: the access
  protocol saves a credential that the next start rejects as corrupt, and a first start that was
  interrupted before its first write can never be repeated.
\<close>

subsection \<open>A subject that is no identifier\<close>

text \<open>
  \<open>verify\<close> in \<open>grants.rs\<close> accepts any subject of 1 to 128 bytes; the reply handler saves it as
  \<open>licence_id\<close>, and \<open>Record::validate\<close> requires an identifier there.
\<close>

definition spaced_claims :: grant_claims where
  "spaced_claims = sample_claims\<lparr>gc_sub := ''a b''\<rparr>"

definition spaced_libs :: libs where
  "spaced_libs = online_libs\<lparr>jwt_grant := (\<lambda>token key v. if token = sample_token \<and> key = (''x'', ''y'') then Some spaced_claims else None)\<rparr>"

definition spaced_credential :: stored_credential where
  "spaced_credential = \<lparr>sc_application_id = ''app'', sc_environment_id = ''env'', sc_activation_id = ''act'',
     sc_licence_id = gc_sub spaced_claims, sc_installation_id = replicate 16 CHR ''i'', sc_credential = replicate 43 CHR ''c'',
     sc_credential_expires_at = None, sc_fingerprint = None, sc_fingerprint_provider = None\<rparr>"

lemma spaced_grant: "verify_grant spaced_libs sample_keys sample_token sample_expected = Inr spaced_claims"
proof -
  have head: "header spaced_libs sample_token = Inr \<lparr>h_alg = ''ES256'', h_typ = ''orbit-access+jwt'', h_kid = ''live-k''\<rparr>"
    using sample_header by (simp add: header_def spaced_libs_def canonical_def)
  have parts: "three_parts CHR ''.'' sample_token = Some (''h'', ''p'', replicate 64 CHR ''s'')"
    unfolding sample_token_def by (simp add: three_parts_iff split_on_id)
  have key: "decoding sample_keys ''live-k'' = Some (''x'', ''y'')" by (simp add: sample_keys_def)
  have dec: "decode_grant spaced_libs sample_token (''x'', ''y'') v = Some spaced_claims" for v
    by (simp add: decode_grant_def spaced_libs_def spaced_claims_def sample_claims_def bad_entitlement_key_def
        text_defs byte_def)
  have unbound: "check_unbound spaced_libs sample_token spaced_claims = Inr ()"
    by (simp add: check_unbound_def parts spaced_libs_def online_libs_def sample_libs_def canonical_def
        from_slice_value_def contains_key_def spaced_claims_def sample_claims_def)
  have "\<not> grant_rejected spaced_claims sample_expected (grant_audience sample_expected)"
    by (simp add: grant_rejected_def spaced_claims_def sample_claims_def sample_expected_def grant_audience_def
        grant_bound_def grant_allowance_def grant_refresh_bounds_def saturating_add_def
        saturating_sub_def saturate_def i64_defs)
  then show ?thesis
    by (simp add: verify_grant_def head key dec unbound)
qed

lemma verified_subject_corrupts_the_record:
  "\<exists>c d'. verify_grant spaced_libs sample_keys sample_token sample_expected = Inr c
     \<and> sc_licence_id spaced_credential = gc_sub c
     \<and> commit_access 0 spaced_credential cached True sample_io sample_disk = (d', Inr ())
     \<and> validate ''private_file'' (scope_of sample_key ''https://o.eu'') sample_key (dk_record d') = Inl CorruptState"
proof -
  let ?r = "with_format (access_record spaced_credential (Some cached) True sample_record)"
  have io: "io_verify sample_io" "io_reverify sample_io" "io_encode sample_io r = Some ''record''" "io_write sample_io = WriteOk" for r
    by (simp_all add: sample_io_def)
  have disk: "dk_record sample_disk = sample_record" "r_generation sample_record = 0"
    by (simp_all add: sample_disk_def sample_record_def fresh_record_def)
  have "\<exists>d'. commit_access 0 spaced_credential cached True sample_io sample_disk = (d', Inr ()) \<and> dk_record d' = ?r"
    by (simp add: commit_access_def checked_def commit_def io disk MAX_BYTES_def)
  then obtain d' where d': "commit_access 0 spaced_credential cached True sample_io sample_disk = (d', Inr ())" "dk_record d' = ?r"
    by blast
  have cred: "r_credential ?r = Some (credential_of spaced_credential)"
    by (simp add: access_record_def clear_offline_authority_def Let_def)
  then have "record_saved ?r = Some s \<Longrightarrow> \<not> opaque (sc_licence_id s)" for s
    unfolding record_saved_def cred
    by (auto simp: credential_of_def spaced_credential_def spaced_claims_def opaque_def text_defs byte_def)
  moreover have "record_saved ?r \<noteq> None" unfolding record_saved_def cred by simp
  ultimately have "record_invalid ''private_file'' (scope_of sample_key ''https://o.eu'') sample_key ?r"
    unfolding record_invalid_def by (auto simp: some_and_iff valid_stored_credential_def)
  then show ?thesis
    using spaced_grant d' by (simp add: spaced_credential_def validate_def)
qed

subsection \<open>An interrupted first start\<close>

text \<open>
  \<open>Backend::open\<close> creates the lock file before there is a record, and refuses a lock file without a
  record ever after.  So when a first start ends before its first write is durable, because the
  process is killed or the write fails, no later start of that installation succeeds.
\<close>

lemma interrupted_first_start_is_final:
  assumes "open_backend og path c = (c', Returned (Inr None))" and "restarts c' again"
  shows "open_backend og' path again \<noteq> (c'', Returned (Inr found))"
proof
  assume op: "open_backend og' path again = (c'', Returned (Inr found))"
  have "f_data c = None" using open_backend_Inr(1)[OF assms(1)] by simp
  then have "f_lock again = Some []" "f_data again = None"
    using open_backend_Inr(6)[OF assms(1)] assms(2) by (auto simp: restarts_def)
  with open_backend_Inr(2)[OF op] show False by simp
qed

end
