(* ===== verification/Spec2Isabelle.thy ===== *)
theory Spec2Isabelle
  imports Guarantees Protocol Delivery AppKeys Versions Customers Staging Platforms Machines Restart Operator
    Receivers Services Device Support Cancelling Keyring Sealed Discrepancies
begin

text \<open>
  A model of the Orbit client SDK for Rust (\<open>src/sdk/rust/src\<close>), with the properties that make
  it a sound licence check, of the Rust bindings of the embedded client
  (\<open>src/sdk/embedded/rust/src\<close>), and of Orbit's command line tool (\<open>src/cli/src\<close>).

  The program.  An application opens a \<open>Client\<close> for a public app key and asks it, before every
  protected operation, whether a feature may be used (\<open>require_access\<close>).  The client answers from
  signed documents only: an access grant (ordinary licences), a session grant (floating seats) or
  an imported offline file.  Between the answers it activates, refreshes, renews sessions, imports
  files, and keeps one record in a private file so that it can start without the service.

  Theories, in the order in which they build on each other:

  \<^item> \<open>Prelude\<close>: results (\<open>'e + 'a\<close>), \<open>i64\<close> arithmetic (checked, saturating), byte strings and
    the string functions of the standard library that the SDK calls.
  \<^item> \<open>Errors\<close> (\<open>lib.rs\<close>, \<open>diagnostics.rs\<close>): \<open>Error\<close>, codes, guidance, Display and Debug.
  \<^item> \<open>Clock\<close> (\<open>clock.rs\<close>): the two clocks, request starts, and anchors, which carry a server time
    forward by elapsed boot time and distrust a wall clock that drifts by more than 30 seconds.
  \<^item> \<open>Json\<close>, \<open>External\<close>, \<open>Wire\<close>: JSON values (with duplicate members, as text has them), the
    third-party functions the SDK calls (base64, SHA-256, JSON text, URLs, typed serde
    deserialisation, JWT decoding), and the typed documents of the wire.
  \<^item> \<open>Identity\<close> (\<open>access.rs\<close>, \<open>device.rs\<close>, \<open>installed.rs\<close>), \<open>Versions\<close> (\<open>app_version.rs\<close>),
    \<open>AppKeys\<close> (\<open>app_key.rs\<close>, \<open>request\<close> of \<open>offline.rs\<close>): identifier grammars and parsers.
  \<^item> \<open>Grants\<close> (\<open>grants.rs\<close>), \<open>Sessions\<close> (\<open>sessions.rs\<close>), \<open>Offline\<close> (\<open>offline.rs\<close>): the three
    verifiers.  Each interprets the locale \<open>token_verifier\<close> of \<open>Wire\<close>, whose lemmas bound the
    time for which one token can be accepted.
  \<^item> \<open>Storage\<close> (\<open>storage.rs\<close>): the storage contract, the locales \<open>fenced_storage\<close> (a late save is
    refused) and \<open>versioned_storage\<close> (and nothing is lost on an error), the latter interpreted by the
    in-memory store and, in \<open>Installed\<close>, by the installed storage.
  \<^item> \<open>Installed\<close> (\<open>installed.rs\<close>): the durable record, its validation, and every operation of
    \<open>InstalledStorage\<close>.  \<open>DiskSteps\<close> makes them a step relation and proves what no sequence of
    them undoes.
  \<^item> \<open>ClientState\<close>, \<open>Access\<close>, \<open>Entry\<close> (\<open>access.rs\<close>), \<open>Lifecycle\<close> (the client half of
    \<open>installed.rs\<close>): the state of a client, snapshots, replies, sessions, refreshes, the public
    calls, opening, importing, closing.
  \<^item> \<open>Reasoning\<close>, \<open>Authority\<close>, \<open>Opened\<close>: a small logic of triples for the handlers, the
    invariant that every piece of authority was verified, its preservation by every call, and its
    establishment by opening; \<open>Decisions\<close>: at which clock reading \<open>require_access\<close> decides, and on
    which document of the state it leaves.
  \<^item> \<open>Samples\<close>, \<open>FileSamples\<close>: concrete inputs at which the properties are applied.
  \<^item> \<open>Guarantees\<close>, \<open>Bounds\<close>, \<open>Protocol\<close>: the properties of the client as a whole: where access
    comes from, for how long each kind of grant can allow it, and how activations and seats
    survive lost replies.
  \<^item> \<open>Addresses\<close>, \<open>Transport\<close> (\<open>transport.rs\<close>), with the properties in \<open>Delivery\<close>: endpoints,
    reading and classifying a response, retries with backoff, body limits; the URL parser, the
    resolver and each exchange on the wire are inputs.
  \<^item> \<open>Limits\<close> (\<open>limits.rs\<close>) with \<open>Metering\<close>: usage counters and allocations, and what a caller may
    conclude from the error of a metering call.
  \<^item> \<open>Accounts\<close> (\<open>accounts.rs\<close>) with \<open>Customers\<close>: customer login, owned licences, claims.
  \<^item> \<open>Downloads\<close> (\<open>downloads.rs\<close>), \<open>Updates\<close> (\<open>updates.rs\<close>) with \<open>Releases\<close>: the seller's
    ticket verifier, update checks, the redirect loop and the verified save of a download;
    \<open>Staging\<close>: a download on the file system, with its temporary file and its cancellation.
  \<^item> \<open>Cancelling\<close> (\<open>transport.rs\<close>): the cancellation flag and the tasks that wait for it, a step
    relation in which no cancellation is missed.
  \<^item> \<open>Support\<close> (\<open>diagnostics.rs\<close>): the summary a user copies into a support request.
  \<^item> \<open>Restart\<close>: from one start of \<open>Installed\<close> to the next, over the file that the backend keeps.
  \<^item> \<open>Medium\<close>, \<open>Register\<close>: the record file below \<open>Installed\<close>.  A file is the contents that
    readers see and the set of contents a power failure may leave; each system call works, fails or
    is the last one before a crash.  The locales \<open>settling_file\<close> (of a write) and \<open>atomic_file\<close> (of
    a start too) are the contract of a backend, with the theorem that its file is an atomic register.
  \<^item> \<open>Backend\<close> (\<open>installed_linux.rs\<close>) with \<open>Durable\<close>, \<open>Darwin\<close> (\<open>installed_macos.rs\<close>) and
    \<open>Windows\<close> (\<open>installed_windows.rs\<close>): the three backends, each of which meets that contract;
    \<open>Platforms\<close>: the one the library is built for.
  \<^item> \<open>Codec\<close>, \<open>SecretTool\<close>, \<open>Adapters\<close>, \<open>Keyring\<close>, \<open>Sealed\<close> (\<open>storage/codec.rs\<close>,
    \<open>secret_service.rs\<close> and its modules, \<open>windows.rs\<close>): the two storage adapters that are built for
    tests.  Their record is read back in the scope it was written for only, the loops that run
    \<open>secret-tool\<close> return once the clock reaches the deadline, the operations meet the storage
    contract through the locale \<open>poisoning_adapter\<close>, and a restart finds the last
    acknowledged record or that of the interrupted write.
  \<^item> \<open>Native\<close> (\<open>native/src/private_storage.rs\<close>, \<open>data_protection.rs\<close>, \<open>storage.rs\<close>) and
    \<open>Machines\<close> (\<open>lib.rs\<close>, \<open>macos.rs\<close>): private objects and data protection on Windows, native
    clocks and machine identities.  That unprotection inverts protection is a hypothesis.
  \<^item> \<open>Firmware\<close> (\<open>native/src/firmware.rs\<close>): the parser of SMBIOS tables.
  \<^item> \<open>Terminal\<close> (\<open>cli/src/output.rs\<close>, \<open>files.rs\<close>), \<open>Profiles\<close> (\<open>config.rs\<close>), \<open>Invocation\<close>
    (\<open>app.rs\<close>, \<open>api.rs\<close>), \<open>Policies\<close> (\<open>policies.rs\<close>), \<open>Commands\<close> (\<open>licences.rs\<close>,
    \<open>releases.rs\<close>, \<open>credentials.rs\<close>) with \<open>Operator\<close>: the command line tool.  A command is a state
    transformer over \<open>run_state\<close> (the credentials file, the requests sent, what was printed and the
    files created); a \<open>machine\<close> holds the parsed flags, the environment and the answers of the
    service, the terminal and the file system.

  How the code is represented.  A handler is a state transformer \<open>client \<Rightarrow> client \<times> 'a result\<close>;
  every early return of the source is a branch of it.  The state is the record \<open>client\<close>
  (\<open>Inner\<close>, with \<open>State\<close> as \<open>cl_state\<close> and the storage as \<open>cl_storage\<close>); generations are 64-bit
  words, storage versions natural numbers bounded by \<open>MAX_GENERATION\<close>.  What a handler meets
  from outside is a \<open>world\<close>: at numbered points the reading of the clocks, the outcome of the
  system calls of one storage operation (\<open>io\<close>), the random bytes, whether the caller cancelled,
  the reply of the transport and, at each lock or await point, what other tasks did to the client
  meanwhile (\<open>w_others\<close>).  The theorems quantify over worlds, so over every interleaving of whole
  critical sections; the source holds the state lock within each of them.  Where a handler calls
  another, the callee gets the points from a fixed offset on (\<open>sub\<close>).

  The handlers are total functions: none of them loops, apart from recursion over lists, and the
  worker's endless loop is modelled by one turn (\<open>worker_turn\<close>).  No fuel is needed.

  Third-party code is a parameter: base64, SHA-256, serde's typed decoding, JSON text and JWT
  signature checking are fields of \<open>libs\<close>.  The properties hold for all of them; the few laws that
  are needed (a digest has 32 bytes, serde reads back the record it wrote) are hypotheses.  A grant counts as backed when the SDK's own
  \<open>verify\<close> accepted it with these functions.

  \<^item> \<open>Bindings\<close>, \<open>Receivers\<close>, \<open>Streaming\<close>, \<open>Services\<close> with \<open>Device\<close> (\<open>sdk/embedded/rust/src\<close>):
    the Rust bindings of the embedded C client.  The C client itself is a parameter (a record of
    its functions over a state of its own), apart from the C code that the bindings' guarantees
    rest on: the functions that receive a response, and the download loop
    (\<open>sdk/embedded/src/orbit_client.c\<close>, \<open>orbit_services_codec.c\<close>, \<open>orbit_downloads.c\<close>).  The read
    loop of an exchange is a \<open>partial_function\<close>; the receivers, instances of the locale \<open>receiver\<close>,
    are what makes it end.  A download's port is a record of answers, each a function of the calls
    made so far, so the theorems hold for every stateful port.

  \<^item> \<open>Discrepancies\<close>: where the code does not do what it means to, shown on concrete inputs.

  Not modelled: the inside of the HTTP client, of the URL parser, of the TLS library and of clap,
  which are third-party code; the operating systems behind the native helpers, whose answers are
  inputs; the rest of the embedded C client; tests, benchmarks and fuzzing targets; lock poisoning by a
  panicking task; and how the HTTP clients are configured.
\<close>

end
